(* ===== verification/Json.thy ===== *)
theory Json
  imports Prelude
begin

text \<open>
  Values of Go's \<^verbatim>\<open>any\<close> as \<^verbatim>\<open>encoding/json\<close> decodes them: \<^verbatim>\<open>nil\<close>,
  booleans, numbers (kept as their literal), strings, \<^verbatim>\<open>[]any\<close> and
  \<^verbatim>\<open>map[string]any\<close>. An object is an association list; the first entry of a key is
  its value.
\<close>

datatype json =
    JNull
  | JBool bool
  | JNum string
  | JStr string
  | JArr "json list"
  | JObj "(string \<times> json) list"

type_synonym json_map = "(string \<times> json) list"

text \<open>\<^verbatim>\<open>m[k]\<close> on a \<^verbatim>\<open>map[string]any\<close>: \<^verbatim>\<open>nil\<close> for a missing key.\<close>

definition obj_get :: "json_map \<Rightarrow> string \<Rightarrow> json" where
  "obj_get m k = (case map_of m k of None \<Rightarrow> JNull | Some v \<Rightarrow> v)"

text \<open>The comma-ok assertion \<^verbatim>\<open>v.(string)\<close>; its zero value is the empty string.\<close>

fun as_string :: "json \<Rightarrow> string option" where
  "as_string (JStr s) = Some s"
| "as_string _ = None"

definition string_or_zero :: "json \<Rightarrow> string" where
  "string_or_zero v = (case as_string v of Some s \<Rightarrow> s | None \<Rightarrow> '''')"

lemma as_string_Some_iff [simp]: "as_string v = Some s \<longleftrightarrow> v = JStr s"
  by (cases v) simp_all

lemma string_or_zero_simps [simp]:
  "string_or_zero (JStr s) = s" "string_or_zero JNull = ''''"
  by (simp_all add: string_or_zero_def)

end
