(* ===== verification/GoTime.thy ===== *)
theory GoTime
  imports Prelude
begin

text \<open>
  Go's \<^verbatim>\<open>time\<close> package as far as the sources use it. An instant
  (\<^verbatim>\<open>time.Time\<close>) is the number of nanoseconds since 1970-01-01T00:00:00Z, a
  \<^verbatim>\<open>time.Duration\<close> a number of nanoseconds; \<^verbatim>\<open>Add\<close>, \<^verbatim>\<open>After\<close> and
  \<^verbatim>\<open>Before\<close> are addition and comparison. \<^verbatim>\<open>AddDate\<close> works on the civil
  date of the proleptic Gregorian calendar in UTC and normalises it the way
  \<^verbatim>\<open>time.Date\<close> does (January 31 plus one month is March 2 or 3).

  Days are counted from 0000-03-01, so that the leap day is the last day of a year that
  starts in March.
\<close>

section \<open>Instants and durations\<close>

type_synonym time = int
type_synonym duration = int

definition hour :: duration where
  "hour = 3600000000000"

definition day :: duration where
  "day = 24 * hour"

definition after :: "time \<Rightarrow> time \<Rightarrow> bool" where
  "after t u \<longleftrightarrow> u < t"

lemma hour_pos [simp]: "0 < hour" and day_pos [simp]: "0 < day"
  by (simp_all add: hour_def day_def)

section \<open>The civil calendar\<close>

text \<open>
  \<open>day_of y m d\<close> is the day number of day \<open>d\<close> of month \<open>m\<close> (0 is March) of the
  March-based year \<open>y\<close>; \<open>d\<close> is zero-based and may lie outside the month.
\<close>

definition year_start :: "int \<Rightarrow> int" where
  "year_start y = 365 * y + y div 4 - y div 100 + y div 400"

definition month_start :: "int \<Rightarrow> int" where
  "month_start m = (153 * m + 2) div 5"

definition day_of :: "int \<Rightarrow> int \<Rightarrow> int \<Rightarrow> int" where
  "day_of y m d = year_start y + month_start m + d"

text \<open>The year, month and day of a day number: 400-, 100-, 4- and 1-year cycles.\<close>

definition civil :: "int \<Rightarrow> int \<times> int \<times> int" where
  "civil n =
     (let e = n div 146097; r = n mod 146097;
          c = min 3 (r div 36524); r1 = r - 36524 * c;
          q = r1 div 1461; r2 = r1 mod 1461;
          a = min 3 (r2 div 365); r3 = r2 - 365 * a;
          m = (5 * r3 + 2) div 153
      in (400 * e + 100 * c + 4 * q + a, m, r3 - month_start m))"

text \<open>Day 0 of the calendar is 719468 days before 1970-01-01.\<close>

definition epoch_days :: int where
  "epoch_days = 719468"

definition add_date :: "time \<Rightarrow> int \<Rightarrow> int \<Rightarrow> int \<Rightarrow> time" where
  "add_date t years months days =
     (let n = t div day + epoch_days; tod = t mod day;
          (y, m, d) = civil n;
          m' = m + months
      in (day_of (y + years + m' div 12) (m' mod 12) (d + days) - epoch_days) * day + tod)"

text \<open>
  \<^verbatim>\<open>Format(time.RFC3339)\<close> of an instant in UTC: four-digit year, seconds
  precision. Month 0 of the March-based year is month 3 of the civil year.
\<close>

definition digit_char :: "nat \<Rightarrow> char" where
  "digit_char d = char_of (48 + d mod 10)"

definition pad2 :: "int \<Rightarrow> string" where
  "pad2 n = [digit_char (nat n div 10), digit_char (nat n)]"

definition pad4 :: "int \<Rightarrow> string" where
  "pad4 n = pad2 (n div 100) @ pad2 (n mod 100)"

definition rfc3339 :: "time \<Rightarrow> string" where
  "rfc3339 t =
     (let (y, m, d) = civil (t div day + epoch_days);
          s = (t mod day) div 1000000000
      in pad4 (y + (m + 2) div 12) @ ''-'' @ pad2 ((m + 2) mod 12 + 1) @ ''-'' @ pad2 (d + 1) @ ''T'' @
         pad2 (s div 3600) @ '':'' @ pad2 (s div 60 mod 60) @ '':'' @ pad2 (s mod 60) @ ''Z'')"

subsection \<open>Correctness of the calendar\<close>

lemma div_cycle: "0 \<le> r \<Longrightarrow> r < k \<Longrightarrow> (k * b + r) div k = (b :: int)"
  by simp

text \<open>The rest of a cycle of four units of length \<open>k\<close>, the last of which has one day more.\<close>

lemma cycle_rest:
  fixes r :: int
  assumes "0 < k" "0 \<le> r" "r \<le> 4 * k"
  shows "0 \<le> r - k * min 3 (r div k)" and "r - k * min 3 (r div k) \<le> k"
    and "0 \<le> min 3 (r div k)" and "min 3 (r div k) \<le> 3"
proof -
  have r: "r = k * (r div k) + r mod k" by simp
  have m: "0 \<le> r mod k" "r mod k < k" using assms by simp_all
  have q: "0 \<le> r div k" using assms by (simp add: pos_imp_zdiv_nonneg_iff)
  then show "0 \<le> min 3 (r div k)" "min 3 (r div k) \<le> 3" by simp_all
  show "0 \<le> r - k * min 3 (r div k)" and "r - k * min 3 (r div k) \<le> k"
  proof (atomize (full), cases "r div k \<le> 3")
    case True
    then have "min 3 (r div k) = r div k" by simp
    moreover have "0 \<le> r - k * (r div k) \<and> r - k * (r div k) \<le> k" using r m by linarith
    ultimately show "0 \<le> r - k * min 3 (r div k) \<and> r - k * min 3 (r div k) \<le> k" by (simp only:)
  next
    case False
    then have "4 \<le> r div k" by simp
    then have "k * 4 \<le> k * (r div k)" using assms(1) by (intro mult_left_mono) auto
    then have "0 \<le> r - k * 3 \<and> r - k * 3 \<le> k" using r m assms by linarith
    moreover have "min 3 (r div k) = 3" using False by simp
    ultimately show "0 \<le> r - k * min 3 (r div k) \<and> r - k * min 3 (r div k) \<le> k" by (simp only:)
  qed
qed

lemma year_start_cycles:
  assumes "0 \<le> c" "c \<le> 3" "0 \<le> q" "q \<le> 24" "0 \<le> a" "a \<le> 3"
  shows "year_start (400 * e + 100 * c + 4 * q + a)
       = 146097 * e + 36524 * c + 1461 * q + 365 * a"
proof -
  let ?y = "400 * e + 100 * c + 4 * q + a"
  have "?y div 4 = 100 * e + 25 * c + q"
    using div_cycle [of a 4 "100 * e + 25 * c + q"] assms by (simp add: algebra_simps)
  moreover have "?y div 100 = 4 * e + c"
    using div_cycle [of "4 * q + a" 100 "4 * e + c"] assms by (simp add: algebra_simps)
  moreover have "?y div 400 = e"
    using div_cycle [of "100 * c + 4 * q + a" 400 e] assms by (simp add: algebra_simps)
  ultimately show ?thesis by (simp add: year_start_def)
qed

text \<open>\<open>civil\<close> inverts \<open>day_of\<close>, and its month and year are in range.\<close>

lemma civil_correct:
  assumes "civil n = (y, m, d)"
  shows "day_of y m d = n" and "0 \<le> m" and "m \<le> 11" and "0 \<le> d" and "d \<le> 30"
proof -
  define e r c r1 q r2 a r3 where defs:
    "e = n div 146097" "r = n mod 146097" "c = min 3 (r div 36524)" "r1 = r - 36524 * c"
    "q = r1 div 1461" "r2 = r1 mod 1461" "a = min 3 (r2 div 365)" "r3 = r2 - 365 * a"
  have y: "y = 400 * e + 100 * c + 4 * q + a" and m: "m = (5 * r3 + 2) div 153"
    and d: "d = r3 - month_start m"
    using assms unfolding civil_def defs Let_def prod.inject by blast+
  have r: "0 \<le> r" "r < 146097" by (simp_all add: defs)
  have c: "0 \<le> c" "c \<le> 3" and r1: "0 \<le> r1" "r1 \<le> 36524"
    using cycle_rest [of 36524 r] r by (simp_all add: defs(3,4))
  have q: "0 \<le> q" "q \<le> 24"
    using r1 zdiv_mono1 [of r1 36524 1461] by (simp_all add: defs(5) pos_imp_zdiv_nonneg_iff)
  have r2: "0 \<le> r2" "r2 < 1461" by (simp_all add: defs(6))
  have a: "0 \<le> a" "a \<le> 3" and r3: "0 \<le> r3" "r3 \<le> 365"
    using cycle_rest [of 365 r2] r2 by (simp_all add: defs(7,8))
  have n: "n = 146097 * e + 36524 * c + 1461 * q + 365 * a + r3"
    by (simp add: defs)
  show "day_of y m d = n"
    unfolding day_of_def y d year_start_cycles [OF c q a] n by simp
  have u: "5 * r3 + 2 = 153 * m + (5 * r3 + 2) mod 153" using m by simp
  have v: "153 * m + 2 = 5 * month_start m + (153 * m + 2) mod 5" by (simp add: month_start_def)
  have "0 \<le> (5 * r3 + 2) mod 153" "(5 * r3 + 2) mod 153 < 153"
    "0 \<le> (153 * m + 2) mod 5" "(153 * m + 2) mod 5 < 5" by simp_all
  then show "0 \<le> m" "m \<le> 11" "0 \<le> d" "d \<le> 30"
    using r3 u v d by linarith+
qed

text \<open>A month has 28 to 31 days, a year 365 or 366.\<close>

lemma div_step:
  assumes "0 < k"
  shows "(y + 1) div k = y div k + (if k dvd y + 1 then 1 else (0::int))"
proof (cases "k dvd y + 1")
  case True
  then obtain m where "y + 1 = k * m" ..
  then have "y = k * (m - 1) + (k - 1)" by (simp add: algebra_simps)
  then have "y div k = m - 1" using div_cycle [of "k - 1" k "m - 1"] assms by simp
  with True assms \<open>y + 1 = k * m\<close> show ?thesis by simp
next
  case False
  let ?q = "(y + 1) div k" and ?r = "(y + 1) mod k"
  have "?r \<noteq> 0" using False by (simp add: dvd_eq_mod_eq_0)
  moreover have "0 \<le> ?r" "?r < k" using assms by simp_all
  moreover have "y = k * ?q + (?r - 1)" using mult_div_mod_eq [of k "y + 1"] by linarith
  ultimately have "y div k = ?q" using div_cycle [of "?r - 1" k ?q] by simp
  with False show ?thesis by simp
qed

lemma year_start_Suc: "year_start (y + 1) - year_start y \<in> {365, 366}"
proof -
  have "k dvd z \<Longrightarrow> 4 dvd k \<Longrightarrow> 4 dvd (z::int)" for k z by (rule dvd_trans)
  then have "100 dvd y + 1 \<Longrightarrow> 4 dvd y + 1" "400 dvd y + 1 \<Longrightarrow> 100 dvd y + 1"
    by (auto elim: dvd_trans [rotated])
  then show ?thesis by (auto simp: year_start_def div_step)
qed

lemma month_start_Suc:
  assumes "0 \<le> m" "m \<le> 10"
  shows "month_start (m + 1) - month_start m \<in> {30, 31}"
proof -
  have "m = 0 \<or> m = 1 \<or> m = 2 \<or> m = 3 \<or> m = 4 \<or> m = 5 \<or> m = 6 \<or> m = 7 \<or> m = 8 \<or> m = 9 \<or> m = 10"
    using assms by arith
  then show ?thesis by (elim disjE) (simp_all add: month_start_def)
qed

lemma month_start_0 [simp]: "month_start 0 = 0" and month_start_11 [simp]: "month_start 11 = 337"
  by (simp_all add: month_start_def)

lemma add_date_eq:
  assumes "civil (t div day + epoch_days) = (y, m, d)"
  shows "add_date t years months days
       = t + (day_of (y + years + (m + months) div 12) ((m + months) mod 12) (d + days)
              - day_of y m d) * day"
proof -
  have n: "t div day + epoch_days = day_of y m d" using civil_correct(1) [OF assms] by simp
  have "t = (t div day) * day + t mod day" by simp
  moreover have "t div day = day_of y m d - epoch_days" using n by simp
  ultimately have "t = (day_of y m d - epoch_days) * day + t mod day" by simp
  then show ?thesis unfolding add_date_def assms Let_def by (simp add: algebra_simps)
qed

lemma add_month_bounds: "t + 28 * day \<le> add_date t 0 1 0 \<and> add_date t 0 1 0 \<le> t + 31 * day"
proof -
  obtain y m d where c: "civil (t div day + epoch_days) = (y, m, d)"
    by (metis prod_cases3)
  note m = civil_correct(2,3) [OF c]
  let ?k = "day_of (y + 0 + (m + 1) div 12) ((m + 1) mod 12) (d + 0) - day_of y m d"
  have "28 \<le> ?k \<and> ?k \<le> 31"
  proof (cases "m = 11")
    case True
    then show ?thesis using year_start_Suc [of y] by (auto simp: day_of_def)
  next
    case False
    with m have "m \<le> 10" by simp
    then show ?thesis using m month_start_Suc [of m] by (auto simp: day_of_def)
  qed
  then have "28 * day \<le> ?k * day" and "?k * day \<le> 31 * day"
    by (auto intro!: mult_right_mono simp: day_def hour_def)
  then show ?thesis by (simp only: add_date_eq [OF c]) linarith
qed

lemma add_year_bounds: "t + 365 * day \<le> add_date t 1 0 0 \<and> add_date t 1 0 0 \<le> t + 366 * day"
proof -
  obtain y m d where c: "civil (t div day + epoch_days) = (y, m, d)"
    by (metis prod_cases3)
  note m = civil_correct(2,3) [OF c]
  let ?k = "day_of (y + 1 + (m + 0) div 12) ((m + 0) mod 12) (d + 0) - day_of y m d"
  have "365 \<le> ?k \<and> ?k \<le> 366"
    using m year_start_Suc [of y] by (auto simp: day_of_def)
  then have "365 * day \<le> ?k * day" and "?k * day \<le> 366 * day"
    by (auto intro!: mult_right_mono simp: day_def hour_def)
  then show ?thesis by (simp only: add_date_eq [OF c]) linarith
qed

end
