(* ===== verification/Policy_Engine.thy ===== *)
theory Policy_Engine
  imports Json GoTime
begin

text \<open>
  The Policy Decision Point's engine (\<^verbatim>\<open>internal/pdp/engine/engine.go\<close>) and the Rego
  policies it embeds (\<^verbatim>\<open>internal/pdp/engine/policies\<close>). OPA itself, which parses and
  evaluates the policies, is a parameter: the engine's query maps an input document to a
  result set or an evaluation error.
\<close>

section \<open>Engine data\<close>

definition ClassAllowlist :: string where
  "ClassAllowlist = ''allowlist''"

definition ClassAllowlistConsent :: string where
  "ClassAllowlistConsent = ''allowlist_consent''"

datatype policy_outcome = OutcomeAllow | OutcomeDeny | OutcomeExpired | OutcomeConsentRequired

fun outcome_name :: "policy_outcome \<Rightarrow> string" where
  "outcome_name OutcomeAllow = ''allow''"
| "outcome_name OutcomeDeny = ''deny''"
| "outcome_name OutcomeExpired = ''expired''"
| "outcome_name OutcomeConsentRequired = ''consent_required''"

record engine_field =
  ef_schema_id :: string
  ef_field_name :: string
  ef_policy_class :: string
  ef_params :: json_map

record engine_input =
  ei_app_id :: string
  ei_field :: engine_field
  ei_grant :: "time option"  \<comment> \<open>the grant's \<^verbatim>\<open>ExpiresAt\<close>\<close>
  ei_now :: time

record decision =
  dec_outcome :: policy_outcome
  dec_reason :: string

text \<open>What OPA answers: an error, or a result set with the values of each result's expressions.\<close>

datatype opa_result = OpaError | OpaResults "json list list"

datatype engine_error = EvaluationFailed | NoDecision | NotAnObject | UnknownOutcome string

record policy_engine =
  eng_query :: "engine_input \<Rightarrow> opa_result"
  eng_classes :: "string list"  \<comment> \<open>keys of the \<^verbatim>\<open>classes\<close> map\<close>

section \<open>Loading the policies\<close>

text \<open>
  A term of a package path is a string or another term (the root \<^verbatim>\<open>data\<close> is a variable).
\<close>

datatype rego_term = RString string | ROther string

definition classes_ref :: "rego_term list" where
  "classes_ref = [ROther ''data'', RString ''openndx'', RString ''classes'']"

fun class_name :: "rego_term list \<Rightarrow> string option" where
  "class_name path =
     (if length path \<noteq> 4 \<or> take 3 path \<noteq> classes_ref then None
      else (case path ! 3 of RString name \<Rightarrow> Some name | ROther _ \<Rightarrow> None))"

definition has_suffix :: "string \<Rightarrow> string \<Rightarrow> bool" where
  "has_suffix s x \<longleftrightarrow> has_prefix (rev s) (rev x)"

definition read_modules :: "bool \<Rightarrow> (string \<times> string) list \<Rightarrow> (string \<times> string) list" where
  "read_modules with_tests files =
     filter (\<lambda>(path, src). has_suffix path ''.rego'' \<and>
                            (with_tests \<or> \<not> has_suffix path ''_test.rego'')) files"

datatype load_error = ParseFailed string | CompileFailed

text \<open>
  \<open>parse\<close> is OPA's module parser (it yields the package path), \<open>prepare\<close> its compiler.
\<close>

definition new_engine ::
  "(string \<Rightarrow> string \<Rightarrow> rego_term list option) \<Rightarrow>
   (string list \<Rightarrow> (engine_input \<Rightarrow> opa_result) option) \<Rightarrow>
   (string \<times> string) list \<Rightarrow> load_error + policy_engine" where
  "new_engine parse prepare files =
     (let modules = read_modules False files in
      bind_res
        (fold_res (\<lambda>classes (name, src).
           case parse name src of
             None \<Rightarrow> Inl (ParseFailed name)
           | Some path \<Rightarrow> Inr (case class_name path of Some c \<Rightarrow> List.insert c classes | None \<Rightarrow> classes))
         [] modules)
        (\<lambda>classes.
           case prepare (map snd modules) of
             None \<Rightarrow> Inl CompileFailed
           | Some query \<Rightarrow> Inr \<lparr>eng_query = query, eng_classes = classes\<rparr>))"

definition has_class :: "policy_engine \<Rightarrow> string \<Rightarrow> bool" where
  "has_class e name \<longleftrightarrow> name \<in> set (eng_classes e)"

definition classes_sorted :: "policy_engine \<Rightarrow> string list" where
  "classes_sorted e = sort (eng_classes e)"

section \<open>Decisions\<close>

definition deny_decision :: "string \<Rightarrow> decision" where
  "deny_decision reason = \<lparr>dec_outcome = OutcomeDeny, dec_reason = reason\<rparr>"

fun to_decision :: "json \<Rightarrow> engine_error + decision" where
  "to_decision (JObj doc) =
     (let outcome = string_or_zero (obj_get doc ''outcome'');
          reason = string_or_zero (obj_get doc ''reason'')
      in if outcome = ''allow'' then Inr \<lparr>dec_outcome = OutcomeAllow, dec_reason = reason\<rparr>
         else if outcome = ''deny'' then Inr \<lparr>dec_outcome = OutcomeDeny, dec_reason = reason\<rparr>
         else if outcome = ''expired'' then Inr \<lparr>dec_outcome = OutcomeExpired, dec_reason = reason\<rparr>
         else if outcome = ''consent_required''
           then Inr \<lparr>dec_outcome = OutcomeConsentRequired, dec_reason = reason\<rparr>
         else Inl (UnknownOutcome outcome))"
| "to_decision _ = Inl NotAnObject"

text \<open>\<^verbatim>\<open>Decide\<close> returns a decision and, when evaluation failed, an error to log.\<close>

definition decide :: "policy_engine \<Rightarrow> engine_input \<Rightarrow> decision \<times> engine_error option" where
  "decide e inp =
     (case eng_query e inp of
        OpaError \<Rightarrow> (deny_decision ''evaluation_error'', Some EvaluationFailed)
      | OpaResults results \<Rightarrow>
          (case results of
             [] \<Rightarrow> (deny_decision ''no_decision'', Some NoDecision)
           | [] # _ \<Rightarrow> (deny_decision ''no_decision'', Some NoDecision)
           | (v # _) # _ \<Rightarrow>
               (case to_decision v of
                  Inl err \<Rightarrow> (deny_decision ''invalid_decision'', Some err)
                | Inr d \<Rightarrow> (d, None))))"

section \<open>The embedded policies\<close>

definition lib_has_grant :: "engine_input \<Rightarrow> bool" where
  "lib_has_grant inp \<longleftrightarrow> ei_grant inp \<noteq> None"

definition lib_grant_expired :: "engine_input \<Rightarrow> bool" where
  "lib_grant_expired inp =
     (case ei_grant inp of None \<Rightarrow> False | Some expires_at \<Rightarrow> ei_now inp > expires_at)"

definition lib_allow :: json where
  "lib_allow = JObj [(''outcome'', JStr ''allow'')]"

definition lib_consent_required :: json where
  "lib_consent_required = JObj [(''outcome'', JStr ''consent_required'')]"

definition lib_expired :: json where
  "lib_expired = JObj [(''outcome'', JStr ''expired''), (''reason'', JStr ''grant_expired'')]"

definition lib_deny :: "string \<Rightarrow> json" where
  "lib_deny reason = JObj [(''outcome'', JStr ''deny''), (''reason'', JStr reason)]"

definition allowlist_decision :: "engine_input \<Rightarrow> json" where
  "allowlist_decision inp =
     (if \<not> lib_has_grant inp then lib_deny ''not_allowlisted''
      else if lib_grant_expired inp then lib_expired
      else lib_allow)"

definition allowlist_consent_decision :: "engine_input \<Rightarrow> json" where
  "allowlist_consent_decision inp =
     (if \<not> lib_has_grant inp then lib_deny ''not_allowlisted''
      else if lib_grant_expired inp then lib_expired
      else lib_consent_required)"

text \<open>The router looks the class up under \<^verbatim>\<open>data.openndx.classes\<close>, and denies an unknown one.\<close>

definition router_decision :: "engine_input \<Rightarrow> json" where
  "router_decision inp =
     (if ef_policy_class (ei_field inp) = ClassAllowlist then allowlist_decision inp
      else if ef_policy_class (ei_field inp) = ClassAllowlistConsent then allowlist_consent_decision inp
      else lib_deny ''unknown_policy_class'')"

text \<open>An engine that evaluates the embedded policies.\<close>

definition rego_engine :: policy_engine where
  "rego_engine = \<lparr>eng_query = (\<lambda>inp. OpaResults [[router_decision inp]]),
                  eng_classes = [ClassAllowlist, ClassAllowlistConsent]\<rparr>"

section \<open>Facts about the engine\<close>

lemma to_decision_outcome_name:
  "to_decision (JObj [(''outcome'', JStr (outcome_name oc))]) = Inr \<lparr>dec_outcome = oc, dec_reason = ''''\<rparr>"
  by (cases oc) (simp_all add: obj_get_def)

lemma to_decision_lib [simp]:
  "to_decision lib_allow = Inr \<lparr>dec_outcome = OutcomeAllow, dec_reason = ''''\<rparr>"
  "to_decision lib_consent_required = Inr \<lparr>dec_outcome = OutcomeConsentRequired, dec_reason = ''''\<rparr>"
  "to_decision lib_expired = Inr \<lparr>dec_outcome = OutcomeExpired, dec_reason = ''grant_expired''\<rparr>"
  "to_decision (lib_deny reason) = Inr \<lparr>dec_outcome = OutcomeDeny, dec_reason = reason\<rparr>"
  by (simp_all add: lib_allow_def lib_consent_required_def lib_expired_def lib_deny_def obj_get_def)

text \<open>An error always comes with a deny.\<close>

lemma decide_error_denies: "snd (decide e inp) \<noteq> None \<Longrightarrow> dec_outcome (fst (decide e inp)) = OutcomeDeny"
  by (auto simp: decide_def deny_decision_def split: opa_result.splits list.splits sum.splits)

lemma decide_rego_engine:
  "decide rego_engine inp =
     ((if ef_policy_class (ei_field inp) \<notin> {ClassAllowlist, ClassAllowlistConsent}
       then deny_decision ''unknown_policy_class''
       else case ei_grant inp of
         None \<Rightarrow> deny_decision ''not_allowlisted''
       | Some expires_at \<Rightarrow>
           if expires_at < ei_now inp then \<lparr>dec_outcome = OutcomeExpired, dec_reason = ''grant_expired''\<rparr>
           else if ef_policy_class (ei_field inp) = ClassAllowlist
             then \<lparr>dec_outcome = OutcomeAllow, dec_reason = ''''\<rparr>
           else \<lparr>dec_outcome = OutcomeConsentRequired, dec_reason = ''''\<rparr>), None)"
  by (simp add: decide_def rego_engine_def router_decision_def allowlist_decision_def
      allowlist_consent_decision_def lib_has_grant_def lib_grant_expired_def deny_decision_def
      ClassAllowlist_def ClassAllowlistConsent_def split: option.splits)

lemma has_class_rego_engine [simp]:
  "has_class rego_engine c \<longleftrightarrow> c = ClassAllowlist \<or> c = ClassAllowlistConsent"
  by (auto simp: has_class_def rego_engine_def)

end
