(* ===== verification/Store.thy ===== *)
theory Store
  imports Prelude
begin

text \<open>
  The services keep their state in PostgreSQL tables. A table is the list of its rows; the
  statements the services issue (the \<^verbatim>\<open>Where\<close>, \<^verbatim>\<open>Order\<close>,
  \<^verbatim>\<open>Limit\<close> and \<^verbatim>\<open>Updates\<close> clauses written in the Go sources) act on
  it as SQL defines them: a filter, a sort, an update in place of the rows that match, an
  insert that the table's primary key and unique indexes may refuse. Whether the database
  answers at all is not modelled here: every operation of a service takes the statements
  that fail as a parameter.
\<close>

section \<open>Statements\<close>

type_synonym 'r table = "'r list"

definition sql_where :: "('r \<Rightarrow> bool) \<Rightarrow> 'r table \<Rightarrow> 'r list" where
  "sql_where p t = filter p t"

text \<open>\<^verbatim>\<open>SELECT ... WHERE p ORDER BY k LIMIT 1\<close>.\<close>

definition sql_first :: "('r \<Rightarrow> 'k::linorder) \<Rightarrow> ('r \<Rightarrow> bool) \<Rightarrow> 'r table \<Rightarrow> 'r option" where
  "sql_first k p t = (case sort_key k (filter p t) of [] \<Rightarrow> None | r # _ \<Rightarrow> Some r)"

text \<open>\<^verbatim>\<open>UPDATE ... WHERE p\<close>: the new table, and \<open>sql_affected\<close> its row count.\<close>

definition sql_update :: "('r \<Rightarrow> bool) \<Rightarrow> ('r \<Rightarrow> 'r) \<Rightarrow> 'r table \<Rightarrow> 'r table" where
  "sql_update p f t = map (\<lambda>r. if p r then f r else r) t"

definition sql_affected :: "('r \<Rightarrow> bool) \<Rightarrow> 'r table \<Rightarrow> nat" where
  "sql_affected p t = length (filter p t)"

definition sql_delete :: "('r \<Rightarrow> bool) \<Rightarrow> 'r table \<Rightarrow> 'r table" where
  "sql_delete p t = filter (\<lambda>r. \<not> p r) t"

text \<open>
  \<open>clash x r\<close>: the primary key or a unique index does not allow \<open>x\<close> and \<open>r\<close> together.
\<close>

definition sql_insert :: "('r \<Rightarrow> 'r \<Rightarrow> bool) \<Rightarrow> 'r \<Rightarrow> 'r table \<Rightarrow> 'r table option" where
  "sql_insert clash r t = (if list_ex (\<lambda>x. clash x r) t then None else Some (t @ [r]))"

fun sql_insert_all :: "('r \<Rightarrow> 'r \<Rightarrow> bool) \<Rightarrow> 'r list \<Rightarrow> 'r table \<Rightarrow> 'r table option" where
  "sql_insert_all clash [] t = Some t"
| "sql_insert_all clash (r # rs) t =
     (case sql_insert clash r t of None \<Rightarrow> None | Some t' \<Rightarrow> sql_insert_all clash rs t')"

definition table_ok :: "('r \<Rightarrow> 'r \<Rightarrow> bool) \<Rightarrow> 'r table \<Rightarrow> bool" where
  "table_ok clash t \<longleftrightarrow> sorted_wrt (\<lambda>x y. \<not> clash x y) t"

section \<open>Laws of the statements\<close>

lemma set_sql_where [simp]: "set (sql_where p t) = {r \<in> set t. p r}"
  by (simp add: sql_where_def)

lemma set_sql_delete [simp]: "set (sql_delete p t) = {r \<in> set t. \<not> p r}"
  by (auto simp: sql_delete_def)

lemma set_sql_update: "set (sql_update p f t) = (\<lambda>r. if p r then f r else r) ` set t"
  by (simp add: sql_update_def)

lemma sql_update_none: "(\<And>r. r \<in> set t \<Longrightarrow> \<not> p r) \<Longrightarrow> sql_update p f t = t"
  by (simp add: sql_update_def map_idI)

lemma sql_affected_0_iff: "sql_affected p t = 0 \<longleftrightarrow> (\<forall>r \<in> set t. \<not> p r)"
  by (simp add: sql_affected_def filter_empty_conv)

lemma sql_first_None_iff: "sql_first k p t = None \<longleftrightarrow> (\<forall>r \<in> set t. \<not> p r)"
proof -
  have "sort_key k (filter p t) = [] \<longleftrightarrow> filter p t = []"
    by (metis length_0_conv length_sort)
  then show ?thesis
    by (auto simp: sql_first_def filter_empty_conv split: list.splits)
qed

lemma sql_first_SomeD:
  assumes "sql_first k p t = Some r"
  shows "r \<in> set t" and "p r" and "\<And>x. x \<in> set t \<Longrightarrow> p x \<Longrightarrow> k r \<le> k x"
proof -
  obtain rs where rs: "sort_key k (filter p t) = r # rs"
    using assms by (auto simp: sql_first_def split: list.splits)
  have s: "set (r # rs) = {x \<in> set t. p x}" using rs by (metis set_filter set_sort)
  then show "r \<in> set t" "p r" by auto
  have "sorted (map k (r # rs))" using rs by (metis sorted_sort_key)
  then have "\<forall>x \<in> set (r # rs). k r \<le> k x" by auto
  then show "\<And>x. x \<in> set t \<Longrightarrow> p x \<Longrightarrow> k r \<le> k x" using s by blast
qed

lemma sql_insert_Some_iff:
  "sql_insert clash r t = Some t' \<longleftrightarrow> (\<forall>x \<in> set t. \<not> clash x r) \<and> t' = t @ [r]"
  by (auto simp: sql_insert_def list_ex_iff)

lemma sql_insert_all_Some:
  "sql_insert_all clash rs t = Some t' \<Longrightarrow> t' = t @ rs"
proof (induction rs arbitrary: t)
  case Nil
  then show ?case by simp
next
  case (Cons r rs)
  then obtain u where u: "sql_insert clash r t = Some u" "sql_insert_all clash rs u = Some t'"
    by (auto split: option.splits)
  from u(1) Cons.IH [OF u(2)] show ?case by (simp add: sql_insert_Some_iff)
qed

subsection \<open>Integrity\<close>

lemma table_ok_Nil [simp]: "table_ok clash []"
  by (simp add: table_ok_def)

lemma table_ok_insert:
  "table_ok clash t \<Longrightarrow> sql_insert clash r t = Some t' \<Longrightarrow> table_ok clash t'"
  by (auto simp: sql_insert_Some_iff table_ok_def sorted_wrt_append)

lemma table_ok_insert_all:
  "table_ok clash t \<Longrightarrow> sql_insert_all clash rs t = Some t' \<Longrightarrow> table_ok clash t'"
  by (induction rs arbitrary: t) (auto split: option.splits intro: table_ok_insert)

lemma table_ok_delete: "table_ok clash t \<Longrightarrow> table_ok clash (sql_delete p t)"
  by (simp add: table_ok_def sql_delete_def sorted_wrt_filter)

lemma table_ok_update:
  assumes "table_ok clash t"
    and "\<And>x y. x \<in> set t \<Longrightarrow> y \<in> set t \<Longrightarrow>
      clash (if p x then f x else x) (if p y then f y else y) \<Longrightarrow> clash x y"
  shows "table_ok clash (sql_update p f t)"
  using assms(1) unfolding table_ok_def sql_update_def sorted_wrt_map
  by (rule sorted_wrt_mono_rel [rotated]) (use assms(2) in blast)

text \<open>
  A table with a primary key: the interface between the storage and a service's queries.
  \<open>clash\<close> refuses at least two rows with the same key.
\<close>

locale keyed_table =
  fixes key :: "'r \<Rightarrow> 'k::linorder" and clash :: "'r \<Rightarrow> 'r \<Rightarrow> bool"
  assumes clash_key: "key x = key y \<Longrightarrow> clash x y"
    and clash_sym: "clash x y \<Longrightarrow> clash y x"
begin

lemma ok_no_clash:
  assumes "table_ok clash t" "x \<in> set t" "y \<in> set t" "clash x y"
  shows "x = y"
proof -
  obtain i j where ij: "i < length t" "j < length t" "x = t ! i" "y = t ! j"
    using assms(2,3) by (auto simp: in_set_conv_nth)
  have *: "\<not> clash (t ! m) (t ! n)" if "m < n" "n < length t" for m n
    using assms(1) that by (auto simp: table_ok_def sorted_wrt_iff_nth_less)
  consider "i = j" | "i < j" | "j < i" by linarith
  then show ?thesis
  proof cases
    case 2
    then show ?thesis using * [of i j] ij assms(4) by simp
  next
    case 3
    then show ?thesis using * [of j i] ij clash_sym [OF assms(4)] by simp
  qed (use ij in simp)
qed

lemma ok_key_inj: "table_ok clash t \<Longrightarrow> x \<in> set t \<Longrightarrow> y \<in> set t \<Longrightarrow> key x = key y \<Longrightarrow> x = y"
  using ok_no_clash clash_key by blast

text \<open>A query by primary key returns the row with that key.\<close>

lemma first_by_key:
  assumes "table_ok clash t"
  shows "sql_first k (\<lambda>r. key r = i) t = Some r \<longleftrightarrow> r \<in> set t \<and> key r = i"
proof
  assume "sql_first k (\<lambda>r. key r = i) t = Some r"
  then show "r \<in> set t \<and> key r = i" using sql_first_SomeD by fastforce
next
  assume r: "r \<in> set t \<and> key r = i"
  then obtain r' where r': "sql_first k (\<lambda>r. key r = i) t = Some r'"
    using sql_first_None_iff by (metis (full_types) not_Some_eq)
  then have "r' \<in> set t" "key r' = i" using sql_first_SomeD by fastforce+
  then show "sql_first k (\<lambda>r. key r = i) t = Some r"
    using r r' ok_key_inj [OF assms] by auto
qed

text \<open>An update by primary key, with a further guard, changes at most that row.\<close>

lemma affected_by_key:
  assumes "table_ok clash t" "\<And>x. p x \<Longrightarrow> key x = i"
  shows "sql_affected p t = (if \<exists>r \<in> set t. p r then 1 else 0)"
proof -
  have "sql_affected p t \<le> 1"
  proof (rule ccontr)
    assume "\<not> sql_affected p t \<le> 1"
    then have "1 < length (filter p t)" by (simp add: sql_affected_def)
    then obtain x y zs where xy: "filter p t = x # y # zs"
      by (metis One_nat_def Suc_less_eq length_Cons less_irrefl list.exhaust list.size(3) not_less_zero)
    have "table_ok clash (filter p t)"
      using assms(1) by (simp add: table_ok_def sorted_wrt_filter)
    then have "\<not> clash x y" unfolding xy by (simp add: table_ok_def)
    moreover have "x \<in> set (filter p t)" "y \<in> set (filter p t)" unfolding xy by simp_all
    then have "p x" "p y" by simp_all
    ultimately show False using assms(2) clash_key by metis
  qed
  moreover have "sql_affected p t = 0 \<longleftrightarrow> \<not> (\<exists>r \<in> set t. p r)"
    by (simp add: sql_affected_0_iff)
  ultimately show ?thesis by (auto simp: le_Suc_eq)
qed

lemma update_by_key:
  assumes "table_ok clash t" "r \<in> set t" "p r" "\<And>x. p x \<Longrightarrow> key x = key r"
  shows "set (sql_update p f t) = insert (f r) (set t - {r})"
proof -
  have "p x \<longleftrightarrow> x = r" if "x \<in> set t" for x
    using that assms ok_key_inj [OF assms(1)] by metis
  then show ?thesis
    using assms(2) by (auto simp: set_sql_update image_iff)
qed

end

end
