(* ===== verification/PDP_Models.thy ===== *)
theory PDP_Models
  imports Policy_Engine Store
begin

text \<open>
  Data of the Policy Decision Point (\<^verbatim>\<open>internal/pdp/models\<close>): the
  \<^verbatim>\<open>policy_metadata\<close> table, its column codecs and the request and response
  objects. A nil map and an empty map are the same value here: both read as empty, both are
  stored as \<^verbatim>\<open>{}\<close>, and the one write into a map that may be nil is guarded in the code.
\<close>

section \<open>The table\<close>

record allow_list_entry =
  al_expires_at :: time
  al_updated_at :: time

type_synonym allow_list = "string \<rightharpoonup> allow_list_entry"

record policy_metadata =
  pm_id :: string
  pm_schema_id :: string
  pm_field_name :: string
  pm_display_name :: "string option"
  pm_description :: "string option"
  pm_source :: string
  pm_policy_class :: string
  pm_policy_params :: json_map
  pm_allow_list :: allow_list
  pm_owner :: "string option"
  pm_created_at :: time
  pm_updated_at :: time

text \<open>
  The key of the unique index \<^verbatim>\<open>idx_policy_metadata_schema_field\<close>, ordered as
  \<^verbatim>\<open>ORDER BY schema_id ASC, field_name ASC\<close> orders it.
\<close>

datatype field_key = FieldKey (fk_schema: string) (fk_field: string)

instantiation field_key :: linorder
begin

definition less_eq_field_key :: "field_key \<Rightarrow> field_key \<Rightarrow> bool" where
  "less_eq_field_key a b \<longleftrightarrow> (fk_schema a, fk_field a) \<le> (fk_schema b, fk_field b)"

definition less_field_key :: "field_key \<Rightarrow> field_key \<Rightarrow> bool" where
  "less_field_key a b \<longleftrightarrow> (fk_schema a, fk_field a) < (fk_schema b, fk_field b)"

instance
  by standard
    (auto simp: less_eq_field_key_def less_field_key_def field_key.expand order.order_iff_strict
      simp del: less_eq_prod_def less_prod_def intro: field_key.expand)

end

definition pm_key :: "policy_metadata \<Rightarrow> field_key" where
  "pm_key pm = FieldKey (pm_schema_id pm) (pm_field_name pm)"

definition pm_clash :: "policy_metadata \<Rightarrow> policy_metadata \<Rightarrow> bool" where
  "pm_clash x y \<longleftrightarrow> pm_id x = pm_id y \<or> pm_key x = pm_key y"

interpretation pm_table: keyed_table pm_id pm_clash
  by unfold_locales (auto simp: pm_clash_def)

interpretation pm_fields: keyed_table pm_key pm_clash
  by unfold_locales (auto simp: pm_clash_def)

section \<open>Column codecs\<close>

text \<open>A value the SQL driver hands to \<^verbatim>\<open>Scan\<close>.\<close>

datatype db_value = DbNull | DbBytes string | DbString string | DbOther

definition SourcePrimary :: string where
  "SourcePrimary = ''primary''"

definition SourceFallback :: string where
  "SourceFallback = ''fallback''"

definition OwnerCitizen :: string where
  "OwnerCitizen = ''citizen''"

datatype scan_error = CannotScan | BadJson

fun source_scan :: "db_value \<Rightarrow> scan_error + string" where
  "source_scan DbNull = Inr SourceFallback"
| "source_scan (DbString s) = Inr s"
| "source_scan _ = Inl CannotScan"

definition source_value :: "string \<Rightarrow> db_value" where
  "source_value s = DbString s"

fun owner_scan :: "db_value \<Rightarrow> scan_error + string" where
  "owner_scan DbNull = Inr OwnerCitizen"
| "owner_scan (DbString s) = Inr s"
| "owner_scan _ = Inl CannotScan"

definition owner_value :: "string \<Rightarrow> db_value" where
  "owner_value s = DbString s"

text \<open>
  \<open>unmarshal\<close> and \<open>marshal\<close> are \<^verbatim>\<open>json.Unmarshal\<close> and
  \<^verbatim>\<open>json.Marshal\<close> at the type of the column.
\<close>

definition scan_json :: "(string \<Rightarrow> 'a option) \<Rightarrow> 'a \<Rightarrow> string \<Rightarrow> scan_error + 'a" where
  "scan_json unmarshal dflt bytes =
     (if bytes = [] then Inr dflt
      else case unmarshal bytes of None \<Rightarrow> Inl BadJson | Some v \<Rightarrow> Inr v)"

fun policy_params_scan :: "(string \<Rightarrow> json_map option) \<Rightarrow> db_value \<Rightarrow> scan_error + json_map" where
  "policy_params_scan unmarshal DbNull = scan_json unmarshal [] []"
| "policy_params_scan unmarshal (DbBytes bytes) = scan_json unmarshal [] bytes"
| "policy_params_scan unmarshal (DbString s) = scan_json unmarshal [] s"
| "policy_params_scan unmarshal DbOther = Inl CannotScan"

definition policy_params_value :: "(json_map \<Rightarrow> string) \<Rightarrow> json_map \<Rightarrow> db_value" where
  "policy_params_value marshal pp = DbBytes (marshal pp)"

fun allow_list_scan :: "(string \<Rightarrow> allow_list option) \<Rightarrow> db_value \<Rightarrow> scan_error + allow_list" where
  "allow_list_scan unmarshal DbNull = Inr Map.empty"
| "allow_list_scan unmarshal (DbBytes bytes) = scan_json unmarshal Map.empty bytes"
| "allow_list_scan unmarshal (DbString s) = scan_json unmarshal Map.empty s"
| "allow_list_scan unmarshal DbOther = Inl CannotScan"

definition allow_list_value :: "(allow_list \<Rightarrow> string) \<Rightarrow> allow_list \<Rightarrow> db_value" where
  "allow_list_value marshal al = DbBytes (marshal al)"

lemma source_roundtrip: "source_scan (source_value s) = Inr s"
  and owner_roundtrip: "owner_scan (owner_value s) = Inr s"
  by (simp_all add: source_value_def owner_value_def)

lemma allow_list_roundtrip:
  assumes "unmarshal (marshal al) = Some al" "marshal al \<noteq> []"
  shows "allow_list_scan unmarshal (allow_list_value marshal al) = Inr al"
  using assms by (simp add: allow_list_value_def scan_json_def)

section \<open>Requests and responses\<close>

record create_record =
  cr_field_name :: string
  cr_display_name :: "string option"
  cr_description :: "string option"
  cr_source :: string
  cr_policy_class :: string
  cr_policy_params :: json_map
  cr_owner :: "string option"

record metadata_create_request =
  mc_schema_id :: string
  mc_records :: "create_record list"

text \<open>Timestamps of a response are formatted to RFC 3339.\<close>

record metadata_response =
  mr_id :: string
  mr_schema_id :: string
  mr_field_name :: string
  mr_display_name :: "string option"
  mr_description :: "string option"
  mr_source :: string
  mr_policy_class :: string
  mr_policy_params :: json_map
  mr_allow_list :: allow_list
  mr_owner :: "string option"
  mr_created_at :: string
  mr_updated_at :: string

definition to_response :: "policy_metadata \<Rightarrow> metadata_response" where
  "to_response pm =
     \<lparr>mr_id = pm_id pm, mr_schema_id = pm_schema_id pm, mr_field_name = pm_field_name pm,
      mr_display_name = pm_display_name pm, mr_description = pm_description pm,
      mr_source = pm_source pm, mr_policy_class = pm_policy_class pm,
      mr_policy_params = pm_policy_params pm, mr_allow_list = pm_allow_list pm,
      mr_owner = pm_owner pm, mr_created_at = rfc3339 (pm_created_at pm),
      mr_updated_at = rfc3339 (pm_updated_at pm)\<rparr>"

text \<open>A property of a PATCH body is absent, null or a value (\<^verbatim>\<open>OptionalPatchField\<close>).\<close>

datatype 'a patch_field = NotSet | SetNull | SetTo 'a

fun is_set :: "'a patch_field \<Rightarrow> bool" where
  "is_set NotSet = False"
| "is_set _ = True"

fun patch_value :: "'a patch_field \<Rightarrow> 'a option" where
  "patch_value (SetTo v) = Some v"
| "patch_value _ = None"

text \<open>
  \<^verbatim>\<open>UnmarshalJSON\<close> of a property that is present, with \<open>decode\<close> for the
  property's type.
\<close>

definition unmarshal_patch_field :: "(string \<Rightarrow> 'a option) \<Rightarrow> string \<Rightarrow> scan_error + 'a patch_field" where
  "unmarshal_patch_field decode data =
     (if trim_space data = ''null'' then Inr SetNull
      else case decode data of None \<Rightarrow> Inl BadJson | Some v \<Rightarrow> Inr (SetTo v))"

record metadata_patch_request =
  mp_display_name :: "string patch_field"
  mp_description :: "string patch_field"
  mp_policy_class :: "string patch_field"
  mp_policy_params :: "json_map patch_field"

definition patch_is_empty :: "metadata_patch_request \<Rightarrow> bool" where
  "patch_is_empty r \<longleftrightarrow> \<not> is_set (mp_display_name r) \<and> \<not> is_set (mp_description r) \<and>
     \<not> is_set (mp_policy_class r) \<and> \<not> is_set (mp_policy_params r)"

record field_request =
  fr_field_name :: string
  fr_schema_id :: string

record allow_list_update_request =
  au_application_id :: string
  au_records :: "field_request list"
  au_grant_duration :: string

record allow_list_update_record =
  ar_field_name :: string
  ar_schema_id :: string
  ar_expires_at :: string
  ar_updated_at :: string

record decision_request =
  dr_application_id :: string
  dr_required_fields :: "field_request list"

record decision_field =
  df_field_name :: string
  df_schema_id :: string
  df_display_name :: "string option"
  df_description :: "string option"
  df_owner :: "string option"

record decision_response =
  ds_app_authorized :: bool
  ds_unauthorized_fields :: "decision_field list"
  ds_app_access_expired :: bool
  ds_expired_fields :: "decision_field list"
  ds_app_requires_owner_consent :: bool
  ds_consent_required_fields :: "decision_field list"

end
