(* ===== verification/PDP.thy ===== *)
theory PDP
  imports PDP_Models
begin

text \<open>
  The policy metadata service of the Policy Decision Point
  (\<^verbatim>\<open>internal/pdp/services/policy_metadata_service.go\<close>). Its state is the
  \<^verbatim>\<open>policy_metadata\<close> table. An operation takes the environment of the call: the clock,
  fresh UUIDs and the statements that the database refuses; a failed transaction leaves the
  table as it was. Where the code ranges over a Go map only to report the first missing
  key, the error does not carry the key, since the order of a map is not determined.
\<close>

section \<open>Environment and errors\<close>

datatype pdp_stmt =
    BeginTx | FindExisting | DeleteObsolete | CreateNew | UpdateRow string | CommitTx
  | FetchLocked | FetchMetadata | ListRows | FirstRow | DeleteRow

record pdp_env =
  pe_clock :: "nat \<Rightarrow> time"   \<comment> \<open>the n-th \<^verbatim>\<open>time.Now()\<close> of the call\<close>
  pe_uuid :: "nat \<Rightarrow> string"  \<comment> \<open>the n-th \<^verbatim>\<open>uuid.New()\<close> of the call\<close>
  pe_fails :: "pdp_stmt \<Rightarrow> bool"

datatype pdp_error =
    ErrPolicyMetadataNotFound string
  | ErrAllowListEntryNotFound string
  | ErrUnknownPolicyClass string
  | ErrMetadataMissing
  | ErrInvalidGrantDuration string
  | ErrDb pdp_stmt

type_synonym pdp_table = "policy_metadata table"

section \<open>Creating and replacing the metadata of a schema\<close>

definition check_policy_class :: "policy_engine \<Rightarrow> string \<Rightarrow> pdp_error + unit" where
  "check_policy_class e c = (if has_class e c then Inr () else Inl (ErrUnknownPolicyClass c))"

text \<open>
  The loop over the incoming records. \<open>existing\<close> is \<^verbatim>\<open>existingMap\<close> with the
  in-memory changes; \<^verbatim>\<open>updatedRecords\<close> holds pointers into it, so a field that occurs
  twice is listed twice with its last values.
\<close>

record create_loop =
  cl_existing :: "string \<rightharpoonup> policy_metadata"
  cl_new :: "policy_metadata list"
  cl_updated :: "string list"

definition apply_record :: "time \<Rightarrow> create_record \<Rightarrow> policy_metadata \<Rightarrow> policy_metadata" where
  "apply_record now r pm = pm\<lparr>
     pm_display_name := cr_display_name r, pm_description := cr_description r,
     pm_source := cr_source r, pm_policy_class := cr_policy_class r,
     pm_policy_params := cr_policy_params r, pm_owner := cr_owner r, pm_updated_at := now\<rparr>"

definition new_metadata :: "string \<Rightarrow> string \<Rightarrow> time \<Rightarrow> create_record \<Rightarrow> policy_metadata" where
  "new_metadata uuid schema_id now r =
     \<lparr>pm_id = uuid, pm_schema_id = schema_id, pm_field_name = cr_field_name r,
      pm_display_name = cr_display_name r, pm_description = cr_description r,
      pm_source = cr_source r, pm_policy_class = cr_policy_class r,
      pm_policy_params = cr_policy_params r, pm_allow_list = Map.empty, pm_owner = cr_owner r,
      pm_created_at = now, pm_updated_at = now\<rparr>"

definition create_step :: "pdp_env \<Rightarrow> string \<Rightarrow> create_loop \<Rightarrow> create_record \<Rightarrow> create_loop" where
  "create_step env schema_id s r =
     (let now = pe_clock env 0 in
      case cl_existing s (cr_field_name r) of
        Some pm \<Rightarrow> s\<lparr>cl_existing := (cl_existing s)(cr_field_name r \<mapsto> apply_record now r pm),
                      cl_updated := cl_updated s @ [cr_field_name r]\<rparr>
      | None \<Rightarrow> s\<lparr>cl_new := cl_new s @
                   [new_metadata (pe_uuid env (length (cl_new s))) schema_id now r]\<rparr>)"

definition existing_map :: "policy_metadata list \<Rightarrow> string \<rightharpoonup> policy_metadata" where
  "existing_map rows = map_of (rev (map (\<lambda>pm. (pm_field_name pm, pm)) rows))"

text \<open>\<^verbatim>\<open>Updates\<close> with the selected columns only; the allow-list is not among them.\<close>

definition write_selected :: "policy_metadata \<Rightarrow> pdp_table \<Rightarrow> pdp_table" where
  "write_selected pm t = sql_update (\<lambda>r. pm_id r = pm_id pm)
     (\<lambda>r. r\<lparr>pm_display_name := pm_display_name pm, pm_description := pm_description pm,
            pm_source := pm_source pm, pm_policy_class := pm_policy_class pm,
            pm_policy_params := pm_policy_params pm, pm_owner := pm_owner pm,
            pm_updated_at := pm_updated_at pm\<rparr>) t"

definition update_rows ::
  "pdp_env \<Rightarrow> policy_metadata list \<Rightarrow> pdp_table \<Rightarrow> pdp_error + pdp_table" where
  "update_rows env pms t =
     fold_res (\<lambda>t pm. if pe_fails env (UpdateRow (pm_id pm)) then Inl (ErrDb (UpdateRow (pm_id pm)))
                       else Inr (write_selected pm t)) t pms"

definition create_policy_metadata ::
  "policy_engine \<Rightarrow> pdp_env \<Rightarrow> metadata_create_request \<Rightarrow> pdp_table \<Rightarrow>
   (pdp_error + metadata_response list) \<times> pdp_table" where
  "create_policy_metadata e env req t =
     (let result =
        bind_res (fold_res (\<lambda>_ r. check_policy_class e (cr_policy_class r)) () (mc_records req)) (\<lambda>_.
        if pe_fails env BeginTx then Inl (ErrDb BeginTx)
        else if pe_fails env FindExisting then Inl (ErrDb FindExisting)
        else
          let existing = sql_where (\<lambda>pm. pm_schema_id pm = mc_schema_id req) t;
              s = foldl (create_step env (mc_schema_id req))
                    \<lparr>cl_existing = existing_map existing, cl_new = [], cl_updated = []\<rparr> (mc_records req);
              processed = set (map cr_field_name (mc_records req));
              ids_to_delete = map pm_id (filter (\<lambda>pm. pm_field_name pm \<notin> processed) existing);
              updated = map (\<lambda>f. the (cl_existing s f)) (cl_updated s)
          in if ids_to_delete \<noteq> [] \<and> pe_fails env DeleteObsolete then Inl (ErrDb DeleteObsolete)
             else
               (let t1 = sql_delete (\<lambda>pm. pm_id pm \<in> set ids_to_delete) t in
                if cl_new s \<noteq> [] \<and> pe_fails env CreateNew then Inl (ErrDb CreateNew)
                else case sql_insert_all pm_clash (cl_new s) t1 of
                  None \<Rightarrow> Inl (ErrDb CreateNew)
                | Some t2 \<Rightarrow>
                    bind_res (update_rows env updated t2) (\<lambda>t3.
                    if pe_fails env CommitTx then Inl (ErrDb CommitTx)
                    else Inr (map to_response (cl_new s) @ map to_response updated, t3))))
      in case result of Inl err \<Rightarrow> (Inl err, t) | Inr (resp, t') \<Rightarrow> (Inr resp, t'))"

section \<open>Granting and revoking access\<close>

definition GrantDurationTypeOneMonth :: string where
  "GrantDurationTypeOneMonth = ''30d''"

definition GrantDurationTypeOneYear :: string where
  "GrantDurationTypeOneYear = ''365d''"

text \<open>\<^verbatim>\<open>schemaID + ":" + fieldName\<close>, the key of the request and policy maps.\<close>

definition field_key_string :: "string \<Rightarrow> string \<Rightarrow> string" where
  "field_key_string schema_id field_name = schema_id @ '':'' @ field_name"

definition pm_key_string :: "policy_metadata \<Rightarrow> string" where
  "pm_key_string pm = field_key_string (pm_schema_id pm) (pm_field_name pm)"

definition fr_key_string :: "field_request \<Rightarrow> string" where
  "fr_key_string r = field_key_string (fr_schema_id r) (fr_field_name r)"

definition policy_map :: "policy_metadata list \<Rightarrow> string \<rightharpoonup> policy_metadata" where
  "policy_map rows = map_of (rev (map (\<lambda>pm. (pm_key_string pm, pm)) rows))"

definition grant_expiry :: "time \<Rightarrow> string \<Rightarrow> time option" where
  "grant_expiry now duration =
     (if duration = GrantDurationTypeOneMonth then Some (add_date now 0 1 0)
      else if duration = GrantDurationTypeOneYear then Some (add_date now 1 0 0)
      else None)"

definition set_allow_list :: "policy_metadata \<Rightarrow> pdp_table \<Rightarrow> pdp_table" where
  "set_allow_list pm t = sql_update (\<lambda>r. pm_id r = pm_id pm)
     (\<lambda>r. r\<lparr>pm_allow_list := pm_allow_list pm, pm_updated_at := pm_updated_at pm\<rparr>) t"

text \<open>One iteration: the row behind \<^verbatim>\<open>policyMap[key]\<close> is changed in memory and written.\<close>

definition grant_step ::
  "pdp_env \<Rightarrow> string \<Rightarrow> time \<Rightarrow> (string \<rightharpoonup> policy_metadata) \<times> pdp_table \<times> allow_list_update_record list \<Rightarrow>
   field_request \<Rightarrow> pdp_error + (string \<rightharpoonup> policy_metadata) \<times> pdp_table \<times> allow_list_update_record list" where
  "grant_step env app expires_at st r =
     (case st of (m, t, resp) \<Rightarrow>
        let now = pe_clock env 0; key = fr_key_string r in
        case m key of
          None \<Rightarrow> Inl ErrMetadataMissing
        | Some pm \<Rightarrow>
            let pm' = pm\<lparr>pm_allow_list := (pm_allow_list pm)
                           (app \<mapsto> \<lparr>al_expires_at = expires_at, al_updated_at = now\<rparr>),
                         pm_updated_at := now\<rparr>
            in if pe_fails env (UpdateRow (pm_id pm')) then Inl (ErrDb (UpdateRow (pm_id pm')))
               else Inr (m(key \<mapsto> pm'), set_allow_list pm' t,
                         resp @ [\<lparr>ar_field_name = fr_field_name r, ar_schema_id = fr_schema_id r,
                                  ar_expires_at = rfc3339 expires_at, ar_updated_at = rfc3339 now\<rparr>]))"

definition update_allow_list ::
  "pdp_env \<Rightarrow> allow_list_update_request \<Rightarrow> pdp_table \<Rightarrow>
   (pdp_error + allow_list_update_record list) \<times> pdp_table" where
  "update_allow_list env req t =
     (if au_records req = [] then (Inr [], t)
      else case grant_expiry (pe_clock env 0) (au_grant_duration req) of
        None \<Rightarrow> (Inl (ErrInvalidGrantDuration (au_grant_duration req)), t)
      | Some expires_at \<Rightarrow>
          let result =
            (if pe_fails env FetchLocked then Inl (ErrDb FetchLocked)
             else
               let rows = sort_key pm_key (sql_where (\<lambda>pm.
                     list_ex (\<lambda>r. pm_schema_id pm = fr_schema_id r \<and> pm_field_name pm = fr_field_name r)
                       (au_records req)) t);
                   m = policy_map rows
               in if list_ex (\<lambda>r. m (fr_key_string r) = None) (au_records req)
                  then Inl ErrMetadataMissing
                  else fold_res (grant_step env (au_application_id req) expires_at) (m, t, []) (au_records req))
          in (case result of
                Inl err \<Rightarrow> (Inl err, t)
              | Inr (_, t', resp) \<Rightarrow>
                  if pe_fails env CommitTx then (Inl (ErrDb CommitTx), t) else (Inr resp, t')))"

definition revoke_allow_list_entry ::
  "pdp_env \<Rightarrow> string \<Rightarrow> string \<Rightarrow> pdp_table \<Rightarrow> (pdp_error + unit) \<times> pdp_table" where
  "revoke_allow_list_entry env i app t =
     (if pe_fails env FetchLocked then (Inl (ErrDb FetchLocked), t)
      else case sql_first pm_id (\<lambda>pm. pm_id pm = i) t of
        None \<Rightarrow> (Inl (ErrPolicyMetadataNotFound i), t)
      | Some pm \<Rightarrow>
          if pm_allow_list pm app = None then (Inl (ErrAllowListEntryNotFound app), t)
          else
            let pm' = pm\<lparr>pm_allow_list := (pm_allow_list pm)(app := None), pm_updated_at := pe_clock env 0\<rparr>
            in if pe_fails env (UpdateRow i) then (Inl (ErrDb (UpdateRow i)), t)
               else if pe_fails env CommitTx then (Inl (ErrDb CommitTx), t)
               else (Inr (), set_allow_list pm' t))"

section \<open>Decisions\<close>

definition decision_input :: "time \<Rightarrow> string \<Rightarrow> policy_metadata \<Rightarrow> engine_input" where
  "decision_input now app pm =
     \<lparr>ei_app_id = app,
      ei_field = \<lparr>ef_schema_id = pm_schema_id pm, ef_field_name = pm_field_name pm,
                  ef_policy_class = pm_policy_class pm, ef_params = pm_policy_params pm\<rparr>,
      ei_grant = map_option al_expires_at (pm_allow_list pm app),
      ei_now = now\<rparr>"

definition decision_field_of :: "policy_metadata \<Rightarrow> decision_field" where
  "decision_field_of pm =
     \<lparr>df_field_name = pm_field_name pm, df_schema_id = pm_schema_id pm,
      df_display_name = pm_display_name pm, df_description = pm_description pm, df_owner = pm_owner pm\<rparr>"

record decision_loop =
  dl_index :: nat
  dl_consent :: "decision_field list"
  dl_unauthorized :: "decision_field list"
  dl_expired :: "decision_field list"

definition decision_step ::
  "policy_engine \<Rightarrow> pdp_env \<Rightarrow> string \<Rightarrow> (string \<rightharpoonup> policy_metadata) \<Rightarrow> decision_loop \<Rightarrow> field_request \<Rightarrow>
   pdp_error + decision_loop" where
  "decision_step e env app m s r =
     (case m (fr_key_string r) of
        None \<Rightarrow> Inl ErrMetadataMissing
      | Some pm \<Rightarrow>
          let d = fst (decide e (decision_input (pe_clock env (dl_index s)) app pm));
              f = decision_field_of pm;
              s' = s\<lparr>dl_index := Suc (dl_index s)\<rparr>
          in Inr (case dec_outcome d of
                    OutcomeAllow \<Rightarrow> s'
                  | OutcomeConsentRequired \<Rightarrow> s'\<lparr>dl_consent := dl_consent s' @ [f]\<rparr>
                  | OutcomeExpired \<Rightarrow> s'\<lparr>dl_expired := dl_expired s' @ [f]\<rparr>
                  | OutcomeDeny \<Rightarrow> s'\<lparr>dl_unauthorized := dl_unauthorized s' @ [f]\<rparr>))"

definition get_policy_decision ::
  "policy_engine \<Rightarrow> pdp_env \<Rightarrow> decision_request \<Rightarrow> pdp_table \<Rightarrow> pdp_error + decision_response" where
  "get_policy_decision e env req t =
     (if pe_fails env FetchMetadata then Inl (ErrDb FetchMetadata)
      else
        let schema_ids = set (map fr_schema_id (dr_required_fields req));
            m = policy_map (sql_where (\<lambda>pm. pm_schema_id pm \<in> schema_ids) t)
        in bind_res
             (fold_res (decision_step e env (dr_application_id req) m)
               \<lparr>dl_index = 0, dl_consent = [], dl_unauthorized = [], dl_expired = []\<rparr>
               (dr_required_fields req))
             (\<lambda>s. Inr \<lparr>ds_app_authorized = (dl_unauthorized s = []),
                        ds_unauthorized_fields = dl_unauthorized s,
                        ds_app_access_expired = (dl_expired s \<noteq> []),
                        ds_expired_fields = dl_expired s,
                        ds_app_requires_owner_consent = (dl_consent s \<noteq> []),
                        ds_consent_required_fields = dl_consent s\<rparr>))"

section \<open>Listing, patching and deleting records\<close>

definition list_policy_metadata ::
  "pdp_env \<Rightarrow> string \<Rightarrow> pdp_table \<Rightarrow> pdp_error + metadata_response list" where
  "list_policy_metadata env schema_id t =
     (if pe_fails env ListRows then Inl (ErrDb ListRows)
      else Inr (map to_response (sort_key pm_key
             (sql_where (\<lambda>pm. schema_id \<noteq> '''' \<longrightarrow> pm_schema_id pm = schema_id) t))))"

text \<open>
  The columns a PATCH writes, applied to the loaded record and, by \<^verbatim>\<open>Updates\<close>, to the
  stored row.
\<close>

definition patch_columns :: "metadata_patch_request \<Rightarrow> time \<Rightarrow> policy_metadata \<Rightarrow> policy_metadata" where
  "patch_columns req now pm = pm\<lparr>
     pm_display_name := (if is_set (mp_display_name req) then patch_value (mp_display_name req)
                         else pm_display_name pm),
     pm_description := (if is_set (mp_description req) then patch_value (mp_description req)
                        else pm_description pm),
     pm_policy_class := (case mp_policy_class req of SetTo c \<Rightarrow> c | _ \<Rightarrow> pm_policy_class pm),
     pm_policy_params := (case mp_policy_params req of
        NotSet \<Rightarrow> pm_policy_params pm | SetNull \<Rightarrow> [] | SetTo v \<Rightarrow> v),
     pm_updated_at := now\<rparr>"

definition check_patch_class :: "policy_engine \<Rightarrow> string patch_field \<Rightarrow> pdp_error + unit" where
  "check_patch_class e f =
     (case f of NotSet \<Rightarrow> Inr ()
      | SetNull \<Rightarrow> Inl (ErrUnknownPolicyClass '''')
      | SetTo c \<Rightarrow> check_policy_class e c)"

definition patch_policy_metadata ::
  "policy_engine \<Rightarrow> pdp_env \<Rightarrow> string \<Rightarrow> metadata_patch_request \<Rightarrow> pdp_table \<Rightarrow>
   (pdp_error + metadata_response) \<times> pdp_table" where
  "patch_policy_metadata e env i req t =
     (if pe_fails env FirstRow then (Inl (ErrDb FirstRow), t)
      else case sql_first pm_id (\<lambda>pm. pm_id pm = i) t of
        None \<Rightarrow> (Inl (ErrPolicyMetadataNotFound i), t)
      | Some pm \<Rightarrow>
          (case check_patch_class e (mp_policy_class req) of
             Inl err \<Rightarrow> (Inl err, t)
           | Inr _ \<Rightarrow>
               let now = pe_clock env 0 in
               if pe_fails env (UpdateRow (pm_id pm)) then (Inl (ErrDb (UpdateRow (pm_id pm))), t)
               else (Inr (to_response (patch_columns req now pm)),
                     sql_update (\<lambda>r. pm_id r = pm_id pm) (patch_columns req now) t)))"

definition delete_policy_metadata ::
  "pdp_env \<Rightarrow> string \<Rightarrow> pdp_table \<Rightarrow> (pdp_error + unit) \<times> pdp_table" where
  "delete_policy_metadata env i t =
     (if pe_fails env DeleteRow then (Inl (ErrDb DeleteRow), t)
      else if sql_affected (\<lambda>pm. pm_id pm = i) t = 0 then (Inl (ErrPolicyMetadataNotFound i), t)
      else (Inr (), sql_delete (\<lambda>pm. pm_id pm = i) t))"

end
