(* ===== verification/PDP_Facts.thy ===== *)
theory PDP_Facts
  imports PDP
begin

text \<open>
  Lemmas on the policy metadata service: the keys of its maps, what its loops compute, how
  each operation changes the table, and the table's invariant.
\<close>

section \<open>Keys\<close>

text \<open>
  The map keys identify a field as long as schema ids have no colon. Nothing in the service
  checks this.
\<close>

definition colon_free :: "string \<Rightarrow> bool" where
  "colon_free s \<longleftrightarrow> CHR '':'' \<notin> set s"

lemma field_key_string_inj:
  assumes "field_key_string s f = field_key_string s' f'" "colon_free s" "colon_free s'"
  shows "s = s' \<and> f = f'"
proof -
  have "split_on CHR '':'' (field_key_string s f) = split_on CHR '':'' (field_key_string s' f')"
    using assms(1) by simp
  then have "s = s'"
    using assms(2,3) by (simp add: field_key_string_def colon_free_def split_on_append)
  then show ?thesis using assms(1) by (simp add: field_key_string_def)
qed

lemma policy_map_SomeD:
  assumes "policy_map rows k = Some pm"
  shows "pm \<in> set rows" and "pm_key_string pm = k"
  using map_of_SomeD [OF assms [unfolded policy_map_def]] by auto

lemma policy_map_None_iff: "policy_map rows k = None \<longleftrightarrow> (\<forall>pm \<in> set rows. pm_key_string pm \<noteq> k)"
  by (auto simp: policy_map_def map_of_eq_None_iff image_iff)

definition schema_ids_ok :: "pdp_table \<Rightarrow> bool" where
  "schema_ids_ok t \<longleftrightarrow> (\<forall>pm \<in> set t. colon_free (pm_schema_id pm))"

definition names_field :: "field_request \<Rightarrow> policy_metadata \<Rightarrow> bool" where
  "names_field r pm \<longleftrightarrow> pm_schema_id pm = fr_schema_id r \<and> pm_field_name pm = fr_field_name r"

lemma names_field_key: "names_field r pm \<Longrightarrow> pm_key_string pm = fr_key_string r"
  by (simp add: names_field_def pm_key_string_def fr_key_string_def)

lemma key_names_field:
  "pm_key_string pm = fr_key_string r \<Longrightarrow> colon_free (pm_schema_id pm) \<Longrightarrow> colon_free (fr_schema_id r)
    \<Longrightarrow> names_field r pm"
  using field_key_string_inj unfolding pm_key_string_def fr_key_string_def names_field_def by blast

lemma names_field_unique:
  "table_ok pm_clash t \<Longrightarrow> pm \<in> set t \<Longrightarrow> pm' \<in> set t \<Longrightarrow> names_field r pm \<Longrightarrow> names_field r pm' \<Longrightarrow> pm = pm'"
  by (rule pm_fields.ok_key_inj) (auto simp: pm_key_def names_field_def)

text \<open>With colon-free schema ids the map finds exactly the row of the field.\<close>

lemma policy_map_lookup:
  assumes ok: "table_ok pm_clash t" and cf: "schema_ids_ok t" "colon_free (fr_schema_id r)"
    and sub: "set rows \<subseteq> set t" and all: "\<And>pm. pm \<in> set t \<Longrightarrow> names_field r pm \<Longrightarrow> pm \<in> set rows"
  shows "policy_map rows (fr_key_string r) = Some pm \<longleftrightarrow> pm \<in> set t \<and> names_field r pm"
proof
  assume *: "policy_map rows (fr_key_string r) = Some pm"
  then have t: "pm \<in> set t" using policy_map_SomeD(1) sub by blast
  then have "colon_free (pm_schema_id pm)" using cf(1) by (simp add: schema_ids_ok_def)
  then show "pm \<in> set t \<and> names_field r pm"
    using t key_names_field [OF policy_map_SomeD(2) [OF *]] cf(2) by simp
next
  assume *: "pm \<in> set t \<and> names_field r pm"
  then have "policy_map rows (fr_key_string r) \<noteq> None"
    using all names_field_key unfolding policy_map_None_iff by blast
  then obtain pm' where pm': "policy_map rows (fr_key_string r) = Some pm'" by blast
  then have t': "pm' \<in> set t" using policy_map_SomeD(1) sub by blast
  then have "colon_free (pm_schema_id pm')" using cf(1) by (simp add: schema_ids_ok_def)
  then have "names_field r pm'" using key_names_field [OF policy_map_SomeD(2) [OF pm']] cf(2) by simp
  then have "pm' = pm" using names_field_unique [OF ok] t' * by blast
  with pm' show "policy_map rows (fr_key_string r) = Some pm" by simp
qed

section \<open>The decision loop\<close>

definition outcome_of ::
  "policy_engine \<Rightarrow> pdp_env \<Rightarrow> string \<Rightarrow> nat \<Rightarrow> policy_metadata \<Rightarrow> policy_outcome" where
  "outcome_of e env app i pm = dec_outcome (fst (decide e (decision_input (pe_clock env i) app pm)))"

text \<open>The fields the engine gives an outcome, in the order of the request.\<close>

definition decided ::
  "policy_engine \<Rightarrow> pdp_env \<Rightarrow> string \<Rightarrow> policy_outcome \<Rightarrow> nat \<Rightarrow> policy_metadata list \<Rightarrow> decision_field list" where
  "decided e env app oc n pms =
     map (\<lambda>(i, pm). decision_field_of pm) (filter (\<lambda>(i, pm). outcome_of e env app i pm = oc) (enumerate n pms))"

lemma decided_Nil [simp]: "decided e env app oc n [] = []"
  by (simp add: decided_def)

lemma decided_Cons [simp]:
  "decided e env app oc n (pm # pms) =
     (if outcome_of e env app n pm = oc then decision_field_of pm # decided e env app oc (Suc n) pms
      else decided e env app oc (Suc n) pms)"
  by (simp add: decided_def)

lemma set_decided:
  "set (decided e env app oc 0 pms) =
     {decision_field_of (pms ! i) | i. i < length pms \<and> outcome_of e env app i (pms ! i) = oc}"
  by (force simp: decided_def in_set_enumerate_eq image_iff)

lemma decided_empty_iff:
  "decided e env app oc 0 pms = [] \<longleftrightarrow> (\<forall>i < length pms. outcome_of e env app i (pms ! i) \<noteq> oc)"
proof -
  have "decided e env app oc 0 pms = [] \<longleftrightarrow> set (decided e env app oc 0 pms) = {}" by simp
  then show ?thesis unfolding set_decided by blast
qed

lemma decision_step_eq:
  "decision_step e env app m s r =
     (case m (fr_key_string r) of
        None \<Rightarrow> Inl ErrMetadataMissing
      | Some pm \<Rightarrow> Inr (s\<lparr>dl_index := Suc (dl_index s),
               dl_consent := dl_consent s @ decided e env app OutcomeConsentRequired (dl_index s) [pm],
               dl_unauthorized := dl_unauthorized s @ decided e env app OutcomeDeny (dl_index s) [pm],
               dl_expired := dl_expired s @ decided e env app OutcomeExpired (dl_index s) [pm]\<rparr>))"
proof (cases "m (fr_key_string r)")
  case (Some pm)
  then show ?thesis
    by (cases "dec_outcome (fst (decide e (decision_input (pe_clock env (dl_index s)) app pm)))")
      (simp_all add: decision_step_def outcome_of_def Let_def)
qed (simp add: decision_step_def)

lemma decided_split:
  "decided e env app oc n (pm # pms) = decided e env app oc n [pm] @ decided e env app oc (Suc n) pms"
  by simp

lemma decision_loop:
  "fold_res (decision_step e env app m) s rs =
     (if \<exists>r \<in> set rs. m (fr_key_string r) = None then Inl ErrMetadataMissing
      else let pms = map (\<lambda>r. the (m (fr_key_string r))) rs; n = dl_index s in
        Inr (s\<lparr>dl_index := n + length rs,
               dl_consent := dl_consent s @ decided e env app OutcomeConsentRequired n pms,
               dl_unauthorized := dl_unauthorized s @ decided e env app OutcomeDeny n pms,
               dl_expired := dl_expired s @ decided e env app OutcomeExpired n pms\<rparr>))"
proof (induction rs arbitrary: s)
  case Nil
  show ?case by simp
next
  case (Cons r rs)
  note step = decision_step_eq [of e env app m s r]
  show ?case
    by (cases "m (fr_key_string r)")
      (simp_all add: step Cons.IH Let_def decided_split [of _ _ _ _ _ _ "map _ rs"] del: decided_Cons)
qed

text \<open>The rows a decision loads, one for each requested field.\<close>

definition decision_rows :: "decision_request \<Rightarrow> pdp_table \<Rightarrow> policy_metadata option list" where
  "decision_rows req t =
     map (\<lambda>r. policy_map (sql_where (\<lambda>pm. pm_schema_id pm \<in> set (map fr_schema_id (dr_required_fields req))) t)
                (fr_key_string r)) (dr_required_fields req)"

lemma get_policy_decision_eq:
  "get_policy_decision e env req t =
     (if pe_fails env FetchMetadata then Inl (ErrDb FetchMetadata)
      else if None \<in> set (decision_rows req t) then Inl ErrMetadataMissing
      else let pms = map the (decision_rows req t); app = dr_application_id req;
               listed = (\<lambda>oc. decided e env app oc 0 pms) in
        Inr \<lparr>ds_app_authorized = (listed OutcomeDeny = []),
             ds_unauthorized_fields = listed OutcomeDeny,
             ds_app_access_expired = (listed OutcomeExpired \<noteq> []),
             ds_expired_fields = listed OutcomeExpired,
             ds_app_requires_owner_consent = (listed OutcomeConsentRequired \<noteq> []),
             ds_consent_required_fields = listed OutcomeConsentRequired\<rparr>)"
proof -
  have "(\<exists>r \<in> set (dr_required_fields req). m (fr_key_string r) = None) \<longleftrightarrow>
        None \<in> set (map (\<lambda>r. m (fr_key_string r)) (dr_required_fields req))" for m :: "string \<rightharpoonup> policy_metadata"
    by (auto simp: image_iff) (metis option.exhaust)+
  then show ?thesis
    by (simp add: get_policy_decision_def decision_loop decision_rows_def Let_def comp_def del: set_map)
qed

section \<open>Decisions of the embedded policies\<close>

definition grant_valid :: "time \<Rightarrow> string \<Rightarrow> policy_metadata \<Rightarrow> bool" where
  "grant_valid now app pm \<longleftrightarrow>
     (case pm_allow_list pm app of None \<Rightarrow> False | Some entry \<Rightarrow> now \<le> al_expires_at entry)"

lemma outcome_rego_engine:
  "outcome_of rego_engine env app i pm =
     (if pm_policy_class pm \<notin> {ClassAllowlist, ClassAllowlistConsent} \<or> pm_allow_list pm app = None
      then OutcomeDeny
      else if \<not> grant_valid (pe_clock env i) app pm then OutcomeExpired
      else if pm_policy_class pm = ClassAllowlist then OutcomeAllow
      else OutcomeConsentRequired)"
  by (auto simp: outcome_of_def decide_rego_engine decision_input_def deny_decision_def grant_valid_def
      split: option.splits)

definition request_colon_free :: "decision_request \<Rightarrow> bool" where
  "request_colon_free req \<longleftrightarrow> list_all (\<lambda>r. colon_free (fr_schema_id r)) (dr_required_fields req)"

lemma length_decision_rows [simp]: "length (decision_rows req t) = length (dr_required_fields req)"
  by (simp add: decision_rows_def)

lemma decision_row:
  assumes "table_ok pm_clash t" "schema_ids_ok t" "request_colon_free req"
    and i: "i < length (dr_required_fields req)"
  shows "decision_rows req t ! i = Some pm \<longleftrightarrow> pm \<in> set t \<and> names_field (dr_required_fields req ! i) pm"
proof -
  let ?r = "dr_required_fields req ! i"
  have r: "?r \<in> set (dr_required_fields req)" using i by simp
  show ?thesis
    unfolding decision_rows_def nth_map [OF i]
    by (rule policy_map_lookup [OF assms(1,2)])
      (use assms(3) r in \<open>auto simp: request_colon_free_def list_all_iff names_field_def\<close>)
qed

lemma get_policy_decision_Inr:
  assumes "get_policy_decision e env req t = Inr resp"
  shows "None \<notin> set (decision_rows req t)"
    and "ds_app_authorized resp \<longleftrightarrow> decided e env (dr_application_id req) OutcomeDeny 0 (map the (decision_rows req t)) = []"
    and "ds_app_access_expired resp \<longleftrightarrow> decided e env (dr_application_id req) OutcomeExpired 0 (map the (decision_rows req t)) \<noteq> []"
    and "ds_unauthorized_fields resp = decided e env (dr_application_id req) OutcomeDeny 0 (map the (decision_rows req t))"
    and "ds_consent_required_fields resp = decided e env (dr_application_id req) OutcomeConsentRequired 0 (map the (decision_rows req t))"
  using assms by (auto simp: get_policy_decision_eq Let_def split: if_splits)

section \<open>Granting access\<close>

definition grant_row :: "string \<Rightarrow> time \<Rightarrow> time \<Rightarrow> policy_metadata \<Rightarrow> policy_metadata" where
  "grant_row app expires_at now pm = pm\<lparr>
     pm_allow_list := (pm_allow_list pm)(app \<mapsto> \<lparr>al_expires_at = expires_at, al_updated_at = now\<rparr>),
     pm_updated_at := now\<rparr>"

lemma grant_row_idem [simp]: "grant_row app x now (grant_row app x now pm) = grant_row app x now pm"
  by (simp add: grant_row_def)

lemma grant_row_keys [simp]:
  "pm_id (grant_row app x now pm) = pm_id pm" "pm_key (grant_row app x now pm) = pm_key pm"
  "names_field r (grant_row app x now pm) = names_field r pm"
  "pm_schema_id (grant_row app x now pm) = pm_schema_id pm"
  "pm_field_name (grant_row app x now pm) = pm_field_name pm"
  "pm_policy_class (grant_row app x now pm) = pm_policy_class pm"
  by (simp_all add: grant_row_def pm_key_def names_field_def)

text \<open>The table after a grant, written as one pass over its rows.\<close>

definition granted_table ::
  "string \<Rightarrow> time \<Rightarrow> time \<Rightarrow> field_request list \<Rightarrow> pdp_table \<Rightarrow> pdp_table" where
  "granted_table app expires_at now rs t =
     sql_update (\<lambda>pm. list_ex (\<lambda>r. names_field r pm) rs) (grant_row app expires_at now) t"

definition granted_map ::
  "string \<Rightarrow> time \<Rightarrow> time \<Rightarrow> field_request list \<Rightarrow> (string \<rightharpoonup> policy_metadata) \<Rightarrow> string \<rightharpoonup> policy_metadata" where
  "granted_map app expires_at now rs m k =
     map_option (\<lambda>pm. if list_ex (\<lambda>r. fr_key_string r = k) rs then grant_row app expires_at now pm else pm) (m k)"

lemma granted_table_snoc:
  assumes ok: "table_ok pm_clash t" and pm: "pm \<in> set t" "names_field r pm"
    and q: "q \<in> {pm, grant_row app x now pm}"
  shows "set_allow_list (grant_row app x now q) (granted_table app x now rs t) = granted_table app x now (rs @ [r]) t"
proof -
  have id: "pm_id x = pm_id pm \<longleftrightarrow> names_field r x" if "x \<in> set t" for x
    using that pm names_field_unique [OF ok] pm_table.ok_key_inj [OF ok] by metis
  have gq: "grant_row app x now q = grant_row app x now pm" using q by auto
  have "(if pm_id y = pm_id pm then
           y\<lparr>pm_allow_list := pm_allow_list (grant_row app x now pm), pm_updated_at := pm_updated_at (grant_row app x now pm)\<rparr>
         else y) = (if list_ex (\<lambda>r. names_field r z) (rs @ [r]) then grant_row app x now z else z)"
    if z: "z \<in> set t" and y: "y = (if list_ex (\<lambda>r. names_field r z) rs then grant_row app x now z else z)" for y z
  proof (cases "names_field r z")
    case True
    then have "z = pm" using names_field_unique [OF ok z pm(1)] pm(2) by simp
    then show ?thesis using True y by (simp add: grant_row_def)
  next
    case False
    then have "pm_id z \<noteq> pm_id pm" using id z by blast
    then show ?thesis using False y by auto
  qed
  then show ?thesis
    by (simp add: set_allow_list_def granted_table_def sql_update_def gq)
qed

lemma grant_loop:
  assumes ok: "table_ok pm_clash t"
    and m: "\<And>r pm. r \<in> set rs \<Longrightarrow> m (fr_key_string r) = Some pm \<Longrightarrow> pm \<in> set t \<and> names_field r pm"
    and run: "fold_res (grant_step env app x)
        (granted_map app x (pe_clock env 0) ps m, granted_table app x (pe_clock env 0) ps t, resp) rs = Inr (m', t', resp')"
  shows "t' = granted_table app x (pe_clock env 0) (ps @ rs) t"
  using m run
proof (induction rs arbitrary: ps resp)
  case Nil
  then show ?case by simp
next
  case (Cons r rs)
  let ?now = "pe_clock env 0"
  obtain pm where pm: "m (fr_key_string r) = Some pm" "\<not> pe_fails env (UpdateRow (pm_id pm))"
    using Cons.prems(2) by (auto simp: grant_step_def granted_map_def Let_def split: option.splits if_splits)
  define q where "q = (if list_ex (\<lambda>r'. fr_key_string r' = fr_key_string r) ps then grant_row app x ?now pm else pm)"
  have inT: "pm \<in> set t" "names_field r pm" using Cons.prems(1) [OF _ pm(1)] by auto
  have q: "granted_map app x ?now ps m (fr_key_string r) = Some q" "pm_id q = pm_id pm"
    "q \<in> {pm, grant_row app x ?now pm}"
    using pm(1) by (auto simp: q_def granted_map_def)
  have map: "(granted_map app x ?now ps m)(fr_key_string r \<mapsto> grant_row app x ?now q) =
      granted_map app x ?now (ps @ [r]) m"
    using q pm(1) by (auto simp: granted_map_def fun_eq_iff)
  obtain out where step: "grant_step env app x
      (granted_map app x ?now ps m, granted_table app x ?now ps t, resp) r =
      Inr (granted_map app x ?now (ps @ [r]) m, granted_table app x ?now (ps @ [r]) t, out)"
    using granted_table_snoc [OF ok inT q(3), of rs] pm(2) q map granted_table_snoc [OF ok inT q(3), of ps]
    by (simp add: grant_step_def Let_def grant_row_def [symmetric])
  have "t' = granted_table app x ?now ((ps @ [r]) @ rs) t"
  proof (rule Cons.IH [of "ps @ [r]" out])
    show "\<And>r' pm. r' \<in> set rs \<Longrightarrow> m (fr_key_string r') = Some pm \<Longrightarrow> pm \<in> set t \<and> names_field r' pm"
      using Cons.prems(1) by (meson list.set_intros(2))
  qed (use Cons.prems(2) step in simp)
  then show ?case by simp
qed

lemma update_allow_list_granted:
  assumes ok: "table_ok pm_clash t" "schema_ids_ok t"
    and cf: "\<forall>r \<in> set (au_records req). colon_free (fr_schema_id r)"
    and run: "update_allow_list env req t = (Inr resp, t')" and ne: "au_records req \<noteq> []"
  obtains x where "grant_expiry (pe_clock env 0) (au_grant_duration req) = Some x"
    "t' = granted_table (au_application_id req) x (pe_clock env 0) (au_records req) t"
    "\<forall>r \<in> set (au_records req). \<exists>pm \<in> set t. names_field r pm"
proof -
  define rows where "rows = sort_key pm_key (sql_where (\<lambda>pm.
      list_ex (\<lambda>r. pm_schema_id pm = fr_schema_id r \<and> pm_field_name pm = fr_field_name r) (au_records req)) t)"
  obtain x m' resp' where x: "grant_expiry (pe_clock env 0) (au_grant_duration req) = Some x"
    and some: "\<forall>r \<in> set (au_records req). policy_map rows (fr_key_string r) \<noteq> None"
    and loop: "fold_res (grant_step env (au_application_id req) x) (policy_map rows, t, []) (au_records req) = Inr (m', t', resp')"
    using run ne by (auto simp: update_allow_list_def Let_def rows_def list_ex_iff
        split: option.splits sum.splits if_splits)
  have lookup: "policy_map rows (fr_key_string r) = Some pm \<longleftrightarrow> pm \<in> set t \<and> names_field r pm"
    if "r \<in> set (au_records req)" for r pm
    by (rule policy_map_lookup [OF ok]) (use that cf in \<open>auto simp: rows_def names_field_def list_ex_iff\<close>)
  have "granted_map (au_application_id req) x (pe_clock env 0) [] (policy_map rows) = policy_map rows"
    "granted_table (au_application_id req) x (pe_clock env 0) [] t = t"
    by (simp_all add: granted_map_def granted_table_def fun_eq_iff sql_update_def option.map_id0 [unfolded id_def])
  then have "t' = granted_table (au_application_id req) x (pe_clock env 0) ([] @ au_records req) t"
    using loop lookup by (intro grant_loop [OF ok(1), where ps = "[]" and m = "policy_map rows"]) auto
  moreover have "\<forall>r \<in> set (au_records req). \<exists>pm \<in> set t. names_field r pm"
    using some lookup by fastforce
  ultimately show thesis using that x by simp
qed

lemma update_allow_list_error: "fst (update_allow_list env req t) = Inl err \<Longrightarrow> snd (update_allow_list env req t) = t"
  by (auto simp: update_allow_list_def Let_def split: option.splits sum.splits if_splits)

end
