(* ===== verification/PDP_Create_Facts.thy ===== *)
theory PDP_Create_Facts
  imports PDP_Facts
begin

text \<open>
  What \<^verbatim>\<open>CreatePolicyMetadata\<close> leaves in the table: its transaction loads the rows
  of the schema, changes them through pointers in a map, deletes, inserts and writes row by
  row. The lemmas show that this is one pass over the table that drops the obsolete rows,
  refreshes the others and appends the new ones.
\<close>

section \<open>The loop over the incoming records\<close>

definition last_record :: "create_record list \<Rightarrow> string \<Rightarrow> create_record option" where
  "last_record rs f = find (\<lambda>r. cr_field_name r = f) (rev rs)"

lemma last_record_snoc [simp]:
  "last_record (rs @ [r]) f = (if cr_field_name r = f then Some r else last_record rs f)"
  by (simp add: last_record_def)

lemma last_record_None_iff: "last_record rs f = None \<longleftrightarrow> f \<notin> set (map cr_field_name rs)"
  by (auto simp: last_record_def find_None_iff)

lemma last_record_SomeD: "last_record rs f = Some r \<Longrightarrow> r \<in> set rs \<and> cr_field_name r = f"
  unfolding last_record_def find_Some_iff by (metis nth_mem set_rev length_rev)

lemma apply_record_again [simp]: "apply_record now r (apply_record now r' pm) = apply_record now r pm"
  by (simp add: apply_record_def)

lemma apply_record_keeps [simp]:
  "pm_id (apply_record now r pm) = pm_id pm" "pm_schema_id (apply_record now r pm) = pm_schema_id pm"
  "pm_field_name (apply_record now r pm) = pm_field_name pm" "pm_key (apply_record now r pm) = pm_key pm"
  "pm_allow_list (apply_record now r pm) = pm_allow_list pm"
  "pm_created_at (apply_record now r pm) = pm_created_at pm"
  "pm_policy_class (apply_record now r pm) = cr_policy_class r"
  by (simp_all add: apply_record_def pm_key_def)

definition refresh :: "time \<Rightarrow> create_record list \<Rightarrow> policy_metadata \<Rightarrow> policy_metadata" where
  "refresh now rs pm =
     (case last_record rs (pm_field_name pm) of None \<Rightarrow> pm | Some r \<Rightarrow> apply_record now r pm)"

lemma refresh_keeps [simp]:
  "pm_id (refresh now rs pm) = pm_id pm" "pm_schema_id (refresh now rs pm) = pm_schema_id pm"
  "pm_field_name (refresh now rs pm) = pm_field_name pm" "pm_key (refresh now rs pm) = pm_key pm"
  "pm_allow_list (refresh now rs pm) = pm_allow_list pm"
  "pm_created_at (refresh now rs pm) = pm_created_at pm"
  by (simp_all add: refresh_def split: option.splits)

definition new_rows ::
  "pdp_env \<Rightarrow> string \<Rightarrow> (string \<rightharpoonup> policy_metadata) \<Rightarrow> create_record list \<Rightarrow> policy_metadata list" where
  "new_rows env sid m rs =
     map (\<lambda>(k, r). new_metadata (pe_uuid env k) sid (pe_clock env 0) r)
       (enumerate 0 (filter (\<lambda>r. m (cr_field_name r) = None) rs))"

lemma create_loop_eq:
  assumes "\<And>f pm. m f = Some pm \<Longrightarrow> pm_field_name pm = f"
  shows "foldl (create_step env sid) \<lparr>cl_existing = m, cl_new = [], cl_updated = []\<rparr> rs =
    \<lparr>cl_existing = (\<lambda>f. map_option (refresh (pe_clock env 0) rs) (m f)),
     cl_new = new_rows env sid m rs,
     cl_updated = map cr_field_name (filter (\<lambda>r. m (cr_field_name r) \<noteq> None) rs)\<rparr>"
proof (induction rs rule: rev_induct)
  case Nil
  show ?case by (simp add: new_rows_def refresh_def last_record_def fun_eq_iff option.map_ident)
next
  case (snoc r rs)
  show ?case
  proof (cases "m (cr_field_name r)")
    case None
    have "map_option (refresh (pe_clock env 0) rs) (m f) = map_option (refresh (pe_clock env 0) (rs @ [r])) (m f)" for f
      using None assms [of f] by (cases "m f") (auto simp: refresh_def)
    with None snoc show ?thesis
      by (simp add: create_step_def new_rows_def enumerate_append_eq Let_def)
  next
    case (Some pm)
    have "((\<lambda>f. map_option (refresh (pe_clock env 0) rs) (m f))
             (cr_field_name r \<mapsto> apply_record (pe_clock env 0) r (refresh (pe_clock env 0) rs pm))) f =
          map_option (refresh (pe_clock env 0) (rs @ [r])) (m f)" for f
      using Some assms [of f] assms [of "cr_field_name r"]
      by (cases "m f") (auto simp: refresh_def split: option.splits)
    with Some snoc show ?thesis
      by (simp add: create_step_def new_rows_def Let_def fun_eq_iff)
  qed
qed

section \<open>Writing the changed rows back\<close>

definition refresh_named :: "time \<Rightarrow> string \<Rightarrow> create_record list \<Rightarrow> string set \<Rightarrow> pdp_table \<Rightarrow> pdp_table" where
  "refresh_named now sid rs names t =
     sql_update (\<lambda>x. pm_schema_id x = sid \<and> pm_field_name x \<in> names) (refresh now rs) t"

lemma refresh_named_empty [simp]: "refresh_named now sid rs {} t = t"
  by (simp add: refresh_named_def sql_update_def)

lemma write_selected_refresh:
  assumes ok: "table_ok pm_clash t" and pm: "pm \<in> set t" "pm_schema_id pm = sid" "pm_field_name pm = f"
    and f: "f \<in> set (map cr_field_name rs)"
  shows "write_selected (refresh now rs pm) (refresh_named now sid rs names t) =
         refresh_named now sid rs (insert f names) t"
proof -
  obtain r where r: "last_record rs f = Some r" using f last_record_None_iff by blast
  have id: "pm_id z = pm_id pm \<longleftrightarrow> pm_schema_id z = sid \<and> pm_field_name z = f" if "z \<in> set t" for z
    using that pm pm_fields.ok_key_inj [OF ok that pm(1)] pm_table.ok_key_inj [OF ok that pm(1)]
    by (auto simp: pm_key_def)
  have same: "z = pm" if "z \<in> set t" "pm_id z = pm_id pm" for z
    using pm_table.ok_key_inj [OF ok that(1) pm(1) that(2)] .
  have "(if pm_id y = pm_id pm then y\<lparr>pm_display_name := pm_display_name (refresh now rs pm),
            pm_description := pm_description (refresh now rs pm), pm_source := pm_source (refresh now rs pm),
            pm_policy_class := pm_policy_class (refresh now rs pm),
            pm_policy_params := pm_policy_params (refresh now rs pm), pm_owner := pm_owner (refresh now rs pm),
            pm_updated_at := pm_updated_at (refresh now rs pm)\<rparr> else y) =
        (if pm_schema_id z = sid \<and> pm_field_name z \<in> insert f names then refresh now rs z else z)"
    if z: "z \<in> set t"
      and y: "y = (if pm_schema_id z = sid \<and> pm_field_name z \<in> names then refresh now rs z else z)" for y z
  proof (cases "pm_id z = pm_id pm")
    case True
    then have "z = pm" by (rule same [OF z])
    then show ?thesis using y r pm(2,3) by (simp add: refresh_def apply_record_def)
  next
    case False
    then show ?thesis using y id [OF z] by auto
  qed
  then show ?thesis by (simp add: write_selected_def refresh_named_def sql_update_def)
qed

lemma update_rows_refresh:
  assumes ok: "table_ok pm_clash t"
    and fs: "\<And>f. f \<in> set fs \<Longrightarrow> f \<in> set (map cr_field_name rs) \<and>
      (\<exists>pm \<in> set t. m f = Some pm \<and> pm_schema_id pm = sid \<and> pm_field_name pm = f)"
    and run: "update_rows env (map (\<lambda>f. refresh now rs (the (m f))) fs) (refresh_named now sid rs names t) = Inr t'"
  shows "t' = refresh_named now sid rs (names \<union> set fs) t"
  using fs run
proof (induction fs arbitrary: names)
  case Nil
  then show ?case by (simp add: update_rows_def)
next
  case (Cons f fs)
  obtain pm where pm: "pm \<in> set t" "m f = Some pm" "pm_schema_id pm = sid" "pm_field_name pm = f"
    and f: "f \<in> set (map cr_field_name rs)"
    using Cons.prems(1) [of f] by auto
  have "t' = refresh_named now sid rs (insert f names \<union> set fs) t"
  proof (rule Cons.IH)
    show "f \<in> set (map cr_field_name rs) \<and>
        (\<exists>pm \<in> set t. m f = Some pm \<and> pm_schema_id pm = sid \<and> pm_field_name pm = f)" if "f \<in> set fs" for f
      using Cons.prems(1) that by simp
    show "update_rows env (map (\<lambda>f. refresh now rs (the (m f))) fs)
        (refresh_named now sid rs (insert f names) t) = Inr t'"
      using Cons.prems(2) write_selected_refresh [OF ok pm(1,3,4) f] pm(2)
      by (simp add: update_rows_def split: if_splits)
  qed
  then show ?case by simp
qed

section \<open>The whole operation\<close>

definition replaced_table :: "pdp_env \<Rightarrow> string \<Rightarrow> create_record list \<Rightarrow> pdp_table \<Rightarrow> pdp_table" where
  "replaced_table env sid rs t =
     sql_update (\<lambda>pm. pm_schema_id pm = sid) (refresh (pe_clock env 0) rs)
       (sql_delete (\<lambda>pm. pm_schema_id pm = sid \<and> pm_field_name pm \<notin> set (map cr_field_name rs)) t)
     @ new_rows env sid (existing_map (sql_where (\<lambda>pm. pm_schema_id pm = sid) t)) rs"

lemma existing_map_lookup:
  assumes "table_ok pm_clash t"
  shows "existing_map (sql_where (\<lambda>pm. pm_schema_id pm = sid) t) f = Some pm \<longleftrightarrow>
    pm \<in> set t \<and> pm_schema_id pm = sid \<and> pm_field_name pm = f"
proof -
  let ?rows = "sql_where (\<lambda>pm. pm_schema_id pm = sid) t"
  have inj: "inj_on pm_field_name (set ?rows)"
    using pm_fields.ok_key_inj [OF assms] by (auto simp: inj_on_def pm_key_def)
  have "distinct t"
    using assms pm_clash_def unfolding table_ok_def by (induction t) auto
  then have "distinct (map fst (rev (map (\<lambda>pm. (pm_field_name pm, pm)) ?rows)))"
    using inj by (simp add: rev_map [symmetric] comp_def distinct_map sql_where_def)
  then show ?thesis
    unfolding existing_map_def by (auto simp: map_of_eq_Some_iff)
qed

lemma create_policy_metadata_Inr:
  assumes run: "create_policy_metadata e env req t = (Inr resp, t')"
  defines "sid \<equiv> mc_schema_id req" and "rs \<equiv> mc_records req"
  defines "m \<equiv> existing_map (sql_where (\<lambda>pm. pm_schema_id pm = sid) t)"
  obtains t2 where
    "sql_insert_all pm_clash (new_rows env sid m rs)
       (sql_delete (\<lambda>pm. pm_id pm \<in> set (map pm_id (filter (\<lambda>pm. pm_field_name pm \<notin> set (map cr_field_name rs))
          (sql_where (\<lambda>pm. pm_schema_id pm = sid) t)))) t) = Some t2"
    "update_rows env (map (\<lambda>f. refresh (pe_clock env 0) rs (the (m f)))
       (map cr_field_name (filter (\<lambda>r. m (cr_field_name r) \<noteq> None) rs))) t2 = Inr t'"
    "\<forall>r \<in> set rs. has_class e (cr_policy_class r)"
proof -
  have mk: "m f = Some pm \<Longrightarrow> pm_field_name pm = f" for f pm
    unfolding m_def existing_map_def by (drule map_of_SomeD) auto
  have loop: "foldl (create_step env sid) \<lparr>cl_existing = m, cl_new = [], cl_updated = []\<rparr> rs =
    \<lparr>cl_existing = (\<lambda>f. map_option (refresh (pe_clock env 0) rs) (m f)),
     cl_new = new_rows env sid m rs,
     cl_updated = map cr_field_name (filter (\<lambda>r. m (cr_field_name r) \<noteq> None) rs)\<rparr>"
    by (rule create_loop_eq) (rule mk)
  have upd: "map (\<lambda>f. the (map_option (refresh (pe_clock env 0) rs) (m f)))
       (map cr_field_name (filter (\<lambda>r. m (cr_field_name r) \<noteq> None) rs)) =
     map (\<lambda>f. refresh (pe_clock env 0) rs (the (m f)))
       (map cr_field_name (filter (\<lambda>r. m (cr_field_name r) \<noteq> None) rs))"
    by (auto simp: option.map_sel)
  have cls: "fold_res (\<lambda>_ r. check_policy_class e (cr_policy_class r)) () rs = Inr u \<Longrightarrow>
      \<forall>r \<in> set rs. has_class e (cr_policy_class r)" for u :: unit and rs
    by (induction rs) (auto simp: bind_res_Inr_iff check_policy_class_def split: if_splits)
  define F where "F = fold_res (\<lambda>_ r. check_policy_class e (cr_policy_class r)) () rs"
  define X where "X = sql_insert_all pm_clash (new_rows env sid m rs)
       (sql_delete (\<lambda>pm. pm_id pm \<in> set (map pm_id (filter (\<lambda>pm. pm_field_name pm \<notin> set (map cr_field_name rs))
          (sql_where (\<lambda>pm. pm_schema_id pm = sid) t)))) t)"
  define U where "U = update_rows env (map (\<lambda>f. refresh (pe_clock env 0) rs (the (m f)))
       (map cr_field_name (filter (\<lambda>r. m (cr_field_name r) \<noteq> None) rs)))"
  note run' = run [unfolded create_policy_metadata_def Let_def, folded sid_def rs_def, folded m_def,
      unfolded loop create_loop.simps upd, folded F_def X_def U_def]
  obtain u where u: "F = Inr u" using run' by (cases F) simp_all
  obtain t2 where t2: "X = Some t2" using run' by (cases X) (simp_all add: u split: if_splits)
  have "U t2 = Inr t'"
    using run' by (cases "U t2") (simp_all add: u t2 split: if_splits)
  then show thesis using that t2 cls [of rs u] u by (simp add: X_def U_def F_def)
qed

lemma create_policy_metadata_replaces:
  assumes ok: "table_ok pm_clash t" and run: "create_policy_metadata e env req t = (Inr resp, t')"
  shows "t' = replaced_table env (mc_schema_id req) (mc_records req) t"
proof -
  define sid rs now where "sid = mc_schema_id req" "rs = mc_records req" "now = pe_clock env 0"
  define m where "m = existing_map (sql_where (\<lambda>pm. pm_schema_id pm = sid) t)"
  define gone where "gone = (\<lambda>pm :: policy_metadata. pm_schema_id pm = sid \<and> pm_field_name pm \<notin> set (map cr_field_name rs))"
  define fs where "fs = map cr_field_name (filter (\<lambda>r. m (cr_field_name r) \<noteq> None) rs)"
  obtain t2 where ins: "sql_insert_all pm_clash (new_rows env sid m rs)
       (sql_delete (\<lambda>pm. pm_id pm \<in> set (map pm_id (filter (\<lambda>pm. pm_field_name pm \<notin> set (map cr_field_name rs))
          (sql_where (\<lambda>pm. pm_schema_id pm = sid) t)))) t) = Some t2"
    and upd: "update_rows env (map (\<lambda>f. refresh now rs (the (m f))) fs) t2 = Inr t'"
    using create_policy_metadata_Inr [OF run] unfolding sid_rs_now_def m_def fs_def by blast
  have "pm_id pm \<in> set (map pm_id (filter (\<lambda>pm. pm_field_name pm \<notin> set (map cr_field_name rs))
          (sql_where (\<lambda>pm. pm_schema_id pm = sid) t))) \<longleftrightarrow> gone pm" if "pm \<in> set t" for pm
    using that pm_table.ok_key_inj [OF ok that] by (auto simp: gone_def)
  then have del: "sql_delete (\<lambda>pm. pm_id pm \<in> set (map pm_id (filter (\<lambda>pm. pm_field_name pm \<notin> set (map cr_field_name rs))
          (sql_where (\<lambda>pm. pm_schema_id pm = sid) t)))) t = sql_delete gone t"
    unfolding sql_delete_def by (metis (mono_tags, lifting) filter_cong)
  have t2: "t2 = sql_delete gone t @ new_rows env sid m rs"
    using sql_insert_all_Some [OF ins] del by simp
  have ok2: "table_ok pm_clash t2"
    using ins table_ok_insert_all table_ok_delete [OF ok] unfolding del by blast
  have m: "m f = Some pm \<longleftrightarrow> pm \<in> set t \<and> pm_schema_id pm = sid \<and> pm_field_name pm = f" for f pm
    unfolding m_def by (rule existing_map_lookup [OF ok])
  have "t' = refresh_named now sid rs ({} \<union> set fs) t2"
  proof (rule update_rows_refresh [OF ok2])
    fix f assume "f \<in> set fs"
    then obtain r pm where "r \<in> set rs" "f = cr_field_name r" "m f = Some pm"
      by (auto simp: fs_def)
    then show "f \<in> set (map cr_field_name rs) \<and> (\<exists>pm \<in> set t2. m f = Some pm \<and> pm_schema_id pm = sid \<and> pm_field_name pm = f)"
      using m [of f pm] by (auto simp: t2 gone_def)
  qed (use upd in simp)
  moreover have "pm_field_name x \<in> set fs" if "x \<in> set t" "pm_schema_id x = sid" "\<not> gone x" for x
    using that m [of "pm_field_name x" x] by (auto simp: fs_def gone_def)
  moreover have "map (\<lambda>r. if pm_schema_id r = sid \<and> pm_field_name r \<in> set fs then refresh now rs r else r)
      (new_rows env sid m rs) = new_rows env sid m rs"
  proof (rule map_idI)
    fix x assume "x \<in> set (new_rows env sid m rs)"
    then have "m (pm_field_name x) = None"
      by (auto simp: new_rows_def new_metadata_def in_set_enumerate_eq dest!: nth_mem)
    then have "pm_field_name x \<notin> set fs" by (auto simp: fs_def)
    then show "(if pm_schema_id x = sid \<and> pm_field_name x \<in> set fs then refresh now rs x else x) = x" by simp
  qed
  ultimately show ?thesis
    unfolding replaced_table_def sid_rs_now_def [symmetric] m_def [symmetric] gone_def [symmetric] t2
    by (auto simp: refresh_named_def sql_update_def sql_delete_def)
qed

lemma create_policy_metadata_error:
  "fst (create_policy_metadata e env req t) = Inl err \<Longrightarrow> snd (create_policy_metadata e env req t) = t"
  by (auto simp: create_policy_metadata_def split: sum.splits)

lemma set_new_rows:
  "pm \<in> set (new_rows env sid m rs) \<Longrightarrow>
     \<exists>r \<in> set rs. m (cr_field_name r) = None \<and> pm_schema_id pm = sid \<and> pm_field_name pm = cr_field_name r \<and>
       pm_policy_class pm = cr_policy_class r \<and> pm_allow_list pm = Map.empty"
  by (fastforce simp: new_rows_def new_metadata_def in_set_enumerate_eq dest!: nth_mem)

lemma new_rows_cover:
  assumes "r \<in> set rs" "m (cr_field_name r) = None"
  shows "\<exists>pm \<in> set (new_rows env sid m rs). pm_field_name pm = cr_field_name r \<and> pm_schema_id pm = sid"
proof -
  let ?rs = "filter (\<lambda>r. m (cr_field_name r) = None) rs"
  obtain k where "k < length ?rs" "?rs ! k = r"
    using assms by (metis (mono_tags, lifting) in_set_conv_nth filter_set Set.mem_Collect_eq set_filter)
  then show ?thesis
    by (force simp: new_rows_def new_metadata_def in_set_enumerate_eq image_iff intro!: bexI [of _ "(k, r)"])
qed

text \<open>The rows a request leaves.\<close>

lemma replaced_table_mine:
  "{pm \<in> set (replaced_table env sid rs t). pm_schema_id pm = sid} =
     refresh (pe_clock env 0) rs ` {pm \<in> set t. pm_schema_id pm = sid \<and> pm_field_name pm \<in> set (map cr_field_name rs)} \<union>
     set (new_rows env sid (existing_map (sql_where (\<lambda>pm. pm_schema_id pm = sid) t)) rs)"
proof -
  let ?m = "existing_map (sql_where (\<lambda>pm. pm_schema_id pm = sid) t)"
  have "{pm \<in> set (new_rows env sid ?m rs). pm_schema_id pm = sid} = set (new_rows env sid ?m rs)"
    using set_new_rows by fastforce
  moreover have "{pm \<in> set (sql_update (\<lambda>pm. pm_schema_id pm = sid) (refresh (pe_clock env 0) rs)
        (sql_delete (\<lambda>pm. pm_schema_id pm = sid \<and> pm_field_name pm \<notin> set (map cr_field_name rs)) t)). pm_schema_id pm = sid} =
      refresh (pe_clock env 0) rs ` {pm \<in> set t. pm_schema_id pm = sid \<and> pm_field_name pm \<in> set (map cr_field_name rs)}"
    by (auto simp: set_sql_update image_iff)
  moreover have "{pm \<in> A \<union> B. p pm} = {pm \<in> A. p pm} \<union> {pm \<in> B. p pm}" for A B :: "policy_metadata set" and p by blast
  ultimately show ?thesis unfolding replaced_table_def set_append by simp
qed

lemma replaced_table_fields:
  assumes "table_ok pm_clash t"
  shows "pm_field_name ` {pm \<in> set (replaced_table env sid rs t). pm_schema_id pm = sid} = set (map cr_field_name rs)"
proof -
  let ?m = "existing_map (sql_where (\<lambda>pm. pm_schema_id pm = sid) t)"
  let ?kept = "{pm \<in> set t. pm_schema_id pm = sid \<and> pm_field_name pm \<in> set (map cr_field_name rs)}"
  have new: "pm \<in> set (new_rows env sid ?m rs) \<Longrightarrow> pm_field_name pm \<in> set (map cr_field_name rs)" for pm
    using set_new_rows by fastforce
  have "f \<in> pm_field_name ` {pm \<in> set (replaced_table env sid rs t). pm_schema_id pm = sid}"
    if f: "f \<in> set (map cr_field_name rs)" for f
  proof (cases "?m f")
    case None
    obtain r where "r \<in> set rs" "f = cr_field_name r" using f by auto
    then obtain pm where "pm \<in> set (new_rows env sid ?m rs)" "pm_field_name pm = f"
      using new_rows_cover [of r rs ?m env sid] None by auto
    then show ?thesis unfolding replaced_table_mine by (auto simp: image_iff)
  next
    case (Some pm)
    then have "pm \<in> ?kept" "pm_field_name pm = f" using existing_map_lookup [OF assms, of sid] f by auto
    then have "refresh (pe_clock env 0) rs pm \<in> refresh (pe_clock env 0) rs ` ?kept"
      "f = pm_field_name (refresh (pe_clock env 0) rs pm)" by simp_all
    then show ?thesis unfolding replaced_table_mine by blast
  qed
  then show ?thesis using new unfolding replaced_table_mine by auto
qed

lemma replaced_table_others:
  "sql_where (\<lambda>pm. pm_schema_id pm \<noteq> sid) (replaced_table env sid rs t) = sql_where (\<lambda>pm. pm_schema_id pm \<noteq> sid) t"
proof -
  have "filter (\<lambda>pm. pm_schema_id pm \<noteq> sid) (new_rows env sid m rs) = []" for m
    using set_new_rows by (fastforce simp: filter_empty_conv)
  moreover have "filter (\<lambda>pm. pm_schema_id pm \<noteq> sid) (sql_update (\<lambda>pm. pm_schema_id pm = sid) (refresh now rs)
      (sql_delete (\<lambda>pm. pm_schema_id pm = sid \<and> P pm) t)) = filter (\<lambda>pm. pm_schema_id pm \<noteq> sid) t" for now P
    by (induction t) (auto simp: sql_update_def sql_delete_def)
  ultimately show ?thesis unfolding replaced_table_def sql_where_def by simp
qed

lemma replaced_table_class:
  assumes "pm \<in> set (replaced_table env sid rs t)" "pm_schema_id pm = sid"
  shows "\<exists>r \<in> set rs. cr_field_name r = pm_field_name pm \<and> cr_policy_class r = pm_policy_class pm"
proof -
  have "pm \<in> {pm \<in> set (replaced_table env sid rs t). pm_schema_id pm = sid}" using assms by simp
  then consider (kept) old where "pm = refresh (pe_clock env 0) rs old" "pm_field_name old \<in> set (map cr_field_name rs)"
    | (new) "pm \<in> set (new_rows env sid (existing_map (sql_where (\<lambda>pm. pm_schema_id pm = sid) t)) rs)"
    unfolding replaced_table_mine by blast
  then show ?thesis
  proof cases
    case (kept old)
    then obtain r where "last_record rs (pm_field_name old) = Some r" using last_record_None_iff by blast
    with kept(1) last_record_SomeD [OF this] show ?thesis by (auto simp: refresh_def)
  next
    case new
    then show ?thesis using set_new_rows by fastforce
  qed
qed

end
