(* ===== verification/Http.thy ===== *)
theory Http
  imports Prelude
begin

text \<open>
  What a handler writes to its \<^verbatim>\<open>http.ResponseWriter\<close>: the shared helpers of
  \<^verbatim>\<open>internal/utils/utils.go\<close> and of \<^verbatim>\<open>internal/ce/utils/http_response.go\<close>.
  A reply is the status code with the value that is encoded to JSON, with an error object, or
  with no body.
\<close>

datatype ('b, 'e) reply = Success nat 'b | Failure nat 'e | NoBody nat

fun status_code :: "('b, 'e) reply \<Rightarrow> nat" where
  "status_code (Success n _) = n"
| "status_code (Failure n _) = n"
| "status_code (NoBody n) = n"

fun reply_body :: "('b, 'e) reply \<Rightarrow> 'b option" where
  "reply_body (Success _ b) = Some b"
| "reply_body _ = None"

text \<open>An error message is a literal of the source or the text of an error value.\<close>

datatype 'e message = Literal string | ErrorText 'e

definition respond_with_success :: "nat \<Rightarrow> 'b \<Rightarrow> ('b, 'e) reply" where
  "respond_with_success n b = Success n b"

definition respond_with_error :: "nat \<Rightarrow> 'e \<Rightarrow> ('b, 'e) reply" where
  "respond_with_error n e = Failure n e"

abbreviation (input) StatusOK :: nat where "StatusOK \<equiv> 200"
abbreviation (input) StatusCreated :: nat where "StatusCreated \<equiv> 201"
abbreviation (input) StatusNoContent :: nat where "StatusNoContent \<equiv> 204"
abbreviation (input) StatusBadRequest :: nat where "StatusBadRequest \<equiv> 400"
abbreviation (input) StatusUnauthorized :: nat where "StatusUnauthorized \<equiv> 401"
abbreviation (input) StatusForbidden :: nat where "StatusForbidden \<equiv> 403"
abbreviation (input) StatusNotFound :: nat where "StatusNotFound \<equiv> 404"
abbreviation (input) StatusMethodNotAllowed :: nat where "StatusMethodNotAllowed \<equiv> 405"
abbreviation (input) StatusRequestTimeout :: nat where "StatusRequestTimeout \<equiv> 408"
abbreviation (input) StatusConflict :: nat where "StatusConflict \<equiv> 409"
abbreviation (input) StatusInternalServerError :: nat where "StatusInternalServerError \<equiv> 500"
abbreviation (input) StatusServiceUnavailable :: nat where "StatusServiceUnavailable \<equiv> 503"

text \<open>\<^verbatim>\<open>PanicRecoveryMiddleware\<close>: \<open>None\<close> is a handler that panicked before it wrote.\<close>

definition panic_recovery :: "('b, string) reply option \<Rightarrow> ('b, string) reply" where
  "panic_recovery r =
     (case r of None \<Rightarrow> respond_with_error StatusInternalServerError ''Internal server error''
      | Some rep \<Rightarrow> rep)"

definition health_handler :: "string \<Rightarrow> ((string \<times> string) list, 'e) reply" where
  "health_handler service =
     respond_with_success StatusOK [(''service'', service), (''status'', ''healthy'')]"

lemmas reply_defs = respond_with_success_def respond_with_error_def

end
