(* ===== verification/PDP_Handler.thy ===== *)
theory PDP_Handler
  imports PDP Http
begin

text \<open>
  The HTTP handlers of the Policy Decision Point (\<^verbatim>\<open>internal/pdp/handler/handler.go\<close>).
  A request body is given decoded: \<open>None\<close> is a body that \<^verbatim>\<open>json.Decoder\<close>
  refuses. A handler returns its reply and the table it leaves.
\<close>

type_synonym 'b pdp_reply = "('b, pdp_error message) reply"

definition respond_with_policy_service_error :: "pdp_error \<Rightarrow> 'b pdp_reply" where
  "respond_with_policy_service_error err =
     (case err of
        ErrPolicyMetadataNotFound _ \<Rightarrow> respond_with_error StatusNotFound (ErrorText err)
      | ErrAllowListEntryNotFound _ \<Rightarrow> respond_with_error StatusNotFound (ErrorText err)
      | ErrUnknownPolicyClass _ \<Rightarrow> respond_with_error StatusBadRequest (ErrorText err)
      | _ \<Rightarrow> respond_with_error StatusInternalServerError (Literal ''internal server error''))"

definition handle_create_policy_metadata ::
  "policy_engine \<Rightarrow> pdp_env \<Rightarrow> metadata_create_request option \<Rightarrow> pdp_table \<Rightarrow>
   metadata_response list pdp_reply \<times> pdp_table" where
  "handle_create_policy_metadata e env body t =
     (case body of
        None \<Rightarrow> (respond_with_error StatusBadRequest (Literal ''Invalid request body''), t)
      | Some req \<Rightarrow>
          if trim_space (mc_schema_id req) = '''' then
            (respond_with_error StatusBadRequest (Literal ''schemaId is required and cannot be empty''), t)
          else (case create_policy_metadata e env req t of
             (Inl (ErrUnknownPolicyClass c), t') \<Rightarrow>
               (respond_with_error StatusBadRequest (ErrorText (ErrUnknownPolicyClass c)), t')
           | (Inl err, t') \<Rightarrow> (respond_with_error StatusInternalServerError (ErrorText err), t')
           | (Inr resp, t') \<Rightarrow> (respond_with_success StatusCreated resp, t')))"

definition handle_list_policy_metadata ::
  "pdp_env \<Rightarrow> string \<Rightarrow> pdp_table \<Rightarrow> metadata_response list pdp_reply" where
  "handle_list_policy_metadata env schema_param t =
     (case list_policy_metadata env (trim_space schema_param) t of
        Inl err \<Rightarrow> respond_with_policy_service_error err
      | Inr resp \<Rightarrow> respond_with_success StatusOK resp)"

definition handle_patch_policy_metadata ::
  "policy_engine \<Rightarrow> pdp_env \<Rightarrow> string \<Rightarrow> metadata_patch_request option \<Rightarrow> pdp_table \<Rightarrow>
   metadata_response pdp_reply \<times> pdp_table" where
  "handle_patch_policy_metadata e env i body t =
     (case body of
        None \<Rightarrow> (respond_with_error StatusBadRequest (Literal ''Invalid request body''), t)
      | Some req \<Rightarrow>
          if patch_is_empty req then
            (respond_with_error StatusBadRequest (Literal ''at least one editable field is required''), t)
          else if is_set (mp_policy_class req) \<and> patch_value (mp_policy_class req) = None then
            (respond_with_error StatusBadRequest (Literal ''policyClass cannot be null''), t)
          else (case patch_policy_metadata e env i req t of
             (Inl err, t') \<Rightarrow> (respond_with_policy_service_error err, t')
           | (Inr resp, t') \<Rightarrow> (respond_with_success StatusOK resp, t')))"

definition handle_delete_policy_metadata ::
  "pdp_env \<Rightarrow> string \<Rightarrow> pdp_table \<Rightarrow> unit pdp_reply \<times> pdp_table" where
  "handle_delete_policy_metadata env i t =
     (case delete_policy_metadata env i t of
        (Inl err, t') \<Rightarrow> (respond_with_policy_service_error err, t')
      | (Inr _, t') \<Rightarrow> (NoBody StatusNoContent, t'))"

definition handle_revoke_allow_list_entry ::
  "pdp_env \<Rightarrow> string \<Rightarrow> string \<Rightarrow> pdp_table \<Rightarrow> unit pdp_reply \<times> pdp_table" where
  "handle_revoke_allow_list_entry env i app_param t =
     (let app = trim_space app_param in
      if app = '''' then (respond_with_error StatusBadRequest (Literal ''applicationId is required''), t)
      else (case revoke_allow_list_entry env i app t of
        (Inl err, t') \<Rightarrow> (respond_with_policy_service_error err, t')
      | (Inr _, t') \<Rightarrow> (NoBody StatusNoContent, t')))"

definition handle_update_allow_list ::
  "pdp_env \<Rightarrow> allow_list_update_request option \<Rightarrow> pdp_table \<Rightarrow>
   allow_list_update_record list pdp_reply \<times> pdp_table" where
  "handle_update_allow_list env body t =
     (case body of
        None \<Rightarrow> (respond_with_error StatusBadRequest (Literal ''Invalid request body''), t)
      | Some req \<Rightarrow>
          (case update_allow_list env req t of
             (Inl err, t') \<Rightarrow> (respond_with_error StatusInternalServerError (ErrorText err), t')
           | (Inr resp, t') \<Rightarrow> (respond_with_success StatusOK resp, t')))"

definition handle_get_policy_decision ::
  "policy_engine \<Rightarrow> pdp_env \<Rightarrow> decision_request option \<Rightarrow> pdp_table \<Rightarrow> decision_response pdp_reply" where
  "handle_get_policy_decision e env body t =
     (case body of
        None \<Rightarrow> respond_with_error StatusBadRequest (Literal ''Invalid request body'')
      | Some req \<Rightarrow>
          if dr_application_id req = '''' then
            respond_with_error StatusBadRequest (Literal ''applicationId is required'')
          else if dr_required_fields req = [] then
            respond_with_error StatusBadRequest (Literal ''requiredFields is required and cannot be empty'')
          else (case get_policy_decision e env req t of
             Inl err \<Rightarrow> respond_with_error StatusInternalServerError (ErrorText err)
           | Inr resp \<Rightarrow> respond_with_success StatusOK resp))"

end
