(* ===== verification/PDP_Properties.thy ===== *)
theory PDP_Properties
  imports PDP_Create_Facts PDP_Handler
begin

text \<open>
  Correctness of the Policy Decision Point: what a decision means, what grants and
  revocations do to later decisions, what replacing a schema's metadata keeps, and the
  invariant of the table under any sequence of requests.
\<close>

section \<open>The table's invariant\<close>

definition classes_loaded :: "policy_engine \<Rightarrow> pdp_table \<Rightarrow> bool" where
  "classes_loaded e t \<longleftrightarrow> (\<forall>pm \<in> set t. has_class e (pm_policy_class pm))"

definition pdp_inv :: "policy_engine \<Rightarrow> pdp_table \<Rightarrow> bool" where
  "pdp_inv e t \<longleftrightarrow> table_ok pm_clash t \<and> classes_loaded e t"

text \<open>The requests that may change the table, each with the reply it gets.\<close>

inductive pdp_step :: "policy_engine \<Rightarrow> pdp_table \<Rightarrow> pdp_table \<Rightarrow> bool" for e where
  step_create: "handle_create_policy_metadata e env body t = (rep, t') \<Longrightarrow> pdp_step e t t'"
| step_patch: "handle_patch_policy_metadata e env i pbody t = (prep, t') \<Longrightarrow> pdp_step e t t'"
| step_delete: "handle_delete_policy_metadata env i t = (urep, t') \<Longrightarrow> pdp_step e t t'"
| step_revoke: "handle_revoke_allow_list_entry env i app t = (urep, t') \<Longrightarrow> pdp_step e t t'"
| step_grant: "handle_update_allow_list env gbody t = (grep, t') \<Longrightarrow> pdp_step e t t'"

inductive pdp_reachable :: "policy_engine \<Rightarrow> pdp_table \<Rightarrow> bool" for e where
  reach_migrated: "pdp_reachable e []"
| reach_step: "pdp_reachable e t \<Longrightarrow> pdp_step e t t' \<Longrightarrow> pdp_reachable e t'"

lemma table_ok_update_keys:
  assumes "table_ok pm_clash t" "\<And>x. pm_id (f x) = pm_id x" "\<And>x. pm_key (f x) = pm_key x"
  shows "table_ok pm_clash (sql_update p f t)"
proof (rule table_ok_update [OF assms(1)])
  fix x y assume "pm_clash (if p x then f x else x) (if p y then f y else y)"
  moreover have "pm_id (if p z then f z else z) = pm_id z" "pm_key (if p z then f z else z) = pm_key z" for z
    using assms(2,3) by simp_all
  ultimately show "pm_clash x y" by (simp add: pm_clash_def)
qed

lemma classes_loaded_update:
  "classes_loaded e t \<Longrightarrow> (\<And>x. x \<in> set t \<Longrightarrow> p x \<Longrightarrow> has_class e (pm_policy_class x) \<Longrightarrow> has_class e (pm_policy_class (f x)))
    \<Longrightarrow> classes_loaded e (sql_update p f t)"
  by (auto simp: classes_loaded_def set_sql_update)

lemma pdp_inv_update:
  assumes "pdp_inv e t" "\<And>x. pm_id (f x) = pm_id x" "\<And>x. pm_key (f x) = pm_key x"
    "\<And>x. has_class e (pm_policy_class x) \<Longrightarrow> has_class e (pm_policy_class (f x))"
  shows "pdp_inv e (sql_update p f t)"
  using assms table_ok_update_keys classes_loaded_update unfolding pdp_inv_def by blast

lemma pdp_inv_delete: "pdp_inv e t \<Longrightarrow> pdp_inv e (sql_delete p t)"
  by (auto simp: pdp_inv_def table_ok_delete classes_loaded_def)

lemma pdp_inv_create:
  assumes "pdp_inv e t" "create_policy_metadata e env req t = (res, t')"
  shows "pdp_inv e t'"
proof (cases res)
  case (Inl err)
  then show ?thesis using assms create_policy_metadata_error [of e env req t err] by simp
next
  case (Inr resp)
  let ?m = "existing_map (sql_where (\<lambda>pm. pm_schema_id pm = mc_schema_id req) t)"
  have ok: "table_ok pm_clash t" using assms(1) by (simp add: pdp_inv_def)
  obtain t2 where
    ins: "sql_insert_all pm_clash (new_rows env (mc_schema_id req) ?m (mc_records req))
       (sql_delete (\<lambda>pm. pm_id pm \<in> set (map pm_id (filter (\<lambda>pm. pm_field_name pm \<notin> set (map cr_field_name (mc_records req)))
          (sql_where (\<lambda>pm. pm_schema_id pm = mc_schema_id req) t)))) t) = Some t2"
    and upd: "update_rows env (map (\<lambda>f. refresh (pe_clock env 0) (mc_records req) (the (?m f)))
       (map cr_field_name (filter (\<lambda>r. ?m (cr_field_name r) \<noteq> None) (mc_records req)))) t2 = Inr t'"
    and cls: "\<forall>r \<in> set (mc_records req). has_class e (cr_policy_class r)"
    using create_policy_metadata_Inr assms(2) Inr by metis
  have "table_ok pm_clash t2" by (rule table_ok_insert_all [OF table_ok_delete [OF ok] ins])
  then have "table_ok pm_clash t'"
    by (rule fold_res_invariant [OF upd [unfolded update_rows_def]])
      (auto simp: write_selected_def pm_key_def intro!: table_ok_update_keys split: if_splits)
  moreover have "classes_loaded e t'"
    unfolding create_policy_metadata_replaces [OF ok assms(2) [unfolded Inr]] replaced_table_def
    using assms(1) cls
    by (fastforce simp: pdp_inv_def classes_loaded_def set_sql_update refresh_def
        dest!: set_new_rows last_record_SomeD split: option.splits)
  ultimately show ?thesis by (simp add: pdp_inv_def)
qed

lemma pdp_inv_patch:
  assumes "pdp_inv e t" "patch_policy_metadata e env i req t = (res, t')"
  shows "pdp_inv e t'"
  using assms
  by (auto simp: patch_policy_metadata_def patch_columns_def pm_key_def check_patch_class_def
      check_policy_class_def Let_def intro!: pdp_inv_update
      split: if_splits option.splits sum.splits patch_field.splits)

lemma pdp_inv_set_allow_list: "pdp_inv e t \<Longrightarrow> pdp_inv e (set_allow_list pm t)"
  by (auto simp: set_allow_list_def pm_key_def intro!: pdp_inv_update)

lemma pdp_inv_revoke:
  "pdp_inv e t \<Longrightarrow> revoke_allow_list_entry env i app t = (res, t') \<Longrightarrow> pdp_inv e t'"
  by (auto simp: revoke_allow_list_entry_def Let_def intro!: pdp_inv_set_allow_list
      split: if_splits option.splits)

lemma pdp_inv_grant_loop:
  "fold_res (grant_step env app x) (m, t, resp) rs = Inr (m', t', resp') \<Longrightarrow> pdp_inv e t \<Longrightarrow> pdp_inv e t'"
proof (induction rs arbitrary: m t resp)
  case (Cons r rs)
  from Cons.prems(1) obtain m1 t1 resp1 where
    step: "grant_step env app x (m, t, resp) r = Inr (m1, t1, resp1)"
    and rest: "fold_res (grant_step env app x) (m1, t1, resp1) rs = Inr (m', t', resp')"
    by (auto simp: bind_res_Inr_iff)
  have "pdp_inv e t1"
    using step Cons.prems(2)
    by (auto simp: grant_step_def Let_def intro!: pdp_inv_set_allow_list split: option.splits if_splits)
  with Cons.IH [OF rest] show ?case by blast
qed simp

lemma pdp_inv_grant:
  "pdp_inv e t \<Longrightarrow> update_allow_list env req t = (res, t') \<Longrightarrow> pdp_inv e t'"
  by (auto simp: update_allow_list_def Let_def dest: pdp_inv_grant_loop
      split: if_splits option.splits sum.splits)

lemma pdp_inv_step: "pdp_step e t t' \<Longrightarrow> pdp_inv e t \<Longrightarrow> pdp_inv e t'"
proof (induction rule: pdp_step.induct)
  case (step_create env body t rep t')
  then show ?case
    by (cases body)
      (auto simp: handle_create_policy_metadata_def dest: pdp_inv_create
        split: if_splits prod.splits sum.splits pdp_error.splits)
next
  case (step_patch env i body t rep t')
  then show ?case
    by (cases body)
      (auto simp: handle_patch_policy_metadata_def dest: pdp_inv_patch
        split: if_splits prod.splits sum.splits)
next
  case (step_delete env i t rep t')
  then show ?case
    by (auto simp: handle_delete_policy_metadata_def delete_policy_metadata_def pdp_inv_delete split: if_splits)
next
  case (step_revoke env i app t rep t')
  then show ?case
    by (auto simp: handle_revoke_allow_list_entry_def Let_def dest: pdp_inv_revoke
        split: if_splits prod.splits sum.splits)
next
  case (step_grant env body t rep t')
  then show ?case
    by (cases body)
      (auto simp: handle_update_allow_list_def dest: pdp_inv_grant split: prod.splits sum.splits)
qed

text \<open>
  C36. Whatever requests the Policy Decision Point has served, its table has unique ids and at
  most one row per schema and field, and stores no policy class the engine has not loaded.
\<close>

lemma pdp_reachable_inv: "pdp_reachable e t \<Longrightarrow> pdp_inv e t"
proof (induction rule: pdp_reachable.induct)
  case reach_migrated
  show ?case by (simp add: pdp_inv_def classes_loaded_def)
next
  case (reach_step t t')
  then show ?case using pdp_inv_step by blast
qed

section \<open>Concrete inputs\<close>

definition sample_env :: "time \<Rightarrow> pdp_env" where
  "sample_env now = \<lparr>pe_clock = (\<lambda>_. now), pe_uuid = (\<lambda>n. ''new-'' @ replicate n CHR ''x''), pe_fails = (\<lambda>_. False)\<rparr>"

definition sample_record :: "string \<Rightarrow> string \<Rightarrow> create_record" where
  "sample_record f c =
     \<lparr>cr_field_name = f, cr_display_name = None, cr_description = None, cr_source = SourcePrimary,
      cr_policy_class = c, cr_policy_params = [], cr_owner = Some OwnerCitizen\<rparr>"

definition sample_row :: "string \<Rightarrow> string \<Rightarrow> string \<Rightarrow> string \<Rightarrow> allow_list \<Rightarrow> policy_metadata" where
  "sample_row i sid f c al =
     \<lparr>pm_id = i, pm_schema_id = sid, pm_field_name = f, pm_display_name = None, pm_description = None,
      pm_source = SourcePrimary, pm_policy_class = c, pm_policy_params = [], pm_allow_list = al,
      pm_owner = Some OwnerCitizen, pm_created_at = 0, pm_updated_at = 0\<rparr>"

definition sample_field :: "string \<Rightarrow> string \<Rightarrow> field_request" where
  "sample_field sid f = \<lparr>fr_field_name = f, fr_schema_id = sid\<rparr>"

definition sample_table :: pdp_table where
  "sample_table =
     [sample_row ''row-0'' ''person'' ''name'' ClassAllowlist [''app'' \<mapsto> \<lparr>al_expires_at = 100, al_updated_at = 0\<rparr>],
      sample_row ''row-1'' ''person'' ''nic'' ClassAllowlistConsent [''app'' \<mapsto> \<lparr>al_expires_at = 100, al_updated_at = 0\<rparr>]]"

definition sample_request :: decision_request where
  "sample_request = \<lparr>dr_application_id = ''app'',
     dr_required_fields = [sample_field ''person'' ''name'', sample_field ''person'' ''nic'']\<rparr>"

lemmas sample_defs = sample_env_def sample_row_def sample_field_def sample_table_def sample_request_def
  sample_record_def

lemma sample_table_ok: "pdp_inv rego_engine sample_table" "schema_ids_ok sample_table"
  "request_colon_free sample_request"
  by (auto simp: sample_defs pdp_inv_def table_ok_def pm_clash_def pm_key_def classes_loaded_def
      schema_ids_ok_def colon_free_def request_colon_free_def)

section \<open>Decisions\<close>

lemma decision_row_some:
  assumes "None \<notin> set (decision_rows req t)" "i < length (dr_required_fields req)"
  shows "decision_rows req t ! i = Some (map the (decision_rows req t) ! i)"
proof -
  have "decision_rows req t ! i \<noteq> None" using assms by (metis length_decision_rows nth_mem)
  then show ?thesis using assms(2) by auto
qed

lemma sample_decision:
  "\<exists>resp. get_policy_decision rego_engine (sample_env now) sample_request sample_table = Inr resp"
proof -
  have "None \<notin> set (decision_rows sample_request sample_table)"
    by (simp add: decision_rows_def sample_defs sql_where_def policy_map_def pm_key_string_def
        fr_key_string_def field_key_string_def)
  then show ?thesis by (auto simp: get_policy_decision_eq Let_def sample_env_def)
qed

text \<open>
  C9. With the embedded policies, a decision says that the application may access what it
  asked for exactly when every requested field has a row of that schema and name whose grant
  to the application has not expired; a granted field of the consent class is listed as
  requiring the owner's consent.
\<close>

lemma pdp_decision_correct:
  assumes ok: "table_ok pm_clash t" "schema_ids_ok t" "request_colon_free req"
    and run: "get_policy_decision rego_engine env req t = Inr resp"
  shows "(ds_app_authorized resp \<and> \<not> ds_app_access_expired resp \<longleftrightarrow>
           (\<forall>i < length (dr_required_fields req). \<exists>pm \<in> set t.
              names_field (dr_required_fields req ! i) pm \<and>
              pm_policy_class pm \<in> {ClassAllowlist, ClassAllowlistConsent} \<and>
              grant_valid (pe_clock env i) (dr_application_id req) pm)) \<and>
         (\<forall>i < length (dr_required_fields req). \<forall>pm \<in> set t.
            names_field (dr_required_fields req ! i) pm \<and> pm_policy_class pm = ClassAllowlistConsent \<and>
            grant_valid (pe_clock env i) (dr_application_id req) pm \<longrightarrow>
            decision_field_of pm \<in> set (ds_consent_required_fields resp))"
proof -
  let ?fs = "dr_required_fields req" and ?app = "dr_application_id req"
  note inr = get_policy_decision_Inr [OF run]
  define rows where "rows = map the (decision_rows req t)"
  have len: "length rows = length ?fs" by (simp add: rows_def)
  have row: "rows ! i \<in> set t \<and> names_field (?fs ! i) (rows ! i)" if "i < length ?fs" for i
    unfolding rows_def decision_row [OF ok that, symmetric] by (rule decision_row_some [OF inr(1) that])
  have only: "pm = rows ! i" if "i < length ?fs" "pm \<in> set t" "names_field (?fs ! i) pm" for i pm
    using row [OF that(1)] that names_field_unique [OF ok(1)] by blast
  have out: "outcome_of rego_engine env ?app i pm \<notin> {OutcomeDeny, OutcomeExpired} \<longleftrightarrow>
      pm_policy_class pm \<in> {ClassAllowlist, ClassAllowlistConsent} \<and> grant_valid (pe_clock env i) ?app pm" for i pm
    by (auto simp: outcome_rego_engine grant_valid_def)
  have "ds_app_authorized resp \<and> \<not> ds_app_access_expired resp \<longleftrightarrow>
      (\<forall>i < length ?fs. outcome_of rego_engine env ?app i (rows ! i) \<notin> {OutcomeDeny, OutcomeExpired})"
    unfolding inr(2,3) rows_def [symmetric] decided_empty_iff len by auto
  moreover have "decision_field_of (rows ! i) \<in> set (ds_consent_required_fields resp)"
    if "i < length ?fs" "pm_policy_class (rows ! i) = ClassAllowlistConsent"
      "grant_valid (pe_clock env i) ?app (rows ! i)" for i
    unfolding inr(5) rows_def [symmetric] set_decided len
    using that
    by (fastforce simp: outcome_rego_engine grant_valid_def ClassAllowlist_def ClassAllowlistConsent_def
        split: option.splits)
  ultimately show ?thesis using row only out by metis
qed

lemma pdp_decision_correct_witness:
  "\<exists>resp. get_policy_decision rego_engine (sample_env 50) sample_request sample_table = Inr resp \<and>
     ds_app_authorized resp \<and> \<not> ds_app_access_expired resp \<and>
     (\<exists>pm \<in> set sample_table. names_field (sample_field ''person'' ''nic'') pm \<and> grant_valid 50 ''app'' pm)"
proof -
  let ?r = "get_policy_decision rego_engine (sample_env 50) sample_request sample_table"
  obtain resp where resp: "?r = Inr resp" using sample_decision by blast
  have "\<forall>i < length (dr_required_fields sample_request). \<exists>pm \<in> set sample_table.
      names_field (dr_required_fields sample_request ! i) pm \<and>
      pm_policy_class pm \<in> {ClassAllowlist, ClassAllowlistConsent} \<and>
      grant_valid (pe_clock (sample_env 50) i) (dr_application_id sample_request) pm"
    by (auto simp: sample_defs names_field_def grant_valid_def less_Suc_eq)
  then have "ds_app_authorized resp \<and> \<not> ds_app_access_expired resp"
    using pdp_decision_correct [OF _ sample_table_ok(2,3) resp] sample_table_ok(1) by (simp add: pdp_inv_def)
  then show ?thesis
    using resp by (auto simp: sample_defs names_field_def grant_valid_def)
qed

text \<open>
  C35. Whatever the engine answers, a decision fails closed: a field whose evaluation is an
  error is reported as unauthorized, every field that is neither reported unauthorized,
  expired nor requiring consent was allowed by the engine, and no field is reported twice.
\<close>

lemma pdp_decision_fails_closed:
  assumes run: "get_policy_decision e env req t = Inr resp" and i: "i < length (dr_required_fields req)"
  shows "\<exists>pm. decision_rows req t ! i = Some pm \<and>
     (case decide e (decision_input (pe_clock env i) (dr_application_id req) pm) of
        (d, err) \<Rightarrow>
          (err \<noteq> None \<longrightarrow> \<not> ds_app_authorized resp \<and> decision_field_of pm \<in> set (ds_unauthorized_fields resp)) \<and>
          (dec_outcome d = OutcomeAllow \<or>
           decision_field_of pm \<in> set (ds_unauthorized_fields resp @ ds_expired_fields resp @
             ds_consent_required_fields resp))) \<and>
     length (ds_unauthorized_fields resp) + length (ds_expired_fields resp) +
       length (ds_consent_required_fields resp) \<le> length (dr_required_fields req)"
proof -
  let ?app = "dr_application_id req" and ?rows = "map the (decision_rows req t)"
  note inr = get_policy_decision_Inr [OF run]
  have ex: "ds_expired_fields resp = decided e env ?app OutcomeExpired 0 ?rows"
    using run by (auto simp: get_policy_decision_eq Let_def split: if_splits)
  obtain pm where pm: "decision_rows req t ! i = Some pm"
    using decision_row_some [OF inr(1) i] by blast
  have mem: "outcome_of e env ?app i pm = oc \<Longrightarrow> decision_field_of pm \<in> set (decided e env ?app oc 0 ?rows)" for oc
    unfolding set_decided using i pm by (intro CollectI exI [of _ i]) simp
  have count: "length (decided e env ?app OutcomeDeny n pms) + length (decided e env ?app OutcomeExpired n pms) +
      length (decided e env ?app OutcomeConsentRequired n pms) \<le> length pms" for n pms
    by (induction pms arbitrary: n) (auto intro: le_SucI)
  obtain d err where d: "decide e (decision_input (pe_clock env i) ?app pm) = (d, err)" by fastforce
  then have oc: "outcome_of e env ?app i pm = dec_outcome d" by (simp add: outcome_of_def)
  have "err \<noteq> None \<Longrightarrow> dec_outcome d = OutcomeDeny" using decide_error_denies d by (metis fst_conv snd_conv)
  then have "err \<noteq> None \<Longrightarrow> decision_field_of pm \<in> set (ds_unauthorized_fields resp) \<and> \<not> ds_app_authorized resp"
    using mem [of OutcomeDeny] oc inr(2,4) by (auto simp: ds_app_authorized_def)
  moreover have "dec_outcome d = OutcomeAllow \<or>
      decision_field_of pm \<in> set (ds_unauthorized_fields resp @ ds_expired_fields resp @ ds_consent_required_fields resp)"
    using mem [OF oc] inr(4,5) ex by (cases "dec_outcome d") auto
  ultimately show ?thesis
    using pm d count [of 0 ?rows] inr(4,5) ex by simp
qed

lemma pdp_decision_fails_closed_witness:
  "\<exists>resp. get_policy_decision rego_engine (sample_env 50) sample_request sample_table = Inr resp \<and>
     length (ds_unauthorized_fields resp) + length (ds_expired_fields resp) +
       length (ds_consent_required_fields resp) \<le> 2"
proof -
  obtain resp where resp: "get_policy_decision rego_engine (sample_env 50) sample_request sample_table = Inr resp"
    using sample_decision by blast
  have "length (dr_required_fields sample_request) = 2" by (simp add: sample_request_def)
  then show ?thesis using pdp_decision_fails_closed [OF resp, of 0] resp by auto
qed

section \<open>Grants and revocations\<close>

definition sample_grant :: allow_list_update_request where
  "sample_grant = \<lparr>au_application_id = ''app'',
     au_records = [sample_field ''person'' ''name'', sample_field ''person'' ''nic''],
     au_grant_duration = GrantDurationTypeOneMonth\<rparr>"

definition bare_table :: pdp_table where
  "bare_table = [sample_row ''row-0'' ''person'' ''name'' ClassAllowlist Map.empty,
                 sample_row ''row-1'' ''person'' ''nic'' ClassAllowlistConsent Map.empty]"

lemma bare_table_ok: "pdp_inv rego_engine bare_table" "schema_ids_ok bare_table"
  by (auto simp: sample_defs bare_table_def pdp_inv_def table_ok_def pm_clash_def pm_key_def
      classes_loaded_def schema_ids_ok_def colon_free_def)

lemma sample_grant_runs: "\<exists>resp t'. update_allow_list (sample_env 0) sample_grant bare_table = (Inr resp, t')"
proof -
  have "sort_key pm_key [a, b] = (if pm_key b < pm_key a then [b, a] else [a, b])" for a b :: policy_metadata
    by auto
  then show ?thesis
    by (simp add: update_allow_list_def sample_grant_def bare_table_def sample_defs Let_def grant_expiry_def
        GrantDurationTypeOneMonth_def policy_map_def pm_key_string_def fr_key_string_def
        field_key_string_def sql_where_def grant_step_def)
qed

text \<open>
  The row-by-row writes of a successful grant amount to one pass over the table: exactly
  the rows of the requested fields get the application's entry, with the expiry of the
  requested duration, and every other row and every other application's entry stays as it was.
\<close>

lemma grant_is_one_pass:
  assumes "table_ok pm_clash t" "schema_ids_ok t" "\<forall>r \<in> set (au_records req). colon_free (fr_schema_id r)"
    and "update_allow_list env req t = (Inr resp, t')" "au_records req \<noteq> []"
  shows "\<exists>x. grant_expiry (pe_clock env 0) (au_grant_duration req) = Some x \<and>
     t' = granted_table (au_application_id req) x (pe_clock env 0) (au_records req) t \<and>
     (\<forall>r \<in> set (au_records req). \<exists>pm \<in> set t'. names_field r pm \<and>
        pm_allow_list pm (au_application_id req) = Some \<lparr>al_expires_at = x, al_updated_at = pe_clock env 0\<rparr>)"
proof -
  obtain x where x: "grant_expiry (pe_clock env 0) (au_grant_duration req) = Some x"
    "t' = granted_table (au_application_id req) x (pe_clock env 0) (au_records req) t"
    "\<forall>r \<in> set (au_records req). \<exists>pm \<in> set t. names_field r pm"
    using update_allow_list_granted [OF assms] .
  have "\<exists>pm \<in> set t'. names_field r pm \<and>
      pm_allow_list pm (au_application_id req) = Some \<lparr>al_expires_at = x, al_updated_at = pe_clock env 0\<rparr>"
    if r: "r \<in> set (au_records req)" for r
  proof -
    obtain pm where pm: "pm \<in> set t" "names_field r pm" using x(3) r by blast
    then have "grant_row (au_application_id req) x (pe_clock env 0) pm \<in> set t'"
      using r unfolding x(2) granted_table_def by (auto simp: set_sql_update list_ex_iff image_iff)
    then show ?thesis using pm(2) by (intro bexI) (auto simp: grant_row_def names_field_def)
  qed
  then show ?thesis using x(1,2) by blast
qed

lemma grant_is_one_pass_witness:
  "\<exists>resp t' x. update_allow_list (sample_env 0) sample_grant bare_table = (Inr resp, t') \<and>
     t' = granted_table ''app'' x 0 (au_records sample_grant) bare_table"
proof -
  obtain resp t' where run: "update_allow_list (sample_env 0) sample_grant bare_table = (Inr resp, t')"
    using sample_grant_runs by blast
  show ?thesis
    using grant_is_one_pass [OF _ bare_table_ok(2) _ run] bare_table_ok(1) run
    by (auto simp: pdp_inv_def sample_grant_def sample_field_def sample_env_def colon_free_def)
qed

text \<open>When every requested field is granted, the decision is made and authorizes.\<close>

lemma all_granted_decides:
  assumes ok: "table_ok pm_clash t" "schema_ids_ok t" "request_colon_free req"
    and up: "\<not> pe_fails env FetchMetadata"
    and granted: "\<And>i. i < length (dr_required_fields req) \<Longrightarrow> \<exists>pm \<in> set t. names_field (dr_required_fields req ! i) pm \<and>
      pm_policy_class pm \<in> {ClassAllowlist, ClassAllowlistConsent} \<and>
      grant_valid (pe_clock env i) (dr_application_id req) pm"
  shows "\<exists>d. get_policy_decision rego_engine env req t = Inr d \<and> ds_app_authorized d \<and> \<not> ds_app_access_expired d"
proof -
  have row: "\<exists>pm. decision_rows req t ! i = Some pm \<and>
      outcome_of rego_engine env (dr_application_id req) i pm \<notin> {OutcomeDeny, OutcomeExpired}"
    if i: "i < length (dr_required_fields req)" for i
  proof -
    obtain pm where "pm \<in> set t" "names_field (dr_required_fields req ! i) pm"
      "pm_policy_class pm \<in> {ClassAllowlist, ClassAllowlistConsent}"
      "grant_valid (pe_clock env i) (dr_application_id req) pm"
      using granted [OF i] by blast
    then show ?thesis
      using decision_row [OF ok i, of pm] by (auto simp: outcome_rego_engine grant_valid_def split: option.splits)
  qed
  have "None \<notin> set (decision_rows req t)"
    using row unfolding in_set_conv_nth by fastforce
  then obtain d where d: "get_policy_decision rego_engine env req t = Inr d"
    using up by (auto simp: get_policy_decision_eq Let_def)
  have "outcome_of rego_engine env (dr_application_id req) i (map the (decision_rows req t) ! i)
      \<notin> {OutcomeDeny, OutcomeExpired}" if "i < length (dr_required_fields req)" for i
    using row [OF that] that by auto
  then have "ds_app_authorized d \<and> \<not> ds_app_access_expired d"
    unfolding get_policy_decision_Inr(2,3) [OF d] decided_empty_iff by simp
  with d show ?thesis by blast
qed

text \<open>What a successful grant leaves in the table.\<close>

lemma granted_rows:
  assumes inv: "pdp_inv rego_engine t" "schema_ids_ok t"
    and cf: "\<forall>r \<in> set (au_records req). colon_free (fr_schema_id r)"
    and run: "update_allow_list env req t = (Inr resp, t')" "au_records req \<noteq> []"
    and x: "grant_expiry (pe_clock env 0) (au_grant_duration req) = Some x"
  shows "pdp_inv rego_engine t'" "schema_ids_ok t'"
    and "\<forall>r \<in> set (au_records req). \<exists>pm \<in> set t'. names_field r pm \<and>
      pm_policy_class pm \<in> {ClassAllowlist, ClassAllowlistConsent} \<and>
      pm_allow_list pm (au_application_id req) = Some \<lparr>al_expires_at = x, al_updated_at = pe_clock env 0\<rparr>"
proof -
  let ?app = "au_application_id req" and ?now = "pe_clock env 0"
  have ok: "table_ok pm_clash t" using inv(1) by (simp add: pdp_inv_def)
  have t': "t' = granted_table ?app x ?now (au_records req) t"
    and ex: "\<forall>r \<in> set (au_records req). \<exists>pm \<in> set t. names_field r pm"
    using update_allow_list_granted [OF ok inv(2) cf run] x by auto
  show "pdp_inv rego_engine t'" using pdp_inv_grant [OF inv(1) run(1)] .
  show "schema_ids_ok t'"
    using inv(2) by (auto simp: t' granted_table_def schema_ids_ok_def set_sql_update)
  have "\<exists>pm \<in> set t'. names_field r pm \<and> pm_policy_class pm \<in> {ClassAllowlist, ClassAllowlistConsent} \<and>
      pm_allow_list pm ?app = Some \<lparr>al_expires_at = x, al_updated_at = ?now\<rparr>" if r: "r \<in> set (au_records req)" for r
  proof -
    obtain pm where pm: "pm \<in> set t" "names_field r pm" using ex r by blast
    have "grant_row ?app x ?now pm \<in> set t'"
      using pm r unfolding t' granted_table_def by (auto simp: set_sql_update list_ex_iff image_iff)
    moreover have "has_class rego_engine (pm_policy_class pm)"
      using inv(1) pm(1) by (simp add: pdp_inv_def classes_loaded_def)
    ultimately show ?thesis
      using pm(2) by (intro bexI [of _ "grant_row ?app x ?now pm"]) (auto simp: grant_row_def names_field_def)
  qed
  then show "\<forall>r \<in> set (au_records req). \<exists>pm \<in> set t'. names_field r pm \<and>
      pm_policy_class pm \<in> {ClassAllowlist, ClassAllowlistConsent} \<and>
      pm_allow_list pm ?app = Some \<lparr>al_expires_at = x, al_updated_at = ?now\<rparr>" by blast
qed

lemma granted_fields_decide:
  assumes "pdp_inv rego_engine t" "schema_ids_ok t" "request_colon_free req" "\<not> pe_fails env FetchMetadata"
    and "\<forall>r \<in> set (dr_required_fields req). \<exists>pm \<in> set t. names_field r pm \<and>
      pm_policy_class pm \<in> {ClassAllowlist, ClassAllowlistConsent} \<and> grant_valid x (dr_application_id req) pm"
    and "\<forall>n. pe_clock env n \<le> x"
  shows "\<exists>d. get_policy_decision rego_engine env req t = Inr d \<and> ds_app_authorized d \<and> \<not> ds_app_access_expired d"
proof (rule all_granted_decides [OF _ assms(2-4)])
  show "table_ok pm_clash t" using assms(1) by (simp add: pdp_inv_def)
  show "\<exists>pm \<in> set t. names_field (dr_required_fields req ! i) pm \<and>
      pm_policy_class pm \<in> {ClassAllowlist, ClassAllowlistConsent} \<and>
      grant_valid (pe_clock env i) (dr_application_id req) pm" if i: "i < length (dr_required_fields req)" for i
  proof -
    obtain pm where "pm \<in> set t" "names_field (dr_required_fields req ! i) pm"
      "pm_policy_class pm \<in> {ClassAllowlist, ClassAllowlistConsent}" "grant_valid x (dr_application_id req) pm"
      using assms(5) nth_mem [OF i] by blast
    moreover have "pe_clock env i \<le> x" using assms(6) by blast
    ultimately show ?thesis by (auto simp: grant_valid_def split: option.splits)
  qed
qed

text \<open>
  C16. After a successful grant, a decision on any of the granted fields authorizes the
  application, at every time up to the expiry of the grant.
\<close>

lemma granted_then_authorized:
  assumes inv: "pdp_inv rego_engine t" "schema_ids_ok t"
    and cf: "\<forall>r \<in> set (au_records req). colon_free (fr_schema_id r)"
    and run: "update_allow_list env req t = (Inr resp, t')" "au_records req \<noteq> []"
    and x: "grant_expiry (pe_clock env 0) (au_grant_duration req) = Some x"
    and dreq: "dr_application_id dreq = au_application_id req"
      "set (dr_required_fields dreq) \<subseteq> set (au_records req)"
    and env': "\<forall>n. pe_clock env' n \<le> x" "\<not> pe_fails env' FetchMetadata"
  shows "\<exists>d. get_policy_decision rego_engine env' dreq t' = Inr d \<and>
           ds_app_authorized d \<and> \<not> ds_app_access_expired d"
proof (rule granted_fields_decide [OF granted_rows(1,2) [OF inv cf run x]])
  show "request_colon_free dreq" using cf dreq(2) by (auto simp: request_colon_free_def list_all_iff)
  show "\<forall>r \<in> set (dr_required_fields dreq). \<exists>pm \<in> set t'. names_field r pm \<and>
      pm_policy_class pm \<in> {ClassAllowlist, ClassAllowlistConsent} \<and> grant_valid x (dr_application_id dreq) pm"
    using granted_rows(3) [OF inv cf run x] dreq by (fastforce simp: grant_valid_def)
qed (use env' in simp_all)

lemma granted_then_authorized_witness:
  "\<exists>resp t' d. update_allow_list (sample_env 0) sample_grant bare_table = (Inr resp, t') \<and>
     get_policy_decision rego_engine (sample_env hour) sample_request t' = Inr d \<and> ds_app_authorized d"
proof -
  obtain resp t' where run: "update_allow_list (sample_env 0) sample_grant bare_table = (Inr resp, t')"
    using sample_grant_runs by blast
  have "hour \<le> add_date 0 0 1 0"
    using add_month_bounds [of 0] by (simp add: day_def hour_def)
  then have "\<exists>d. get_policy_decision rego_engine (sample_env hour) sample_request t' = Inr d \<and>
      ds_app_authorized d \<and> \<not> ds_app_access_expired d"
    by (intro granted_then_authorized [OF bare_table_ok _ run, where x = "add_date 0 0 1 0"])
      (auto simp: sample_grant_def sample_field_def sample_request_def sample_env_def colon_free_def
        grant_expiry_def)
  with run show ?thesis by blast
qed

lemma revoke_Inr:
  assumes ok: "table_ok pm_clash t" and run: "revoke_allow_list_entry env i app t = (Inr u, t')"
    and pm: "pm \<in> set t" "pm_id pm = i"
  shows "t' = sql_update (\<lambda>r. pm_id r = i)
     (\<lambda>r. r\<lparr>pm_allow_list := (pm_allow_list pm)(app := None), pm_updated_at := pe_clock env 0\<rparr>) t"
    and "pm_allow_list pm app \<noteq> None"
proof -
  have "sql_first pm_id (\<lambda>r. pm_id r = i) t = Some pm"
    using pm_table.first_by_key [OF ok] pm by blast
  then show "t' = sql_update (\<lambda>r. pm_id r = i)
     (\<lambda>r. r\<lparr>pm_allow_list := (pm_allow_list pm)(app := None), pm_updated_at := pe_clock env 0\<rparr>) t"
    "pm_allow_list pm app \<noteq> None"
    using run pm(2) by (auto simp: revoke_allow_list_entry_def set_allow_list_def Let_def split: if_splits)
qed

text \<open>
  C17. After a successful revocation, every decision on a request that contains the field
  denies the application and reports the field as unauthorized, and no other row changed.
\<close>

lemma revoked_then_unauthorized:
  assumes ok: "table_ok pm_clash t" "schema_ids_ok t"
    and run: "revoke_allow_list_entry env i app t = (Inr u, t')"
    and pm: "pm \<in> set t" "pm_id pm = i"
    and dreq: "dr_application_id dreq = app" "request_colon_free dreq"
      "r \<in> set (dr_required_fields dreq)" "names_field r pm"
    and d: "get_policy_decision rego_engine env' dreq t' = Inr d"
  shows "\<not> ds_app_authorized d \<and> decision_field_of pm \<in> set (ds_unauthorized_fields d) \<and>
     sql_where (\<lambda>x. pm_id x \<noteq> i) t' = sql_where (\<lambda>x. pm_id x \<noteq> i) t"
proof -
  define pm' where "pm' = pm\<lparr>pm_allow_list := (pm_allow_list pm)(app := None), pm_updated_at := pe_clock env 0\<rparr>"
  note t' = revoke_Inr(1) [OF ok(1) run pm]
  have ok': "table_ok pm_clash t'"
    unfolding t' by (rule table_ok_update_keys [OF ok(1)]) (simp_all add: pm_key_def)
  have sid: "schema_ids_ok t'" using ok(2) by (auto simp: t' schema_ids_ok_def set_sql_update)
  have pm': "pm' \<in> set t'" "names_field r pm'" "decision_field_of pm' = decision_field_of pm"
    using pm dreq(4) by (auto simp: t' set_sql_update pm'_def names_field_def decision_field_of_def image_iff)
  obtain k where k: "k < length (dr_required_fields dreq)" "dr_required_fields dreq ! k = r"
    using dreq(3) by (auto simp: in_set_conv_nth)
  have row: "decision_rows dreq t' ! k = Some pm'"
    using decision_row [OF ok' sid dreq(2) k(1)] k(2) pm' by simp
  have "outcome_of rego_engine env' app k pm' = OutcomeDeny" by (simp add: outcome_rego_engine pm'_def)
  then have "decision_field_of pm \<in> set (decided rego_engine env' app OutcomeDeny 0 (map the (decision_rows dreq t')))"
    unfolding set_decided using k(1) row pm'(3) by (intro CollectI exI [of _ k]) simp
  then have "decision_field_of pm \<in> set (ds_unauthorized_fields d)" "\<not> ds_app_authorized d"
    using get_policy_decision_Inr(2,4) [OF d] dreq(1) by auto
  moreover have "sql_where (\<lambda>x. pm_id x \<noteq> i) (sql_update (\<lambda>r. pm_id r = i) f t) = sql_where (\<lambda>x. pm_id x \<noteq> i) t"
    if "\<And>x. pm_id (f x) = pm_id x" for f
    using that by (induction t) (auto simp: sql_where_def sql_update_def)
  ultimately show ?thesis unfolding t' by simp
qed

lemma revoked_then_unauthorized_witness:
  "\<exists>t' d. revoke_allow_list_entry (sample_env 0) ''row-1'' ''app'' sample_table = (Inr (), t') \<and>
     get_policy_decision rego_engine (sample_env hour) sample_request t' = Inr d \<and> \<not> ds_app_authorized d"
proof -
  have ok: "table_ok pm_clash sample_table" using sample_table_ok(1) by (simp add: pdp_inv_def)
  let ?pm = "sample_table ! 1"
  have first: "sql_first pm_id (\<lambda>r. pm_id r = ''row-1'') sample_table = Some ?pm"
    unfolding pm_table.first_by_key [OF ok] by (simp add: sample_defs)
  obtain t' where run: "revoke_allow_list_entry (sample_env 0) ''row-1'' ''app'' sample_table = (Inr (), t')"
    unfolding revoke_allow_list_entry_def first by (simp add: sample_defs)
  have "None \<notin> set (decision_rows sample_request t')"
    using revoke_Inr(1) [OF ok run, of ?pm]
    by (simp add: decision_rows_def sample_defs sql_where_def sql_update_def policy_map_def pm_key_string_def
        fr_key_string_def field_key_string_def)
  then obtain d where d: "get_policy_decision rego_engine (sample_env hour) sample_request t' = Inr d"
    by (auto simp: get_policy_decision_eq Let_def sample_env_def)
  have "\<not> ds_app_authorized d"
    using revoked_then_unauthorized [OF ok sample_table_ok(2) run, of ?pm sample_request
        "sample_field ''person'' ''nic''" "sample_env hour" d] sample_table_ok(3) d
    by (simp add: sample_defs names_field_def)
  with run d show ?thesis by blast
qed


section \<open>Replacing the metadata of a schema\<close>


definition sample_create :: metadata_create_request where
  "sample_create = \<lparr>mc_schema_id = ''person'',
     mc_records = [sample_record ''nic'' ClassAllowlistConsent, sample_record ''city'' ClassAllowlist]\<rparr>"

lemma sample_create_runs:
  "\<exists>resp t'. create_policy_metadata rego_engine (sample_env 5) sample_create sample_table = (Inr resp, t')"
  by (simp add: create_policy_metadata_def sample_create_def sample_defs Let_def check_policy_class_def
      create_step_def existing_map_def sql_where_def sql_delete_def sql_insert_def pm_clash_def pm_key_def
      new_metadata_def apply_record_def update_rows_def)


lemma pdp_reachable_inv_witness:
  "\<exists>resp t'. handle_create_policy_metadata rego_engine (sample_env 5) (Some sample_create) [] = (Success 201 resp, t') \<and>
     pdp_inv rego_engine t'"
proof -
  obtain resp t' where run: "handle_create_policy_metadata rego_engine (sample_env 5) (Some sample_create) [] = (Success 201 resp, t')"
    by (simp add: handle_create_policy_metadata_def create_policy_metadata_def sample_create_def sample_defs Let_def
        check_policy_class_def create_step_def existing_map_def sql_where_def sql_delete_def sql_insert_def
        pm_clash_def pm_key_def new_metadata_def update_rows_def reply_defs trim_space_def is_space_def digit_char_def)
  have "pdp_reachable rego_engine t'"
    using reach_migrated step_create [OF run] by (rule reach_step)
  then show ?thesis using run pdp_reachable_inv by blast
qed

section \<open>Colliding keys\<close>

definition collision_table :: pdp_table where
  "collision_table =
     [sample_row ''row-0'' ''a:b'' ''c'' ClassAllowlist Map.empty,
      sample_row ''row-1'' ''a'' ''b:c'' ClassAllowlist [''app'' \<mapsto> \<lparr>al_expires_at = 100, al_updated_at = 0\<rparr>]]"

definition collision_request :: decision_request where
  "collision_request = \<lparr>dr_application_id = ''app'',
     dr_required_fields = [sample_field ''a'' ''b:c'', sample_field ''a:b'' ''c'']\<rparr>"

text \<open>
  The colon-free hypothesis of the properties above is needed: schema ids with a colon make
  the keys of the policy map collide, and a decision then authorizes an application for a field
  that has a row of its own and was never granted to it.
\<close>

lemma pdp_key_collision:
  "pdp_inv rego_engine collision_table \<and>
   sample_field ''a:b'' ''c'' \<in> set (dr_required_fields collision_request) \<and>
   map (\<lambda>pm. pm_allow_list pm ''app'') (sql_where (names_field (sample_field ''a:b'' ''c'')) collision_table) = [None] \<and>
   (\<exists>resp. get_policy_decision rego_engine (sample_env 50) collision_request collision_table = Inr resp \<and>
      ds_app_authorized resp \<and> ds_unauthorized_fields resp = [])"
proof -
  have "\<exists>resp. get_policy_decision rego_engine (sample_env 50) collision_request collision_table = Inr resp \<and>
      ds_app_authorized resp \<and> ds_unauthorized_fields resp = []"
    by (simp add: get_policy_decision_eq decision_rows_def collision_table_def collision_request_def sample_defs
        Let_def sql_where_def policy_map_def pm_key_string_def fr_key_string_def field_key_string_def
        outcome_rego_engine grant_valid_def)
  then show ?thesis
    by (auto simp: collision_table_def collision_request_def sample_defs pdp_inv_def table_ok_def pm_clash_def
        pm_key_def classes_loaded_def names_field_def sql_where_def)
qed

end
