(* ===== verification/CE_Models.thy ===== *)
theory CE_Models
  imports Store GoTime
begin

text \<open>
  Data of the Consent Engine (\<^verbatim>\<open>internal/ce/models\<close>): the constants, the
  \<^verbatim>\<open>consent_records\<close> table with its partial unique index, the request objects and
  the views of a record. Statuses, types, actions and durations are Go strings and stay
  strings. A \<^verbatim>\<open>uuid.UUID\<close> is held in its canonical text form.
\<close>

section \<open>Constants\<close>

definition StatusPending :: string where "StatusPending = ''pending''"
definition StatusApproved :: string where "StatusApproved = ''approved''"
definition StatusRejected :: string where "StatusRejected = ''rejected''"
definition StatusExpired :: string where "StatusExpired = ''expired''"
definition StatusRevoked :: string where "StatusRevoked = ''revoked''"

definition TypeRealtime :: string where "TypeRealtime = ''realtime''"
definition TypeOffline :: string where "TypeOffline = ''offline''"

definition ActionApprove :: string where "ActionApprove = ''approve''"
definition ActionReject :: string where "ActionReject = ''reject''"
definition ActionRevoke :: string where "ActionRevoke = ''revoke''"

definition DurationOneHour :: string where "DurationOneHour = ''PT1H''"
definition DurationSixHours :: string where "DurationSixHours = ''PT6H''"
definition DurationTwelveHours :: string where "DurationTwelveHours = ''PT12H''"
definition DurationOneDay :: string where "DurationOneDay = ''P1D''"
definition DurationSevenDays :: string where "DurationSevenDays = ''P7D''"
definition DurationThirtyDays :: string where "DurationThirtyDays = ''P30D''"
definition DurationDefault :: string where "DurationDefault = DurationOneHour"

definition RevokedByNewConsentWithDifferentFields :: string where
  "RevokedByNewConsentWithDifferentFields = ''System: revoked due to new consent with different fields''"

definition DefaultConsentListLimit :: int where "DefaultConsentListLimit = 20"
definition MaxConsentListLimit :: int where "MaxConsentListLimit = 100"

lemmas status_defs = StatusPending_def StatusApproved_def StatusRejected_def StatusExpired_def
  StatusRevoked_def

lemmas action_defs = ActionApprove_def ActionReject_def ActionRevoke_def

lemmas duration_defs = DurationOneHour_def DurationSixHours_def DurationTwelveHours_def
  DurationOneDay_def DurationSevenDays_def DurationThirtyDays_def DurationDefault_def

lemma status_distinct [simp]:
  "StatusPending \<noteq> StatusApproved" "StatusApproved \<noteq> StatusPending"
  "StatusPending \<noteq> StatusRejected" "StatusRejected \<noteq> StatusPending"
  "StatusPending \<noteq> StatusExpired" "StatusExpired \<noteq> StatusPending"
  "StatusPending \<noteq> StatusRevoked" "StatusRevoked \<noteq> StatusPending"
  "StatusApproved \<noteq> StatusRejected" "StatusRejected \<noteq> StatusApproved"
  "StatusApproved \<noteq> StatusExpired" "StatusExpired \<noteq> StatusApproved"
  "StatusApproved \<noteq> StatusRevoked" "StatusRevoked \<noteq> StatusApproved"
  "StatusRejected \<noteq> StatusExpired" "StatusExpired \<noteq> StatusRejected"
  "StatusRejected \<noteq> StatusRevoked" "StatusRevoked \<noteq> StatusRejected"
  "StatusExpired \<noteq> StatusRevoked" "StatusRevoked \<noteq> StatusExpired"
  by (simp_all add: status_defs)

lemma action_distinct [simp]:
  "ActionApprove \<noteq> ActionReject" "ActionReject \<noteq> ActionApprove"
  "ActionApprove \<noteq> ActionRevoke" "ActionRevoke \<noteq> ActionApprove"
  "ActionReject \<noteq> ActionRevoke" "ActionRevoke \<noteq> ActionReject"
  by (simp_all add: action_defs)

section \<open>Errors\<close>

text \<open>The sentinel errors; a wrapped error keeps the sentinels it wraps.\<close>

datatype ce_sentinel =
    ErrConsentNotFound | ErrConsentCreateFailed | ErrConsentUpdateFailed | ErrConsentGetFailed
  | ErrPortalRequestFailed | ErrConsentNotPending | ErrConsentNotRevocable | ErrConsentAccessDenied

record ce_error =
  err_is :: "ce_sentinel list"
  err_msg :: string

definition errors_is :: "ce_error \<Rightarrow> ce_sentinel \<Rightarrow> bool" where
  "errors_is err s \<longleftrightarrow> s \<in> set (err_is err)"

definition new_error :: "string \<Rightarrow> ce_error" where
  "new_error msg = \<lparr>err_is = [], err_msg = msg\<rparr>"

definition sentinel_error :: "ce_sentinel \<Rightarrow> string \<Rightarrow> ce_error" where
  "sentinel_error s msg = \<lparr>err_is = [s], err_msg = msg\<rparr>"

text \<open>\<^verbatim>\<open>fmt.Errorf("%w: %w", s, err)\<close>.\<close>

definition wrap_error :: "ce_sentinel \<Rightarrow> ce_error \<Rightarrow> ce_error" where
  "wrap_error s err = \<lparr>err_is = s # err_is err, err_msg = err_msg err\<rparr>"

lemma errors_is_simps [simp]:
  "errors_is (wrap_error s err) s' \<longleftrightarrow> s' = s \<or> errors_is err s'"
  "errors_is (sentinel_error s msg) s' \<longleftrightarrow> s' = s"
  "\<not> errors_is (new_error msg) s'"
  by (auto simp: errors_is_def wrap_error_def sentinel_error_def new_error_def)

section \<open>Requests\<close>

record consent_field =
  cf_field_name :: string
  cf_schema_id :: string
  cf_display_name :: "string option"
  cf_description :: "string option"
  cf_owner :: string

definition consent_field_equals :: "consent_field \<Rightarrow> consent_field \<Rightarrow> bool" where
  "consent_field_equals a b \<longleftrightarrow>
     cf_field_name a = cf_field_name b \<and> cf_schema_id a = cf_schema_id b \<and>
     ((cf_display_name a = None \<and> cf_display_name b = None) \<or>
      (cf_display_name a \<noteq> None \<and> cf_display_name b \<noteq> None \<and> the (cf_display_name a) = the (cf_display_name b))) \<and>
     ((cf_description a = None \<and> cf_description b = None) \<or>
      (cf_description a \<noteq> None \<and> cf_description b \<noteq> None \<and> the (cf_description a) = the (cf_description b))) \<and>
     cf_owner a = cf_owner b"

lemma consent_field_equals_iff: "consent_field_equals a b \<longleftrightarrow> a = b"
  by (cases a; cases b) (auto simp: consent_field_equals_def)

record consent_requirement =
  rq_owner :: string
  rq_owner_id :: string
  rq_fields :: "consent_field list"

record create_consent_request =
  cq_app_id :: string
  cq_app_name :: "string option"
  cq_requirement :: consent_requirement
  cq_grant_duration :: "string option"
  cq_consent_type :: "string option"

record portal_action_request =
  pa_consent_id :: string
  pa_owner_id :: string
  pa_action :: string
  pa_updated_by :: string

section \<open>The table\<close>

record consent_record =
  cn_consent_id :: string
  cn_owner_id :: string
  cn_app_id :: string
  cn_app_name :: "string option"
  cn_status :: string
  cn_type :: string
  cn_created_at :: time
  cn_updated_at :: time
  cn_pending_expires_at :: "time option"
  cn_grant_expires_at :: "time option"
  cn_grant_duration :: string
  cn_fields :: "consent_field list"
  cn_session_id :: "string option"
  cn_portal_url :: string
  cn_updated_by :: "string option"

type_synonym consent_table = "consent_record table"

definition is_active :: "consent_record \<Rightarrow> bool" where
  "is_active c \<longleftrightarrow> cn_status c = StatusPending \<or> cn_status c = StatusApproved"

text \<open>
  The primary key, and \<^verbatim>\<open>idx_consent_active_unique\<close>: unique owner and application
  among the pending and approved rows.
\<close>

definition consent_clash :: "consent_record \<Rightarrow> consent_record \<Rightarrow> bool" where
  "consent_clash x y \<longleftrightarrow> cn_consent_id x = cn_consent_id y \<or>
     (is_active x \<and> is_active y \<and> cn_owner_id x = cn_owner_id y \<and> cn_app_id x = cn_app_id y)"

interpretation consent_table: keyed_table cn_consent_id consent_clash
  by unfold_locales (auto simp: consent_clash_def)

section \<open>Views\<close>

record internal_view =
  iv_consent_id :: string
  iv_status :: string
  iv_portal_url :: "string option"
  iv_fields :: "consent_field list option"

record portal_view =
  pv_consent_id :: string
  pv_app_id :: string
  pv_app_name :: "string option"
  pv_owner_id :: string
  pv_status :: string
  pv_type :: string
  pv_grant_duration :: string
  pv_created_at :: time
  pv_updated_at :: time
  pv_pending_expires_at :: "time option"
  pv_grant_expires_at :: "time option"
  pv_fields :: "consent_field list"

record summary_view =
  sv_consent_id :: string
  sv_app_id :: string
  sv_app_name :: "string option"
  sv_status :: string
  sv_created_at :: time
  sv_pending_expires_at :: "time option"
  sv_grant_expires_at :: "time option"

record list_response =
  lr_consents :: "summary_view list"
  lr_total :: nat
  lr_limit :: nat
  lr_offset :: nat

definition to_internal_view :: "consent_record \<Rightarrow> internal_view" where
  "to_internal_view c =
     \<lparr>iv_consent_id = cn_consent_id c, iv_status = cn_status c,
      iv_portal_url = (if cn_status c = StatusPending \<and> cn_portal_url c \<noteq> '''' then Some (cn_portal_url c) else None),
      iv_fields = (if cn_status c = StatusPending \<or> cn_status c = StatusApproved then Some (cn_fields c) else None)\<rparr>"

definition to_summary_view :: "consent_record \<Rightarrow> summary_view" where
  "to_summary_view c =
     \<lparr>sv_consent_id = cn_consent_id c, sv_app_id = cn_app_id c, sv_app_name = cn_app_name c,
      sv_status = cn_status c, sv_created_at = cn_created_at c,
      sv_pending_expires_at = cn_pending_expires_at c, sv_grant_expires_at = cn_grant_expires_at c\<rparr>"

definition to_portal_view :: "consent_record \<Rightarrow> portal_view" where
  "to_portal_view c =
     \<lparr>pv_consent_id = cn_consent_id c, pv_app_id = cn_app_id c, pv_app_name = cn_app_name c,
      pv_owner_id = cn_owner_id c, pv_status = cn_status c, pv_type = cn_type c,
      pv_grant_duration = cn_grant_duration c, pv_created_at = cn_created_at c,
      pv_updated_at = cn_updated_at c, pv_pending_expires_at = cn_pending_expires_at c,
      pv_grant_expires_at = cn_grant_expires_at c, pv_fields = cn_fields c\<rparr>"

end
