(* ===== verification/Strconv.thy ===== *)
theory Strconv
  imports GoTime
begin

text \<open>
  Go's conversions between integers and decimal text, where the sources use them:
  \<^verbatim>\<open>strconv.Atoi\<close> on a 64-bit machine, and the \<^verbatim>\<open>%d\<close> verb.
\<close>

fun decimal :: "nat \<Rightarrow> string" where
  "decimal n = (if n < 10 then [digit_char n] else decimal (n div 10) @ [digit_char (n mod 10)])"

declare decimal.simps [simp del]

definition digit_val :: "char \<Rightarrow> nat option" where
  "digit_val c = (let n = of_char c in if 48 \<le> n \<and> n \<le> 57 then Some (n - 48) else None)"

fun digits_val :: "nat \<Rightarrow> string \<Rightarrow> nat option" where
  "digits_val acc [] = Some acc"
| "digits_val acc (c # cs) =
     (case digit_val c of None \<Rightarrow> None | Some d \<Rightarrow> digits_val (10 * acc + d) cs)"

definition parse_digits :: "string \<Rightarrow> nat option" where
  "parse_digits s = (if s = [] then None else digits_val 0 s)"

definition atoi :: "string \<Rightarrow> int option" where
  "atoi s =
     (case (case s of
              CHR ''+'' # r \<Rightarrow> map_option int (parse_digits r)
            | CHR ''-'' # r \<Rightarrow> map_option (\<lambda>n. - int n) (parse_digits r)
            | _ \<Rightarrow> map_option int (parse_digits s)) of
        None \<Rightarrow> None
      | Some n \<Rightarrow> if - (2 ^ 63) \<le> n \<and> n < 2 ^ 63 then Some n else None)"

lemma digit_val_digit_char [simp]: "n < 10 \<Longrightarrow> digit_val (digit_char n) = Some n"
  by (simp add: digit_val_def digit_char_def)

lemma digits_val_append:
  "digits_val acc (xs @ ys) = (case digits_val acc xs of None \<Rightarrow> None | Some v \<Rightarrow> digits_val v ys)"
  by (induction acc xs rule: digits_val.induct) (auto split: option.splits)

lemma digits_val_decimal: "digits_val 0 (decimal n) = Some n"
proof (induction n rule: decimal.induct)
  case (1 n)
  show ?case
  proof (cases "n < 10")
    case True
    then show ?thesis by (simp add: decimal.simps [of n])
  next
    case False
    then show ?thesis using "1.IH" by (simp add: decimal.simps [of n] digits_val_append)
  qed
qed

lemma decimal_not_Nil [simp]: "decimal n \<noteq> []"
  by (simp add: decimal.simps [of n])

lemma atoi_decimal:
  assumes "n < 2 ^ 63"
  shows "atoi (decimal n) = Some (int n)"
proof -
  obtain c cs where cs: "decimal n = c # cs" using decimal_not_Nil [of n] by (cases "decimal n") auto
  have "digit_val c \<noteq> None" using digits_val_decimal [of n] by (auto simp: cs split: option.splits)
  then have "c \<noteq> CHR ''+''" "c \<noteq> CHR ''-''" by (auto simp: digit_val_def)
  then have "(case decimal n of CHR ''+'' # r \<Rightarrow> map_option int (parse_digits r)
      | CHR ''-'' # r \<Rightarrow> map_option (\<lambda>n. - int n) (parse_digits r)
      | _ \<Rightarrow> map_option int (parse_digits (decimal n))) = map_option int (parse_digits (decimal n))"
    unfolding cs by (simp split: char.split bool.split)
  moreover have "int n < 2 ^ 63" using assms by simp
  ultimately show ?thesis
    unfolding atoi_def by (simp add: parse_digits_def digits_val_decimal)
qed

end
