(* ===== verification/CE.thy ===== *)
theory CE
  imports CE_Models Strconv
begin

text \<open>
  The consent service of the Consent Engine (\<^verbatim>\<open>internal/ce/services/consent_service.go\<close>).
  Its state is the \<^verbatim>\<open>consent_records\<close> table. The environment of a call gives the
  parser of UUIDs, the fresh UUID, the times that each \<^verbatim>\<open>time.Now()\<close> reads, the
  statements the database refuses and the portal's base URL. The portal action is written as
  its three database accesses (load, lazy expiry, conditional update), so that the accesses of
  concurrent calls can be interleaved.
\<close>

section \<open>Environment\<close>

datatype ce_site = AtView | AtSave | AtRevoke | AtRevokeSave | AtBuild | AtPortal | AtList | AtAction

datatype ce_stmt =
    CeFindLatest | CeSaveExpired | CeFindExisting | CeSaveRevoked | CeInsert | CeInsertInTx | CeCommitTx
  | CeFindById | CeExpireRow | CeReloadRow | CeDecideRow | CeExpirePending | CeExpireApproved
  | CeCount | CeFindPage

record ce_env =
  ce_parse_uuid :: "string \<Rightarrow> string option"
  ce_uuid :: string
  ce_clock :: "ce_site \<Rightarrow> time"
  ce_fails :: "ce_stmt \<Rightarrow> bool"
  ce_base_url :: string

definition db_error :: ce_error where
  "db_error = new_error ''database error''"

definition record_not_found :: ce_error where
  "record_not_found = new_error ''record not found''"

text \<open>\<open>parse_url\<close> is \<^verbatim>\<open>url.Parse\<close>, as scheme and host.\<close>

definition new_consent_service :: "(string \<Rightarrow> (string \<times> string) option) \<Rightarrow> string \<Rightarrow> ce_error + string" where
  "new_consent_service parse_url base =
     (let bad = Inl (new_error ''invalid consentPortalBaseURL: must be a non-empty, valid URL with scheme and host'') in
      case parse_url base of
        None \<Rightarrow> bad
      | Some (scheme, host) \<Rightarrow> if base = '''' \<or> scheme = '''' \<or> host = '''' then bad else Inr base)"

section \<open>Durations and validation\<close>

definition parse_grant_duration :: "string \<Rightarrow> duration" where
  "parse_grant_duration d =
     (if d = DurationOneHour then hour
      else if d = DurationSixHours then 6 * hour
      else if d = DurationTwelveHours then 12 * hour
      else if d = DurationOneDay then 24 * hour
      else if d = DurationSevenDays then 7 * 24 * hour
      else if d = DurationThirtyDays then 30 * 24 * hour
      else hour)"

definition parse_pending_timeout_duration :: "string \<Rightarrow> duration" where
  "parse_pending_timeout_duration ty =
     (if ty = TypeRealtime then hour else if ty = TypeOffline then 24 * hour else hour)"

definition get_grant_duration_or_default :: "string option \<Rightarrow> string" where
  "get_grant_duration_or_default d =
     (case d of None \<Rightarrow> DurationDefault | Some s \<Rightarrow> if s = '''' then DurationDefault else s)"

definition is_valid_grant_duration :: "string \<Rightarrow> bool" where
  "is_valid_grant_duration d \<longleftrightarrow> d \<in> {DurationOneHour, DurationSixHours, DurationTwelveHours,
     DurationOneDay, DurationSevenDays, DurationThirtyDays}"

definition is_valid_portal_action :: "string \<Rightarrow> bool" where
  "is_valid_portal_action a \<longleftrightarrow> a = ActionApprove \<or> a = ActionReject \<or> a = ActionRevoke"

definition are_consent_fields_equal :: "consent_field list option \<Rightarrow> consent_field list option \<Rightarrow> bool" where
  "are_consent_fields_equal a b =
     (case (a, b) of
        (None, None) \<Rightarrow> True
      | (Some xs, Some ys) \<Rightarrow> length xs = length ys \<and> list_all (\<lambda>(x, y). consent_field_equals x y) (zip xs ys)
      | _ \<Rightarrow> False)"

definition validate_field :: "nat \<Rightarrow> consent_field \<Rightarrow> ce_error + nat" where
  "validate_field j f =
     (if cf_field_name f = '''' then
        Inl (new_error (''consentRequirement.fields['' @ decimal j @ ''].fieldName is required''))
      else if cf_schema_id f = '''' then
        Inl (new_error (''consentRequirement.fields['' @ decimal j @ ''].schemaId is required''))
      else Inr (Suc j))"

definition validate_create_request :: "create_consent_request \<Rightarrow> ce_error + unit" where
  "validate_create_request req =
     (if cq_app_id req = '''' then Inl (new_error ''appId is required'')
      else bind_res
        (case cq_grant_duration req of
           None \<Rightarrow> Inr ()
         | Some d \<Rightarrow> if d \<noteq> '''' \<and> \<not> is_valid_grant_duration d
                     then Inl (new_error (''invalid grantDuration: '' @ d)) else Inr ())
        (\<lambda>_. if rq_owner_id (cq_requirement req) = ''''
             then Inl (new_error ''consentRequirement.ownerId is required'')
             else if rq_fields (cq_requirement req) = []
             then Inl (new_error ''consentRequirement.fields cannot be empty'')
             else bind_res (fold_res validate_field 0 (rq_fields (cq_requirement req))) (\<lambda>_. Inr ())))"

section \<open>Lazy expiry\<close>

definition mark_expired_if_stale :: "consent_record \<Rightarrow> time \<Rightarrow> bool \<times> consent_record" where
  "mark_expired_if_stale c now =
     (if (cn_status c = StatusPending \<and> cn_pending_expires_at c \<noteq> None \<and> after now (the (cn_pending_expires_at c))) \<or>
         (cn_status c = StatusApproved \<and> cn_grant_expires_at c \<noteq> None \<and> after now (the (cn_grant_expires_at c)))
      then (True, c\<lparr>cn_status := StatusExpired\<rparr>)
      else (False, c))"

text \<open>
  \<^verbatim>\<open>Save\<close> writes every column of the row with the record's key, or inserts it when
  there is none; GORM sets the update time.
\<close>

definition save_record :: "time \<Rightarrow> consent_record \<Rightarrow> consent_table \<Rightarrow> consent_table" where
  "save_record now c t =
     (let c' = c\<lparr>cn_updated_at := now\<rparr> in
      if sql_affected (\<lambda>r. cn_consent_id r = cn_consent_id c) t = 0 then t @ [c']
      else sql_update (\<lambda>r. cn_consent_id r = cn_consent_id c) (\<lambda>_. c') t)"

definition persist_expiry_if_stale ::
  "ce_env \<Rightarrow> consent_record \<Rightarrow> time \<Rightarrow> consent_table \<Rightarrow> (ce_error + consent_record) \<times> consent_table" where
  "persist_expiry_if_stale env c now t =
     (case mark_expired_if_stale c now of
        (False, _) \<Rightarrow> (Inr c, t)
      | (True, c') \<Rightarrow>
          let p = (\<lambda>r. cn_consent_id r = cn_consent_id c \<and> cn_status r = cn_status c) in
          if ce_fails env CeExpireRow then (Inl db_error, t)
          else
            let t' = sql_update p (\<lambda>r. r\<lparr>cn_status := StatusExpired, cn_updated_at := now\<rparr>) t in
            if sql_affected p t = 0 then
              (if ce_fails env CeReloadRow then (Inl db_error, t')
               else case sql_first cn_consent_id (\<lambda>r. cn_consent_id r = cn_consent_id c) t' of
                 None \<Rightarrow> (Inl record_not_found, t')
               | Some r \<Rightarrow> (Inr r, t'))
            else (Inr (c'\<lparr>cn_updated_at := now\<rparr>), t'))"

section \<open>Reading a consent\<close>

definition latest_consent :: "(consent_record \<Rightarrow> bool) \<Rightarrow> consent_table \<Rightarrow> consent_record option" where
  "latest_consent p t = sql_first (\<lambda>c. (- cn_created_at c, cn_consent_id c)) p t"

text \<open>The expiry write of \<^verbatim>\<open>GetConsentInternalView\<close>: an unconditional \<^verbatim>\<open>Save\<close>.\<close>

definition expire_viewed ::
  "ce_env \<Rightarrow> consent_record \<Rightarrow> consent_table \<Rightarrow> (ce_error + internal_view) \<times> consent_table" where
  "expire_viewed env c t =
     (case mark_expired_if_stale c (ce_clock env AtView) of
        (False, _) \<Rightarrow> (Inr (to_internal_view c), t)
      | (True, c') \<Rightarrow>
          if ce_fails env CeSaveExpired then (Inl (wrap_error ErrConsentGetFailed db_error), t)
          else (Inr (to_internal_view c'), save_record (ce_clock env AtSave) c' t))"

definition view_predicate ::
  "ce_env \<Rightarrow> string option \<Rightarrow> string option \<Rightarrow> string option \<Rightarrow> ce_error + (consent_record \<Rightarrow> bool)" where
  "view_predicate env consent_id owner_id app_id =
     (case (consent_id, owner_id, app_id) of
        (Some i, _, _) \<Rightarrow>
          (case ce_parse_uuid env i of
             None \<Rightarrow> Inl (sentinel_error ErrConsentGetFailed ''invalid consent ID'')
           | Some u \<Rightarrow> Inr (\<lambda>c. cn_consent_id c = u))
      | (None, Some o_id, Some a_id) \<Rightarrow> Inr (\<lambda>c. cn_owner_id c = o_id \<and> cn_app_id c = a_id)
      | _ \<Rightarrow> Inl (sentinel_error ErrConsentGetFailed
                 ''either consentID or (ownerID and appID) must be provided''))"

definition get_consent_internal_view ::
  "ce_env \<Rightarrow> string option \<Rightarrow> string option \<Rightarrow> string option \<Rightarrow> consent_table \<Rightarrow>
   (ce_error + internal_view) \<times> consent_table" where
  "get_consent_internal_view env consent_id owner_id app_id t =
     (case view_predicate env consent_id owner_id app_id of
        Inl err \<Rightarrow> (Inl err, t)
      | Inr p \<Rightarrow>
          if ce_fails env CeFindLatest then (Inl (wrap_error ErrConsentGetFailed db_error), t)
          else case latest_consent p t of
            None \<Rightarrow> (Inl (wrap_error ErrConsentNotFound record_not_found), t)
          | Some c \<Rightarrow> expire_viewed env c t)"

definition get_consent_portal_view ::
  "ce_env \<Rightarrow> string \<Rightarrow> string \<Rightarrow> consent_table \<Rightarrow> (ce_error + portal_view) \<times> consent_table" where
  "get_consent_portal_view env consent_id owner_id t =
     (case ce_parse_uuid env consent_id of
        None \<Rightarrow> (Inl (sentinel_error ErrConsentGetFailed ''invalid consent ID''), t)
      | Some u \<Rightarrow>
          if ce_fails env CeFindById then (Inl (wrap_error ErrConsentGetFailed db_error), t)
          else case sql_first cn_consent_id (\<lambda>c. cn_consent_id c = u) t of
            None \<Rightarrow> (Inl (wrap_error ErrConsentNotFound record_not_found), t)
          | Some c \<Rightarrow>
              if cn_owner_id c \<noteq> owner_id then (Inl (sentinel_error ErrConsentAccessDenied ''''), t)
              else (case persist_expiry_if_stale env c (ce_clock env AtPortal) t of
                 (Inl err, t') \<Rightarrow> (Inl (wrap_error ErrConsentGetFailed err), t')
               | (Inr c', t') \<Rightarrow> (Inr (to_portal_view c'), t')))"

definition expire_stale_consents_by_owner ::
  "ce_env \<Rightarrow> string \<Rightarrow> consent_table \<Rightarrow> (ce_error + unit) \<times> consent_table" where
  "expire_stale_consents_by_owner env owner_id t =
     (let now = ce_clock env AtList;
          expire = (\<lambda>c. c\<lparr>cn_status := StatusExpired, cn_updated_at := now\<rparr>);
          past = (\<lambda>d. case d of None \<Rightarrow> False | Some x \<Rightarrow> x < now) in
      if ce_fails env CeExpirePending then (Inl db_error, t)
      else
        let t1 = sql_update (\<lambda>c. cn_owner_id c = owner_id \<and> cn_status c = StatusPending \<and>
                   past (cn_pending_expires_at c)) expire t in
        if ce_fails env CeExpireApproved then (Inl db_error, t)
        else
          let t2 = sql_update (\<lambda>c. cn_owner_id c = owner_id \<and> cn_status c = StatusApproved \<and>
                     past (cn_grant_expires_at c)) expire t1 in
          if ce_fails env CeCommitTx then (Inl db_error, t) else (Inr (), t2))"

definition list_consents_by_owner ::
  "ce_env \<Rightarrow> string \<Rightarrow> string list \<Rightarrow> nat \<Rightarrow> nat \<Rightarrow> consent_table \<Rightarrow> (ce_error + list_response) \<times> consent_table" where
  "list_consents_by_owner env owner_id statuses limit offset t =
     (if owner_id = '''' then (Inl (sentinel_error ErrConsentGetFailed ''ownerID is required''), t)
      else case expire_stale_consents_by_owner env owner_id t of
        (Inl err, t') \<Rightarrow> (Inl (wrap_error ErrConsentGetFailed err), t')
      | (Inr _, t') \<Rightarrow>
          let q = (\<lambda>c. cn_owner_id c = owner_id \<and> (statuses = [] \<or> cn_status c \<in> set statuses)) in
          if ce_fails env CeCount then (Inl (wrap_error ErrConsentGetFailed db_error), t')
          else if ce_fails env CeFindPage then (Inl (wrap_error ErrConsentGetFailed db_error), t')
          else (Inr \<lparr>lr_consents = map to_summary_view
                       (take limit (drop offset (sort_key (\<lambda>c. - cn_created_at c) (sql_where q t')))),
                     lr_total = length (sql_where q t'), lr_limit = limit, lr_offset = offset\<rparr>, t'))"

section \<open>Creating a consent\<close>

definition build_consent_record :: "ce_env \<Rightarrow> create_consent_request \<Rightarrow> consent_record" where
  "build_consent_record env req =
     (let now = ce_clock env AtBuild;
          ty = (case cq_consent_type req of None \<Rightarrow> TypeRealtime | Some ty \<Rightarrow> ty) in
      \<lparr>cn_consent_id = ce_uuid env, cn_owner_id = rq_owner_id (cq_requirement req), cn_app_id = cq_app_id req,
       cn_app_name = cq_app_name req, cn_status = StatusPending, cn_type = ty, cn_created_at = now,
       cn_updated_at = now, cn_pending_expires_at = Some (now + parse_pending_timeout_duration ty),
       cn_grant_expires_at = None, cn_grant_duration = get_grant_duration_or_default (cq_grant_duration req),
       cn_fields = rq_fields (cq_requirement req), cn_session_id = None,
       cn_portal_url = ce_base_url env @ ''?consentId='' @ ce_uuid env, cn_updated_by = None\<rparr>)"

definition insert_consent ::
  "ce_env \<Rightarrow> ce_stmt \<Rightarrow> create_consent_request \<Rightarrow> consent_table \<Rightarrow> (ce_error + internal_view) \<times> consent_table" where
  "insert_consent env stmt req t =
     (let c = build_consent_record env req in
      if ce_fails env stmt then (Inl db_error, t)
      else case sql_insert consent_clash c t of
        None \<Rightarrow> (Inl db_error, t)
      | Some t' \<Rightarrow> (Inr (to_internal_view c), t'))"

definition revoke_and_create_consent ::
  "ce_env \<Rightarrow> string \<Rightarrow> create_consent_request \<Rightarrow> consent_table \<Rightarrow> (ce_error + internal_view) \<times> consent_table" where
  "revoke_and_create_consent env existing_id req t =
     (let result =
        (case ce_parse_uuid env existing_id of
           None \<Rightarrow> Inl (new_error ''invalid consent ID'')
         | Some u \<Rightarrow>
             if ce_fails env CeFindExisting then Inl db_error
             else case sql_first cn_consent_id (\<lambda>c. cn_consent_id c = u) t of
               None \<Rightarrow> Inl (wrap_error ErrConsentNotFound record_not_found)
             | Some c \<Rightarrow>
                 if cn_status c \<noteq> StatusApproved \<and> cn_status c \<noteq> StatusPending
                 then Inl (new_error ''only approved or pending consents can be revoked'')
                 else if ce_fails env CeSaveRevoked then Inl db_error
                 else
                   let t1 = save_record (ce_clock env AtRevokeSave)
                        (c\<lparr>cn_status := StatusRevoked, cn_updated_at := ce_clock env AtRevoke,
                           cn_updated_by := Some RevokedByNewConsentWithDifferentFields\<rparr>) t in
                   (case insert_consent env CeInsertInTx req t1 of
                      (Inl err, _) \<Rightarrow> Inl err
                    | (Inr v, t2) \<Rightarrow> if ce_fails env CeCommitTx then Inl db_error else Inr (v, t2)))
      in case result of
           Inl err \<Rightarrow> (Inl (wrap_error ErrConsentCreateFailed err), t)
         | Inr (v, t') \<Rightarrow> (Inr v, t'))"

definition create_consent_record ::
  "ce_env \<Rightarrow> create_consent_request \<Rightarrow> consent_table \<Rightarrow> (ce_error + internal_view) \<times> consent_table" where
  "create_consent_record env req t =
     (let create_new = (\<lambda>t. case insert_consent env CeInsert req t of
            (Inl err, t') \<Rightarrow> (Inl (wrap_error ErrConsentCreateFailed err), t')
          | (Inr v, t') \<Rightarrow> (Inr v, t')) in
      case validate_create_request req of
        Inl err \<Rightarrow> (Inl (wrap_error ErrConsentCreateFailed err), t)
      | Inr _ \<Rightarrow>
          (case get_consent_internal_view env None (Some (rq_owner_id (cq_requirement req))) (Some (cq_app_id req)) t of
             (Inr v, t') \<Rightarrow>
               if iv_status v = StatusPending \<or> iv_status v = StatusApproved then
                 (if are_consent_fields_equal (iv_fields v) (Some (rq_fields (cq_requirement req))) then (Inr v, t')
                  else revoke_and_create_consent env (iv_consent_id v) req t')
               else create_new t'
           | (Inl err, t') \<Rightarrow>
               if \<not> errors_is err ErrConsentNotFound then (Inl (wrap_error ErrConsentCreateFailed err), t')
               else create_new t'))"

section \<open>Portal actions\<close>

definition action_load :: "ce_env \<Rightarrow> portal_action_request \<Rightarrow> consent_table \<Rightarrow> ce_error + consent_record" where
  "action_load env req t =
     (if \<not> is_valid_portal_action (pa_action req) then
        Inl (sentinel_error ErrPortalRequestFailed (''invalid action: '' @ pa_action req))
      else case ce_parse_uuid env (pa_consent_id req) of
        None \<Rightarrow> Inl (sentinel_error ErrPortalRequestFailed ''invalid consent ID'')
      | Some u \<Rightarrow>
          if ce_fails env CeFindById then Inl (wrap_error ErrConsentUpdateFailed db_error)
          else case sql_first cn_consent_id (\<lambda>c. cn_consent_id c = u) t of
            None \<Rightarrow> Inl (wrap_error ErrConsentNotFound record_not_found)
          | Some c \<Rightarrow>
              if cn_owner_id c \<noteq> pa_owner_id req then Inl (sentinel_error ErrConsentAccessDenied '''')
              else Inr c)"

definition action_from :: "string \<Rightarrow> string \<times> ce_sentinel" where
  "action_from a =
     (if a = ActionRevoke then (StatusApproved, ErrConsentNotRevocable) else (StatusPending, ErrConsentNotPending))"

definition action_updates ::
  "portal_action_request \<Rightarrow> consent_record \<Rightarrow> time \<Rightarrow> ce_error + (consent_record \<Rightarrow> consent_record)" where
  "action_updates req c now =
     (let common = (\<lambda>r. r\<lparr>cn_updated_at := now, cn_updated_by := Some (pa_updated_by req),
                          cn_pending_expires_at := None\<rparr>) in
      if pa_action req = ActionApprove then
        Inr (\<lambda>r. (common r)\<lparr>cn_status := StatusApproved,
                     cn_grant_expires_at := Some (now + parse_grant_duration (cn_grant_duration c))\<rparr>)
      else if pa_action req = ActionReject then Inr (\<lambda>r. (common r)\<lparr>cn_status := StatusRejected\<rparr>)
      else if pa_action req = ActionRevoke then Inr (\<lambda>r. (common r)\<lparr>cn_status := StatusRevoked\<rparr>)
      else Inl (sentinel_error ErrPortalRequestFailed (''invalid action: '' @ pa_action req)))"

definition action_decide ::
  "ce_env \<Rightarrow> portal_action_request \<Rightarrow> consent_record \<Rightarrow> time \<Rightarrow> consent_table \<Rightarrow> (ce_error + unit) \<times> consent_table" where
  "action_decide env req c now t =
     (let (from_status, wrong_status) = action_from (pa_action req) in
      if cn_status c \<noteq> from_status then
        (Inl (sentinel_error wrong_status (''current status is '' @ cn_status c)), t)
      else case action_updates req c now of
        Inl err \<Rightarrow> (Inl err, t)
      | Inr f \<Rightarrow>
          let p = (\<lambda>r. cn_consent_id r = cn_consent_id c \<and> cn_owner_id r = pa_owner_id req \<and> cn_status r = from_status) in
          if ce_fails env CeDecideRow then (Inl (wrap_error ErrConsentUpdateFailed db_error), t)
          else if sql_affected p t \<noteq> 1 then
            (Inl (sentinel_error wrong_status ''consent was updated concurrently''), sql_update p f t)
          else (Inr (), sql_update p f t))"

definition update_consent_status_by_portal_action ::
  "ce_env \<Rightarrow> portal_action_request \<Rightarrow> consent_table \<Rightarrow> (ce_error + unit) \<times> consent_table" where
  "update_consent_status_by_portal_action env req t =
     (case action_load env req t of
        Inl err \<Rightarrow> (Inl err, t)
      | Inr c \<Rightarrow>
          (case persist_expiry_if_stale env c (ce_clock env AtAction) t of
             (Inl err, t') \<Rightarrow> (Inl (wrap_error ErrConsentUpdateFailed err), t')
           | (Inr c', t') \<Rightarrow> action_decide env req c' (ce_clock env AtAction) t'))"

end
