(* ===== verification/CE_Handlers.thy ===== *)
theory CE_Handlers
  imports CE Http
begin

text \<open>
  The HTTP handlers of the Consent Engine (\<^verbatim>\<open>internal/ce/handlers\<close>) and the
  middleware that puts the data owner's identifier into the request context
  (\<^verbatim>\<open>internal/ce/middleware/auth.go\<close>). \<open>ctx_err\<close> says that the request's
  context was cancelled or timed out by the time the service returned.
\<close>

section \<open>Replies\<close>

text \<open>An error reply carries a \<^verbatim>\<open>ConsentErrorCode\<close> and a message.\<close>

type_synonym ce_failure = "string \<times> ce_error message"
type_synonym 'b ce_reply = "('b, ce_failure) reply"

definition ErrorCodeConsentNotFound :: string where "ErrorCodeConsentNotFound = ''CONSENT_NOT_FOUND''"
definition ErrorCodeInternalError :: string where "ErrorCodeInternalError = ''INTERNAL_ERROR''"
definition ErrorCodeBadRequest :: string where "ErrorCodeBadRequest = ''BAD_REQUEST''"
definition ErrorCodeUnauthorized :: string where "ErrorCodeUnauthorized = ''UNAUTHORIZED''"
definition ErrorCodeForbidden :: string where "ErrorCodeForbidden = ''FORBIDDEN''"
definition ErrorCodeMethodNotAllowed :: string where "ErrorCodeMethodNotAllowed = ''METHOD_NOT_ALLOWED''"
definition ErrorCodeConsentNotPending :: string where "ErrorCodeConsentNotPending = ''CONSENT_NOT_PENDING''"
definition ErrorCodeConsentNotRevocable :: string where "ErrorCodeConsentNotRevocable = ''CONSENT_NOT_REVOCABLE''"

definition ce_respond_error :: "nat \<Rightarrow> string \<Rightarrow> string \<Rightarrow> 'b ce_reply" where
  "ce_respond_error status code msg = Failure status (code, Literal msg)"

definition ce_respond_error_text :: "nat \<Rightarrow> string \<Rightarrow> ce_error \<Rightarrow> 'b ce_reply" where
  "ce_respond_error_text status code err = Failure status (code, ErrorText err)"

definition timed_out :: "'b ce_reply" where
  "timed_out = ce_respond_error StatusRequestTimeout ErrorCodeInternalError ''Request timeout or cancelled''"

definition unexpected_error :: "'b ce_reply" where
  "unexpected_error = ce_respond_error StatusInternalServerError ErrorCodeInternalError ''An unexpected error occurred''"

definition method_not_allowed :: "'b ce_reply" where
  "method_not_allowed = ce_respond_error StatusMethodNotAllowed ErrorCodeMethodNotAllowed ''Method not allowed''"

lemmas ce_reply_defs = ce_respond_error_def ce_respond_error_text_def timed_out_def unexpected_error_def
  method_not_allowed_def

section \<open>Owner subject\<close>

text \<open>
  \<open>claims\<close> reads a claim of the validated token as a string (empty when it has none);
  \<open>next\<close> is the wrapped handler, given the owner subject of the context.
\<close>

definition owner_subject ::
  "string \<Rightarrow> (string \<Rightarrow> string) \<Rightarrow> (string \<Rightarrow> 'b ce_reply \<times> consent_table) \<Rightarrow> consent_table \<Rightarrow>
   'b ce_reply \<times> consent_table" where
  "owner_subject claim claims next t =
     (let subject = claims claim in
      if subject = '''' then
        (ce_respond_error StatusUnauthorized ErrorCodeUnauthorized ''Token does not identify the data owner'', t)
      else next subject)"

section \<open>Query parameters\<close>

definition known_status :: "string \<Rightarrow> bool" where
  "known_status s \<longleftrightarrow> s = StatusPending \<or> s = StatusApproved \<or> s = StatusRejected \<or> s = StatusExpired \<or>
     s = StatusRevoked"

definition parse_status_filter :: "string list \<Rightarrow> string + string list" where
  "parse_status_filter values =
     fold_res (\<lambda>statuses raw.
        let status = trim_space raw in
        if status = '''' then Inr statuses
        else if known_status status then Inr (statuses @ [status])
        else Inl (''invalid status: '' @ status))
      [] (concat (map (split_on CHR '','') values))"

definition parse_non_negative_int_param :: "string \<Rightarrow> int \<Rightarrow> string + int" where
  "parse_non_negative_int_param value default_value =
     (if value = '''' then Inr default_value
      else case atoi value of
        None \<Rightarrow> Inl (''invalid value: '' @ value)
      | Some n \<Rightarrow> if n < 0 then Inl (''invalid value: '' @ value) else Inr n)"

section \<open>Portal handlers\<close>

definition quoted :: "string \<Rightarrow> string" where
  "quoted s = CHR 0x27 # s @ [CHR 0x27]"

definition handle_list_consents ::
  "ce_env \<Rightarrow> bool \<Rightarrow> string \<Rightarrow> string option \<Rightarrow> string list \<Rightarrow> string \<Rightarrow> string \<Rightarrow> consent_table \<Rightarrow>
   list_response ce_reply \<times> consent_table" where
  "handle_list_consents env ctx_err http_method subject status_q limit_q offset_q t =
     (if http_method \<noteq> ''GET'' then (method_not_allowed, t)
      else case subject of
        None \<Rightarrow> (ce_respond_error StatusUnauthorized ErrorCodeUnauthorized ''Owner identifier not found in token'', t)
      | Some owner \<Rightarrow>
          (case parse_status_filter status_q of
             Inl msg \<Rightarrow> (ce_respond_error StatusBadRequest ErrorCodeBadRequest msg, t)
           | Inr statuses \<Rightarrow>
               (case parse_non_negative_int_param limit_q DefaultConsentListLimit of
                  Inl _ \<Rightarrow> (ce_respond_error StatusBadRequest ErrorCodeBadRequest
                             ''limit must be an integer between 1 and 100'', t)
                | Inr limit \<Rightarrow>
                    if limit < 1 \<or> limit > MaxConsentListLimit then
                      (ce_respond_error StatusBadRequest ErrorCodeBadRequest
                        ''limit must be an integer between 1 and 100'', t)
                    else (case parse_non_negative_int_param offset_q 0 of
                       Inl _ \<Rightarrow> (ce_respond_error StatusBadRequest ErrorCodeBadRequest
                                  ''offset must be a non-negative integer'', t)
                     | Inr offset \<Rightarrow>
                         (case list_consents_by_owner env owner statuses (nat limit) (nat offset) t of
                            (Inl err, t') \<Rightarrow> (if ctx_err then timed_out else unexpected_error, t')
                          | (Inr resp, t') \<Rightarrow> (Success StatusOK resp, t'))))))"

definition handle_get_consent ::
  "ce_env \<Rightarrow> bool \<Rightarrow> string \<Rightarrow> string \<Rightarrow> string option \<Rightarrow> consent_table \<Rightarrow> portal_view ce_reply \<times> consent_table" where
  "handle_get_consent env ctx_err http_method consent_id subject t =
     (if http_method \<noteq> ''GET'' then (method_not_allowed, t)
      else if consent_id = '''' then
        (ce_respond_error StatusBadRequest ErrorCodeBadRequest ''consentId is required'', t)
      else if ce_parse_uuid env consent_id = None then
        (ce_respond_error StatusBadRequest ErrorCodeBadRequest ''invalid consentId format'', t)
      else case subject of
        None \<Rightarrow> (ce_respond_error StatusUnauthorized ErrorCodeUnauthorized ''Owner identifier not found in token'', t)
      | Some owner \<Rightarrow>
          (case get_consent_portal_view env consent_id owner t of
             (Inr v, t') \<Rightarrow> (Success StatusOK v, t')
           | (Inl err, t') \<Rightarrow>
               (if ctx_err then timed_out
                else if errors_is err ErrConsentNotFound then
                  ce_respond_error StatusNotFound ErrorCodeConsentNotFound ''Consent not found''
                else if errors_is err ErrConsentAccessDenied then
                  ce_respond_error StatusForbidden ErrorCodeForbidden ''Access denied: consent belongs to a different user''
                else unexpected_error, t')))"

definition action_status_map :: "string \<rightharpoonup> string" where
  "action_status_map = [ActionApprove \<mapsto> StatusApproved, ActionReject \<mapsto> StatusRejected, ActionRevoke \<mapsto> StatusRevoked]"

definition update_error_reply :: "bool \<Rightarrow> ce_error \<Rightarrow> 'b ce_reply" where
  "update_error_reply ctx_err err =
     (if ctx_err then timed_out
      else if errors_is err ErrConsentNotFound then
        ce_respond_error StatusNotFound ErrorCodeConsentNotFound ''Consent not found''
      else if errors_is err ErrConsentAccessDenied then
        ce_respond_error StatusForbidden ErrorCodeForbidden ''Access denied: consent belongs to a different user''
      else if errors_is err ErrConsentNotPending then
        ce_respond_error StatusConflict ErrorCodeConsentNotPending ''Consent is no longer pending and cannot be updated''
      else if errors_is err ErrConsentNotRevocable then
        ce_respond_error StatusConflict ErrorCodeConsentNotRevocable ''Only an approved consent can be revoked''
      else if errors_is err ErrPortalRequestFailed then
        ce_respond_error StatusBadRequest ErrorCodeBadRequest ''Invalid consent update request''
      else unexpected_error)"

text \<open>The body's action, or the error text of a body that does not decode; the reply is the new status.\<close>

definition handle_update_consent ::
  "ce_env \<Rightarrow> bool \<Rightarrow> string \<Rightarrow> string \<Rightarrow> string option \<Rightarrow> string + string \<Rightarrow> consent_table \<Rightarrow>
   (string \<times> string) list ce_reply \<times> consent_table" where
  "handle_update_consent env ctx_err http_method consent_id subject body t =
     (if http_method \<noteq> ''PUT'' then (method_not_allowed, t)
      else if consent_id = '''' then
        (ce_respond_error StatusBadRequest ErrorCodeBadRequest ''consentId is required'', t)
      else if ce_parse_uuid env consent_id = None then
        (ce_respond_error StatusBadRequest ErrorCodeBadRequest ''invalid consentId format'', t)
      else case subject of
        None \<Rightarrow> (ce_respond_error StatusUnauthorized ErrorCodeUnauthorized ''Owner identifier not found in token'', t)
      | Some owner \<Rightarrow>
          (case body of
             Inl e \<Rightarrow> (ce_respond_error StatusBadRequest ErrorCodeBadRequest (''Invalid request body: '' @ e), t)
           | Inr action \<Rightarrow>
               (case action_status_map action of
                  None \<Rightarrow> (ce_respond_error StatusBadRequest ErrorCodeBadRequest
                     (''Invalid action: '' @ action @ ''. Must be '' @ quoted ActionApprove @ '', '' @
                       quoted ActionReject @ '' or '' @ quoted ActionRevoke), t)
                | Some new_status \<Rightarrow>
                    (case update_consent_status_by_portal_action env
                            \<lparr>pa_consent_id = consent_id, pa_owner_id = owner, pa_action = action,
                             pa_updated_by = owner\<rparr> t of
                       (Inl err, t') \<Rightarrow> (update_error_reply ctx_err err, t')
                     | (Inr _, t') \<Rightarrow>
                         (Success StatusOK [(''message'', ''Consent updated successfully''),
                                            (''status'', new_status)], t')))))"

section \<open>Internal handlers\<close>

definition handle_internal_get_consent ::
  "ce_env \<Rightarrow> bool \<Rightarrow> string \<Rightarrow> string \<Rightarrow> string \<Rightarrow> consent_table \<Rightarrow> internal_view ce_reply \<times> consent_table" where
  "handle_internal_get_consent env ctx_err http_method owner_id app_id t =
     (if http_method \<noteq> ''GET'' then (method_not_allowed, t)
      else if app_id = '''' then (ce_respond_error StatusBadRequest ErrorCodeBadRequest ''appId is required'', t)
      else if owner_id = '''' then (ce_respond_error StatusBadRequest ErrorCodeBadRequest ''ownerId is required'', t)
      else case get_consent_internal_view env None (Some owner_id) (Some app_id) t of
        (Inr v, t') \<Rightarrow> (Success StatusOK v, t')
      | (Inl err, t') \<Rightarrow>
          (if ctx_err then timed_out
           else if errors_is err ErrConsentNotFound then
             ce_respond_error_text StatusNotFound ErrorCodeConsentNotFound err
           else unexpected_error, t'))"

definition handle_internal_create_consent ::
  "ce_env \<Rightarrow> bool \<Rightarrow> string \<Rightarrow> string + create_consent_request \<Rightarrow> consent_table \<Rightarrow> internal_view ce_reply \<times> consent_table" where
  "handle_internal_create_consent env ctx_err http_method body t =
     (if http_method \<noteq> ''POST'' then (method_not_allowed, t)
      else case body of
        Inl e \<Rightarrow> (ce_respond_error StatusBadRequest ErrorCodeBadRequest (''Invalid request body: '' @ e), t)
      | Inr req \<Rightarrow>
          (case create_consent_record env req t of
             (Inr v, t') \<Rightarrow> (Success StatusCreated v, t')
           | (Inl err, t') \<Rightarrow>
               (if ctx_err then timed_out
                else if errors_is err ErrConsentCreateFailed then
                  ce_respond_error_text StatusBadRequest ErrorCodeBadRequest err
                else unexpected_error, t')))"

end
