(* ===== verification/CE_Facts.thy ===== *)
theory CE_Facts
  imports CE_Handlers
begin

text \<open>
  The contract of the Consent Engine's table and the proof that every operation keeps it:
  \<open>row_writes\<close> is the abstract specification (lawful updates of single records,
  inserts of fresh pending ones), each operation of the service is shown to refine it, and the
  invariants follow from it by rule induction.
\<close>

section \<open>Lawful changes of a record\<close>

definition same_request :: "consent_record \<Rightarrow> consent_record \<Rightarrow> bool" where
  "same_request c c' \<longleftrightarrow> cn_consent_id c' = cn_consent_id c \<and> cn_owner_id c' = cn_owner_id c \<and>
     cn_app_id c' = cn_app_id c \<and> cn_app_name c' = cn_app_name c \<and> cn_type c' = cn_type c \<and>
     cn_created_at c' = cn_created_at c \<and> cn_grant_duration c' = cn_grant_duration c \<and> cn_fields c' = cn_fields c"

fun legal_transition :: "string \<times> string \<Rightarrow> bool" where
  "legal_transition (s, s') =
     ((s = StatusPending \<and> s' \<in> {StatusApproved, StatusRejected, StatusExpired, StatusRevoked}) \<or>
      (s = StatusApproved \<and> s' \<in> {StatusExpired, StatusRevoked}))"

definition record_ok :: "consent_record \<Rightarrow> bool" where
  "record_ok c \<longleftrightarrow> known_status (cn_status c) \<and>
     (cn_status c = StatusPending \<longrightarrow> cn_pending_expires_at c \<noteq> None \<and> cn_grant_expires_at c = None) \<and>
     (cn_status c = StatusApproved \<longrightarrow> cn_pending_expires_at c = None \<and> cn_grant_expires_at c \<noteq> None)"

definition lawful :: "consent_record \<Rightarrow> consent_record \<Rightarrow> bool" where
  "lawful c c' \<longleftrightarrow> same_request c c' \<and> legal_transition (cn_status c, cn_status c') \<and> (record_ok c \<longrightarrow> record_ok c')"

text \<open>What may have become of a record: itself, or a record that followed it lawfully.\<close>

definition evolves :: "consent_record \<Rightarrow> consent_record \<Rightarrow> bool" where
  "evolves c c' \<longleftrightarrow> c' = c \<or> (same_request c c' \<and> legal_transition (cn_status c, cn_status c'))"

definition rows_evolve :: "consent_table \<Rightarrow> consent_table \<Rightarrow> bool" where
  "rows_evolve t t' \<longleftrightarrow> (\<forall>c \<in> set t. \<exists>c' \<in> set t'. evolves c c')"

definition ce_inv :: "consent_table \<Rightarrow> bool" where
  "ce_inv t \<longleftrightarrow> table_ok consent_clash t \<and> (\<forall>c \<in> set t. record_ok c)"

inductive row_writes :: "consent_table \<Rightarrow> consent_table \<Rightarrow> bool" where
  rw_refl: "row_writes t t"
| rw_update: "row_writes t u \<Longrightarrow> (\<And>c. c \<in> set u \<Longrightarrow> p c \<Longrightarrow> lawful c (f c)) \<Longrightarrow> row_writes t (sql_update p f u)"
| rw_insert: "row_writes t u \<Longrightarrow> sql_insert consent_clash c u = Some u' \<Longrightarrow> cn_status c = StatusPending \<Longrightarrow>
    record_ok c \<Longrightarrow> row_writes t u'"

lemma row_writes_trans:
  assumes "row_writes t u" "row_writes u v" shows "row_writes t v"
  using assms(2,1)
proof (induction rule: row_writes.induct)
  case (rw_insert t u c u')
  then show ?case using row_writes.rw_insert by blast
qed (auto intro: row_writes.intros)

lemmas rw_update1 = rw_update [OF rw_refl]
lemmas rw_insert1 = rw_insert [OF rw_refl]

lemma lawfulD:
  "lawful c c' \<Longrightarrow> cn_consent_id c' = cn_consent_id c" "lawful c c' \<Longrightarrow> is_active c"
  "lawful c c' \<Longrightarrow> cn_owner_id c' = cn_owner_id c" "lawful c c' \<Longrightarrow> cn_app_id c' = cn_app_id c"
  by (auto simp: lawful_def same_request_def is_active_def)

lemma lawful_no_clash: "lawful c c' \<Longrightarrow> consent_clash c' d \<Longrightarrow> consent_clash c d"
  using lawfulD unfolding consent_clash_def by metis

lemma table_ok_lawful:
  assumes "table_ok consent_clash t" "\<And>c. c \<in> set t \<Longrightarrow> p c \<Longrightarrow> lawful c (f c)"
  shows "table_ok consent_clash (sql_update p f t)"
proof (rule table_ok_update [OF assms(1)])
  fix x y assume xy: "x \<in> set t" "y \<in> set t" "consent_clash (if p x then f x else x) (if p y then f y else y)"
  then have "consent_clash x (if p y then f y else y)" using assms(2) lawful_no_clash by (auto split: if_splits)
  then show "consent_clash x y"
    using assms(2) xy(2) lawful_no_clash consent_table.clash_sym by (metis (full_types))
qed

lemma ce_inv_writes: "row_writes t t' \<Longrightarrow> ce_inv t \<Longrightarrow> ce_inv t'"
proof (induction rule: row_writes.induct)
  case (rw_update t u p f)
  then have "table_ok consent_clash (sql_update p f u)" by (intro table_ok_lawful) (auto simp: ce_inv_def)
  with rw_update show ?case by (auto simp: ce_inv_def set_sql_update lawful_def)
next
  case (rw_insert t u c u')
  have "table_ok consent_clash u'"
    using table_ok_insert rw_insert.hyps(2) rw_insert.IH rw_insert.prems by (auto simp: ce_inv_def)
  moreover have "set u' = insert c (set u)" using rw_insert.hyps(2) by (auto simp: sql_insert_Some_iff)
  ultimately show ?case
    using rw_insert by (auto simp: ce_inv_def)
qed

lemma table_ok_writes: "row_writes t t' \<Longrightarrow> table_ok consent_clash t \<Longrightarrow> table_ok consent_clash t'"
proof (induction rule: row_writes.induct)
  case (rw_update t u p f)
  then show ?case by (intro table_ok_lawful) auto
next
  case (rw_insert t u c u')
  show ?case by (rule table_ok_insert [OF rw_insert.IH [OF rw_insert.prems] rw_insert.hyps(2)])
qed

lemma legal_transition_trans:
  "legal_transition (a, b) \<Longrightarrow> legal_transition (b, c) \<Longrightarrow> legal_transition (a, c)"
  by auto

lemma evolves_trans: "evolves a b \<Longrightarrow> evolves b c \<Longrightarrow> evolves a c"
  unfolding evolves_def same_request_def using legal_transition_trans by (elim disjE) auto

lemma rows_evolve_writes: "row_writes t t' \<Longrightarrow> rows_evolve t t'"
proof (induction rule: row_writes.induct)
  case (rw_refl t)
  show ?case by (auto simp: rows_evolve_def evolves_def)
next
  case (rw_update t u p f)
  have "\<exists>c' \<in> set (sql_update p f u). evolves c c'" if "c \<in> set u" for c
    using that rw_update.hyps(2) [OF that]
    by (intro bexI [of _ "if p c then f c else c"]) (auto simp: set_sql_update evolves_def lawful_def)
  then show ?case using rw_update.IH evolves_trans unfolding rows_evolve_def by meson
next
  case (rw_insert t u c u')
  then show ?case by (auto simp: sql_insert_Some_iff rows_evolve_def)
qed

section \<open>Every operation refines the contract\<close>

lemma stale_lawful:
  "mark_expired_if_stale c now = (True, c') \<Longrightarrow> lawful c (c'\<lparr>cn_updated_at := x\<rparr>) \<and> c' = c\<lparr>cn_status := StatusExpired\<rparr>"
  by (auto simp: mark_expired_if_stale_def lawful_def same_request_def record_ok_def known_status_def split: if_splits)

lemma stale_active: "mark_expired_if_stale c now = (True, c') \<Longrightarrow> is_active c"
  by (auto simp: mark_expired_if_stale_def is_active_def split: if_splits)

text \<open>The conditional expiry is lawful whatever record it was loaded with.\<close>

lemma persist_expiry_writes: "row_writes t (snd (persist_expiry_if_stale env c now t))"
proof (cases "mark_expired_if_stale c now")
  case (Pair b c')
  show ?thesis
  proof (cases b)
    case False
    then show ?thesis using Pair by (simp add: persist_expiry_if_stale_def rw_refl)
  next
    case True
    let ?t' = "sql_update (\<lambda>r. cn_consent_id r = cn_consent_id c \<and> cn_status r = cn_status c)
        (\<lambda>r. r\<lparr>cn_status := StatusExpired, cn_updated_at := now\<rparr>) t"
    have "row_writes t ?t'"
      using stale_active [of c now c'] Pair True
      by (intro rw_update1) (auto simp: lawful_def same_request_def record_ok_def is_active_def known_status_def)
    moreover have "snd (persist_expiry_if_stale env c now t) \<in> {t, ?t'}"
      using Pair True by (auto simp: persist_expiry_if_stale_def Let_def split: option.splits)
    ultimately show ?thesis using rw_refl by auto
  qed
qed

lemma save_record_present:
  assumes "table_ok consent_clash t" "c \<in> set t" "cn_consent_id c' = cn_consent_id c"
  shows "save_record now c' t = sql_update (\<lambda>r. r = c) (\<lambda>_. c'\<lparr>cn_updated_at := now\<rparr>) t"
proof -
  have "cn_consent_id r = cn_consent_id c' \<longleftrightarrow> r = c" if "r \<in> set t" for r
    using consent_table.ok_key_inj [OF assms(1) that assms(2)] assms(3) by auto
  then show ?thesis
    using assms(2,3) by (auto simp: save_record_def Let_def sql_affected_0_iff sql_update_def)
qed

lemma expire_viewed_writes:
  assumes "table_ok consent_clash t" "c \<in> set t"
  shows "row_writes t (snd (expire_viewed env c t))"
proof (cases "mark_expired_if_stale c (ce_clock env AtView)")
  case (Pair b c')
  show ?thesis
  proof (cases b)
    case True
    have l: "lawful c (c'\<lparr>cn_updated_at := ce_clock env AtSave\<rparr>)" "cn_consent_id c' = cn_consent_id c"
      using stale_lawful [of c "ce_clock env AtView" c'] Pair True by auto
    have "row_writes t (save_record (ce_clock env AtSave) c' t)"
      unfolding save_record_present [OF assms l(2)] by (rule rw_update1) (use l in simp)
    then show ?thesis using Pair True rw_refl by (simp add: expire_viewed_def)
  qed (use Pair rw_refl in \<open>simp add: expire_viewed_def\<close>)
qed

lemma latest_consent_SomeD:
  assumes "latest_consent p t = Some c" shows "c \<in> set t \<and> p c"
  using sql_first_SomeD(1,2) [OF assms [unfolded latest_consent_def]] by blast

lemma internal_view_writes:
  "table_ok consent_clash t \<Longrightarrow> row_writes t (snd (get_consent_internal_view env i own app t))"
  using expire_viewed_writes latest_consent_SomeD rw_refl
  by (auto simp: get_consent_internal_view_def split: sum.splits option.splits)

lemma portal_view_writes: "row_writes t (snd (get_consent_portal_view env i own t))"
proof -
  have "row_writes t (snd (case persist_expiry_if_stale env c now t of
      (Inl err, t') \<Rightarrow> (Inl (wrap_error ErrConsentGetFailed err), t')
    | (Inr c', t') \<Rightarrow> (Inr (to_portal_view c'), t')))" for c now
    using persist_expiry_writes [of t env c now]
    by (cases "persist_expiry_if_stale env c now t") (auto split: sum.splits)
  then show ?thesis
    unfolding get_consent_portal_view_def by (simp add: rw_refl split: option.split)
qed

lemma expire_all_writes:
  "s \<in> {StatusPending, StatusApproved} \<Longrightarrow>
   row_writes t (sql_update (\<lambda>c. cn_owner_id c = own \<and> cn_status c = s \<and> past c)
     (\<lambda>c. c\<lparr>cn_status := StatusExpired, cn_updated_at := now\<rparr>) t)"
  by (intro rw_update1) (auto simp: lawful_def same_request_def record_ok_def known_status_def)

lemma expire_owner_writes: "row_writes t (snd (expire_stale_consents_by_owner env own t))"
  using row_writes_trans [OF expire_all_writes expire_all_writes]
  by (simp add: expire_stale_consents_by_owner_def Let_def rw_refl)

lemma list_writes: "row_writes t (snd (list_consents_by_owner env own ss l off t))"
  using expire_owner_writes [of t env own] rw_refl
  by (auto simp: list_consents_by_owner_def Let_def split: prod.splits sum.splits)

lemma build_record_ok [simp]:
  "record_ok (build_consent_record env req)" "cn_status (build_consent_record env req) = StatusPending"
  by (simp_all add: build_consent_record_def Let_def record_ok_def known_status_def)

lemma insert_consent_writes: "row_writes t (snd (insert_consent env stmt req t))"
  by (auto simp: insert_consent_def Let_def rw_refl intro: rw_insert1 split: option.splits)

lemma revoke_lawful:
  "is_active c \<Longrightarrow> lawful c (c\<lparr>cn_status := StatusRevoked, cn_updated_by := u, cn_updated_at := x\<rparr>)"
  by (auto simp: lawful_def same_request_def is_active_def record_ok_def known_status_def)

lemma revoke_and_create_writes:
  assumes ok: "table_ok consent_clash t"
  shows "row_writes t (snd (revoke_and_create_consent env i req t))"
proof -
  have "row_writes t t2" if "sql_first cn_consent_id (\<lambda>c. cn_consent_id c = u) t = Some c" "is_active c"
    "insert_consent env CeInsertInTx req (save_record y (c\<lparr>cn_status := StatusRevoked, cn_updated_at := x,
       cn_updated_by := w\<rparr>) t) = (res, t2)" for u c x y w res t2
  proof -
    have c: "c \<in> set t" by (rule sql_first_SomeD(1) [OF that(1)])
    have "row_writes t (save_record y (c\<lparr>cn_status := StatusRevoked, cn_updated_at := x, cn_updated_by := w\<rparr>) t)"
      by (subst save_record_present [OF ok c], simp, rule rw_update1) (use revoke_lawful [OF that(2)] in simp)
    then show ?thesis using insert_consent_writes that(3) row_writes_trans by (metis snd_conv)
  qed
  then show ?thesis
    unfolding revoke_and_create_consent_def Let_def is_active_def
    by (auto intro: rw_refl split: option.splits prod.splits sum.splits)
qed

lemma create_consent_writes:
  assumes ok: "ce_inv t"
  shows "row_writes t (snd (create_consent_record env req t))"
proof -
  obtain res t' where v: "get_consent_internal_view env None (Some (rq_owner_id (cq_requirement req)))
      (Some (cq_app_id req)) t = (res, t')" by fastforce
  have w: "row_writes t t'" using internal_view_writes ok v unfolding ce_inv_def by (metis snd_conv)
  have ok': "table_ok consent_clash t'" using ce_inv_writes [OF w ok] by (simp add: ce_inv_def)
  have "row_writes t (snd (insert_consent env CeInsert req t'))"
    "row_writes t (snd (revoke_and_create_consent env i req t'))" for i
    using row_writes_trans [OF w] insert_consent_writes revoke_and_create_writes [OF ok'] by blast+
  then show ?thesis
    using w rw_refl unfolding create_consent_record_def v Let_def
    by (auto split: sum.splits prod.splits)
qed

lemma action_updates_lawful:
  assumes "action_updates req c now = Inr f" "cn_status r = fst (action_from (pa_action req))"
  shows "lawful r (f r)"
  using assms
  by (auto simp: action_updates_def action_from_def Let_def lawful_def same_request_def record_ok_def
      known_status_def split: if_splits)

lemma action_decide_writes: "row_writes t (snd (action_decide env req c now t))"
proof (cases "action_updates req c now")
  case (Inr f)
  have "row_writes t (sql_update (\<lambda>r. cn_consent_id r = cn_consent_id c \<and> cn_owner_id r = pa_owner_id req \<and>
      cn_status r = fst (action_from (pa_action req))) f t)"
    by (rule rw_update1) (use action_updates_lawful [OF Inr] in blast)
  then show ?thesis
    using Inr rw_refl by (auto simp: action_decide_def Let_def split: prod.splits)
qed (auto simp: action_decide_def rw_refl split: prod.splits)

lemma portal_action_writes: "row_writes t (snd (update_consent_status_by_portal_action env req t))"
proof (cases "action_load env req t")
  case (Inr c)
  obtain res t' where p: "persist_expiry_if_stale env c (ce_clock env AtAction) t = (res, t')" by fastforce
  have "row_writes t t'" using persist_expiry_writes p by (metis snd_conv)
  then show ?thesis
    using Inr p row_writes_trans [OF _ action_decide_writes]
    by (auto simp: update_consent_status_by_portal_action_def split: sum.splits)
qed (simp add: update_consent_status_by_portal_action_def rw_refl)

end
