(* ===== verification/CE_Properties.thy ===== *)
theory CE_Properties
  imports CE_Facts
begin

text \<open>
  Correctness of the Consent Engine: the invariant of its table and the life cycle of a record
  under any sequence of requests, what each operation does, who may change a record, and what
  concurrent requests can and cannot do to each other.
\<close>

section \<open>Requests\<close>

inductive ce_step :: "consent_table \<Rightarrow> consent_table \<Rightarrow> bool" where
  ce_internal_get: "handle_internal_get_consent env cx hm own app t = (irep, t') \<Longrightarrow> ce_step t t'"
| ce_internal_create: "handle_internal_create_consent env cx hm body t = (irep, t') \<Longrightarrow> ce_step t t'"
| ce_list: "handle_list_consents env cx hm sub ss l off t = (lrep, t') \<Longrightarrow> ce_step t t'"
| ce_get: "handle_get_consent env cx hm i sub t = (prep, t') \<Longrightarrow> ce_step t t'"
| ce_update: "handle_update_consent env cx hm i sub act t = (urep, t') \<Longrightarrow> ce_step t t'"

inductive ce_steps :: "consent_table \<Rightarrow> consent_table \<Rightarrow> bool" where
  ce_steps_refl: "ce_steps t t"
| ce_steps_step: "ce_steps t u \<Longrightarrow> ce_step u v \<Longrightarrow> ce_steps t v"

lemma ce_step_writes: "ce_step t t' \<Longrightarrow> ce_inv t \<Longrightarrow> row_writes t t'"
proof (induction rule: ce_step.induct)
  case (ce_internal_get env cx hm own app t irep t')
  have ok: "table_ok consent_clash t" using ce_internal_get.prems by (simp add: ce_inv_def)
  show ?case
    using ce_internal_get.hyps internal_view_writes [OF ok, of env None "Some own" "Some app"]
    by (auto simp: handle_internal_get_consent_def rw_refl split: if_splits prod.splits sum.splits)
next
  case (ce_internal_create env cx hm body t irep t')
  then show ?case
    using create_consent_writes [of t env "projr body"]
    by (auto simp: handle_internal_create_consent_def rw_refl split: if_splits prod.splits sum.splits)
next
  case (ce_list env cx hm sub ss l off t lrep t')
  have w: "row_writes t t1" if "list_consents_by_owner env own st li n t = (res, t1)" for own st li n res t1
    using list_writes [of t env own st li n] that by simp
  show ?case
    using ce_list.hyps w
    by (auto simp: handle_list_consents_def rw_refl split: if_splits prod.splits sum.splits option.splits)
next
  case (ce_get env cx hm i sub t prep t')
  have w: "row_writes t t1" if "get_consent_portal_view env i own t = (res, t1)" for own res t1
    using portal_view_writes [of t env i own] that by simp
  show ?case
    using ce_get.hyps w
    by (auto simp: handle_get_consent_def rw_refl split: if_splits prod.splits sum.splits option.splits)
next
  case (ce_update env cx hm i sub act t urep t')
  have w: "row_writes t t1" if "update_consent_status_by_portal_action env req t = (res, t1)" for req res t1
    using portal_action_writes [of t env req] that by simp
  show ?case
    using ce_update.hyps w
    by (auto simp: handle_update_consent_def rw_refl split: if_splits prod.splits sum.splits option.splits)
qed

lemma ce_steps_writes: "ce_steps t t' \<Longrightarrow> ce_inv t \<Longrightarrow> row_writes t t'"
proof (induction rule: ce_steps.induct)
  case (ce_steps_refl t)
  show ?case by (rule rw_refl)
next
  case (ce_steps_step t u v)
  then show ?case using ce_step_writes ce_inv_writes row_writes_trans by blast
qed

section \<open>Concrete inputs\<close>

definition sample_ce_env :: "time \<Rightarrow> ce_env" where
  "sample_ce_env now = \<lparr>ce_parse_uuid = (\<lambda>s. if s = '''' then None else Some s), ce_uuid = ''new'',
     ce_clock = (\<lambda>_. now), ce_fails = (\<lambda>_. False), ce_base_url = ''https://portal''\<rparr>"

definition sample_consent :: "string \<Rightarrow> string \<Rightarrow> string \<Rightarrow> time option \<Rightarrow> time option \<Rightarrow> consent_record" where
  "sample_consent i own status pending grant =
     \<lparr>cn_consent_id = i, cn_owner_id = own, cn_app_id = ''app'', cn_app_name = None, cn_status = status,
      cn_type = TypeRealtime, cn_created_at = 0, cn_updated_at = 0, cn_pending_expires_at = pending,
      cn_grant_expires_at = grant, cn_grant_duration = DurationOneDay,
      cn_fields = [\<lparr>cf_field_name = ''nic'', cf_schema_id = ''person'', cf_display_name = None,
                     cf_description = None, cf_owner = ''citizen''\<rparr>],
      cn_session_id = None, cn_portal_url = ''https://portal?consentId='' @ i, cn_updated_by = None\<rparr>"

definition sample_consents :: consent_table where
  "sample_consents = [sample_consent ''c1'' ''ann'' StatusPending (Some hour) None,
                      sample_consent ''c2'' ''bob'' StatusApproved None (Some day)]"

definition sample_action :: "string \<Rightarrow> portal_action_request" where
  "sample_action a = \<lparr>pa_consent_id = ''c1'', pa_owner_id = ''ann'', pa_action = a, pa_updated_by = ''ann''\<rparr>"

lemma sample_consents_inv: "ce_inv sample_consents"
  by (auto simp: sample_consents_def sample_consent_def ce_inv_def table_ok_def consent_clash_def record_ok_def
      known_status_def)

lemma sample_first: "sql_first cn_consent_id (\<lambda>c. cn_consent_id c = ''c1'') sample_consents =
    Some (sample_consent ''c1'' ''ann'' StatusPending (Some hour) None)"
  using consent_table.first_by_key [of sample_consents cn_consent_id "''c1''"] sample_consents_inv
  by (simp add: ce_inv_def sample_consents_def sample_consent_def)

lemma sample_action_runs:
  "update_consent_status_by_portal_action (sample_ce_env 5) (sample_action ActionApprove) sample_consents =
     (Inr (), [(sample_consent ''c1'' ''ann'' StatusApproved None (Some (5 + 24 * hour)))
                 \<lparr>cn_updated_at := 5, cn_updated_by := Some ''ann''\<rparr>,
               sample_consent ''c2'' ''bob'' StatusApproved None (Some day)])"
proof -
  have "action_load (sample_ce_env 5) (sample_action ActionApprove) sample_consents =
      Inr (sample_consent ''c1'' ''ann'' StatusPending (Some hour) None)"
    using sample_first
    by (simp add: action_load_def sample_action_def is_valid_portal_action_def sample_ce_env_def)
       (simp add: sample_consent_def)
  then show ?thesis
    by (simp add: update_consent_status_by_portal_action_def persist_expiry_if_stale_def
        mark_expired_if_stale_def sample_consent_def after_def sample_ce_env_def hour_def action_decide_def
        sample_action_def action_from_def action_updates_def sample_consents_def sql_affected_def
        sql_update_def parse_grant_duration_def duration_defs)
qed

section \<open>The life of a consent\<close>

text \<open>
  C10. Whatever requests the Consent Engine has served, consent ids are unique, an owner and an
  application share at most one consent that is pending or approved, a pending consent has a
  deadline and no grant, and an approved one has a grant that ends.
\<close>

lemma ce_reachable_inv: "ce_steps [] t \<Longrightarrow> ce_inv t"
  using ce_steps_writes ce_inv_writes by (fastforce simp: ce_inv_def)

text \<open>
  C11. No request deletes a consent or changes what was asked (owner, application, fields,
  duration); a consent only moves from pending to approved, rejected, expired or revoked, and
  from approved to expired or revoked, and one that is rejected, expired or revoked never
  changes again.
\<close>

lemma consent_life_cycle:
  assumes "ce_inv t" "ce_steps t t'" "c \<in> set t"
  shows "\<exists>c' \<in> set t'. c' = c \<or>
    (same_request c c' \<and>
     (cn_status c, cn_status c') \<in>
       {(StatusPending, StatusApproved), (StatusPending, StatusRejected), (StatusPending, StatusExpired),
        (StatusPending, StatusRevoked), (StatusApproved, StatusExpired), (StatusApproved, StatusRevoked)})"
  using rows_evolve_writes [OF ce_steps_writes [OF assms(2,1)]] assms(3)
  unfolding rows_evolve_def evolves_def by fastforce

lemma consent_life_cycle_witness:
  "\<exists>t'. update_consent_status_by_portal_action (sample_ce_env 5) (sample_action ActionApprove) sample_consents = (Inr (), t') \<and>
     (\<exists>c' \<in> set t'. same_request (sample_consents ! 0) c' \<and> cn_status c' = StatusApproved)"
proof -
  let ?t' = "snd (update_consent_status_by_portal_action (sample_ce_env 5) (sample_action ActionApprove) sample_consents)"
  have "ce_step sample_consents ?t'"
    by (rule ce_update [of "sample_ce_env 5" False "''PUT''" "''c1''" "Some ''ann''" "Inr ActionApprove" _
          "Success 200 [(''message'', ''Consent updated successfully''), (''status'', StatusApproved)]"])
      (use sample_action_runs in \<open>simp add: handle_update_consent_def sample_ce_env_def action_status_map_def
        sample_action_def\<close>)
  then have steps: "ce_steps sample_consents ?t'" using ce_steps_refl ce_steps_step by blast
  have c0: "sample_consents ! 0 \<in> set sample_consents" by (simp add: sample_consents_def)
  have "\<exists>c' \<in> set ?t'. c' = sample_consents ! 0 \<or> same_request (sample_consents ! 0) c'"
    using consent_life_cycle [OF sample_consents_inv steps c0] by blast
  then show ?thesis
    unfolding sample_action_runs by (auto simp: sample_consents_def sample_consent_def same_request_def)
qed

section \<open>Creating consents\<close>

lemma are_consent_fields_equal_Some [simp]: "are_consent_fields_equal (Some xs) (Some ys) \<longleftrightarrow> xs = ys"
proof -
  have "length xs = length ys \<Longrightarrow> list_all (\<lambda>(x, y). consent_field_equals x y) (zip xs ys) \<longleftrightarrow> xs = ys"
    by (induction xs ys rule: list_induct2) (auto simp: consent_field_equals_iff)
  then show ?thesis by (auto simp: are_consent_fields_equal_def)
qed

definition answers :: "create_consent_request \<Rightarrow> consent_record \<Rightarrow> bool" where
  "answers req c \<longleftrightarrow> cn_owner_id c = rq_owner_id (cq_requirement req) \<and> cn_app_id c = cq_app_id req \<and>
     cn_fields c = rq_fields (cq_requirement req)"

lemma answers_build [simp]: "answers req (build_consent_record env req)"
  by (simp add: answers_def build_consent_record_def Let_def)

lemma insert_consent_Inr:
  "insert_consent env stmt req t = (Inr v, t') \<Longrightarrow>
     v = to_internal_view (build_consent_record env req) \<and> build_consent_record env req \<in> set t'"
  by (auto simp: insert_consent_def Let_def sql_insert_Some_iff split: if_splits option.splits)

lemma revoke_and_create_Inr:
  "revoke_and_create_consent env i req t = (Inr v, t') \<Longrightarrow>
     v = to_internal_view (build_consent_record env req) \<and> build_consent_record env req \<in> set t'"
  by (auto simp: revoke_and_create_consent_def Let_def dest!: insert_consent_Inr
      split: option.splits if_splits sum.splits prod.splits)

lemma internal_view_Inr:
  assumes "get_consent_internal_view env None (Some own) (Some app) t = (Inr v, t')"
  obtains c where "c \<in> set t" "cn_owner_id c = own" "cn_app_id c = app"
    "fst (mark_expired_if_stale c (ce_clock env AtView)) \<Longrightarrow> iv_status v = StatusExpired"
    "\<not> fst (mark_expired_if_stale c (ce_clock env AtView)) \<Longrightarrow> v = to_internal_view c \<and> t' = t"
proof -
  obtain c where c: "latest_consent (\<lambda>c. cn_owner_id c = own \<and> cn_app_id c = app) t = Some c"
    and v: "expire_viewed env c t = (Inr v, t')"
    using assms by (auto simp: get_consent_internal_view_def view_predicate_def split: if_splits option.splits)
  show thesis
    using latest_consent_SomeD [OF c] v stale_lawful [of c "ce_clock env AtView"]
    by (intro that [of c])
      (auto simp: expire_viewed_def to_internal_view_def split: prod.splits bool.splits if_splits)
qed

text \<open>
  C26. A successful create request returns the view of an active consent in the table for
  exactly the requested owner, application and fields. It is pending unless an approved
  consent with these fields was in the table before and had not expired: creating a consent
  never approves it.
\<close>

lemma create_consent_correct:
  assumes run: "create_consent_record env req t = (Inr v, t')"
  shows "\<exists>c \<in> set t'. v = to_internal_view c \<and> answers req c \<and> is_active c \<and>
    (cn_status c = StatusPending \<or>
     (c \<in> set t \<and> cn_status c = StatusApproved \<and> \<not> fst (mark_expired_if_stale c (ce_clock env AtView))))"
proof -
  let ?own = "rq_owner_id (cq_requirement req)" and ?new = "build_consent_record env req"
  obtain res t1 where view: "get_consent_internal_view env None (Some ?own) (Some (cq_app_id req)) t = (res, t1)"
    by fastforce
  have fresh: thesis if "v = to_internal_view ?new" "?new \<in> set t'"
    "\<And>c. c \<in> set t' \<Longrightarrow> v = to_internal_view c \<Longrightarrow> answers req c \<Longrightarrow> cn_status c = StatusPending \<Longrightarrow> thesis" for thesis
    using that by simp
  show ?thesis
  proof (cases "\<exists>v1. res = Inr v1 \<and> (iv_status v1 = StatusPending \<or> iv_status v1 = StatusApproved) \<and>
      are_consent_fields_equal (iv_fields v1) (Some (rq_fields (cq_requirement req)))")
    case True
    then obtain v1 where v1: "res = Inr v1" "iv_status v1 = StatusPending \<or> iv_status v1 = StatusApproved"
      "are_consent_fields_equal (iv_fields v1) (Some (rq_fields (cq_requirement req)))" by blast
    then have eq: "v = v1" "t' = t1"
      using run by (auto simp: create_consent_record_def view Let_def split: sum.splits)
    obtain c where c: "c \<in> set t" "cn_owner_id c = ?own" "cn_app_id c = cq_app_id req"
      "fst (mark_expired_if_stale c (ce_clock env AtView)) \<Longrightarrow> iv_status v1 = StatusExpired"
      "\<not> fst (mark_expired_if_stale c (ce_clock env AtView)) \<Longrightarrow> v1 = to_internal_view c \<and> t1 = t"
      using internal_view_Inr [OF view [unfolded v1(1)]] by blast
    have live: "\<not> fst (mark_expired_if_stale c (ce_clock env AtView))" using c(4) v1(2) by auto
    have "cn_status c = StatusPending \<or> cn_status c = StatusApproved" "cn_fields c = rq_fields (cq_requirement req)"
      using c(5) [OF live] v1(2,3) by (auto simp: to_internal_view_def split: if_splits)
    then show ?thesis
      using c live eq by (intro bexI [of _ c]) (auto simp: answers_def is_active_def)
  next
    case False
    then have "v = to_internal_view ?new \<and> ?new \<in> set t'"
      using run
      by (auto simp: create_consent_record_def view Let_def dest: insert_consent_Inr revoke_and_create_Inr
          split: sum.splits prod.splits if_splits)
    then show ?thesis by (intro bexI [of _ ?new]) (auto simp: is_active_def)
  qed
qed

definition sample_create_consent :: create_consent_request where
  "sample_create_consent = \<lparr>cq_app_id = ''app'', cq_app_name = None,
     cq_requirement = \<lparr>rq_owner = ''citizen'', rq_owner_id = ''cid'', rq_fields = cn_fields (sample_consents ! 0)\<rparr>,
     cq_grant_duration = Some ''P1D'', cq_consent_type = None\<rparr>"

lemma sample_create_consent_runs:
  "create_consent_record (sample_ce_env 5) sample_create_consent [] =
     (Inr (to_internal_view (build_consent_record (sample_ce_env 5) sample_create_consent)),
      [build_consent_record (sample_ce_env 5) sample_create_consent])"
  by (simp add: create_consent_record_def validate_create_request_def sample_create_consent_def
      sample_consents_def sample_consent_def is_valid_grant_duration_def duration_defs validate_field_def
      get_consent_internal_view_def view_predicate_def latest_consent_def sql_first_def sample_ce_env_def
      insert_consent_def sql_insert_def Let_def)

lemma create_consent_correct_witness:
  "\<exists>v t'. create_consent_record (sample_ce_env 5) sample_create_consent [] = (Inr v, t') \<and>
     (\<exists>c \<in> set t'. v = to_internal_view c \<and> answers sample_create_consent c \<and> cn_status c = StatusPending)"
  using create_consent_correct [OF sample_create_consent_runs] sample_create_consent_runs by auto

lemma ce_reachable_inv_witness:
  "ce_inv [build_consent_record (sample_ce_env 5) sample_create_consent]"
proof (rule ce_reachable_inv)
  have "ce_step [] [build_consent_record (sample_ce_env 5) sample_create_consent]"
    by (rule ce_internal_create [of "sample_ce_env 5" False "''POST''" "Inr sample_create_consent"])
      (simp add: handle_internal_create_consent_def sample_create_consent_runs)
  then show "ce_steps [] [build_consent_record (sample_ce_env 5) sample_create_consent]"
    using ce_steps_refl ce_steps_step by blast
qed

section \<open>Portal actions\<close>

text \<open>The change a valid action makes to the row it decides.\<close>

definition decided_record :: "portal_action_request \<Rightarrow> time \<Rightarrow> consent_record \<Rightarrow> consent_record" where
  "decided_record req now c = c\<lparr>
     cn_status := (if pa_action req = ActionApprove then StatusApproved
                   else if pa_action req = ActionReject then StatusRejected else StatusRevoked),
     cn_grant_expires_at := (if pa_action req = ActionApprove
                             then Some (now + parse_grant_duration (cn_grant_duration c)) else cn_grant_expires_at c),
     cn_updated_at := now, cn_updated_by := Some (pa_updated_by req), cn_pending_expires_at := None\<rparr>"

lemma parse_grant_duration_bounds: "hour \<le> parse_grant_duration d \<and> parse_grant_duration d \<le> 30 * day"
  by (simp add: parse_grant_duration_def hour_def day_def)

lemma action_load_Inr:
  assumes "table_ok consent_clash t" "c \<in> set t" "ce_parse_uuid env (pa_consent_id req) = Some (cn_consent_id c)"
    "is_valid_portal_action (pa_action req)" "\<not> ce_fails env CeFindById"
  shows "action_load env req t =
    (if cn_owner_id c = pa_owner_id req then Inr c else Inl (sentinel_error ErrConsentAccessDenied ''''))"
proof -
  have "sql_first cn_consent_id (\<lambda>r. cn_consent_id r = cn_consent_id c) t = Some c"
    by (simp add: consent_table.first_by_key [OF assms(1)] assms(2))
  then show ?thesis using assms(3-5) by (simp add: action_load_def)
qed

lemma update_own_row:
  assumes "table_ok consent_clash t" "c \<in> set t" "p c" "\<And>r. p r \<Longrightarrow> cn_consent_id r = cn_consent_id c"
  shows "sql_update p f t = sql_update (\<lambda>r. r = c) (\<lambda>_. f c) t" and "sql_affected p t = 1"
proof -
  have "p r \<longleftrightarrow> r = c" if "r \<in> set t" for r
    using that assms consent_table.ok_key_inj [OF assms(1)] by metis
  then show "sql_update p f t = sql_update (\<lambda>r. r = c) (\<lambda>_. f c) t"
    by (auto simp: sql_update_def)
  show "sql_affected p t = 1"
  proof -
    have "\<exists>r \<in> set t. p r" using assms(2,3) by blast
    then show ?thesis by (simp add: consent_table.affected_by_key [OF assms(1,4)])
  qed
qed

text \<open>
  C25. A portal action of the consent's owner, with the database up, does exactly one of three
  things: a consent past its deadline is marked expired and the action refused; a consent in
  the wrong status is left alone and the action refused; any other consent gets the decision,
  and an approval is a grant of the requested duration from now on.
\<close>

lemma portal_action_correct:
  assumes ok: "table_ok consent_clash t" and c: "c \<in> set t"
    and req: "ce_parse_uuid env (pa_consent_id req) = Some (cn_consent_id c)"
      "is_valid_portal_action (pa_action req)" "cn_owner_id c = pa_owner_id req"
    and up: "ce_fails env = (\<lambda>_. False)"
  defines "now \<equiv> ce_clock env AtAction"
  shows "update_consent_status_by_portal_action env req t =
    (if fst (mark_expired_if_stale c now) then
       (Inl (sentinel_error (snd (action_from (pa_action req))) (''current status is '' @ StatusExpired)),
        sql_update (\<lambda>r. r = c) (\<lambda>_. c\<lparr>cn_status := StatusExpired, cn_updated_at := now\<rparr>) t)
     else if cn_status c \<noteq> fst (action_from (pa_action req)) then
       (Inl (sentinel_error (snd (action_from (pa_action req))) (''current status is '' @ cn_status c)), t)
     else (Inr (), sql_update (\<lambda>r. r = c) (\<lambda>_. decided_record req now c) t))"
proof -
  have load: "action_load env req t = Inr c"
    using action_load_Inr [OF ok c req(1,2)] req(3) up by simp
  have from_not_expired: "fst (action_from (pa_action req)) \<noteq> StatusExpired"
    by (simp add: action_from_def)
  show ?thesis
  proof (cases "fst (mark_expired_if_stale c now)")
    case True
    then obtain c' where m: "mark_expired_if_stale c now = (True, c')" by (cases "mark_expired_if_stale c now") auto
    have c': "c' = c\<lparr>cn_status := StatusExpired\<rparr>" using stale_lawful [OF m] by simp
    note row = update_own_row [OF ok c, of "\<lambda>r. cn_consent_id r = cn_consent_id c \<and> cn_status r = cn_status c"]
    have "persist_expiry_if_stale env c now t =
        (Inr (c'\<lparr>cn_updated_at := now\<rparr>), sql_update (\<lambda>r. r = c) (\<lambda>_. c\<lparr>cn_status := StatusExpired, cn_updated_at := now\<rparr>) t)"
      using m row up by (simp add: persist_expiry_if_stale_def Let_def)
    then show ?thesis
      using True load from_not_expired
      by (auto simp: update_consent_status_by_portal_action_def action_decide_def now_def c' split: prod.splits)
  next
    case False
    then have p: "persist_expiry_if_stale env c now t = (Inr c, t)"
      by (cases "mark_expired_if_stale c now") (auto simp: persist_expiry_if_stale_def)
    show ?thesis
    proof (cases "cn_status c = fst (action_from (pa_action req))")
      case True
      obtain f where f: "action_updates req c now = Inr f" "f c = decided_record req now c"
        using req(2) by (auto simp: action_updates_def Let_def is_valid_portal_action_def decided_record_def)
      note row = update_own_row [OF ok c, of "\<lambda>r. cn_consent_id r = cn_consent_id c \<and> cn_owner_id r = pa_owner_id req \<and>
          cn_status r = fst (action_from (pa_action req))"]
      show ?thesis
        using False True p load f row req(3) up
        by (cases "action_from (pa_action req)")
          (simp add: update_consent_status_by_portal_action_def action_decide_def now_def Let_def)
    qed (use False p load in \<open>auto simp: update_consent_status_by_portal_action_def action_decide_def now_def
        split: prod.splits\<close>)
  qed
qed

lemma portal_action_correct_witness:
  "cn_status (sample_consents ! 0) = StatusPending \<and>
   fst (update_consent_status_by_portal_action (sample_ce_env 5) (sample_action ActionReject) sample_consents) = Inr () \<and>
   decided_record (sample_action ActionReject) 5 (sample_consents ! 0)
     \<in> set (snd (update_consent_status_by_portal_action (sample_ce_env 5) (sample_action ActionReject) sample_consents))"
  using portal_action_correct [of sample_consents "sample_consents ! 0" "sample_ce_env 5" "sample_action ActionReject"]
    sample_consents_inv
  by (simp add: ce_inv_def sample_consents_def sample_consent_def sample_action_def sample_ce_env_def
      is_valid_portal_action_def mark_expired_if_stale_def after_def hour_def action_from_def sql_update_def)

text \<open>
  Nobody but its owner changes a consent through the portal: a portal action, a portal view
  and a listing by another user leave the record as it is, and the action and the view are
  refused with the access error.
\<close>

lemma other_owner_cannot_touch:
  assumes ok: "table_ok consent_clash t" and c: "c \<in> set t"
    and other: "cn_owner_id c \<noteq> pa_owner_id req" "cn_owner_id c \<noteq> own"
  shows "c \<in> set (snd (update_consent_status_by_portal_action env req t)) \<and>
    c \<in> set (snd (get_consent_portal_view env i own t)) \<and>
    c \<in> set (snd (list_consents_by_owner env own ss l off t)) \<and>
    (ce_parse_uuid env i = Some (cn_consent_id c) \<and> \<not> ce_fails env CeFindById \<longrightarrow>
       fst (get_consent_portal_view env i own t) = Inl (sentinel_error ErrConsentAccessDenied '''')) \<and>
    (ce_parse_uuid env (pa_consent_id req) = Some (cn_consent_id c) \<and> \<not> ce_fails env CeFindById \<and>
     is_valid_portal_action (pa_action req) \<longrightarrow>
       fst (update_consent_status_by_portal_action env req t) = Inl (sentinel_error ErrConsentAccessDenied ''''))"
proof -
  have kept: "c \<in> set (sql_update p f u)" if "c \<in> set u" "\<not> p c" for p f u
    using that by (auto simp: set_sql_update image_iff intro!: bexI [of _ c])
  have persist: "c \<in> set (snd (persist_expiry_if_stale env d now t))"
    if "d \<in> set t" "cn_owner_id d \<noteq> cn_owner_id c" for d now
  proof -
    have "cn_consent_id c \<noteq> cn_consent_id d" using consent_table.ok_key_inj [OF ok c that(1)] that(2) by auto
    then show ?thesis
      using c kept by (auto simp: persist_expiry_if_stale_def Let_def split: prod.splits bool.splits option.splits)
  qed
  have "c \<in> set (snd (update_consent_status_by_portal_action env req t))"
  proof (cases "action_load env req t")
    case (Inr d)
    then have d: "d \<in> set t" "cn_owner_id d = pa_owner_id req"
      unfolding action_load_def by (auto split: if_splits option.splits dest: sql_first_SomeD(1))
    obtain res u where u: "persist_expiry_if_stale env d (ce_clock env AtAction) t = (res, u)" by fastforce
    have cu: "c \<in> set u" using persist [OF d(1), of "ce_clock env AtAction"] d(2) other(1) u by simp
    have "c \<in> set (snd (action_decide env req e now u))" for e now
      using cu other(1) by (auto simp: action_decide_def Let_def intro!: kept split: prod.splits sum.splits)
    then show ?thesis
      using Inr u cu by (auto simp: update_consent_status_by_portal_action_def split: sum.splits)
  qed (simp add: update_consent_status_by_portal_action_def c)
  moreover have "c \<in> set (snd (get_consent_portal_view env i own t))"
  proof -
    have "c \<in> set u" if "sql_first cn_consent_id (\<lambda>r. cn_consent_id r = x) t = Some d" "cn_owner_id d = own"
      "persist_expiry_if_stale env d now t = (res, u)" for x d now res u
      using persist [OF sql_first_SomeD(1) [OF that(1)], of now] that(2,3) other(2) by simp
    then show ?thesis
      using c by (auto simp: get_consent_portal_view_def split: option.splits prod.splits sum.splits)
  qed
  moreover have "c \<in> set (snd (list_consents_by_owner env own ss l off t))"
    using c other(2) kept
    by (auto simp: list_consents_by_owner_def expire_stale_consents_by_owner_def Let_def)
  moreover have "sql_first cn_consent_id (\<lambda>r. cn_consent_id r = cn_consent_id c) t = Some c"
    by (simp add: consent_table.first_by_key [OF ok] c)
  ultimately show ?thesis
    using action_load_Inr [OF ok c] other
    by (simp add: get_consent_portal_view_def update_consent_status_by_portal_action_def)
qed

lemma other_owner_cannot_touch_witness:
  "fst (update_consent_status_by_portal_action (sample_ce_env 5) ((sample_action ActionApprove)\<lparr>pa_owner_id := ''eve''\<rparr>)
     sample_consents) = Inl (sentinel_error ErrConsentAccessDenied '''')"
  using other_owner_cannot_touch [of sample_consents "sample_consents ! 0" "(sample_action ActionApprove)\<lparr>pa_owner_id := ''eve''\<rparr>"
      "''eve''" "sample_ce_env 5"] sample_consents_inv
  by (simp add: ce_inv_def sample_consents_def sample_consent_def sample_action_def sample_ce_env_def
      is_valid_portal_action_def)

section \<open>Concurrent requests\<close>

lemma decided_status:
  "action_updates req c now = Inr f \<Longrightarrow>
     \<not> legal_transition (cn_status (f r), fst (action_from (pa_action req))) \<and>
     cn_status (f r) \<noteq> fst (action_from (pa_action req))"
  by (auto simp: action_updates_def action_from_def Let_def split: if_splits)

lemma action_decide_Inr:
  assumes run: "action_decide env req c now t = (Inr u, t')"
  obtains f r where "action_updates req c now = Inr f" "r \<in> set t" "cn_consent_id r = cn_consent_id c"
    "cn_status r = fst (action_from (pa_action req))" "f r \<in> set t'" "row_writes t t'"
proof -
  let ?p = "\<lambda>r. cn_consent_id r = cn_consent_id c \<and> cn_owner_id r = pa_owner_id req \<and>
      cn_status r = fst (action_from (pa_action req))"
  obtain f where f: "action_updates req c now = Inr f" "sql_affected ?p t = 1" "t' = sql_update ?p f t"
    using run by (auto simp: action_decide_def Let_def split: prod.splits if_splits sum.splits)
  then have "\<not> sql_affected ?p t = 0" by simp
  then obtain r where r: "r \<in> set t" "?p r" unfolding sql_affected_0_iff by blast
  then have "f r \<in> set t'" by (auto simp: f(3) set_sql_update image_iff intro!: bexI [of _ r])
  moreover have "row_writes t t'" using action_decide_writes [of t env req c now] run by simp
  ultimately show thesis using that f(1) r by blast
qed

text \<open>
  C18. Of the portal actions that decide the same consent from the same status, one wins:
  however they loaded the record and whatever other requests run in between, once one action
  has succeeded a later one is refused and changes nothing.
\<close>

lemma portal_actions_exclude:
  assumes ok: "table_ok consent_clash t"
    and win: "action_decide env1 req1 c1 now1 t = (Inr u, t1)"
    and between: "row_writes t1 t2"
    and late: "cn_consent_id c2 = cn_consent_id c1" "action_from (pa_action req2) = action_from (pa_action req1)"
      "is_valid_portal_action (pa_action req2)" "\<not> ce_fails env2 CeDecideRow"
  shows "\<exists>msg. action_decide env2 req2 c2 now2 t2 =
    (Inl (sentinel_error (snd (action_from (pa_action req2))) msg), t2)"
proof -
  let ?from = "fst (action_from (pa_action req1))"
  obtain f r where r: "action_updates req1 c1 now1 = Inr f" "cn_consent_id r = cn_consent_id c1"
    "cn_status r = ?from" "f r \<in> set t1" "row_writes t t1"
    using action_decide_Inr [OF win] by metis
  have ok2: "table_ok consent_clash t2" using table_ok_writes [OF between table_ok_writes [OF r(5) ok]] .
  obtain r2 where r2: "r2 \<in> set t2" "evolves (f r) r2"
    using rows_evolve_writes [OF between] r(4) unfolding rows_evolve_def by blast
  have "cn_consent_id (f r) = cn_consent_id r" using lawfulD(1) [OF action_updates_lawful [OF r(1,3)]] .
  then have id2: "cn_consent_id r2 = cn_consent_id c2"
    using r2(2) r(2) late(1) by (auto simp: evolves_def same_request_def)
  have "cn_status r2 \<noteq> ?from"
    using r2(2) decided_status [OF r(1), of r] by (auto simp: evolves_def)
  then have none: "\<not> (cn_consent_id x = cn_consent_id c2 \<and> cn_owner_id x = pa_owner_id req2 \<and> cn_status x = ?from)"
    if "x \<in> set t2" for x
    using consent_table.ok_key_inj [OF ok2 that r2(1)] id2 by auto
  obtain g where g: "action_updates req2 c2 now2 = Inr g"
    using late(3) by (auto simp: action_updates_def is_valid_portal_action_def Let_def)
  obtain fs ws where fw: "action_from (pa_action req1) = (fs, ws)" by fastforce
  have "sql_affected (\<lambda>x. cn_consent_id x = cn_consent_id c2 \<and> cn_owner_id x = pa_owner_id req2 \<and> cn_status x = fs) t2 = 0"
    unfolding sql_affected_0_iff using none fw by auto
  moreover have "sql_update (\<lambda>x. cn_consent_id x = cn_consent_id c2 \<and> cn_owner_id x = pa_owner_id req2 \<and> cn_status x = fs) g t2 = t2"
    using none fw by (intro sql_update_none) auto
  ultimately show ?thesis
    using late(2,4) fw g by (auto simp: action_decide_def Let_def)
qed

lemma portal_actions_exclude_witness:
  "\<exists>t1 msg. action_decide (sample_ce_env 5) (sample_action ActionApprove) (sample_consents ! 0) 5 sample_consents = (Inr (), t1) \<and>
     action_decide (sample_ce_env 6) (sample_action ActionReject) (sample_consents ! 0) 6 t1 =
       (Inl (sentinel_error ErrConsentNotPending msg), t1)"
proof -
  have ok: "table_ok consent_clash sample_consents" using sample_consents_inv by (simp add: ce_inv_def)
  obtain t1 where win: "action_decide (sample_ce_env 5) (sample_action ActionApprove) (sample_consents ! 0) 5 sample_consents = (Inr (), t1)"
    by (simp add: action_decide_def sample_ce_env_def sample_action_def action_from_def action_updates_def
        sample_consents_def sample_consent_def sql_affected_def)
  show ?thesis
    using portal_actions_exclude [OF ok win rw_refl, of "sample_consents ! 0" "sample_action ActionReject" "sample_ce_env 6" 6] win
    by (simp add: sample_action_def action_from_def is_valid_portal_action_def sample_ce_env_def)
qed

text \<open>
  The internal view does not have this protection, since it saves the whole record it
  loaded: a view that loads a pending consent, and saves it as expired after its owner approved
  it in time, undoes an approval whose grant is still running and erases the grant.
\<close>

lemma internal_view_overwrites_approval:
  "\<exists>t1 v t2. latest_consent (\<lambda>c. cn_owner_id c = ''ann'' \<and> cn_app_id c = ''app'') sample_consents = Some (sample_consents ! 0) \<and>
     update_consent_status_by_portal_action (sample_ce_env 5) (sample_action ActionApprove) sample_consents = (Inr (), t1) \<and>
     cn_status (t1 ! 0) = StatusApproved \<and> cn_grant_expires_at (t1 ! 0) = Some (5 + 24 * hour) \<and>
     expire_viewed (sample_ce_env (2 * hour)) (sample_consents ! 0) t1 = (Inr v, t2) \<and>
     cn_status (t2 ! 0) = StatusExpired \<and> cn_grant_expires_at (t2 ! 0) = None"
proof -
  have "latest_consent (\<lambda>c. cn_owner_id c = ''ann'' \<and> cn_app_id c = ''app'') sample_consents = Some (sample_consents ! 0)"
    by (simp add: latest_consent_def sql_first_def sample_consents_def sample_consent_def)
  then show ?thesis
    unfolding sample_action_runs
    by (simp add: sample_consents_def sample_consent_def expire_viewed_def mark_expired_if_stale_def
        sample_ce_env_def after_def hour_def save_record_def sql_affected_def sql_update_def)
qed

section \<open>Listing\<close>

lemma not_stale_listed:
  assumes "expire_stale_consents_by_owner env own t = (Inr u, t')" "c \<in> set t'" "cn_owner_id c = own"
  shows "\<not> fst (mark_expired_if_stale c (ce_clock env AtList))"
proof -
  define now where "now = ce_clock env AtList"
  define past where "past = (\<lambda>d. case d of None \<Rightarrow> False | Some x \<Rightarrow> x < now)"
  define expire where "expire = (\<lambda>c :: consent_record. c\<lparr>cn_status := StatusExpired, cn_updated_at := now\<rparr>)"
  define p1 where "p1 = (\<lambda>c :: consent_record. cn_owner_id c = own \<and> cn_status c = StatusPending \<and> past (cn_pending_expires_at c))"
  define p2 where "p2 = (\<lambda>c :: consent_record. cn_owner_id c = own \<and> cn_status c = StatusApproved \<and> past (cn_grant_expires_at c))"
  have t': "t' = sql_update p2 expire (sql_update p1 expire t)"
    using assms(1) unfolding expire_stale_consents_by_owner_def Let_def p1_def p2_def past_def expire_def now_def
    by (auto split: if_splits)
  have stale: "fst (mark_expired_if_stale x now) \<longleftrightarrow>
      (cn_status x = StatusPending \<and> past (cn_pending_expires_at x)) \<or> (cn_status x = StatusApproved \<and> past (cn_grant_expires_at x))" for x
    by (auto simp: mark_expired_if_stale_def past_def after_def split: option.splits)
  obtain d where "d \<in> set t" and c: "c = (if p2 (if p1 d then expire d else d) then expire (if p1 d then expire d else d)
      else if p1 d then expire d else d)"
    using assms(2) unfolding t' set_sql_update by auto
  have "\<not> fst (mark_expired_if_stale (expire x) now)" for x by (simp add: stale expire_def)
  moreover have "\<not> fst (mark_expired_if_stale c now)" if "c = d" "\<not> p1 d" "\<not> p2 d"
    using that assms(3) by (auto simp: stale p1_def p2_def)
  ultimately show ?thesis using c unfolding now_def by (metis (full_types))
qed

text \<open>
  A listing that succeeds reports accurate statuses: no record of the owner that it leaves
  in the table is past its deadline, every entry is a record of the owner with a requested
  status, the total counts all of these, and the entries are at most \<open>limit\<close> of them, newest
  first.
\<close>

lemma list_consents_correct:
  assumes run: "list_consents_by_owner env own ss limit offset t = (Inr r, t')"
  shows "(\<forall>c \<in> set t'. cn_owner_id c = own \<longrightarrow> \<not> fst (mark_expired_if_stale c (ce_clock env AtList))) \<and>
    lr_total r = length (filter (\<lambda>c. cn_owner_id c = own \<and> (ss = [] \<or> cn_status c \<in> set ss)) t') \<and>
    set (lr_consents r) \<subseteq> to_summary_view ` {c \<in> set t'. cn_owner_id c = own \<and> (ss = [] \<or> cn_status c \<in> set ss)} \<and>
    length (lr_consents r) = min limit (lr_total r - offset) \<and>
    sorted_wrt (\<lambda>a b. sv_created_at a \<ge> sv_created_at b) (lr_consents r)"
proof -
  let ?q = "\<lambda>c. cn_owner_id c = own \<and> (ss = [] \<or> cn_status c \<in> set ss)"
  let ?all = "sort_key (\<lambda>c. - cn_created_at c) (filter ?q t')"
  have e: "expire_stale_consents_by_owner env own t = (Inr (), t')"
    and r: "lr_consents r = map to_summary_view (take limit (drop offset ?all))" "lr_total r = length (filter ?q t')"
    using run by (auto simp: list_consents_by_owner_def Let_def sql_where_def split: if_splits prod.splits sum.splits)
  have "set (take limit (drop offset ?all)) \<subseteq> set ?all" by (meson set_drop_subset set_take_subset subset_trans)
  then have "set (lr_consents r) \<subseteq> to_summary_view ` {c \<in> set t'. ?q c}" unfolding r(1) by auto
  moreover have "sorted (map (\<lambda>c. - cn_created_at c) ?all)" by (rule sorted_sort_key)
  then have "sorted (map (\<lambda>c. - cn_created_at c) (take limit (drop offset ?all)))"
    unfolding take_map [symmetric] drop_map [symmetric] by (intro sorted_wrt_take sorted_wrt_drop)
  then have "sorted_wrt (\<lambda>a b. sv_created_at a \<ge> sv_created_at b) (lr_consents r)"
    unfolding r(1) sorted_map sorted_wrt_map by (rule sorted_wrt_mono_rel [rotated]) (simp add: to_summary_view_def)
  moreover have "length (lr_consents r) = min limit (lr_total r - offset)" unfolding r by (simp add: min.commute)
  ultimately show ?thesis using not_stale_listed [OF e] r(2) by blast
qed

lemma list_consents_correct_witness:
  "\<exists>r t'. list_consents_by_owner (sample_ce_env (2 * hour)) ''ann'' [] 20 0 sample_consents = (Inr r, t') \<and>
     lr_total r = 1 \<and> length (lr_consents r) = 1"
proof -
  obtain r t' where run: "list_consents_by_owner (sample_ce_env (2 * hour)) ''ann'' [] 20 0 sample_consents = (Inr r, t')"
    and total: "lr_total r = 1"
    by (simp add: list_consents_by_owner_def expire_stale_consents_by_owner_def sample_ce_env_def Let_def
        sample_consents_def sample_consent_def sql_update_def sql_where_def)
  show ?thesis using list_consents_correct [OF run] run total by simp
qed

lemma trim_known_status: "known_status s \<Longrightarrow> trim_space s = s \<and> s \<noteq> '''' \<and> CHR '','' \<notin> set s"
  by (auto simp: known_status_def status_defs trim_space_def is_space_def)

lemma status_filter_loop:
  "list_all known_status ss \<Longrightarrow>
   fold_res (\<lambda>statuses raw. let status = trim_space raw in
        if status = [] then Inr statuses
        else if known_status status then Inr (statuses @ [status])
        else Inl (''invalid status: '' @ status)) acc ss = Inr (acc @ ss)"
  using trim_known_status by (induction ss arbitrary: acc) auto

text \<open>
  The status filter of a listing reads the comma-separated form of any list of statuses
  back, in order.
\<close>

lemma status_filter_roundtrip:
  assumes "ss \<noteq> []" "list_all known_status ss"
  shows "parse_status_filter [join_on CHR '','' ss] = Inr ss"
proof -
  have "\<forall>w \<in> set ss. CHR '','' \<notin> set w" using assms(2) trim_known_status by (auto simp: list_all_iff)
  then show ?thesis
    using status_filter_loop [OF assms(2), of "[]"] split_on_join_on [OF assms(1)]
    by (simp add: parse_status_filter_def)
qed

lemma status_filter_roundtrip_witness: "parse_status_filter [''pending,revoked''] = Inr [''pending'', ''revoked'']"
  using status_filter_roundtrip [of "[StatusPending, StatusRevoked]"] by (simp add: known_status_def status_defs)

end
