(* ===== verification/OE_Schema.thy ===== *)
theory OE_Schema
  imports Json
begin

text \<open>
  The consumer schema of the orchestration engine (\<^verbatim>\<open>internal/oe/federator/schema\<close>)
  and the parts of gqlparser's syntax trees that the federator reads: types, values,
  directives and definitions. The parser, the schema loader and the evaluation of values are
  gqlparser's and appear as parameters.
\<close>

section \<open>Syntax trees\<close>

text \<open>\<^verbatim>\<open>ast.Type\<close>; the flag is \<^verbatim>\<open>NonNull\<close>.\<close>

datatype gql_type = NamedType string bool | ListType gql_type bool

fun type_name :: "gql_type \<Rightarrow> string" where
  "type_name (NamedType n _) = n"
| "type_name (ListType t _) = type_name t"

fun type_elem :: "gql_type \<Rightarrow> gql_type option" where
  "type_elem (NamedType _ _) = None"
| "type_elem (ListType t _) = Some t"

fun non_null :: "gql_type \<Rightarrow> bool" where
  "non_null (NamedType _ b) = b"
| "non_null (ListType _ b) = b"

fun make_non_null :: "gql_type \<Rightarrow> gql_type" where
  "make_non_null (NamedType n _) = NamedType n True"
| "make_non_null (ListType t _) = ListType t True"

fun type_string :: "gql_type \<Rightarrow> string" where
  "type_string (NamedType n b) = n @ (if b then ''!'' else [])"
| "type_string (ListType t b) = ''['' @ type_string t @ '']'' @ (if b then ''!'' else [])"

definition is_list_type :: "gql_type \<Rightarrow> bool" where
  "is_list_type t \<longleftrightarrow> type_elem t \<noteq> None"

text \<open>\<^verbatim>\<open>ast.Value\<close>, by kind; a scalar keeps its raw text.\<close>

datatype ast_value =
    AVariable string | AString string | AScalar string
  | AListValue "ast_value list" | AObjectValue "(string \<times> ast_value) list"

text \<open>Go's variables and argument values are decoded JSON.\<close>

type_synonym variables = "string \<rightharpoonup> json"

record directive =
  dir_name :: string
  dir_args :: "(string \<times> ast_value) list"

record arg_def =
  ad_name :: string
  ad_type :: gql_type
  ad_default :: "ast_value option"

record field_def =
  fd_name :: string
  fd_args :: "arg_def list"
  fd_type :: gql_type
  fd_directives :: "directive list"

datatype type_kind = KScalar | KObject | KInterface | KUnion | KEnum | KInputObject

record type_def =
  td_name :: string
  td_kind :: type_kind
  td_builtin :: bool
  td_fields :: "field_def list"

text \<open>\<^verbatim>\<open>ast.Schema\<close>: the name of the query type, the types and the possible types.\<close>

record gql_schema =
  gs_query :: "type_def option"
  gs_types :: "(string \<times> type_def) list"
  gs_possible :: "string \<Rightarrow> string list"

record directive_decl =
  dd_locations :: "string list"
  dd_args :: "(string \<times> gql_type) list"

definition directive_for_name :: "string \<Rightarrow> directive list \<Rightarrow> directive option" where
  "directive_for_name n ds = find (\<lambda>d. dir_name d = n) ds"

definition arg_def_for_name :: "string \<Rightarrow> arg_def list \<Rightarrow> arg_def option" where
  "arg_def_for_name n ds = find (\<lambda>d. ad_name d = n) ds"

section \<open>Compiling the schema\<close>

record source_info =
  si_schema_id :: string
  si_provider_field :: string

record compiled_schema =
  cs_schema :: gql_schema
  cs_source_info :: "string \<times> string \<rightharpoonup> source_info"

definition source_info_of :: "compiled_schema \<Rightarrow> string \<Rightarrow> string \<Rightarrow> source_info option" where
  "source_info_of c type_nm field_nm = cs_source_info c (type_nm, field_nm)"

definition sourceInfoDirective :: string where
  "sourceInfoDirective = ''sourceInfo''"

definition sourceInfoDeclaration :: string where
  "sourceInfoDeclaration =
     ''directive @sourceInfo(schemaId: String!, providerField: String!) on FIELD_DEFINITION''"

definition sourceInfoArguments :: "string list" where
  "sourceInfoArguments = [''providerField'', ''schemaId'']"

definition contains_location :: "string list \<Rightarrow> string \<Rightarrow> bool" where
  "contains_location locations want \<longleftrightarrow> list_ex (\<lambda>l. l = want) locations"

text \<open>\<^verbatim>\<open>fmt.Sprint\<close> of a slice of strings.\<close>

definition sprint_strings :: "string list \<Rightarrow> string" where
  "sprint_strings ns = ''['' @ join_on CHR '' '' ns @ '']''"

datatype schema_error =
    ParseSchemaFailed | NotOnFieldDefinition | ArgumentNotString string | WrongArguments string
  | LoadSchemaFailed | SourceInfoIncomplete | ReadSchemaFailed

definition check_source_info_declaration :: "directive_decl \<Rightarrow> schema_error + unit" where
  "check_source_info_declaration d =
     (if \<not> contains_location (dd_locations d) ''FIELD_DEFINITION'' then Inl NotOnFieldDefinition
      else bind_res
        (map_res (\<lambda>(n, ty). case ty of
             NamedType t _ \<Rightarrow> if t = ''String'' then Inr n else Inl (ArgumentNotString n)
           | ListType _ _ \<Rightarrow> Inl (ArgumentNotString n)) (dd_args d))
        (\<lambda>names. if sprint_strings (sort names) \<noteq> sprint_strings sourceInfoArguments
                 then Inl (WrongArguments (sprint_strings (sort names))) else Inr ()))"

definition argument_string :: "directive \<Rightarrow> string \<Rightarrow> string" where
  "argument_string d n = (case map_of (dir_args d) n of Some (AString raw) \<Rightarrow> raw | _ \<Rightarrow> '''')"

definition index_field ::
  "type_def \<Rightarrow> (string \<times> string \<rightharpoonup> source_info) \<Rightarrow> field_def \<Rightarrow> schema_error + (string \<times> string \<rightharpoonup> source_info)" where
  "index_field def idx f =
     (case directive_for_name sourceInfoDirective (fd_directives f) of
        None \<Rightarrow> Inr idx
      | Some d \<Rightarrow>
          let info = \<lparr>si_schema_id = argument_string d ''schemaId'',
                      si_provider_field = argument_string d ''providerField''\<rparr> in
          if si_schema_id info = '''' \<or> si_provider_field info = '''' then Inl SourceInfoIncomplete
          else Inr (idx((td_name def, fd_name f) \<mapsto> info)))"

definition index_source_info :: "gql_schema \<Rightarrow> schema_error + (string \<times> string \<rightharpoonup> source_info)" where
  "index_source_info sch =
     fold_res (\<lambda>idx (_, def). if td_builtin def then Inr idx else fold_res (index_field def) idx (td_fields def))
       Map.empty (gs_types sch)"

text \<open>\<open>parse_schema\<close> yields the directive declarations of the SDL.\<close>

definition compile_schema ::
  "(string \<Rightarrow> (string \<rightharpoonup> directive_decl) option) \<Rightarrow> (string list \<Rightarrow> gql_schema option) \<Rightarrow> string \<Rightarrow>
   schema_error + compiled_schema" where
  "compile_schema parse_schema load_schema sdl =
     (case parse_schema sdl of
        None \<Rightarrow> Inl ParseSchemaFailed
      | Some declared \<Rightarrow>
          bind_res
            (case declared sourceInfoDirective of
               None \<Rightarrow> Inr [sdl, sourceInfoDeclaration]
             | Some d \<Rightarrow> bind_res (check_source_info_declaration d) (\<lambda>_. Inr [sdl]))
            (\<lambda>sources. case load_schema sources of
               None \<Rightarrow> Inl LoadSchemaFailed
             | Some sch \<Rightarrow>
                 bind_res (index_source_info sch)
                   (\<lambda>idx. Inr \<lparr>cs_schema = sch, cs_source_info = idx\<rparr>)))"

definition load_source ::
  "(string \<Rightarrow> (string \<rightharpoonup> directive_decl) option) \<Rightarrow> (string list \<Rightarrow> gql_schema option) \<Rightarrow>
   (string \<Rightarrow> string option) \<Rightarrow> string \<Rightarrow> schema_error + compiled_schema" where
  "load_source parse_schema load_schema read_file path =
     (case read_file path of
        None \<Rightarrow> Inl ReadSchemaFailed
      | Some sdl \<Rightarrow> compile_schema parse_schema load_schema sdl)"

section \<open>The index\<close>

definition index_ok :: "(string \<times> string \<rightharpoonup> source_info) \<Rightarrow> bool" where
  "index_ok idx \<longleftrightarrow> (\<forall>k info. idx k = Some info \<longrightarrow> si_schema_id info \<noteq> [] \<and> si_provider_field info \<noteq> [])"

lemma index_ok_update:
  "index_ok idx \<Longrightarrow> si_schema_id info \<noteq> [] \<Longrightarrow> si_provider_field info \<noteq> [] \<Longrightarrow> index_ok (idx(k \<mapsto> info))"
  unfolding index_ok_def by (simp add: fun_upd_def)

lemma index_field_ok: "index_field def idx f = Inr idx' \<Longrightarrow> index_ok idx \<Longrightarrow> index_ok idx'"
  by (auto simp: index_field_def Let_def intro: index_ok_update split: option.splits if_splits)

lemma index_fields_ok:
  "fold_res (index_field def) idx fs = Inr idx' \<Longrightarrow> index_ok idx \<Longrightarrow> index_ok idx'"
  by (erule fold_res_invariant) (auto dest: index_field_ok)

text \<open>Every entry of the index names a schema and a provider field.\<close>

lemma index_source_info_ok:
  assumes "index_source_info sch = Inr idx"
  shows "index_ok idx"
  by (rule fold_res_invariant [OF assms [unfolded index_source_info_def]])
    (auto simp: index_ok_def [of Map.empty] split: if_splits dest: index_fields_ok)

end
