(* ===== verification/OE_Operation.thy ===== *)
theory OE_Operation
  imports OE_Schema
begin

text \<open>
  Normalizing a validated consumer query (\<^verbatim>\<open>internal/oe/federator/operation/operation.go\<close>):
  fragments merged, \<^verbatim>\<open>@skip\<close> and \<^verbatim>\<open>@include\<close> applied, fields grouped by response
  key and bound to their definitions. What gqlparser computes is a record of functions.

  \<^verbatim>\<open>collectFields\<close> shares its visited set and its groups over the whole walk of a
  selection set, so it is written as a loop over the selections that remain: a fragment's
  selections go to the front. The recursion into sub-selections is not structural, since
  fragments are looked up by name; it takes fuel, and \<open>OutOfFuel\<close> stands for a recursion
  that has not returned.
\<close>

section \<open>Documents\<close>

datatype selection =
    QField string string "(string \<times> ast_value) list" "directive list" "field_def option" "selection list"
      \<comment> \<open>alias, name, arguments, directives, definition, sub-selections\<close>
  | QSpread string "directive list"
  | QInline string "directive list" "selection list"
      \<comment> \<open>type condition, directives, selections\<close>

record fragment_def =
  fg_name :: string
  fg_type_condition :: string
  fg_selections :: "selection list"

datatype operation_kind = OpQuery | OpMutation | OpSubscription

record query_operation =
  qo_name :: string
  qo_kind :: operation_kind
  qo_selections :: "selection list"

record query_document =
  qd_operations :: "query_operation list"
  qd_fragments :: "fragment_def list"

record gql_error =
  ge_message :: string
  ge_locations :: "(nat \<times> nat) list"

text \<open>The functions of gqlparser the federator calls on documents and values.\<close>

record gql_lib =
  gl_parse_query :: "string \<Rightarrow> gql_error + query_document"
  gl_validate :: "gql_schema \<Rightarrow> query_document \<Rightarrow> gql_error list"
  gl_operation :: "query_document \<Rightarrow> string \<Rightarrow> query_operation option"
  gl_variable_values :: "gql_schema \<Rightarrow> query_operation \<Rightarrow> json_map \<Rightarrow> gql_error + variables"
  gl_value :: "variables \<Rightarrow> ast_value \<Rightarrow> string + json"

datatype op_error =
    OperationNameRequired | OperationNotFound string | ErrUnsupportedOperation | NoQueryType
  | VariableError gql_error | FragmentNotDefined string | NoDefinition string string
  | ArgumentError string string string | UnsupportedType string string string
  | DirectiveWithoutIf string | DirectiveValue string string | DirectiveNotBoolean string
  | OutOfFuel

section \<open>Normalized operations\<close>

datatype op_field = OpField
  (of_key: string) (of_name: string) (of_path: "string list") (of_schema_path: "string list")
  (of_arguments: json_map) (of_definition: field_def) (of_source_info: "source_info option")
  (of_selections: "op_field list")

record operation =
  op_fields :: "op_field list"
  op_variables :: variables

record builder =
  bd_lib :: gql_lib
  bd_compiled :: compiled_schema
  bd_fragments :: "fragment_def list"
  bd_vars :: variables

section \<open>Directives and arguments\<close>

definition has_value :: "variables \<Rightarrow> ast_value \<Rightarrow> bool" where
  "has_value vars v = (case v of AVariable raw \<Rightarrow> vars raw \<noteq> None | _ \<Rightarrow> True)"

definition condition :: "builder \<Rightarrow> directive \<Rightarrow> op_error + bool" where
  "condition b d =
     (case map_of (dir_args d) ''if'' of
        None \<Rightarrow> Inl (DirectiveWithoutIf (dir_name d))
      | Some v \<Rightarrow>
          (case gl_value (bd_lib b) (bd_vars b) v of
             Inl e \<Rightarrow> Inl (DirectiveValue (dir_name d) e)
           | Inr (JBool c) \<Rightarrow> Inr c
           | Inr _ \<Rightarrow> Inl (DirectiveNotBoolean (dir_name d))))"

definition included :: "builder \<Rightarrow> directive list \<Rightarrow> op_error + bool" where
  "included b ds =
     bind_res (case directive_for_name ''skip'' ds of None \<Rightarrow> Inr False | Some d \<Rightarrow> condition b d)
       (\<lambda>skip. if skip then Inr False
         else case directive_for_name ''include'' ds of None \<Rightarrow> Inr True | Some d \<Rightarrow> condition b d)"

definition fragment_applies :: "builder \<Rightarrow> type_def \<Rightarrow> string \<Rightarrow> bool" where
  "fragment_applies b object_type cond \<longleftrightarrow>
     list_ex (\<lambda>n. n = td_name object_type) (gs_possible (cs_schema (bd_compiled b)) cond)"

fun set_arg :: "string \<Rightarrow> json \<Rightarrow> json_map \<Rightarrow> json_map" where
  "set_arg k v [] = [(k, v)]"
| "set_arg k v ((k', v') # m) = (if k' = k then (k, v) # m else (k', v') # set_arg k v m)"

definition coerce_argument ::
  "builder \<Rightarrow> (string \<times> ast_value) list \<Rightarrow> json_map \<Rightarrow> arg_def \<Rightarrow> string + json_map" where
  "coerce_argument b provided args ad =
     (let use_default =
        (case ad_default ad of
           None \<Rightarrow> Inr args
         | Some v \<Rightarrow> bind_res (gl_value (bd_lib b) Map.empty v) (\<lambda>j. Inr (set_arg (ad_name ad) j args)))
      in case map_of provided (ad_name ad) of
           None \<Rightarrow> use_default
         | Some v \<Rightarrow>
             if has_value (bd_vars b) v
             then bind_res (gl_value (bd_lib b) (bd_vars b) v) (\<lambda>j. Inr (set_arg (ad_name ad) j args))
             else use_default)"

definition coerce_arguments :: "builder \<Rightarrow> field_def \<Rightarrow> (string \<times> ast_value) list \<Rightarrow> string + json_map" where
  "coerce_arguments b def provided = fold_res (coerce_argument b provided) [] (fd_args def)"

section \<open>Collecting fields\<close>

text \<open>Fields by response key, in the order in which the keys are first seen.\<close>

type_synonym field_groups = "(string \<times> selection list) list"

fun group_add :: "string \<Rightarrow> selection \<Rightarrow> field_groups \<Rightarrow> field_groups" where
  "group_add key f [] = [(key, [f])]"
| "group_add key f ((k, fs) # g) = (if k = key then (k, fs @ [f]) # g else (k, fs) # group_add key f g)"

definition fragment_for_name :: "fragment_def list \<Rightarrow> string \<Rightarrow> fragment_def option" where
  "fragment_for_name frs n = find (\<lambda>fg. fg_name fg = n) frs"

definition unvisited :: "fragment_def list \<Rightarrow> string set \<Rightarrow> nat" where
  "unvisited frs visited = card (fg_name ` set frs - visited)"

lemma fragment_for_name_SomeD: "fragment_for_name frs n = Some fg \<Longrightarrow> fg \<in> set frs \<and> fg_name fg = n"
  by (auto simp: fragment_for_name_def find_Some_iff)

lemma unvisited_less:
  "fragment_for_name frs n = Some fg \<Longrightarrow> n \<notin> visited \<Longrightarrow> unvisited frs (insert n visited) < unvisited frs visited"
  unfolding unvisited_def by (rule psubset_card_mono) (use fragment_for_name_SomeD in fastforce)+

lemma unvisited_le: "unvisited frs (insert n visited) \<le> unvisited frs visited"
  unfolding unvisited_def by (rule card_mono) auto

function collect_fields ::
  "builder \<Rightarrow> type_def \<Rightarrow> selection list \<Rightarrow> string set \<Rightarrow> field_groups \<Rightarrow> op_error + field_groups" where
  "collect_fields b ty [] visited groups = Inr groups"
| "collect_fields b ty (QField alias name args ds def sels # rest) visited groups =
     bind_res (included b ds) (\<lambda>inc.
       if \<not> inc then collect_fields b ty rest visited groups
       else collect_fields b ty rest visited
              (group_add (if alias = '''' then name else alias) (QField alias name args ds def sels) groups))"
| "collect_fields b ty (QSpread name ds # rest) visited groups =
     bind_res (included b ds) (\<lambda>inc.
       if \<not> inc \<or> name \<in> visited then collect_fields b ty rest visited groups
       else (case fragment_for_name (bd_fragments b) name of
          None \<Rightarrow> Inl (FragmentNotDefined name)
        | Some fg \<Rightarrow>
            if \<not> fragment_applies b ty (fg_type_condition fg)
            then collect_fields b ty rest (insert name visited) groups
            else collect_fields b ty (fg_selections fg @ rest) (insert name visited) groups))"
| "collect_fields b ty (QInline cond ds sels # rest) visited groups =
     bind_res (included b ds) (\<lambda>inc.
       if \<not> inc \<or> (cond \<noteq> '''' \<and> \<not> fragment_applies b ty cond) then collect_fields b ty rest visited groups
       else collect_fields b ty (sels @ rest) visited groups)"
  by pat_completeness auto

lemma size_list_append_sel: "size_list size (xs @ ys) = size_list size xs + size_list size (ys :: selection list)"
  by (induction xs) auto

termination collect_fields
proof (relation "inv_image (less_than <*lex*> less_than)
    (\<lambda>(b, ty, sels, visited, groups). (unvisited (bd_fragments b) visited, size_list size sels))", goal_cases)
  case 1
  show ?case by (intro wf_inv_image wf_lex_prod wf_less_than)
next
  case (5 b ty name ds rest visited groups x fg)
  then show ?case
    using unvisited_le [of "bd_fragments b" name visited] by (auto simp: order_le_less)
next
  case (6 b ty name ds rest visited groups x fg)
  then show ?case using unvisited_less by auto
qed (auto simp: size_list_append_sel)

section \<open>Building the operation\<close>

definition append_path :: "string list \<Rightarrow> string \<Rightarrow> string list" where
  "append_path path segment = path @ [segment]"

fun sub_selections :: "selection \<Rightarrow> selection list" where
  "sub_selections (QField _ _ _ _ _ sels) = sels"
| "sub_selections (QSpread _ _) = []"
| "sub_selections (QInline _ _ sels) = sels"

text \<open>
  \<open>rec\<close> normalizes sub-selections. A group holds fields only, at least one; the other
  cases of the match do not arise.
\<close>

definition build_field ::
  "(type_def \<Rightarrow> selection list list \<Rightarrow> string list \<Rightarrow> string list \<Rightarrow> op_error + op_field list) \<Rightarrow>
   builder \<Rightarrow> type_def \<Rightarrow> string list \<Rightarrow> string list \<Rightarrow> string \<times> selection list \<Rightarrow> op_error + op_field" where
  "build_field rec b ty path spath kg =
     (case kg of
        (key, QField alias name args ds def sels # others) \<Rightarrow>
          (case def of
             None \<Rightarrow> Inl (NoDefinition (td_name ty) name)
           | Some d \<Rightarrow>
               (case coerce_arguments b d args of
                  Inl e \<Rightarrow> Inl (ArgumentError (td_name ty) name e)
                | Inr vals \<Rightarrow>
                    let p = append_path path key; sp = append_path spath name;
                        mk = OpField key name p sp vals d (source_info_of (bd_compiled b) (td_name ty) name);
                        sets = filter (\<lambda>s. s \<noteq> []) (map sub_selections (QField alias name args ds def sels # others))
                    in if sets = [] then Inr (mk [])
                       else (case map_of (gs_types (cs_schema (bd_compiled b))) (type_name (fd_type d)) of
                               Some fty \<Rightarrow>
                                 if td_kind fty = KObject
                                 then bind_res (rec fty sets p sp) (\<lambda>subs. Inr (mk subs))
                                 else Inl (UnsupportedType (td_name ty) name (type_name (fd_type d)))
                             | None \<Rightarrow> Inl (UnsupportedType (td_name ty) name (type_name (fd_type d))))))
      | (key, _) \<Rightarrow> Inl (NoDefinition (td_name ty) key))"

fun build_fields ::
  "nat \<Rightarrow> builder \<Rightarrow> type_def \<Rightarrow> selection list list \<Rightarrow> string list \<Rightarrow> string list \<Rightarrow> op_error + op_field list" where
  "build_fields 0 b ty sets path spath = Inl OutOfFuel"
| "build_fields (Suc n) b ty sets path spath =
     bind_res (fold_res (\<lambda>groups sels. collect_fields b ty sels {} groups) [] sets)
       (\<lambda>groups. map_res (build_field (build_fields n b) b ty path spath) groups)"

definition build_operation ::
  "nat \<Rightarrow> gql_lib \<Rightarrow> compiled_schema \<Rightarrow> query_document \<Rightarrow> string \<Rightarrow> json_map \<Rightarrow> op_error + operation" where
  "build_operation n lib compiled doc operation_name vars_in =
     (case gl_operation lib doc operation_name of
        None \<Rightarrow> if operation_name = '''' then Inl OperationNameRequired else Inl (OperationNotFound operation_name)
      | Some qo \<Rightarrow>
          if qo_kind qo \<noteq> OpQuery then Inl ErrUnsupportedOperation
          else case gs_query (cs_schema compiled) of
            None \<Rightarrow> Inl NoQueryType
          | Some query_type \<Rightarrow>
              (case gl_variable_values lib (cs_schema compiled) qo vars_in of
                 Inl e \<Rightarrow> Inl (VariableError e)
               | Inr vars \<Rightarrow>
                   bind_res
                     (build_fields n \<lparr>bd_lib = lib, bd_compiled = compiled, bd_fragments = qd_fragments doc,
                                      bd_vars = vars\<rparr> query_type [qo_selections qo] [] [])
                     (\<lambda>fs. Inr \<lparr>op_fields = fs, op_variables = vars\<rparr>)))"

section \<open>Reading the operation\<close>

text \<open>The fields \<^verbatim>\<open>walk\<close> visits, depth first in query order.\<close>

fun walk_field :: "op_field \<Rightarrow> op_field list" where
  "walk_field (OpField k n p sp a d i sels) = OpField k n p sp a d i sels # concat (map walk_field sels)"

definition walk :: "op_field list \<Rightarrow> op_field list" where
  "walk fs = concat (map walk_field fs)"

text \<open>\<^verbatim>\<open>graphql.ArgMapping\<close>.\<close>

record arg_mapping =
  am_target_arg_name :: string
  am_schema_id :: string
  am_source_arg_path :: string
  am_target_arg_path :: string
  am_target_arg_type :: string

record arg_binding =
  ab_mapping :: arg_mapping
  ab_index :: nat  \<comment> \<open>position of the mapping in the configuration, its identity\<close>
  ab_field :: op_field
  ab_value :: json

definition bind_mapping :: "op_field list \<Rightarrow> nat \<times> arg_mapping option \<Rightarrow> arg_binding list" where
  "bind_mapping fs im =
     (case im of
        (_, None) \<Rightarrow> []
      | (i, Some m) \<Rightarrow>
          let segments = split_on CHR ''-'' (am_source_arg_path m) in
          List.map_filter (\<lambda>f.
            if of_schema_path f \<noteq> butlast segments then None
            else case map_of (of_arguments f) (last segments) of
              None \<Rightarrow> None
            | Some v \<Rightarrow> Some \<lparr>ab_mapping = m, ab_index = i, ab_field = f, ab_value = v\<rparr>) (walk fs))"

definition bind_arguments :: "operation \<Rightarrow> arg_mapping option list \<Rightarrow> arg_binding list" where
  "bind_arguments op mappings = concat (map (bind_mapping (op_fields op)) (enumerate 0 mappings))"

datatype owner_error = ErrMissingIdentifier | ErrAmbiguousIdentifier

definition owner_step :: "string \<Rightarrow> string \<times> bool \<Rightarrow> op_field \<Rightarrow> string \<times> bool" where
  "owner_step arg_name st f =
     (case st of (oid, ambiguous) \<Rightarrow>
        case map_of (of_arguments f) arg_name of
          Some (JStr value) \<Rightarrow>
            if value = '''' then (oid, ambiguous)
            else if oid = '''' then (value, ambiguous)
            else if value \<noteq> oid then (oid, True)
            else (oid, ambiguous)
        | _ \<Rightarrow> (oid, ambiguous))"

definition data_owner_id :: "operation \<Rightarrow> string \<Rightarrow> owner_error + string" where
  "data_owner_id op arg_name =
     (let (oid, ambiguous) = foldl (owner_step arg_name) ('''', False) (walk (op_fields op)) in
      if ambiguous then Inl ErrAmbiguousIdentifier
      else if oid = '''' then Inl ErrMissingIdentifier
      else Inr oid)"

end
