(* ===== verification/OE_Operation_Facts.thy ===== *)
theory OE_Operation_Facts
  imports OE_Operation
begin

text \<open>
  What normalizing a query guarantees: the shape of the fields it builds (one field per
  response key, paths that identify a field), that it returns on queries whose fragments have
  no cycle, and the data owner it reads.
\<close>

section \<open>Shape of the operation\<close>

fun wf_field :: "string list \<Rightarrow> op_field \<Rightarrow> bool" where
  "wf_field path (OpField k n p sp a d i sels) \<longleftrightarrow>
     p = path @ [k] \<and> distinct (map of_key sels) \<and> list_all (wf_field p) sels"

definition wf_fields :: "string list \<Rightarrow> op_field list \<Rightarrow> bool" where
  "wf_fields path fs \<longleftrightarrow> distinct (map of_key fs) \<and> list_all (wf_field path) fs"

lemma wf_field_sels: "wf_field path f \<Longrightarrow> of_path f = path @ [of_key f] \<and> wf_fields (of_path f) (of_selections f)"
  by (cases f) (auto simp: wf_fields_def)

lemma keys_group_add: "map fst (group_add k f g) = (if k \<in> set (map fst g) then map fst g else map fst g @ [k])"
  by (induction k f g rule: group_add.induct) auto

lemma distinct_group_add: "distinct (map fst g) \<Longrightarrow> distinct (map fst (group_add k f g))"
  by (auto simp: keys_group_add)

lemma distinct_collect_fields:
  "collect_fields b ty sels visited g = Inr g' \<Longrightarrow> distinct (map fst g) \<Longrightarrow> distinct (map fst g')"
proof (induction b ty sels visited g arbitrary: g' rule: collect_fields.induct)
  case (2 b ty al name args ds def sels rest visited groups)
  then show ?case
    by (auto simp: bind_res_Inr_iff distinct_group_add split: if_splits)
next
  case (3 b ty name ds rest visited groups)
  obtain inc where inc: "included b ds = Inr inc" using "3.prems"(1) by (auto simp: bind_res_Inr_iff)
  show ?case
  proof (cases "\<not> inc \<or> name \<in> visited")
    case True
    then show ?thesis using "3.IH"(1) [OF inc True] "3.prems" inc by simp
  next
    case False
    then obtain fg where fg: "fragment_for_name (bd_fragments b) name = Some fg"
      using "3.prems"(1) inc by (auto split: option.splits)
    show ?thesis
      using "3.IH"(2) [OF inc False fg] "3.IH"(3) [OF inc False fg] "3.prems" inc False fg by (simp split: if_splits)
  qed
next
  case (4 b ty cond ds sels rest visited groups)
  then show ?case
    by (auto simp: bind_res_Inr_iff split: if_splits)
qed simp

lemma build_field_Inr:
  assumes "build_field rec b ty path spath (k, grp) = Inr f"
  shows "of_key f = k \<and> of_path f = path @ [k] \<and>
    (of_selections f = [] \<or> (\<exists>fty sets sp. rec fty sets (path @ [k]) sp = Inr (of_selections f)))"
  using assms
  by (auto simp: build_field_def append_path_def bind_res_Inr_iff Let_def
      split: list.splits selection.splits option.splits sum.splits if_splits)

lemma build_fields_wf:
  "build_fields n b ty sets path spath = Inr fs \<Longrightarrow> wf_fields path fs"
proof (induction n arbitrary: ty sets path spath fs)
  case (Suc n)
  obtain groups where g: "fold_res (\<lambda>groups sels. collect_fields b ty sels {} groups) [] sets = Inr groups"
    and fs: "list_all2 (\<lambda>kg f. build_field (build_fields n b) b ty path spath kg = Inr f) groups fs"
    using Suc.prems by (auto simp: bind_res_Inr_iff map_res_Inr_iff)
  have d: "distinct (map fst groups)"
    by (rule fold_res_invariant [OF g]) (auto dest: distinct_collect_fields)
  have "map of_key fs = map fst groups"
    using fs by (induction rule: list_all2_induct) (auto dest: build_field_Inr)
  moreover have "wf_field path f" if f: "f \<in> set fs" for f
  proof -
    obtain i where i: "i < length fs" "fs ! i = f" using f by (auto simp: in_set_conv_nth)
    then have "build_field (build_fields n b) b ty path spath (groups ! i) = Inr f"
      using fs by (auto simp: list_all2_conv_all_nth)
    then have "of_path f = path @ [of_key f] \<and>
        (of_selections f = [] \<or> (\<exists>fty sets sp. build_fields n b fty sets (of_path f) sp = Inr (of_selections f)))"
      by (cases "groups ! i") (auto dest: build_field_Inr)
    then have "of_path f = path @ [of_key f] \<and> wf_fields (of_path f) (of_selections f)"
      using Suc.IH by (auto simp: wf_fields_def)
    then show ?thesis by (cases f) (auto simp: wf_fields_def)
  qed
  ultimately show ?case using d by (auto simp: wf_fields_def list_all_iff)
qed simp

text \<open>In a well-formed operation a path names one field.\<close>

lemma walk_field_path:
  "wf_field path f \<Longrightarrow> g \<in> set (walk_field f) \<Longrightarrow> \<exists>q. of_path g = of_path f @ q"
proof (induction f arbitrary: path rule: walk_field.induct)
  case (1 k n p sp a d i sels)
  show ?case
  proof (cases "g = OpField k n p sp a d i sels")
    case False
    then obtain s where s: "s \<in> set sels" "g \<in> set (walk_field s)" using "1.prems"(2) by auto
    then have "wf_field p s" using "1.prems"(1) by (auto simp: list_all_iff)
    then show ?thesis using "1.IH" [OF s(1) _ s(2)] wf_field_sels by fastforce
  qed simp
qed

lemma distinct_concat_paths:
  assumes "distinct (map of_key fs)" "\<And>f g. f \<in> set fs \<Longrightarrow> g \<in> set (W f) \<Longrightarrow> \<exists>q. of_path g = path @ of_key f # q"
    "\<And>f. f \<in> set fs \<Longrightarrow> distinct (map of_path (W f))"
  shows "distinct (map of_path (concat (map W fs)))"
  using assms
proof (induction fs)
  case (Cons f fs)
  have "distinct (map of_path (concat (map W fs)))" using Cons by auto
  moreover have "of_path g \<noteq> of_path h" if g: "g \<in> set (W f)" and h: "h \<in> set (W f')" and f': "f' \<in> set fs" for g h f'
  proof -
    have "of_key f' \<noteq> of_key f" using Cons.prems(1) f' by (auto simp: image_iff)
    moreover obtain q where "of_path g = path @ of_key f # q" using Cons.prems(2) g by (meson list.set_intros(1))
    moreover obtain q' where "of_path h = path @ of_key f' # q'" using Cons.prems(2) h f' by (meson list.set_intros(2))
    ultimately show ?thesis by auto
  qed
  ultimately show ?case using Cons.prems(3) by (auto simp: image_iff)
qed simp

lemma distinct_walk_field: "wf_field path f \<Longrightarrow> distinct (map of_path (walk_field f))"
proof (induction f arbitrary: path rule: walk_field.induct)
  case (1 k n p sp a d i sels)
  have sub: "wf_field p s" if "s \<in> set sels" for s using "1.prems" that by (auto simp: list_all_iff)
  have pre: "\<exists>q. of_path g = p @ of_key s # q" if "s \<in> set sels" "g \<in> set (walk_field s)" for s g
    using walk_field_path [OF sub [OF that(1)] that(2)] wf_field_sels [OF sub [OF that(1)]] by auto
  have "distinct (map of_path (concat (map walk_field sels)))"
    using "1.IH" sub pre "1.prems" by (intro distinct_concat_paths [where path = p]) auto
  moreover have "p \<noteq> of_path g" if "g \<in> set (concat (map walk_field sels))" for g
    using pre that by fastforce
  ultimately show ?case by auto
qed

lemma distinct_walk: "wf_fields path fs \<Longrightarrow> distinct (map of_path (walk fs))"
  unfolding walk_def
proof (rule distinct_concat_paths [where path = path])
  assume wf: "wf_fields path fs"
  then show "distinct (map of_key fs)" by (simp add: wf_fields_def)
  show "distinct (map of_path (walk_field f))" if "f \<in> set fs" for f
    using wf that distinct_walk_field by (auto simp: wf_fields_def list_all_iff)
  show "\<exists>q. of_path g = path @ of_key f # q" if "f \<in> set fs" "g \<in> set (walk_field f)" for f g
  proof -
    have "wf_field path f" using wf that(1) by (auto simp: wf_fields_def list_all_iff)
    then show ?thesis using walk_field_path that(2) wf_field_sels by fastforce
  qed
qed

lemma build_operation_wf:
  "build_operation n lib compiled doc on vs = Inr op \<Longrightarrow> wf_fields [] (op_fields op)"
  by (auto simp: build_operation_def bind_res_Inr_iff dest: build_fields_wf
      split: option.splits if_splits sum.splits)

section \<open>The data owner\<close>

definition owner_values :: "string \<Rightarrow> op_field list \<Rightarrow> string list" where
  "owner_values arg fs = List.map_filter (\<lambda>f. case map_of (of_arguments f) arg of
     Some (JStr v) \<Rightarrow> if v = '''' then None else Some v | _ \<Rightarrow> None) fs"

lemma owner_step_eq:
  "owner_step arg (oid, amb) f =
     (case owner_values arg [f] of
        [] \<Rightarrow> (oid, amb)
      | v # _ \<Rightarrow> if oid = '''' then (v, amb) else (oid, amb \<or> v \<noteq> oid))"
  by (auto simp: owner_step_def owner_values_def map_filter_simps split: option.splits json.splits)

lemma owner_values_Cons: "owner_values arg (f # fs) = owner_values arg [f] @ owner_values arg fs"
  by (auto simp: owner_values_def map_filter_simps split: option.splits)

lemma owner_values_single: "owner_values arg [f] = [] \<or> (\<exists>v. v \<noteq> '''' \<and> owner_values arg [f] = [v])"
  by (auto simp: owner_values_def map_filter_simps split: option.splits json.splits if_splits)

lemma owner_fold_found:
  "oid \<noteq> '''' \<Longrightarrow> foldl (owner_step arg) (oid, amb) fs = (oid, amb \<or> (\<exists>v \<in> set (owner_values arg fs). v \<noteq> oid))"
proof (induction fs arbitrary: amb)
  case Nil
  show ?case by (simp add: owner_values_def map_filter_simps)
next
  case (Cons f fs)
  then show ?case
    using owner_values_single [of arg f]
    by (auto simp: owner_step_eq owner_values_Cons [of arg f fs])
qed

lemma owner_fold:
  "foldl (owner_step arg) ('''', False) fs =
     (case owner_values arg fs of [] \<Rightarrow> ('''', False) | v # vs \<Rightarrow> (v, \<exists>w \<in> set vs. w \<noteq> v))"
proof (induction fs)
  case Nil
  show ?case by (simp add: owner_values_def map_filter_simps)
next
  case (Cons f fs)
  then show ?case
    using owner_values_single [of arg f]
    by (auto simp: owner_step_eq owner_values_Cons [of arg f fs] owner_fold_found)
qed

section \<open>Returning\<close>

text \<open>The fields that collecting \<open>sels\<close> may yield, whatever the directives and types say.\<close>

inductive reaches :: "fragment_def list \<Rightarrow> selection list \<Rightarrow> selection \<Rightarrow> bool" for frs where
  reaches_here: "QField al n as ds def subs \<in> set sels \<Longrightarrow> reaches frs sels (QField al n as ds def subs)"
| reaches_inline: "QInline c ds inner \<in> set sels \<Longrightarrow> reaches frs inner f \<Longrightarrow> reaches frs sels f"
| reaches_spread: "QSpread n ds \<in> set sels \<Longrightarrow> fragment_for_name frs n = Some fg \<Longrightarrow>
    reaches frs (fg_selections fg) f \<Longrightarrow> reaches frs sels f"

fun returns_within :: "fragment_def list \<Rightarrow> nat \<Rightarrow> selection list \<Rightarrow> bool" where
  "returns_within frs 0 sels = False"
| "returns_within frs (Suc n) sels =
     (\<forall>f. reaches frs sels f \<longrightarrow> sub_selections f = [] \<or> returns_within frs n (sub_selections f))"

lemma reaches_mono: "reaches frs xs f \<Longrightarrow> set xs \<subseteq> set ys \<Longrightarrow> reaches frs ys f"
  by (induction rule: reaches.induct) (blast intro: reaches.intros)+

lemma reaches_append: "reaches frs (xs @ ys) f \<longleftrightarrow> reaches frs xs f \<or> reaches frs ys f"
proof
  assume "reaches frs (xs @ ys) f"
  then show "reaches frs xs f \<or> reaches frs ys f"
    by (cases rule: reaches.cases) (auto intro: reaches.intros)
next
  assume "reaches frs xs f \<or> reaches frs ys f"
  then show "reaches frs (xs @ ys) f" by (auto elim: reaches_mono)
qed

lemma reaches_Cons: "reaches frs (x # xs) f \<longleftrightarrow> reaches frs [x] f \<or> reaches frs xs f"
  using reaches_append [of frs "[x]" xs f] by simp

definition members :: "field_groups \<Rightarrow> selection set" where
  "members g = (\<Union>(k, fs) \<in> set g. set fs)"

lemma members_group_add [simp]: "members (group_add k f g) = insert f (members g)"
  by (induction k f g rule: group_add.induct) (auto simp: members_def)

lemma collect_fields_reaches:
  "collect_fields b ty sels visited g = Inr g' \<Longrightarrow> f \<in> members g' \<Longrightarrow> f \<in> members g \<or> reaches (bd_fragments b) sels f"
proof (induction b ty sels visited g arbitrary: g' rule: collect_fields.induct)
  case (2 b ty al name args ds def subs rest visited groups)
  let ?q = "QField al name args ds def subs"
  obtain inc where inc: "included b ds = Inr inc" using "2.prems"(1) by (auto simp: bind_res_Inr_iff)
  have "f = ?q \<Longrightarrow> reaches (bd_fragments b) (?q # rest) f" by (simp add: reaches_here)
  then show ?case
    using "2.IH"(1) [OF inc] "2.IH"(2) [OF inc] "2.prems" inc reaches_Cons [of _ ?q rest f]
    by (cases inc) auto
next
  case (3 b ty name ds rest visited groups)
  obtain inc where inc: "included b ds = Inr inc" using "3.prems"(1) by (auto simp: bind_res_Inr_iff)
  show ?case
  proof (cases "\<not> inc \<or> name \<in> visited")
    case True
    then show ?thesis using "3.IH"(1) [OF inc True] "3.prems" inc reaches_Cons [of _ "QSpread name ds" rest f] True by auto
  next
    case False
    then obtain fg where fg: "fragment_for_name (bd_fragments b) name = Some fg"
      using "3.prems"(1) inc by (auto split: option.splits)
    have "reaches (bd_fragments b) (fg_selections fg) f \<Longrightarrow> reaches (bd_fragments b) (QSpread name ds # rest) f"
      by (rule reaches_spread [of name ds, OF _ fg]) simp_all
    then show ?thesis
      using "3.IH"(2) [OF inc False fg] "3.IH"(3) [OF inc False fg] "3.prems" inc False fg
        reaches_Cons [of _ "QSpread name ds" rest f] reaches_append
      by (auto split: if_splits)
  qed
next
  case (4 b ty cond ds subs rest visited groups)
  have "reaches (bd_fragments b) subs f \<Longrightarrow> reaches (bd_fragments b) (QInline cond ds subs # rest) f"
    by (rule reaches_inline [of cond ds subs]) simp_all
  moreover obtain inc where inc: "included b ds = Inr inc" using "4.prems"(1) by (auto simp: bind_res_Inr_iff)
  ultimately show ?case
    using "4.IH"(1) [OF inc] "4.IH"(2) [OF inc] "4.prems" reaches_Cons [of _ "QInline cond ds subs" rest f] reaches_append
    by (auto split: if_splits)
qed simp

lemma included_error: "included b ds \<noteq> Inl OutOfFuel"
  by (auto simp: included_def condition_def bind_res_Inl_iff split: option.splits sum.splits json.splits)

lemma collect_fields_error: "collect_fields b ty sels visited g \<noteq> Inl OutOfFuel"
proof (induction b ty sels visited g rule: collect_fields.induct)
  case (2 b ty al name args ds def subs rest visited groups)
  then show ?case using included_error by (auto simp: bind_res_Inl_iff split: if_splits)
next
  case (3 b ty name ds rest visited groups)
  then show ?case using included_error [of b ds] by (cases "included b ds") (auto split: option.splits if_splits)
next
  case (4 b ty cond ds subs rest visited groups)
  then show ?case using included_error by (auto simp: bind_res_Inl_iff split: if_splits)
qed simp

lemma fold_res_Inl: "fold_res f s xs = Inl e \<Longrightarrow> \<exists>x \<in> set xs. \<exists>u. f u x = Inl e"
  by (induction xs arbitrary: s) (auto simp: bind_res_Inl_iff)

lemma map_res_Inl: "map_res f xs = Inl e \<Longrightarrow> \<exists>x \<in> set xs. f x = Inl e"
  by (induction xs) (auto simp: bind_res_Inl_iff)

lemma build_fields_returns:
  "list_all (returns_within (bd_fragments b) n) sets \<Longrightarrow> sets \<noteq> [] \<Longrightarrow>
     build_fields n b ty sets path spath \<noteq> Inl OutOfFuel"
proof (induction n arbitrary: ty sets path spath)
  case 0
  then show ?case by (cases sets) auto
next
  case (Suc n)
  show ?case
  proof
    assume "build_fields (Suc n) b ty sets path spath = Inl OutOfFuel"
    then consider "fold_res (\<lambda>groups sels. collect_fields b ty sels {} groups) [] sets = Inl OutOfFuel"
      | groups where "fold_res (\<lambda>groups sels. collect_fields b ty sels {} groups) [] sets = Inr groups"
        "map_res (build_field (build_fields n b) b ty path spath) groups = Inl OutOfFuel"
      by (auto simp: bind_res_Inl_iff)
    then show False
    proof cases
      case 1
      then show False using fold_res_Inl collect_fields_error by metis
    next
      case 2
      have reach: "\<forall>f \<in> members groups. \<exists>s \<in> set sets. reaches (bd_fragments b) s f"
        by (rule fold_res_invariant [OF 2(1)]) (auto simp: members_def [of "[]"] dest: collect_fields_reaches)
      obtain k grp where kg: "(k, grp) \<in> set groups" "build_field (build_fields n b) b ty path spath (k, grp) = Inl OutOfFuel"
        using map_res_Inl [OF 2(2)] by auto
      let ?subs = "filter (\<lambda>s. s \<noteq> []) (map sub_selections grp)"
      obtain fty p sp where r: "build_fields n b fty ?subs p sp = Inl OutOfFuel" "?subs \<noteq> []"
        using kg(2)
        by (auto simp: build_field_def bind_res_Inl_iff Let_def split: list.splits selection.splits option.splits
            sum.splits if_splits)
      have "returns_within (bd_fragments b) n s" if s: "s \<in> set ?subs" for s
      proof -
        obtain f where f: "f \<in> set grp" "s = sub_selections f" "s \<noteq> []" using s by auto
        then have "f \<in> members groups" using kg(1) by (auto simp: members_def)
        then obtain t where "t \<in> set sets" "reaches (bd_fragments b) t f" using reach by blast
        then show ?thesis using Suc.prems(1) f by (auto simp: list_all_iff)
      qed
      then show False using Suc.IH r by (metis list_all_iff)
    qed
  qed
qed

subsection \<open>Queries without fragment cycles\<close>

fun spread_names :: "selection \<Rightarrow> string set" where
  "spread_names (QField _ _ _ _ _ sels) = (\<Union>s \<in> set sels. spread_names s)"
| "spread_names (QSpread n _) = {n}"
| "spread_names (QInline _ _ sels) = (\<Union>s \<in> set sels. spread_names s)"

abbreviation spreads :: "selection list \<Rightarrow> string set" where
  "spreads sels \<equiv> (\<Union>s \<in> set sels. spread_names s)"

text \<open>A rank witnesses that no fragment leads back to itself: what the validator checks.\<close>

definition no_fragment_cycles :: "(string \<Rightarrow> nat) \<Rightarrow> fragment_def list \<Rightarrow> bool" where
  "no_fragment_cycles rank frs \<longleftrightarrow> (\<forall>fg \<in> set frs. \<forall>n \<in> spreads (fg_selections fg). rank n < rank (fg_name fg))"

lemma size_sub_selections: "s \<in> set sels \<Longrightarrow> size_list size (sub_selections s) < size_list size sels"
proof (induction sels)
  case (Cons x xs)
  have "size_list size (sub_selections x) < Suc (size x)" by (cases x) auto
  with Cons show ?case by auto
qed simp

lemma reaches_smaller:
  assumes "reaches frs sels f" "no_fragment_cycles rank frs" "\<forall>n \<in> spreads sels. rank n < R"
  shows "(size_list size (sub_selections f) < size_list size sels \<and> spreads (sub_selections f) \<subseteq> spreads sels) \<or>
    (\<exists>R' < R. \<forall>n \<in> spreads (sub_selections f). rank n < R')"
  using assms
proof (induction arbitrary: R rule: reaches.induct)
  case (reaches_here al n as ds def subs sels)
  have "spreads subs \<subseteq> spreads sels" using reaches_here.hyps by fastforce
  then show ?case using size_sub_selections [OF reaches_here.hyps] by simp
next
  case (reaches_inline c ds inner sels f)
  have sub: "spreads inner \<subseteq> spreads sels" using reaches_inline.hyps(1) by fastforce
  have sz: "size_list size inner < size_list size sels" using size_sub_selections [OF reaches_inline.hyps(1)] by simp
  show ?case using reaches_inline.IH [OF reaches_inline.prems(1), of R] reaches_inline.prems(2) sub sz by fastforce
next
  case (reaches_spread n ds sels fg f)
  have n: "rank n < R" using reaches_spread.hyps(1) reaches_spread.prems(2) by fastforce
  have "fg \<in> set frs" "fg_name fg = n" using fragment_for_name_SomeD [OF reaches_spread.hyps(2)] by auto
  then have fg: "\<forall>m \<in> spreads (fg_selections fg). rank m < rank n"
    using reaches_spread.prems(1) by (auto simp: no_fragment_cycles_def)
  show ?case using reaches_spread.IH [OF reaches_spread.prems(1) fg] fg n less_trans by (meson subsetD)
qed

fun all_selections :: "selection \<Rightarrow> selection set" where
  "all_selections (QField al n as ds def sels) = insert (QField al n as ds def sels) (\<Union>s \<in> set sels. all_selections s)"
| "all_selections (QSpread n ds) = {QSpread n ds}"
| "all_selections (QInline c ds sels) = insert (QInline c ds sels) (\<Union>s \<in> set sels. all_selections s)"

lemma finite_all_selections: "finite (all_selections s)"
  by (induction s) auto

lemma reaches_all:
  "reaches frs sels f \<Longrightarrow> f \<in> (\<Union>s \<in> set sels. all_selections s) \<union> (\<Union>fg \<in> set frs. \<Union>s \<in> set (fg_selections fg). all_selections s)"
proof (induction rule: reaches.induct)
  case (reaches_here al n as ds def subs sels)
  then show ?case by force
next
  case (reaches_inline c ds inner sels f)
  then show ?case by fastforce
next
  case (reaches_spread n ds sels fg f)
  then show ?case using fragment_for_name_SomeD by blast
qed

lemma finite_reaches: "finite {f. reaches frs sels f}"
  by (rule finite_subset [OF _ finite_UnI [of "\<Union>s \<in> set sels. all_selections s"
      "\<Union>fg \<in> set frs. \<Union>s \<in> set (fg_selections fg). all_selections s"]])
    (auto simp: finite_all_selections dest: reaches_all)

lemma returns_within_Suc: "returns_within frs n sels \<Longrightarrow> returns_within frs (Suc n) sels"
proof (induction n arbitrary: sels)
  case (Suc n)
  then show ?case by (metis returns_within.simps(2))
qed simp

lemma returns_within_mono: "n \<le> m \<Longrightarrow> returns_within frs n sels \<Longrightarrow> returns_within frs m sels"
  by (induction rule: dec_induct) (use returns_within_Suc in blast)+

lemma returns_within_exists:
  assumes "no_fragment_cycles rank frs"
  shows "\<forall>n \<in> spreads sels. rank n < R \<Longrightarrow> \<exists>N. returns_within frs N sels"
proof (induction "(R, size_list size sels)" arbitrary: R sels
    rule: wf_induct_rule [OF wf_lex_prod [OF wf_less_than wf_less_than]])
  case (1 R sels)
  have "\<exists>N. returns_within frs N (sub_selections f)" if f: "reaches frs sels f" for f
  proof -
    consider "size_list size (sub_selections f) < size_list size sels" "spreads (sub_selections f) \<subseteq> spreads sels"
      | R' where "R' < R" "\<forall>n \<in> spreads (sub_selections f). rank n < R'"
      using reaches_smaller [OF f assms "1.prems"] by blast
    then show ?thesis
    proof cases
      case a: 1
      show ?thesis by (rule "1.hyps" [of R]) (use a "1.prems" in auto)
    next
      case b: 2
      show ?thesis by (rule "1.hyps" [of R']) (use b in auto)
    qed
  qed
  then obtain N where N: "\<And>f. reaches frs sels f \<Longrightarrow> returns_within frs (N f) (sub_selections f)" by metis
  define M where "M = Max (insert 0 (N ` {f. reaches frs sels f}))"
  have "N f \<le> M" if "reaches frs sels f" for f
    unfolding M_def using finite_reaches that by (intro Max_ge) auto
  then have "returns_within frs (Suc M) sels"
    using N returns_within_mono by (metis returns_within.simps(2))
  then show ?case by blast
qed

subsection \<open>More fuel changes nothing\<close>

lemma map_res_fuel:
  assumes "\<And>x. f x \<noteq> Inl OutOfFuel \<Longrightarrow> g x = f x"
  shows "map_res f xs \<noteq> Inl OutOfFuel \<Longrightarrow> map_res g xs = map_res f xs"
proof (induction xs)
  case (Cons x xs)
  then have "f x \<noteq> Inl OutOfFuel" by auto
  then show ?case using assms [of x] Cons by (cases "f x") (auto simp: bind_res_Inl_iff)
qed simp

lemma build_field_fuel:
  assumes "\<And>ty sets p sp. rec ty sets p sp \<noteq> Inl OutOfFuel \<Longrightarrow> rec' ty sets p sp = rec ty sets p sp"
    and "build_field rec b ty path spath kg \<noteq> Inl OutOfFuel"
  shows "build_field rec' b ty path spath kg = build_field rec b ty path spath kg"
  using assms
  by (auto simp: build_field_def Let_def bind_res_def split: prod.splits list.splits selection.splits
      option.splits sum.splits if_splits)

lemma build_fields_fuel:
  "build_fields n b ty sets path spath \<noteq> Inl OutOfFuel \<Longrightarrow>
     build_fields (Suc n) b ty sets path spath = build_fields n b ty sets path spath"
proof (induction n arbitrary: ty sets path spath)
  case (Suc n)
  show ?case
  proof (cases "fold_res (\<lambda>groups sels. collect_fields b ty sels {} groups) [] sets")
    case (Inr groups)
    have "map_res (build_field (build_fields (Suc n) b) b ty path spath) groups =
        map_res (build_field (build_fields n b) b ty path spath) groups"
    proof (rule map_res_fuel)
      show "build_field (build_fields n b) b ty path spath kg \<noteq> Inl OutOfFuel \<Longrightarrow>
          build_field (build_fields (Suc n) b) b ty path spath kg = build_field (build_fields n b) b ty path spath kg" for kg
        by (rule build_field_fuel) (use Suc.IH in auto)
      show "map_res (build_field (build_fields n b) b ty path spath) groups \<noteq> Inl OutOfFuel"
        using Suc.prems Inr by simp
    qed
    then show ?thesis by (simp add: Inr del: build_fields.simps(2) add: build_fields.simps(2) [of "Suc n"] build_fields.simps(2) [of n])
  qed simp
qed simp

lemma build_fields_stable:
  assumes "build_fields n b ty sets path spath \<noteq> Inl OutOfFuel" "n \<le> m"
  shows "build_fields m b ty sets path spath = build_fields n b ty sets path spath"
  using assms(2)
proof (induction m rule: dec_induct)
  case (step m)
  then show ?case using build_fields_fuel assms(1) by metis
qed simp


lemma owner_values_nonempty: "v \<in> set (owner_values arg fs) \<Longrightarrow> v \<noteq> ''''"
  by (induction fs) (auto simp: owner_values_def map_filter_simps split: option.splits json.splits if_splits)

lemma finite_spread_names: "finite (spread_names s)"
  by (induction s) auto

corollary returns_within_some:
  assumes "no_fragment_cycles rank frs"
  shows "\<exists>N. returns_within frs N sels"
proof -
  have "finite (rank ` spreads sels)" using finite_spread_names by auto
  then obtain R where "\<forall>n \<in> spreads sels. rank n < R" using finite_nat_set_iff_bounded by (metis imageI)
  then show ?thesis by (rule returns_within_exists [OF assms])
qed

end
