(* ===== verification/OE_Plan.thy ===== *)
theory OE_Plan
  imports OE_Operation_Facts Strconv
begin

text \<open>
  Planning the provider operations of a normalized query
  (\<^verbatim>\<open>internal/oe/federator/plan.go\<close>).

  A \<^verbatim>\<open>*fetch\<close> is an index into the plan's list of fetches, since fetches are only
  ever appended and updated in place. A \<^verbatim>\<open>*operation.Field\<close> used as a map key is the
  field's path: the paths of a normalized operation are distinct (\<open>distinct_walk\<close>).
  A \<^verbatim>\<open>*graphql.ArgMapping\<close> is its position in the configuration. The parser, the
  formatter and \<^verbatim>\<open>json.Marshal\<close> are parameters.
\<close>

section \<open>Paths\<close>

definition dotted :: "string \<Rightarrow> string list" where
  "dotted s = split_on CHR ''.'' s"

definition after_last_dot :: "string \<Rightarrow> string" where
  "after_last_dot s = rev (takeWhile (\<lambda>c. c \<noteq> CHR ''.'') (rev s))"

definition relative_path :: "string \<Rightarrow> string \<Rightarrow> string" where
  "relative_path path lst =
     (case cut_prefix path (lst @ ''.'') of Some rest \<Rightarrow> rest | None \<Rightarrow> after_last_dot path)"

definition is_path_prefix :: "string \<Rightarrow> string \<Rightarrow> bool" where
  "is_path_prefix path pre \<longleftrightarrow> path = pre \<or> has_prefix path (pre @ ''.'')"

definition has_prefix_path :: "string list \<Rightarrow> string list \<Rightarrow> bool" where
  "has_prefix_path path pre \<longleftrightarrow> length pre \<le> length path \<and> take (length pre) path = pre"

section \<open>Selection trees\<close>

datatype selection_node = SelNode
  (sn_name: string) (sn_arguments: "(string \<times> string) list") (sn_children: "selection_node list")
  \<comment> \<open>an argument is its name and the variable it is given\<close>

text \<open>\<^verbatim>\<open>child\<close> finds or creates the child, which the caller then changes in place.\<close>

fun with_child :: "string \<Rightarrow> (selection_node \<Rightarrow> selection_node) \<Rightarrow> selection_node list \<Rightarrow> selection_node list" where
  "with_child name f [] = [f (SelNode name [] [])]"
| "with_child name f (c # cs) = (if sn_name c = name then f c # cs else c # with_child name f cs)"

fun at_path :: "string list \<Rightarrow> (selection_node \<Rightarrow> selection_node) \<Rightarrow> selection_node \<Rightarrow> selection_node" where
  "at_path [] f n = f n"
| "at_path (s # ss) f (SelNode name args cs) = SelNode name args (with_child s (at_path ss f) cs)"

section \<open>Fetches\<close>

record provider_argument =
  pa_path :: string
  pa_name :: string
  pa_type :: gql_type
  pa_value :: json

text \<open>The document \<^verbatim>\<open>print\<close> formats: one query.\<close>

record provider_doc =
  pd_name :: string
  pd_variables :: "(string \<times> gql_type) list"
  pd_selections :: "selection_node list"

record plan_lib =
  pl_parse_variables :: "string \<Rightarrow> (gql_type list list) option"
    \<comment> \<open>the types of the variable definitions of each operation of the parsed document\<close>
  pl_marshal :: "json \<Rightarrow> string + string"
  pl_format :: "provider_doc \<Rightarrow> string"

record fetch =
  ft_schema_id :: string
  ft_query :: string
  ft_variables :: json_map
  ft_fields :: "string list"
  ft_consumer :: "op_field list"
  ft_key :: string
  ft_root :: selection_node
  ft_args :: "provider_argument list"

datatype plan_error =
    IntrospectionField string | ListWithoutSource "string list"
  | ArgumentValue string string string | ArgumentNoDefinition string "string list"

definition add_field :: "string \<Rightarrow> fetch \<Rightarrow> fetch" where
  "add_field path f =
     (if path \<in> set (ft_fields f) then f
      else f\<lparr>ft_fields := ft_fields f @ [path], ft_root := at_path (dotted path) (\<lambda>n. n) (ft_root f)\<rparr>)"

section \<open>Mapped arguments\<close>

definition parse_type :: "plan_lib \<Rightarrow> string \<Rightarrow> string + gql_type" where
  "parse_type lib s =
     (case pl_parse_variables lib (''query($v: '' @ s @ '') { __typename }'') of
        Some [[typ]] \<Rightarrow> if type_string typ = filter (\<lambda>c. \<not> is_space c) s then Inr typ else Inl s
      | _ \<Rightarrow> Inl s)"

text \<open>The parsed types, by position of the mapping; the error carries the position.\<close>

definition target_arg_types ::
  "plan_lib \<Rightarrow> arg_mapping option list \<Rightarrow> (nat \<times> string) + (nat \<rightharpoonup> gql_type)" where
  "target_arg_types lib mappings =
     fold_res (\<lambda>types im. case im of
         (_, None) \<Rightarrow> Inr types
       | (i, Some m) \<Rightarrow>
           if am_target_arg_type m = '''' then Inr types
           else (case parse_type lib (am_target_arg_type m) of
               Inl e \<Rightarrow> Inl (i, e)
             | Inr typ \<Rightarrow> Inr (types(i \<mapsto> typ))))
       Map.empty (enumerate 0 mappings)"

definition consumer_arg_type :: "arg_binding \<Rightarrow> plan_error + gql_type" where
  "consumer_arg_type b =
     (let segments = split_on CHR ''-'' (am_source_arg_path (ab_mapping b)); name = last segments in
      case arg_def_for_name name (fd_args (of_definition (ab_field b))) of
        None \<Rightarrow> Inl (ArgumentNoDefinition name (of_schema_path (ab_field b)))
      | Some ad \<Rightarrow>
          Inr (if ab_value b \<noteq> JNull \<and> \<not> non_null (ad_type ad) then make_non_null (ad_type ad) else ad_type ad))"

record planner =
  pn_fetches :: "fetch list"
  pn_by_key :: "string \<rightharpoonup> nat"
  pn_sources :: "string list \<rightharpoonup> nat"

type_synonym target_types = "nat \<rightharpoonup> gql_type"

definition argument_step ::
  "target_types \<Rightarrow> op_field \<Rightarrow> source_info \<Rightarrow> provider_argument list \<Rightarrow> arg_binding \<Rightarrow>
   plan_error + provider_argument list" where
  "argument_step types field info args b =
     (let m = ab_mapping b in
      if am_schema_id m \<noteq> si_schema_id info
         \<or> \<not> is_path_prefix (si_provider_field info) (am_target_arg_path m)
         \<or> \<not> has_prefix_path (of_path field) (of_path (ab_field b))
      then Inr args
      else if (am_target_arg_path m, am_target_arg_name m) \<in> set (map (\<lambda>a. (pa_path a, pa_name a)) args)
      then Inr args
      else bind_res (case types (ab_index b) of Some typ \<Rightarrow> Inr typ | None \<Rightarrow> consumer_arg_type b)
        (\<lambda>typ. Inr (args @ [\<lparr>pa_path = am_target_arg_path m, pa_name = am_target_arg_name m, pa_type = typ,
                             pa_value = ab_value b\<rparr>])))"

definition plan_arguments ::
  "target_types \<Rightarrow> arg_binding list \<Rightarrow> op_field \<Rightarrow> source_info \<Rightarrow> plan_error + provider_argument list" where
  "plan_arguments types bindings field info =
     bind_res (fold_res (argument_step types field info) [] bindings)
       (\<lambda>args. Inr (sort_key (\<lambda>a. (pa_path a, pa_name a)) args))"

section \<open>Planning fields\<close>

definition nul :: char where
  "nul = CHR 0x00"

definition key_part :: "provider_argument \<Rightarrow> string \<Rightarrow> string" where
  "key_part a value =
     [nul] @ pa_path a @ [nul] @ pa_name a @ [nul] @ type_string (pa_type a) @ [nul] @ value"

definition fetch_key :: "plan_lib \<Rightarrow> string \<Rightarrow> provider_argument list \<Rightarrow> plan_error + string" where
  "fetch_key lib schema_id args =
     fold_res (\<lambda>key a. case pl_marshal lib (pa_value a) of
         Inl e \<Rightarrow> Inl (ArgumentValue (pa_name a) (pa_path a) e)
       | Inr value \<Rightarrow> Inr (key @ key_part a value)) schema_id args"

definition fetch_for ::
  "plan_lib \<Rightarrow> target_types \<Rightarrow> arg_binding list \<Rightarrow> op_field \<Rightarrow> source_info \<Rightarrow> planner \<Rightarrow>
   plan_error + nat \<times> planner" where
  "fetch_for lib types bindings field info st =
     bind_res (plan_arguments types bindings field info) (\<lambda>args.
     bind_res (fetch_key lib (si_schema_id info) args) (\<lambda>key.
       case pn_by_key st key of
         Some i \<Rightarrow> Inr (i, st)
       | None \<Rightarrow>
           let i = length (pn_fetches st) in
           Inr (i, st\<lparr>pn_by_key := (pn_by_key st)(key \<mapsto> i),
                      pn_fetches := pn_fetches st @
                        [\<lparr>ft_schema_id = si_schema_id info, ft_query = '''', ft_variables = [], ft_fields = [],
                          ft_consumer = [], ft_key = key, ft_root = SelNode '''' [] [], ft_args = args\<rparr>]\<rparr>)))"

definition update_fetch :: "nat \<Rightarrow> (fetch \<Rightarrow> fetch) \<Rightarrow> planner \<Rightarrow> planner" where
  "update_fetch i f st = st\<lparr>pn_fetches := (pn_fetches st)[i := f (pn_fetches st ! i)]\<rparr>"

record element_scope =
  es_fetch :: nat
  es_declared :: string
  es_requested :: string

fun plan_field ::
  "plan_lib \<Rightarrow> target_types \<Rightarrow> arg_binding list \<Rightarrow> element_scope option \<Rightarrow> planner \<Rightarrow> op_field \<Rightarrow>
   plan_error + planner" where
  "plan_field lib types bindings scope st (OpField k name p sp vals def info sels) =
     (let field = OpField k name p sp vals def info sels; is_list = is_list_type (fd_type def) in
      if name = ''__typename'' then Inr st
      else if has_prefix name ''__'' then Inl (IntrospectionField name)
      else case (scope, info) of
        (Some sc, Some src) \<Rightarrow>
          if is_list \<or> sels = []
          then let requested = es_requested sc @ ''.'' @ relative_path (si_provider_field src) (es_declared sc) in
            if is_list \<and> sels \<noteq> []
            then fold_res (plan_field lib types bindings
                   (Some \<lparr>es_fetch = es_fetch sc, es_declared = si_provider_field src, es_requested = requested\<rparr>))
                   st sels
            else Inr (update_fetch (es_fetch sc) (add_field requested) st)
          else fold_res (plan_field lib types bindings scope) st sels
      | (None, Some src) \<Rightarrow>
          if is_list \<or> sels = []
          then bind_res (fetch_for lib types bindings field src st) (\<lambda>(i, st).
            let st = update_fetch i (\<lambda>f. f\<lparr>ft_consumer := ft_consumer f @ [field]\<rparr>)
                       (st\<lparr>pn_sources := (pn_sources st)(p \<mapsto> i)\<rparr>) in
            if is_list \<and> sels \<noteq> []
            then fold_res (plan_field lib types bindings
                   (Some \<lparr>es_fetch = i, es_declared = si_provider_field src,
                          es_requested = si_provider_field src\<rparr>)) st sels
            else Inr (update_fetch i (add_field (si_provider_field src)) st))
          else fold_res (plan_field lib types bindings scope) st sels
      | (_, None) \<Rightarrow>
          if is_list \<and> sels \<noteq> [] then Inl (ListWithoutSource sp)
          else fold_res (plan_field lib types bindings scope) st sels)"

definition plan_fields ::
  "plan_lib \<Rightarrow> target_types \<Rightarrow> arg_binding list \<Rightarrow> element_scope option \<Rightarrow> planner \<Rightarrow> op_field list \<Rightarrow>
   plan_error + planner" where
  "plan_fields lib types bindings scope st fs = fold_res (plan_field lib types bindings scope) st fs"

section \<open>Printing a fetch\<close>

text \<open>The loop that looks for a free variable name ends: the names it tries are distinct.\<close>

function fresh_from :: "string list \<Rightarrow> string \<Rightarrow> nat \<Rightarrow> string" where
  "fresh_from used base i =
     (let name = base @ ''_'' @ decimal i in
      if name \<in> set used then fresh_from used base (Suc i) else name)"
  by pat_completeness auto

definition variable_name :: "string list \<Rightarrow> string \<Rightarrow> string" where
  "variable_name used base = (if base \<in> set used then fresh_from used base 2 else base)"

lemma decimal_inj: "decimal m = decimal n \<Longrightarrow> m = n"
  by (metis digits_val_decimal option.inject)

lemma finite_taken: "finite {j. base @ ''_'' @ decimal j \<in> set used}"
proof (rule finite_imageD)
  show "finite ((\<lambda>j. base @ ''_'' @ decimal j) ` {j. base @ ''_'' @ decimal j \<in> set used})"
    by (rule finite_subset [of _ "set used"]) auto
  show "inj_on (\<lambda>j. base @ ''_'' @ decimal j) {j. base @ ''_'' @ decimal j \<in> set used}"
    by (auto simp: inj_on_def dest: decimal_inj)
qed

termination fresh_from
proof (relation "measure (\<lambda>(used, base, i). card {j. i \<le> j \<and> base @ ''_'' @ decimal j \<in> set used})", simp)
  fix used base i name
  assume "name = base @ ''_'' @ decimal i" and taken: "name \<in> set used"
  then have "{j. Suc i \<le> j \<and> base @ ''_'' @ decimal j \<in> set used} \<subset> {j. i \<le> j \<and> base @ ''_'' @ decimal j \<in> set used}"
    by (auto simp: psubset_eq set_eq_iff intro!: exI [of _ i])
  then show "((used, base, Suc i), (used, base, i))
      \<in> measure (\<lambda>(used, base, i). card {j. i \<le> j \<and> base @ ''_'' @ decimal j \<in> set used})"
    using finite_taken [of base used] by (auto intro!: psubset_card_mono intro: finite_subset [rotated])
qed

declare fresh_from.simps [simp del]

text \<open>
  One argument: a variable for it, and the argument on the provider field at its path.
\<close>

definition print_argument ::
  "(string \<times> gql_type) list \<times> json_map \<times> selection_node \<Rightarrow> provider_argument \<Rightarrow>
   (string \<times> gql_type) list \<times> json_map \<times> selection_node" where
  "print_argument st a =
     (case st of (definitions, vars, root) \<Rightarrow>
        let name = variable_name (map fst definitions) (pa_name a) in
        (definitions @ [(name, pa_type a)], set_arg name (pa_value a) vars,
         at_path (dotted (pa_path a))
           (\<lambda>n. SelNode (sn_name n) (sn_arguments n @ [(pa_name a, name)]) (sn_children n)) root))"

text \<open>
  \<^verbatim>\<open>strings.Map\<close> reads runes: a well-formed multi-byte sequence is one rune, any
  other byte is one.
\<close>

definition byte_in :: "nat \<Rightarrow> nat \<Rightarrow> string \<Rightarrow> nat \<Rightarrow> bool" where
  "byte_in lo hi s i \<longleftrightarrow> i < length s \<and> lo \<le> of_char (s ! i) \<and> of_char (s ! i) \<le> hi"

definition rune_width :: "string \<Rightarrow> nat" where
  "rune_width s =
     (if byte_in 0xC2 0xDF s 0 \<and> byte_in 0x80 0xBF s 1 then 2
      else if (byte_in 0xE0 0xE0 s 0 \<and> byte_in 0xA0 0xBF s 1 \<or> byte_in 0xED 0xED s 0 \<and> byte_in 0x80 0x9F s 1
               \<or> (byte_in 0xE1 0xEC s 0 \<or> byte_in 0xEE 0xEF s 0) \<and> byte_in 0x80 0xBF s 1)
              \<and> byte_in 0x80 0xBF s 2 then 3
      else if (byte_in 0xF0 0xF0 s 0 \<and> byte_in 0x90 0xBF s 1 \<or> byte_in 0xF1 0xF3 s 0 \<and> byte_in 0x80 0xBF s 1
               \<or> byte_in 0xF4 0xF4 s 0 \<and> byte_in 0x80 0x8F s 1)
              \<and> byte_in 0x80 0xBF s 2 \<and> byte_in 0x80 0xBF s 3 then 4
      else 1)"

definition name_char :: "char \<Rightarrow> bool" where
  "name_char c \<longleftrightarrow>
     (let n = of_char c :: nat in n = 95 \<or> 97 \<le> n \<and> n \<le> 122 \<or> 65 \<le> n \<and> n \<le> 90 \<or> 48 \<le> n \<and> n \<le> 57)"

function operation_name :: "string \<Rightarrow> string" where
  "operation_name [] = []"
| "operation_name (c # cs) =
     (if name_char c then c # operation_name cs
      else CHR ''_'' # operation_name (drop (rune_width (c # cs) - 1) cs))"
  by pat_completeness auto

termination by (relation "measure length") auto

definition print_fetch :: "fetch \<Rightarrow> provider_doc \<times> json_map" where
  "print_fetch f =
     (case foldl print_argument ([], [], ft_root f) (ft_args f) of (definitions, vars, root) \<Rightarrow>
        (\<lparr>pd_name = ''Query'' @ operation_name (ft_schema_id f), pd_variables = definitions,
          pd_selections = sn_children root\<rparr>, vars))"

definition finish_fetch :: "plan_lib \<Rightarrow> fetch \<Rightarrow> fetch" where
  "finish_fetch lib f =
     (case print_fetch f of (doc, vars) \<Rightarrow>
        f\<lparr>ft_query := trim_space (pl_format lib doc), ft_variables := vars\<rparr>)"

section \<open>The plan\<close>

record plan =
  p_fetches :: "fetch list"
  p_sources :: "string list \<rightharpoonup> nat"

definition build_plan ::
  "plan_lib \<Rightarrow> operation \<Rightarrow> arg_mapping option list \<Rightarrow> target_types \<Rightarrow> plan_error + plan" where
  "build_plan lib op mappings types =
     bind_res (plan_fields lib types (bind_arguments op mappings) None
                 \<lparr>pn_fetches = [], pn_by_key = Map.empty, pn_sources = Map.empty\<rparr> (op_fields op))
       (\<lambda>st. Inr \<lparr>p_fetches = map (finish_fetch lib) (pn_fetches st), p_sources = pn_sources st\<rparr>)"

text \<open>\<^verbatim>\<open>policy.RequiredField\<close>.\<close>

record oe_required_field =
  orf_field_name :: string
  orf_schema_id :: string

definition required_fields :: "plan \<Rightarrow> oe_required_field list" where
  "required_fields p =
     foldl (\<lambda>fields field. if field \<in> set fields then fields else fields @ [field]) []
       (concat (map (\<lambda>f. map (\<lambda>path. \<lparr>orf_field_name = path, orf_schema_id = ft_schema_id f\<rparr>) (ft_fields f))
          (p_fetches p)))"

end
