(* ===== verification/OE_Plan_Facts.thy ===== *)
theory OE_Plan_Facts
  imports OE_Plan
begin

text \<open>
  Facts on plans: the leaves of a fetch's selection tree are the paths added to it, a fetch's
  key determines its mapped arguments, and the planner's invariant \<open>planner_inv\<close>: every
  mapped argument of a fetch sits on an ancestor of every field the fetch reads.
\<close>

section \<open>Selection trees\<close>

text \<open>The paths at which a tree has a node, and those at which it has a leaf.\<close>

fun has_path :: "selection_node \<Rightarrow> string list \<Rightarrow> bool" where
  "has_path n [] = True"
| "has_path (SelNode nm args cs) (s # ss) =
     (case find (\<lambda>c. sn_name c = s) cs of None \<Rightarrow> False | Some c \<Rightarrow> has_path c ss)"

fun leaves :: "selection_node \<Rightarrow> string list list" where
  "leaves (SelNode nm args cs) =
     (if cs = [] then [[]] else concat (map (\<lambda>c. map ((#) (sn_name c)) (leaves c)) cs))"

definition decorates :: "(selection_node \<Rightarrow> selection_node) \<Rightarrow> bool" where
  "decorates f \<longleftrightarrow> (\<forall>n. sn_name (f n) = sn_name n \<and> sn_children (f n) = sn_children n)"

lemma leaves_decorated: "decorates f \<Longrightarrow> leaves (f n) = leaves n"
  by (cases n; cases "f n") (auto simp: decorates_def dest!: spec [of _ n])

lemma sn_name_at_path: "decorates f \<Longrightarrow> sn_name (at_path p f n) = sn_name n"
  by (cases p; cases n) (auto simp: decorates_def)

lemma with_child_not_Nil: "with_child s g cs \<noteq> []"
  by (cases cs) auto

lemma leaves_with_child:
  assumes "\<And>c. sn_name (g c) = sn_name c"
    and "\<And>c. c \<in> set cs \<or> c = SelNode s [] [] \<Longrightarrow>
      set (leaves (g c)) \<subseteq> insert ss (if c \<in> set cs then set (leaves c) else {})"
  shows "(\<Union>c \<in> set (with_child s g cs). (#) (sn_name c) ` set (leaves c))
    \<subseteq> insert (s # ss) (\<Union>c \<in> set cs. (#) (sn_name c) ` set (leaves c))"
  using assms(2)
proof (induction cs)
  case Nil
  then show ?case using Nil [of "SelNode s [] []"] assms(1) by auto
next
  case (Cons d cs)
  show ?case
  proof (cases "sn_name d = s")
    case True
    then show ?thesis using Cons.prems [of d] assms(1) by auto
  next
    case False
    have "(\<Union>c \<in> set (with_child s g cs). (#) (sn_name c) ` set (leaves c))
        \<subseteq> insert (s # ss) (\<Union>c \<in> set cs. (#) (sn_name c) ` set (leaves c))"
    proof (rule Cons.IH)
      fix c assume c: "c \<in> set cs \<or> c = SelNode s [] []"
      show "set (leaves (g c)) \<subseteq> insert ss (if c \<in> set cs then set (leaves c) else {})"
        using Cons.prems [of c] c False by (auto split: if_splits)
    qed
    with False show ?thesis by auto
  qed
qed

lemma leaves_at_path:
  "decorates f \<Longrightarrow>
     set (leaves (at_path p f n)) \<subseteq> insert p (if p \<noteq> [] \<and> sn_children n = [] then {} else set (leaves n))"
proof (induction p arbitrary: n)
  case Nil
  then show ?case by (simp add: leaves_decorated) blast
next
  case (Cons s ss)
  obtain nm args cs where n: "n = SelNode nm args cs" by (cases n)
  have sub: "(\<Union>c \<in> set (with_child s (at_path ss f) cs). (#) (sn_name c) ` set (leaves c))
      \<subseteq> insert (s # ss) (\<Union>c \<in> set cs. (#) (sn_name c) ` set (leaves c))"
  proof (rule leaves_with_child)
    show "sn_name (at_path ss f c) = sn_name c" for c by (rule sn_name_at_path [OF Cons.prems])
    show "set (leaves (at_path ss f c)) \<subseteq> insert ss (if c \<in> set cs then set (leaves c) else {})"
      if "c \<in> set cs \<or> c = SelNode s [] []" for c
      using Cons.IH [OF Cons.prems, of c] that by (auto split: if_splits)
  qed
  show ?case
  proof (cases "cs = []")
    case True
    then show ?thesis
      using Cons.IH [OF Cons.prems, of "SelNode s [] []"] sn_name_at_path [OF Cons.prems, of ss "SelNode s [] []"]
      by (auto simp: n split: if_splits)
  next
    case False
    with sub show ?thesis by (simp add: n with_child_not_Nil)
  qed
qed

lemma find_with_child:
  assumes "\<And>c. sn_name (g c) = sn_name c"
  shows "find (\<lambda>c. sn_name c = t) (with_child s g cs) =
    (if t = s then Some (g (case find (\<lambda>c. sn_name c = s) cs of None \<Rightarrow> SelNode s [] [] | Some c \<Rightarrow> c))
     else find (\<lambda>c. sn_name c = t) cs)"
  by (induction cs) (auto simp: assms split: option.splits)

lemma has_path_at_path:
  "decorates f \<Longrightarrow> has_path n p \<Longrightarrow> has_path (at_path q f n) p"
proof (induction q arbitrary: n p)
  case Nil
  then show ?case
    by (cases n; cases p; cases "f n") (auto simp: decorates_def dest!: spec [of _ n])
next
  case (Cons s ss)
  obtain nm args cs where n: "n = SelNode nm args cs" by (cases n)
  show ?case
  proof (cases p)
    case p: (Cons t ts)
    show ?thesis using Cons.prems Cons.IH
      by (auto simp: n p find_with_child [OF sn_name_at_path] split: option.splits)
  qed simp
qed

lemma has_path_added: "decorates f \<Longrightarrow> has_path (at_path (p @ q) f n) p"
proof (induction p arbitrary: n)
  case (Cons s ss)
  obtain nm args cs where n: "n = SelNode nm args cs" by (cases n)
  show ?case using Cons by (auto simp: n find_with_child [OF sn_name_at_path])
qed simp

lemma has_path_prefix: "has_path n (p @ q) \<Longrightarrow> has_path n p"
  by (induction n p rule: has_path.induct) (auto split: option.splits)

lemma with_child_present:
  "find (\<lambda>c. sn_name c = s) cs = Some d \<Longrightarrow> sn_name (g d) = sn_name d \<Longrightarrow> leaves (g d) = leaves d \<Longrightarrow>
     concat (map (\<lambda>c. map ((#) (sn_name c)) (leaves c)) (with_child s g cs)) =
     concat (map (\<lambda>c. map ((#) (sn_name c)) (leaves c)) cs)"
  by (induction cs) (auto split: if_splits)

lemma leaves_present: "decorates f \<Longrightarrow> has_path n p \<Longrightarrow> leaves (at_path p f n) = leaves n"
proof (induction p arbitrary: n)
  case Nil
  then show ?case by (simp add: leaves_decorated)
next
  case (Cons s ss)
  obtain nm args cs where n: "n = SelNode nm args cs" by (cases n)
  obtain d where d: "find (\<lambda>c. sn_name c = s) cs = Some d" "has_path d ss"
    using Cons.prems(2) by (auto simp: n split: option.splits)
  then have "cs \<noteq> []" by auto
  then show ?case
    using with_child_present [of s cs d "at_path ss f", OF d(1) sn_name_at_path [OF Cons.prems(1)] Cons.IH [OF Cons.prems(1) d(2)]]
    by (simp add: n with_child_not_Nil)
qed

lemma leaves_not_Nil: "leaves n \<noteq> []"
proof (induction n rule: leaves.induct)
  case (1 nm args cs)
  then show ?case by (cases cs) auto
qed

text \<open>Only a node without children is a leaf itself.\<close>

lemma Nil_leaf: "[] \<in> set (leaves n) \<longleftrightarrow> sn_children n = []"
  by (cases n) auto

section \<open>Path strings\<close>

lemma is_path_prefix_iff: "is_path_prefix q p \<longleftrightarrow> q = p \<or> (\<exists>r. q = p @ CHR ''.'' # r)"
  by (auto simp: is_path_prefix_def has_prefix_iff)

lemma is_path_prefix_extend: "is_path_prefix q p \<Longrightarrow> is_path_prefix (q @ CHR ''.'' # r) p"
  by (auto simp: is_path_prefix_iff)

lemma dotted_prefix: "is_path_prefix q p \<Longrightarrow> \<exists>r. dotted q = dotted p @ r"
  by (auto simp: is_path_prefix_iff dotted_def split_on_sep)

lemma dotted_not_Nil [simp]: "dotted s \<noteq> []"
  by (simp add: dotted_def)

section \<open>Keys\<close>

definition nul_free :: "string \<Rightarrow> bool" where
  "nul_free s \<longleftrightarrow> nul \<notin> set s"

definition arg_nul_free :: "provider_argument \<Rightarrow> bool" where
  "arg_nul_free a \<longleftrightarrow> nul_free (pa_path a) \<and> nul_free (pa_name a) \<and> nul_free (type_string (pa_type a))"

text \<open>What \<^verbatim>\<open>json.Marshal\<close> guarantees: control characters are escaped.\<close>

definition marshal_nul_free :: "plan_lib \<Rightarrow> bool" where
  "marshal_nul_free lib \<longleftrightarrow> (\<forall>v s. pl_marshal lib v = Inr s \<longrightarrow> nul_free s)"

definition key_fields :: "provider_argument \<Rightarrow> string \<Rightarrow> string list" where
  "key_fields a v = [pa_path a, pa_name a, type_string (pa_type a), v]"

lemma split_key_part:
  "arg_nul_free a \<Longrightarrow> nul_free v \<Longrightarrow> split_on nul (k @ key_part a v) = split_on nul k @ key_fields a v"
  by (simp add: key_part_def key_fields_def arg_nul_free_def nul_free_def split_on_sep split_on_free)

lemma fetch_key_split:
  assumes "fetch_key lib s args = Inr k" "\<forall>a \<in> set args. arg_nul_free a" "marshal_nul_free lib" "nul_free s"
  shows "\<exists>vs. list_all2 (\<lambda>a v. pl_marshal lib (pa_value a) = Inr v) args vs
    \<and> split_on nul k = s # concat (map2 key_fields args vs)"
  using assms
proof (induction args arbitrary: k rule: rev_induct)
  case Nil
  then show ?case by (simp add: fetch_key_def nul_free_def split_on_free)
next
  case (snoc a args)
  obtain k' v where k': "fetch_key lib s args = Inr k'" and v: "pl_marshal lib (pa_value a) = Inr v"
    and k: "k = k' @ key_part a v"
    using snoc.prems(1) by (cases "pl_marshal lib (pa_value a)") (auto simp: fetch_key_def fold_res_append bind_res_Inr_iff)
  obtain vs where vs: "list_all2 (\<lambda>a v. pl_marshal lib (pa_value a) = Inr v) args vs"
    "split_on nul k' = s # concat (map2 key_fields args vs)"
    using snoc.IH [OF k'] snoc.prems by auto
  have "nul_free v" using snoc.prems(3) v by (auto simp: marshal_nul_free_def)
  then have "split_on nul k = s # concat (map2 key_fields (args @ [a]) (vs @ [v]))"
    using snoc.prems(2) vs by (simp add: k split_key_part list_all2_lengthD)
  moreover have "list_all2 (\<lambda>a v. pl_marshal lib (pa_value a) = Inr v) (args @ [a]) (vs @ [v])"
    using vs(1) v by (simp add: list_all2_appendI)
  ultimately show ?case by (intro exI [of _ "vs @ [v]"] conjI)
qed

lemma key_fields_inj:
  "length args = length vs \<Longrightarrow> length args' = length vs' \<Longrightarrow>
     concat (map2 key_fields args vs) = concat (map2 key_fields args' vs') \<Longrightarrow> map pa_path args = map pa_path args'"
proof (induction args vs arbitrary: args' vs' rule: list_induct2)
  case Nil
  then show ?case by (cases args'; cases vs') (simp_all add: key_fields_def)
next
  case (Cons a args v vs)
  show ?case
  proof (cases args')
    case Nil
    then show ?thesis using Cons.prems by (simp add: key_fields_def)
  next
    case args': (Cons a' args1)
    then obtain v' vs1 where vs': "vs' = v' # vs1" using Cons.prems(1) by (cases vs') auto
    have "concat (map2 key_fields args vs) = concat (map2 key_fields args1 vs1)" "pa_path a = pa_path a'"
      using Cons.prems(2) by (simp_all add: args' vs' key_fields_def)
    then show ?thesis using Cons.IH [of args1 vs1] Cons.prems(1) by (simp add: args' vs')
  qed
qed

text \<open>The key determines the schema and where the arguments go.\<close>

lemma fetch_key_determines:
  assumes "fetch_key lib s args = Inr k" "fetch_key lib s' args' = Inr k" "marshal_nul_free lib"
    and "\<forall>a \<in> set args. arg_nul_free a" "\<forall>a \<in> set args'. arg_nul_free a" "nul_free s" "nul_free s'"
  shows "s = s' \<and> map pa_path args = map pa_path args'"
proof -
  obtain vs where vs: "list_all2 (\<lambda>a v. pl_marshal lib (pa_value a) = Inr v) args vs"
    "split_on nul k = s # concat (map2 key_fields args vs)"
    using fetch_key_split [OF assms(1,4,3,6)] by blast
  obtain vs' where vs': "list_all2 (\<lambda>a v. pl_marshal lib (pa_value a) = Inr v) args' vs'"
    "split_on nul k = s' # concat (map2 key_fields args' vs')"
    using fetch_key_split [OF assms(2,5,3,7)] by blast
  show ?thesis
    using vs(2) vs'(2) key_fields_inj [of args vs args' vs'] list_all2_lengthD [OF vs(1)] list_all2_lengthD [OF vs'(1)]
    by simp
qed

section \<open>Mapped arguments\<close>

text \<open>The planner's inputs are free of the separator of the keys.\<close>

definition inputs_nul_free :: "plan_lib \<Rightarrow> target_types \<Rightarrow> arg_binding list \<Rightarrow> op_field list \<Rightarrow> bool" where
  "inputs_nul_free lib types bindings fs \<longleftrightarrow>
     marshal_nul_free lib \<and>
     (\<forall>f \<in> set fs. case of_source_info f of None \<Rightarrow> True | Some i \<Rightarrow> nul_free (si_schema_id i)) \<and>
     (\<forall>b \<in> set bindings.
        nul_free (am_target_arg_path (ab_mapping b)) \<and> nul_free (am_target_arg_name (ab_mapping b)) \<and>
        (case types (ab_index b) of Some typ \<Rightarrow> nul_free (type_string typ)
         | None \<Rightarrow> (case consumer_arg_type b of Inl _ \<Rightarrow> True | Inr typ \<Rightarrow> nul_free (type_string typ))))"

lemma plan_arguments_facts:
  assumes "plan_arguments types bindings field info = Inr args"
    and "inputs_nul_free lib types bindings fs" "a \<in> set args"
  shows "arg_nul_free a \<and> is_path_prefix (si_provider_field info) (pa_path a)"
proof -
  obtain args' where args': "fold_res (argument_step types field info) [] bindings = Inr args'"
    and "args = sort_key (\<lambda>a. (pa_path a, pa_name a)) args'"
    using assms(1) by (auto simp: plan_arguments_def bind_res_Inr_iff)
  then have "a \<in> set args'" using assms(3) by simp
  moreover have "\<forall>a \<in> set args'. arg_nul_free a \<and> is_path_prefix (si_provider_field info) (pa_path a)"
  proof (rule fold_res_invariant [OF args'])
    fix u b v
    assume b: "b \<in> set bindings" and u: "\<forall>a \<in> set u. arg_nul_free a \<and> is_path_prefix (si_provider_field info) (pa_path a)"
      and step: "argument_step types field info u b = Inr v"
    show "\<forall>a \<in> set v. arg_nul_free a \<and> is_path_prefix (si_provider_field info) (pa_path a)"
    proof (cases "v = u")
      case False
      then obtain t where ty: "(case types (ab_index b) of Some typ \<Rightarrow> Inr typ | None \<Rightarrow> consumer_arg_type b) = Inr t"
        and v: "v = u @ [\<lparr>pa_path = am_target_arg_path (ab_mapping b), pa_name = am_target_arg_name (ab_mapping b),
                          pa_type = t, pa_value = ab_value b\<rparr>]"
        and pre: "is_path_prefix (si_provider_field info) (am_target_arg_path (ab_mapping b))"
        using step by (auto simp: argument_step_def Let_def bind_res_Inr_iff split: if_splits)
      have "nul_free (type_string t)"
        using ty assms(2) b by (auto simp: inputs_nul_free_def split: option.splits sum.splits)
      then show ?thesis using u v pre assms(2) b by (auto simp: arg_nul_free_def inputs_nul_free_def)
    qed (use u in simp)
  qed simp
  ultimately show ?thesis by blast
qed

section \<open>The planner's invariant\<close>

definition fetch_ok :: "plan_lib \<Rightarrow> fetch \<Rightarrow> bool" where
  "fetch_ok lib f \<longleftrightarrow>
     distinct (ft_fields f) \<and>
     set (leaves (ft_root f)) \<subseteq> (if ft_fields f = [] then {[]} else dotted ` set (ft_fields f)) \<and>
     (\<forall>q \<in> set (ft_fields f). has_path (ft_root f) (dotted q)) \<and>
     (\<forall>q \<in> set (ft_fields f). \<forall>a \<in> set (ft_args f). is_path_prefix q (pa_path a)) \<and>
     fetch_key lib (ft_schema_id f) (ft_args f) = Inr (ft_key f) \<and>
     nul_free (ft_schema_id f) \<and> (\<forall>a \<in> set (ft_args f). arg_nul_free a)"

text \<open>A field's source is a fetch for the schema of the field's \<^verbatim>\<open>@sourceInfo\<close>.\<close>

definition serves :: "op_field list \<Rightarrow> planner \<Rightarrow> string list \<Rightarrow> nat \<Rightarrow> bool" where
  "serves fs st q i \<longleftrightarrow> i < length (pn_fetches st) \<and>
     (\<exists>g \<in> set fs. of_path g = q \<and>
        (\<exists>src. of_source_info g = Some src \<and> ft_schema_id (pn_fetches st ! i) = si_schema_id src))"

definition planner_inv :: "plan_lib \<Rightarrow> op_field list \<Rightarrow> planner \<Rightarrow> bool" where
  "planner_inv lib fs st \<longleftrightarrow>
     list_all (fetch_ok lib) (pn_fetches st) \<and>
     (\<forall>k i. pn_by_key st k = Some i \<longrightarrow> i < length (pn_fetches st) \<and> ft_key (pn_fetches st ! i) = k) \<and>
     (\<forall>q i. pn_sources st q = Some i \<longrightarrow> serves fs st q i)"

text \<open>\<open>extends st st'\<close>: fetches are only added, and keep their schema and arguments.\<close>

definition extends :: "planner \<Rightarrow> planner \<Rightarrow> bool" where
  "extends st st' \<longleftrightarrow>
     length (pn_fetches st) \<le> length (pn_fetches st') \<and> dom (pn_sources st) \<subseteq> dom (pn_sources st') \<and>
     (\<forall>i < length (pn_fetches st).
        ft_args (pn_fetches st' ! i) = ft_args (pn_fetches st ! i) \<and>
        ft_schema_id (pn_fetches st' ! i) = ft_schema_id (pn_fetches st ! i) \<and>
        set (ft_fields (pn_fetches st ! i)) \<subseteq> set (ft_fields (pn_fetches st' ! i)))"

definition scope_ok :: "planner \<Rightarrow> element_scope option \<Rightarrow> bool" where
  "scope_ok st scope = (case scope of None \<Rightarrow> True
     | Some sc \<Rightarrow> es_fetch sc < length (pn_fetches st) \<and>
         (\<forall>a \<in> set (ft_args (pn_fetches st ! es_fetch sc)). is_path_prefix (es_requested sc) (pa_path a)))"

lemma extends_refl [simp]: "extends st st"
  by (simp add: extends_def)

lemma extends_trans:
  assumes "extends a b" "extends b c"
  shows "extends a c"
proof -
  have "ft_args (pn_fetches c ! i) = ft_args (pn_fetches a ! i) \<and>
      ft_schema_id (pn_fetches c ! i) = ft_schema_id (pn_fetches a ! i) \<and>
      set (ft_fields (pn_fetches a ! i)) \<subseteq> set (ft_fields (pn_fetches c ! i))" if "i < length (pn_fetches a)" for i
  proof -
    have i: "i < length (pn_fetches b)" using assms(1) that by (simp add: extends_def)
    have "set (ft_fields (pn_fetches a ! i)) \<subseteq> set (ft_fields (pn_fetches b ! i))"
      using assms(1) that by (simp add: extends_def)
    also have "\<dots> \<subseteq> set (ft_fields (pn_fetches c ! i))" using assms(2) i by (simp add: extends_def)
    finally show ?thesis using assms that i by (simp add: extends_def)
  qed
  moreover have "dom (pn_sources a) \<subseteq> dom (pn_sources c)" using assms by (simp add: extends_def) blast
  ultimately show ?thesis using assms by (simp add: extends_def)
qed

lemma scope_ok_extends: "scope_ok st scope \<Longrightarrow> extends st st' \<Longrightarrow> scope_ok st' scope"
  by (auto simp: scope_ok_def extends_def split: option.splits)

lemma decorates_id [simp]: "decorates (\<lambda>n. n)"
  by (simp add: decorates_def)

lemma fetch_ok_add_field:
  assumes ok: "fetch_ok lib f" and pre: "\<forall>a \<in> set (ft_args f). is_path_prefix q (pa_path a)"
  shows "fetch_ok lib (add_field q f)"
proof (cases "q \<in> set (ft_fields f)")
  case True
  then show ?thesis using ok by (simp add: add_field_def)
next
  case False
  let ?t = "at_path (dotted q) (\<lambda>n. n) (ft_root f)"
  have l: "set (leaves ?t) \<subseteq> insert (dotted q) (if sn_children (ft_root f) = [] then {} else set (leaves (ft_root f)))"
    using leaves_at_path [OF decorates_id, of "dotted q" "ft_root f"] by auto
  have "set (leaves ?t) \<subseteq> insert (dotted q) (dotted ` set (ft_fields f))"
  proof (cases "ft_fields f = []")
    case True
    have "sn_children (ft_root f) = []"
      using ok True leaves_not_Nil [of "ft_root f"] Nil_leaf [of "ft_root f"]
      by (cases "leaves (ft_root f)") (auto simp: fetch_ok_def)
    then show ?thesis using l by auto
  next
    case False
    then show ?thesis using l ok by (auto simp: fetch_ok_def split: if_splits)
  qed
  moreover have "has_path ?t (dotted p)" if "p \<in> insert q (set (ft_fields f))" for p
    using that ok has_path_added [OF decorates_id, of "dotted q" "[]"] has_path_at_path [OF decorates_id]
    by (auto simp: fetch_ok_def)
  ultimately show ?thesis using ok pre False by (auto simp: fetch_ok_def add_field_def)
qed

lemma planner_inv_update:
  assumes "planner_inv lib fs st" "i < length (pn_fetches st)"
    and "fetch_ok lib (g (pn_fetches st ! i))" "ft_key (g (pn_fetches st ! i)) = ft_key (pn_fetches st ! i)"
    and "ft_schema_id (g (pn_fetches st ! i)) = ft_schema_id (pn_fetches st ! i)"
  shows "planner_inv lib fs (update_fetch i g st)"
  using assms by (auto simp: planner_inv_def serves_def update_fetch_def list_all_length nth_list_update)

lemma extends_update:
  assumes "i < length (pn_fetches st)" "ft_args (g (pn_fetches st ! i)) = ft_args (pn_fetches st ! i)"
    "ft_schema_id (g (pn_fetches st ! i)) = ft_schema_id (pn_fetches st ! i)"
    "set (ft_fields (pn_fetches st ! i)) \<subseteq> set (ft_fields (g (pn_fetches st ! i)))"
  shows "extends st (update_fetch i g st)"
  using assms by (auto simp: extends_def update_fetch_def nth_list_update)

lemma add_field_simps [simp]:
  "ft_args (add_field q f) = ft_args f" "ft_schema_id (add_field q f) = ft_schema_id f"
  "ft_key (add_field q f) = ft_key f" "ft_consumer (add_field q f) = ft_consumer f"
  "set (ft_fields (add_field q f)) = insert q (set (ft_fields f))"
  by (auto simp: add_field_def)

lemma update_add_field:
  assumes "planner_inv lib fs st" "i < length (pn_fetches st)"
    and "\<forall>a \<in> set (ft_args (pn_fetches st ! i)). is_path_prefix q (pa_path a)"
  shows "planner_inv lib fs (update_fetch i (add_field q) st) \<and> extends st (update_fetch i (add_field q) st)"
proof -
  have "fetch_ok lib (pn_fetches st ! i)" using assms(1,2) by (simp add: planner_inv_def list_all_length)
  then have "fetch_ok lib (add_field q (pn_fetches st ! i))" using assms(3) by (rule fetch_ok_add_field)
  then have "planner_inv lib fs (update_fetch i (add_field q) st)"
    by (rule planner_inv_update [OF assms(1,2)]) simp_all
  moreover have "extends st (update_fetch i (add_field q) st)"
    using assms(2) by (rule extends_update) auto
  ultimately show ?thesis ..
qed

text \<open>Fetching for a field leaves a fetch whose arguments lead to the field.\<close>

lemma fetch_for_ok:
  assumes "fetch_for lib types bindings field info st = Inr (i, st')" "planner_inv lib fs st"
    and ok: "inputs_nul_free lib types bindings fs" and field: "field \<in> set fs" "of_source_info field = Some info"
  shows "planner_inv lib fs st' \<and> extends st st' \<and> i < length (pn_fetches st') \<and>
    ft_schema_id (pn_fetches st' ! i) = si_schema_id info \<and>
    (\<forall>a \<in> set (ft_args (pn_fetches st' ! i)). is_path_prefix (si_provider_field info) (pa_path a))"
proof -
  obtain args where args: "plan_arguments types bindings field info = Inr args"
    using assms(1) by (auto simp: fetch_for_def bind_res_Inr_iff)
  then obtain key where key: "fetch_key lib (si_schema_id info) args = Inr key"
    using assms(1) by (auto simp: fetch_for_def bind_res_Inr_iff)
  have argf: "\<forall>a \<in> set args. arg_nul_free a \<and> is_path_prefix (si_provider_field info) (pa_path a)"
    using plan_arguments_facts [OF args ok] by blast
  have id: "nul_free (si_schema_id info)" and mar: "marshal_nul_free lib"
    using ok field by (auto simp: inputs_nul_free_def split: option.splits)
  show ?thesis
  proof (cases "pn_by_key st key")
    case None
    then have st': "i = length (pn_fetches st)" "st' = st\<lparr>pn_by_key := (pn_by_key st)(key \<mapsto> i),
                      pn_fetches := pn_fetches st @
                        [\<lparr>ft_schema_id = si_schema_id info, ft_query = '''', ft_variables = [], ft_fields = [],
                          ft_consumer = [], ft_key = key, ft_root = SelNode '''' [] [], ft_args = args\<rparr>]\<rparr>"
      using assms(1) by (auto simp: fetch_for_def args key Let_def)
    show ?thesis using assms(2) argf key id unfolding st'(2)
      by (auto simp: st'(1) planner_inv_def serves_def fetch_ok_def extends_def nth_append less_Suc_eq)
  next
    case (Some j)
    then have st': "st' = st" "i = j" using assms(1) by (auto simp: fetch_for_def args key Let_def)
    let ?f = "pn_fetches st ! j"
    have j: "j < length (pn_fetches st)" "ft_key ?f = key" using assms(2) Some by (auto simp: planner_inv_def)
    then have f: "fetch_ok lib ?f" using assms(2) by (simp add: planner_inv_def list_all_length)
    have "ft_schema_id ?f = si_schema_id info \<and> map pa_path (ft_args ?f) = map pa_path args"
      using fetch_key_determines [OF _ key mar, of "ft_schema_id ?f" "ft_args ?f"] f j(2) id argf
      by (auto simp: fetch_ok_def)
    then have "ft_schema_id ?f = si_schema_id info" "pa_path ` set (ft_args ?f) = pa_path ` set args"
      using list.set_map by metis+
    then show ?thesis using assms(2) j argf by (simp add: st') (metis image_iff)
  qed
qed

lemma update_consumer:
  fixes field p
  assumes "planner_inv lib fs st" "i < length (pn_fetches st)"
    and "field \<in> set fs" "of_path field = p" "of_source_info field = Some src"
    "ft_schema_id (pn_fetches st ! i) = si_schema_id src"
  defines "st1 \<equiv> update_fetch i (\<lambda>f. f\<lparr>ft_consumer := ft_consumer f @ [field]\<rparr>)
                   (st\<lparr>pn_sources := (pn_sources st)(p \<mapsto> i)\<rparr>)"
  shows "planner_inv lib fs st1 \<and> extends st st1"
proof -
  have "serves fs st p i" using assms(2-6) by (auto simp: serves_def)
  then have "planner_inv lib fs (st\<lparr>pn_sources := (pn_sources st)(p \<mapsto> i)\<rparr>)"
    using assms(1) by (auto simp: planner_inv_def serves_def)
  moreover have "fetch_ok lib (pn_fetches st ! i)" using assms(1,2) by (simp add: planner_inv_def list_all_length)
  ultimately have "planner_inv lib fs st1" unfolding st1_def
    by (rule_tac planner_inv_update) (use assms(2) in \<open>auto simp: fetch_ok_def\<close>)
  moreover have "extends st st1" using assms(2)
    by (auto simp: st1_def extends_def update_fetch_def nth_list_update)
  ultimately show ?thesis ..
qed

text \<open>Planning a list of fields, given that planning each one is right.\<close>

lemma plan_list_ok:
  assumes "fold_res g st sels = Inr st'" "planner_inv lib fs st" "scope_ok st scope"
    and "\<And>f st st'. f \<in> set sels \<Longrightarrow> g st f = Inr st' \<Longrightarrow> planner_inv lib fs st \<Longrightarrow> scope_ok st scope \<Longrightarrow>
      planner_inv lib fs st' \<and> extends st st'"
  shows "planner_inv lib fs st' \<and> extends st st'"
proof -
  have "planner_inv lib fs st' \<and> extends st st' \<and> scope_ok st' scope"
    by (rule fold_res_invariant [OF assms(1)])
      (use assms(2-4) in \<open>auto intro: extends_trans scope_ok_extends\<close>)
  then show ?thesis by blast
qed

lemma plan_field_ok:
  assumes "inputs_nul_free lib types bindings fs"
  shows "plan_field lib types bindings scope st f = Inr st' \<Longrightarrow> planner_inv lib fs st \<Longrightarrow> scope_ok st scope \<Longrightarrow>
    set (walk_field f) \<subseteq> set fs \<Longrightarrow> planner_inv lib fs st' \<and> extends st st'"
proof (induction f arbitrary: scope st st')
  case (OpField k name p sp vals def info sels)
  let ?field = "OpField k name p sp vals def info sels"
  let ?plan = "plan_field lib types bindings"
  have sub: "planner_inv lib fs st2 \<and> extends st1 st2"
    if "fold_res (?plan sc) st1 sels = Inr st2" "planner_inv lib fs st1" "scope_ok st1 sc" for sc st1 st2
  proof (rule plan_list_ok [OF that])
    fix f u v
    assume f: "f \<in> set sels" and "?plan sc u f = Inr v" "planner_inv lib fs u" "scope_ok u sc"
    moreover have "set (walk_field f) \<subseteq> set fs" using OpField.prems(4) f by auto
    ultimately show "planner_inv lib fs v \<and> extends u v" using OpField.IH [OF f] by blast
  qed
  have mem: "?field \<in> set fs" using OpField.prems(4) by simp
  show ?case
  proof (cases "name = ''__typename'' \<or> has_prefix name ''__''")
    case True
    then show ?thesis using OpField.prems by (auto simp: Let_def split: if_splits)
  next
    case ordinary: False
    show ?thesis
    proof (cases info)
      case None
      then show ?thesis using OpField.prems ordinary sub by (cases scope) (auto simp: Let_def split: if_splits)
    next
      case (Some src)
      show ?thesis
      proof (cases "is_list_type (fd_type def) \<or> sels = []")
        case False
        then show ?thesis using OpField.prems ordinary sub Some by (cases scope) (auto simp: Let_def)
      next
        case direct: True
        show ?thesis
        proof (cases scope)
          case sc: (Some sc)
          let ?req = "es_requested sc @ ''.'' @ relative_path (si_provider_field src) (es_declared sc)"
          have req: "\<forall>a \<in> set (ft_args (pn_fetches st ! es_fetch sc)). is_path_prefix ?req (pa_path a)"
            and len: "es_fetch sc < length (pn_fetches st)"
            using OpField.prems(3) is_path_prefix_extend by (auto simp: scope_ok_def sc)
          show ?thesis
          proof (cases "sels = []")
            case True
            then have "st' = update_fetch (es_fetch sc) (add_field ?req) st"
              using OpField.prems(1) ordinary Some sc by (simp add: Let_def)
            then show ?thesis using update_add_field [OF OpField.prems(2) len req] by simp
          next
            case False
            let ?sc = "Some \<lparr>es_fetch = es_fetch sc, es_declared = si_provider_field src, es_requested = ?req\<rparr>"
            have "fold_res (?plan ?sc) st sels = Inr st'"
              using OpField.prems(1) ordinary Some sc direct False by (simp add: Let_def)
            moreover have "scope_ok st ?sc" using req len by (simp add: scope_ok_def)
            ultimately show ?thesis using sub OpField.prems(2) by blast
          qed
        next
          case None
          obtain i st1 where st1: "fetch_for lib types bindings ?field src st = Inr (i, st1)"
            using OpField.prems(1) ordinary Some None direct by (auto simp: Let_def bind_res_Inr_iff)
          let ?st = "update_fetch i (\<lambda>f. f\<lparr>ft_consumer := ft_consumer f @ [?field]\<rparr>)
                       (st1\<lparr>pn_sources := (pn_sources st1)(p \<mapsto> i)\<rparr>)"
          have f1: "planner_inv lib fs st1" "extends st st1" "i < length (pn_fetches st1)"
            "\<forall>a \<in> set (ft_args (pn_fetches st1 ! i)). is_path_prefix (si_provider_field src) (pa_path a)"
            and schema: "ft_schema_id (pn_fetches st1 ! i) = si_schema_id src"
            using fetch_for_ok [OF st1 OpField.prems(2) assms mem] Some by auto
          have f2: "planner_inv lib fs ?st" "extends st1 ?st"
            using update_consumer [OF f1(1,3) mem, of p src] schema Some by simp_all
          have f3: "i < length (pn_fetches ?st)"
            "\<forall>a \<in> set (ft_args (pn_fetches ?st ! i)). is_path_prefix (si_provider_field src) (pa_path a)"
            using f1(3,4) by (simp_all add: update_fetch_def)
          have "planner_inv lib fs st' \<and> extends ?st st'"
          proof (cases "sels = []")
            case True
            then have "st' = update_fetch i (add_field (si_provider_field src)) ?st"
              using OpField.prems(1) ordinary Some None st1 by (simp add: Let_def)
            then show ?thesis using update_add_field [OF f2(1) f3] by simp
          next
            case False
            let ?sc = "Some \<lparr>es_fetch = i, es_declared = si_provider_field src, es_requested = si_provider_field src\<rparr>"
            have "fold_res (?plan ?sc) ?st sels = Inr st'"
              using OpField.prems(1) ordinary Some None st1 direct False by (simp add: Let_def)
            moreover have "scope_ok ?st ?sc" using f3 by (simp add: scope_ok_def)
            ultimately show ?thesis using sub f2(1) by blast
          qed
          then show ?thesis using f1(2) f2(2) extends_trans by blast
        qed
      qed
    qed
  qed
qed

section \<open>Sources\<close>

text \<open>The fields that a fetch serves directly: those outside every provider list that read one.\<close>

fun direct_fields :: "op_field \<Rightarrow> op_field list" where
  "direct_fields (OpField k name p sp vals def info sels) =
     (if name = ''__typename'' then []
      else if info \<noteq> None \<and> (is_list_type (fd_type def) \<or> sels = []) then [OpField k name p sp vals def info sels]
      else concat (map direct_fields sels))"

lemma direct_fields_walk: "set (direct_fields f) \<subseteq> set (walk_field f)"
  by (induction f rule: direct_fields.induct) auto

lemma fold_res_mono:
  assumes "fold_res g st xs = Inr st'" "\<And>u x v. x \<in> set xs \<Longrightarrow> g u x = Inr v \<Longrightarrow> M u \<subseteq> M v \<and> D x \<subseteq> M v"
  shows "M st \<subseteq> M st' \<and> (\<Union>x \<in> set xs. D x) \<subseteq> M st'"
  using assms
proof (induction xs arbitrary: st)
  case (Cons x xs)
  obtain u where u: "g st x = Inr u" "fold_res g u xs = Inr st'" using Cons.prems(1) by (auto simp: bind_res_Inr_iff)
  have "M u \<subseteq> M st' \<and> (\<Union>x \<in> set xs. D x) \<subseteq> M st'"
    by (rule Cons.IH [OF u(2)]) (use Cons.prems(2) in auto)
  moreover have "M st \<subseteq> M u \<and> D x \<subseteq> M u" by (rule Cons.prems(2) [OF _ u(1)]) simp
  ultimately show ?case by auto
qed simp

lemma dom_update_fetch [simp]: "pn_sources (update_fetch i g st) = pn_sources st"
  by (simp add: update_fetch_def)

lemma fetch_for_sources: "fetch_for lib types bindings f src st = Inr (i, st') \<Longrightarrow> pn_sources st' = pn_sources st"
  by (auto simp: fetch_for_def bind_res_Inr_iff Let_def split: option.splits)

lemma plan_field_sources:
  "plan_field lib types bindings scope st f = Inr st' \<Longrightarrow>
     dom (pn_sources st) \<subseteq> dom (pn_sources st') \<and>
     (if scope = None then of_path ` set (direct_fields f) else {}) \<subseteq> dom (pn_sources st')"
proof (induction f arbitrary: scope st st')
  case (OpField k name p sp vals def info sels)
  have sub: "dom (pn_sources st1) \<subseteq> dom (pn_sources st2) \<and>
      (\<Union>f \<in> set sels. if sc = None then of_path ` set (direct_fields f) else {}) \<subseteq> dom (pn_sources st2)"
    if "fold_res (plan_field lib types bindings sc) st1 sels = Inr st2" for sc st1 st2
    by (rule fold_res_mono [OF that]) (rule OpField.IH)
  show ?case
  proof (cases "name = ''__typename'' \<or> has_prefix name ''__''")
    case True
    then show ?thesis using OpField.prems by (auto simp: Let_def split: if_splits)
  next
    case ordinary: False
    show ?thesis
    proof (cases "info \<noteq> None \<and> (is_list_type (fd_type def) \<or> sels = [])")
      case False
      then have "fold_res (plan_field lib types bindings scope) st sels = Inr st'"
        using OpField.prems ordinary by (cases scope; cases info) (auto simp: Let_def split: if_splits)
      moreover have "of_path ` set (direct_fields (OpField k name p sp vals def info sels))
          = (\<Union>f \<in> set sels. of_path ` set (direct_fields f))"
        using ordinary False by auto
      ultimately show ?thesis using sub [of scope st st'] by (cases scope) auto
    next
      case True
      then obtain src where src: "info = Some src" by auto
      show ?thesis
      proof (cases scope)
        case (Some sc)
        then show ?thesis using OpField.prems ordinary True src sub by (auto simp: Let_def split: if_splits)
      next
        case None
        obtain i st1 where st1: "fetch_for lib types bindings (OpField k name p sp vals def info sels) src st = Inr (i, st1)"
          using OpField.prems ordinary None True src by (auto simp: Let_def bind_res_Inr_iff)
        let ?st = "update_fetch i (\<lambda>f. f\<lparr>ft_consumer := ft_consumer f @ [OpField k name p sp vals def info sels]\<rparr>)
                     (st1\<lparr>pn_sources := (pn_sources st1)(p \<mapsto> i)\<rparr>)"
        have "dom (pn_sources ?st) \<subseteq> dom (pn_sources st')"
        proof (cases "sels = []")
          case True
          then have "st' = update_fetch i (add_field (si_provider_field src)) ?st"
            using OpField.prems ordinary None src st1 by (simp add: Let_def)
          then show ?thesis by simp
        next
          case False
          then have "fold_res (plan_field lib types bindings
              (Some \<lparr>es_fetch = i, es_declared = si_provider_field src, es_requested = si_provider_field src\<rparr>)) ?st sels = Inr st'"
            using OpField.prems ordinary None True src st1 by (simp add: Let_def)
          from sub [OF this] show ?thesis by blast
        qed
        then show ?thesis using fetch_for_sources [OF st1] ordinary True None by auto
      qed
    qed
  qed
qed

section \<open>Printing\<close>

lemma foldl_print_argument_leaves:
  "\<forall>a \<in> set args. has_path root (dotted (pa_path a)) \<Longrightarrow>
     leaves (snd (snd (foldl print_argument (ds, vs, root) args))) = leaves root \<and>
     (\<forall>p. has_path root p \<longrightarrow> has_path (snd (snd (foldl print_argument (ds, vs, root) args))) p)"
proof (induction args arbitrary: ds vs root)
  case (Cons a args)
  define nm where "nm = variable_name (map fst ds) (pa_name a)"
  define f where "f = (\<lambda>n. SelNode (sn_name n) (sn_arguments n @ [(pa_name a, nm)]) (sn_children n))"
  have dec: "decorates f" by (simp add: decorates_def f_def)
  let ?root = "at_path (dotted (pa_path a)) f root"
  have step: "print_argument (ds, vs, root) a = (ds @ [(nm, pa_type a)], set_arg nm (pa_value a) vs, ?root)"
    by (simp add: print_argument_def f_def nm_def Let_def)
  have "\<forall>b \<in> set args. has_path ?root (dotted (pa_path b))" using Cons.prems has_path_at_path [OF dec] by auto
  then show ?case
    using Cons.IH [of ?root "ds @ [(nm, pa_type a)]" "set_arg nm (pa_value a) vs"] Cons.prems
      leaves_present [OF dec, of root "dotted (pa_path a)"] has_path_at_path [OF dec]
    by (simp add: step)
qed simp

definition leaf_paths :: "selection_node list \<Rightarrow> string list list" where
  "leaf_paths sels = concat (map (\<lambda>c. map ((#) (sn_name c)) (leaves c)) sels)"

lemma leaf_paths_children: "sn_children n \<noteq> [] \<Longrightarrow> leaf_paths (sn_children n) = leaves n"
  by (cases n) (simp add: leaf_paths_def)

lemma printed_root:
  assumes "fetch_ok lib f" "ft_fields f \<noteq> []"
  defines "root \<equiv> snd (snd (foldl print_argument ([], [], ft_root f) (ft_args f)))"
  shows "leaves root = leaves (ft_root f) \<and> (\<forall>q \<in> set (ft_fields f). has_path root (dotted q))"
proof -
  obtain q where q: "q \<in> set (ft_fields f)" using assms(2) by (cases "ft_fields f") auto
  have "has_path (ft_root f) (dotted (pa_path a))" if "a \<in> set (ft_args f)" for a
  proof -
    have "is_path_prefix q (pa_path a)" "has_path (ft_root f) (dotted q)"
      using assms(1) q that by (auto simp: fetch_ok_def)
    then show ?thesis using dotted_prefix has_path_prefix by metis
  qed
  then have "\<forall>a \<in> set (ft_args f). has_path (ft_root f) (dotted (pa_path a))" by blast
  from foldl_print_argument_leaves [OF this, of "[]" "[]"] show ?thesis
    using assms(1) by (auto simp: root_def fetch_ok_def)
qed

text \<open>The leaves of a printed fetch that reads something are among its fields.\<close>

lemma printed_leaves:
  assumes "fetch_ok lib f" "ft_fields f \<noteq> []"
  shows "set (leaf_paths (pd_selections (fst (print_fetch f)))) \<subseteq> dotted ` set (ft_fields f)"
proof -
  define root where "root = snd (snd (foldl print_argument ([], [], ft_root f) (ft_args f)))"
  have root: "leaves root = leaves (ft_root f)" "\<forall>q \<in> set (ft_fields f). has_path root (dotted q)"
    using printed_root [OF assms] by (simp_all add: root_def)
  have sel: "pd_selections (fst (print_fetch f)) = sn_children root"
    by (simp add: print_fetch_def root_def split: prod.splits)
  have sub: "set (leaves (ft_root f)) \<subseteq> dotted ` set (ft_fields f)" using assms by (simp add: fetch_ok_def)
  then have "[] \<notin> set (leaves root)" using root(1) by (metis (no_types, lifting) dotted_not_Nil image_iff subset_iff)
  then have "leaf_paths (sn_children root) = leaves root" using Nil_leaf leaf_paths_children by blast
  then show ?thesis using sub root(1) sel by simp
qed

lemma distinct_required: "distinct fs \<Longrightarrow> distinct (foldl (\<lambda>fields x. if x \<in> set fields then fields else fields @ [x]) fs xs)
    \<and> set (foldl (\<lambda>fields x. if x \<in> set fields then fields else fields @ [x]) fs xs) = set fs \<union> set xs"
  by (induction xs arbitrary: fs) auto

lemma required_fields_facts:
  "distinct (required_fields p) \<and>
   set (required_fields p) = (\<Union>f \<in> set (p_fetches p). (\<lambda>q. \<lparr>orf_field_name = q, orf_schema_id = ft_schema_id f\<rparr>) ` set (ft_fields f))"
  by (simp add: required_fields_def distinct_required)

section \<open>Variables\<close>

lemma fresh_from_fresh: "fresh_from used base i \<notin> set used"
  by (induction used base i rule: fresh_from.induct) (simp add: fresh_from.simps Let_def)

lemma variable_name_fresh: "variable_name used base \<notin> set used"
  by (simp add: variable_name_def fresh_from_fresh)

lemma map_of_set_arg: "map_of (set_arg k v m) j = (if j = k then Some v else map_of m j)"
  by (induction k v m rule: set_arg.induct) auto

lemma foldl_print_argument_variables:
  "distinct (map fst ds) \<Longrightarrow> list_all2 (\<lambda>d a. snd d = pa_type a \<and> map_of vs (fst d) = Some (pa_value a)) ds ready \<Longrightarrow>
   foldl print_argument (ds, vs, root) args = (ds', vs', root') \<Longrightarrow>
   distinct (map fst ds') \<and>
   list_all2 (\<lambda>d a. snd d = pa_type a \<and> map_of vs' (fst d) = Some (pa_value a)) ds' (ready @ args)"
proof (induction args arbitrary: ds vs root ready)
  case (Cons a args)
  define nm where "nm = variable_name (map fst ds) (pa_name a)"
  have nm: "nm \<notin> fst ` set ds" using variable_name_fresh [of "map fst ds" "pa_name a"] by (simp add: nm_def)
  let ?vs = "set_arg nm (pa_value a) vs"
  have "list_all2 (\<lambda>d a. snd d = pa_type a \<and> map_of ?vs (fst d) = Some (pa_value a)) ds ready"
    using Cons.prems(2) nm by (auto simp: list_all2_conv_all_nth map_of_set_arg)
  then have all: "list_all2 (\<lambda>d a. snd d = pa_type a \<and> map_of ?vs (fst d) = Some (pa_value a)) (ds @ [(nm, pa_type a)]) (ready @ [a])"
    by (simp add: list_all2_appendI map_of_set_arg)
  have "distinct (map fst (ds @ [(nm, pa_type a)]))" using Cons.prems(1) nm by simp
  then show ?case using Cons.IH [OF _ all] Cons.prems(3)
    by (simp add: print_argument_def nm_def Let_def)
qed simp

section \<open>The plan\<close>

lemma planner_inv_initial: "planner_inv lib fs \<lparr>pn_fetches = [], pn_by_key = Map.empty, pn_sources = Map.empty\<rparr>"
  by (simp add: planner_inv_def)

lemma plan_fields_ok:
  assumes "plan_fields lib types bindings None \<lparr>pn_fetches = [], pn_by_key = Map.empty, pn_sources = Map.empty\<rparr> fs = Inr st"
    and "inputs_nul_free lib types bindings (walk fs)"
  shows "planner_inv lib (walk fs) st"
proof -
  have "planner_inv lib (walk fs) st \<and>
      extends \<lparr>pn_fetches = [], pn_by_key = Map.empty, pn_sources = Map.empty\<rparr> st"
  proof (rule plan_list_ok [OF assms(1) [unfolded plan_fields_def] planner_inv_initial, of None])
    fix f u v
    assume "f \<in> set fs" "plan_field lib types bindings None u f = Inr v" "planner_inv lib (walk fs) u"
    moreover have "set (walk_field f) \<subseteq> set (walk fs)" using \<open>f \<in> set fs\<close> by (auto simp: walk_def)
    ultimately show "planner_inv lib (walk fs) v \<and> extends u v"
      using plan_field_ok [OF assms(2), of None u f v] by (simp add: scope_ok_def)
  qed (simp add: scope_ok_def)
  then show ?thesis ..
qed

lemma plan_fields_sources:
  assumes "plan_fields lib types bindings None st fs = Inr st'"
  shows "of_path ` (\<Union>f \<in> set fs. set (direct_fields f)) \<subseteq> dom (pn_sources st')"
  using fold_res_mono [of "plan_field lib types bindings None" st fs st' "\<lambda>st. dom (pn_sources st)"
      "\<lambda>f. of_path ` set (direct_fields f)"] plan_field_sources [of lib types bindings None] assms
  by (auto simp: plan_fields_def image_UN)

lemma build_plan_cases:
  assumes "build_plan lib op mappings types = Inr p"
  obtains st where "plan_fields lib types (bind_arguments op mappings) None
      \<lparr>pn_fetches = [], pn_by_key = Map.empty, pn_sources = Map.empty\<rparr> (op_fields op) = Inr st"
    "p = \<lparr>p_fetches = map (finish_fetch lib) (pn_fetches st), p_sources = pn_sources st\<rparr>"
  using assms by (auto simp: build_plan_def bind_res_Inr_iff)

lemma finish_fetch_simps [simp]:
  "ft_schema_id (finish_fetch lib f) = ft_schema_id f" "ft_fields (finish_fetch lib f) = ft_fields f"
  "ft_args (finish_fetch lib f) = ft_args f" "ft_consumer (finish_fetch lib f) = ft_consumer f"
  "ft_root (finish_fetch lib f) = ft_root f" "ft_key (finish_fetch lib f) = ft_key f"
  by (simp_all add: finish_fetch_def split: prod.splits)

lemma print_finish_fetch [simp]: "print_fetch (finish_fetch lib f) = print_fetch f"
  by (simp add: print_fetch_def)

lemma fetch_ok_finish [simp]: "fetch_ok lib (finish_fetch lib' f) \<longleftrightarrow> fetch_ok lib f"
  by (simp add: fetch_ok_def)

lemma build_plan_fetch_ok:
  assumes "build_plan lib op mappings types = Inr p"
    and "inputs_nul_free lib types (bind_arguments op mappings) (walk (op_fields op))"
  shows "list_all (fetch_ok lib) (p_fetches p)"
  using assms(1)
  by (rule build_plan_cases) (use plan_fields_ok [OF _ assms(2)] in \<open>auto simp: planner_inv_def list_all_iff\<close>)

end
