(* ===== verification/OE_Merge.thy ===== *)
theory OE_Merge
  imports OE_Plan
begin

text \<open>
  Merging provider responses into the consumer response
  (\<^verbatim>\<open>internal/oe/federator/merge.go\<close>).

  A Go \<^verbatim>\<open>any\<close> that holds decoded JSON is a \<^typ>\<open>json\<close>, \<^verbatim>\<open>nil\<close> being
  \<open>JNull\<close>. The methods of \<^verbatim>\<open>merger\<close> append to its errors, which are passed and
  returned. The results are a function of the fetch; a missing entry is Go's zero value, an
  empty response without an error.
\<close>

section \<open>Responses\<close>

text \<open>The text of an error is spelled out, or is the text of an error value.\<close>

datatype oe_message = Text string | OpErrorText op_error | PlanErrorText plan_error

record error_entry =
  ee_message :: oe_message
  ee_path :: "json list"
  ee_locations :: "(nat \<times> nat) list"
  ee_extensions :: json_map

record graphql_response =
  gr_data :: "json_map option"
  gr_errors :: "error_entry list"

text \<open>A provider's response as decoded: its errors are arbitrary JSON.\<close>

record provider_response =
  pr_data :: json_map
  pr_errors :: "json list"

record fetch_result =
  fr_response :: provider_response
  fr_err :: "string option"

definition zero_result :: fetch_result where
  "zero_result = \<lparr>fr_response = \<lparr>pr_data = [], pr_errors = []\<rparr>, fr_err = None\<rparr>"

type_synonym fetch_results = "nat \<rightharpoonup> fetch_result"

definition result_of :: "fetch_results \<Rightarrow> nat option \<Rightarrow> fetch_result" where
  "result_of results i =
     (case i of None \<Rightarrow> zero_result
      | Some i \<Rightarrow> (case results i of None \<Rightarrow> zero_result | Some r \<Rightarrow> r))"

definition CodeProviderError :: string where
  "CodeProviderError = ''PROVIDER_ERROR''"

section \<open>Reading provider data\<close>

function value_at_segments :: "json \<Rightarrow> string list \<Rightarrow> json" where
  "value_at_segments data [] = data"
| "value_at_segments (JObj m) (s # ss) = value_at_segments (obj_get m s) ss"
| "value_at_segments (JArr xs) (s # ss) = JArr (map (\<lambda>x. value_at_segments x (s # ss)) xs)"
| "value_at_segments JNull (s # ss) = JNull"
| "value_at_segments (JBool b) (s # ss) = JNull"
| "value_at_segments (JNum n) (s # ss) = JNull"
| "value_at_segments (JStr t) (s # ss) = JNull"
  by pat_completeness auto

termination
proof (relation "inv_image (less_than <*lex*> less_than) (\<lambda>(data, ss). (length ss, size data))")
  fix xs :: "json list" and s ss x
  assume "x \<in> set xs"
  then show "((x, s # ss), JArr xs, s # ss) \<in> inv_image (less_than <*lex*> less_than) (\<lambda>(data, ss). (length ss, size data))"
    by (induction xs) auto
qed auto

definition value_at :: "json \<Rightarrow> string \<Rightarrow> json" where
  "value_at data path = value_at_segments data (dotted path)"

text \<open>\<^verbatim>\<open>%T\<close> of a decoded value, and \<^verbatim>\<open>fmt.Sprint\<close> of it, a parameter.\<close>

fun go_type_name :: "json \<Rightarrow> string" where
  "go_type_name JNull = ''<nil>''"
| "go_type_name (JBool _) = ''bool''"
| "go_type_name (JNum _) = ''float64''"
| "go_type_name (JStr _) = ''string''"
| "go_type_name (JArr _) = ''[]interface {}''"
| "go_type_name (JObj _) = ''map[string]interface {}''"

section \<open>Completing values\<close>

definition field_error :: "string \<Rightarrow> string \<Rightarrow> json list \<Rightarrow> error_entry" where
  "field_error message code path =
     \<lparr>ee_message = Text message, ee_path = path, ee_locations = [],
      ee_extensions = (if code = '''' then [] else [(''code'', JStr code)])\<rparr>"

definition complete :: "op_field \<Rightarrow> string \<Rightarrow> json \<Rightarrow> bool \<Rightarrow> json list \<Rightarrow> error_entry list \<Rightarrow> (json \<times> bool) \<times> error_entry list" where
  "complete field parent_type value reported path errs =
     (if value \<noteq> JNull then ((value, False), errs)
      else if \<not> non_null (fd_type (of_definition field)) then ((JNull, False), errs)
      else ((JNull, True),
        if reported then errs
        else errs @ [field_error (''Cannot return null for non-nullable field '' @ parent_type @ ''.'' @ of_name field @ ''.'')
                       '''' path]))"

record item_scope =
  is_item :: json
  is_declared :: string

record merger =
  mg_fetches :: "fetch list"
  mg_sources :: "string list \<rightharpoonup> nat"
  mg_results :: fetch_results

definition fetch_schema :: "merger \<Rightarrow> nat option \<Rightarrow> string" where
  "fetch_schema m i = (case i of Some i \<Rightarrow> if i < length (mg_fetches m) then ft_schema_id (mg_fetches m ! i) else '''' | None \<Rightarrow> '''')"

text \<open>The loops over fields and over items, given how one is completed.\<close>

fun object_loop ::
  "(op_field \<Rightarrow> error_entry list \<Rightarrow> (json \<times> bool) \<times> error_entry list) \<Rightarrow> op_field list \<Rightarrow> json_map \<Rightarrow>
   error_entry list \<Rightarrow> json_map option \<times> error_entry list" where
  "object_loop g [] out errs = (Some out, errs)"
| "object_loop g (f # fs) out errs =
     (case g f errs of ((v, failed), errs') \<Rightarrow>
        if failed then (None, errs') else object_loop g fs (set_arg (of_key f) v out) errs')"

lemma object_loop_cong [fundef_cong]:
  "fs = fs' \<Longrightarrow> out = out' \<Longrightarrow> errs = errs' \<Longrightarrow> (\<And>f e. f \<in> set fs' \<Longrightarrow> g f e = g' f e) \<Longrightarrow>
     object_loop g fs out errs = object_loop g' fs' out' errs'"
  by (induction fs arbitrary: fs' out out' errs errs') (auto split: prod.splits)

text \<open>\<open>Inl\<close>: the loop returned early, the list being null with its error recorded.\<close>

fun items_loop ::
  "(nat \<Rightarrow> json \<Rightarrow> error_entry list \<Rightarrow> json_map option \<times> error_entry list) \<Rightarrow> bool \<Rightarrow> (nat \<Rightarrow> error_entry) \<Rightarrow>
   nat \<Rightarrow> json list \<Rightarrow> json list \<Rightarrow> error_entry list \<Rightarrow> json list option \<times> error_entry list" where
  "items_loop g elem_non_null null_error i [] out errs = (Some out, errs)"
| "items_loop g elem_non_null null_error i (item # items) out errs =
     (if item \<noteq> JNull
      then (case g i item errs of
          (Some obj, errs') \<Rightarrow> items_loop g elem_non_null null_error (Suc i) items (out @ [JObj obj]) errs'
        | (None, errs') \<Rightarrow>
            if elem_non_null then (None, errs')
            else items_loop g elem_non_null null_error (Suc i) items (out @ [JNull]) errs')
      else if elem_non_null then (None, errs @ [null_error i])
      else items_loop g elem_non_null null_error (Suc i) items (out @ [JNull]) errs)"

lemma items_loop_cong [fundef_cong]:
  "b = b' \<Longrightarrow> ne = ne' \<Longrightarrow> i = i' \<Longrightarrow> items = items' \<Longrightarrow> out = out' \<Longrightarrow> errs = errs' \<Longrightarrow>
   (\<And>j x e. g j x e = g' j x e) \<Longrightarrow>
     items_loop g b ne i items out errs = items_loop g' b' ne' i' items' out' errs'"
proof -
  assume "\<And>j x e. g j x e = g' j x e"
  then have "g = g'" by blast
  then show "b = b' \<Longrightarrow> ne = ne' \<Longrightarrow> i = i' \<Longrightarrow> items = items' \<Longrightarrow> out = out' \<Longrightarrow> errs = errs' \<Longrightarrow> ?thesis" by simp
qed

text \<open>The value a field's source has, or the schema whose provider failed.\<close>

definition field_source_value :: "merger \<Rightarrow> item_scope option \<Rightarrow> string list \<Rightarrow> source_info \<Rightarrow> string + json" where
  "field_source_value m scope p src =
     (case scope of
        Some sc \<Rightarrow> Inr (value_at (is_item sc) (relative_path (si_provider_field src) (is_declared sc)))
      | None \<Rightarrow>
          (let source = mg_sources m p; result = result_of (mg_results m) source in
           if fr_err result \<noteq> None then Inl (fetch_schema m source)
           else Inr (value_at (JObj (pr_data (fr_response result))) (si_provider_field src))))"

definition complete_object ::
  "op_field \<Rightarrow> string \<Rightarrow> json list \<Rightarrow> json_map option \<times> error_entry list \<Rightarrow> (json \<times> bool) \<times> error_entry list" where
  "complete_object field parent_type path r =
     (case r of
        (None, errs) \<Rightarrow> complete field parent_type JNull True path errs
      | (Some obj, errs) \<Rightarrow> complete field parent_type (JObj obj) False path errs)"

text \<open>\<^verbatim>\<open>list\<close>, given how the object of one item is completed.\<close>

definition null_item_error :: "string \<Rightarrow> string \<Rightarrow> json list \<Rightarrow> nat \<Rightarrow> error_entry" where
  "null_item_error parent_type name path i =
     field_error (''Cannot return null for non-nullable list item of '' @ parent_type @ ''.'' @ name @ ''.'')
       '''' (path @ [JNum (decimal i)])"

definition merge_list ::
  "(nat \<Rightarrow> json \<Rightarrow> error_entry list \<Rightarrow> json_map option \<times> error_entry list) \<Rightarrow> op_field \<Rightarrow> string \<Rightarrow> json \<Rightarrow>
   json list \<Rightarrow> error_entry list \<Rightarrow> (json \<times> bool) \<times> error_entry list" where
  "merge_list item_object field parent_type raw path errs =
     (case raw of
        JNull \<Rightarrow> complete field parent_type JNull False path errs
      | JArr items \<Rightarrow>
          (case items_loop item_object (non_null (the (type_elem (fd_type (of_definition field)))))
                  (null_item_error parent_type (of_name field) path) 0 items [] errs of
             (None, errs') \<Rightarrow> complete field parent_type JNull True path errs'
           | (Some out, errs') \<Rightarrow> complete field parent_type (JArr out) False path errs')
      | _ \<Rightarrow> complete field parent_type JNull True path
            (errs @ [field_error (''Expected a list from the provider, got '' @ go_type_name raw) CodeProviderError path]))"

lemma merge_list_cong [fundef_cong]:
  assumes "field = field'" "parent_type = parent_type'" "raw = raw'" "path = path'" "errs = errs'"
    and "\<And>i x e. g i x e = g' i x e"
  shows "merge_list g field parent_type raw path errs = merge_list g' field' parent_type' raw' path' errs'"
proof -
  have "g = g'" using assms(6) by blast
  then show ?thesis using assms(1-5) by simp
qed

text \<open>\<^verbatim>\<open>value\<close>; \<^verbatim>\<open>object\<close>, which it calls on sub-selections, is its loop.\<close>

fun merge_value ::
  "merger \<Rightarrow> string \<Rightarrow> item_scope option \<Rightarrow> json list \<Rightarrow> op_field \<Rightarrow> error_entry list \<Rightarrow>
   (json \<times> bool) \<times> error_entry list" where
  "merge_value m parent_type scope parent_path (OpField key name p sp vals def info sels) errs =
     (let field = OpField key name p sp vals def info sels; path = parent_path @ [JStr key];
          is_list = is_list_type (fd_type def) in
      if name = ''__typename'' then ((JStr parent_type, False), errs)
      else if info \<noteq> None \<and> (is_list \<or> sels = [])
      then
        (case field_source_value m scope p (the info) of
           Inl schema_id \<Rightarrow>
             complete field parent_type JNull True path
               (errs @ [field_error (''Failed to fetch data from provider for schema '' @ schema_id) CodeProviderError path])
         | Inr raw \<Rightarrow>
             if is_list \<and> sels \<noteq> []
             then merge_list
               (\<lambda>i item errs. object_loop
                  (\<lambda>f errs. merge_value m (type_name (the (type_elem (fd_type def))))
                     (Some \<lparr>is_item = item, is_declared = si_provider_field (the info)\<rparr>)
                     (path @ [JNum (decimal i)]) f errs) sels [] errs)
               field parent_type raw path errs
             else complete field parent_type raw False path errs)
      else if sels \<noteq> []
      then complete_object field parent_type path
        (object_loop (\<lambda>f errs. merge_value m (type_name (fd_type def)) scope path f errs) sels [] errs)
      else complete field parent_type JNull False path errs)"

declare merge_value.simps [simp del]

definition merge_object ::
  "merger \<Rightarrow> op_field list \<Rightarrow> string \<Rightarrow> item_scope option \<Rightarrow> json list \<Rightarrow> error_entry list \<Rightarrow>
   json_map option \<times> error_entry list" where
  "merge_object m fs type_nm scope path errs =
     object_loop (\<lambda>f errs. merge_value m type_nm scope path f errs) fs [] errs"

section \<open>Provider errors\<close>

fun leading_names :: "json list \<Rightarrow> string list" where
  "leading_names (JStr s # xs) = s # leading_names xs"
| "leading_names _ = []"

definition provider_error :: "(json \<Rightarrow> string) \<Rightarrow> json \<Rightarrow> string \<times> string list" where
  "provider_error sprint raw =
     (case raw of
        JObj m \<Rightarrow> (string_or_zero (obj_get m ''message''),
                   case obj_get m ''path'' of JArr xs \<Rightarrow> leading_names xs | _ \<Rightarrow> [])
      | _ \<Rightarrow> (sprint raw, []))"

definition paths_overlap :: "string list \<Rightarrow> string list \<Rightarrow> bool" where
  "paths_overlap a b =
     (if a = [] \<or> b = [] then False
      else let n = min (length a) (length b) in take n a = take n b)"

definition strings_to_any :: "string list \<Rightarrow> json list" where
  "strings_to_any path = map JStr path"

definition provider_field_of :: "op_field \<Rightarrow> string" where
  "provider_field_of f = (case of_source_info f of Some i \<Rightarrow> si_provider_field i | None \<Rightarrow> '''')"

definition passed_error :: "(json \<Rightarrow> string) \<Rightarrow> fetch \<Rightarrow> json \<Rightarrow> error_entry" where
  "passed_error sprint f raw =
     (case provider_error sprint raw of (message, provider_path) \<Rightarrow>
        field_error (''Provider for schema '' @ ft_schema_id f @ '': '' @ message) CodeProviderError
          (case find (\<lambda>field. paths_overlap provider_path (dotted (provider_field_of field))) (ft_consumer f) of
             None \<Rightarrow> [] | Some field \<Rightarrow> strings_to_any (of_path field)))"

definition provider_errors :: "(json \<Rightarrow> string) \<Rightarrow> merger \<Rightarrow> error_entry list" where
  "provider_errors sprint m =
     concat (map (\<lambda>(i, f). case mg_results m i of
         None \<Rightarrow> []
       | Some r \<Rightarrow> if fr_err r \<noteq> None then [] else map (passed_error sprint f) (pr_errors (fr_response r)))
       (enumerate 0 (mg_fetches m)))"

section \<open>The response\<close>

definition merge :: "(json \<Rightarrow> string) \<Rightarrow> operation \<Rightarrow> plan \<Rightarrow> fetch_results \<Rightarrow> graphql_response" where
  "merge sprint op p results =
     (let m = \<lparr>mg_fetches = p_fetches p, mg_sources = p_sources p, mg_results = results\<rparr> in
      case merge_object m (op_fields op) ''Query'' None [] [] of (data, errs) \<Rightarrow>
        \<lparr>gr_data = data, gr_errors = errs @ provider_errors sprint m\<rparr>)"

end
