(* ===== verification/OE_Merge_Facts.thy ===== *)
theory OE_Merge_Facts
  imports OE_Merge OE_Plan_Facts
begin

text \<open>
  Facts on merging: the merged object has the shape of the normalized operation
  (\<open>conforms\<close>), no null is returned in place of a non-null field, and a response
  without data reports an error.
\<close>

section \<open>The shape of a completed value\<close>

lemma list_all2_cong' [fundef_cong]:
  "xs = xs' \<Longrightarrow> ys = ys' \<Longrightarrow> (\<And>x y. x \<in> set xs' \<Longrightarrow> P x y = Q x y) \<Longrightarrow> list_all2 P xs ys = list_all2 Q xs' ys'"
  by (auto simp: list_all2_conv_all_nth)

text \<open>
  \<open>conforms field v\<close>: \<open>v\<close> is null only where the field is nullable, an object has
  one entry per selected field, in query order, and the items of a list of objects are
  completed the same way.
\<close>

fun conforms :: "op_field \<Rightarrow> json \<Rightarrow> bool" where
  "conforms (OpField key name p sp vals def info sels) v \<longleftrightarrow>
     (case v of
        JNull \<Rightarrow> \<not> non_null (fd_type def)
      | JArr items \<Rightarrow>
          name = ''__typename'' \<or> sels = [] \<or>
          (info \<noteq> None \<and> is_list_type (fd_type def) \<and>
           list_all (\<lambda>item. case item of
               JNull \<Rightarrow> \<not> non_null (the (type_elem (fd_type def)))
             | JObj obj \<Rightarrow> list_all2 (\<lambda>f kv. fst kv = of_key f \<and> conforms f (snd kv)) sels obj
             | _ \<Rightarrow> False) items)
      | JObj obj \<Rightarrow>
          name = ''__typename'' \<or> sels = [] \<or>
          (\<not> (info \<noteq> None \<and> is_list_type (fd_type def)) \<and>
           list_all2 (\<lambda>f kv. fst kv = of_key f \<and> conforms f (snd kv)) sels obj)
      | _ \<Rightarrow> name = ''__typename'' \<or> sels = [])"

abbreviation conforms_object :: "op_field list \<Rightarrow> json_map \<Rightarrow> bool" where
  "conforms_object sels obj \<equiv> list_all2 (\<lambda>f kv. fst kv = of_key f \<and> conforms f (snd kv)) sels obj"

declare conforms.simps [simp del]

lemma set_arg_new: "k \<notin> set (map fst m) \<Longrightarrow> set_arg k v m = m @ [(k, v)]"
  by (induction k v m rule: set_arg.induct) auto

lemma object_loop_shape:
  assumes "object_loop g fs out errs = (Some obj, errs')"
    and "distinct (map fst out @ map of_key fs)"
    and "\<And>f errs v errs'. f \<in> set fs \<Longrightarrow> g f errs = ((v, False), errs') \<Longrightarrow> P f v"
  shows "\<exists>obj'. obj = out @ obj' \<and> list_all2 (\<lambda>f kv. fst kv = of_key f \<and> P f (snd kv)) fs obj'"
  using assms
proof (induction fs arbitrary: out errs)
  case (Cons f fs)
  obtain v errs1 where g: "g f errs = ((v, False), errs1)"
    and rest: "object_loop g fs (set_arg (of_key f) v out) errs1 = (Some obj, errs')"
    using Cons.prems(1) by (auto split: prod.splits if_splits)
  have new: "set_arg (of_key f) v out = out @ [(of_key f, v)]"
    using Cons.prems(2) by (intro set_arg_new) auto
  have "\<exists>obj'. obj = (out @ [(of_key f, v)]) @ obj' \<and> list_all2 (\<lambda>f kv. fst kv = of_key f \<and> P f (snd kv)) fs obj'"
    by (rule Cons.IH [OF rest [unfolded new]]) (use Cons.prems(2,3) in auto)
  then obtain obj' where "obj = (out @ [(of_key f, v)]) @ obj'" "list_all2 (\<lambda>f kv. fst kv = of_key f \<and> P f (snd kv)) fs obj'"
    by blast
  then show ?case using Cons.prems(3) [OF _ g] by (intro exI [of _ "(of_key f, v) # obj'"]) simp
qed simp

lemma items_loop_shape:
  assumes "items_loop g b ne i items out errs = (Some xs, errs')"
    and "\<And>i x errs obj errs'. g i x errs = (Some obj, errs') \<Longrightarrow> P obj"
  shows "\<exists>ys. xs = out @ ys \<and> list_all (\<lambda>y. case y of JNull \<Rightarrow> \<not> b | JObj obj \<Rightarrow> P obj | _ \<Rightarrow> False) ys
    \<and> length ys = length items"
  using assms(1)
proof (induction items arbitrary: i out errs)
  case (Cons item items)
  have step: ?case if loop: "items_loop g b ne (Suc i) items (out @ [y]) errs1 = (Some xs, errs')"
    and y: "(case y of JNull \<Rightarrow> \<not> b | JObj obj \<Rightarrow> P obj | _ \<Rightarrow> False)" for y errs1
  proof -
    obtain ys where "xs = (out @ [y]) @ ys \<and> list_all (\<lambda>y. case y of JNull \<Rightarrow> \<not> b | JObj obj \<Rightarrow> P obj | _ \<Rightarrow> False) ys
        \<and> length ys = length items"
      using Cons.IH [OF loop] by blast
    with y show ?thesis by (intro exI [of _ "y # ys"]) simp
  qed
  show ?case
  proof (cases "item = JNull")
    case True
    then show ?thesis using Cons.prems step [of JNull errs] by (auto split: if_splits)
  next
    case False
    show ?thesis
    proof (cases "g i item errs")
      case (Pair r errs1)
      show ?thesis
      proof (cases r)
        case None
        then show ?thesis using Cons.prems Pair False step [of JNull errs1] by (auto split: if_splits)
      next
        case (Some obj)
        then show ?thesis using Cons.prems Pair False step [of "JObj obj" errs1] assms(2) by simp
      qed
    qed
  qed
qed simp

text \<open>Completing a value never makes one up, and records an error unless one was.\<close>

lemma complete_cases:
  assumes "complete field ty v rep path errs = ((w, failed), errs')"
  shows "w = v \<and> (failed \<longleftrightarrow> v = JNull \<and> non_null (fd_type (of_definition field))) \<and>
    (\<exists>extra. errs' = errs @ extra \<and> (failed \<and> \<not> rep \<longrightarrow> extra \<noteq> []))"
  using assms by (auto simp: complete_def split: if_splits)

lemma complete_conforms:
  assumes "complete field ty v rep path errs = ((w, False), errs')" "v \<noteq> JNull \<Longrightarrow> conforms field v"
  shows "conforms field w"
  using assms(2) complete_cases [OF assms(1)] by (cases field; cases "v = JNull") (auto simp: conforms.simps)

lemma conforms_leaf: "v \<noteq> JNull \<Longrightarrow> conforms (OpField k n p sp vals def info []) v"
  by (auto simp: conforms.simps split: json.splits)

lemma complete_object_conforms:
  assumes "complete_object (OpField k n p sp vals def info sels) ty path r = ((w, False), errs')"
    and "\<And>obj. fst r = Some obj \<Longrightarrow> conforms_object sels obj"
    and "\<not> (info \<noteq> None \<and> is_list_type (fd_type def))"
  shows "conforms (OpField k n p sp vals def info sels) w"
proof (cases "fst r")
  case None
  then have "complete (OpField k n p sp vals def info sels) ty JNull True path (snd r) = ((w, False), errs')"
    using assms(1) by (cases r) (simp add: complete_object_def)
  then show ?thesis by (rule complete_conforms) simp
next
  case (Some obj)
  then have "complete (OpField k n p sp vals def info sels) ty (JObj obj) False path (snd r) = ((w, False), errs')"
    using assms(1) by (cases r) (simp add: complete_object_def)
  then show ?thesis by (rule complete_conforms) (use assms(2) [OF Some] assms(3) in \<open>simp add: conforms.simps\<close>)
qed

lemma merge_list_conforms:
  assumes "merge_list g (OpField k n p sp vals def info sels) ty raw path errs = ((w, False), errs')"
    and "\<And>i x errs obj errs'. g i x errs = (Some obj, errs') \<Longrightarrow> conforms_object sels obj"
    and "info \<noteq> None" "is_list_type (fd_type def)"
  shows "conforms (OpField k n p sp vals def info sels) w"
proof (cases raw)
  case (JArr items)
  define r where "r = items_loop g (non_null (the (type_elem (fd_type def)))) (null_item_error ty n path) 0 items [] errs"
  show ?thesis
  proof (cases "fst r")
    case None
    then have "complete (OpField k n p sp vals def info sels) ty JNull True path (snd r) = ((w, False), errs')"
      using assms(1) by (cases r) (simp add: JArr merge_list_def r_def)
    then show ?thesis by (rule complete_conforms) simp
  next
    case (Some out)
    then have r: "r = (Some out, snd r)" by (cases r) simp
    then have c: "complete (OpField k n p sp vals def info sels) ty (JArr out) False path (snd r) = ((w, False), errs')"
      using assms(1) by (cases r) (simp add: JArr merge_list_def r_def)
    have "\<exists>ys. out = [] @ ys \<and> list_all (\<lambda>y. case y of JNull \<Rightarrow> \<not> non_null (the (type_elem (fd_type def)))
        | JObj obj \<Rightarrow> conforms_object sels obj | _ \<Rightarrow> False) ys \<and> length ys = length items"
      by (rule items_loop_shape [OF trans [OF r_def [symmetric] r]]) (rule assms(2))
    then show ?thesis using assms(3,4) by (intro complete_conforms [OF c]) (auto simp: conforms.simps)
  qed
qed (use assms(1) in \<open>auto simp: merge_list_def dest: complete_conforms\<close>)

lemma merge_value_conforms:
  "merge_value m ty scope path f errs = ((v, False), errs') \<Longrightarrow> wf_field pre f \<Longrightarrow> conforms f v"
proof (induction f arbitrary: ty scope path errs v errs' pre)
  case (OpField key name p sp vals def info sels)
  let ?f = "OpField key name p sp vals def info sels"
  have wf: "wf_field p s" if "s \<in> set sels" for s
    using OpField.prems(2) that by (auto simp: list_all_iff)
  have d: "distinct (map of_key sels)" using OpField.prems(2) by simp
  have obj: "conforms_object sels obj"
    if "object_loop (\<lambda>f errs. merge_value m ty' scope' path' f errs) sels [] errs0 = (Some obj, errs1)"
    for ty' scope' path' errs0 obj errs1
  proof -
    have "\<exists>obj'. obj = [] @ obj' \<and> conforms_object sels obj'"
    proof (rule object_loop_shape [OF that])
      show "conforms f v" if "f \<in> set sels" "merge_value m ty' scope' path' f errs = ((v, False), errs')" for f errs v errs'
        by (rule OpField.IH [OF that wf [OF that(1)]])
    qed (use d in simp)
    then show ?thesis by simp
  qed
  consider (tn) "name = ''__typename''" | (direct) "name \<noteq> ''__typename''" "info \<noteq> None" "is_list_type (fd_type def) \<or> sels = []"
    | (object) "name \<noteq> ''__typename''" "\<not> (info \<noteq> None \<and> (is_list_type (fd_type def) \<or> sels = []))" by blast
  then show ?case
  proof cases
    case tn
    then show ?thesis using OpField.prems by (auto simp: conforms.simps merge_value.simps)
  next
    case direct
    show ?thesis
    proof (cases "field_source_value m scope p (the info)")
      case (Inl e)
      then show ?thesis using OpField.prems(1) direct
        by (auto simp: merge_value.simps Let_def intro: complete_conforms)
    next
      case (Inr raw)
      show ?thesis
      proof (cases "sels = []")
        case True
        then show ?thesis using OpField.prems(1) direct Inr conforms_leaf
          by (auto simp: merge_value.simps Let_def intro: complete_conforms)
      next
        case False
        then show ?thesis using OpField.prems(1) direct Inr
          by (auto simp: merge_value.simps Let_def intro!: merge_list_conforms obj)
      qed
    qed
  next
    case object
    show ?thesis
    proof (cases "sels = []")
      case True
      then show ?thesis using OpField.prems(1) object by (auto simp: merge_value.simps Let_def intro: complete_conforms)
    next
      case False
      then have "complete_object ?f ty (path @ [JStr key])
          (object_loop (\<lambda>f errs. merge_value m (type_name (fd_type def)) scope (path @ [JStr key]) f errs) sels [] errs)
          = ((v, False), errs')"
        using OpField.prems(1) object by (auto simp: merge_value.simps Let_def)
      then show ?thesis
        by (rule complete_object_conforms) (use object False obj in \<open>auto simp: prod_eq_iff\<close>)
    qed
  qed
qed

section \<open>Errors\<close>

text \<open>Completing only appends errors, and a null that propagates has an error.\<close>

definition reports :: "error_entry list \<Rightarrow> bool \<Rightarrow> error_entry list \<Rightarrow> bool" where
  "reports errs failed errs' \<longleftrightarrow> (\<exists>extra. errs' = errs @ extra \<and> (failed \<longrightarrow> extra \<noteq> []))"

lemma reports_trans: "reports a f b \<Longrightarrow> reports b f' c \<Longrightarrow> reports a (f \<or> f') c"
  by (auto simp: reports_def)

lemma reports_weaken: "reports a f b \<Longrightarrow> (f' \<Longrightarrow> f) \<Longrightarrow> reports a f' b"
  by (auto simp: reports_def)

lemma reports_refl: "reports a False a"
  by (simp add: reports_def)

lemma reports_append: "e \<noteq> [] \<Longrightarrow> reports a True (a @ e)"
  by (simp add: reports_def)

lemma complete_reports:
  assumes "complete field ty v rep path errs1 = ((w, failed), errs')" "reports errs rep errs1"
  shows "reports errs failed errs'"
proof -
  have "reports errs1 (failed \<and> \<not> rep) errs'" using complete_cases [OF assms(1)] by (auto simp: reports_def)
  from reports_trans [OF assms(2) this] show ?thesis by (rule reports_weaken) simp
qed

lemma object_loop_reports:
  assumes "object_loop g fs out errs = (r, errs')"
    and "\<And>f errs v failed errs'. f \<in> set fs \<Longrightarrow> g f errs = ((v, failed), errs') \<Longrightarrow> reports errs failed errs'"
  shows "reports errs (r = None) errs'"
  using assms
proof (induction fs arbitrary: out errs)
  case (Cons f fs)
  obtain v failed errs1 where g: "g f errs = ((v, failed), errs1)" by (metis surj_pair)
  have h: "reports errs failed errs1" by (rule Cons.prems(2) [OF _ g]) simp
  show ?case
  proof (cases failed)
    case True
    then show ?thesis using Cons.prems(1) g h by simp
  next
    case False
    then have rest: "object_loop g fs (set_arg (of_key f) v out) errs1 = (r, errs')" using Cons.prems(1) g by simp
    have "reports errs1 (r = None) errs'" by (rule Cons.IH [OF rest]) (rule Cons.prems(2), auto)
    from reports_trans [OF h this] show ?thesis by (rule reports_weaken) simp
  qed
qed (auto simp: reports_def)

lemma items_loop_reports:
  assumes "items_loop g b ne i items out errs = (r, errs')"
    and "\<And>i x errs r errs'. g i x errs = (r, errs') \<Longrightarrow> reports errs (r = None) errs'"
  shows "reports errs (r = None) errs'"
  using assms(1)
proof (induction items arbitrary: i out errs)
  case (Cons item items)
  have step: ?case if h: "reports errs f errs1" and rest: "items_loop g b ne (Suc i) items (out @ [y]) errs1 = (r, errs')"
    for f errs1 y
    using reports_trans [OF h Cons.IH [OF rest]] by (rule reports_weaken) simp
  show ?case
  proof (cases "item = JNull")
    case True
    then show ?thesis using Cons.prems step [OF reports_refl, of JNull] reports_append [of "[ne i]" errs]
      by (cases b) (auto)
  next
    case False
    obtain x errs1 where g: "g i item errs = (x, errs1)" by (metis surj_pair)
    show ?thesis
    proof (cases "x = None \<and> b")
      case True
      then show ?thesis using Cons.prems g False assms(2) [OF g] by auto
    next
      case go: False
      then have "items_loop g b ne (Suc i) items (out @ [case x of None \<Rightarrow> JNull | Some ob \<Rightarrow> JObj ob]) errs1 = (r, errs')"
        using Cons.prems g False by (cases x) auto
      then show ?thesis by (rule step [OF assms(2) [OF g]])
    qed
  qed
qed (auto simp: reports_def)

lemma complete_object_reports:
  assumes "complete_object field ty path (r, errs1) = ((w, failed), errs')" "reports errs (r = None) errs1"
  shows "reports errs failed errs'"
proof (cases r)
  case None
  then have "complete field ty JNull True path errs1 = ((w, failed), errs')" using assms(1) by (simp add: complete_object_def)
  then show ?thesis by (rule complete_reports) (use assms(2) None in simp)
next
  case (Some ob)
  then have "complete field ty (JObj ob) False path errs1 = ((w, failed), errs')" using assms(1) by (simp add: complete_object_def)
  then show ?thesis by (rule complete_reports) (use assms(2) Some in simp)
qed

lemma merge_list_reports:
  assumes "merge_list g field ty raw path errs = ((w, failed), errs')"
    and "\<And>i x errs r errs'. g i x errs = (r, errs') \<Longrightarrow> reports errs (r = None) errs'"
  shows "reports errs failed errs'"
proof -
  have wrong: "complete field ty JNull True path (errs @ [e]) = ((w, failed), errs') \<Longrightarrow> ?thesis" for e
    by (rule complete_reports) (auto intro: reports_append)
  show ?thesis
  proof (cases raw)
    case JNull
    then have "complete field ty JNull False path errs = ((w, failed), errs')" using assms(1) by (simp add: merge_list_def)
    then show ?thesis by (rule complete_reports) (rule reports_refl)
  next
    case (JArr items)
    obtain r errs1 where r: "items_loop g (non_null (the (type_elem (fd_type (of_definition field)))))
        (null_item_error ty (of_name field) path) 0 items [] errs = (r, errs1)" by (metis surj_pair)
    have h: "reports errs (r = None) errs1" using items_loop_reports [OF r] assms(2) by blast
    show ?thesis
    proof (cases r)
      case None
      then have "complete field ty JNull True path errs1 = ((w, failed), errs')"
        using assms(1) r by (simp add: merge_list_def JArr)
      then show ?thesis by (rule complete_reports) (use h None in simp)
    next
      case (Some out)
      then have "complete field ty (JArr out) False path errs1 = ((w, failed), errs')"
        using assms(1) r by (simp add: merge_list_def JArr)
      then show ?thesis by (rule complete_reports) (use h Some in simp)
    qed
  qed (use assms(1) wrong in \<open>auto simp: merge_list_def\<close>)
qed

lemma merge_value_reports:
  "merge_value m ty scope path f errs = ((v, failed), errs') \<Longrightarrow> reports errs failed errs'"
proof (induction f arbitrary: ty scope path errs v failed errs')
  case (OpField key name p sp vals def info sels)
  let ?f = "OpField key name p sp vals def info sels"
  let ?path = "path @ [JStr key]"
  have obj: "reports errs0 (r = None) errs1"
    if "object_loop (\<lambda>f errs. merge_value m ty' scope' path' f errs) sels [] errs0 = (r, errs1)"
    for ty' scope' path' errs0 r errs1
    by (rule object_loop_reports [OF that]) (rule OpField.IH)
  consider (tn) "name = ''__typename''" | (direct) "name \<noteq> ''__typename''" "info \<noteq> None" "is_list_type (fd_type def) \<or> sels = []"
    | (object) "name \<noteq> ''__typename''" "\<not> (info \<noteq> None \<and> (is_list_type (fd_type def) \<or> sels = []))" by blast
  then show ?case
  proof cases
    case tn
    then show ?thesis using OpField.prems by (auto simp: merge_value.simps reports_def)
  next
    case direct
    show ?thesis
    proof (cases "field_source_value m scope p (the info)")
      case (Inl e)
      then have "complete ?f ty JNull True ?path
          (errs @ [field_error (''Failed to fetch data from provider for schema '' @ e) CodeProviderError ?path]) = ((v, failed), errs')"
        using OpField.prems direct by (simp add: merge_value.simps Let_def)
      then show ?thesis by (rule complete_reports) (simp add: reports_append)
    next
      case (Inr raw)
      show ?thesis
      proof (cases "sels = []")
        case True
        then have "complete ?f ty raw False ?path errs = ((v, failed), errs')"
          using OpField.prems direct Inr by (simp add: merge_value.simps Let_def)
        then show ?thesis by (rule complete_reports) (rule reports_refl)
      next
        case False
        then have "merge_list (\<lambda>i item errs. object_loop
            (\<lambda>f errs. merge_value m (type_name (the (type_elem (fd_type def))))
              (Some \<lparr>is_item = item, is_declared = si_provider_field (the info)\<rparr>)
              (?path @ [JNum (decimal i)]) f errs) sels [] errs) ?f ty raw ?path errs = ((v, failed), errs')"
          using OpField.prems direct Inr by (simp add: merge_value.simps Let_def)
        then show ?thesis by (rule merge_list_reports) (rule obj)
      qed
    qed
  next
    case object
    show ?thesis
    proof (cases "sels = []")
      case True
      then have "complete ?f ty JNull False ?path errs = ((v, failed), errs')"
        using OpField.prems object by (auto simp: merge_value.simps Let_def)
      then show ?thesis by (rule complete_reports) (rule reports_refl)
    next
      case False
      obtain r errs1 where r: "object_loop (\<lambda>f errs. merge_value m (type_name (fd_type def)) scope ?path f errs) sels [] errs = (r, errs1)"
        by (metis surj_pair)
      then have "complete_object ?f ty ?path (r, errs1) = ((v, failed), errs')"
        using OpField.prems object False by (auto simp: merge_value.simps Let_def)
      then show ?thesis by (rule complete_object_reports) (rule obj [OF r])
    qed
  qed
qed

lemma merge_object_facts:
  assumes "merge_object m fs ty scope path errs = (r, errs')"
  shows "reports errs (r = None) errs'"
    and "wf_fields pre fs \<Longrightarrow> r = Some ob \<Longrightarrow> conforms_object fs ob"
proof -
  show "reports errs (r = None) errs'"
    by (rule object_loop_reports [OF assms [unfolded merge_object_def]]) (rule merge_value_reports)
  assume wf: "wf_fields pre fs" and r: "r = Some ob"
  have "\<exists>obj'. ob = [] @ obj' \<and> conforms_object fs obj'"
  proof (rule object_loop_shape [OF assms [unfolded merge_object_def r]])
    show "conforms f v" if "f \<in> set fs" "merge_value m ty scope path f errs = ((v, False), errs')" for f errs v errs'
      by (rule merge_value_conforms [OF that(2), of pre]) (use wf that(1) in \<open>auto simp: wf_fields_def list_all_iff\<close>)
  qed (use wf in \<open>simp add: wf_fields_def\<close>)
  then show "conforms_object fs ob" by simp
qed

end
