(* ===== verification/OE_Execute.thy ===== *)
theory OE_Execute
  imports OE_Merge "HOL-Library.Multiset"
begin

text \<open>
  Running the fetches of a plan concurrently (\<^verbatim>\<open>internal/oe/federator/execute.go\<close>).

  \<open>exec_step\<close> is the code: the loop that starts a goroutine per fetch, and the steps of
  the goroutines, in any order. A write to the shared results map takes two steps, begin and
  end, so that two writes can overlap; a goroutine writes under the mutex, the loop writes the
  result of a fetch without a provider without it. The answer of a provider is a function of
  the request. \<open>execute\<close> is the outcome that every finished run has.
\<close>

section \<open>One fetch\<close>

text \<open>\<^verbatim>\<open>graphql.Request\<close>.\<close>

record graphql_request =
  rq_query :: string
  rq_variables :: json_map
  rq_operation_name :: string

type_synonym provider_client = "graphql_request \<Rightarrow> string + provider_response"

text \<open>\<^verbatim>\<open>ProviderRegistry\<close>.\<close>

type_synonym providers = "string \<rightharpoonup> provider_client"

definition fetch_request :: "fetch \<Rightarrow> graphql_request" where
  "fetch_request ft = \<lparr>rq_query = ft_query ft, rq_variables = ft_variables ft, rq_operation_name = ''''\<rparr>"

definition failed_fetch :: "string \<Rightarrow> fetch_result" where
  "failed_fetch e = \<lparr>fr_response = \<lparr>pr_data = [], pr_errors = []\<rparr>, fr_err = Some e\<rparr>"

definition fetch_outcome :: "providers \<Rightarrow> fetch \<Rightarrow> fetch_result" where
  "fetch_outcome provs ft =
     (case provs (ft_schema_id ft) of
        None \<Rightarrow> failed_fetch (''no provider is configured for schema '' @ ft_schema_id ft)
      | Some client \<Rightarrow>
          (case client (fetch_request ft) of
             Inl e \<Rightarrow> failed_fetch e
           | Inr resp \<Rightarrow> \<lparr>fr_response = resp, fr_err = None\<rparr>))"

section \<open>The goroutines\<close>

datatype worker = Calling | Returned fetch_result | Audited fetch_result | Writing fetch_result | Finished

record exec_state =
  ex_next :: nat  \<comment> \<open>the fetch the loop looks at\<close>
  ex_loop_writes :: bool  \<comment> \<open>the loop is inside its write to the results\<close>
  ex_workers :: "nat \<rightharpoonup> worker"
  ex_lock :: "nat option"
  ex_results :: fetch_results
  ex_calls :: "nat list"  \<comment> \<open>the fetches sent, in order\<close>
  ex_audits :: "nat list"  \<comment> \<open>the fetches audited, in order\<close>

definition exec_start :: exec_state where
  "exec_start = \<lparr>ex_next = 0, ex_loop_writes = False, ex_workers = Map.empty, ex_lock = None,
     ex_results = Map.empty, ex_calls = [], ex_audits = []\<rparr>"

abbreviation has_provider :: "providers \<Rightarrow> fetch list \<Rightarrow> nat \<Rightarrow> bool" where
  "has_provider provs fts i \<equiv> provs (ft_schema_id (fts ! i)) \<noteq> None"

inductive exec_step :: "providers \<Rightarrow> fetch list \<Rightarrow> exec_state \<Rightarrow> exec_state \<Rightarrow> bool" for provs fts where
  missing_begin: "ex_next s < length fts \<Longrightarrow> \<not> has_provider provs fts (ex_next s) \<Longrightarrow> \<not> ex_loop_writes s \<Longrightarrow>
    exec_step provs fts s (s\<lparr>ex_loop_writes := True\<rparr>)"
| missing_end: "ex_loop_writes s \<Longrightarrow>
    exec_step provs fts s
      (s\<lparr>ex_loop_writes := False, ex_next := Suc (ex_next s),
         ex_results := (ex_results s)(ex_next s \<mapsto> fetch_outcome provs (fts ! ex_next s))\<rparr>)"
| spawn: "ex_next s < length fts \<Longrightarrow> has_provider provs fts (ex_next s) \<Longrightarrow> \<not> ex_loop_writes s \<Longrightarrow>
    exec_step provs fts s
      (s\<lparr>ex_next := Suc (ex_next s), ex_workers := (ex_workers s)(ex_next s \<mapsto> Calling)\<rparr>)"
| call: "ex_workers s i = Some Calling \<Longrightarrow>
    exec_step provs fts s
      (s\<lparr>ex_workers := (ex_workers s)(i \<mapsto> Returned (fetch_outcome provs (fts ! i))), ex_calls := ex_calls s @ [i]\<rparr>)"
| audit: "ex_workers s i = Some (Returned r) \<Longrightarrow>
    exec_step provs fts s (s\<lparr>ex_workers := (ex_workers s)(i \<mapsto> Audited r), ex_audits := ex_audits s @ [i]\<rparr>)"
| lock: "ex_workers s i = Some (Audited r) \<Longrightarrow> ex_lock s = None \<Longrightarrow>
    exec_step provs fts s (s\<lparr>ex_workers := (ex_workers s)(i \<mapsto> Writing r), ex_lock := Some i\<rparr>)"
| unlock: "ex_workers s i = Some (Writing r) \<Longrightarrow>
    exec_step provs fts s
      (s\<lparr>ex_workers := (ex_workers s)(i \<mapsto> Finished), ex_lock := None, ex_results := (ex_results s)(i \<mapsto> r)\<rparr>)"

inductive exec_reachable :: "providers \<Rightarrow> fetch list \<Rightarrow> exec_state \<Rightarrow> bool" for provs fts where
  exec_init: "exec_reachable provs fts exec_start"
| exec_next: "exec_reachable provs fts s \<Longrightarrow> exec_step provs fts s s' \<Longrightarrow> exec_reachable provs fts s'"

text \<open>\<^verbatim>\<open>wg.Wait()\<close> returns: the loop is done and so is every goroutine.\<close>

definition exec_done :: "fetch list \<Rightarrow> exec_state \<Rightarrow> bool" where
  "exec_done fts s \<longleftrightarrow> ex_next s = length fts \<and> \<not> ex_loop_writes s \<and>
     (\<forall>i < length fts. ex_workers s i = None \<or> ex_workers s i = Some Finished)"

text \<open>Two writes to the results map at once.\<close>

definition writes_overlap :: "exec_state \<Rightarrow> bool" where
  "writes_overlap s \<longleftrightarrow>
     (\<exists>i r. ex_workers s i = Some (Writing r) \<and>
        (ex_loop_writes s \<or> (\<exists>j q. j \<noteq> i \<and> ex_workers s j = Some (Writing q))))"

section \<open>The outcome\<close>

definition execute :: "providers \<Rightarrow> fetch list \<Rightarrow> fetch_results" where
  "execute provs fts i = (if i < length fts then Some (fetch_outcome provs (fts ! i)) else None)"

definition provider_calls :: "providers \<Rightarrow> fetch list \<Rightarrow> nat list" where
  "provider_calls provs fts = filter (has_provider provs fts) [0..<length fts]"

section \<open>Invariant\<close>

fun worker_ok :: "fetch_result \<Rightarrow> worker \<Rightarrow> bool" where
  "worker_ok r Calling = True"
| "worker_ok r (Returned q) = (q = r)"
| "worker_ok r (Audited q) = (q = r)"
| "worker_ok r (Writing q) = (q = r)"
| "worker_ok r Finished = True"

fun is_writing :: "worker option \<Rightarrow> bool" where
  "is_writing (Some (Writing _)) = True"
| "is_writing _ = False"

definition exec_inv :: "providers \<Rightarrow> fetch list \<Rightarrow> exec_state \<Rightarrow> bool" where
  "exec_inv provs fts s \<longleftrightarrow>
     ex_next s \<le> length fts \<and>
     (ex_loop_writes s \<longrightarrow> ex_next s < length fts \<and> \<not> has_provider provs fts (ex_next s)) \<and>
     (\<forall>i. ex_workers s i \<noteq> None \<longleftrightarrow> i < ex_next s \<and> has_provider provs fts i) \<and>
     (\<forall>i w. ex_workers s i = Some w \<longrightarrow> worker_ok (fetch_outcome provs (fts ! i)) w) \<and>
     (\<forall>i. ex_results s i =
        (if i < ex_next s \<and> (has_provider provs fts i \<longrightarrow> ex_workers s i = Some Finished)
         then Some (fetch_outcome provs (fts ! i)) else None)) \<and>
     (\<forall>i. is_writing (ex_workers s i) \<longleftrightarrow> ex_lock s = Some i) \<and>
     distinct (ex_calls s) \<and>
     (\<forall>i. i \<in> set (ex_calls s) \<longleftrightarrow> ex_workers s i \<noteq> None \<and> ex_workers s i \<noteq> Some Calling)"

lemma exec_inv_start: "exec_inv provs fts exec_start"
  by (simp add: exec_inv_def exec_start_def)

lemma exec_inv_lock: "exec_inv provs fts s \<Longrightarrow> ex_lock s = Some i \<longleftrightarrow> is_writing (ex_workers s i)"
  by (simp add: exec_inv_def)

lemma exec_inv_worker: "exec_inv provs fts s \<Longrightarrow> ex_workers s i = Some w \<Longrightarrow> worker_ok (fetch_outcome provs (fts ! i)) w"
  by (simp add: exec_inv_def)

lemma exec_inv_step: "exec_step provs fts s s' \<Longrightarrow> exec_inv provs fts s \<Longrightarrow> exec_inv provs fts s'"
proof (induction rule: exec_step.induct)
  case (missing_begin s)
  then show ?case by (simp add: exec_inv_def)
next
  case (missing_end s)
  then show ?case by (auto simp: exec_inv_def less_Suc_eq)
next
  case (spawn s)
  have "ex_workers s (ex_next s) = None" using spawn.prems unfolding exec_inv_def by blast
  then have "ex_lock s \<noteq> Some (ex_next s)" using exec_inv_lock [OF spawn.prems] by simp
  with spawn show ?case by (auto simp: exec_inv_def less_Suc_eq)
next
  case (call s i)
  then have "ex_lock s \<noteq> Some i" using exec_inv_lock [OF call.prems, of i] by simp
  with call show ?case by (auto simp: exec_inv_def)
next
  case (audit s i r)
  then have "ex_lock s \<noteq> Some i" using exec_inv_lock [OF audit.prems, of i] by simp
  moreover have "r = fetch_outcome provs (fts ! i)" using exec_inv_worker [OF audit.prems audit.hyps(1)] by simp
  ultimately show ?case using audit by (auto simp: exec_inv_def)
next
  case (lock s i r)
  have "r = fetch_outcome provs (fts ! i)" using exec_inv_worker [OF lock.prems lock.hyps(1)] by simp
  with lock show ?case by (auto simp: exec_inv_def)
next
  case (unlock s i r)
  have "r = fetch_outcome provs (fts ! i)" using exec_inv_worker [OF unlock.prems unlock.hyps(1)] by simp
  with unlock show ?case by (auto simp: exec_inv_def)
qed

lemma exec_inv_reachable: "exec_reachable provs fts s \<Longrightarrow> exec_inv provs fts s"
  by (induction rule: exec_reachable.induct) (auto intro: exec_inv_start exec_inv_step)

section \<open>Runs\<close>

text \<open>Two goroutines never write at once; only the loop's own write can overlap one.\<close>

lemma writers_exclude:
  assumes "exec_reachable provs fts s" "ex_workers s i = Some (Writing r)" "ex_workers s j = Some (Writing q)"
  shows "i = j"
proof -
  have "\<forall>k. is_writing (ex_workers s k) \<longleftrightarrow> ex_lock s = Some k"
    using exec_inv_reachable [OF assms(1)] by (simp add: exec_inv_def)
  then have "ex_lock s = Some i" "ex_lock s = Some j" using assms(2,3) by (metis is_writing.simps(1))+
  then show ?thesis by simp
qed

lemma exec_done_results:
  assumes "exec_inv provs fts s" "exec_done fts s"
  shows "ex_results s = execute provs fts"
proof
  fix i
  have w: "ex_workers s i = Some Finished" if "i < length fts" "has_provider provs fts i"
    using assms that unfolding exec_inv_def exec_done_def by metis
  have "ex_results s i = (if i < ex_next s \<and> (has_provider provs fts i \<longrightarrow> ex_workers s i = Some Finished)
      then Some (fetch_outcome provs (fts ! i)) else None)"
    using assms(1) by (simp add: exec_inv_def)
  then show "ex_results s i = execute provs fts i"
    using w assms(2) by (auto simp: execute_def exec_done_def)
qed

lemma exec_done_calls:
  assumes "exec_inv provs fts s" "exec_done fts s"
  shows "mset (ex_calls s) = mset (provider_calls provs fts)"
proof -
  have "set (ex_calls s) = set (provider_calls provs fts)"
    using assms unfolding exec_inv_def exec_done_def provider_calls_def
    by (auto simp del: not_None_eq)
  moreover have "distinct (ex_calls s)" using assms(1) by (simp add: exec_inv_def)
  moreover have "distinct (provider_calls provs fts)" by (simp add: provider_calls_def)
  ultimately show ?thesis by (simp add: set_eq_iff_mset_eq_distinct)
qed

text \<open>Nothing blocks: while the run is not done, some step is possible.\<close>

lemma exec_progress:
  assumes "exec_reachable provs fts s" "\<not> exec_done fts s"
  shows "\<exists>s'. exec_step provs fts s s'"
proof (cases "ex_loop_writes s")
  case True
  then show ?thesis using missing_end by blast
next
  case quiet: False
  show ?thesis
  proof (cases "ex_next s < length fts")
    case True
    then show ?thesis using quiet missing_begin spawn by blast
  next
    case False
    have inv: "exec_inv provs fts s" by (rule exec_inv_reachable [OF assms(1)])
    then have "ex_next s = length fts" using False by (simp add: exec_inv_def)
    then obtain i w where w: "ex_workers s i = Some w" "w \<noteq> Finished" using assms(2) quiet by (auto simp: exec_done_def)
    show ?thesis
    proof (cases w)
      case (Audited r)
      show ?thesis
      proof (cases "ex_lock s")
        case None
        then show ?thesis using w Audited lock by blast
      next
        case (Some j)
        then have "is_writing (ex_workers s j)" using inv by (simp add: exec_inv_def)
        then obtain q where "ex_workers s j = Some (Writing q)" by (auto elim!: is_writing.elims)
        then show ?thesis using unlock by blast
      qed
    qed (use w call audit unlock in blast)+
  qed
qed

text \<open>Every step makes progress, so every run ends.\<close>

fun worker_left :: "worker option \<Rightarrow> nat" where
  "worker_left None = 5"
| "worker_left (Some Calling) = 4"
| "worker_left (Some (Returned _)) = 3"
| "worker_left (Some (Audited _)) = 2"
| "worker_left (Some (Writing _)) = 1"
| "worker_left (Some Finished) = 0"

definition exec_left :: "fetch list \<Rightarrow> exec_state \<Rightarrow> nat" where
  "exec_left fts s = (\<Sum>i < length fts. worker_left (ex_workers s i)) + 2 * (length fts - ex_next s)
     - (if ex_loop_writes s then 1 else 0)"

lemma sum_worker_less:
  assumes "i < (n :: nat)" "(g i :: nat) < f i" "\<And>j. j \<noteq> i \<Longrightarrow> g j = f j"
  shows "sum g {..<n} < sum f {..<n}"
  using assms by (intro sum_strict_mono_ex1) (auto, metis less_imp_le order_refl)

lemma exec_left_decreases:
  assumes "exec_step provs fts s s'" "exec_inv provs fts s"
  shows "exec_left fts s' < exec_left fts s"
  using assms
proof (induction rule: exec_step.induct)
  case (missing_begin s)
  then show ?case by (simp add: exec_left_def)
next
  case (missing_end s)
  then have "ex_next s < length fts" by (simp add: exec_inv_def)
  then obtain d where "length fts = Suc (ex_next s + d)" using less_iff_Suc_add by auto
  then show ?case using missing_end.hyps by (simp add: exec_left_def)
next
  case (spawn s)
  have "ex_workers s (ex_next s) = None" using spawn.prems unfolding exec_inv_def by blast
  then have "(\<Sum>i < length fts. worker_left (((ex_workers s)(ex_next s \<mapsto> Calling)) i)) < (\<Sum>i < length fts. worker_left (ex_workers s i))"
    using spawn.hyps by (intro sum_worker_less [of "ex_next s"]) auto
  then show ?case using spawn.hyps by (simp add: exec_left_def)
next
  case (call s i)
  then have i: "i < length fts" unfolding exec_inv_def by (metis less_le_trans option.distinct(1))
  have "(\<Sum>j < length fts. worker_left (((ex_workers s)(i \<mapsto> Returned (fetch_outcome provs (fts ! i)))) j)) < (\<Sum>j < length fts. worker_left (ex_workers s j))"
    using call.hyps i by (intro sum_worker_less [of i]) auto
  then show ?case using call.prems by (auto simp: exec_left_def exec_inv_def)
next
  case (audit s i r)
  then have i: "i < length fts" unfolding exec_inv_def by (metis less_le_trans option.distinct(1))
  have "(\<Sum>j < length fts. worker_left (((ex_workers s)(i \<mapsto> Audited r)) j)) < (\<Sum>j < length fts. worker_left (ex_workers s j))"
    using audit.hyps i by (intro sum_worker_less [of i]) auto
  then show ?case using audit.prems by (auto simp: exec_left_def exec_inv_def)
next
  case (lock s i r)
  then have i: "i < length fts" unfolding exec_inv_def by (metis less_le_trans option.distinct(1))
  have "(\<Sum>j < length fts. worker_left (((ex_workers s)(i \<mapsto> Writing r)) j)) < (\<Sum>j < length fts. worker_left (ex_workers s j))"
    using lock.hyps i by (intro sum_worker_less [of i]) auto
  then show ?case using lock.prems by (auto simp: exec_left_def exec_inv_def)
next
  case (unlock s i r)
  then have i: "i < length fts" unfolding exec_inv_def by (metis less_le_trans option.distinct(1))
  have "(\<Sum>j < length fts. worker_left (((ex_workers s)(i \<mapsto> Finished)) j)) < (\<Sum>j < length fts. worker_left (ex_workers s j))"
    using unlock.hyps i by (intro sum_worker_less [of i]) auto
  then show ?case using unlock.prems by (auto simp: exec_left_def exec_inv_def)
qed

end
