(* ===== verification/OE_Access.thy ===== *)
theory OE_Access
  imports OE_Execute
begin

text \<open>
  Deciding whether a query may run (\<^verbatim>\<open>internal/oe/federator/access.go\<close>), the
  clients of the Policy Decision Point and of the Consent Engine
  (\<^verbatim>\<open>internal/oe/policy\<close>, \<^verbatim>\<open>internal/oe/consent\<close>), and the
  collaborators of the federator (\<^verbatim>\<open>deps.go\<close>).

  A collaborator works on a state \<open>'s\<close>, which it may change. Beside it the model keeps the
  list of the events in the order in which they happen: every question to the PDP and to the
  Consent Engine, every provider call and every audit record.
\<close>

section \<open>Error codes\<close>

definition CodePDPNotAllowed :: string where "CodePDPNotAllowed = ''PDP_NOT_ALLOWED''"
definition CodePDPError :: string where "CodePDPError = ''PDP_ERROR''"
definition CodePDPNoResponse :: string where "CodePDPNoResponse = ''PDP_NO_RESPONSE''"
definition CodeCEError :: string where "CodeCEError = ''CE_ERROR''"
definition CodeCENoResponse :: string where "CodeCENoResponse = ''CE_NO_RESPONSE''"
definition CodeCENotApproved :: string where "CodeCENotApproved = ''CE_NOT_APPROVED''"
definition CodeMissingEntityIdentifier :: string where "CodeMissingEntityIdentifier = ''MISSING_IDENTIFIER''"
definition CodeAmbiguousEntityIdentifier :: string where "CodeAmbiguousEntityIdentifier = ''AMBIGUOUS_IDENTIFIER''"
definition CodeBadRequest :: string where "CodeBadRequest = ''BAD_REQUEST''"

section \<open>Requests and responses\<close>

record pdp_request =
  pq_app_id :: string
  pq_required_fields :: "oe_required_field list"

record consent_required_field =
  crf_field_name :: string
  crf_schema_id :: string
  crf_display_name :: "string option"
  crf_description :: "string option"
  crf_owner :: "string option"

record pdp_response =
  px_authorized :: bool
  px_unauthorized_fields :: "consent_required_field list"
  px_access_expired :: bool
  px_expired_fields :: "consent_required_field list"
  px_requires_consent :: bool
  px_consent_fields :: "consent_required_field list"

record oe_consent_field =
  ocf_field_name :: string
  ocf_schema_id :: string
  ocf_display_name :: "string option"
  ocf_description :: "string option"
  ocf_owner :: string

record oe_consent_requirement =
  ocq_owner :: string
  ocq_owner_id :: string
  ocq_fields :: "oe_consent_field list"

record oe_consent_request =
  ocr_app_id :: string
  ocr_app_name :: "string option"
  ocr_requirement :: oe_consent_requirement
  ocr_grant_duration :: "string option"
  ocr_consent_type :: "string option"

record oe_consent_response =
  ocs_consent_id :: string
  ocs_status :: string
  ocs_portal_url :: "string option"
  ocs_fields :: "oe_consent_field list option"

definition oe_OwnerCitizen :: string where "oe_OwnerCitizen = ''citizen''"
definition oe_StatusApproved :: string where "oe_StatusApproved = ''approved''"
definition oe_TypeRealtime :: string where "oe_TypeRealtime = ''realtime''"

text \<open>The JSON of a field, as an error's extensions carry it.\<close>

definition field_json :: "consent_required_field \<Rightarrow> json" where
  "field_json f =
     (let opt = (\<lambda>k v. case v of None \<Rightarrow> [] | Some s \<Rightarrow> [(k, JStr s)]) in
      JObj ([(''fieldName'', JStr (crf_field_name f)), (''schemaId'', JStr (crf_schema_id f))]
            @ opt ''displayName'' (crf_display_name f) @ opt ''description'' (crf_description f)
            @ opt ''owner'' (crf_owner f)))"

section \<open>Clients\<close>

text \<open>
  A client marshals its request, sends it and decodes the reply. The body's text matters in the
  error of a status that is not the expected one, and its decoding otherwise.
\<close>

record 'r http_result =
  hr_status :: nat
  hr_text :: string
  hr_decoded :: "string + 'r"

record ('q, 'b, 'r, 's) http_channel =
  hc_marshal :: "'q \<Rightarrow> string + 'b"
  hc_new_request :: "string \<Rightarrow> string + unit"
  hc_do :: "string \<Rightarrow> 'b \<Rightarrow> 's \<Rightarrow> (string + 'r http_result) \<times> 's"

definition post_json ::
  "('q, 'b, 'r, 's) http_channel \<Rightarrow> nat \<Rightarrow> string \<Rightarrow> string \<Rightarrow> 'q \<Rightarrow> 's \<Rightarrow> (string + 'r) \<times> 's" where
  "post_json ch expected failure url request s =
     (case hc_marshal ch request of
        Inl e \<Rightarrow> (Inl e, s)
      | Inr body \<Rightarrow>
          (case hc_new_request ch url of
             Inl e \<Rightarrow> (Inl e, s)
           | Inr _ \<Rightarrow>
               (case hc_do ch url body s of
                  (Inl e, s') \<Rightarrow> (Inl e, s')
                | (Inr res, s') \<Rightarrow>
                    if hr_status res \<noteq> expected
                    then (Inl (failure @ '', status code: '' @ decimal (hr_status res) @ '', response: '' @ hr_text res), s')
                    else (hr_decoded res, s'))))"

definition policyDecisionEndpointPath :: string where
  "policyDecisionEndpointPath = ''/api/v1/policy/decide''"

definition make_pdp_request ::
  "(pdp_request, 'b, pdp_response, 's) http_channel \<Rightarrow> string \<Rightarrow> pdp_request \<Rightarrow> 's \<Rightarrow>
   (string + pdp_response option) \<times> 's" where
  "make_pdp_request ch base_url request s =
     (case post_json ch 200 ''PDP request failed'' (base_url @ policyDecisionEndpointPath) request s of
        (Inl e, s') \<Rightarrow> (Inl e, s')
      | (Inr resp, s') \<Rightarrow> (Inr (Some resp), s'))"

definition consentEndpointPath :: string where
  "consentEndpointPath = ''/consents''"

definition create_consent ::
  "(oe_consent_request, 'b, oe_consent_response, 's) http_channel \<Rightarrow> string \<Rightarrow> oe_consent_request \<Rightarrow> 's \<Rightarrow>
   (string + oe_consent_response option) \<times> 's" where
  "create_consent ch base_url request s =
     (case post_json ch 201 ''failed to create consent'' (base_url @ consentEndpointPath) request s of
        (Inl e, s') \<Rightarrow> (Inl e, s')
      | (Inr resp, s') \<Rightarrow> (Inr (Some resp), s'))"

section \<open>Collaborators\<close>

record provider_fetch =
  pf_application_id :: string
  pf_schema_id :: string
  pf_query :: string
  pf_requested_fields :: "string list"

datatype audit_event =
    RequestReceived string string
  | PolicyCheck string pdp_request "string + pdp_response option"
  | ConsentCheck string string oe_consent_request "string + oe_consent_response option"
  | ProviderFetched provider_fetch "string + provider_response"

datatype event =
    AskedPolicy pdp_request | AskedConsent oe_consent_request | CalledProvider string graphql_request
  | Recorded audit_event

type_synonym 's world = "'s \<times> event list"

text \<open>A response without an error may still be nil.\<close>

type_synonym 's policy_decider = "pdp_request \<Rightarrow> 's \<Rightarrow> (string + pdp_response option) \<times> 's"
type_synonym 's consent_requester = "oe_consent_request \<Rightarrow> 's \<Rightarrow> (string + oe_consent_response option) \<times> 's"

record 's deps =
  dp_providers :: "providers option"
  dp_schemas :: "('s \<Rightarrow> string + compiled_schema) option"
  dp_policy :: "'s policy_decider option"
  dp_consent :: "'s consent_requester option"
  dp_auditor :: "(audit_event \<Rightarrow> 's \<Rightarrow> 's) option"

record options =
  oo_id_arg :: string
  oo_mappings :: "arg_mapping option list"

record 's federator =
  fd_providers :: providers
  fd_schemas :: "'s \<Rightarrow> string + compiled_schema"
  fd_policy :: "'s policy_decider option"
  fd_consent :: "'s consent_requester option"
  fd_auditor :: "audit_event \<Rightarrow> 's \<Rightarrow> 's"
  fd_id_arg :: string
  fd_mappings :: "arg_mapping option list"
  fd_types :: target_types

datatype config_error = NoProviderRegistry | NoSchemaSource | NoIdentifierArgument | BadTargetType nat string

definition noop_auditor :: "audit_event \<Rightarrow> 's \<Rightarrow> 's" where
  "noop_auditor e s = s"

definition new_federator :: "plan_lib \<Rightarrow> 's deps \<Rightarrow> options \<Rightarrow> config_error + 's federator" where
  "new_federator lib d opts =
     (case dp_providers d of
        None \<Rightarrow> Inl NoProviderRegistry
      | Some provs \<Rightarrow>
          (case dp_schemas d of
             None \<Rightarrow> Inl NoSchemaSource
           | Some schemas \<Rightarrow>
               if oo_id_arg opts = '''' then Inl NoIdentifierArgument
               else (case target_arg_types lib (oo_mappings opts) of
                  Inl (i, e) \<Rightarrow> Inl (BadTargetType i e)
                | Inr types \<Rightarrow>
                    Inr \<lparr>fd_providers = provs, fd_schemas = schemas, fd_policy = dp_policy d,
                         fd_consent = dp_consent d,
                         fd_auditor = (case dp_auditor d of None \<Rightarrow> noop_auditor | Some a \<Rightarrow> a),
                         fd_id_arg = oo_id_arg opts, fd_mappings = oo_mappings opts, fd_types = types\<rparr>)))"

definition record_event :: "event \<Rightarrow> 's world \<Rightarrow> 's world" where
  "record_event e w = (case w of (s, es) \<Rightarrow> (s, es @ [e]))"

definition audit :: "'s federator \<Rightarrow> audit_event \<Rightarrow> 's world \<Rightarrow> 's world" where
  "audit f e w = (case w of (s, es) \<Rightarrow> (fd_auditor f e s, es @ [Recorded e]))"

text \<open>Calling a collaborator: the event comes first, then its answer.\<close>

definition ask :: "event \<Rightarrow> ('s \<Rightarrow> 'a \<times> 's) \<Rightarrow> 's world \<Rightarrow> 'a \<times> 's world" where
  "ask e g w = (case w of (s, es) \<Rightarrow> case g s of (x, s') \<Rightarrow> (x, (s', es @ [e])))"

section \<open>Error responses\<close>

definition create_error_response :: "oe_message \<Rightarrow> json_map \<Rightarrow> graphql_response" where
  "create_error_response message extensions =
     \<lparr>gr_data = None,
      gr_errors = [\<lparr>ee_message = message, ee_path = [], ee_locations = [], ee_extensions = extensions\<rparr>]\<rparr>"

definition create_error_response_with_code :: "oe_message \<Rightarrow> string \<Rightarrow> graphql_response" where
  "create_error_response_with_code message code = create_error_response message [(''code'', JStr code)]"

definition reject :: "string \<Rightarrow> json_map \<Rightarrow> graphql_response" where
  "reject message extensions = create_error_response (Text message) extensions"

definition reject_with_code :: "string \<Rightarrow> string \<Rightarrow> graphql_response" where
  "reject_with_code message code = create_error_response_with_code (Text message) code"

section \<open>Access\<close>

definition check_policy ::
  "'s federator \<Rightarrow> string \<Rightarrow> oe_required_field list \<Rightarrow> 's world \<Rightarrow>
   (graphql_response + pdp_response option) \<times> 's world" where
  "check_policy f app_id requested w =
     (case fd_policy f of
        None \<Rightarrow> (Inr None, w)
      | Some decider \<Rightarrow>
          let request = \<lparr>pq_app_id = app_id, pq_required_fields = requested\<rparr> in
          (case ask (AskedPolicy request) (decider request) w of (answer, w) \<Rightarrow>
             let w = audit f (PolicyCheck app_id request answer) w in
             (case answer of
                Inl e \<Rightarrow> (Inl (reject_with_code (''Authorization check failed: '' @ e) CodePDPError), w)
              | Inr None \<Rightarrow> (Inl (reject_with_code ''No response from authorization service'' CodePDPNoResponse), w)
              | Inr (Some resp) \<Rightarrow>
                  if \<not> px_authorized resp then
                    (Inl (reject ''Access denied''
                       [(''code'', JStr CodePDPNotAllowed),
                        (''unauthorizedFields'', JArr (map field_json (px_unauthorized_fields resp)))]), w)
                  else if px_access_expired resp then
                    (Inl (reject ''Access expired''
                       [(''code'', JStr CodePDPNotAllowed),
                        (''expiredFields'', JArr (map field_json (px_expired_fields resp)))]), w)
                  else (Inr (Some resp), w))))"

definition to_consent_field :: "consent_required_field \<Rightarrow> oe_consent_field" where
  "to_consent_field f =
     \<lparr>ocf_field_name = crf_field_name f, ocf_schema_id = crf_schema_id f,
      ocf_display_name = crf_display_name f, ocf_description = crf_description f,
      ocf_owner = (case crf_owner f of Some o' \<Rightarrow> o' | None \<Rightarrow> oe_OwnerCitizen)\<rparr>"

definition consent_request :: "string \<Rightarrow> string \<Rightarrow> consent_required_field list \<Rightarrow> oe_consent_request" where
  "consent_request app_id owner_id requested =
     \<lparr>ocr_app_id = app_id, ocr_app_name = None,
      ocr_requirement = \<lparr>ocq_owner = oe_OwnerCitizen, ocq_owner_id = owner_id, ocq_fields = map to_consent_field requested\<rparr>,
      ocr_grant_duration = None, ocr_consent_type = Some oe_TypeRealtime\<rparr>"

definition check_consent ::
  "'s federator \<Rightarrow> string \<Rightarrow> string \<Rightarrow> pdp_response \<Rightarrow> 's world \<Rightarrow> graphql_response option \<times> 's world" where
  "check_consent f app_id owner_id resp w =
     (if px_consent_fields resp = [] then
        (Some (reject_with_code ''Invalid PDP response: consent required but no fields specified'' CodePDPError), w)
      else case fd_consent f of
        None \<Rightarrow> (Some (reject_with_code ''Consent required but consent engine not available'' CodeCEError), w)
      | Some requester \<Rightarrow>
          let request = consent_request app_id owner_id (px_consent_fields resp) in
          (case ask (AskedConsent request) (requester request) w of (answer, w) \<Rightarrow>
             let w = audit f (ConsentCheck app_id owner_id request answer) w in
             (case answer of
                Inl e \<Rightarrow> (Some (reject_with_code ''CE request failed'' CodeCEError), w)
              | Inr None \<Rightarrow> (Some (reject_with_code ''Failed to get response from CE'' CodeCENoResponse), w)
              | Inr (Some ce) \<Rightarrow>
                  if ocs_status ce \<noteq> oe_StatusApproved then
                    (Some (reject ''Consent not approved''
                       [(''code'', JStr CodeCENotApproved),
                        (''consentPortalUrl'', case ocs_portal_url ce of None \<Rightarrow> JNull | Some u \<Rightarrow> JStr u),
                        (''consentStatus'', JStr (ocs_status ce))]), w)
                  else (None, w))))"

text \<open>\<open>None\<close>: the query may run.\<close>

definition authorize_access ::
  "'s federator \<Rightarrow> string \<Rightarrow> oe_required_field list \<Rightarrow> string \<Rightarrow> 's world \<Rightarrow> graphql_response option \<times> 's world" where
  "authorize_access f app_id requested owner_id w =
     (case check_policy f app_id requested w of
        (Inl denied, w) \<Rightarrow> (Some denied, w)
      | (Inr None, w) \<Rightarrow> (None, w)
      | (Inr (Some resp), w) \<Rightarrow>
          if px_requires_consent resp then check_consent f app_id owner_id resp w else (None, w))"

definition federator_data_owner_id :: "'s federator \<Rightarrow> operation \<Rightarrow> graphql_response + string" where
  "federator_data_owner_id f op =
     (case data_owner_id op (fd_id_arg f) of
        Inl ErrMissingIdentifier \<Rightarrow>
          Inl (reject_with_code ''Data Owner ID argument is missing or invalid'' CodeMissingEntityIdentifier)
      | Inl ErrAmbiguousIdentifier \<Rightarrow>
          Inl (reject_with_code ''Conflicting Data Owner ID values in query'' CodeAmbiguousEntityIdentifier)
      | Inr i \<Rightarrow> Inr i)"

end
