(* ===== verification/OE_Federator.thy ===== *)
theory OE_Federator
  imports OE_Access
begin

text \<open>
  Federating one consumer query (\<^verbatim>\<open>internal/oe/federator/federator.go\<close>,
  \<^verbatim>\<open>query.go\<close>) and its HTTP handler (\<^verbatim>\<open>handler.go\<close>).

  \<open>federate_query\<close> runs the phases of \<^verbatim>\<open>FederateQuery\<close> in order on a world: the
  collaborators' state and the events so far. The fuel bounds the nesting of the query's
  selections (\<open>build_fields\<close>). The provider calls appear in the events in the order of the
  plan, one of the orders in which the goroutines of \<open>exec_step\<close> make them.
\<close>

section \<open>Invalid queries\<close>

definition query_error :: "gql_error \<Rightarrow> error_entry" where
  "query_error e =
     \<lparr>ee_message = Text (ge_message e), ee_path = [], ee_locations = ge_locations e,
      ee_extensions = [(''code'', JStr CodeBadRequest)]\<rparr>"

definition invalid_query_response :: "gql_error list \<Rightarrow> graphql_response" where
  "invalid_query_response errs = \<lparr>gr_data = None, gr_errors = map query_error errs\<rparr>"

definition parse_query :: "gql_lib \<Rightarrow> string \<Rightarrow> graphql_response + query_document" where
  "parse_query lib q =
     (case gl_parse_query lib q of Inl e \<Rightarrow> Inl (invalid_query_response [e]) | Inr doc \<Rightarrow> Inr doc)"

definition validate_query :: "gql_lib \<Rightarrow> gql_schema \<Rightarrow> query_document \<Rightarrow> graphql_response option" where
  "validate_query lib schema doc =
     (case gl_validate lib schema doc of [] \<Rightarrow> None | errs \<Rightarrow> Some (invalid_query_response errs))"

definition operation_error_response :: "op_error \<Rightarrow> graphql_response" where
  "operation_error_response err =
     (case err of
        VariableError e \<Rightarrow> invalid_query_response [e]
      | ErrUnsupportedOperation \<Rightarrow> create_error_response (Text ''Only query operation is supported'') []
      | _ \<Rightarrow> create_error_response_with_code (OpErrorText err) CodeBadRequest)"

section \<open>Federating a query\<close>

record fed_lib =
  fl_gql :: gql_lib
  fl_plan :: plan_lib
  fl_sprint :: "json \<Rightarrow> string"

record consumer =
  ca_application_id :: string
  ca_client_id :: string
  ca_subscriber :: string

text \<open>The provider call of fetch \<open>i\<close> and its audit record.\<close>

definition run_fetch :: "'s federator \<Rightarrow> string \<Rightarrow> fetch \<Rightarrow> 's world \<Rightarrow> 's world" where
  "run_fetch f app_id ft w =
     (case fd_providers f (ft_schema_id ft) of
        None \<Rightarrow> w
      | Some client \<Rightarrow>
          audit f (ProviderFetched
              \<lparr>pf_application_id = app_id, pf_schema_id = ft_schema_id ft, pf_query = ft_query ft,
               pf_requested_fields = ft_fields ft\<rparr>
              (client (fetch_request ft)))
            (record_event (CalledProvider (ft_schema_id ft) (fetch_request ft)) w))"

definition run_fetches :: "'s federator \<Rightarrow> string \<Rightarrow> fetch list \<Rightarrow> 's world \<Rightarrow> 's world" where
  "run_fetches f app_id fts w = foldl (\<lambda>w ft. run_fetch f app_id ft w) w fts"

text \<open>What follows planning: access, the fetches, the merge.\<close>

definition run_plan ::
  "fed_lib \<Rightarrow> 's federator \<Rightarrow> string \<Rightarrow> operation \<Rightarrow> string \<Rightarrow> plan \<Rightarrow> 's world \<Rightarrow> graphql_response \<times> 's world" where
  "run_plan lib f app_id op owner_id p w =
     (case authorize_access f app_id (required_fields p) owner_id w of
        (Some denied, w) \<Rightarrow> (denied, w)
      | (None, w) \<Rightarrow>
          if p_fetches p = []
          then (create_error_response (Text ''No valid service queries found in the request'') [], w)
          else (merge (fl_sprint lib) op p (execute (fd_providers f) (p_fetches p)),
                run_fetches f app_id (p_fetches p) w))"

text \<open>The phases that call nobody: from the request to the plan.\<close>

definition prepare ::
  "nat \<Rightarrow> fed_lib \<Rightarrow> 's federator \<Rightarrow> 's \<Rightarrow> graphql_request \<Rightarrow> graphql_response + operation \<times> string \<times> plan" where
  "prepare fuel lib f s request =
     bind_res (parse_query (fl_gql lib) (rq_query request)) (\<lambda>doc.
     bind_res (case fd_schemas f s of
         Inl e \<Rightarrow> Inl (create_error_response (Text ''No active schema found.'') [])
       | Inr compiled \<Rightarrow> Inr compiled) (\<lambda>compiled.
     bind_res (case validate_query (fl_gql lib) (cs_schema compiled) doc of Some r \<Rightarrow> Inl r | None \<Rightarrow> Inr ()) (\<lambda>_.
     bind_res (case build_operation fuel (fl_gql lib) compiled doc (rq_operation_name request) (rq_variables request) of
         Inl e \<Rightarrow> Inl (operation_error_response e) | Inr op \<Rightarrow> Inr op) (\<lambda>op.
     bind_res (federator_data_owner_id f op) (\<lambda>owner_id.
     bind_res (case build_plan (fl_plan lib) op (fd_mappings f) (fd_types f) of
         Inl e \<Rightarrow> Inl (create_error_response_with_code (PlanErrorText e) CodeBadRequest) | Inr p \<Rightarrow> Inr p) (\<lambda>p.
     Inr (op, owner_id, p)))))))"

definition federate_query ::
  "nat \<Rightarrow> fed_lib \<Rightarrow> 's federator \<Rightarrow> graphql_request \<Rightarrow> consumer \<Rightarrow> 's world \<Rightarrow> graphql_response \<times> 's world" where
  "federate_query fuel lib f request who w =
     (let app_id = ca_application_id who; w = audit f (RequestReceived app_id (rq_query request)) w in
      case prepare fuel lib f (fst w) request of
        Inl resp \<Rightarrow> (resp, w)
      | Inr (op, owner_id, p) \<Rightarrow> run_plan lib f app_id op owner_id p w)"

section \<open>The HTTP handler\<close>

text \<open>
  \<open>who\<close> is the consumer the middleware authenticated, \<open>body\<close> the decoded request.
  \<open>run\<close> is \<^verbatim>\<open>FederateQuery\<close>; \<open>Inl\<close> is a panic.
\<close>

definition federator_handler ::
  "(graphql_request \<Rightarrow> consumer \<Rightarrow> 's world \<Rightarrow> (string + graphql_response) \<times> 's world) \<Rightarrow>
   consumer option \<Rightarrow> graphql_request option \<Rightarrow> 's world \<Rightarrow> nat \<times> (string + graphql_response) \<times> 's world" where
  "federator_handler run who body w =
     (case who of
        None \<Rightarrow> (401, Inl ''Unauthorized: authentication required'', w)
      | Some c \<Rightarrow>
          (case body of
             None \<Rightarrow> (400, Inl ''Bad request: invalid JSON'', w)
           | Some request \<Rightarrow>
               (case run request c w of
                  (Inr resp, w') \<Rightarrow> (200, Inr resp, w')
                | (Inl panic, w') \<Rightarrow>
                    (200, Inr (create_error_response (Text (''Internal server error: '' @ panic)) []), w'))))"

end
