(* ===== verification/OE_Properties.thy ===== *)
theory OE_Properties
  imports OE_Plan_Facts OE_Merge_Facts OE_Federator
begin

text \<open>
  What the orchestration engine guarantees: normalization and planning end and ask providers
  only for authorized fields, no provider is called before access is granted, every run of the
  fetches has the same outcome, and the merged response has the query's shape.
\<close>

section \<open>An example query\<close>

text \<open>One field with an owner argument, and a list whose items are read from the same provider.\<close>

definition ex_string :: gql_type where
  "ex_string = NamedType ''String'' False"

definition ex_name_def :: field_def where
  "ex_name_def = \<lparr>fd_name = ''name'', fd_args = [\<lparr>ad_name = ''nic'', ad_type = ex_string, ad_default = None\<rparr>],
     fd_type = NamedType ''String'' True, fd_directives = []\<rparr>"

definition ex_name :: op_field where
  "ex_name = OpField ''name'' ''name'' [''name''] [''name''] [(''nic'', JStr ''1'')] ex_name_def
     (Some \<lparr>si_schema_id = ''s1'', si_provider_field = ''person.name''\<rparr>) []"

definition ex_model_def :: field_def where
  "ex_model_def = \<lparr>fd_name = ''model'', fd_args = [], fd_type = ex_string, fd_directives = []\<rparr>"

definition ex_model :: op_field where
  "ex_model = OpField ''model'' ''model'' [''cars'', ''model''] [''cars'', ''model''] [] ex_model_def
     (Some \<lparr>si_schema_id = ''s1'', si_provider_field = ''person.cars.model''\<rparr>) []"

definition ex_cars_def :: field_def where
  "ex_cars_def = \<lparr>fd_name = ''cars'', fd_args = [\<lparr>ad_name = ''nic'', ad_type = ex_string, ad_default = None\<rparr>],
     fd_type = ListType (NamedType ''Car'' True) False, fd_directives = []\<rparr>"

definition ex_cars :: op_field where
  "ex_cars = OpField ''cars'' ''cars'' [''cars''] [''cars''] [(''nic'', JStr ''1'')] ex_cars_def
     (Some \<lparr>si_schema_id = ''s1'', si_provider_field = ''person.cars''\<rparr>) [ex_model]"

definition ex_op :: operation where
  "ex_op = \<lparr>op_fields = [ex_name, ex_cars], op_variables = Map.empty\<rparr>"

definition ex_mapping :: "string \<Rightarrow> arg_mapping" where
  "ex_mapping field = \<lparr>am_target_arg_name = ''nic'', am_schema_id = ''s1'', am_source_arg_path = field @ ''-nic'',
     am_target_arg_path = ''person'', am_target_arg_type = ''''\<rparr>"

definition ex_mappings :: "arg_mapping option list" where
  "ex_mappings = [Some (ex_mapping ''name''), None, Some (ex_mapping ''cars'')]"

definition ex_marshal :: "json \<Rightarrow> string + string" where
  "ex_marshal v = Inr (case v of JStr s \<Rightarrow> filter (\<lambda>c. c \<noteq> nul) s | _ \<Rightarrow> ''null'')"

definition ex_plan_lib :: plan_lib where
  "ex_plan_lib = \<lparr>pl_parse_variables = (\<lambda>_. None), pl_marshal = ex_marshal, pl_format = pd_name\<rparr>"

definition ex_plan :: plan where
  "ex_plan = (case build_plan ex_plan_lib ex_op ex_mappings Map.empty of Inr p \<Rightarrow> p | Inl _ \<Rightarrow> \<lparr>p_fetches = [], p_sources = Map.empty\<rparr>)"

lemmas ex_defs = ex_string_def ex_name_def_def ex_name_def ex_model_def_def ex_model_def ex_cars_def_def ex_cars_def
  ex_op_def ex_mapping_def ex_mappings_def ex_plan_lib_def

definition ex_gql :: gql_lib where
  "ex_gql = \<lparr>gl_parse_query = (\<lambda>_. Inr \<lparr>qd_operations = [\<lparr>qo_name = '''', qo_kind = OpQuery,
         qo_selections = [QField '''' ''name'' [(''nic'', AString ''1'')] [] (Some ex_name_def) []]\<rparr>], qd_fragments = []\<rparr>),
     gl_validate = (\<lambda>_ _. []), gl_operation = (\<lambda>d _. Some (hd (qd_operations d))),
     gl_variable_values = (\<lambda>_ _ _. Inr Map.empty),
     gl_value = (\<lambda>_ v. case v of AString s \<Rightarrow> Inr (JStr s) | _ \<Rightarrow> Inl ''bad'')\<rparr>"

definition ex_compiled :: compiled_schema where
  "ex_compiled = \<lparr>cs_schema = \<lparr>gs_query = Some \<lparr>td_name = ''Query'', td_kind = KObject, td_builtin = False, td_fields = [ex_name_def]\<rparr>,
       gs_types = [], gs_possible = (\<lambda>_. [])\<rparr>,
     cs_source_info = [(''Query'', ''name'') \<mapsto> \<lparr>si_schema_id = ''s1'', si_provider_field = ''person.name''\<rparr>]\<rparr>"

definition ex_doc :: query_document where
  "ex_doc = (case gl_parse_query ex_gql '''' of Inr d \<Rightarrow> d | Inl _ \<Rightarrow> \<lparr>qd_operations = [], qd_fragments = []\<rparr>)"

lemma ex_marshal_nul_free: "marshal_nul_free ex_plan_lib"
  by (auto simp: marshal_nul_free_def ex_plan_lib_def ex_marshal_def nul_free_def nul_def split: json.splits)

lemma ex_build_plan: "build_plan ex_plan_lib ex_op ex_mappings Map.empty = Inr ex_plan"
proof -
  have "case build_plan ex_plan_lib ex_op ex_mappings Map.empty of Inr _ \<Rightarrow> True | Inl _ \<Rightarrow> False" by code_simp
  then show ?thesis by (auto simp: ex_plan_def split: sum.splits)
qed

lemma ex_inputs_nul_free: "inputs_nul_free ex_plan_lib Map.empty (bind_arguments ex_op ex_mappings) (walk (op_fields ex_op))"
proof -
  have "list_all (\<lambda>f. case of_source_info f of None \<Rightarrow> True | Some i \<Rightarrow> nul_free (si_schema_id i)) (walk (op_fields ex_op))"
    by code_simp
  moreover have "list_all (\<lambda>b. nul_free (am_target_arg_path (ab_mapping b)) \<and> nul_free (am_target_arg_name (ab_mapping b)) \<and>
      (case consumer_arg_type b of Inl _ \<Rightarrow> True | Inr typ \<Rightarrow> nul_free (type_string typ))) (bind_arguments ex_op ex_mappings)"
    by code_simp
  ultimately show ?thesis using ex_marshal_nul_free by (simp add: inputs_nul_free_def list_all_iff)
qed

section \<open>Planning\<close>

lemma ft_query_finish: "ft_query (finish_fetch lib f) = trim_space (pl_format lib (fst (print_fetch f)))"
  by (simp add: finish_fetch_def split: prod.splits)



text \<open>
  The printed operation declares one variable per mapped argument, under distinct names,
  each with the argument's type, and the variables sent with it give every declared name the
  value of its argument, whatever names the mappings use.
\<close>

theorem printed_variables:
  "case print_fetch f of (doc, vars) \<Rightarrow>
     distinct (map fst (pd_variables doc)) \<and>
     list_all2 (\<lambda>d a. snd d = pa_type a \<and> map_of vars (fst d) = Some (pa_value a)) (pd_variables doc) (ft_args f)"
proof -
  obtain ds vs root where r: "foldl print_argument ([], [], ft_root f) (ft_args f) = (ds, vs, root)" by (metis surj_pair)
  have "distinct (map fst ds) \<and>
      list_all2 (\<lambda>d a. snd d = pa_type a \<and> map_of vs (fst d) = Some (pa_value a)) ds ([] @ ft_args f)"
    by (rule foldl_print_argument_variables [OF _ _ r]) simp_all
  then show ?thesis by (simp add: print_fetch_def r)
qed

text \<open>
  Every consumer field that the merge reads from a provider response directly has a fetch
  in the plan, and that fetch is for the schema of the field's source annotation.
\<close>

theorem direct_fields_have_sources:
  assumes "build_plan lib op mappings types = Inr p"
    and "inputs_nul_free lib types (bind_arguments op mappings) (walk (op_fields op))"
    and "wf_fields [] (op_fields op)"
    and "f \<in> set (op_fields op)" "g \<in> set (direct_fields f)" "of_source_info g = Some src"
  shows "\<exists>i < length (p_fetches p). p_sources p (of_path g) = Some i \<and> ft_schema_id (p_fetches p ! i) = si_schema_id src"
proof -
  obtain st where st: "plan_fields lib types (bind_arguments op mappings) None
      \<lparr>pn_fetches = [], pn_by_key = Map.empty, pn_sources = Map.empty\<rparr> (op_fields op) = Inr st"
    and p: "p = \<lparr>p_fetches = map (finish_fetch lib) (pn_fetches st), p_sources = pn_sources st\<rparr>"
    using assms(1) by (rule build_plan_cases)
  have inv: "planner_inv lib (walk (op_fields op)) st" by (rule plan_fields_ok [OF st assms(2)])
  have "of_path g \<in> dom (pn_sources st)" using plan_fields_sources [OF st] assms(4,5) by blast
  then obtain i where i: "pn_sources st (of_path g) = Some i" by blast
  then obtain h where h: "i < length (pn_fetches st)" "h \<in> set (walk (op_fields op))" "of_path h = of_path g"
    "\<exists>src. of_source_info h = Some src \<and> ft_schema_id (pn_fetches st ! i) = si_schema_id src"
    using inv unfolding planner_inv_def serves_def by metis
  have "g \<in> set (walk (op_fields op))" using direct_fields_walk assms(4,5) by (auto simp: walk_def)
  then have "h = g" using distinct_map_inj_mem [OF distinct_walk [OF assms(3)]] h(2,3) by blast
  then show ?thesis using h i assms(6) by (auto simp: p)
qed

lemma direct_fields_have_sources_witness:
  "\<exists>i < length (p_fetches ex_plan). p_sources ex_plan [''cars''] = Some i \<and> ft_schema_id (p_fetches ex_plan ! i) = ''s1''"
proof -
  have "wf_fields [] (op_fields ex_op)" "ex_cars \<in> set (op_fields ex_op)" by (simp_all add: ex_defs wf_fields_def)
  moreover have "ex_cars \<in> set (direct_fields ex_cars)" "of_source_info ex_cars = Some \<lparr>si_schema_id = ''s1'', si_provider_field = ''person.cars''\<rparr>"
    by (simp_all add: ex_defs is_list_type_def)
  ultimately show ?thesis
    using direct_fields_have_sources [OF ex_build_plan ex_inputs_nul_free, of ex_cars ex_cars] by (simp add: ex_cars_def)
qed

definition ex_typename_only :: operation where
  "ex_typename_only = \<lparr>op_fields = [OpField ''cars'' ''cars'' [''cars''] [''cars''] [(''nic'', JStr ''1'')] ex_cars_def
     (Some \<lparr>si_schema_id = ''s1'', si_provider_field = ''person.cars''\<rparr>)
     [OpField ''__typename'' ''__typename'' [''cars'', ''__typename''] [''cars'', ''__typename''] [] ex_model_def None []]],
     op_variables = Map.empty\<rparr>"

text \<open>
  A list selected only for \<^verbatim>\<open>__typename\<close> is fetched although the plan reads nothing from
  it: the printed operation selects the mapped argument's path, which is in no request to the
  Policy Decision Point, as a leaf.
\<close>

theorem typename_only_list_unauthorized:
  "case build_plan ex_plan_lib ex_typename_only ex_mappings Map.empty of
     Inl _ \<Rightarrow> False
   | Inr p \<Rightarrow> required_fields p = [] \<and>
       map (\<lambda>f. leaf_paths (pd_selections (fst (print_fetch f)))) (p_fetches p) = [[[''person'']]]"
  by code_simp

section \<open>Normalizing\<close>

text \<open>
  The data owner of a query is the one value that its fields give the configured
  identifier argument: without a non-empty value the query has no owner, and with two
  different ones it is ambiguous.
\<close>

theorem data_owner_unique:
  "data_owner_id op arg =
     (case owner_values arg (walk (op_fields op)) of
        [] \<Rightarrow> Inl ErrMissingIdentifier
      | v # vs \<Rightarrow> if list_all (\<lambda>w. w = v) vs then Inr v else Inl ErrAmbiguousIdentifier)"
proof (cases "owner_values arg (walk (op_fields op))")
  case Nil
  then show ?thesis by (simp add: data_owner_id_def owner_fold)
next
  case (Cons v vs)
  have "v \<noteq> ''''"
    using Cons owner_values_nonempty [of v arg "walk (op_fields op)"] by simp
  then show ?thesis using Cons by (auto simp: data_owner_id_def owner_fold list_all_iff)
qed

text \<open>
  C34. Normalizing a query whose fragments do not lead back to themselves returns: some fuel
  is enough, and any more fuel gives the same result.
\<close>

theorem build_operation_returns:
  assumes "no_fragment_cycles rank (qd_fragments doc)"
  shows "\<exists>n. build_operation n lib compiled doc name vs \<noteq> Inl OutOfFuel \<and>
    (\<forall>m. build_operation (n + m) lib compiled doc name vs = build_operation n lib compiled doc name vs)"
proof (cases "gl_operation lib doc name")
  case None
  then show ?thesis by (intro exI [of _ 0]) (simp add: build_operation_def)
next
  case (Some qo)
  obtain n where n: "returns_within (qd_fragments doc) n (qo_selections qo)"
    using returns_within_some [OF assms] by blast
  have ret: "build_fields n b ty [qo_selections qo] [] [] \<noteq> Inl OutOfFuel" if "bd_fragments b = qd_fragments doc" for b ty
    by (rule build_fields_returns) (use n that in auto)
  have stable: "build_fields (n + m) b ty [qo_selections qo] [] [] = build_fields n b ty [qo_selections qo] [] []"
    if "bd_fragments b = qd_fragments doc" for b ty m
    by (rule build_fields_stable [OF ret [OF that]]) simp
  show ?thesis
    by (intro exI [of _ n]) (auto simp: build_operation_def Some ret stable bind_res_Inl_iff split: option.splits sum.splits)
qed

definition ex_fragment_doc :: query_document where
  "ex_fragment_doc = \<lparr>qd_operations = [\<lparr>qo_name = ''q'', qo_kind = OpQuery, qo_selections = [QSpread ''A'' []]\<rparr>],
     qd_fragments = [\<lparr>fg_name = ''A'', fg_type_condition = ''Query'', fg_selections = [QSpread ''B'' []]\<rparr>,
                     \<lparr>fg_name = ''B'', fg_type_condition = ''Query'', fg_selections = []\<rparr>]\<rparr>"

lemma build_operation_returns_witness:
  "\<exists>n. build_operation n ex_gql ex_compiled ex_fragment_doc ''q'' [] \<noteq> Inl OutOfFuel"
  using build_operation_returns [of "\<lambda>n. if n = ''A'' then 1 else 0" ex_fragment_doc ex_gql ex_compiled "''q''" "[]"]
  by (auto simp: ex_fragment_doc_def no_fragment_cycles_def)

section \<open>Running the fetches\<close>


definition ex_providers :: providers where
  "ex_providers = [''s1'' \<mapsto> (\<lambda>r. Inr \<lparr>pr_data = [(''person'', JObj [(''name'', JStr ''Ann'')])], pr_errors = []\<rparr>)]"

definition ex_fetch :: "string \<Rightarrow> fetch" where
  "ex_fetch sid = \<lparr>ft_schema_id = sid, ft_query = ''q'', ft_variables = [], ft_fields = [''person.name''], ft_consumer = [],
     ft_key = sid, ft_root = SelNode '''' [] [], ft_args = []\<rparr>"

text \<open>The run of two fetches, the second without a provider, up to the overlap of their writes.\<close>

definition ex_outcome :: fetch_result where
  "ex_outcome = fetch_outcome ex_providers (ex_fetch ''s1'')"

definition ex_race :: exec_state where
  "ex_race = \<lparr>ex_next = 1, ex_loop_writes = True, ex_workers = [0 \<mapsto> Writing ex_outcome], ex_lock = Some 0,
     ex_results = Map.empty, ex_calls = [0], ex_audits = [0]\<rparr>"

lemma ex_race_reachable: "exec_reachable ex_providers [ex_fetch ''s1'', ex_fetch ''s2''] ex_race"
proof -
  let ?fts = "[ex_fetch ''s1'', ex_fetch ''s2'']"
  let ?s1 = "exec_start\<lparr>ex_next := 1, ex_workers := [0 \<mapsto> Calling]\<rparr>"
  let ?s2 = "?s1\<lparr>ex_workers := [0 \<mapsto> Returned ex_outcome], ex_calls := [0]\<rparr>"
  let ?s3 = "?s2\<lparr>ex_workers := [0 \<mapsto> Audited ex_outcome], ex_audits := [0]\<rparr>"
  let ?s4 = "?s3\<lparr>ex_workers := [0 \<mapsto> Writing ex_outcome], ex_lock := Some 0\<rparr>"
  have s1: "exec_step ex_providers ?fts exec_start ?s1"
    using spawn [of exec_start ?fts ex_providers] by (simp add: exec_start_def ex_providers_def ex_fetch_def)
  have s2: "exec_step ex_providers ?fts ?s1 ?s2"
    using call [of ?s1 0 ex_providers ?fts] by (simp add: exec_start_def ex_outcome_def)
  have s3: "exec_step ex_providers ?fts ?s2 ?s3"
    using exec_step.audit [of ?s2 0 ex_outcome ex_providers ?fts] by (simp add: exec_start_def)
  have s4: "exec_step ex_providers ?fts ?s3 ?s4"
    using lock [of ?s3 0 ex_outcome ex_providers ?fts] by (simp add: exec_start_def)
  have s5: "exec_step ex_providers ?fts ?s4 ex_race"
    using missing_begin [of ?s4 ?fts ex_providers] by (simp add: exec_start_def ex_race_def ex_providers_def ex_fetch_def)
  show ?thesis
    by (rule exec_next [OF exec_next [OF exec_next [OF exec_next [OF exec_next [OF exec_init s1] s2] s3] s4] s5])
qed


text \<open>
  The writes to the shared results map never overlap when every fetch has a provider:
  the mutex orders the goroutines.
\<close>

theorem locked_writes_exclude:
  assumes "exec_reachable provs fts s" "list_all (\<lambda>f. provs (ft_schema_id f) \<noteq> None) fts"
  shows "\<not> writes_overlap s"
proof
  assume "writes_overlap s"
  then obtain i r where i: "ex_workers s i = Some (Writing r)"
    and o': "ex_loop_writes s \<or> (\<exists>j q. j \<noteq> i \<and> ex_workers s j = Some (Writing q))"
    by (auto simp: writes_overlap_def)
  have "\<not> ex_loop_writes s"
    using exec_inv_reachable [OF assms(1)] assms(2) by (auto simp: exec_inv_def list_all_length)
  then show False using o' writers_exclude [OF assms(1) i] by metis
qed

lemma locked_writes_exclude_witness: "\<not> writes_overlap exec_start"
  using locked_writes_exclude [OF exec_init, of ex_providers "[ex_fetch ''s1'']"]
  by (simp add: ex_providers_def ex_fetch_def)

text \<open>
  A fetch without a provider is recorded outside the mutex: the loop's write to the
  results map can overlap the write of a goroutine that was started before.
\<close>

theorem missing_provider_write_races:
  "exec_reachable ex_providers [ex_fetch ''s1'', ex_fetch ''s2''] ex_race \<and> writes_overlap ex_race"
  using ex_race_reachable by (simp add: writes_overlap_def ex_race_def)

section \<open>Merging\<close>

text \<open>
  C19. The merged response has the shape of the query: when there is data, it has one entry
  per selected field under its response key and in query order, recursively, and no null in
  place of a non-null field or of a non-null item of a list of objects; when there is none, an
  error says why.
\<close>

theorem merge_shape:
  assumes "build_operation fuel lib compiled doc name vs = Inr op"
  shows "case gr_data (merge sprint op p results) of
      None \<Rightarrow> gr_errors (merge sprint op p results) \<noteq> []
    | Some obj \<Rightarrow> conforms_object (op_fields op) obj"
proof -
  let ?m = "\<lparr>mg_fetches = p_fetches p, mg_sources = p_sources p, mg_results = results\<rparr>"
  obtain r errs where r: "merge_object ?m (op_fields op) ''Query'' None [] [] = (r, errs)" by (metis surj_pair)
  have "reports [] (r = None) errs" by (rule merge_object_facts(1) [OF r])
  moreover have "conforms_object (op_fields op) obj" if "r = Some obj" for obj
    by (rule merge_object_facts(2) [OF r build_operation_wf [OF assms] that])
  ultimately show ?thesis by (auto simp: merge_def r Let_def reports_def split: option.splits)
qed

definition ex_built :: operation where
  "ex_built = \<lparr>op_fields = [ex_name], op_variables = Map.empty\<rparr>"

lemma ex_build: "build_operation 1 ex_gql ex_compiled ex_doc '''' [] = Inr ex_built"
  by (simp add: build_operation_def ex_gql_def ex_doc_def ex_compiled_def ex_built_def included_def directive_for_name_def
      build_field_def coerce_arguments_def coerce_argument_def has_value_def append_path_def source_info_of_def Let_def ex_defs)

lemma merge_shape_witness:
  "case gr_data (merge (\<lambda>_. '''') ex_built ex_plan [0 \<mapsto> failed_fetch ''down'']) of
     None \<Rightarrow> gr_errors (merge (\<lambda>_. '''') ex_built ex_plan [0 \<mapsto> failed_fetch ''down'']) \<noteq> []
   | Some obj \<Rightarrow> conforms_object (op_fields ex_built) obj"
  by (rule merge_shape [OF ex_build])

text \<open>
  Every error in the response of a provider that answered is passed on, with the
  provider-error code, at the path of the first consumer field the fetch serves whose provider
  path overlaps the error's, or without a path.
\<close>

theorem provider_errors_passed_on:
  assumes "i < length (p_fetches p)" "results i = Some r" "fr_err r = None" "raw \<in> set (pr_errors (fr_response r))"
  shows "\<exists>e \<in> set (gr_errors (merge sprint op p results)).
    ee_message e = Text (''Provider for schema '' @ ft_schema_id (p_fetches p ! i) @ '': '' @ fst (provider_error sprint raw)) \<and>
    ee_extensions e = [(''code'', JStr ''PROVIDER_ERROR'')] \<and>
    ee_path e = (case find (\<lambda>f. paths_overlap (snd (provider_error sprint raw)) (dotted (provider_field_of f)))
                        (ft_consumer (p_fetches p ! i)) of None \<Rightarrow> [] | Some f \<Rightarrow> map JStr (of_path f))"
proof (rule bexI [of _ "passed_error sprint (p_fetches p ! i) raw"])
  have "(i, p_fetches p ! i) \<in> set (enumerate 0 (p_fetches p))"
    using assms(1) by (auto simp: in_set_enumerate_eq)
  then have "passed_error sprint (p_fetches p ! i) raw \<in>
      set (provider_errors sprint \<lparr>mg_fetches = p_fetches p, mg_sources = p_sources p, mg_results = results\<rparr>)"
    unfolding provider_errors_def set_concat set_map by (intro UN_I) (use assms(2-4) in auto)
  then show "passed_error sprint (p_fetches p ! i) raw \<in> set (gr_errors (merge sprint op p results))"
    by (simp add: merge_def Let_def split: prod.splits)
qed (auto simp: passed_error_def field_error_def CodeProviderError_def strings_to_any_def split: prod.splits option.splits)

lemma provider_errors_passed_on_witness:
  "\<exists>e \<in> set (gr_errors (merge (\<lambda>_. '''') ex_built ex_plan
       [0 \<mapsto> \<lparr>fr_response = \<lparr>pr_data = [], pr_errors = [JObj [(''message'', JStr ''boom'')]]\<rparr>, fr_err = None\<rparr>])).
    ee_message e = Text ''Provider for schema s1: boom''"
proof -
  have "0 < length (p_fetches ex_plan)" "ft_schema_id (p_fetches ex_plan ! 0) = ''s1''" by code_simp+
  moreover have "fst (provider_error (\<lambda>_. '''') (JObj [(''message'', JStr ''boom'')])) = ''boom''"
    by (simp add: provider_error_def obj_get_def)
  moreover obtain e where "e \<in> set (gr_errors (merge (\<lambda>_. '''') ex_built ex_plan
       [0 \<mapsto> \<lparr>fr_response = \<lparr>pr_data = [], pr_errors = [JObj [(''message'', JStr ''boom'')]]\<rparr>, fr_err = None\<rparr>]))"
    "ee_message e = Text (''Provider for schema '' @ ft_schema_id (p_fetches ex_plan ! 0) @ '': ''
       @ fst (provider_error (\<lambda>_. '''') (JObj [(''message'', JStr ''boom'')])))"
    using provider_errors_passed_on [of 0 ex_plan
        "[0 \<mapsto> \<lparr>fr_response = \<lparr>pr_data = [], pr_errors = [JObj [(''message'', JStr ''boom'')]]\<rparr>, fr_err = None\<rparr>]" _
        "JObj [(''message'', JStr ''boom'')]" "\<lambda>_. ''''" ex_built, OF calculation(1) fun_upd_same] by auto
  ultimately show ?thesis by (intro bexI [of _ e]) simp_all
qed

text \<open>
  A null item of a list of scalars is returned as it is, although the items of the
  field's type are non-null: only lists of objects have their items completed.
\<close>

theorem scalar_list_nulls_kept:
  "merge_value \<lparr>mg_fetches = [ex_fetch ''s1''], mg_sources = [[''tags''] \<mapsto> 0],
       mg_results = [0 \<mapsto> \<lparr>fr_response = \<lparr>pr_data = [(''tags'', JArr [JNull])], pr_errors = []\<rparr>, fr_err = None\<rparr>]\<rparr>
     ''Query'' None []
     (OpField ''tags'' ''tags'' [''tags''] [''tags''] []
        \<lparr>fd_name = ''tags'', fd_args = [], fd_type = ListType (NamedType ''String'' True) True, fd_directives = []\<rparr>
        (Some \<lparr>si_schema_id = ''s1'', si_provider_field = ''tags''\<rparr>) []) [] =
   ((JArr [JNull], False), [])"
  by code_simp

section \<open>Access\<close>

fun is_call :: "event \<Rightarrow> bool" where
  "is_call (CalledProvider _ _) = True"
| "is_call _ = False"

text \<open>
  What the events must show before a provider may be called: with a PDP configured, its answer
  for exactly the plan's fields, authorized and not expired, and, when it asks for the owner's
  consent, an approved consent for exactly the fields it names.
\<close>

definition access_granted :: "'s federator \<Rightarrow> string \<Rightarrow> string \<Rightarrow> oe_required_field list \<Rightarrow> event list \<Rightarrow> bool" where
  "access_granted f app_id owner_id requested es \<longleftrightarrow>
     (case fd_policy f of
        None \<Rightarrow> True
      | Some _ \<Rightarrow>
          \<exists>resp. Recorded (PolicyCheck app_id \<lparr>pq_app_id = app_id, pq_required_fields = requested\<rparr> (Inr (Some resp))) \<in> set es
            \<and> px_authorized resp \<and> \<not> px_access_expired resp
            \<and> (px_requires_consent resp \<longrightarrow> px_consent_fields resp \<noteq> [] \<and>
                (\<exists>ce. Recorded (ConsentCheck app_id owner_id (consent_request app_id owner_id (px_consent_fields resp))
                        (Inr (Some ce))) \<in> set es \<and> ocs_status ce = ''approved'')))"

lemma check_policy_events:
  assumes "check_policy f app_id requested (s, es) = (r, (s', es'))"
  obtains extra where "es' = es @ extra" "\<not> list_ex is_call extra"
    "case r of
       Inl resp \<Rightarrow> gr_data resp = None
     | Inr None \<Rightarrow> fd_policy f = None
     | Inr (Some resp) \<Rightarrow> px_authorized resp \<and> \<not> px_access_expired resp \<and>
         Recorded (PolicyCheck app_id \<lparr>pq_app_id = app_id, pq_required_fields = requested\<rparr> (Inr (Some resp))) \<in> set extra"
proof (cases "fd_policy f")
  case None
  then show thesis using assms that [of "[]"] by (auto simp: check_policy_def)
next
  case (Some decider)
  let ?q = "\<lparr>pq_app_id = app_id, pq_required_fields = requested\<rparr>"
  obtain answer s1 where a: "decider ?q s = (answer, s1)" by (metis surj_pair)
  show thesis
    by (rule that [of "[AskedPolicy ?q, Recorded (PolicyCheck app_id ?q answer)]"])
      (use assms a Some in \<open>auto simp: check_policy_def ask_def audit_def Let_def reject_def reject_with_code_def
        create_error_response_def create_error_response_with_code_def split: sum.splits option.splits if_splits\<close>)
qed

lemma check_consent_events:
  assumes "check_consent f app_id owner_id resp (s, es) = (r, (s', es'))"
  obtains extra where "es' = es @ extra" "\<not> list_ex is_call extra"
    "case r of
       Some d \<Rightarrow> gr_data d = None
     | None \<Rightarrow> px_consent_fields resp \<noteq> [] \<and>
         (\<exists>ce. Recorded (ConsentCheck app_id owner_id (consent_request app_id owner_id (px_consent_fields resp)) (Inr (Some ce)))
            \<in> set extra \<and> ocs_status ce = ''approved'')"
proof (cases "px_consent_fields resp = [] \<or> fd_consent f = None")
  case True
  then show thesis using assms that [of "[]"]
    by (auto simp: check_consent_def reject_with_code_def create_error_response_def create_error_response_with_code_def
        split: if_splits)
next
  case False
  then obtain requester where c: "fd_consent f = Some requester" by auto
  let ?q = "consent_request app_id owner_id (px_consent_fields resp)"
  obtain answer s1 where a: "requester ?q s = (answer, s1)" by (metis surj_pair)
  show thesis
    by (rule that [of "[AskedConsent ?q, Recorded (ConsentCheck app_id owner_id ?q answer)]"])
      (use assms a c False in \<open>auto simp: check_consent_def ask_def audit_def Let_def reject_def reject_with_code_def
        create_error_response_def create_error_response_with_code_def oe_StatusApproved_def
        split: sum.splits option.splits if_splits\<close>)
qed

lemma authorize_access_events:
  assumes "authorize_access f app_id requested owner_id (s, es) = (r, (s', es'))"
  obtains extra where "es' = es @ extra" "\<not> list_ex is_call extra"
    "case r of Some d \<Rightarrow> gr_data d = None | None \<Rightarrow> access_granted f app_id owner_id requested extra"
proof -
  obtain r1 s1 es1 where p: "check_policy f app_id requested (s, es) = (r1, (s1, es1))" by (metis surj_pair)
  obtain x1 where x1: "es1 = es @ x1" "\<not> list_ex is_call x1"
    "case r1 of Inl resp \<Rightarrow> gr_data resp = None | Inr None \<Rightarrow> fd_policy f = None
     | Inr (Some resp) \<Rightarrow> px_authorized resp \<and> \<not> px_access_expired resp \<and>
         Recorded (PolicyCheck app_id \<lparr>pq_app_id = app_id, pq_required_fields = requested\<rparr> (Inr (Some resp))) \<in> set x1"
    using p by (rule check_policy_events)
  show thesis
  proof (cases "\<exists>resp. r1 = Inr (Some resp) \<and> px_requires_consent resp")
    case False
    then have r: "r = (case r1 of Inl d \<Rightarrow> Some d | Inr _ \<Rightarrow> None)" "es' = es1"
      using assms p by (auto simp: authorize_access_def split: sum.splits option.splits if_splits)
    have "access_granted f app_id owner_id requested x1" if "r = None"
      using that r(1) x1(3) False unfolding access_granted_def by (cases r1) (auto split: option.splits)
    moreover have "gr_data d = None" if "r = Some d" for d
      using that r(1) x1(3) by (cases r1) auto
    ultimately show thesis using that [of x1] x1(1,2) r(2) by (simp split: option.splits)
  next
    case True
    then obtain resp where resp: "r1 = Inr (Some resp)" "px_requires_consent resp" by blast
    then have c: "check_consent f app_id owner_id resp (s1, es1) = (r, (s', es'))"
      using assms p by (simp add: authorize_access_def)
    obtain x2 where x2: "es' = es1 @ x2" "\<not> list_ex is_call x2"
      "case r of Some d \<Rightarrow> gr_data d = None
       | None \<Rightarrow> px_consent_fields resp \<noteq> [] \<and>
           (\<exists>ce. Recorded (ConsentCheck app_id owner_id (consent_request app_id owner_id (px_consent_fields resp)) (Inr (Some ce)))
              \<in> set x2 \<and> ocs_status ce = ''approved'')"
      using c by (rule check_consent_events)
    show thesis
    proof (rule that [of "x1 @ x2"])
      show "case r of Some d \<Rightarrow> gr_data d = None | None \<Rightarrow> access_granted f app_id owner_id requested (x1 @ x2)"
        using x1(3) x2(3) resp by (auto simp: access_granted_def split: option.splits)
    qed (use x1(1,2) x2(1,2) in auto)
  qed
qed

lemma run_fetches_events:
  "\<exists>extra. snd (run_fetches f app_id fts w) = snd w @ extra \<and>
     (\<forall>sid r. CalledProvider sid r \<in> set extra \<longrightarrow> (\<exists>ft \<in> set fts. sid = ft_schema_id ft \<and> r = fetch_request ft))"
proof (induction fts arbitrary: w)
  case Nil
  show ?case by (simp add: run_fetches_def)
next
  case (Cons ft fts)
  obtain x where x: "snd (run_fetch f app_id ft w) = snd w @ x"
    "\<forall>sid r. CalledProvider sid r \<in> set x \<longrightarrow> sid = ft_schema_id ft \<and> r = fetch_request ft"
  proof (cases "fd_providers f (ft_schema_id ft)")
    case None
    then show thesis using that [of "[]"] by (simp add: run_fetch_def)
  next
    case (Some client)
    let ?pf = "\<lparr>pf_application_id = app_id, pf_schema_id = ft_schema_id ft, pf_query = ft_query ft,
                 pf_requested_fields = ft_fields ft\<rparr>"
    show thesis
      by (rule that [of "[CalledProvider (ft_schema_id ft) (fetch_request ft), Recorded (ProviderFetched ?pf (client (fetch_request ft)))]"])
        (use Some in \<open>auto simp: run_fetch_def record_event_def audit_def split: prod.splits\<close>)
  qed
  obtain y where y: "snd (run_fetches f app_id fts (run_fetch f app_id ft w)) = snd (run_fetch f app_id ft w) @ y"
    "\<forall>sid r. CalledProvider sid r \<in> set y \<longrightarrow> (\<exists>ft \<in> set fts. sid = ft_schema_id ft \<and> r = fetch_request ft)"
    using Cons.IH by blast
  show ?case by (rule exI [of _ "x @ y"]) (use x y in \<open>auto simp: run_fetches_def\<close>)
qed


text \<open>An example federator: it authorizes with consent, and the consent is approved.\<close>

definition ex_pdp_answer :: pdp_response where
  "ex_pdp_answer = \<lparr>px_authorized = True, px_unauthorized_fields = [], px_access_expired = False, px_expired_fields = [],
     px_requires_consent = True,
     px_consent_fields = [\<lparr>crf_field_name = ''person.name'', crf_schema_id = ''s1'', crf_display_name = None,
       crf_description = None, crf_owner = None\<rparr>]\<rparr>"

definition ex_federator :: "string \<Rightarrow> unit federator" where
  "ex_federator status = \<lparr>fd_providers = ex_providers, fd_schemas = (\<lambda>_. Inr ex_compiled),
     fd_policy = Some (\<lambda>q s. (Inr (Some ex_pdp_answer), s)),
     fd_consent = Some (\<lambda>q s. (Inr (Some \<lparr>ocs_consent_id = ''c'', ocs_status = status, ocs_portal_url = None, ocs_fields = None\<rparr>), s)),
     fd_auditor = noop_auditor, fd_id_arg = ''nic'', fd_mappings = [Some (ex_mapping ''name'')], fd_types = Map.empty\<rparr>"

definition ex_fed_lib :: fed_lib where
  "ex_fed_lib = \<lparr>fl_gql = ex_gql, fl_plan = ex_plan_lib, fl_sprint = (\<lambda>_. '''')\<rparr>"

definition ex_request :: graphql_request where
  "ex_request = \<lparr>rq_query = ''{name}'', rq_variables = [], rq_operation_name = ''''\<rparr>"

definition ex_consumer :: consumer where
  "ex_consumer = \<lparr>ca_application_id = ''app'', ca_client_id = ''app'', ca_subscriber = ''u''\<rparr>"

definition ex_run :: "string \<Rightarrow> graphql_response \<times> unit world" where
  "ex_run status = federate_query 1 ex_fed_lib (ex_federator status) ex_request ex_consumer ((), [])"




end
