(* ===== verification/System.thy ===== *)
theory System
  imports PDP_Properties CE_Properties OE_Properties PDP_Handler CE_Handlers
begin

text \<open>
  The three services together: a federator whose clients talk to the Policy Decision Point's
  and to the Consent Engine's handlers, each on its own table. What the federator relies on is
  stated as two interfaces, a policy gate and a consent gate; the clients over the modelled
  services are instances of them.
\<close>

section \<open>Interfaces\<close>

text \<open>The field a consent field names.\<close>

definition crf_name :: "consent_required_field \<Rightarrow> oe_required_field" where
  "crf_name f = \<lparr>orf_field_name = crf_field_name f, orf_schema_id = crf_schema_id f\<rparr>"

definition ocf_name :: "oe_consent_field \<Rightarrow> oe_required_field" where
  "ocf_name f = \<lparr>orf_field_name = ocf_field_name f, orf_schema_id = ocf_schema_id f\<rparr>"

text \<open>
  An answer that lets the application in means that every field of the request is granted to
  it, and names every field that the data owner controls as requiring consent. \<open>ok\<close> is what
  the request and the state must satisfy.
\<close>

locale policy_gate =
  fixes decider :: "'s policy_decider"
    and ok :: "'s \<Rightarrow> pdp_request \<Rightarrow> bool"
    and grants :: "'s \<Rightarrow> string \<Rightarrow> oe_required_field \<Rightarrow> bool"
    and owner_controlled :: "'s \<Rightarrow> oe_required_field \<Rightarrow> bool"
  assumes authorized_grants:
      "decider q s = (Inr (Some resp), s') \<Longrightarrow> ok s q \<Longrightarrow> px_authorized resp \<Longrightarrow> \<not> px_access_expired resp \<Longrightarrow>
       r \<in> set (pq_required_fields q) \<Longrightarrow> grants s (pq_app_id q) r"
    and names_controlled:
      "decider q s = (Inr (Some resp), s') \<Longrightarrow> ok s q \<Longrightarrow> px_authorized resp \<Longrightarrow> \<not> px_access_expired resp \<Longrightarrow>
       r \<in> set (pq_required_fields q) \<Longrightarrow> owner_controlled s r \<Longrightarrow>
       px_requires_consent resp \<and> r \<in> crf_name ` set (px_consent_fields resp)"

text \<open>An approved answer means that the state has an approved consent for the requested fields.\<close>

locale consent_gate =
  fixes requester :: "'s consent_requester"
    and approved :: "'s \<Rightarrow> string \<Rightarrow> string \<Rightarrow> oe_consent_field list \<Rightarrow> bool"
  assumes approved_stored:
      "requester q s = (Inr (Some ce), s') \<Longrightarrow> ocs_status ce = ''approved'' \<Longrightarrow>
       approved s' (ocr_app_id q) (ocq_owner_id (ocr_requirement q)) (ocq_fields (ocr_requirement q))"

text \<open>A federator over both gates, whose auditor leaves the services alone.\<close>

locale gated_federator = policy_gate decider ok grants owner_controlled + consent_gate requester approved
  for decider :: "'s policy_decider" and ok grants owner_controlled
    and requester :: "'s consent_requester" and approved +
  fixes fed :: "'s federator"
  assumes gates: "fd_policy fed = Some decider" "fd_consent fed = Some requester"
    and auditor: "fd_auditor fed e s = s"
begin

lemma ocf_name_to_consent_field: "ocf_name (to_consent_field f) = crf_name f"
  by (simp add: ocf_name_def to_consent_field_def crf_name_def)

lemma access_protects:
  assumes run: "authorize_access fed app requested owner_id (s, es) = (None, (s', es'))"
    and ok: "ok s \<lparr>pq_app_id = app, pq_required_fields = requested\<rparr>" and r: "r \<in> set requested"
  shows "grants s app r \<and> (owner_controlled s r \<longrightarrow> (\<exists>flds. approved s' app owner_id flds \<and> r \<in> ocf_name ` set flds))"
proof -
  let ?q = "\<lparr>pq_app_id = app, pq_required_fields = requested\<rparr>"
  obtain answer s1 where a: "decider ?q s = (answer, s1)" by (metis surj_pair)
  obtain resp where resp: "answer = Inr (Some resp)" "px_authorized resp" "\<not> px_access_expired resp"
    using run a gates by (auto simp: authorize_access_def check_policy_def ask_def audit_def Let_def
        split: sum.splits option.splits if_splits)
  note d = a [unfolded resp(1)]
  have "grants s app r" using authorized_grants [OF d ok resp(2,3)] r by simp
  moreover have "\<exists>flds. approved s' app owner_id flds \<and> r \<in> ocf_name ` set flds" if oc: "owner_controlled s r"
  proof -
    let ?c = "consent_request app owner_id (px_consent_fields resp)"
    have nm: "px_requires_consent resp" "r \<in> crf_name ` set (px_consent_fields resp)"
      using names_controlled [OF d ok resp(2,3) _ oc] r by simp_all
    obtain canswer s2 where c: "requester ?c s1 = (canswer, s2)" by (metis surj_pair)
    obtain ce where ce: "canswer = Inr (Some ce)" "ocs_status ce = ''approved''" "s' = s2"
      using run d c nm(1) gates auditor resp(2,3)
      by (auto simp: authorize_access_def check_policy_def check_consent_def ask_def audit_def Let_def oe_StatusApproved_def
          split: sum.splits option.splits if_splits)
    have "approved s' app owner_id (map to_consent_field (px_consent_fields resp))"
      using approved_stored [OF c [unfolded ce(1)] ce(2)] by (simp add: ce(3) consent_request_def)
    moreover have "r \<in> ocf_name ` set (map to_consent_field (px_consent_fields resp))"
      using nm(2) by (simp add: image_image ocf_name_to_consent_field)
    ultimately show ?thesis by blast
  qed
  ultimately show ?thesis by blast
qed

end

section \<open>The modelled services\<close>

record system =
  sy_pdp :: pdp_table
  sy_ce :: consent_table

definition to_field_request :: "oe_required_field \<Rightarrow> field_request" where
  "to_field_request r = \<lparr>fr_field_name = orf_field_name r, fr_schema_id = orf_schema_id r\<rparr>"

definition to_decision_request :: "pdp_request \<Rightarrow> decision_request" where
  "to_decision_request q =
     \<lparr>dr_application_id = pq_app_id q, dr_required_fields = map to_field_request (pq_required_fields q)\<rparr>"

definition from_decision_field :: "decision_field \<Rightarrow> consent_required_field" where
  "from_decision_field f =
     \<lparr>crf_field_name = df_field_name f, crf_schema_id = df_schema_id f, crf_display_name = df_display_name f,
      crf_description = df_description f, crf_owner = df_owner f\<rparr>"

definition from_decision_response :: "decision_response \<Rightarrow> pdp_response" where
  "from_decision_response d =
     \<lparr>px_authorized = ds_app_authorized d, px_unauthorized_fields = map from_decision_field (ds_unauthorized_fields d),
      px_access_expired = ds_app_access_expired d, px_expired_fields = map from_decision_field (ds_expired_fields d),
      px_requires_consent = ds_app_requires_owner_consent d,
      px_consent_fields = map from_decision_field (ds_consent_required_fields d)\<rparr>"

text \<open>
  The wire: a request reaches the handler, or the network is down; the JSON of a body has the
  same property names on both sides, so a decoded body is the value field by field.
\<close>

definition reply_result :: "('b \<Rightarrow> 'r) \<Rightarrow> ('b, 'e) reply \<Rightarrow> 'r http_result" where
  "reply_result g rep =
     \<lparr>hr_status = status_code rep, hr_text = '''',
      hr_decoded = (case reply_body rep of None \<Rightarrow> Inl ''not the expected body'' | Some b \<Rightarrow> Inr (g b))\<rparr>"

definition pdp_channel ::
  "bool \<Rightarrow> policy_engine \<Rightarrow> pdp_env \<Rightarrow> (pdp_request, decision_request, pdp_response, system) http_channel" where
  "pdp_channel down e env =
     \<lparr>hc_marshal = (\<lambda>q. Inr (to_decision_request q)), hc_new_request = (\<lambda>url. Inr ()),
      hc_do = (\<lambda>url body s. if down then (Inl ''connection refused'', s)
         else (Inr (reply_result from_decision_response (handle_get_policy_decision e env (Some body) (sy_pdp s))), s))\<rparr>"

definition to_ce_field :: "oe_consent_field \<Rightarrow> consent_field" where
  "to_ce_field f =
     \<lparr>cf_field_name = ocf_field_name f, cf_schema_id = ocf_schema_id f, cf_display_name = ocf_display_name f,
      cf_description = ocf_description f, cf_owner = ocf_owner f\<rparr>"

definition from_ce_field :: "consent_field \<Rightarrow> oe_consent_field" where
  "from_ce_field f =
     \<lparr>ocf_field_name = cf_field_name f, ocf_schema_id = cf_schema_id f, ocf_display_name = cf_display_name f,
      ocf_description = cf_description f, ocf_owner = cf_owner f\<rparr>"

definition to_ce_request :: "oe_consent_request \<Rightarrow> create_consent_request" where
  "to_ce_request q =
     \<lparr>cq_app_id = ocr_app_id q, cq_app_name = ocr_app_name q,
      cq_requirement = \<lparr>rq_owner = ocq_owner (ocr_requirement q), rq_owner_id = ocq_owner_id (ocr_requirement q),
                        rq_fields = map to_ce_field (ocq_fields (ocr_requirement q))\<rparr>,
      cq_grant_duration = ocr_grant_duration q, cq_consent_type = ocr_consent_type q\<rparr>"

definition from_ce_view :: "internal_view \<Rightarrow> oe_consent_response" where
  "from_ce_view v =
     \<lparr>ocs_consent_id = iv_consent_id v, ocs_status = iv_status v, ocs_portal_url = iv_portal_url v,
      ocs_fields = map_option (map from_ce_field) (iv_fields v)\<rparr>"

definition ce_channel ::
  "bool \<Rightarrow> ce_env \<Rightarrow> bool \<Rightarrow> (oe_consent_request, create_consent_request, oe_consent_response, system) http_channel" where
  "ce_channel down env ctx_err =
     \<lparr>hc_marshal = (\<lambda>q. Inr (to_ce_request q)), hc_new_request = (\<lambda>url. Inr ()),
      hc_do = (\<lambda>url body s. if down then (Inl ''connection refused'', s)
         else case handle_internal_create_consent env ctx_err ''POST'' (Inr body) (sy_ce s) of
           (rep, t) \<Rightarrow> (Inr (reply_result from_ce_view rep), s\<lparr>sy_ce := t\<rparr>))\<rparr>"

section \<open>The gates hold\<close>

definition pdp_request_ok :: "system \<Rightarrow> pdp_request \<Rightarrow> bool" where
  "pdp_request_ok s q \<longleftrightarrow> table_ok pm_clash (sy_pdp s) \<and> schema_ids_ok (sy_pdp s) \<and>
     list_all (\<lambda>r. colon_free (orf_schema_id r)) (pq_required_fields q)"

text \<open>A row of a known class grants the field to the application at a time of the PDP's clock.\<close>

definition pdp_grants :: "pdp_env \<Rightarrow> system \<Rightarrow> string \<Rightarrow> oe_required_field \<Rightarrow> bool" where
  "pdp_grants env s app r \<longleftrightarrow>
     (\<exists>pm \<in> set (sy_pdp s). names_field (to_field_request r) pm \<and>
        pm_policy_class pm \<in> {ClassAllowlist, ClassAllowlistConsent} \<and> (\<exists>i. grant_valid (pe_clock env i) app pm))"

definition pdp_owner_controlled :: "system \<Rightarrow> oe_required_field \<Rightarrow> bool" where
  "pdp_owner_controlled s r \<longleftrightarrow>
     (\<exists>pm \<in> set (sy_pdp s). names_field (to_field_request r) pm \<and> pm_policy_class pm = ClassAllowlistConsent)"

text \<open>An approved consent that has not expired by the Consent Engine's clock.\<close>

definition ce_approved :: "ce_env \<Rightarrow> system \<Rightarrow> string \<Rightarrow> string \<Rightarrow> oe_consent_field list \<Rightarrow> bool" where
  "ce_approved env s app owner_id flds \<longleftrightarrow>
     (\<exists>c \<in> set (sy_ce s). cn_owner_id c = owner_id \<and> cn_app_id c = app \<and> cn_status c = StatusApproved \<and>
        cn_fields c = map to_ce_field flds \<and> \<not> fst (mark_expired_if_stale c (ce_clock env AtView)))"

lemma make_pdp_request_Inr:
  assumes "make_pdp_request (pdp_channel down e env) url q s = (Inr (Some resp), s')"
  obtains d where "get_policy_decision e env (to_decision_request q) (sy_pdp s) = Inr d" "resp = from_decision_response d"
  using assms
  by (auto simp: make_pdp_request_def post_json_def pdp_channel_def reply_result_def handle_get_policy_decision_def reply_defs
      split: if_splits sum.splits)

text \<open>What an answer that lets the application in says of the rows of the requested fields.\<close>

lemma authorized_row:
  assumes ok: "table_ok pm_clash t" "schema_ids_ok t" "request_colon_free req"
    and run: "get_policy_decision rego_engine env req t = Inr d" "ds_app_authorized d" "\<not> ds_app_access_expired d"
    and i: "i < length (dr_required_fields req)"
  obtains pm where "pm \<in> set t" "names_field (dr_required_fields req ! i) pm"
    "outcome_of rego_engine env (dr_application_id req) i pm \<notin> {OutcomeDeny, OutcomeExpired}"
    "outcome_of rego_engine env (dr_application_id req) i pm = OutcomeConsentRequired \<Longrightarrow>
      decision_field_of pm \<in> set (ds_consent_required_fields d) \<and> ds_app_requires_owner_consent d"
proof -
  note inr = get_policy_decision_Inr [OF run(1)]
  define rows where "rows = map the (decision_rows req t)"
  have len: "length rows = length (dr_required_fields req)" by (simp add: rows_def)
  have row: "rows ! i \<in> set t \<and> names_field (dr_required_fields req ! i) (rows ! i)"
    unfolding rows_def decision_row [OF ok i, symmetric] by (rule decision_row_some [OF inr(1) i])
  have flag: "ds_app_requires_owner_consent d \<longleftrightarrow> ds_consent_required_fields d \<noteq> []"
    using run(1) by (auto simp: get_policy_decision_eq Let_def split: if_splits)
  show thesis
  proof (rule that [of "rows ! i"])
    show "outcome_of rego_engine env (dr_application_id req) i (rows ! i) \<notin> {OutcomeDeny, OutcomeExpired}"
      using run(2,3) i unfolding inr(2,3) rows_def [symmetric] decided_empty_iff len by blast
    assume "outcome_of rego_engine env (dr_application_id req) i (rows ! i) = OutcomeConsentRequired"
    then have "decision_field_of (rows ! i) \<in> set (ds_consent_required_fields d)"
      using i unfolding inr(5) rows_def [symmetric] set_decided len by blast
    then show "decision_field_of (rows ! i) \<in> set (ds_consent_required_fields d) \<and> ds_app_requires_owner_consent d"
      using flag by auto
  qed (use row in blast)+
qed

lemma pdp_client_row:
  assumes "make_pdp_request (pdp_channel down rego_engine env) url q s = (Inr (Some resp), s')" "pdp_request_ok s q"
    and "px_authorized resp" "\<not> px_access_expired resp" "r \<in> set (pq_required_fields q)"
  obtains pm i where "pm \<in> set (sy_pdp s)" "names_field (to_field_request r) pm"
    "pm_policy_class pm \<in> {ClassAllowlist, ClassAllowlistConsent}" "grant_valid (pe_clock env i) (pq_app_id q) pm"
    "pm_policy_class pm = ClassAllowlistConsent \<Longrightarrow> px_requires_consent resp \<and> r \<in> crf_name ` set (px_consent_fields resp)"
proof -
  obtain d where d: "get_policy_decision rego_engine env (to_decision_request q) (sy_pdp s) = Inr d" "resp = from_decision_response d"
    using assms(1) by (rule make_pdp_request_Inr)
  have auth: "ds_app_authorized d" "\<not> ds_app_access_expired d" using assms(3,4) by (simp_all add: d(2) from_decision_response_def)
  have cf: "request_colon_free (to_decision_request q)"
    using assms(2) by (simp add: pdp_request_ok_def request_colon_free_def to_decision_request_def to_field_request_def list_all_iff)
  obtain i where i: "i < length (pq_required_fields q)" "pq_required_fields q ! i = r" using assms(5) by (auto simp: in_set_conv_nth)
  then have i': "i < length (dr_required_fields (to_decision_request q))"
    and fi: "dr_required_fields (to_decision_request q) ! i = to_field_request r"
    by (simp_all add: to_decision_request_def)
  obtain pm where pm: "pm \<in> set (sy_pdp s)" "names_field (to_field_request r) pm"
    "outcome_of rego_engine env (pq_app_id q) i pm \<notin> {OutcomeDeny, OutcomeExpired}"
    "outcome_of rego_engine env (pq_app_id q) i pm = OutcomeConsentRequired \<Longrightarrow>
      decision_field_of pm \<in> set (ds_consent_required_fields d) \<and> ds_app_requires_owner_consent d"
    using authorized_row [OF _ _ cf d(1) auth i'] assms(2) fi by (auto simp: pdp_request_ok_def to_decision_request_def)
  have cls: "pm_policy_class pm \<in> {ClassAllowlist, ClassAllowlistConsent}" "grant_valid (pe_clock env i) (pq_app_id q) pm"
    using pm(3) by (auto simp: outcome_rego_engine split: if_splits)
  show thesis
  proof (rule that [OF pm(1,2) cls])
    assume "pm_policy_class pm = ClassAllowlistConsent"
    then have "outcome_of rego_engine env (pq_app_id q) i pm = OutcomeConsentRequired"
      using cls pm(3) by (auto simp: outcome_rego_engine ClassAllowlist_def ClassAllowlistConsent_def split: if_splits)
    from pm(4) [OF this] show "px_requires_consent resp \<and> r \<in> crf_name ` set (px_consent_fields resp)"
      using pm(2) by (force simp: d(2) from_decision_response_def crf_name_def from_decision_field_def decision_field_of_def
          names_field_def to_field_request_def)
  qed
qed

text \<open>An approved answer of the Consent Engine is a consent that was in its table before.\<close>

lemma create_consent_approved:
  assumes "create_consent_record env req t = (Inr v, t')" "iv_status v = StatusApproved"
  obtains c where "c \<in> set t'" "answers req c" "cn_status c = StatusApproved"
    "\<not> fst (mark_expired_if_stale c (ce_clock env AtView))"
proof -
  let ?own = "rq_owner_id (cq_requirement req)" and ?new = "build_consent_record env req"
  have new: "iv_status (to_internal_view ?new) = StatusPending"
    by (simp add: to_internal_view_def build_consent_record_def Let_def)
  obtain res t1 where view: "get_consent_internal_view env None (Some ?own) (Some (cq_app_id req)) t = (res, t1)"
    by fastforce
  have "res = Inr v \<and> t' = t1 \<and> are_consent_fields_equal (iv_fields v) (Some (rq_fields (cq_requirement req)))"
    using assms new by (auto simp: create_consent_record_def view Let_def dest!: insert_consent_Inr revoke_and_create_Inr
        split: sum.splits prod.splits if_splits)
  then have eq: "res = Inr v" "t' = t1" "are_consent_fields_equal (iv_fields v) (Some (rq_fields (cq_requirement req)))" by blast+
  obtain c where c: "c \<in> set t" "cn_owner_id c = ?own" "cn_app_id c = cq_app_id req"
    "fst (mark_expired_if_stale c (ce_clock env AtView)) \<Longrightarrow> iv_status v = StatusExpired"
    "\<not> fst (mark_expired_if_stale c (ce_clock env AtView)) \<Longrightarrow> v = to_internal_view c \<and> t1 = t"
    using internal_view_Inr [OF view [unfolded eq(1)]] by blast
  have live: "\<not> fst (mark_expired_if_stale c (ce_clock env AtView))" using c(4) assms(2) by auto
  have "cn_status c = StatusApproved" "cn_fields c = rq_fields (cq_requirement req)"
    using c(5) [OF live] assms(2) eq(3) by (auto simp: to_internal_view_def)
  then show thesis using that [of c] c live eq(2) by (simp add: answers_def)
qed

lemma ce_client_approved:
  assumes "create_consent (ce_channel down env ctx_err) url q s = (Inr (Some ce), s')" "ocs_status ce = ''approved''"
  shows "ce_approved env s' (ocr_app_id q) (ocq_owner_id (ocr_requirement q)) (ocq_fields (ocr_requirement q))"
proof -
  obtain res t where c: "create_consent_record env (to_ce_request q) (sy_ce s) = (res, t)" by (metis surj_pair)
  have "\<exists>v. res = Inr v \<and> ce = from_ce_view v \<and> sy_ce s' = t"
    using assms(1) c
    by (auto simp: create_consent_def post_json_def ce_channel_def reply_result_def handle_internal_create_consent_def
        ce_reply_defs split: if_splits sum.splits)
  then obtain v where v: "res = Inr v" "ce = from_ce_view v" "sy_ce s' = t" by blast
  have "iv_status v = StatusApproved" using assms(2) by (simp add: v(2) from_ce_view_def StatusApproved_def)
  from create_consent_approved [OF c [unfolded v(1)] this] show ?thesis
    unfolding ce_approved_def by (auto simp: answers_def to_ce_request_def v(3))
qed

text \<open>The clients over the modelled services provide what the federator relies on.\<close>

interpretation pdp_gate: policy_gate
  "make_pdp_request (pdp_channel down rego_engine env) url" pdp_request_ok "pdp_grants env" pdp_owner_controlled
  for down env url
proof (unfold_locales, goal_cases)
  case (1 q s resp s' r)
  from pdp_client_row [OF this] show ?case unfolding pdp_grants_def by blast
next
  case (2 q s resp s' r)
  then have "table_ok pm_clash (sy_pdp s)" by (simp add: pdp_request_ok_def)
  with pdp_client_row [OF 2(1-5)] 2(6) show ?case
    unfolding pdp_owner_controlled_def using names_field_unique by metis
qed

interpretation ce_gate: consent_gate "create_consent (ce_channel down env ctx_err) url" "ce_approved env"
  for down env ctx_err url
  by unfold_locales (rule ce_client_approved)

text \<open>The federator as it is deployed with both services, without an auditor.\<close>

definition system_federator ::
  "bool \<Rightarrow> pdp_env \<Rightarrow> bool \<Rightarrow> ce_env \<Rightarrow> bool \<Rightarrow> providers \<Rightarrow> compiled_schema \<Rightarrow> string \<Rightarrow> arg_mapping option list \<Rightarrow> target_types \<Rightarrow> system federator" where
  "system_federator pdp_down penv ce_down cenv ctx_err provs schema id_arg mappings types =
     \<lparr>fd_providers = provs, fd_schemas = (\<lambda>_. Inr schema),
      fd_policy = Some (make_pdp_request (pdp_channel pdp_down rego_engine penv) ''http://pdp''),
      fd_consent = Some (create_consent (ce_channel ce_down cenv ctx_err) ''http://ce''),
      fd_auditor = noop_auditor, fd_id_arg = id_arg, fd_mappings = mappings, fd_types = types\<rparr>"

interpretation deployed: gated_federator
  "make_pdp_request (pdp_channel pdp_down rego_engine penv) ''http://pdp''" pdp_request_ok "pdp_grants penv" pdp_owner_controlled
  "create_consent (ce_channel ce_down cenv ctx_err) ''http://ce''" "ce_approved cenv"
  "system_federator pdp_down penv ce_down cenv ctx_err provs schema id_arg mappings types"
  for pdp_down penv ce_down cenv ctx_err provs schema id_arg mappings types
  by unfold_locales (simp_all add: system_federator_def noop_auditor_def)

section \<open>End to end\<close>

lemma calls_only_when_authorized:
  assumes "federate_query fuel lib f request who (s, []) = (resp, (s', es))" "CalledProvider sid r \<in> set es"
    and "prepare fuel lib f (fd_auditor f (RequestReceived (ca_application_id who) (rq_query request)) s) request = Inr (op, owner_id, p)"
  obtains s1 es1 where
    "authorize_access f (ca_application_id who) (required_fields p) owner_id
       (fd_auditor f (RequestReceived (ca_application_id who) (rq_query request)) s,
        [Recorded (RequestReceived (ca_application_id who) (rq_query request))]) = (None, (s1, es1))"
    "(s', es) = run_fetches f (ca_application_id who) (p_fetches p) (s1, es1)"
proof -
  let ?app = "ca_application_id who"
  let ?s0 = "fd_auditor f (RequestReceived ?app (rq_query request)) s"
  let ?e0 = "[Recorded (RequestReceived ?app (rq_query request))]"
  have run: "run_plan lib f ?app op owner_id p (?s0, ?e0) = (resp, (s', es))"
    using assms(1,3) by (simp add: federate_query_def audit_def Let_def)
  obtain a s1 es1 where a: "authorize_access f ?app (required_fields p) owner_id (?s0, ?e0) = (a, (s1, es1))" by (metis surj_pair)
  obtain x where x: "es1 = ?e0 @ x" "\<not> list_ex is_call x" using a by (rule authorize_access_events)
  have "CalledProvider sid r \<notin> set es1" using x by (auto simp: list_ex_iff)
  then have "a = None \<and> (s', es) = run_fetches f ?app (p_fetches p) (s1, es1)"
    using run a assms(2) by (cases a) (auto simp: run_plan_def split: if_splits)
  then show thesis using that a by simp
qed

lemma run_fetches_state:
  "(\<And>e s. fd_auditor f e s = s) \<Longrightarrow> fst (run_fetches f app fts w) = fst w"
proof (induction fts arbitrary: w)
  case (Cons ft fts)
  have "fst (run_fetch f app ft w) = fst w"
    using Cons.prems by (cases w) (simp add: run_fetch_def record_event_def audit_def split: option.splits)
  then show ?case using Cons by (simp add: run_fetches_def)
qed (simp add: run_fetches_def)

text \<open>
  The whole exchange protects data: when a query of an application makes the orchestration
  engine call a provider, every field of the plan is granted to the application by an unexpired
  entry of the Policy Decision Point's table, and every such field of the consent class is
  covered by an approved, unexpired consent of the query's data owner to that application in
  the Consent Engine's table.
\<close>

lemma query_protected:
  fixes pdp_down penv ce_down cenv ctx_err provs schema id_arg mappings types
  defines "f \<equiv> system_federator pdp_down penv ce_down cenv ctx_err provs schema id_arg mappings types"
  assumes "federate_query fuel lib f request who (s, []) = (resp, (s', es))" "CalledProvider sid r \<in> set es"
    and "prepare fuel lib f s request = Inr (op, owner_id, p)"
    and "table_ok pm_clash (sy_pdp s)" "schema_ids_ok (sy_pdp s)"
    and "list_all (\<lambda>field. colon_free (orf_schema_id field)) (required_fields p)"
    and "field \<in> set (required_fields p)"
  shows "pdp_grants penv s (ca_application_id who) field \<and>
    (pdp_owner_controlled s field \<longrightarrow>
      (\<exists>flds. ce_approved cenv s' (ca_application_id who) owner_id flds \<and> field \<in> ocf_name ` set flds))"
proof -
  let ?app = "ca_application_id who"
  have quiet: "fd_auditor f e x = x" for e x by (simp add: f_def system_federator_def noop_auditor_def)
  obtain s1 es1 where a: "authorize_access f ?app (required_fields p) owner_id
       (s, [Recorded (RequestReceived ?app (rq_query request))]) = (None, (s1, es1))"
    and fin: "(s', es) = run_fetches f ?app (p_fetches p) (s1, es1)"
    using calls_only_when_authorized [OF assms(2,3)] assms(4) by (simp add: quiet) blast
  have "s' = s1" using run_fetches_state [of f ?app "p_fetches p" "(s1, es1)", OF quiet] fin by (metis fst_conv)
  then show ?thesis
    using deployed.access_protects [OF a [unfolded f_def] _ assms(8)] assms(5-7) by (simp add: pdp_request_ok_def)
qed

definition sample_system :: system where
  "sample_system =
     \<lparr>sy_pdp = [sample_row ''row-0'' ''s1'' ''person.name'' ClassAllowlistConsent [''app'' \<mapsto> \<lparr>al_expires_at = 100, al_updated_at = 0\<rparr>]],
      sy_ce = [(sample_consent ''c1'' ''1'' StatusApproved None (Some day))
                 \<lparr>cn_fields := [\<lparr>cf_field_name = ''person.name'', cf_schema_id = ''s1'', cf_display_name = None,
                                 cf_description = None, cf_owner = ''citizen''\<rparr>]\<rparr>]\<rparr>"

definition sample_system_federator :: "system federator" where
  "sample_system_federator = system_federator False (sample_env 5) False (sample_ce_env 5) False ex_providers ex_compiled
     ''nic'' [Some (ex_mapping ''name'')] Map.empty"

definition sample_system_run :: "graphql_response \<times> system world" where
  "sample_system_run = federate_query 1 ex_fed_lib sample_system_federator ex_request ex_consumer (sample_system, [])"

lemma sample_system_calls: "list_ex is_call (snd (snd sample_system_run))"
  by code_simp

lemma sample_system_plan:
  obtains op p where "prepare 1 ex_fed_lib sample_system_federator sample_system ex_request = Inr (op, ''1'', p)"
    "required_fields p = [\<lparr>orf_field_name = ''person.name'', orf_schema_id = ''s1''\<rparr>]"
proof -
  have "case prepare 1 ex_fed_lib sample_system_federator sample_system ex_request of
      Inr (op, owner_id, p) \<Rightarrow> owner_id = ''1'' \<and> required_fields p = [\<lparr>orf_field_name = ''person.name'', orf_schema_id = ''s1''\<rparr>]
    | Inl _ \<Rightarrow> False"
    by code_simp
  then show thesis using that by (auto split: sum.splits prod.splits)
qed

lemma sample_system_ok:
  "pdp_owner_controlled sample_system \<lparr>orf_field_name = ''person.name'', orf_schema_id = ''s1''\<rparr>"
  "table_ok pm_clash (sy_pdp sample_system)" "schema_ids_ok (sy_pdp sample_system)"
  by (auto simp: sample_system_def sample_defs table_ok_def pm_clash_def schema_ids_ok_def colon_free_def
      pdp_owner_controlled_def names_field_def to_field_request_def)

end
