(* ===== verification/Authn.thy ===== *)
theory Authn
  imports Json Http GoTime "HOL-Library.Word"
begin

text \<open>
  Validation of access tokens (\<^verbatim>\<open>internal/authn\<close>): the claims of a token, the principal
  read from them, the cache of the issuer's signing keys and the middleware of the HTTP services.
  The JWT library, the HTTP client and the issuer behind it are parameters. A payload is given as
  the decoded JSON value, an object with its members in order and with repeated names.
\<close>

section \<open>Text\<close>

text \<open>\<^verbatim>\<open>strings.Fields\<close>, on the white space of \<^const>\<open>is_space\<close>.\<close>

fun split_space :: "string \<Rightarrow> string list" where
  "split_space [] = [[]]"
| "split_space (x # xs) =
     (if is_space x then [] # split_space xs
      else (case split_space xs of [] \<Rightarrow> [[x]] | w # ws \<Rightarrow> (x # w) # ws))"

definition string_fields :: "string \<Rightarrow> string list" where
  "string_fields s = filter (\<lambda>w. w \<noteq> []) (split_space s)"

text \<open>
  \<^verbatim>\<open>strings.EqualFold\<close> against an ASCII word: beside the two cases of a letter, the long s
  (bytes 197 191) folds to s and the Kelvin sign (bytes 226 132 170) folds to k.
\<close>

fun fold_case :: "string \<Rightarrow> string" where
  "fold_case [] = []"
| "fold_case (a # s) =
     (if of_char a = (197 :: nat) \<and> s \<noteq> [] \<and> of_char (hd s) = (191 :: nat) then CHR ''s'' # fold_case (tl s)
      else if of_char a = (226 :: nat) \<and> 2 \<le> length s \<and> of_char (hd s) = (132 :: nat) \<and> of_char (s ! 1) = (170 :: nat)
      then CHR ''k'' # fold_case (drop 2 s)
      else (if of_char a \<in> {65 .. 90 :: nat} then char_of (of_char a + 32 :: nat) else a) # fold_case s)"

definition equal_fold :: "string \<Rightarrow> string \<Rightarrow> bool" where
  "equal_fold s t \<longleftrightarrow> fold_case s = fold_case t"

section \<open>Claims\<close>

record claims = cm_values :: "string \<rightharpoonup> json"

definition no_claims :: claims where
  "no_claims = \<lparr>cm_values = Map.empty\<rparr>"

definition claims_string :: "claims \<Rightarrow> string \<Rightarrow> string" where
  "claims_string c name = (case cm_values c name of Some (JStr s) \<Rightarrow> s | _ \<Rightarrow> '''')"

fun json_strings :: "json list \<Rightarrow> string list option" where
  "json_strings [] = Some []"
| "json_strings (JStr s # vs) = map_option (\<lambda>ss. s # ss) (json_strings vs)"
| "json_strings (_ # vs) = None"

text \<open>\<open>None\<close> is a nil slice.\<close>

definition claims_strings :: "claims \<Rightarrow> string \<Rightarrow> string list option" where
  "claims_strings c name =
     (case cm_values c name of
        None \<Rightarrow> None
      | Some (JStr s) \<Rightarrow> if name = ''scope'' then Some (string_fields s) else None
      | Some JNull \<Rightarrow> if name = ''scope'' then Some [] else None
      | Some (JArr vs) \<Rightarrow> json_strings vs
      | Some _ \<Rightarrow> None)"

fun clone_claim_value :: "json \<Rightarrow> json" where
  "clone_claim_value (JObj m) = JObj (map (\<lambda>(k, v). (k, clone_claim_value v)) m)"
| "clone_claim_value (JArr vs) = JArr (map clone_claim_value vs)"
| "clone_claim_value v = v"

definition claims_lookup :: "claims \<Rightarrow> string \<Rightarrow> json \<times> bool" where
  "claims_lookup c name =
     (case cm_values c name of None \<Rightarrow> (JNull, False) | Some v \<Rightarrow> (clone_claim_value v, True))"

section \<open>Principals\<close>

record principal = pr_claims :: claims

definition principal_claims :: "principal option \<Rightarrow> claims" where
  "principal_claims p = (case p of None \<Rightarrow> no_claims | Some p \<Rightarrow> pr_claims p)"

definition principal_subject :: "principal option \<Rightarrow> string" where
  "principal_subject p = claims_string (principal_claims p) ''sub''"

definition principal_client_id :: "principal option \<Rightarrow> string" where
  "principal_client_id p = claims_string (principal_claims p) ''client_id''"

definition principal_email :: "principal option \<Rightarrow> string" where
  "principal_email p = claims_string (principal_claims p) ''email''"

definition principal_ou_id :: "principal option \<Rightarrow> string" where
  "principal_ou_id p = claims_string (principal_claims p) ''ouId''"

definition principal_ou_handle :: "principal option \<Rightarrow> string" where
  "principal_ou_handle p = claims_string (principal_claims p) ''ouHandle''"

definition principal_roles :: "principal option \<Rightarrow> string list option" where
  "principal_roles p = claims_strings (principal_claims p) ''roles''"

definition principal_scopes :: "principal option \<Rightarrow> string list option" where
  "principal_scopes p = claims_strings (principal_claims p) ''scope''"

text \<open>
  The request's authentication context holds a principal; \<^verbatim>\<open>AuthContext\<close>'s accessors are
  the principal's, and give the zero value on a request without one.
\<close>

type_synonym auth_context = "principal option"

definition auth_claims :: "auth_context \<Rightarrow> claims" where
  "auth_claims a = (case a of None \<Rightarrow> no_claims | Some p \<Rightarrow> principal_claims (Some p))"

definition auth_subject :: "auth_context \<Rightarrow> string" where
  "auth_subject a = (case a of None \<Rightarrow> '''' | Some p \<Rightarrow> principal_subject (Some p))"

definition auth_client_id :: "auth_context \<Rightarrow> string" where
  "auth_client_id a = (case a of None \<Rightarrow> '''' | Some p \<Rightarrow> principal_client_id (Some p))"

definition auth_email :: "auth_context \<Rightarrow> string" where
  "auth_email a = (case a of None \<Rightarrow> '''' | Some p \<Rightarrow> principal_email (Some p))"

definition auth_ou_id :: "auth_context \<Rightarrow> string" where
  "auth_ou_id a = (case a of None \<Rightarrow> '''' | Some p \<Rightarrow> principal_ou_id (Some p))"

definition auth_ou_handle :: "auth_context \<Rightarrow> string" where
  "auth_ou_handle a = (case a of None \<Rightarrow> '''' | Some p \<Rightarrow> principal_ou_handle (Some p))"

definition auth_roles :: "auth_context \<Rightarrow> string list option" where
  "auth_roles a = (case a of None \<Rightarrow> None | Some p \<Rightarrow> principal_roles (Some p))"

definition auth_scopes :: "auth_context \<Rightarrow> string list option" where
  "auth_scopes a = (case a of None \<Rightarrow> None | Some p \<Rightarrow> principal_scopes (Some p))"

lemma auth_context_accessors:
  "auth_claims a = principal_claims a" "auth_subject a = principal_subject a" "auth_client_id a = principal_client_id a"
  "auth_email a = principal_email a" "auth_ou_id a = principal_ou_id a" "auth_ou_handle a = principal_ou_handle a"
  "auth_roles a = principal_roles a" "auth_scopes a = principal_scopes a"
  by (cases a; simp add: auth_claims_def auth_subject_def auth_client_id_def auth_email_def auth_ou_id_def auth_ou_handle_def
      auth_roles_def auth_scopes_def principal_claims_def principal_subject_def principal_client_id_def principal_email_def
      principal_ou_id_def principal_ou_handle_def principal_roles_def principal_scopes_def claims_string_def claims_strings_def
      no_claims_def)+

section \<open>Decoding the payload\<close>

definition rolesClaim :: string where
  "rolesClaim = ''roles''"

definition standardClaimNames :: "string list" where
  "standardClaimNames = [''sub'', ''client_id'', ''scope'', rolesClaim, ''email'', ''ouId'', ''ouHandle'',
     ''iss'', ''aud'', ''exp'', ''nbf'', ''iat'', ''jti'']"

definition canonical_claim_name :: "string \<Rightarrow> string" where
  "canonical_claim_name name =
     (case find (\<lambda>canonical. equal_fold name canonical) standardClaimNames of
        Some canonical \<Rightarrow> canonical | None \<Rightarrow> name)"

text \<open>
  The registered claims the sources read, as the JWT library's types decode them: the audience
  is a list of strings and the dates are optional.
\<close>

record registered_claims =
  rg_audience :: "string list"
  rg_expires_at :: "time option"

record token_claims =
  tc_payload :: "string \<rightharpoonup> json"
  tc_subject :: string
  tc_issuer :: string
  tc_registered :: registered_claims
  tc_client_id :: string
  tc_roles :: json
  tc_scopes :: "string list"
  tc_email :: string
  tc_ou_id :: string
  tc_ou_handle :: string

text \<open>A \<^verbatim>\<open>string\<close> field of the typed claims: null leaves the zero value.\<close>

definition typed_string :: "(string \<rightharpoonup> json) \<Rightarrow> string \<Rightarrow> string + string" where
  "typed_string payload name =
     (case payload name of
        None \<Rightarrow> Inr '''' | Some JNull \<Rightarrow> Inr '''' | Some (JStr s) \<Rightarrow> Inr s
      | Some _ \<Rightarrow> Inl (''cannot unmarshal into string: '' @ name))"

definition scope_item :: "json \<Rightarrow> string + string" where
  "scope_item v = (case v of JStr s \<Rightarrow> Inr s | JNull \<Rightarrow> Inr ''''
     | _ \<Rightarrow> Inl ''scope claim must be a string or array of strings'')"

definition unmarshal_scope :: "json option \<Rightarrow> string + string list" where
  "unmarshal_scope v =
     (case v of
        None \<Rightarrow> Inr []
      | Some (JStr s) \<Rightarrow> Inr (string_fields s)
      | Some JNull \<Rightarrow> Inr []
      | Some (JArr vs) \<Rightarrow> map_res scope_item vs
      | Some _ \<Rightarrow> Inl ''scope claim must be a string or array of strings'')"

definition collect_claim :: "(string \<rightharpoonup> json) \<Rightarrow> string \<times> json \<Rightarrow> string + (string \<rightharpoonup> json)" where
  "collect_claim payload kv =
     (let name = canonical_claim_name (fst kv) in
      if payload name \<noteq> None then Inl (''jwt has duplicate claim '' @ name)
      else Inr (payload(name \<mapsto> snd kv)))"

text \<open>\<open>registered\<close> decodes the members of the library's \<^verbatim>\<open>RegisteredClaims\<close>.\<close>

definition unmarshal_claims ::
  "((string \<rightharpoonup> json) \<Rightarrow> string + registered_claims) \<Rightarrow> json \<Rightarrow> string + token_claims" where
  "unmarshal_claims registered data =
     (case data of
        JObj members \<Rightarrow>
          bind_res (fold_res collect_claim Map.empty members) (\<lambda>payload.
          bind_res (registered payload) (\<lambda>reg.
          bind_res (typed_string payload ''sub'') (\<lambda>sub.
          bind_res (typed_string payload ''iss'') (\<lambda>iss.
          bind_res (typed_string payload ''client_id'') (\<lambda>client.
          bind_res (unmarshal_scope (payload ''scope'')) (\<lambda>scopes.
          bind_res (typed_string payload ''email'') (\<lambda>email.
          bind_res (typed_string payload ''ouId'') (\<lambda>ou.
          bind_res (typed_string payload ''ouHandle'') (\<lambda>handle.
            Inr \<lparr>tc_payload = payload, tc_subject = sub, tc_issuer = iss, tc_registered = reg,
                 tc_client_id = client,
                 tc_roles = (case payload rolesClaim of None \<Rightarrow> JNull | Some v \<Rightarrow> v),
                 tc_scopes = scopes, tc_email = email, tc_ou_id = ou, tc_ou_handle = handle\<rparr>)))))))))
      | _ \<Rightarrow> Inl ''jwt claims must be an object'')"

definition role_item :: "json \<Rightarrow> string + string" where
  "role_item v = (case v of JStr s \<Rightarrow> Inr (trim_space s)
     | _ \<Rightarrow> Inl ''jwt claim roles must be an array of strings'')"

definition parse_roles_claim :: "json \<Rightarrow> string + string list option" where
  "parse_roles_claim v =
     (case v of
        JNull \<Rightarrow> Inr None
      | JArr vs \<Rightarrow> bind_res (map_res role_item vs) (\<lambda>roles. Inr (Some roles))
      | _ \<Rightarrow> Inl ''jwt claim roles must be an array of strings'')"

section \<open>The validated claims\<close>

definition normalize_claim_value :: "json \<Rightarrow> json" where
  "normalize_claim_value v =
     (case v of
        JStr s \<Rightarrow> JStr (trim_space s)
      | JArr vs \<Rightarrow> (case json_strings vs of None \<Rightarrow> v | Some ss \<Rightarrow> JArr (map (\<lambda>s. JStr (trim_space s)) ss))
      | _ \<Rightarrow> v)"

definition identifier_claims :: "string set" where
  "identifier_claims = {''sub'', ''client_id'', ''iss'', ''aud'', ''exp'', ''nbf'', ''iat'', ''jti''}"

definition validated_claims :: "token_claims \<Rightarrow> claims" where
  "validated_claims c =
     \<lparr>cm_values = (\<lambda>name. case tc_payload c name of
        None \<Rightarrow> None
      | Some v \<Rightarrow>
          if name \<in> identifier_claims then Some v
          else if name = ''scope'' then
            Some (case v of JArr _ \<Rightarrow> JArr (map JStr (tc_scopes c)) | _ \<Rightarrow> v)
          else Some (normalize_claim_value v))\<rparr>"

section \<open>Signing keys\<close>

record jwk =
  jk_kid :: string
  jk_kty :: string
  jk_alg :: string
  jk_use :: string
  jk_n :: string
  jk_e :: string

record rsa_key =
  rk_n :: nat
  rk_e :: int

text \<open>
  \<^verbatim>\<open>base64.RawURLEncoding.DecodeString\<close>: line breaks are skipped, a last group of one
  character is refused, and the unused bits of the last character are dropped.
\<close>

definition url64_val :: "char \<Rightarrow> nat option" where
  "url64_val c =
     (let n = of_char c :: nat in
      if 65 \<le> n \<and> n \<le> 90 then Some (n - 65)
      else if 97 \<le> n \<and> n \<le> 122 then Some (n - 71)
      else if 48 \<le> n \<and> n \<le> 57 then Some (n + 4)
      else if n = 45 then Some 62 else if n = 95 then Some 63 else None)"

fun sextets :: "string \<Rightarrow> nat list option" where
  "sextets [] = Some []"
| "sextets (c # cs) =
     (case (url64_val c, sextets cs) of (Some v, Some vs) \<Rightarrow> Some (v # vs) | _ \<Rightarrow> None)"

fun sextet_bytes :: "nat list \<Rightarrow> nat list option" where
  "sextet_bytes [] = Some []"
| "sextet_bytes [a] = None"
| "sextet_bytes [a, b] = Some [a * 4 + b div 16]"
| "sextet_bytes [a, b, c] = Some [a * 4 + b div 16, b mod 16 * 16 + c div 4]"
| "sextet_bytes (a # b # c # d # r) =
     map_option (\<lambda>bs. [a * 4 + b div 16, b mod 16 * 16 + c div 4, c mod 4 * 64 + d] @ bs) (sextet_bytes r)"

definition raw_url_decode :: "string \<Rightarrow> nat list option" where
  "raw_url_decode s =
     (case sextets (filter (\<lambda>c. of_char c \<noteq> (10 :: nat) \<and> of_char c \<noteq> (13 :: nat)) s) of
        None \<Rightarrow> None | Some vs \<Rightarrow> sextet_bytes vs)"

text \<open>\<^verbatim>\<open>big.Int.SetBytes\<close>, and \<^verbatim>\<open>Int64\<close>: the low 64 bits, signed.\<close>

definition bytes_nat :: "nat list \<Rightarrow> nat" where
  "bytes_nat bs = foldl (\<lambda>n b. 256 * n + b) 0 bs"

definition int64_of :: "nat \<Rightarrow> int" where
  "int64_of n = sint (word_of_nat n :: 64 word)"

definition parse_rsa_public_key :: "jwk \<Rightarrow> string + rsa_key" where
  "parse_rsa_public_key k =
     (if jk_kty k \<noteq> ''RSA'' then Inl (''unsupported jwk key type: '' @ jk_kty k)
      else case raw_url_decode (jk_n k) of
        None \<Rightarrow> Inl ''failed to decode jwk modulus''
      | Some n \<Rightarrow>
          (case raw_url_decode (jk_e k) of
             None \<Rightarrow> Inl ''failed to decode jwk exponent''
           | Some e \<Rightarrow>
               if n = [] \<or> e = [] then Inl ''invalid jwk key data''
               else if int64_of (bytes_nat e) \<le> 0 then Inl ''invalid jwk exponent''
               else Inr \<lparr>rk_n = bytes_nat n, rk_e = int64_of (bytes_nat e)\<rparr>))"

section \<open>The extractor\<close>

record claim_config = cg_required :: bool

record claims_config =
  cg_email :: claim_config
  cg_ou_id :: claim_config
  cg_ou_handle :: claim_config

record authn_config =
  ac_jwks_url :: string
  ac_issuer :: string
  ac_audience :: string
  ac_insecure :: bool
  ac_claims :: claims_config

text \<open>\<open>http_url\<close> is the library's \<^verbatim>\<open>validation.HTTPURL\<close>.\<close>

definition validate_authn_config :: "(string \<Rightarrow> string \<Rightarrow> string + unit) \<Rightarrow> authn_config \<Rightarrow> string + unit" where
  "validate_authn_config http_url c =
     (if ac_jwks_url c = '''' then Inl ''jwksURL is required''
      else bind_res (http_url ''jwksURL'' (ac_jwks_url c)) (\<lambda>_.
        if ac_issuer c = '''' then Inl ''issuer is required''
        else bind_res (http_url ''issuer'' (ac_issuer c)) (\<lambda>_.
          if ac_audience c = '''' then Inl ''audience is required'' else Inr ())))"

record token_extractor =
  te_jwks_url :: string
  te_issuer :: string
  te_audience :: string
  te_claims :: claims_config
  te_ttl :: duration

definition defaultJWKSCacheTTL :: duration where
  "defaultJWKSCacheTTL = 5 * (hour div 60)"

definition optional_claims :: claims_config where
  "optional_claims = \<lparr>cg_email = \<lparr>cg_required = False\<rparr>, cg_ou_id = \<lparr>cg_required = False\<rparr>,
     cg_ou_handle = \<lparr>cg_required = False\<rparr>\<rparr>"

type_synonym authn_option = "token_extractor \<Rightarrow> token_extractor"

definition with_claims :: "claims_config \<Rightarrow> authn_option" where
  "with_claims c te = te\<lparr>te_claims := c\<rparr>"

text \<open>The HTTP client is never nil here: the caller of \<^verbatim>\<open>newExtractor\<close> supplies one.\<close>

definition validate_extractor :: "token_extractor \<Rightarrow> string + unit" where
  "validate_extractor te =
     (if te_jwks_url te = '''' then Inl ''jwks url is not configured''
      else if te_issuer te = '''' then Inl ''issuer is not configured''
      else if te_audience te = '''' then Inl ''audience is not configured''
      else Inr ())"

definition new_extractor :: "string \<Rightarrow> string \<Rightarrow> string \<Rightarrow> authn_option list \<Rightarrow> string + token_extractor" where
  "new_extractor url iss aud opts =
     (let te = foldl (\<lambda>te opt. opt te)
        \<lparr>te_jwks_url = trim_space url, te_issuer = trim_space iss, te_audience = trim_space aud,
         te_claims = optional_claims, te_ttl = defaultJWKSCacheTTL\<rparr> opts
      in bind_res (validate_extractor te) (\<lambda>_. Inr te))"

definition build_options :: "authn_config \<Rightarrow> authn_option list" where
  "build_options c = [with_claims (ac_claims c)]"

definition new_manager :: "authn_config \<Rightarrow> string + token_extractor" where
  "new_manager c =
     (case new_extractor (ac_jwks_url c) (ac_issuer c) (ac_audience c) (build_options c) of
        Inl e \<Rightarrow> Inl (''failed to initialize token extractor: '' @ e)
      | Inr te \<Rightarrow> Inr te)"

text \<open>\<open>None\<close> is a manager without an extractor.\<close>

definition manager_health :: "token_extractor option \<Rightarrow> string + unit" where
  "manager_health te = (case te of None \<Rightarrow> Inl ''token extractor not initialized'' | Some _ \<Rightarrow> Inr ())"

section \<open>The key cache\<close>

text \<open>
  The cache is shared by the requests. \<open>jc_fetched_at\<close> is \<^verbatim>\<open>lastJWKSFetch\<close>; its
  zero value lies before every reading of the clock.
\<close>

record jwks_cache =
  jc_keys :: "jwk list option"
  jc_fetched_at :: time

text \<open>The issuer, over a state \<open>'x\<close>: the status and the decoded body of its answer.\<close>

record 'x jwks_source =
  js_new_request :: "string \<Rightarrow> string + unit"
  js_get :: "string \<Rightarrow> 'x \<Rightarrow> (string + nat \<times> (string + jwk list)) \<times> 'x"

definition fetch_jwks :: "'x jwks_source \<Rightarrow> token_extractor \<Rightarrow> 'x \<Rightarrow> (string + jwk list) \<times> 'x" where
  "fetch_jwks src te x =
     (case js_new_request src (te_jwks_url te) of
        Inl e \<Rightarrow> (Inl (''failed to build jwks request: '' @ e), x)
      | Inr _ \<Rightarrow>
          (case js_get src (te_jwks_url te) x of
             (Inl e, x) \<Rightarrow> (Inl (''failed to fetch jwks: '' @ e), x)
           | (Inr (status, body), x) \<Rightarrow>
               if status \<noteq> StatusOK then (Inl ''jwks endpoint returned another status'', x)
               else (case body of
                  Inl e \<Rightarrow> (Inl (''failed to decode jwks response: '' @ e), x)
                | Inr keys \<Rightarrow> if keys = [] then (Inl ''jwks response has no keys'', x) else (Inr keys, x))))"

definition cache_valid :: "token_extractor \<Rightarrow> time \<Rightarrow> jwks_cache \<Rightarrow> bool" where
  "cache_valid te now c \<longleftrightarrow> jc_keys c \<noteq> None \<and> te_ttl te > 0 \<and> now - jc_fetched_at c < te_ttl te"

text \<open>
  \<^verbatim>\<open>getJWKS\<close> holds the lock twice. Under the read lock it returns the cached keys, or takes
  the time of the last fetch; under the write lock it looks again and fetches. Requests can
  interleave between the two.
\<close>

definition read_phase :: "token_extractor \<Rightarrow> bool \<Rightarrow> time \<Rightarrow> jwks_cache \<Rightarrow> jwk list + time" where
  "read_phase te force now c =
     (if \<not> force \<and> cache_valid te now c then Inl (the (jc_keys c)) else Inr (jc_fetched_at c))"

definition write_phase ::
  "'x jwks_source \<Rightarrow> token_extractor \<Rightarrow> bool \<Rightarrow> time \<Rightarrow> time \<Rightarrow> jwks_cache \<times> 'x \<Rightarrow> (string + jwk list) \<times> jwks_cache \<times> 'x" where
  "write_phase src te force snapshot now w =
     (case w of (c, x) \<Rightarrow>
        if \<not> force \<and> cache_valid te now c then (Inr (the (jc_keys c)), c, x)
        else if force \<and> jc_keys c \<noteq> None \<and> after (jc_fetched_at c) snapshot then (Inr (the (jc_keys c)), c, x)
        else (case fetch_jwks src te x of
           (Inl e, x) \<Rightarrow> (Inl e, c, x)
         | (Inr keys, x) \<Rightarrow> (Inr keys, \<lparr>jc_keys = Some keys, jc_fetched_at = now\<rparr>, x)))"

text \<open>A call that no other interrupts; \<open>clock\<close> gives its two readings of the time.\<close>

definition get_jwks ::
  "'x jwks_source \<Rightarrow> token_extractor \<Rightarrow> bool \<Rightarrow> (nat \<Rightarrow> time) \<Rightarrow> jwks_cache \<times> 'x \<Rightarrow> (string + jwk list) \<times> jwks_cache \<times> 'x" where
  "get_jwks src te force clock w =
     (case read_phase te force (clock 0) (fst w) of
        Inl keys \<Rightarrow> (Inr keys, w)
      | Inr snapshot \<Rightarrow> write_phase src te force snapshot (clock 1) w)"

record jwt_token =
  jt_rsa :: bool
  jt_alg :: string
  jt_header :: json_map

definition find_key :: "string \<Rightarrow> jwk list \<Rightarrow> jwk option" where
  "find_key kid keys = find (\<lambda>k. jk_kid k = kid) keys"

definition key_func ::
  "'x jwks_source \<Rightarrow> token_extractor \<Rightarrow> (nat \<Rightarrow> time) \<Rightarrow> jwt_token \<Rightarrow> jwks_cache \<times> 'x \<Rightarrow> (string + rsa_key) \<times> jwks_cache \<times> 'x" where
  "key_func src te clock token w =
     (if \<not> jt_rsa token then (Inl (''unexpected signing method: '' @ jt_alg token), w)
      else case map_of (jt_header token) ''kid'' of
        None \<Rightarrow> (Inl ''token header missing kid'', w)
      | Some v \<Rightarrow>
          (case as_string v of
             None \<Rightarrow> (Inl ''token header has invalid kid'', w)
           | Some kid \<Rightarrow>
               if trim_space kid = '''' then (Inl ''token header has invalid kid'', w)
               else (case get_jwks src te False clock w of
                  (Inl e, w) \<Rightarrow> (Inl e, w)
                | (Inr keys, w) \<Rightarrow>
                    (case find_key kid keys of
                       Some k \<Rightarrow> (parse_rsa_public_key k, w)
                     | None \<Rightarrow>
                         (case get_jwks src te True (\<lambda>i. clock (i + 2)) w of
                            (Inl e, w) \<Rightarrow> (Inl e, w)
                          | (Inr keys, w) \<Rightarrow>
                              (case find_key kid keys of
                                 Some k \<Rightarrow> (parse_rsa_public_key k, w)
                               | None \<Rightarrow> (Inl (''no jwk found for kid: '' @ kid), w)))))))"

section \<open>From the header to the principal\<close>

record parse_options =
  po_methods :: "string list"
  po_issuer :: string
  po_audience :: string
  po_leeway :: duration

text \<open>
  The JWT library's \<^verbatim>\<open>ParseWithClaims\<close>, over the state \<open>'w\<close> that the key
  function reads and writes: the decoded claims with \<^verbatim>\<open>Valid\<close>, or an error.
\<close>

type_synonym 'w jwt_parse =
  "string \<Rightarrow> (json \<Rightarrow> string + token_claims) \<Rightarrow> (jwt_token \<Rightarrow> 'w \<Rightarrow> (string + rsa_key) \<times> 'w) \<Rightarrow>
   parse_options \<Rightarrow> 'w \<Rightarrow> (string + token_claims \<times> bool) \<times> 'w"

definition check_required :: "token_extractor \<Rightarrow> token_claims \<Rightarrow> string + unit" where
  "check_required te c =
     fold_res (\<lambda>_ (name, config, value).
        if cg_required config \<and> value = '''' then Inl (''jwt missing or empty required claim '' @ name) else Inr ())
       () [(''email'', cg_email (te_claims te), trim_space (tc_email c)),
           (''ouId'', cg_ou_id (te_claims te), trim_space (tc_ou_id c)),
           (''ouHandle'', cg_ou_handle (te_claims te), trim_space (tc_ou_handle c))]"

definition principal_of_claims :: "token_extractor \<Rightarrow> token_claims \<Rightarrow> string + principal" where
  "principal_of_claims te c =
     (if rg_expires_at (tc_registered c) = None then Inl ''jwt missing exp claim''
      else if tc_subject c = '''' then Inl ''jwt missing sub claim''
      else if tc_client_id c = '''' then Inl ''jwt missing client_id claim''
      else bind_res (check_required te c) (\<lambda>_.
        bind_res (parse_roles_claim (tc_roles c)) (\<lambda>_.
          Inr \<lparr>pr_claims = validated_claims c\<rparr>)))"

definition extractor_options :: "token_extractor \<Rightarrow> parse_options" where
  "extractor_options te = \<lparr>po_methods = [''RS256'', ''RS384'', ''RS512''], po_issuer = te_issuer te,
     po_audience = te_audience te, po_leeway = 30 * (hour div 3600)\<rparr>"

definition bearer_token :: "string \<Rightarrow> string + string" where
  "bearer_token header =
     (if header = '''' then Inl ''authorization header is empty''
      else case string_fields (trim_space header) of
        [scheme, token] \<Rightarrow>
          if \<not> equal_fold scheme ''Bearer'' then Inl ''invalid authorization header format''
          else if trim_space token = '''' then Inl ''authorization token is empty''
          else Inr (trim_space token)
      | _ \<Rightarrow> Inl ''invalid authorization header format'')"

definition extract_principal ::
  "'w jwt_parse \<Rightarrow> ((string \<rightharpoonup> json) \<Rightarrow> string + registered_claims) \<Rightarrow>
   (jwt_token \<Rightarrow> 'w \<Rightarrow> (string + rsa_key) \<times> 'w) \<Rightarrow> token_extractor \<Rightarrow> string \<Rightarrow> 'w \<Rightarrow> (string + principal) \<times> 'w" where
  "extract_principal parse registered key te header w =
     (case bearer_token header of
        Inl e \<Rightarrow> (Inl e, w)
      | Inr token \<Rightarrow>
          (case parse token (unmarshal_claims registered) key (extractor_options te) w of
             (Inl e, w) \<Rightarrow> (Inl (''invalid jwt token: '' @ e), w)
           | (Inr (c, valid), w) \<Rightarrow>
               if \<not> valid then (Inl ''invalid jwt token'', w) else (principal_of_claims te c, w)))"

section \<open>Middleware\<close>

text \<open>
  A handler takes the authentication context and a state. The extraction is \<open>None\<close> for an
  extractor that was never set up; \<open>refuse\<close> writes a status with an error and a message.
\<close>

definition authn_middleware ::
  "(string \<Rightarrow> 'w \<Rightarrow> (string + principal) \<times> 'w) option \<Rightarrow> (nat \<Rightarrow> string \<Rightarrow> string \<Rightarrow> 'r) \<Rightarrow>
   (auth_context \<Rightarrow> 'w \<Rightarrow> 'r \<times> 'w) \<Rightarrow> string \<Rightarrow> auth_context \<Rightarrow> 'w \<Rightarrow> 'r \<times> 'w" where
  "authn_middleware extract refuse next header ctx w =
     (if header = '''' then next ctx w
      else case extract of
        None \<Rightarrow> (refuse StatusInternalServerError ''internal_server_error'' ''authentication subsystem not initialized'', w)
      | Some f \<Rightarrow>
          (case f header w of
             (Inl _, w) \<Rightarrow> (refuse StatusUnauthorized ''unauthorized'' ''invalid authentication token'', w)
           | (Inr p, w) \<Rightarrow> next (Some p) w))"

definition require_auth ::
  "(string \<Rightarrow> 'w \<Rightarrow> (string + principal) \<times> 'w) option \<Rightarrow> (nat \<Rightarrow> string \<Rightarrow> string \<Rightarrow> 'r) \<Rightarrow>
   (auth_context \<Rightarrow> 'w \<Rightarrow> 'r \<times> 'w) \<Rightarrow> string \<Rightarrow> auth_context \<Rightarrow> 'w \<Rightarrow> 'r \<times> 'w" where
  "require_auth extract refuse next =
     authn_middleware extract refuse
       (\<lambda>ctx w. if ctx = None then (refuse StatusUnauthorized ''unauthorized'' ''authentication required'', w)
                 else next ctx w)"

text \<open>A request may also come without a token: the basic middleware.\<close>

definition optional_auth ::
  "(string \<Rightarrow> 'w \<Rightarrow> (string + principal) \<times> 'w) option \<Rightarrow> (nat \<Rightarrow> string \<Rightarrow> string \<Rightarrow> 'r) \<Rightarrow>
   (auth_context \<Rightarrow> 'w \<Rightarrow> 'r \<times> 'w) \<Rightarrow> string \<Rightarrow> auth_context \<Rightarrow> 'w \<Rightarrow> 'r \<times> 'w" where
  "optional_auth = authn_middleware"

end
