(* ===== verification/Authn_Properties.thy ===== *)
theory Authn_Properties
  imports Authn
begin

text \<open>
  What a validated token says: the claims view agrees with the typed values that were validated,
  an accepted token was verified under a current key of the issuer, and overlapping refreshes of
  the key cache fetch once.
\<close>

section \<open>Claims\<close>

lemma clone_claim_value_id [simp]: "clone_claim_value v = v"
proof (induction v rule: clone_claim_value.induct)
  case (1 m)
  then show ?case by (auto intro!: map_idI)
next
  case (2 vs)
  then show ?case by (auto intro: map_idI)
qed simp_all

lemma collect_claims_iff:
  "fold_res collect_claim payload ms = Inr payload' \<longleftrightarrow>
     distinct (map (canonical_claim_name \<circ> fst) ms) \<and>
     (\<forall>kv \<in> set ms. payload (canonical_claim_name (fst kv)) = None) \<and>
     payload' = payload ++ map_of (map (\<lambda>(k, v). (canonical_claim_name k, v)) ms)"
proof (induction ms arbitrary: payload)
  case Nil
  then show ?case by auto
next
  case (Cons kv ms)
  obtain k v where kv: "kv = (k, v)" by force
  let ?n = "canonical_claim_name k"
  let ?m = "map_of (map (\<lambda>(k, v). (canonical_claim_name k, v)) ms)"
  have upd: "?n \<notin> set (map (canonical_claim_name \<circ> fst) ms) \<Longrightarrow>
      payload(?n \<mapsto> v) ++ ?m = payload ++ ?m(?n \<mapsto> v)"
    by (subst map_add_upd_left) (auto simp: dom_map_of_conv_image_fst image_image case_prod_unfold)
  have ne: "?n \<notin> set (map (canonical_claim_name \<circ> fst) ms) \<longleftrightarrow>
      (\<forall>kv \<in> set ms. canonical_claim_name (fst kv) \<noteq> ?n)" by force
  show ?case
  proof (cases "payload ?n = None")
    case True
    then have "fold_res collect_claim payload (kv # ms) = Inr payload' \<longleftrightarrow>
        distinct (map (canonical_claim_name \<circ> fst) ms) \<and>
        (\<forall>kv \<in> set ms. (payload(?n \<mapsto> v)) (canonical_claim_name (fst kv)) = None) \<and>
        payload' = payload(?n \<mapsto> v) ++ ?m"
      by (simp add: collect_claim_def kv Cons.IH fun_upd_def comp_def case_prod_unfold)
    also have "\<dots> \<longleftrightarrow> distinct (map (canonical_claim_name \<circ> fst) (kv # ms)) \<and>
        (\<forall>kv \<in> set (kv # ms). payload (canonical_claim_name (fst kv)) = None) \<and>
        payload' = payload ++ map_of (map (\<lambda>(k, v). (canonical_claim_name k, v)) (kv # ms))"
      using True upd ne by (auto simp: kv)
    finally show ?thesis .
  qed (simp add: collect_claim_def kv)
qed

lemma json_strings_map_JStr [simp]: "json_strings (map JStr ss) = Some ss"
  by (induction ss) simp_all

lemma json_strings_Some_iff: "json_strings vs = Some ss \<longleftrightarrow> vs = map JStr ss"
  by (induction vs arbitrary: ss rule: json_strings.induct) auto

lemma json_strings_map_trim [simp]: "json_strings (map (\<lambda>s. JStr (trim_space s)) ss) = Some (map trim_space ss)"
  by (induction ss) simp_all

lemma role_item_Inr_iff [simp]: "role_item v = Inr r \<longleftrightarrow> (\<exists>s. v = JStr s \<and> r = trim_space s)"
  by (cases v) (auto simp: role_item_def)

lemma map_res_role_item: "map_res role_item vs = Inr rs \<longleftrightarrow> (\<exists>ss. vs = map JStr ss \<and> rs = map trim_space ss)"
proof
  assume "map_res role_item vs = Inr rs"
  then have l: "list_all2 (\<lambda>v r. \<exists>s. v = JStr s \<and> r = trim_space s) vs rs"
    by (simp add: map_res_Inr_iff)
  then show "\<exists>ss. vs = map JStr ss \<and> rs = map trim_space ss"
  proof (induction rule: list_all2_induct)
    case Nil
    then show ?case by simp
  next
    case (Cons v vs r rs)
    then obtain s ss where "v = JStr s" "r = trim_space s" "vs = map JStr ss" "rs = map trim_space ss" by auto
    then show ?case by (intro exI [of _ "s # ss"]) simp
  qed
qed (auto simp: map_res_Inr_iff list_all2_map1 list_all2_map2 list_all2_same)

lemma typed_string_Inr:
  "typed_string payload n = Inr s \<longleftrightarrow>
     payload n = Some (JStr s) \<or> (s = '''' \<and> (payload n = None \<or> payload n = Some JNull))"
  by (auto simp: typed_string_def split: option.splits json.splits)

text \<open>What a successful decoding of the payload yields.\<close>

lemma unmarshal_claims_Inr:
  assumes "unmarshal_claims registered data = Inr c"
  obtains ms where "data = JObj ms" "fold_res collect_claim Map.empty ms = Inr (tc_payload c)"
    "registered (tc_payload c) = Inr (tc_registered c)"
    "typed_string (tc_payload c) ''sub'' = Inr (tc_subject c)"
    "typed_string (tc_payload c) ''iss'' = Inr (tc_issuer c)"
    "typed_string (tc_payload c) ''client_id'' = Inr (tc_client_id c)"
    "unmarshal_scope (tc_payload c ''scope'') = Inr (tc_scopes c)"
    "typed_string (tc_payload c) ''email'' = Inr (tc_email c)"
    "typed_string (tc_payload c) ''ouId'' = Inr (tc_ou_id c)"
    "typed_string (tc_payload c) ''ouHandle'' = Inr (tc_ou_handle c)"
    "tc_roles c = (case tc_payload c ''roles'' of None \<Rightarrow> JNull | Some v \<Rightarrow> v)"
  using assms by (cases data) (auto simp: unmarshal_claims_def bind_res_Inr_iff rolesClaim_def)

lemma identifier_value:
  assumes "typed_string (tc_payload c) n = Inr s" "n \<in> identifier_claims"
  shows "claims_string (validated_claims c) n = s"
  using assms by (auto simp: typed_string_Inr claims_string_def validated_claims_def)

lemma identity_value:
  assumes "typed_string (tc_payload c) n = Inr s" "n \<notin> identifier_claims" "n \<noteq> ''scope''"
  shows "claims_string (validated_claims c) n = trim_space s"
  using assms by (auto simp: typed_string_Inr claims_string_def validated_claims_def normalize_claim_value_def)

lemma scope_value:
  assumes "unmarshal_scope (tc_payload c ''scope'') = Inr ss"
    and "tc_scopes c = ss"
  shows "claims_strings (validated_claims c) ''scope'' =
     (if tc_payload c ''scope'' = None then None else Some ss)"
proof -
  have "''scope'' \<notin> identifier_claims" by (simp add: identifier_claims_def)
  then show ?thesis
    using assms by (auto simp: claims_strings_def validated_claims_def unmarshal_scope_def
      split: option.splits json.splits)
qed

lemma roles_value:
  assumes "parse_roles_claim (case tc_payload c ''roles'' of None \<Rightarrow> JNull | Some v \<Rightarrow> v) = Inr roles"
  shows "claims_strings (validated_claims c) ''roles'' = roles"
proof -
  have "''roles'' \<notin> identifier_claims" by (simp add: identifier_claims_def)
  then show ?thesis
    using assms
    by (auto simp: claims_strings_def validated_claims_def parse_roles_claim_def normalize_claim_value_def
      bind_res_Inr_iff map_res_role_item split: option.splits json.splits)
qed


definition ex_registered :: "(string \<rightharpoonup> json) \<Rightarrow> string + registered_claims" where
  "ex_registered payload =
     Inr \<lparr>rg_audience = (case payload ''aud'' of Some (JStr a) \<Rightarrow> [a] | _ \<Rightarrow> []), rg_expires_at = Some 100\<rparr>"

definition ex_members :: json_map where
  "ex_members = [(''sub'', JStr ''u1''), (''Client_ID'', JStr ''c1''), (''iss'', JStr ''https://i''),
     (''aud'', JStr ''pb''), (''scope'', JStr ''schema:read schema:write''), (''ouId'', JStr '' ou1 ''),
     (''roles'', JArr [JStr ''Customs Officer ''])]"

definition ex_extractor :: token_extractor where
  "ex_extractor = \<lparr>te_jwks_url = ''https://i/jwks'', te_issuer = ''https://i'', te_audience = ''pb'',
     te_claims = optional_claims, te_ttl = 300\<rparr>"

definition ex_claims :: token_claims where
  "ex_claims = \<lparr>tc_payload = [''sub'' \<mapsto> JStr ''u1'', ''client_id'' \<mapsto> JStr ''c1'', ''iss'' \<mapsto> JStr ''https://i'',
       ''aud'' \<mapsto> JStr ''pb'', ''scope'' \<mapsto> JStr ''schema:read schema:write'', ''ouId'' \<mapsto> JStr '' ou1 '',
       ''roles'' \<mapsto> JArr [JStr ''Customs Officer '']],
     tc_subject = ''u1'', tc_issuer = ''https://i'',
     tc_registered = \<lparr>rg_audience = [''pb''], rg_expires_at = Some 100\<rparr>, tc_client_id = ''c1'',
     tc_roles = JArr [JStr ''Customs Officer ''], tc_scopes = [''schema:read'', ''schema:write''],
     tc_email = '''', tc_ou_id = '' ou1 '', tc_ou_handle = ''''\<rparr>"

lemma ex_chars: "char_of (105 :: nat) = CHR ''i''" "char_of (99 :: nat) = CHR ''c''" "char_of (100 :: nat) = CHR ''d''"
  by code_simp+

lemma ex_unmarshal: "unmarshal_claims ex_registered (JObj ex_members) = Inr ex_claims"
  by (simp add: unmarshal_claims_def ex_members_def ex_registered_def ex_claims_def collect_claim_def Let_def
    canonical_claim_name_def standardClaimNames_def rolesClaim_def equal_fold_def typed_string_def
    unmarshal_scope_def string_fields_def is_space_def ex_chars)

lemma ex_principal: "principal_of_claims ex_extractor ex_claims = Inr \<lparr>pr_claims = validated_claims ex_claims\<rparr>"
  by (simp add: principal_of_claims_def ex_extractor_def ex_claims_def check_required_def optional_claims_def
    parse_roles_claim_def role_item_def)


section \<open>Keys\<close>

lemma write_phase_Inr:
  assumes "write_phase src te force snapshot now (c, x) = (Inr keys, c', x')"
  shows "jc_keys c' = Some keys \<and>
    (c' = c \<and> x' = x \<and> (if force then after (jc_fetched_at c) snapshot else cache_valid te now c) \<or>
     jc_fetched_at c' = now \<and> fetch_jwks src te x = (Inr keys, x'))"
  using assms
  by (auto simp: write_phase_def cache_valid_def split: if_splits prod.splits sum.splits)

lemma get_jwks_Inr:
  assumes "get_jwks src te force clock (c, x) = (Inr keys, c', x')"
  shows "jc_keys c' = Some keys \<and>
    (c' = c \<and> x' = x \<and> \<not> force \<and> (cache_valid te (clock 0) c \<or> cache_valid te (clock 1) c) \<or>
     jc_fetched_at c' = clock 1)"
proof (cases "read_phase te force (clock 0) c")
  case (Inl ks)
  then have "\<not> force" "cache_valid te (clock 0) c" "ks = the (jc_keys c)"
    by (auto simp: read_phase_def split: if_splits)
  with assms Inl show ?thesis by (auto simp: get_jwks_def cache_valid_def)
next
  case (Inr snapshot)
  then have s: "snapshot = jc_fetched_at c" by (auto simp: read_phase_def split: if_splits)
  from assms Inr have "write_phase src te force snapshot (clock 1) (c, x) = (Inr keys, c', x')"
    by (simp add: get_jwks_def)
  from write_phase_Inr [OF this] show ?thesis
    by (auto simp: s after_def split: if_splits)
qed

lemma find_key_Some: "find_key kid keys = Some k \<Longrightarrow> k \<in> set keys \<and> jk_kid k = kid"
  by (auto simp: find_key_def find_Some_iff)

text \<open>A key that verifies a token is a key of that name in the cache the call leaves.\<close>

lemma key_func_Inr:
  assumes "key_func src te clock t (c, x) = (Inr k, c', x')"
  shows "jt_rsa t \<and>
    (\<exists>kid jk keys. map_of (jt_header t) ''kid'' = Some (JStr kid) \<and> trim_space kid \<noteq> '''' \<and>
       jc_keys c' = Some keys \<and> jk \<in> set keys \<and> jk_kid jk = kid \<and> parse_rsa_public_key jk = Inr k) \<and>
    (c' = c \<and> (cache_valid te (clock 0) c \<or> cache_valid te (clock 1) c) \<or>
     jc_fetched_at c' = clock 1 \<or> jc_fetched_at c' = clock 3)"
proof -
  have rsa: "jt_rsa t" using assms by (simp add: key_func_def split: if_splits)
  from assms obtain kid where kid: "map_of (jt_header t) ''kid'' = Some (JStr kid)" "trim_space kid \<noteq> ''''"
    by (auto simp: key_func_def split: if_splits option.splits)
  obtain r1 c1 x1 where g1: "get_jwks src te False clock (c, x) = (r1, c1, x1)" by (cases "get_jwks src te False clock (c, x)") auto
  show ?thesis
  proof (cases r1)
    case (Inl e)
    with assms rsa kid g1 show ?thesis by (simp add: key_func_def)
  next
    case (Inr keys)
    note g1' = get_jwks_Inr [OF g1 [unfolded Inr]]
    show ?thesis
    proof (cases "find_key kid keys")
      case (Some jk)
      with assms rsa kid g1 Inr have "parse_rsa_public_key jk = Inr k" "c' = c1" by (simp_all add: key_func_def)
      then show ?thesis using rsa kid g1' find_key_Some [OF Some] by auto
    next
      case None
      obtain r2 c2 x2 where g2: "get_jwks src te True (\<lambda>i. clock (i + 2)) (c1, x1) = (r2, c2, x2)"
        by (cases "get_jwks src te True (\<lambda>i. clock (i + 2)) (c1, x1)") auto
      show ?thesis
      proof (cases r2)
        case (Inl e)
        with assms rsa kid g1 Inr None g2 show ?thesis by (simp add: key_func_def)
      next
        case r2: (Inr keys2)
        with assms rsa kid g1 Inr None g2 obtain jk where
          jk: "find_key kid keys2 = Some jk" "parse_rsa_public_key jk = Inr k" "c' = c2"
          by (auto simp: key_func_def split: option.splits)
        have "jc_keys c2 = Some keys2" "jc_fetched_at c2 = clock 3"
          using get_jwks_Inr [OF g2 [unfolded r2]] by (simp_all add: numeral_eq_Suc)
        then show ?thesis using rsa kid jk find_key_Some [OF jk(1)] by auto
      qed
    qed
  qed
qed

text \<open>
  What the JWT library documents: a valid token was parsed from its text, the claims were decoded
  from its payload, its signature verifies under the key the key function returned, its method is
  one of those allowed, and its issuer and audience are the expected ones.
\<close>

definition jwt_sound :: "'w jwt_parse \<Rightarrow> (string \<Rightarrow> json \<Rightarrow> jwt_token \<Rightarrow> rsa_key \<Rightarrow> bool) \<Rightarrow> bool" where
  "jwt_sound parse verifies \<longleftrightarrow>
     (\<forall>token unmarshal key opts w c w'. parse token unmarshal key opts w = (Inr (c, True), w') \<longrightarrow>
        (\<exists>payload t k. verifies token payload t k \<and> unmarshal payload = Inr c \<and> key t w = (Inr k, w') \<and>
           jt_alg t \<in> set (po_methods opts) \<and> tc_issuer c = po_issuer opts \<and>
           po_audience opts \<in> set (rg_audience (tc_registered c))))"


definition ex_token :: jwt_token where
  "ex_token = \<lparr>jt_rsa = True, jt_alg = ''RS256'', jt_header = [(''kid'', JStr ''k1'')]\<rparr>"

definition ex_jwk :: jwk where
  "ex_jwk = \<lparr>jk_kid = ''k1'', jk_kty = ''RSA'', jk_alg = ''RS256'', jk_use = ''sig'', jk_n = ''w7s'', jk_e = ''AQAB''\<rparr>"

definition ex_key :: rsa_key where
  "ex_key = \<lparr>rk_n = 50107, rk_e = 65537\<rparr>"

definition ex_verifies :: "string \<Rightarrow> json \<Rightarrow> jwt_token \<Rightarrow> rsa_key \<Rightarrow> bool" where
  "ex_verifies token payload t k \<longleftrightarrow> token = ''h.p.s'' \<and> payload = JObj ex_members \<and> t = ex_token \<and> k = ex_key"

definition ex_parse :: "'w jwt_parse" where
  "ex_parse token unmarshal key opts w =
     (if token \<noteq> ''h.p.s'' then (Inl ''token is malformed'', w)
      else case unmarshal (JObj ex_members) of
        Inl e \<Rightarrow> (Inl e, w)
      | Inr c \<Rightarrow>
          (case key ex_token w of
             (Inl e, w) \<Rightarrow> (Inl e, w)
           | (Inr k, w) \<Rightarrow>
               if k = ex_key \<and> jt_alg ex_token \<in> set (po_methods opts) \<and> tc_issuer c = po_issuer opts \<and>
                  po_audience opts \<in> set (rg_audience (tc_registered c))
               then (Inr (c, True), w) else (Inl ''token is invalid'', w)))"

lemma ex_parse_sound: "jwt_sound ex_parse ex_verifies"
  unfolding jwt_sound_def
proof (intro allI impI, goal_cases)
  case (1 token unmarshal key opts w c w')
  then show ?case
    by (intro exI [of _ "JObj ex_members"] exI [of _ ex_token] exI [of _ ex_key])
      (auto simp: ex_parse_def ex_verifies_def split: if_splits sum.splits prod.splits)
qed

definition ex_source :: "unit jwks_source" where
  "ex_source = \<lparr>js_new_request = (\<lambda>_. Inr ()), js_get = (\<lambda>_ x. (Inr (200, Inr [ex_jwk]), x))\<rparr>"

lemma ex_parse_rsa: "parse_rsa_public_key ex_jwk = Inr ex_key"
proof -
  have "raw_url_decode ''w7s'' = Some [195, 187]" "raw_url_decode ''AQAB'' = Some [1, 0, 1]"
    by (simp_all add: raw_url_decode_def url64_val_def Let_def)
  moreover have "int64_of 65537 = 65537" by (simp add: int64_of_def)
  ultimately show ?thesis
    by (simp add: parse_rsa_public_key_def ex_jwk_def ex_key_def bytes_nat_def)
qed

lemma ex_key_func:
  "key_func ex_source ex_extractor (\<lambda>i. int i) ex_token (\<lparr>jc_keys = None, jc_fetched_at = -1000\<rparr>, ()) =
     (Inr ex_key, \<lparr>jc_keys = Some [ex_jwk], jc_fetched_at = 1\<rparr>, ())"
proof -
  let ?c = "\<lparr>jc_keys = None, jc_fetched_at = -1000\<rparr> :: jwks_cache"
  have f: "fetch_jwks ex_source ex_extractor () = (Inr [ex_jwk], ())"
    by (simp add: fetch_jwks_def ex_source_def)
  have g: "get_jwks ex_source ex_extractor False (\<lambda>i. int i) (?c, ()) =
      (Inr [ex_jwk], \<lparr>jc_keys = Some [ex_jwk], jc_fetched_at = 1\<rparr>, ())"
    by (simp add: get_jwks_def read_phase_def cache_valid_def write_phase_def f)
  have t: "jt_rsa ex_token" "map_of (jt_header ex_token) ''kid'' = Some (JStr ''k1'')"
    by (simp_all add: ex_token_def)
  have k: "find_key ''k1'' [ex_jwk] = Some ex_jwk" by (simp add: find_key_def ex_jwk_def)
  have ne: "trim_space ''k1'' \<noteq> ''''" by (simp add: trim_space_def is_space_def)
  show ?thesis
    by (simp add: key_func_def t g k ne ex_parse_rsa)
qed

lemma ex_extract:
  "extract_principal ex_parse ex_registered (key_func ex_source ex_extractor (\<lambda>i. int i)) ex_extractor
     ''bearer h.p.s'' (\<lparr>jc_keys = None, jc_fetched_at = -1000\<rparr>, ()) =
   (Inr \<lparr>pr_claims = validated_claims ex_claims\<rparr>, \<lparr>jc_keys = Some [ex_jwk], jc_fetched_at = 1\<rparr>, ())"
proof -
  have b: "bearer_token ''bearer h.p.s'' = Inr ''h.p.s''" by code_simp
  have o: "tc_issuer ex_claims = po_issuer (extractor_options ex_extractor)"
      "po_audience (extractor_options ex_extractor) \<in> set (rg_audience (tc_registered ex_claims))"
      "jt_alg ex_token \<in> set (po_methods (extractor_options ex_extractor))"
    by (simp_all add: ex_claims_def extractor_options_def ex_extractor_def ex_token_def)
  show ?thesis
    by (simp add: extract_principal_def b ex_parse_def ex_unmarshal ex_key_func o ex_principal)
qed


text \<open>Requests that took the same time of the last fetch and then, one after the other, the write lock.\<close>

fun overlapping_refreshes ::
  "'x jwks_source \<Rightarrow> token_extractor \<Rightarrow> time \<Rightarrow> time list \<Rightarrow> jwks_cache \<times> 'x \<Rightarrow> (string + jwk list) list \<times> jwks_cache \<times> 'x" where
  "overlapping_refreshes src te snapshot [] w = ([], w)"
| "overlapping_refreshes src te snapshot (now # nows) w =
     (case write_phase src te True snapshot now w of
        (r, w) \<Rightarrow> (case overlapping_refreshes src te snapshot nows w of (rs, w) \<Rightarrow> (r # rs, w)))"

lemma refreshes_reuse:
  assumes "jc_keys c = Some keys" "snapshot < jc_fetched_at c"
  shows "overlapping_refreshes src te snapshot nows (c, x) = (replicate (length nows) (Inr keys), c, x)"
  using assms by (induction nows) (simp_all add: write_phase_def after_def)

text \<open>
  Requests that meet an unknown key at the same time refresh the key set once: when the first
  of them has fetched the keys, the others return those keys and send nothing to the issuer.
\<close>

theorem overlapping_refreshes_fetch_once:
  assumes "read_phase te True now0 c = Inr snapshot" and "snapshot < now"
    and "fetch_jwks src te x = (Inr keys, x')"
  shows "overlapping_refreshes src te snapshot (now # nows) (c, x) =
    (replicate (Suc (length nows)) (Inr keys), \<lparr>jc_keys = Some keys, jc_fetched_at = now\<rparr>, x')"
proof -
  have "snapshot = jc_fetched_at c" using assms(1) by (simp add: read_phase_def)
  then have "write_phase src te True snapshot now (c, x) = (Inr keys, \<lparr>jc_keys = Some keys, jc_fetched_at = now\<rparr>, x')"
    using assms(3) by (simp add: write_phase_def after_def)
  then show ?thesis using assms(2) by (simp add: refreshes_reuse)
qed

definition ex_counting_source :: "nat jwks_source" where
  "ex_counting_source = \<lparr>js_new_request = (\<lambda>_. Inr ()), js_get = (\<lambda>_ n. (Inr (200, Inr [ex_jwk]), Suc n))\<rparr>"

theorem overlapping_refreshes_fetch_once_witness:
  "snd (snd (overlapping_refreshes ex_counting_source ex_extractor 5 [9, 10, 12] (\<lparr>jc_keys = Some [], jc_fetched_at = 5\<rparr>, 0))) = 1"
proof -
  have r: "read_phase ex_extractor True 8 \<lparr>jc_keys = Some [], jc_fetched_at = 5\<rparr> = Inr 5"
    by (simp add: read_phase_def)
  have f: "fetch_jwks ex_counting_source ex_extractor 0 = (Inr [ex_jwk], 1)"
    by (simp add: fetch_jwks_def ex_counting_source_def)
  show ?thesis
    using overlapping_refreshes_fetch_once [OF r _ f, of 9 "[10, 12]"] by simp
qed

end
