(* ===== verification/PB_Models.thy ===== *)
theory PB_Models
  imports Store PDP_Models Strconv
begin

text \<open>
  Data of the Portal Backend: the shared kernel (\<^verbatim>\<open>internal/pb/kernel\<close>), the tables of
  members, schemas, applications and submissions (the \<^verbatim>\<open>model.go\<close> of each package and
  \<^verbatim>\<open>cmd/pb/schema.sql\<close>), the request and response objects, the errors, and the
  statements on the database with the ways in which they fail.
\<close>

section \<open>Kernel\<close>

definition KernelStatusPending :: string where "KernelStatusPending = ''pending''"
definition KernelStatusApproved :: string where "KernelStatusApproved = ''approved''"
definition KernelStatusRejected :: string where "KernelStatusRejected = ''rejected''"

definition ActiveVersion :: string where "ActiveVersion = ''active''"
definition DeprecatedVersion :: string where "DeprecatedVersion = ''deprecated''"

record base_model =
  bm_created_at :: time
  bm_updated_at :: time

text \<open>GORM's hooks, at the time the call reads.\<close>

definition before_create :: "time \<Rightarrow> base_model" where
  "before_create now = \<lparr>bm_created_at = now, bm_updated_at = now\<rparr>"

definition before_update :: "time \<Rightarrow> base_model \<Rightarrow> base_model" where
  "before_update now b = b\<lparr>bm_updated_at := now\<rparr>"

record 'a collection =
  co_items :: "'a list"
  co_count :: nat

definition collection_of :: "'a list \<Rightarrow> 'a collection" where
  "collection_of xs = \<lparr>co_items = xs, co_count = length xs\<rparr>"

section \<open>Tables\<close>

record member =
  mb_member_id :: string
  mb_name :: string
  mb_email :: string
  mb_phone_number :: string
  mb_ou_id :: string
  mb_base :: base_model

definition member_clash :: "member \<Rightarrow> member \<Rightarrow> bool" where
  "member_clash x y \<longleftrightarrow> mb_member_id x = mb_member_id y \<or> mb_ou_id x = mb_ou_id y"

record pb_schema =
  ps_schema_id :: string
  ps_member_id :: string
  ps_name :: string
  ps_sdl :: string
  ps_endpoint :: string
  ps_version :: string
  ps_description :: "string option"
  ps_base :: base_model

definition schema_clash :: "pb_schema \<Rightarrow> pb_schema \<Rightarrow> bool" where
  "schema_clash x y \<longleftrightarrow> ps_schema_id x = ps_schema_id y"

record schema_submission =
  ss_id :: string
  ss_previous_id :: "string option"
  ss_name :: string
  ss_description :: "string option"
  ss_sdl :: string
  ss_endpoint :: string
  ss_status :: string
  ss_member_id :: string
  ss_review :: "string option"
  ss_base :: base_model

definition schema_submission_clash :: "schema_submission \<Rightarrow> schema_submission \<Rightarrow> bool" where
  "schema_submission_clash x y \<longleftrightarrow> ss_id x = ss_id y"

text \<open>A \<^verbatim>\<open>SelectedFieldRecord\<close> is \<^typ>\<open>field_request\<close>: the same two members.\<close>

record application =
  ap_id :: string
  ap_name :: string
  ap_description :: "string option"
  ap_fields :: "field_request list"
  ap_member_id :: string
  ap_version :: string
  ap_idp_id :: "string option"
  ap_client_id :: "string option"
  ap_base :: base_model

definition application_clash :: "application \<Rightarrow> application \<Rightarrow> bool" where
  "application_clash x y \<longleftrightarrow> ap_id x = ap_id y"

definition TemplateIDM2M :: string where "TemplateIDM2M = ''m2m-application''"

record app_submission =
  as_id :: string
  as_previous_id :: "string option"
  as_name :: string
  as_description :: "string option"
  as_fields :: "field_request list"
  as_member_id :: string
  as_status :: string
  as_review :: "string option"
  as_base :: base_model

definition app_submission_clash :: "app_submission \<Rightarrow> app_submission \<Rightarrow> bool" where
  "app_submission_clash x y \<longleftrightarrow> as_id x = as_id y"

interpretation members: keyed_table mb_member_id member_clash
  by unfold_locales (auto simp: member_clash_def)

interpretation member_units: keyed_table mb_ou_id member_clash
  by unfold_locales (auto simp: member_clash_def)

interpretation schemas: keyed_table ps_schema_id schema_clash
  by unfold_locales (auto simp: schema_clash_def)

interpretation schema_submissions: keyed_table ss_id schema_submission_clash
  by unfold_locales (auto simp: schema_submission_clash_def)

interpretation applications: keyed_table ap_id application_clash
  by unfold_locales (auto simp: application_clash_def)

interpretation app_submissions: keyed_table as_id app_submission_clash
  by unfold_locales (auto simp: app_submission_clash_def)

text \<open>A management event as the audit library's request carries it.\<close>

record audit_log =
  ag_event_type :: string
  ag_action :: string
  ag_status :: string
  ag_actor_type :: string
  ag_actor_id :: string
  ag_target_type :: string
  ag_target_id :: "string option"
  ag_resource :: string
  ag_client_id :: string

text \<open>\<open>pb_audit\<close>: the events sent to the audit service. \<open>pb_ext\<close>: what lies outside the database, the Policy Decision Point and the identity provider.\<close>

record 'x pb_state =
  pb_members :: "member table"
  pb_schemas :: "pb_schema table"
  pb_schema_subs :: "schema_submission table"
  pb_apps :: "application table"
  pb_app_subs :: "app_submission table"
  pb_audit :: "audit_log list"
  pb_ext :: 'x

subsection \<open>The column of selected fields\<close>

fun selected_fields_scan :: "(string \<Rightarrow> field_request list option) \<Rightarrow> db_value \<Rightarrow> scan_error + field_request list" where
  "selected_fields_scan unmarshal DbNull = Inr []"
| "selected_fields_scan unmarshal (DbBytes b) = (case unmarshal b of None \<Rightarrow> Inl BadJson | Some v \<Rightarrow> Inr v)"
| "selected_fields_scan unmarshal (DbString s) = (case unmarshal s of None \<Rightarrow> Inl BadJson | Some v \<Rightarrow> Inr v)"
| "selected_fields_scan unmarshal DbOther = Inl CannotScan"

definition selected_fields_value :: "(field_request list \<Rightarrow> string) \<Rightarrow> field_request list \<Rightarrow> db_value" where
  "selected_fields_value marshal fs = DbBytes (marshal fs)"

text \<open>\<^verbatim>\<open>GormValue\<close>: the placeholder with the dialect's cast, and the text bound to it.\<close>

definition selected_fields_expr :: "(field_request list \<Rightarrow> string) \<Rightarrow> string \<Rightarrow> field_request list \<Rightarrow> string \<times> db_value" where
  "selected_fields_expr marshal dialect fs =
     ((if dialect = ''postgres'' then ''?::jsonb'' else ''?''), DbString (marshal fs))"

lemma selected_fields_roundtrip:
  assumes "unmarshal (marshal fs) = Some fs"
  shows "selected_fields_scan unmarshal (selected_fields_value marshal fs) = Inr fs"
    and "selected_fields_scan unmarshal (snd (selected_fields_expr marshal dialect fs)) = Inr fs"
  using assms by (simp_all add: selected_fields_value_def selected_fields_expr_def)

section \<open>Requests and responses\<close>

record create_member_request =
  cm_name :: string
  cm_email :: string
  cm_phone_number :: string
  cm_ou_id :: string

record update_member_request =
  um_name :: "string option"
  um_email :: "string option"
  um_phone_number :: "string option"

record member_response =
  mr_member_id :: string
  mr_member_name :: string
  mr_email :: string
  mr_phone_number :: string
  mr_ou_id :: string
  mr_member_created :: string
  mr_member_updated :: string

record create_schema_request =
  cs_id :: string
  cs_name :: string
  cs_description :: "string option"
  cs_sdl :: string
  cs_fields :: "create_record list"
  cs_endpoint :: string
  cs_member_id :: string

record update_schema_request =
  us_name :: "string option"
  us_description :: "string option"
  us_sdl :: "string option"
  us_endpoint :: "string option"
  us_version :: "string option"

record schema_response =
  sr_schema_id :: string
  sr_member_id :: string
  sr_name :: string
  sr_sdl :: string
  sr_endpoint :: string
  sr_version :: string
  sr_description :: "string option"
  sr_created_at :: string
  sr_updated_at :: string

record create_schema_submission_request =
  css_name :: string
  css_description :: "string option"
  css_sdl :: string
  css_endpoint :: string
  css_previous_id :: "string option"
  css_member_id :: string

record update_schema_submission_request =
  uss_name :: "string option"
  uss_description :: "string option"
  uss_sdl :: "string option"
  uss_endpoint :: "string option"
  uss_status :: "string option"
  uss_previous_id :: "string option"
  uss_review :: "string option"

record schema_submission_response =
  ssr_id :: string
  ssr_previous_id :: "string option"
  ssr_name :: string
  ssr_description :: "string option"
  ssr_sdl :: string
  ssr_endpoint :: string
  ssr_status :: string
  ssr_member_id :: string
  ssr_created_at :: string
  ssr_updated_at :: string
  ssr_review :: "string option"

record create_application_request =
  ca_name :: string
  ca_description :: "string option"
  ca_fields :: "field_request list"
  ca_member_id :: string
  ca_idp_id :: "string option"
  ca_client_id :: "string option"

record update_application_request =
  ua_name :: "string option"
  ua_description :: "string option"
  ua_version :: "string option"

record update_application_policy_request =
  up_fields :: "field_request list"
  up_grant_duration :: "string option"

record application_response =
  ar_id :: string
  ar_name :: string
  ar_description :: "string option"
  ar_fields :: "field_request list"
  ar_member_id :: string
  ar_version :: string
  ar_idp_id :: "string option"
  ar_client_id :: "string option"
  ar_client_secret :: "string option"
  ar_created_at :: string
  ar_app_updated_at :: string

record create_app_submission_request =
  cas_name :: string
  cas_description :: "string option"
  cas_fields :: "field_request list"
  cas_previous_id :: "string option"
  cas_member_id :: string

record update_app_submission_request =
  uas_name :: "string option"
  uas_description :: "string option"
  uas_fields :: "field_request list option"
  uas_status :: "string option"
  uas_previous_id :: "string option"
  uas_review :: "string option"

record app_submission_response =
  asr_id :: string
  asr_previous_id :: "string option"
  asr_name :: string
  asr_description :: "string option"
  asr_fields :: "field_request list"
  asr_member_id :: string
  asr_status :: string
  asr_created_at :: string
  asr_updated_at :: string
  asr_review :: "string option"

section \<open>Errors\<close>

text \<open>
  What \<^verbatim>\<open>errors.Is\<close> and \<^verbatim>\<open>errors.As\<close> can tell about an error; a wrapped error
  keeps it.
\<close>

datatype pb_kind =
    PlainError | RecordNotFound | DuplicatedKey | MemberAlreadyExists | InvalidSchemaID
  | SchemaAlreadyExists | MetadataNotInSchema | PdpStatusError nat string

record pb_error =
  pb_kind :: pb_kind
  pb_text :: string

definition plain_error :: "string \<Rightarrow> pb_error" where
  "plain_error s = \<lparr>pb_kind = PlainError, pb_text = s\<rparr>"

definition gorm_not_found :: pb_error where
  "gorm_not_found = \<lparr>pb_kind = RecordNotFound, pb_text = ''record not found''\<rparr>"

definition gorm_duplicated_key :: pb_error where
  "gorm_duplicated_key = \<lparr>pb_kind = DuplicatedKey, pb_text = ''duplicated key not allowed''\<rparr>"

text \<open>\<^verbatim>\<open>fmt.Errorf\<close> with \<^verbatim>\<open>%w\<close> at the end, and with \<^verbatim>\<open>%w\<close> twice.\<close>

definition wrap_pb :: "string \<Rightarrow> pb_error \<Rightarrow> pb_error" where
  "wrap_pb prefix e = e\<lparr>pb_text := prefix @ pb_text e\<rparr>"

definition wrap_both :: "string \<Rightarrow> pb_error \<Rightarrow> string \<Rightarrow> pb_error \<Rightarrow> pb_error" where
  "wrap_both prefix e mid e' =
     \<lparr>pb_kind = (if pb_kind e = PlainError then pb_kind e' else pb_kind e),
      pb_text = prefix @ pb_text e @ mid @ pb_text e'\<rparr>"

section \<open>Statements\<close>

datatype pb_stmt =
    PbCreateMember | PbFindMember | PbLoadMember | PbSaveMember | PbFindByUnit | PbListMembers
  | PbCreateSchema | PbDeleteSchema | PbFindSchema | PbLoadSchema | PbSaveSchema | PbListSchemas
  | PbFindOwner | PbFindPrevious | PbCreateSubmission | PbFindSubmission | PbLoadSubmission | PbSaveSubmission
  | PbResetSubmission | PbListSubmissions
  | PbFindUnit | PbCreateApplication | PbDeleteApplication | PbFindApplication | PbLoadApplication | PbSaveApplication
  | PbListApplications

text \<open>
  The environment of a call: the readings of the clock, the fresh UUIDs, and the statements that
  fail with their error text.
\<close>

record pb_env =
  pv_audit :: bool  \<comment> \<open>an audit client is set and enabled\<close>
  pv_clock :: "nat \<Rightarrow> time"
  pv_uuid :: "nat \<Rightarrow> string"
  pv_fails :: "pb_stmt \<Rightarrow> string option"

definition db_first ::
  "pb_env \<Rightarrow> pb_stmt \<Rightarrow> ('r \<Rightarrow> string) \<Rightarrow> ('r \<Rightarrow> bool) \<Rightarrow> 'r table \<Rightarrow> pb_error + 'r" where
  "db_first env stmt k p t =
     (case pv_fails env stmt of
        Some e \<Rightarrow> Inl (plain_error e)
      | None \<Rightarrow> (case sql_first k p t of None \<Rightarrow> Inl gorm_not_found | Some r \<Rightarrow> Inr r))"

definition db_find :: "pb_env \<Rightarrow> pb_stmt \<Rightarrow> 'r list \<Rightarrow> pb_error + 'r list" where
  "db_find env stmt rows = (case pv_fails env stmt of Some e \<Rightarrow> Inl (plain_error e) | None \<Rightarrow> Inr rows)"

definition db_create ::
  "pb_env \<Rightarrow> pb_stmt \<Rightarrow> ('r \<Rightarrow> 'r \<Rightarrow> bool) \<Rightarrow> 'r \<Rightarrow> 'r table \<Rightarrow> pb_error + 'r table" where
  "db_create env stmt clash r t =
     (case pv_fails env stmt of
        Some e \<Rightarrow> Inl (plain_error e)
      | None \<Rightarrow> (case sql_insert clash r t of None \<Rightarrow> Inl gorm_duplicated_key | Some t' \<Rightarrow> Inr t'))"

text \<open>\<^verbatim>\<open>Save\<close>: all columns of the row with the key, or an insert when there is none.\<close>

definition db_save ::
  "pb_env \<Rightarrow> pb_stmt \<Rightarrow> ('r \<Rightarrow> string) \<Rightarrow> 'r \<Rightarrow> 'r table \<Rightarrow> pb_error + 'r table" where
  "db_save env stmt k r t =
     (case pv_fails env stmt of
        Some e \<Rightarrow> Inl (plain_error e)
      | None \<Rightarrow> Inr (if sql_affected (\<lambda>x. k x = k r) t = 0 then t @ [r]
                      else sql_update (\<lambda>x. k x = k r) (\<lambda>_. r) t))"

definition db_delete ::
  "pb_env \<Rightarrow> pb_stmt \<Rightarrow> ('r \<Rightarrow> bool) \<Rightarrow> 'r table \<Rightarrow> pb_error + 'r table" where
  "db_delete env stmt p t =
     (case pv_fails env stmt of Some e \<Rightarrow> Inl (plain_error e) | None \<Rightarrow> Inr (sql_delete p t))"

text \<open>A submission refers to a row of another table by its optional previous id.\<close>

definition fk_holds :: "('r \<Rightarrow> string) \<Rightarrow> 'r table \<Rightarrow> string option \<Rightarrow> bool" where
  "fk_holds k t i = (case i of None \<Rightarrow> True | Some i \<Rightarrow> list_ex (\<lambda>r. k r = i) t)"

definition fk_error :: pb_error where
  "fk_error = plain_error ''violates foreign key constraint''"

definition require_fk :: "bool \<Rightarrow> pb_error + 'a \<Rightarrow> pb_error + 'a" where
  "require_fk ok r = (if ok then r else Inl fk_error)"

text \<open>An optional member of an update request: absent, the column keeps its value.\<close>

definition patched :: "'a option \<Rightarrow> 'a \<Rightarrow> 'a" where
  "patched new old = (case new of None \<Rightarrow> old | Some v \<Rightarrow> v)"

definition patched_opt :: "'a option \<Rightarrow> 'a option \<Rightarrow> 'a option" where
  "patched_opt new old = (case new of None \<Rightarrow> old | Some v \<Rightarrow> Some v)"

text \<open>A description that is set and not empty.\<close>

definition shown_description :: "string option \<Rightarrow> string option" where
  "shown_description d = (case d of None \<Rightarrow> None | Some s \<Rightarrow> if s = '''' then None else Some s)"

lemmas db_defs = db_first_def db_find_def db_create_def db_save_def db_delete_def

end
