(* ===== verification/PB_Caller.thy ===== *)
theory PB_Caller
  imports PB_Models Authn
begin

text \<open>
  Who is calling the Portal Backend (\<^verbatim>\<open>internal/pb/caller\<close>): the scopes of the token, its
  organization unit and the member that unit belongs to; and the audit events of a request
  (\<^verbatim>\<open>internal/pb/middleware\<close>).
\<close>

section \<open>Scopes\<close>

definition ScopeMemberRead :: string where "ScopeMemberRead = ''member:read''"
definition ScopeMemberWrite :: string where "ScopeMemberWrite = ''member:write''"
definition ScopeMemberReadAll :: string where "ScopeMemberReadAll = ''member:read-all''"
definition ScopeMemberWriteAll :: string where "ScopeMemberWriteAll = ''member:write-all''"
definition ScopeSchemaRead :: string where "ScopeSchemaRead = ''schema:read''"
definition ScopeSchemaWrite :: string where "ScopeSchemaWrite = ''schema:write''"
definition ScopeSchemaReadAll :: string where "ScopeSchemaReadAll = ''schema:read-all''"
definition ScopeSchemaWriteAll :: string where "ScopeSchemaWriteAll = ''schema:write-all''"
definition ScopeSchemaSubmissionRead :: string where "ScopeSchemaSubmissionRead = ''schema-submission:read''"
definition ScopeSchemaSubmissionWrite :: string where "ScopeSchemaSubmissionWrite = ''schema-submission:write''"
definition ScopeSchemaSubmissionReadAll :: string where
  "ScopeSchemaSubmissionReadAll = ''schema-submission:read-all''"
definition ScopeSchemaSubmissionWriteAll :: string where
  "ScopeSchemaSubmissionWriteAll = ''schema-submission:write-all''"
definition ScopeApplicationRead :: string where "ScopeApplicationRead = ''application:read''"
definition ScopeApplicationWrite :: string where "ScopeApplicationWrite = ''application:write''"
definition ScopeApplicationReadAll :: string where "ScopeApplicationReadAll = ''application:read-all''"
definition ScopeApplicationWriteAll :: string where "ScopeApplicationWriteAll = ''application:write-all''"
definition ScopeApplicationSubmissionRead :: string where
  "ScopeApplicationSubmissionRead = ''application-submission:read''"
definition ScopeApplicationSubmissionWrite :: string where
  "ScopeApplicationSubmissionWrite = ''application-submission:write''"
definition ScopeApplicationSubmissionReadAll :: string where
  "ScopeApplicationSubmissionReadAll = ''application-submission:read-all''"
definition ScopeApplicationSubmissionWriteAll :: string where
  "ScopeApplicationSubmissionWriteAll = ''application-submission:write-all''"

definition AllScopes :: "string list" where
  "AllScopes =
     [ScopeMemberRead, ScopeMemberWrite, ScopeMemberReadAll, ScopeMemberWriteAll,
      ScopeSchemaRead, ScopeSchemaWrite, ScopeSchemaReadAll, ScopeSchemaWriteAll,
      ScopeSchemaSubmissionRead, ScopeSchemaSubmissionWrite, ScopeSchemaSubmissionReadAll, ScopeSchemaSubmissionWriteAll,
      ScopeApplicationRead, ScopeApplicationWrite, ScopeApplicationReadAll, ScopeApplicationWriteAll,
      ScopeApplicationSubmissionRead, ScopeApplicationSubmissionWrite, ScopeApplicationSubmissionReadAll,
      ScopeApplicationSubmissionWriteAll]"

lemmas scope_defs = ScopeMemberRead_def ScopeMemberWrite_def ScopeMemberReadAll_def ScopeMemberWriteAll_def
  ScopeSchemaRead_def ScopeSchemaWrite_def ScopeSchemaReadAll_def ScopeSchemaWriteAll_def
  ScopeSchemaSubmissionRead_def ScopeSchemaSubmissionWrite_def ScopeSchemaSubmissionReadAll_def
  ScopeSchemaSubmissionWriteAll_def ScopeApplicationRead_def ScopeApplicationWrite_def
  ScopeApplicationReadAll_def ScopeApplicationWriteAll_def ScopeApplicationSubmissionRead_def
  ScopeApplicationSubmissionWrite_def ScopeApplicationSubmissionReadAll_def
  ScopeApplicationSubmissionWriteAll_def

lemma AllScopes_distinct: "distinct AllScopes"
  by (simp add: AllScopes_def scope_defs)

section \<open>The request's context\<close>

record req_ctx =
  rx_method :: string
  rx_auth :: auth_context
  rx_member_id :: "string option"

definition principal_from_context :: "req_ctx \<Rightarrow> principal option" where
  "principal_from_context ctx = rx_auth ctx"

definition has_scope :: "req_ctx \<Rightarrow> string \<Rightarrow> bool" where
  "has_scope ctx scope =
     (case principal_scopes (rx_auth ctx) of None \<Rightarrow> False | Some scopes \<Rightarrow> list_ex (\<lambda>s. s = scope) scopes)"

definition ctx_ou_id :: "req_ctx \<Rightarrow> string" where
  "ctx_ou_id ctx = principal_ou_id (rx_auth ctx)"

definition with_member_id :: "string \<Rightarrow> req_ctx \<Rightarrow> req_ctx" where
  "with_member_id i ctx = ctx\<lparr>rx_member_id := Some i\<rparr>"

definition ctx_member_id :: "req_ctx \<Rightarrow> string option" where
  "ctx_member_id ctx =
     (case rx_member_id ctx of None \<Rightarrow> None | Some i \<Rightarrow> if i = '''' then None else Some i)"

definition can_access :: "req_ctx \<Rightarrow> string \<Rightarrow> string \<Rightarrow> bool" where
  "can_access ctx all_scope owner_id \<longleftrightarrow>
     has_scope ctx all_scope \<or>
     (case ctx_member_id ctx of None \<Rightarrow> False | Some i \<Rightarrow> i = owner_id)"

text \<open>\<open>lookup\<close> is the member service's; the next handler runs on the context with the member.\<close>

definition caller_middleware ::
  "(string \<Rightarrow> 's \<Rightarrow> pb_error + string) \<Rightarrow> (nat \<Rightarrow> string \<Rightarrow> 'r) \<Rightarrow> (req_ctx \<Rightarrow> 's \<Rightarrow> 'r \<times> 's) \<Rightarrow>
   req_ctx \<Rightarrow> 's \<Rightarrow> 'r \<times> 's" where
  "caller_middleware lookup refuse next ctx st =
     (if ctx_ou_id ctx = '''' then next ctx st
      else case lookup (ctx_ou_id ctx) st of
        Inl _ \<Rightarrow> (refuse StatusInternalServerError ''Failed to look up the caller's member'', st)
      | Inr i \<Rightarrow> if i = '''' then next ctx st else next (with_member_id i ctx) st)"

section \<open>Audit\<close>

definition AuditStatusSuccess :: string where "AuditStatusSuccess = ''SUCCESS''"
definition AuditStatusFailure :: string where "AuditStatusFailure = ''FAILURE''"
definition ResourceTypeMembers :: string where "ResourceTypeMembers = ''MEMBERS''"
definition ResourceTypeSchemas :: string where "ResourceTypeSchemas = ''SCHEMAS''"
definition ResourceTypeSchemaSubmissions :: string where "ResourceTypeSchemaSubmissions = ''SCHEMA-SUBMISSIONS''"
definition ResourceTypeApplications :: string where "ResourceTypeApplications = ''APPLICATIONS''"
definition ResourceTypeApplicationSubmissions :: string where
  "ResourceTypeApplicationSubmissions = ''APPLICATION-SUBMISSIONS''"
definition ActorTypeSystem :: string where "ActorTypeSystem = ''SYSTEM''"
definition ActorTypeAdmin :: string where "ActorTypeAdmin = ''ADMIN''"
definition ActorTypeMember :: string where "ActorTypeMember = ''MEMBER''"

definition is_write_operation :: "string \<Rightarrow> bool" where
  "is_write_operation m \<longleftrightarrow> m = ''POST'' \<or> m = ''PUT'' \<or> m = ''PATCH'' \<or> m = ''DELETE''"

definition determine_event_type :: "string \<Rightarrow> string" where
  "determine_event_type m =
     (if m = ''POST'' then ''CREATE''
      else if m = ''PUT'' \<or> m = ''PATCH'' then ''UPDATE''
      else if m = ''DELETE'' then ''DELETE'' else '''')"

definition extract_actor :: "req_ctx \<Rightarrow> string \<times> string" where
  "extract_actor ctx =
     (case rx_auth ctx of
        None \<Rightarrow> (ActorTypeSystem, ''unauthenticated-request'')
      | Some p \<Rightarrow>
          ((if has_scope ctx ScopeMemberWriteAll then ActorTypeAdmin
            else if principal_ou_id (Some p) \<noteq> '''' then ActorTypeMember
            else ActorTypeSystem), principal_subject (Some p)))"

definition log_audit :: "pb_env \<Rightarrow> req_ctx \<Rightarrow> string \<Rightarrow> string option \<Rightarrow> string \<Rightarrow> 'x pb_state \<Rightarrow> 'x pb_state" where
  "log_audit env ctx resource resource_id status st =
     (if \<not> pv_audit env \<or> \<not> is_write_operation (rx_method ctx) then st
      else case extract_actor ctx of (actor_type, actor_id) \<Rightarrow>
        if determine_event_type (rx_method ctx) = '''' then st
        else st\<lparr>pb_audit := pb_audit st @
          [\<lparr>ag_event_type = ''MANAGEMENT_EVENT'', ag_action = determine_event_type (rx_method ctx),
            ag_status = status, ag_actor_type = actor_type, ag_actor_id = actor_id,
            ag_target_type = ''RESOURCE'', ag_target_id = resource_id, ag_resource = resource,
            ag_client_id = principal_client_id (rx_auth ctx)\<rparr>]\<rparr>)"

text \<open>An audit event changes the log alone.\<close>

lemma log_audit_frame [simp]:
  "pb_members (log_audit env ctx r i s st) = pb_members st"
  "pb_schemas (log_audit env ctx r i s st) = pb_schemas st"
  "pb_schema_subs (log_audit env ctx r i s st) = pb_schema_subs st"
  "pb_apps (log_audit env ctx r i s st) = pb_apps st"
  "pb_app_subs (log_audit env ctx r i s st) = pb_app_subs st"
  "pb_ext (log_audit env ctx r i s st) = pb_ext st"
  by (simp_all add: log_audit_def split: prod.split)

end
