(* ===== verification/PB_Member.thy ===== *)
theory PB_Member
  imports PB_Caller
begin

text \<open>
  Members: the service of \<^verbatim>\<open>internal/pb/member/service.go\<close> and the handlers of
  \<^verbatim>\<open>handler.go\<close>. An operation takes the environment of its call and returns its result
  and the state it leaves; a body that the JSON decoder refuses is \<open>None\<close>.
\<close>

section \<open>Service\<close>

definition build_member_response :: "member \<Rightarrow> member_response" where
  "build_member_response m =
     \<lparr>mr_member_id = mb_member_id m, mr_member_name = mb_name m, mr_email = mb_email m,
      mr_phone_number = mb_phone_number m, mr_ou_id = mb_ou_id m,
      mr_member_created = rfc3339 (bm_created_at (mb_base m)),
      mr_member_updated = rfc3339 (bm_updated_at (mb_base m))\<rparr>"

definition ErrMemberAlreadyExists :: pb_error where
  "ErrMemberAlreadyExists =
     \<lparr>pb_kind = MemberAlreadyExists, pb_text = ''a member is already linked to this organization unit''\<rparr>"

definition create_member ::
  "pb_env \<Rightarrow> create_member_request \<Rightarrow> 'x pb_state \<Rightarrow> (pb_error + member_response) \<times> 'x pb_state" where
  "create_member env req st =
     (if cm_ou_id req = '''' then (Inl (plain_error ''ouId must not be empty''), st)
      else
        let m = \<lparr>mb_member_id = pv_uuid env 0, mb_name = cm_name req, mb_email = cm_email req,
                 mb_phone_number = cm_phone_number req, mb_ou_id = cm_ou_id req,
                 mb_base = before_create (pv_clock env 0)\<rparr> in
        (case db_create env PbCreateMember member_clash m (pb_members st) of
           Inl e \<Rightarrow>
             (Inl (if pb_kind e = DuplicatedKey then ErrMemberAlreadyExists
                   else wrap_pb ''failed to create member in database: '' e), st)
         | Inr t \<Rightarrow> (Inr (build_member_response m), st\<lparr>pb_members := t\<rparr>)))"

definition apply_member_update :: "time \<Rightarrow> update_member_request \<Rightarrow> member \<Rightarrow> member" where
  "apply_member_update now req m = m\<lparr>mb_name := patched (um_name req) (mb_name m),
     mb_email := patched (um_email req) (mb_email m),
     mb_phone_number := patched (um_phone_number req) (mb_phone_number m),
     mb_base := before_update now (mb_base m)\<rparr>"

definition update_member ::
  "pb_env \<Rightarrow> string \<Rightarrow> update_member_request \<Rightarrow> 'x pb_state \<Rightarrow> (pb_error + member_response) \<times> 'x pb_state" where
  "update_member env i req st =
     (case db_first env PbLoadMember mb_member_id (\<lambda>m. mb_member_id m = i) (pb_members st) of
        Inl e \<Rightarrow> (Inl (wrap_pb ''member not found: '' e), st)
      | Inr m \<Rightarrow>
          let m' = apply_member_update (pv_clock env 0) req m in
          (case db_save env PbSaveMember mb_member_id m' (pb_members st) of
             Inl e \<Rightarrow> (Inl (wrap_pb ''failed to update member in database: '' e), st)
           | Inr t \<Rightarrow> (Inr (build_member_response m'), st\<lparr>pb_members := t\<rparr>)))"

definition get_member :: "pb_env \<Rightarrow> string \<Rightarrow> 'x pb_state \<Rightarrow> pb_error + member_response" where
  "get_member env i st =
     (case db_first env PbFindMember mb_member_id (\<lambda>m. mb_member_id m = i) (pb_members st) of
        Inl e \<Rightarrow> Inl (wrap_pb ''failed to fetch member: '' e)
      | Inr m \<Rightarrow> Inr (build_member_response m))"

definition get_members_by_ou_id :: "pb_env \<Rightarrow> string \<Rightarrow> 'x pb_state \<Rightarrow> pb_error + member_response list" where
  "get_members_by_ou_id env ou st =
     (case db_first env PbFindByUnit mb_member_id (\<lambda>m. mb_ou_id m = ou) (pb_members st) of
        Inl e \<Rightarrow> if pb_kind e = RecordNotFound then Inr [] else Inl (wrap_pb ''failed to fetch member: '' e)
      | Inr m \<Rightarrow> Inr [build_member_response m])"

definition list_all_members :: "pb_env \<Rightarrow> 'x pb_state \<Rightarrow> pb_error + member_response list" where
  "list_all_members env st =
     (case db_find env PbListMembers (pb_members st) of
        Inl e \<Rightarrow> Inl (wrap_pb ''failed to fetch members: '' e)
      | Inr ms \<Rightarrow> Inr (map build_member_response ms))"

definition get_all_members :: "pb_env \<Rightarrow> string option \<Rightarrow> 'x pb_state \<Rightarrow> pb_error + member_response list" where
  "get_all_members env ou st =
     (case ou of
        Some i \<Rightarrow> if i \<noteq> '''' then get_members_by_ou_id env i st else list_all_members env st
      | None \<Rightarrow> list_all_members env st)"

definition member_id_by_ou_id :: "pb_env \<Rightarrow> string \<Rightarrow> 'x pb_state \<Rightarrow> pb_error + string" where
  "member_id_by_ou_id env ou st =
     (if ou = '''' then Inr ''''
      else case get_members_by_ou_id env ou st of
        Inl e \<Rightarrow> Inl e
      | Inr [] \<Rightarrow> Inr ''''
      | Inr (m # _) \<Rightarrow> Inr (mr_member_id m))"

section \<open>Handlers\<close>

type_synonym 'b pb_reply = "('b, string) reply"

abbreviation (input) InvalidBody :: "'b pb_reply" where
  "InvalidBody \<equiv> respond_with_error StatusBadRequest ''Invalid request body''"

definition handle_create_member ::
  "pb_env \<Rightarrow> req_ctx \<Rightarrow> create_member_request option \<Rightarrow> 'x pb_state \<Rightarrow> member_response pb_reply \<times> 'x pb_state" where
  "handle_create_member env ctx body st =
     (case body of
        None \<Rightarrow> (InvalidBody, st)
      | Some req \<Rightarrow>
          (case create_member env req st of
             (Inl e, st) \<Rightarrow>
               (respond_with_error StatusBadRequest (pb_text e),
                log_audit env ctx ResourceTypeMembers None AuditStatusFailure st)
           | (Inr m, st) \<Rightarrow>
               (respond_with_success StatusCreated m,
                log_audit env ctx ResourceTypeMembers (Some (mr_member_id m)) AuditStatusSuccess st)))"

definition handle_update_member ::
  "pb_env \<Rightarrow> req_ctx \<Rightarrow> string \<Rightarrow> update_member_request option \<Rightarrow> 'x pb_state \<Rightarrow> member_response pb_reply \<times> 'x pb_state" where
  "handle_update_member env ctx i body st =
     (case get_member env i st of
        Inl e \<Rightarrow> (respond_with_error StatusNotFound (pb_text e), st)
      | Inr existing \<Rightarrow>
          if \<not> can_access ctx ScopeMemberWriteAll (mr_member_id existing) then
            (respond_with_error StatusForbidden ''Access denied to update this resource'', st)
          else case body of
            None \<Rightarrow> (InvalidBody, st)
          | Some req \<Rightarrow>
              (case update_member env i req st of
                 (Inl e, st) \<Rightarrow>
                   (respond_with_error StatusBadRequest (pb_text e),
                    log_audit env ctx ResourceTypeMembers (Some (mr_member_id existing)) AuditStatusFailure st)
               | (Inr m, st) \<Rightarrow>
                   (respond_with_success StatusOK m,
                    log_audit env ctx ResourceTypeMembers (Some (mr_member_id m)) AuditStatusSuccess st)))"

definition handle_get_member :: "pb_env \<Rightarrow> req_ctx \<Rightarrow> string \<Rightarrow> 'x pb_state \<Rightarrow> member_response pb_reply" where
  "handle_get_member env ctx i st =
     (case get_member env i st of
        Inl e \<Rightarrow> respond_with_error StatusNotFound (pb_text e)
      | Inr m \<Rightarrow>
          if \<not> can_access ctx ScopeMemberReadAll (mr_member_id m)
          then respond_with_error StatusForbidden ''Access denied to this resource''
          else respond_with_success StatusOK m)"

text \<open>\<open>ou\<close> is the query parameter, empty when it is absent.\<close>

definition handle_get_all_members ::
  "pb_env \<Rightarrow> req_ctx \<Rightarrow> string \<Rightarrow> 'x pb_state \<Rightarrow> member_response collection pb_reply" where
  "handle_get_all_members env ctx ou st =
     (let widened = has_scope ctx ScopeMemberReadAll;
          unit_id = (if widened then ou else ctx_ou_id ctx) in
      if \<not> widened \<and> unit_id = '''' then respond_with_error StatusForbidden ''User has no organization unit''
      else case get_all_members env (Some unit_id) st of
        Inl e \<Rightarrow> respond_with_error StatusInternalServerError (pb_text e)
      | Inr ms \<Rightarrow> respond_with_success StatusOK (collection_of ms))"

end
