(* ===== verification/Url.thy ===== *)
theory Url
  imports Prelude
begin

text \<open>
  Percent-encoding as in \<^verbatim>\<open>net/url\<close>, for a segment of a path and for a value of a
  query, and the decoding of both, with the round trips.
\<close>

section \<open>Encoding\<close>

text \<open>\<^verbatim>\<open>url.PathEscape\<close> and \<^verbatim>\<open>url.QueryEscape\<close>.\<close>

definition hex_digit :: "nat \<Rightarrow> char" where
  "hex_digit n = (if n < 10 then char_of (48 + n) else char_of (55 + n))"

definition is_unreserved :: "char \<Rightarrow> bool" where
  "is_unreserved c \<longleftrightarrow>
     (let n = of_char c :: nat in 48 \<le> n \<and> n \<le> 57 \<or> 65 \<le> n \<and> n \<le> 90 \<or> 97 \<le> n \<and> n \<le> 122) \<or>
     c \<in> set ''-_.~''"

definition percent :: "char \<Rightarrow> string" where
  "percent c = [CHR ''%'', hex_digit (of_char c div 16), hex_digit (of_char c mod 16)]"

definition path_escape :: "string \<Rightarrow> string" where
  "path_escape s = concat (map (\<lambda>c. if is_unreserved c \<or> c \<in> set ''$&+=:@'' then [c] else percent c) s)"

definition query_escape :: "string \<Rightarrow> string" where
  "query_escape s = concat (map (\<lambda>c. if is_unreserved c then [c] else if c = CHR '' '' then ''+'' else percent c) s)"

section \<open>Decoding\<close>

definition unhex :: "char \<Rightarrow> nat option" where
  "unhex c =
     (let n = of_char c :: nat in
      if 48 \<le> n \<and> n \<le> 57 then Some (n - 48)
      else if 97 \<le> n \<and> n \<le> 102 then Some (n - 87)
      else if 65 \<le> n \<and> n \<le> 70 then Some (n - 55)
      else None)"

text \<open>\<open>in_query\<close>: a query, in which \<open>+\<close> stands for a space.\<close>

fun unescape :: "bool \<Rightarrow> string \<Rightarrow> string option" where
  "unescape in_query [] = Some []"
| "unescape in_query (c # s) =
     (if c = CHR ''%'' then
        (case s of
           a # b # s' \<Rightarrow>
             (case (unhex a, unhex b) of
                (Some h, Some l) \<Rightarrow> map_option (Cons (char_of (16 * h + l))) (unescape in_query s')
              | _ \<Rightarrow> None)
         | _ \<Rightarrow> None)
      else map_option (Cons (if in_query \<and> c = CHR ''+'' then CHR '' '' else c)) (unescape in_query s))"

text \<open>\<^verbatim>\<open>url.Values.Get\<close> on a raw query; a pair with a semicolon is dropped.\<close>

definition query_pair :: "string \<Rightarrow> (string \<times> string) option" where
  "query_pair s =
     (if CHR '';'' \<in> set s then None
      else case (unescape True (takeWhile (\<lambda>c. c \<noteq> CHR ''='') s), unescape True (drop 1 (dropWhile (\<lambda>c. c \<noteq> CHR ''='') s))) of
        (Some k, Some v) \<Rightarrow> Some (k, v) | _ \<Rightarrow> None)"

definition query_get :: "string \<Rightarrow> string \<Rightarrow> string" where
  "query_get raw key =
     (case filter (\<lambda>(k, v). k = key) (List.map_filter query_pair (filter (\<lambda>s. s \<noteq> []) (split_on (CHR ''&'') raw))) of
        [] \<Rightarrow> '''' | (_, v) # _ \<Rightarrow> v)"

section \<open>Round trips\<close>

lemma of_char_of_small: "n < 256 \<Longrightarrow> of_char (char_of n) = (n :: nat)"
  by simp

lemma of_char_hex: "n < 16 \<Longrightarrow> of_char (hex_digit n) = (if n < 10 then 48 + n else 55 + n :: nat)"
  by (simp add: hex_digit_def)

lemma unhex_hex_digit [simp]: "n < 16 \<Longrightarrow> unhex (hex_digit n) = Some n"
  by (auto simp: unhex_def Let_def of_char_hex)

lemma unescape_percent [simp]: "unescape in_query (percent c @ s) = map_option (Cons c) (unescape in_query s)"
proof -
  let ?n = "of_char c :: nat"
  have "?n div 16 < 16" "16 * (?n div 16) + ?n mod 16 = ?n"
    using nat_of_char_less_256 [of c] by (simp_all add: less_mult_imp_div_less)
  then have "unhex (hex_digit (?n div 16)) = Some (?n div 16)" "unhex (hex_digit (?n mod 16)) = Some (?n mod 16)"
    "char_of (16 * (?n div 16) + ?n mod 16) = c"
    by simp_all
  then show ?thesis by (simp add: percent_def)
qed

lemma unreserved_plain:
  assumes "is_unreserved c"
  shows "c \<notin> set ''%+/?#&=; ''"
proof -
  have "\<not> is_unreserved d" if "d \<in> set ''%+/?#&=; ''" for d
    using that by (auto simp: is_unreserved_def Let_def)
  with assms show ?thesis by blast
qed

theorem unescape_path_escape [simp]: "unescape False (path_escape s) = Some s"
proof (induction s)
  case (Cons c s)
  have "c \<noteq> CHR ''%''" if "is_unreserved c \<or> c \<in> set ''$&+=:@''"
    using that unreserved_plain [of c] by auto
  with Cons show ?case by (auto simp: path_escape_def)
qed (simp add: path_escape_def)

theorem unescape_query_escape [simp]: "unescape True (query_escape s) = Some s"
proof (induction s)
  case (Cons c s)
  have "c \<noteq> CHR ''%'' \<and> c \<noteq> CHR ''+''" if "is_unreserved c"
    using that unreserved_plain [of c] by auto
  with Cons show ?case by (auto simp: query_escape_def)
qed (simp add: query_escape_def)

definition plain_char :: "char \<Rightarrow> bool" where
  "plain_char c \<longleftrightarrow> c \<noteq> CHR ''/'' \<and> c \<noteq> CHR ''?'' \<and> c \<noteq> CHR ''#'' \<and> c \<noteq> CHR ''&'' \<and> c \<noteq> CHR ''='' \<and> c \<noteq> CHR '';''"

lemma hex_digit_plain: "n < 16 \<Longrightarrow> plain_char (hex_digit n)"
  by (auto simp: plain_char_def dest!: arg_cong [of _ _ "of_char :: char \<Rightarrow> nat"] simp: of_char_hex split: if_splits)

lemma percent_plain: "list_all plain_char (percent c)"
proof -
  have "(of_char c :: nat) div 16 < 16" using nat_of_char_less_256 [of c] by (simp add: less_mult_imp_div_less)
  moreover have "plain_char CHR ''%''" by (simp add: plain_char_def)
  ultimately show ?thesis by (simp add: percent_def hex_digit_plain)
qed

lemma list_all_concat_map: "(\<And>c. list_all p (f c)) \<Longrightarrow> list_all p (concat (map f s))"
  by (induction s) auto

lemma path_escape_plain:
  "CHR ''/'' \<notin> set (path_escape s)" "CHR ''?'' \<notin> set (path_escape s)"
proof -
  let ?p = "\<lambda>c. c \<noteq> CHR ''/'' \<and> c \<noteq> CHR ''?''"
  have "list_all ?p (if is_unreserved c \<or> c \<in> set ''$&+=:@'' then [c] else percent c)" for c
    using unreserved_plain [of c] percent_plain [of c] by (auto simp: plain_char_def list_all_iff)
  then have "list_all ?p (path_escape s)" unfolding path_escape_def by (rule list_all_concat_map)
  then show "CHR ''/'' \<notin> set (path_escape s)" "CHR ''?'' \<notin> set (path_escape s)" by (auto simp: list_all_iff)
qed

lemma query_escape_plain:
  "CHR ''?'' \<notin> set (query_escape s)" "CHR ''&'' \<notin> set (query_escape s)" "CHR ''='' \<notin> set (query_escape s)"
  "CHR '';'' \<notin> set (query_escape s)"
proof -
  have "list_all plain_char (if is_unreserved c then [c] else if c = CHR '' '' then ''+'' else percent c)" for c
    using unreserved_plain [of c] percent_plain [of c] by (auto simp: plain_char_def)
  then have "list_all plain_char (query_escape s)" unfolding query_escape_def by (rule list_all_concat_map)
  then show "CHR ''?'' \<notin> set (query_escape s)" "CHR ''&'' \<notin> set (query_escape s)" "CHR ''='' \<notin> set (query_escape s)"
    "CHR '';'' \<notin> set (query_escape s)"
    by (auto simp: list_all_iff plain_char_def)
qed

text \<open>An escaped segment is empty or a dot segment only when the text is.\<close>

lemma percent_free_escape: "CHR ''%'' \<notin> set (path_escape s) \<Longrightarrow> path_escape s = s"
  by (induction s) (auto simp: path_escape_def percent_def split: if_splits)

lemma path_escape_dots [simp]: "path_escape s \<in> {'''', ''.'', ''..''} \<longleftrightarrow> s \<in> {'''', ''.'', ''..''}"
proof
  assume d: "path_escape s \<in> {'''', ''.'', ''..''}"
  then have "CHR ''%'' \<notin> set (path_escape s)" by auto
  with d percent_free_escape [of s] show "s \<in> {'''', ''.'', ''..''}" by metis
next
  have "is_unreserved CHR ''.''" by (simp add: is_unreserved_def)
  then show "s \<in> {'''', ''.'', ''..''} \<Longrightarrow> path_escape s \<in> {'''', ''.'', ''..''}"
    by (auto simp: path_escape_def)
qed

lemma query_get_escaped:
  assumes "CHR ''='' \<notin> set key" "CHR ''&'' \<notin> set key" "CHR '';'' \<notin> set key" "unescape True key = Some key"
  shows "query_get (key @ ''='' @ query_escape v) key = v"
proof -
  have "CHR ''&'' \<notin> set (key @ ''='' @ query_escape v)" using assms(2) query_escape_plain(2) [of v] by auto
  moreover have "query_pair (key @ ''='' @ query_escape v) = Some (key, v)"
    using assms(1,3,4) query_escape_plain(4) [of v] by (simp add: query_pair_def takeWhile_append dropWhile_append)
  ultimately show ?thesis by (simp add: query_get_def split_on_free List.map_filter_def)
qed

lemma path_escape_inj: "path_escape a = path_escape b \<longleftrightarrow> a = b"
  by (metis option.inject unescape_path_escape)

section \<open>Routing\<close>

text \<open>
  The segments of an escaped path, each unescaped. A path with an empty or a dot segment matches
  no pattern of a fixed number of segments, and has none.
\<close>

definition path_segments :: "string \<Rightarrow> string list option" where
  "path_segments path =
     (case split_on (CHR ''/'') path of
        [] \<Rightarrow> None
      | root # segs \<Rightarrow>
          if root \<noteq> '''' \<or> list_ex (\<lambda>s. s \<in> {'''', ''.'', ''..''}) segs then None
          else those (map (unescape False) segs))"

text \<open>A path that the mux answers with a redirect to its cleaned form.\<close>

definition unclean :: "string \<Rightarrow> bool" where
  "unclean path \<longleftrightarrow>
     (case split_on (CHR ''/'') path of
        [] \<Rightarrow> True
      | root # segs \<Rightarrow>
          root \<noteq> '''' \<or> list_ex (\<lambda>s. s = ''.'' \<or> s = ''..'') segs \<or> list_ex (\<lambda>s. s = '''') (butlast segs))"

text \<open>
  A pattern with the method \<^verbatim>\<open>GET\<close> also matches \<^verbatim>\<open>HEAD\<close>. A target without a route is
  redirected when its path is not clean, answered with 405 when some other method matches, and
  with 404 otherwise.
\<close>

definition is_get :: "string \<Rightarrow> bool" where
  "is_get meth \<longleftrightarrow> meth = ''GET'' \<or> meth = ''HEAD''"

text \<open>The path and the raw query of a request target.\<close>

definition target_path :: "string \<Rightarrow> string" where
  "target_path target = takeWhile (\<lambda>c. c \<noteq> CHR ''?'') target"

definition unmatched_status :: "(string \<Rightarrow> string \<Rightarrow> 'e option) \<Rightarrow> string \<Rightarrow> nat" where
  "unmatched_status route target =
     (if unclean (target_path target) then 301
      else if list_ex (\<lambda>m. route m target \<noteq> None) [''GET'', ''POST'', ''PUT'', ''PATCH'', ''DELETE''] then 405 else 404)"

definition target_query :: "string \<Rightarrow> string" where
  "target_query target = drop 1 (dropWhile (\<lambda>c. c \<noteq> CHR ''?'') target)"

text \<open>\<^verbatim>\<open>r.URL.Query()[key]\<close>: all values of a key.\<close>

definition query_all :: "string \<Rightarrow> string \<Rightarrow> string list" where
  "query_all raw key =
     map snd (filter (\<lambda>(k, v). k = key) (List.map_filter query_pair (filter (\<lambda>s. s \<noteq> []) (split_on (CHR ''&'') raw))))"

lemma query_get_all: "query_get raw key = (case query_all raw key of [] \<Rightarrow> '''' | v # _ \<Rightarrow> v)"
  unfolding query_get_def query_all_def by (cases "filter (\<lambda>(k, v). k = key) (List.map_filter query_pair (filter (\<lambda>s. s \<noteq> []) (split_on (CHR ''&'') raw)))") auto

definition segment_ok :: "string \<Rightarrow> bool" where
  "segment_ok s \<longleftrightarrow> s \<notin> {'''', ''.'', ''..''}"

lemma path_segments_join:
  assumes "\<forall>s \<in> set segs. CHR ''/'' \<notin> set s \<and> segment_ok s" "map (unescape False) segs = map Some vals" "segs \<noteq> []"
  shows "path_segments (join_on (CHR ''/'') ('''' # segs)) = Some vals"
proof -
  have "split_on (CHR ''/'') (join_on (CHR ''/'') ('''' # segs)) = '''' # segs"
    by (rule split_on_join_on) (use assms(1) in auto)
  moreover have "those (map Some vals) = Some vals" by (induction vals) auto
  moreover have "\<not> list_ex (\<lambda>s. s \<in> {'''', ''.'', ''..''}) segs" using assms(1) by (auto simp: list_ex_iff segment_ok_def)
  ultimately show ?thesis using assms(2) by (simp add: path_segments_def)
qed

lemma path_segments_clean: "path_segments path = Some segs \<Longrightarrow> \<not> unclean path"
  by (auto simp: path_segments_def unclean_def list_ex_iff split: list.splits if_splits dest: in_set_butlastD)

lemma segment_ok_escape [simp]: "segment_ok (path_escape s) \<longleftrightarrow> segment_ok s"
  unfolding segment_ok_def by (simp only: path_escape_dots)

lemma take_path: "CHR ''?'' \<notin> set p \<Longrightarrow> takeWhile (\<lambda>c. c \<noteq> CHR ''?'') p = p \<and> dropWhile (\<lambda>c. c \<noteq> CHR ''?'') p = []"
  by (induction p) auto

lemma split_query:
  "CHR ''?'' \<notin> set p \<Longrightarrow> takeWhile (\<lambda>c. c \<noteq> CHR ''?'') (p @ CHR ''?'' # q) = p \<and>
   dropWhile (\<lambda>c. c \<noteq> CHR ''?'') (p @ CHR ''?'' # q) = CHR ''?'' # q"
  by (induction p) auto

end
