(* ===== verification/PB_Policy.thy ===== *)
theory PB_Policy
  imports PB_Models OE_Schema Url
begin

text \<open>
  The Portal Backend's client of the Policy Decision Point (\<^verbatim>\<open>internal/pb/policy\<close>): the
  requests it sends and how it reads the answers, and the policy metadata it derives from a
  schema's SDL. The wire types are the decision point's own (same members and JSON names).
  gqlparser's loader and the text of an AST value are parameters.
\<close>

section \<open>Wire types\<close>

type_synonym pb_metadata_record = create_record
type_synonym pb_metadata_request = metadata_create_request
type_synonym pb_metadata_response = metadata_response
type_synonym pb_patch_request = metadata_patch_request
type_synonym pb_allow_list_request = allow_list_update_request
type_synonym pb_allow_list_record = allow_list_update_record
type_synonym pb_selected_field = field_request

definition PbGrantOneMonth :: string where "PbGrantOneMonth = ''30d''"
definition PbGrantOneYear :: string where "PbGrantOneYear = ''365d''"
definition PolicyClassAllowlist :: string where "PolicyClassAllowlist = ''allowlist''"
definition PolicyClassAllowlistConsent :: string where "PolicyClassAllowlistConsent = ''allowlist_consent''"
definition PbSourceFallback :: string where "PbSourceFallback = ''fallback''"

text \<open>\<^verbatim>\<open>MarshalJSON\<close> of a property of a PATCH; an absent one is left out of the object.\<close>

definition marshal_patch_field :: "('a \<Rightarrow> json) \<Rightarrow> 'a patch_field \<Rightarrow> json option" where
  "marshal_patch_field encode f =
     (case f of NotSet \<Rightarrow> None | SetNull \<Rightarrow> Some JNull | SetTo v \<Rightarrow> Some (encode v))"

section \<open>Policy metadata in a schema's SDL\<close>

record sdl_lib =
  sl_load :: "string \<Rightarrow> string + gql_schema"
  sl_value_string :: "ast_value \<Rightarrow> string"

definition quote_char :: char where
  "quote_char = char_of (34 :: nat)"

definition quoted_text :: "string \<Rightarrow> string" where
  "quoted_text s = quote_char # s @ [quote_char]"

definition trim_quotes :: "string \<Rightarrow> string" where
  "trim_quotes s = rev (dropWhile (\<lambda>c. c = quote_char) (rev (dropWhile (\<lambda>c. c = quote_char) s)))"

definition build_field_path :: "string \<Rightarrow> string \<Rightarrow> string" where
  "build_field_path type_nm field_nm = to_lower type_nm @ ''.'' @ field_nm"

definition get_directive_value :: "sdl_lib \<Rightarrow> directive list \<Rightarrow> string \<Rightarrow> string \<Rightarrow> string" where
  "get_directive_value lib ds directive_nm arg_nm =
     (case concat (map (\<lambda>d. if dir_name d = directive_nm then filter (\<lambda>(n, _). n = arg_nm) (dir_args d) else []) ds) of
        [] \<Rightarrow> ''''
      | (_, v) # _ \<Rightarrow>
          (let s = sl_value_string lib v in
           if s \<noteq> [] \<and> hd s = quote_char \<and> last s = quote_char then trim_quotes s else s))"

fun get_base_type_name :: "gql_type \<Rightarrow> string" where
  "get_base_type_name (ListType t _) = get_base_type_name t"
| "get_base_type_name (NamedType n _) = n"

definition is_built_in_type :: "string \<Rightarrow> bool" where
  "is_built_in_type n \<longleftrightarrow> n \<in> {''String'', ''Int'', ''Float'', ''Boolean'', ''ID'', ''__Schema'', ''__Type'',
     ''__Field'', ''__InputValue'', ''__EnumValue'', ''__Directive'', ''__TypeKind'', ''__DirectiveLocation''}"

definition is_root_type :: "string \<Rightarrow> bool" where
  "is_root_type n \<longleftrightarrow> n \<in> {''Query'', ''Mutation'', ''Subscription''}"

definition reject_removed_directives :: "string \<Rightarrow> directive list \<Rightarrow> string + unit" where
  "reject_removed_directives path ds =
     (if directive_for_name ''isOwner'' ds \<noteq> None then
        Inl (''field '' @ path @ '': @isOwner was removed; drop it and set the field's policy with @accessControl(policy: ...)'')
      else case directive_for_name ''accessControl'' ds of
        Some d \<Rightarrow>
          if map_of (dir_args d) ''type'' \<noteq> None then
            Inl (''field '' @ path @ '': @accessControl(type: ...) was removed; use @accessControl(policy: '' @
                 quoted_text PolicyClassAllowlist @ '') or @accessControl(policy: '' @
                 quoted_text PolicyClassAllowlistConsent @ '')'')
          else Inr ()
      | None \<Rightarrow> Inr ())"

definition optional_text :: "string \<Rightarrow> string option" where
  "optional_text s = (if s = '''' then None else Some s)"

definition create_record_from_field :: "sdl_lib \<Rightarrow> string \<Rightarrow> field_def \<Rightarrow> string + create_record option" where
  "create_record_from_field lib path f =
     bind_res (reject_removed_directives path (fd_directives f)) (\<lambda>_.
     let ds = fd_directives f;
         access_control = directive_for_name ''accessControl'' ds;
         policy_class = get_directive_value lib ds ''accessControl'' ''policy'';
         source = get_directive_value lib ds ''source'' ''value'' in
     if access_control \<noteq> None \<and> policy_class = '''' then
       Inl (''field '' @ path @ '': @accessControl needs a policy, e.g. @accessControl(policy: '' @
            quoted_text PolicyClassAllowlistConsent @ '')'')
     else if access_control = None \<and> source = '''' then Inr None
     else Inr (Some
       \<lparr>cr_field_name = path,
        cr_display_name = optional_text (get_directive_value lib ds ''displayName'' ''value''),
        cr_description = optional_text (get_directive_value lib ds ''description'' ''value''),
        cr_source = (if source \<noteq> '''' then source else PbSourceFallback),
        cr_policy_class = (if policy_class \<noteq> '''' then policy_class else PolicyClassAllowlist),
        cr_policy_params = [],
        cr_owner = optional_text (get_directive_value lib ds ''owner'' ''value'')\<rparr>))"

text \<open>
  The recursion into the types of the fields follows the schema's types, which may be cyclic; it
  takes fuel, and \<open>None\<close> is a recursion that ran out of it. \<open>nested_fields\<close> is the loop over
  the fields of one type: a field's own record comes before those of its type.
\<close>

fun nested_fields ::
  "(string \<Rightarrow> gql_type \<Rightarrow> (string + create_record list) option) \<Rightarrow> sdl_lib \<Rightarrow> string \<Rightarrow> field_def list \<Rightarrow>
   (string + create_record list) option" where
  "nested_fields recurse lib prefix [] = Some (Inr [])"
| "nested_fields recurse lib prefix (f # fs) =
     (let path = prefix @ fd_name f in
      case create_record_from_field lib path f of
        Inl e \<Rightarrow> Some (Inl e)
      | Inr record \<Rightarrow>
          (case recurse path (fd_type f) of
             None \<Rightarrow> None
           | Some (Inl e) \<Rightarrow> Some (Inl e)
           | Some (Inr nested) \<Rightarrow>
               (case nested_fields recurse lib prefix fs of
                  Some (Inr rest) \<Rightarrow> Some (Inr ((case record of None \<Rightarrow> [] | Some r \<Rightarrow> [r]) @ nested @ rest))
                | other \<Rightarrow> other)))"

primrec process_nested_fields ::
  "sdl_lib \<Rightarrow> gql_schema \<Rightarrow> nat \<Rightarrow> string \<Rightarrow> gql_type \<Rightarrow> (string + create_record list) option" where
  "process_nested_fields lib s 0 = (\<lambda>base ty. None)"
| "process_nested_fields lib s (Suc n) = (\<lambda>base ty.
     let name = get_base_type_name ty in
     case map_of (gs_types s) name of
       None \<Rightarrow> Some (Inr [])
     | Some def \<Rightarrow>
         if is_built_in_type name then Some (Inr [])
         else nested_fields (process_nested_fields lib s n) lib (base @ ''.'') (td_fields def))"

text \<open>The loop over the types; a schema's types are in the order in which it meets them.\<close>

fun type_records :: "sdl_lib \<Rightarrow> gql_schema \<Rightarrow> nat \<Rightarrow> (string \<times> type_def) list \<Rightarrow> (string + create_record list) option" where
  "type_records lib s n [] = Some (Inr [])"
| "type_records lib s n ((name, def) # ts) =
     (if is_built_in_type name \<or> is_root_type name then type_records lib s n ts
      else case nested_fields (process_nested_fields lib s n) lib (build_field_path name '''') (td_fields def) of
        Some (Inr records) \<Rightarrow>
          (case type_records lib s n ts of
             Some (Inr rest) \<Rightarrow> Some (Inr (records @ rest))
           | other \<Rightarrow> other)
      | other \<Rightarrow> other)"

text \<open>
  As many levels as there are types, and one more, decide whether the recursion ends; \<open>None\<close>
  is a call that never returns.
\<close>

definition sdl_fuel :: "gql_schema \<Rightarrow> nat" where
  "sdl_fuel s = Suc (length (gs_types s))"

definition parse_sdl_to_policy_request ::
  "sdl_lib \<Rightarrow> string \<Rightarrow> string \<Rightarrow> (string + metadata_create_request) option" where
  "parse_sdl_to_policy_request lib schema_id sdl =
     (case sl_load lib sdl of
        Inl e \<Rightarrow> Some (Inl (''failed to parse GraphQL schema: '' @ e))
      | Inr s \<Rightarrow>
          map_option (\<lambda>r. case r of
             Inl e \<Rightarrow> Inl e
           | Inr records \<Rightarrow> Inr \<lparr>mc_schema_id = schema_id, mc_records = records\<rparr>)
            (type_records lib s (sdl_fuel s) (gs_types s)))"

section \<open>The client\<close>

text \<open>
  The transport, over a state \<open>'x\<close> and bodies \<open>'b\<close>: the encoders of the requests, the HTTP
  client and the decoders of the answers. \<open>pl_error_of\<close> is the \<^verbatim>\<open>error\<close> member of an
  answer, empty when there is none or the answer is not an object.
\<close>

datatype send_error = SendFailed string | ReadFailed string

record ('b, 'x) pdp_link =
  pl_base_url :: string
  pl_create_body :: "metadata_create_request \<Rightarrow> string + 'b"
  pl_allow_body :: "allow_list_update_request \<Rightarrow> string + 'b"
  pl_patch_body :: "metadata_patch_request \<Rightarrow> string + 'b"
  pl_new_request :: "string \<Rightarrow> string \<Rightarrow> string + unit"
  pl_do :: "string \<Rightarrow> string \<Rightarrow> 'b option \<Rightarrow> 'x \<Rightarrow> (send_error + nat \<times> 'b) \<times> 'x"
  pl_text :: "'b \<Rightarrow> string"
  pl_error_of :: "'b \<Rightarrow> string"
  pl_records :: "'b \<Rightarrow> string + metadata_response list"
  pl_record :: "'b \<Rightarrow> string + metadata_response"
  pl_granted :: "'b \<Rightarrow> string + allow_list_update_record list"

definition trim_slash :: "string \<Rightarrow> string" where
  "trim_slash url = (if url \<noteq> [] \<and> last url = CHR ''/'' then butlast url else url)"

definition new_pdp_link :: "string \<Rightarrow> ('b, 'x) pdp_link \<Rightarrow> ('b, 'x) pdp_link" where
  "new_pdp_link url link = link\<lparr>pl_base_url := trim_slash url\<rparr>"

definition send_error_text :: "send_error \<Rightarrow> pb_error" where
  "send_error_text e =
     (case e of SendFailed t \<Rightarrow> plain_error (''failed to send request to PDP: '' @ t)
      | ReadFailed t \<Rightarrow> plain_error (''failed to read response body: '' @ t))"

text \<open>The steps all requests share, up to the status and the body of the answer.\<close>

definition send_pdp ::
  "('b, 'x) pdp_link \<Rightarrow> string \<Rightarrow> string \<Rightarrow> (string + 'b) option \<Rightarrow> 'x \<Rightarrow> (pb_error + nat \<times> 'b) \<times> 'x" where
  "send_pdp link meth path body x =
     (case body of
        Some (Inl e) \<Rightarrow> (Inl (plain_error (''failed to marshal request: '' @ e)), x)
      | _ \<Rightarrow>
          (case pl_new_request link meth (pl_base_url link @ path) of
             Inl e \<Rightarrow> (Inl (plain_error (''failed to create request: '' @ e)), x)
           | Inr _ \<Rightarrow>
               (case pl_do link meth (pl_base_url link @ path) (map_option projr body) x of
                  (Inl e, x) \<Rightarrow> (Inl (send_error_text e), x)
                | (Inr answer, x) \<Rightarrow> (Inr answer, x))))"

definition parse_answer :: "string + 'a \<Rightarrow> pb_error + 'a" where
  "parse_answer r = (case r of Inl e \<Rightarrow> Inl (plain_error (''failed to parse response: '' @ e)) | Inr v \<Rightarrow> Inr v)"

definition status_text :: "nat \<Rightarrow> string \<Rightarrow> string" where
  "status_text status body = ''PDP returned status '' @ decimal status @ '': '' @ body"

definition post_pdp ::
  "('b, 'x) pdp_link \<Rightarrow> string \<Rightarrow> nat \<Rightarrow> string + 'b \<Rightarrow> ('b \<Rightarrow> string + 'a) \<Rightarrow> 'x \<Rightarrow> (pb_error + 'a) \<times> 'x" where
  "post_pdp link path expected body decode x =
     (case send_pdp link ''POST'' path (Some body) x of
        (Inl e, x) \<Rightarrow> (Inl e, x)
      | (Inr (status, answer), x) \<Rightarrow>
          if status \<noteq> expected then (Inl (plain_error (status_text status (pl_text link answer))), x)
          else (parse_answer (decode answer), x))"

definition client_create_metadata ::
  "('b, 'x) pdp_link \<Rightarrow> metadata_create_request \<Rightarrow> 'x \<Rightarrow> (pb_error + metadata_response list) \<times> 'x" where
  "client_create_metadata link req x =
     post_pdp link ''/api/v1/policy/metadata'' 201 (pl_create_body link req) (pl_records link) x"

definition client_create_from_records ::
  "('b, 'x) pdp_link \<Rightarrow> string \<Rightarrow> create_record list \<Rightarrow> 'x \<Rightarrow> (pb_error + metadata_response list) \<times> 'x" where
  "client_create_from_records link schema_id records x =
     client_create_metadata link \<lparr>mc_schema_id = schema_id, mc_records = records\<rparr> x"

definition client_create_from_sdl ::
  "('b, 'x) pdp_link \<Rightarrow> sdl_lib \<Rightarrow> string \<Rightarrow> string \<Rightarrow> 'x \<Rightarrow> ((pb_error + metadata_response list) \<times> 'x) option" where
  "client_create_from_sdl link lib schema_id sdl x =
     (case parse_sdl_to_policy_request lib schema_id sdl of
        None \<Rightarrow> None
      | Some (Inl e) \<Rightarrow> Some (Inl (plain_error (''failed to parse SDL: '' @ e)), x)
      | Some (Inr req) \<Rightarrow> Some (client_create_metadata link req x))"

definition client_update_allow_list ::
  "('b, 'x) pdp_link \<Rightarrow> allow_list_update_request \<Rightarrow> 'x \<Rightarrow> (pb_error + allow_list_update_record list) \<times> 'x" where
  "client_update_allow_list link req x =
     post_pdp link ''/api/v1/policy/update-allowlist'' 200 (pl_allow_body link req) (pl_granted link) x"

text \<open>\<^verbatim>\<open>doRequest\<close>: the status of an unexpected answer is kept for the caller.\<close>

definition pdp_status_error :: "nat \<Rightarrow> string \<Rightarrow> pb_error" where
  "pdp_status_error status message = \<lparr>pb_kind = PdpStatusError status message, pb_text = status_text status message\<rparr>"

definition do_request ::
  "('b, 'x) pdp_link \<Rightarrow> string \<Rightarrow> string \<Rightarrow> (string + 'b) option \<Rightarrow> nat \<Rightarrow> ('b \<Rightarrow> string + 'a) \<Rightarrow> 'x \<Rightarrow> (pb_error + 'a) \<times> 'x" where
  "do_request link meth path body expected decode x =
     (case send_pdp link meth path body x of
        (Inl e, x) \<Rightarrow> (Inl e, x)
      | (Inr (status, answer), x) \<Rightarrow>
          if status \<noteq> expected then
            (Inl (pdp_status_error status
               (if pl_error_of link answer \<noteq> '''' then pl_error_of link answer else trim_space (pl_text link answer))), x)
          else (parse_answer (decode answer), x))"

definition client_list_metadata ::
  "('b, 'x) pdp_link \<Rightarrow> string \<Rightarrow> 'x \<Rightarrow> (pb_error + metadata_response list) \<times> 'x" where
  "client_list_metadata link schema_id x =
     do_request link ''GET'' (''/api/v1/policy/metadata?schemaId='' @ query_escape schema_id) None 200 (pl_records link) x"

definition client_patch_metadata ::
  "('b, 'x) pdp_link \<Rightarrow> string \<Rightarrow> metadata_patch_request \<Rightarrow> 'x \<Rightarrow> (pb_error + metadata_response) \<times> 'x" where
  "client_patch_metadata link i req x =
     do_request link ''PATCH'' (''/api/v1/policy/metadata/'' @ path_escape i) (Some (pl_patch_body link req)) 200 (pl_record link) x"

definition client_delete_metadata :: "('b, 'x) pdp_link \<Rightarrow> string \<Rightarrow> 'x \<Rightarrow> (pb_error + unit) \<times> 'x" where
  "client_delete_metadata link i x =
     do_request link ''DELETE'' (''/api/v1/policy/metadata/'' @ path_escape i) None 204 (\<lambda>_. Inr ()) x"

definition client_revoke_entry :: "('b, 'x) pdp_link \<Rightarrow> string \<Rightarrow> string \<Rightarrow> 'x \<Rightarrow> (pb_error + unit) \<times> 'x" where
  "client_revoke_entry link i app x =
     do_request link ''DELETE'' (''/api/v1/policy/metadata/'' @ path_escape i @ ''/allowlist/'' @ path_escape app) None 204
       (\<lambda>_. Inr ()) x"

end
