(* ===== verification/PB_Schema.thy ===== *)
theory PB_Schema
  imports PB_Policy
begin

text \<open>
  Provider schemas: the service of \<^verbatim>\<open>internal/pb/schema/service.go\<close>. Creating a schema
  stores it and then registers its policy metadata with the Policy Decision Point; when that
  fails the row is deleted again. The result \<open>None\<close> is a process that died: the SDL parser
  recurses into cyclic types until the stack is exhausted, and Go cannot recover from that.
\<close>

section \<open>Shared steps\<close>

text \<open>The clock as it goes on after some readings.\<close>

definition later :: "nat \<Rightarrow> pb_env \<Rightarrow> pb_env" where
  "later k env = env\<lparr>pv_clock := (\<lambda>n. pv_clock env (n + k))\<rparr>"

text \<open>A list ordered by \<^verbatim>\<open>created_at DESC\<close>.\<close>

definition newest_first :: "('r \<Rightarrow> base_model) \<Rightarrow> 'r list \<Rightarrow> 'r list" where
  "newest_first base rows = sort_key (\<lambda>r. - bm_created_at (base r)) rows"

definition member_filter :: "string option \<Rightarrow> string \<Rightarrow> bool" where
  "member_filter want member_id = (case want of None \<Rightarrow> True | Some i \<Rightarrow> i = '''' \<or> member_id = i)"

definition status_filter :: "string list option \<Rightarrow> string \<Rightarrow> bool" where
  "status_filter want status = (case want of None \<Rightarrow> True | Some ss \<Rightarrow> ss = [] \<or> list_ex (\<lambda>s. s = status) ss)"

section \<open>Schemas\<close>

definition ErrInvalidSchemaID :: pb_error where
  "ErrInvalidSchemaID = \<lparr>pb_kind = InvalidSchemaID,
     pb_text = ''invalid schemaId: use 3-64 lowercase letters, digits, '.', '_' or '-', starting with a letter or digit''\<rparr>"

definition ErrSchemaAlreadyExists :: pb_error where
  "ErrSchemaAlreadyExists = \<lparr>pb_kind = SchemaAlreadyExists, pb_text = ''a schema with this schemaId already exists''\<rparr>"

definition id_start_char :: "char \<Rightarrow> bool" where
  "id_start_char c \<longleftrightarrow> (let n = of_char c :: nat in 97 \<le> n \<and> n \<le> 122 \<or> 48 \<le> n \<and> n \<le> 57)"

definition id_char :: "char \<Rightarrow> bool" where
  "id_char c \<longleftrightarrow> id_start_char c \<or> c \<in> set ''._-''"

definition schema_id_pattern :: "string \<Rightarrow> bool" where
  "schema_id_pattern s =
     (case s of [] \<Rightarrow> False
      | c # cs \<Rightarrow> id_start_char c \<and> 2 \<le> length cs \<and> length cs \<le> 63 \<and> list_all id_char cs)"

definition schema_response_of :: "pb_schema \<Rightarrow> schema_response" where
  "schema_response_of s =
     \<lparr>sr_schema_id = ps_schema_id s, sr_member_id = ps_member_id s, sr_name = ps_name s, sr_sdl = ps_sdl s,
      sr_endpoint = ps_endpoint s, sr_version = ps_version s, sr_description = shown_description (ps_description s),
      sr_created_at = rfc3339 (bm_created_at (ps_base s)), sr_updated_at = rfc3339 (bm_updated_at (ps_base s))\<rparr>"

definition new_schema :: "pb_env \<Rightarrow> string \<Rightarrow> create_schema_request \<Rightarrow> pb_schema" where
  "new_schema env i req =
     \<lparr>ps_schema_id = i, ps_member_id = cs_member_id req, ps_name = cs_name req, ps_sdl = cs_sdl req,
      ps_endpoint = cs_endpoint req, ps_version = ActiveVersion, ps_description = cs_description req,
      ps_base = before_create (pv_clock env 0)\<rparr>"

text \<open>Deleting a schema is refused while a submission refers to it.\<close>

definition delete_schema_row :: "pb_env \<Rightarrow> string \<Rightarrow> 'x pb_state \<Rightarrow> pb_error + pb_schema table" where
  "delete_schema_row env i st =
     require_fk (\<not> list_ex (\<lambda>s. ss_previous_id s = Some i) (pb_schema_subs st))
       (db_delete env PbDeleteSchema (\<lambda>s. ps_schema_id s = i) (pb_schemas st))"

definition register_metadata ::
  "('b, 'x) pdp_link \<Rightarrow> sdl_lib \<Rightarrow> string \<Rightarrow> create_schema_request \<Rightarrow> 'x \<Rightarrow>
   ((pb_error + metadata_response list) \<times> 'x) option" where
  "register_metadata link lib i req x =
     (if cs_fields req \<noteq> [] then Some (client_create_from_records link i (cs_fields req) x)
      else client_create_from_sdl link lib i (cs_sdl req) x)"

definition create_schema ::
  "pb_env \<Rightarrow> ('b, 'x) pdp_link \<Rightarrow> sdl_lib \<Rightarrow> create_schema_request \<Rightarrow> 'x pb_state \<Rightarrow>
   (pb_error + schema_response) option \<times> 'x pb_state" where
  "create_schema env link lib req st =
     (if (cs_sdl req \<noteq> '''') = (cs_fields req \<noteq> []) then
        (Some (Inl (plain_error ''exactly one of sdl or fields must be provided'')), st)
      else if cs_id req \<noteq> '''' \<and> \<not> schema_id_pattern (cs_id req) then (Some (Inl ErrInvalidSchemaID), st)
      else
        let i = (if cs_id req \<noteq> '''' then cs_id req else pv_uuid env 0);
            s = new_schema env i req in
        (case db_create env PbCreateSchema schema_clash s (pb_schemas st) of
           Inl e \<Rightarrow>
             (Some (Inl (if pb_kind e = DuplicatedKey then ErrSchemaAlreadyExists
                         else wrap_pb ''failed to create schema: '' e)), st)
         | Inr t \<Rightarrow>
             let st = st\<lparr>pb_schemas := t\<rparr> in
             (case register_metadata link lib i req (pb_ext st) of
                None \<Rightarrow> (None, st)
              | Some (Inr _, x) \<Rightarrow> (Some (Inr (schema_response_of s)), st\<lparr>pb_ext := x\<rparr>)
              | Some (Inl e, x) \<Rightarrow>
                  let st = st\<lparr>pb_ext := x\<rparr> in
                  (case delete_schema_row env i st of
                     Inl e' \<Rightarrow>
                       (Some (Inl (wrap_both ''failed to create policy metadata in PDP: '' e
                                     '', and failed to compensate: '' e')), st)
                   | Inr t \<Rightarrow>
                       (Some (Inl (wrap_pb ''failed to create policy metadata in PDP: '' e)), st\<lparr>pb_schemas := t\<rparr>)))))"

definition find_schema :: "pb_env \<Rightarrow> pb_stmt \<Rightarrow> string \<Rightarrow> 'x pb_state \<Rightarrow> pb_error + pb_schema" where
  "find_schema env stmt i st =
     (case db_first env stmt ps_schema_id (\<lambda>s. ps_schema_id s = i) (pb_schemas st) of
        Inl e \<Rightarrow> Inl (wrap_pb ''schema not found: '' e) | Inr s \<Rightarrow> Inr s)"

definition apply_schema_update :: "time \<Rightarrow> update_schema_request \<Rightarrow> pb_schema \<Rightarrow> pb_schema" where
  "apply_schema_update now req s = s\<lparr>ps_name := patched (us_name req) (ps_name s),
     ps_description := patched_opt (us_description req) (ps_description s),
     ps_sdl := patched (us_sdl req) (ps_sdl s), ps_endpoint := patched (us_endpoint req) (ps_endpoint s),
     ps_version := patched (us_version req) (ps_version s), ps_base := before_update now (ps_base s)\<rparr>"

definition update_schema ::
  "pb_env \<Rightarrow> string \<Rightarrow> update_schema_request \<Rightarrow> 'x pb_state \<Rightarrow> (pb_error + schema_response) \<times> 'x pb_state" where
  "update_schema env i req st =
     (case find_schema env PbLoadSchema i st of
        Inl e \<Rightarrow> (Inl e, st)
      | Inr s \<Rightarrow>
          let s' = apply_schema_update (pv_clock env 0) req s in
          (case db_save env PbSaveSchema ps_schema_id s' (pb_schemas st) of
             Inl e \<Rightarrow> (Inl (wrap_pb ''failed to update schema: '' e), st)
           | Inr t \<Rightarrow> (Inr (schema_response_of s'), st\<lparr>pb_schemas := t\<rparr>)))"

definition get_schema :: "pb_env \<Rightarrow> string \<Rightarrow> 'x pb_state \<Rightarrow> pb_error + schema_response" where
  "get_schema env i st = bind_res (find_schema env PbFindSchema i st) (\<lambda>s. Inr (schema_response_of s))"

definition get_schemas :: "pb_env \<Rightarrow> string option \<Rightarrow> 'x pb_state \<Rightarrow> pb_error + schema_response list" where
  "get_schemas env member_id st =
     (case db_find env PbListSchemas
         (newest_first ps_base (sql_where (\<lambda>s. member_filter member_id (ps_member_id s)) (pb_schemas st))) of
        Inl e \<Rightarrow> Inl (wrap_pb ''failed to retrieve schemas: '' e)
      | Inr rows \<Rightarrow> Inr (map schema_response_of rows))"

section \<open>Policy metadata of a schema\<close>

definition list_schema_metadata ::
  "('b, 'x) pdp_link \<Rightarrow> string \<Rightarrow> 'x pb_state \<Rightarrow> (pb_error + metadata_response list) \<times> 'x pb_state" where
  "list_schema_metadata link i st =
     (case client_list_metadata link i (pb_ext st) of (r, x) \<Rightarrow> (r, st\<lparr>pb_ext := x\<rparr>))"

definition metadata_not_in_schema :: "string \<Rightarrow> pb_error" where
  "metadata_not_in_schema i = \<lparr>pb_kind = MetadataNotInSchema, pb_text = ''policy metadata not found: '' @ i\<rparr>"

definition ensure_metadata_in_schema ::
  "('b, 'x) pdp_link \<Rightarrow> string \<Rightarrow> string \<Rightarrow> 'x pb_state \<Rightarrow> (pb_error + unit) \<times> 'x pb_state" where
  "ensure_metadata_in_schema link schema_id i st =
     (case list_schema_metadata link schema_id st of
        (Inl e, st) \<Rightarrow> (Inl e, st)
      | (Inr records, st) \<Rightarrow>
          (if list_ex (\<lambda>r. mr_id r = i) records then Inr () else Inl (metadata_not_in_schema i), st))"

definition with_metadata_in_schema ::
  "('b, 'x) pdp_link \<Rightarrow> string \<Rightarrow> string \<Rightarrow> ('x \<Rightarrow> (pb_error + 'a) \<times> 'x) \<Rightarrow> 'x pb_state \<Rightarrow> (pb_error + 'a) \<times> 'x pb_state" where
  "with_metadata_in_schema link schema_id i call st =
     (case ensure_metadata_in_schema link schema_id i st of
        (Inl e, st) \<Rightarrow> (Inl e, st)
      | (Inr _, st) \<Rightarrow> (case call (pb_ext st) of (r, x) \<Rightarrow> (r, st\<lparr>pb_ext := x\<rparr>)))"

definition patch_schema_metadata ::
  "('b, 'x) pdp_link \<Rightarrow> string \<Rightarrow> string \<Rightarrow> metadata_patch_request \<Rightarrow> 'x pb_state \<Rightarrow> (pb_error + metadata_response) \<times> 'x pb_state" where
  "patch_schema_metadata link schema_id i req = with_metadata_in_schema link schema_id i (client_patch_metadata link i req)"

definition delete_schema_metadata ::
  "('b, 'x) pdp_link \<Rightarrow> string \<Rightarrow> string \<Rightarrow> 'x pb_state \<Rightarrow> (pb_error + unit) \<times> 'x pb_state" where
  "delete_schema_metadata link schema_id i = with_metadata_in_schema link schema_id i (client_delete_metadata link i)"

definition revoke_schema_entry ::
  "('b, 'x) pdp_link \<Rightarrow> string \<Rightarrow> string \<Rightarrow> string \<Rightarrow> 'x pb_state \<Rightarrow> (pb_error + unit) \<times> 'x pb_state" where
  "revoke_schema_entry link schema_id i app = with_metadata_in_schema link schema_id i (client_revoke_entry link i app)"

section \<open>Schema submissions\<close>

definition schema_submission_response_of :: "schema_submission \<Rightarrow> schema_submission_response" where
  "schema_submission_response_of s =
     \<lparr>ssr_id = ss_id s, ssr_previous_id = ss_previous_id s, ssr_name = ss_name s,
      ssr_description = ss_description s, ssr_sdl = ss_sdl s, ssr_endpoint = ss_endpoint s,
      ssr_status = ss_status s, ssr_member_id = ss_member_id s,
      ssr_created_at = rfc3339 (bm_created_at (ss_base s)), ssr_updated_at = rfc3339 (bm_updated_at (ss_base s)),
      ssr_review = ss_review s\<rparr>"

definition check_previous_schema :: "pb_env \<Rightarrow> string option \<Rightarrow> 'x pb_state \<Rightarrow> pb_error + unit" where
  "check_previous_schema env prev st =
     (case prev of
        None \<Rightarrow> Inr ()
      | Some i \<Rightarrow>
          (case db_first env PbFindPrevious ps_schema_id (\<lambda>s. ps_schema_id s = i) (pb_schemas st) of
             Inl e \<Rightarrow> Inl (wrap_pb ''previous schema not found: '' e) | Inr _ \<Rightarrow> Inr ()))"

definition create_schema_submission ::
  "pb_env \<Rightarrow> create_schema_submission_request \<Rightarrow> 'x pb_state \<Rightarrow> (pb_error + schema_submission_response) \<times> 'x pb_state" where
  "create_schema_submission env req st =
     (case db_first env PbFindOwner mb_member_id (\<lambda>m. mb_member_id m = css_member_id req) (pb_members st) of
        Inl e \<Rightarrow> (Inl (wrap_pb ''member not found: '' e), st)
      | Inr _ \<Rightarrow>
          (case check_previous_schema env (css_previous_id req) st of
             Inl e \<Rightarrow> (Inl e, st)
           | Inr _ \<Rightarrow>
               let s = \<lparr>ss_id = pv_uuid env 0, ss_previous_id = css_previous_id req, ss_name = css_name req,
                        ss_description = css_description req, ss_sdl = css_sdl req, ss_endpoint = css_endpoint req,
                        ss_status = KernelStatusPending, ss_member_id = css_member_id req, ss_review = None,
                        ss_base = before_create (pv_clock env 0)\<rparr> in
               (case require_fk (fk_holds ps_schema_id (pb_schemas st) (css_previous_id req))
                       (db_create env PbCreateSubmission schema_submission_clash s (pb_schema_subs st)) of
                  Inl e \<Rightarrow> (Inl (wrap_pb ''failed to create schema submission: '' e), st)
                | Inr t \<Rightarrow> (Inr (schema_submission_response_of s), st\<lparr>pb_schema_subs := t\<rparr>))))"

definition apply_schema_submission_update ::
  "time \<Rightarrow> update_schema_submission_request \<Rightarrow> schema_submission \<Rightarrow> schema_submission" where
  "apply_schema_submission_update now req s = s\<lparr>
     ss_name := patched (uss_name req) (ss_name s),
     ss_description := patched_opt (uss_description req) (ss_description s),
     ss_sdl := patched (uss_sdl req) (ss_sdl s), ss_endpoint := patched (uss_endpoint req) (ss_endpoint s),
     ss_previous_id := patched_opt (uss_previous_id req) (ss_previous_id s),
     ss_status := patched (uss_status req) (ss_status s),
     ss_review := patched_opt (uss_review req) (ss_review s),
     ss_base := before_update now (ss_base s)\<rparr>"

definition save_schema_submission ::
  "pb_env \<Rightarrow> pb_stmt \<Rightarrow> schema_submission \<Rightarrow> 'x pb_state \<Rightarrow> pb_error + 'x pb_state" where
  "save_schema_submission env stmt s st =
     bind_res (require_fk (fk_holds ps_schema_id (pb_schemas st) (ss_previous_id s))
                (db_save env stmt ss_id s (pb_schema_subs st)))
       (\<lambda>t. Inr (st\<lparr>pb_schema_subs := t\<rparr>))"

definition request_of_submission :: "schema_submission \<Rightarrow> create_schema_request" where
  "request_of_submission s =
     \<lparr>cs_id = '''', cs_name = ss_name s, cs_description = ss_description s, cs_sdl = ss_sdl s, cs_fields = [],
      cs_endpoint = ss_endpoint s, cs_member_id = ss_member_id s\<rparr>"

definition update_schema_submission ::
  "pb_env \<Rightarrow> ('b, 'x) pdp_link \<Rightarrow> sdl_lib \<Rightarrow> string \<Rightarrow> update_schema_submission_request \<Rightarrow> 'x pb_state \<Rightarrow>
   (pb_error + schema_submission_response) option \<times> 'x pb_state" where
  "update_schema_submission env link lib i req st =
     (case db_first env PbLoadSubmission ss_id (\<lambda>s. ss_id s = i) (pb_schema_subs st) of
        Inl e \<Rightarrow> (Some (Inl (wrap_pb ''schema submission not found: '' e)), st)
      | Inr s \<Rightarrow>
          (case check_previous_schema env (uss_previous_id req) st of
             Inl e \<Rightarrow> (Some (Inl e), st)
           | Inr _ \<Rightarrow>
               if uss_sdl req = Some '''' then (Some (Inl (plain_error ''SDL field cannot be empty'')), st)
               else
                 let s = apply_schema_submission_update (pv_clock env 0) req s in
                 (case save_schema_submission env PbSaveSubmission s st of
                    Inl e \<Rightarrow> (Some (Inl (wrap_pb ''failed to update schema submission: '' e)), st)
                  | Inr st \<Rightarrow>
                      if uss_status req \<noteq> Some KernelStatusApproved then
                        (Some (Inr (schema_submission_response_of s)), st)
                      else (case create_schema (later 1 env) link lib (request_of_submission s) st of
                         (None, st) \<Rightarrow> (None, st)
                       | (Some (Inr _), st) \<Rightarrow> (Some (Inr (schema_submission_response_of s)), st)
                       | (Some (Inl e), st) \<Rightarrow>
                           let s = s\<lparr>ss_status := KernelStatusPending, ss_base := before_update (pv_clock env 2) (ss_base s)\<rparr> in
                           (case save_schema_submission env PbResetSubmission s st of
                              Inl e' \<Rightarrow>
                                (Some (Inl (wrap_both ''failed to create schema from approved submission: '' e
                                              '', and failed to compensate submission status: '' e')), st)
                            | Inr st \<Rightarrow>
                                (Some (Inl (wrap_pb ''failed to create schema from approved submission: '' e)), st))))))"

definition get_schema_submission :: "pb_env \<Rightarrow> string \<Rightarrow> 'x pb_state \<Rightarrow> pb_error + schema_submission_response" where
  "get_schema_submission env i st =
     (case db_first env PbFindSubmission ss_id (\<lambda>s. ss_id s = i) (pb_schema_subs st) of
        Inl e \<Rightarrow> Inl (wrap_pb ''schema submission not found: '' e)
      | Inr s \<Rightarrow> Inr (schema_submission_response_of s))"

definition get_schema_submissions ::
  "pb_env \<Rightarrow> string option \<Rightarrow> string list option \<Rightarrow> 'x pb_state \<Rightarrow> pb_error + schema_submission_response list" where
  "get_schema_submissions env member_id statuses st =
     (case db_find env PbListSubmissions (newest_first ss_base (sql_where (\<lambda>s.
         member_filter member_id (ss_member_id s) \<and> status_filter statuses (ss_status s)) (pb_schema_subs st))) of
        Inl e \<Rightarrow> Inl (wrap_pb ''failed to retrieve schema submissions: '' e)
      | Inr rows \<Rightarrow> Inr (map schema_submission_response_of rows))"

end
