(* ===== verification/PB_Application.thy ===== *)
theory PB_Application
  imports PB_Schema
begin

text \<open>
  Consumer applications: the service of \<^verbatim>\<open>internal/pb/application/service.go\<close>. Creating an
  application touches the identity provider, the database and the Policy Decision Point, in this
  order, and undoes the earlier steps when a later one fails.
\<close>

section \<open>The identity provider\<close>

text \<open>\<^verbatim>\<open>idp.ApplicationManager\<close>; errors are their texts.\<close>

record idp_application =
  ia_name :: string
  ia_description :: string
  ia_template :: string
  ia_ou_id :: string

record idp_created =
  ic_id :: string
  ic_client_id :: string
  ic_client_secret :: string

record 'x application_manager =
  am_create :: "idp_application \<Rightarrow> 'x \<Rightarrow> (string + idp_created) \<times> 'x"
  am_delete :: "string \<Rightarrow> 'x \<Rightarrow> (string + unit) \<times> 'x"

section \<open>Applications\<close>

definition application_response_of :: "string option \<Rightarrow> application \<Rightarrow> application_response" where
  "application_response_of secret a =
     \<lparr>ar_id = ap_id a, ar_name = ap_name a, ar_description = ap_description a, ar_fields = ap_fields a,
      ar_member_id = ap_member_id a, ar_version = ap_version a, ar_idp_id = ap_idp_id a,
      ar_client_id = ap_client_id a, ar_client_secret = secret,
      ar_created_at = rfc3339 (bm_created_at (ap_base a)), ar_app_updated_at = rfc3339 (bm_updated_at (ap_base a))\<rparr>"

text \<open>Step 1: the OAuth2 client, as its id in the provider, its client id and its secret.\<close>

definition externally_provisioned :: "create_application_request \<Rightarrow> bool" where
  "externally_provisioned req \<longleftrightarrow> ca_idp_id req \<noteq> None \<or> ca_client_id req \<noteq> None"

definition provision_client ::
  "pb_env \<Rightarrow> 'x application_manager \<Rightarrow> create_application_request \<Rightarrow> 'x pb_state \<Rightarrow>
   (pb_error + string option \<times> string option \<times> string option) \<times> 'x pb_state" where
  "provision_client env idp req st =
     (if externally_provisioned req then (Inr (ca_idp_id req, ca_client_id req, None), st)
      else case db_first env PbFindUnit mb_member_id (\<lambda>m. mb_member_id m = ca_member_id req) (pb_members st) of
        Inl e \<Rightarrow>
          (Inl (if pb_kind e = RecordNotFound then plain_error ''member not found''
                else wrap_pb ''failed to find member: '' e), st)
      | Inr owner \<Rightarrow>
          (case am_create idp
              \<lparr>ia_name = ca_name req, ia_description = (case ca_description req of None \<Rightarrow> '''' | Some d \<Rightarrow> d),
               ia_template = TemplateIDM2M, ia_ou_id = mb_ou_id owner\<rparr> (pb_ext st) of
             (Inl e, x) \<Rightarrow> (Inl (plain_error (''failed to create application: '' @ e)), st\<lparr>pb_ext := x\<rparr>)
           | (Inr created, x) \<Rightarrow>
               (Inr (Some (ic_id created), Some (ic_client_id created), optional_text (ic_client_secret created)),
                st\<lparr>pb_ext := x\<rparr>)))"

definition new_application ::
  "pb_env \<Rightarrow> create_application_request \<Rightarrow> string option \<Rightarrow> string option \<Rightarrow> application" where
  "new_application env req idp_id client_id =
     \<lparr>ap_id = pv_uuid env 0, ap_name = ca_name req, ap_description = ca_description req, ap_fields = ca_fields req,
      ap_member_id = ca_member_id req, ap_version = ActiveVersion, ap_idp_id = idp_id, ap_client_id = client_id,
      ap_base = before_create (pv_clock env 0)\<rparr>"

text \<open>The client is only deleted when this call created it.\<close>

definition undo_client ::
  "'x application_manager \<Rightarrow> create_application_request \<Rightarrow> string option \<Rightarrow> 'x pb_state \<Rightarrow> (string + unit) \<times> 'x pb_state" where
  "undo_client idp req idp_id st =
     (if externally_provisioned req then (Inr (), st)
      else case am_delete idp (the idp_id) (pb_ext st) of (r, x) \<Rightarrow> (r, st\<lparr>pb_ext := x\<rparr>))"

definition delete_application_row :: "pb_env \<Rightarrow> string \<Rightarrow> 'x pb_state \<Rightarrow> (pb_error + unit) \<times> 'x pb_state" where
  "delete_application_row env i st =
     (case require_fk (\<not> list_ex (\<lambda>s. as_previous_id s = Some i) (pb_app_subs st))
             (db_delete env PbDeleteApplication (\<lambda>a. ap_id a = i) (pb_apps st)) of
        Inl e \<Rightarrow> (Inl e, st)
      | Inr t \<Rightarrow> (Inr (), st\<lparr>pb_apps := t\<rparr>))"

text \<open>After a refused grant both deletions are tried, whatever becomes of the first.\<close>

definition compensate_grant ::
  "pb_env \<Rightarrow> 'x application_manager \<Rightarrow> create_application_request \<Rightarrow> application \<Rightarrow> pb_error \<Rightarrow> 'x pb_state \<Rightarrow>
   pb_error \<times> 'x pb_state" where
  "compensate_grant env idp req a e st =
     (case delete_application_row env (ap_id a) st of (db, st) \<Rightarrow>
      case undo_client idp req (ap_idp_id a) st of (idp_result, st) \<Rightarrow>
        (case (db, idp_result) of
           (Inl d, Inl i) \<Rightarrow>
             \<lparr>pb_kind = pb_kind e, pb_text = ''failed to update allow list: '' @ pb_text e @
                '', and failed to compensate (DB error: '' @ pb_text d @ '', IDP error: '' @ i @ '')''\<rparr>
         | (Inl d, Inr _) \<Rightarrow> wrap_both ''failed to update allow list: '' e '', and failed to compensate database deletion: '' d
         | (Inr _, Inl i) \<Rightarrow>
             wrap_both ''failed to update allow list: '' e '', and failed to compensate IDP deletion: '' (plain_error i)
         | (Inr _, Inr _) \<Rightarrow> wrap_pb ''failed to update allow list: '' e, st))"

definition create_application ::
  "pb_env \<Rightarrow> ('b, 'x) pdp_link \<Rightarrow> 'x application_manager \<Rightarrow> create_application_request \<Rightarrow> 'x pb_state \<Rightarrow>
   (pb_error + application_response) \<times> 'x pb_state" where
  "create_application env link idp req st =
     (if externally_provisioned req \<and> (ca_idp_id req = None \<or> ca_client_id req = None) then
        (Inl (plain_error ''idpApplicationId and idpClientId must both be provided together, or both omitted''), st)
      else if externally_provisioned req \<and> (ca_idp_id req = Some '''' \<or> ca_client_id req = Some '''') then
        (Inl (plain_error ''idpApplicationId and idpClientId must not be empty''), st)
      else case provision_client env idp req st of
        (Inl e, st) \<Rightarrow> (Inl e, st)
      | (Inr (idp_id, client_id, secret), st) \<Rightarrow>
          let a = new_application env req idp_id client_id in
          (case db_create env PbCreateApplication application_clash a (pb_apps st) of
             Inl e \<Rightarrow>
               (case undo_client idp req idp_id st of
                  (Inl i, st) \<Rightarrow>
                    (Inl (wrap_both ''failed to create application: '' e '', and failed to compensate: '' (plain_error i)), st)
                | (Inr _, st) \<Rightarrow> (Inl (wrap_pb ''failed to create application: '' e), st))
           | Inr t \<Rightarrow>
               let st = st\<lparr>pb_apps := t\<rparr> in
               (case ap_client_id a of
                  None \<Rightarrow> (Inl (plain_error ''cannot update allow list: application IdpClientID is nil''), st)
                | Some client \<Rightarrow>
                    (case client_update_allow_list link
                        \<lparr>au_application_id = client, au_records = ap_fields a, au_grant_duration = PbGrantOneMonth\<rparr> (pb_ext st) of
                       (Inl e, x) \<Rightarrow>
                         (case compensate_grant env idp req a e (st\<lparr>pb_ext := x\<rparr>) of (e, st) \<Rightarrow> (Inl e, st))
                     | (Inr _, x) \<Rightarrow> (Inr (application_response_of secret a), st\<lparr>pb_ext := x\<rparr>)))))"

definition find_application :: "pb_env \<Rightarrow> pb_stmt \<Rightarrow> string \<Rightarrow> 'x pb_state \<Rightarrow> pb_error + application" where
  "find_application env stmt i st = db_first env stmt ap_id (\<lambda>a. ap_id a = i) (pb_apps st)"

definition apply_application_update :: "time \<Rightarrow> update_application_request \<Rightarrow> application \<Rightarrow> application" where
  "apply_application_update now req a = a\<lparr>ap_name := patched (ua_name req) (ap_name a),
     ap_description := patched_opt (ua_description req) (ap_description a),
     ap_version := patched (ua_version req) (ap_version a), ap_base := before_update now (ap_base a)\<rparr>"

definition update_application ::
  "pb_env \<Rightarrow> string \<Rightarrow> update_application_request \<Rightarrow> 'x pb_state \<Rightarrow> (pb_error + application_response) \<times> 'x pb_state" where
  "update_application env i req st =
     (case find_application env PbLoadApplication i st of
        Inl e \<Rightarrow> (Inl e, st)
      | Inr a \<Rightarrow>
          let a = apply_application_update (pv_clock env 0) req a in
          (case db_save env PbSaveApplication ap_id a (pb_apps st) of
             Inl e \<Rightarrow> (Inl e, st)
           | Inr t \<Rightarrow> (Inr (application_response_of None a), st\<lparr>pb_apps := t\<rparr>)))"

definition update_application_policy ::
  "pb_env \<Rightarrow> ('b, 'x) pdp_link \<Rightarrow> string \<Rightarrow> update_application_policy_request \<Rightarrow> 'x pb_state \<Rightarrow>
   (pb_error + application_response) \<times> 'x pb_state" where
  "update_application_policy env link i req st =
     (case find_application env PbLoadApplication i st of
        Inl e \<Rightarrow> (Inl e, st)
      | Inr a \<Rightarrow>
          (case ap_client_id a of
             None \<Rightarrow> (Inl (plain_error ''cannot update policy: application IdpClientID is nil''), st)
           | Some client \<Rightarrow>
               (case client_update_allow_list link
                   \<lparr>au_application_id = client, au_records = up_fields req,
                    au_grant_duration = patched (up_grant_duration req) PbGrantOneMonth\<rparr> (pb_ext st) of
                  (Inl e, x) \<Rightarrow> (Inl (wrap_pb ''failed to update allow list: '' e), st\<lparr>pb_ext := x\<rparr>)
                | (Inr _, x) \<Rightarrow>
                    let st = st\<lparr>pb_ext := x\<rparr>;
                        a = a\<lparr>ap_fields := up_fields req, ap_base := before_update (pv_clock env 0) (ap_base a)\<rparr> in
                    (case db_save env PbSaveApplication ap_id a (pb_apps st) of
                       Inl e \<Rightarrow> (Inl (wrap_pb ''failed to persist updated selected fields: '' e), st)
                     | Inr t \<Rightarrow> (Inr (application_response_of None a), st\<lparr>pb_apps := t\<rparr>)))))"

definition get_application :: "pb_env \<Rightarrow> string \<Rightarrow> 'x pb_state \<Rightarrow> pb_error + application_response" where
  "get_application env i st =
     bind_res (find_application env PbFindApplication i st) (\<lambda>a. Inr (application_response_of None a))"

definition get_applications :: "pb_env \<Rightarrow> string option \<Rightarrow> 'x pb_state \<Rightarrow> pb_error + application_response list" where
  "get_applications env member_id st =
     bind_res (db_find env PbListApplications
         (newest_first ap_base (sql_where (\<lambda>a. member_filter member_id (ap_member_id a)) (pb_apps st))))
       (\<lambda>rows. Inr (map (\<lambda>a. (application_response_of None a)\<lparr>ar_description := shown_description (ap_description a)\<rparr>) rows))"

section \<open>Application submissions\<close>

definition app_submission_response_of :: "app_submission \<Rightarrow> app_submission_response" where
  "app_submission_response_of s =
     \<lparr>asr_id = as_id s, asr_previous_id = as_previous_id s, asr_name = as_name s, asr_description = as_description s,
      asr_fields = as_fields s, asr_member_id = as_member_id s, asr_status = as_status s,
      asr_created_at = rfc3339 (bm_created_at (as_base s)), asr_updated_at = rfc3339 (bm_updated_at (as_base s)),
      asr_review = as_review s\<rparr>"

definition check_previous_application :: "pb_env \<Rightarrow> string option \<Rightarrow> 'x pb_state \<Rightarrow> pb_error + unit" where
  "check_previous_application env prev st =
     (case prev of
        None \<Rightarrow> Inr ()
      | Some i \<Rightarrow> bind_res (find_application env PbFindPrevious i st) (\<lambda>_. Inr ()))"

definition create_app_submission ::
  "pb_env \<Rightarrow> create_app_submission_request \<Rightarrow> 'x pb_state \<Rightarrow> (pb_error + app_submission_response) \<times> 'x pb_state" where
  "create_app_submission env req st =
     (case check_previous_application env (cas_previous_id req) st of
        Inl e \<Rightarrow> (Inl e, st)
      | Inr _ \<Rightarrow>
          (case db_first env PbFindOwner mb_member_id (\<lambda>m. mb_member_id m = cas_member_id req) (pb_members st) of
             Inl e \<Rightarrow> (Inl e, st)
           | Inr _ \<Rightarrow>
               let s = \<lparr>as_id = pv_uuid env 0, as_previous_id = cas_previous_id req, as_name = cas_name req,
                        as_description = cas_description req, as_fields = cas_fields req,
                        as_member_id = cas_member_id req, as_status = KernelStatusPending, as_review = None,
                        as_base = before_create (pv_clock env 0)\<rparr> in
               (case require_fk (fk_holds ap_id (pb_apps st) (cas_previous_id req))
                       (db_create env PbCreateSubmission app_submission_clash s (pb_app_subs st)) of
                  Inl e \<Rightarrow> (Inl e, st)
                | Inr t \<Rightarrow> (Inr (app_submission_response_of s), st\<lparr>pb_app_subs := t\<rparr>))))"

definition apply_app_submission_update ::
  "time \<Rightarrow> update_app_submission_request \<Rightarrow> app_submission \<Rightarrow> app_submission" where
  "apply_app_submission_update now req s = s\<lparr>
     as_name := patched (uas_name req) (as_name s),
     as_description := patched_opt (uas_description req) (as_description s),
     as_fields := (case uas_fields req of None \<Rightarrow> as_fields s | Some fs \<Rightarrow> if fs = [] then as_fields s else fs),
     as_previous_id := patched_opt (uas_previous_id req) (as_previous_id s),
     as_status := patched (uas_status req) (as_status s),
     as_review := patched_opt (uas_review req) (as_review s),
     as_base := before_update now (as_base s)\<rparr>"

definition save_app_submission ::
  "pb_env \<Rightarrow> pb_stmt \<Rightarrow> app_submission \<Rightarrow> 'x pb_state \<Rightarrow> pb_error + 'x pb_state" where
  "save_app_submission env stmt s st =
     bind_res (require_fk (fk_holds ap_id (pb_apps st) (as_previous_id s))
                (db_save env stmt as_id s (pb_app_subs st)))
       (\<lambda>t. Inr (st\<lparr>pb_app_subs := t\<rparr>))"

definition application_request_of :: "app_submission \<Rightarrow> create_application_request" where
  "application_request_of s =
     \<lparr>ca_name = as_name s, ca_description = as_description s, ca_fields = as_fields s,
      ca_member_id = as_member_id s, ca_idp_id = None, ca_client_id = None\<rparr>"

definition update_app_submission ::
  "pb_env \<Rightarrow> ('b, 'x) pdp_link \<Rightarrow> 'x application_manager \<Rightarrow> string \<Rightarrow> update_app_submission_request \<Rightarrow> 'x pb_state \<Rightarrow>
   (pb_error + app_submission_response) \<times> 'x pb_state" where
  "update_app_submission env link idp i req st =
     (case db_first env PbLoadSubmission as_id (\<lambda>s. as_id s = i) (pb_app_subs st) of
        Inl e \<Rightarrow> (Inl (wrap_pb ''application submission not found: '' e), st)
      | Inr s \<Rightarrow>
          (case check_previous_application env (uas_previous_id req) st of
             Inl e \<Rightarrow> (Inl (wrap_pb ''previous application not found: '' e), st)
           | Inr _ \<Rightarrow>
               let s = apply_app_submission_update (pv_clock env 0) req s in
               (case save_app_submission env PbSaveSubmission s st of
                  Inl e \<Rightarrow> (Inl (wrap_pb ''failed to update application submission: '' e), st)
                | Inr st \<Rightarrow>
                    if uas_status req \<noteq> Some KernelStatusApproved then (Inr (app_submission_response_of s), st)
                    else (case create_application (later 1 env) link idp (application_request_of s) st of
                       (Inr _, st) \<Rightarrow> (Inr (app_submission_response_of s), st)
                     | (Inl e, st) \<Rightarrow>
                         let s = s\<lparr>as_status := KernelStatusPending, as_base := before_update (pv_clock env 2) (as_base s)\<rparr> in
                         (case save_app_submission env PbResetSubmission s st of
                            Inl e' \<Rightarrow>
                              (Inl (wrap_both ''failed to create application from approved submission: '' e
                                      '', and failed to compensate submission status: '' e'), st)
                          | Inr st \<Rightarrow>
                              (Inl (wrap_pb ''failed to create application from approved submission: '' e), st))))))"

definition get_app_submission :: "pb_env \<Rightarrow> string \<Rightarrow> 'x pb_state \<Rightarrow> pb_error + app_submission_response" where
  "get_app_submission env i st =
     bind_res (db_first env PbFindSubmission as_id (\<lambda>s. as_id s = i) (pb_app_subs st))
       (\<lambda>s. Inr (app_submission_response_of s))"

definition get_app_submissions ::
  "pb_env \<Rightarrow> string option \<Rightarrow> string list option \<Rightarrow> 'x pb_state \<Rightarrow> pb_error + app_submission_response list" where
  "get_app_submissions env member_id statuses st =
     bind_res (db_find env PbListSubmissions (newest_first as_base (sql_where (\<lambda>s.
         member_filter member_id (as_member_id s) \<and> status_filter statuses (as_status s)) (pb_app_subs st))))
       (\<lambda>rows. Inr (map app_submission_response_of rows))"

end
