(* ===== verification/PB_Handlers.thy ===== *)
theory PB_Handlers
  imports PB_Member PB_Application
begin

text \<open>
  The HTTP handlers of schemas and applications
  (\<^verbatim>\<open>internal/pb/schema/handler.go\<close>, \<^verbatim>\<open>internal/pb/application/handler.go\<close>). Path values,
  query values and decoded bodies are arguments; a body the decoder refuses is \<open>None\<close>. A reply
  \<open>None\<close> is a process that died before it answered.
\<close>

section \<open>Shared steps\<close>

text \<open>Which member's records a list shows; \<open>None\<close> refuses the caller.\<close>

definition list_member :: "req_ctx \<Rightarrow> string \<Rightarrow> string \<Rightarrow> string option" where
  "list_member ctx all_scope member_id = (if has_scope ctx all_scope then Some member_id else ctx_member_id ctx)"

abbreviation (input) NoMember :: "'b pb_reply" where
  "NoMember \<equiv> respond_with_error StatusForbidden ''User member record not found''"

abbreviation (input) AccessDenied :: "'b pb_reply" where
  "AccessDenied \<equiv> respond_with_error StatusForbidden ''Access denied to this resource''"

abbreviation (input) UpdateDenied :: "'b pb_reply" where
  "UpdateDenied \<equiv> respond_with_error StatusForbidden ''Access denied to update this resource''"

definition list_reply :: "pb_error + 'a list \<Rightarrow> 'a collection pb_reply" where
  "list_reply r =
     (case r of Inl e \<Rightarrow> respond_with_error StatusInternalServerError (pb_text e)
      | Inr xs \<Rightarrow> respond_with_success StatusOK (collection_of xs))"

text \<open>The member a created record belongs to. A submission may name the caller's own member only.\<close>

definition own_member :: "req_ctx \<Rightarrow> string \<Rightarrow> string \<Rightarrow> string + string" where
  "own_member ctx all_scope requested =
     (if has_scope ctx all_scope then Inr requested
      else case ctx_member_id ctx of None \<Rightarrow> Inl ''User member record not found'' | Some i \<Rightarrow> Inr i)"

definition submission_member :: "req_ctx \<Rightarrow> string \<Rightarrow> string \<Rightarrow> string + string" where
  "submission_member ctx all_scope requested =
     (if has_scope ctx all_scope then Inr requested
      else case ctx_member_id ctx of
        None \<Rightarrow> Inl ''User member record not found''
      | Some i \<Rightarrow>
          if requested \<noteq> '''' \<and> requested \<noteq> i then Inl ''Access denied: cannot create submission for another user''
          else Inr i)"

section \<open>Schema submissions\<close>

definition handle_get_all_schema_submissions ::
  "pb_env \<Rightarrow> req_ctx \<Rightarrow> string \<Rightarrow> string list \<Rightarrow> 'x pb_state \<Rightarrow> schema_submission_response collection pb_reply" where
  "handle_get_all_schema_submissions env ctx member_id statuses st =
     (case list_member ctx ScopeSchemaSubmissionReadAll member_id of
        None \<Rightarrow> NoMember
      | Some i \<Rightarrow> list_reply (get_schema_submissions env (Some i) (Some statuses) st))"

definition handle_get_schema_submission ::
  "pb_env \<Rightarrow> req_ctx \<Rightarrow> string \<Rightarrow> 'x pb_state \<Rightarrow> schema_submission_response pb_reply" where
  "handle_get_schema_submission env ctx i st =
     (case get_schema_submission env i st of
        Inl e \<Rightarrow> respond_with_error StatusNotFound (pb_text e)
      | Inr s \<Rightarrow>
          if \<not> can_access ctx ScopeSchemaSubmissionReadAll (ssr_member_id s) then AccessDenied
          else respond_with_success StatusOK s)"

definition handle_create_schema_submission ::
  "pb_env \<Rightarrow> req_ctx \<Rightarrow> create_schema_submission_request option \<Rightarrow> 'x pb_state \<Rightarrow>
   schema_submission_response pb_reply \<times> 'x pb_state" where
  "handle_create_schema_submission env ctx body st =
     (case body of
        None \<Rightarrow> (InvalidBody, st)
      | Some req \<Rightarrow>
          (case submission_member ctx ScopeSchemaSubmissionWriteAll (css_member_id req) of
             Inl m \<Rightarrow> (respond_with_error StatusForbidden m, st)
           | Inr i \<Rightarrow>
               (case create_schema_submission env (req\<lparr>css_member_id := i\<rparr>) st of
                  (Inl e, st) \<Rightarrow>
                    (respond_with_error StatusBadRequest (pb_text e),
                     log_audit env ctx ResourceTypeSchemaSubmissions None AuditStatusFailure st)
                | (Inr s, st) \<Rightarrow>
                    (respond_with_success StatusCreated s,
                     log_audit env ctx ResourceTypeSchemaSubmissions (Some (ssr_id s)) AuditStatusSuccess st))))"

definition handle_update_schema_submission ::
  "pb_env \<Rightarrow> ('b, 'x) pdp_link \<Rightarrow> sdl_lib \<Rightarrow> req_ctx \<Rightarrow> string \<Rightarrow> update_schema_submission_request option \<Rightarrow> 'x pb_state \<Rightarrow>
   schema_submission_response pb_reply option \<times> 'x pb_state" where
  "handle_update_schema_submission env link lib ctx i body st =
     (case get_schema_submission env i st of
        Inl e \<Rightarrow> (Some (respond_with_error StatusNotFound (pb_text e)), st)
      | Inr existing \<Rightarrow>
          if \<not> can_access ctx ScopeSchemaSubmissionWriteAll (ssr_member_id existing) then (Some UpdateDenied, st)
          else case body of
            None \<Rightarrow> (Some InvalidBody, st)
          | Some req \<Rightarrow>
              (case update_schema_submission env link lib i req st of
                 (None, st) \<Rightarrow> (None, st)
               | (Some (Inl e), st) \<Rightarrow>
                   (Some (respond_with_error StatusBadRequest (pb_text e)),
                    log_audit env ctx ResourceTypeSchemaSubmissions (Some (ssr_id existing)) AuditStatusFailure st)
               | (Some (Inr s), st) \<Rightarrow>
                   (Some (respond_with_success StatusOK s),
                    log_audit env ctx ResourceTypeSchemaSubmissions (Some (ssr_id s)) AuditStatusSuccess st)))"

section \<open>Schemas\<close>

definition handle_get_all_schemas ::
  "pb_env \<Rightarrow> req_ctx \<Rightarrow> string \<Rightarrow> 'x pb_state \<Rightarrow> schema_response collection pb_reply" where
  "handle_get_all_schemas env ctx member_id st =
     (case list_member ctx ScopeSchemaReadAll member_id of
        None \<Rightarrow> NoMember
      | Some i \<Rightarrow> list_reply (get_schemas env (Some i) st))"

definition handle_get_schema :: "pb_env \<Rightarrow> req_ctx \<Rightarrow> string \<Rightarrow> 'x pb_state \<Rightarrow> schema_response pb_reply" where
  "handle_get_schema env ctx i st =
     (case get_schema env i st of
        Inl e \<Rightarrow> respond_with_error StatusNotFound (pb_text e)
      | Inr s \<Rightarrow>
          if \<not> can_access ctx ScopeSchemaReadAll (sr_member_id s) then AccessDenied else respond_with_success StatusOK s)"

definition handle_create_schema ::
  "pb_env \<Rightarrow> ('b, 'x) pdp_link \<Rightarrow> sdl_lib \<Rightarrow> req_ctx \<Rightarrow> create_schema_request option \<Rightarrow> 'x pb_state \<Rightarrow>
   schema_response pb_reply option \<times> 'x pb_state" where
  "handle_create_schema env link lib ctx body st =
     (case body of
        None \<Rightarrow> (Some InvalidBody, st)
      | Some req \<Rightarrow>
          (case own_member ctx ScopeSchemaWriteAll (cs_member_id req) of
             Inl m \<Rightarrow> (Some (respond_with_error StatusForbidden m), st)
           | Inr i \<Rightarrow>
               (case create_schema env link lib (req\<lparr>cs_member_id := i\<rparr>) st of
                  (None, st) \<Rightarrow> (None, st)
                | (Some (Inl e), st) \<Rightarrow>
                    (Some (respond_with_error
                       (if pb_kind e = SchemaAlreadyExists then StatusConflict else StatusBadRequest) (pb_text e)),
                     log_audit env ctx ResourceTypeSchemas None AuditStatusFailure st)
                | (Some (Inr s), st) \<Rightarrow>
                    (Some (respond_with_success StatusCreated s),
                     log_audit env ctx ResourceTypeSchemas (Some (sr_schema_id s)) AuditStatusSuccess st))))"

definition handle_update_schema ::
  "pb_env \<Rightarrow> req_ctx \<Rightarrow> string \<Rightarrow> update_schema_request option \<Rightarrow> 'x pb_state \<Rightarrow> schema_response pb_reply \<times> 'x pb_state" where
  "handle_update_schema env ctx i body st =
     (case get_schema env i st of
        Inl e \<Rightarrow> (respond_with_error StatusNotFound (pb_text e), st)
      | Inr existing \<Rightarrow>
          if \<not> can_access ctx ScopeSchemaWriteAll (sr_member_id existing) then (UpdateDenied, st)
          else case body of
            None \<Rightarrow> (InvalidBody, st)
          | Some req \<Rightarrow>
              (case update_schema env i req st of
                 (Inl e, st) \<Rightarrow>
                   (respond_with_error StatusBadRequest (pb_text e),
                    log_audit env ctx ResourceTypeSchemas (Some (sr_schema_id existing)) AuditStatusFailure st)
               | (Inr s, st) \<Rightarrow>
                   (respond_with_success StatusOK s,
                    log_audit env ctx ResourceTypeSchemas (Some (sr_schema_id s)) AuditStatusSuccess st)))"

section \<open>Policy metadata of a schema\<close>

definition authorize_schema_access ::
  "pb_env \<Rightarrow> req_ctx \<Rightarrow> string \<Rightarrow> string \<Rightarrow> 'x pb_state \<Rightarrow> 'b pb_reply option" where
  "authorize_schema_access env ctx i all_scope st =
     (case get_schema env i st of
        Inl e \<Rightarrow> Some (respond_with_error StatusNotFound (pb_text e))
      | Inr s \<Rightarrow> if \<not> can_access ctx all_scope (sr_member_id s) then Some AccessDenied else None)"

definition respond_with_metadata_error :: "pb_error \<Rightarrow> 'b pb_reply" where
  "respond_with_metadata_error e =
     (if pb_kind e = MetadataNotInSchema then respond_with_error StatusNotFound (pb_text e)
      else case pb_kind e of
        PdpStatusError status message \<Rightarrow>
          if status \<in> {StatusBadRequest, StatusNotFound, StatusConflict} then respond_with_error status message
          else respond_with_error 502 ''Policy decision point request failed''
      | _ \<Rightarrow> respond_with_error 502 ''Policy decision point request failed'')"

definition handle_list_schema_metadata ::
  "pb_env \<Rightarrow> ('b, 'x) pdp_link \<Rightarrow> req_ctx \<Rightarrow> string \<Rightarrow> 'x pb_state \<Rightarrow> metadata_response collection pb_reply \<times> 'x pb_state" where
  "handle_list_schema_metadata env link ctx i st =
     (case authorize_schema_access env ctx i ScopeSchemaReadAll st of
        Some denied \<Rightarrow> (denied, st)
      | None \<Rightarrow>
          (case list_schema_metadata link i st of
             (Inl e, st) \<Rightarrow> (respond_with_metadata_error e, st)
           | (Inr records, st) \<Rightarrow> (respond_with_success StatusOK (collection_of records), st)))"

definition handle_patch_schema_metadata ::
  "pb_env \<Rightarrow> ('b, 'x) pdp_link \<Rightarrow> req_ctx \<Rightarrow> string \<Rightarrow> string \<Rightarrow> metadata_patch_request option \<Rightarrow> 'x pb_state \<Rightarrow>
   metadata_response pb_reply \<times> 'x pb_state" where
  "handle_patch_schema_metadata env link ctx schema_id i body st =
     (case authorize_schema_access env ctx schema_id ScopeSchemaWriteAll st of
        Some denied \<Rightarrow> (denied, st)
      | None \<Rightarrow>
          (case body of
             None \<Rightarrow> (InvalidBody, st)
           | Some req \<Rightarrow>
               if patch_is_empty req then
                 (respond_with_error StatusBadRequest ''at least one editable field is required'', st)
               else (case patch_schema_metadata link schema_id i req st of
                  (Inl e, st) \<Rightarrow>
                    (respond_with_metadata_error e,
                     log_audit env ctx ResourceTypeSchemas (Some schema_id) AuditStatusFailure st)
                | (Inr r, st) \<Rightarrow>
                    (respond_with_success StatusOK r,
                     log_audit env ctx ResourceTypeSchemas (Some schema_id) AuditStatusSuccess st))))"

definition metadata_removal_reply ::
  "pb_env \<Rightarrow> req_ctx \<Rightarrow> string \<Rightarrow> (pb_error + unit) \<times> 'x pb_state \<Rightarrow> unit pb_reply \<times> 'x pb_state" where
  "metadata_removal_reply env ctx schema_id r =
     (case r of
        (Inl e, st) \<Rightarrow>
          (respond_with_metadata_error e, log_audit env ctx ResourceTypeSchemas (Some schema_id) AuditStatusFailure st)
      | (Inr _, st) \<Rightarrow>
          (NoBody StatusNoContent, log_audit env ctx ResourceTypeSchemas (Some schema_id) AuditStatusSuccess st))"

definition handle_delete_schema_metadata ::
  "pb_env \<Rightarrow> ('b, 'x) pdp_link \<Rightarrow> req_ctx \<Rightarrow> string \<Rightarrow> string \<Rightarrow> 'x pb_state \<Rightarrow> unit pb_reply \<times> 'x pb_state" where
  "handle_delete_schema_metadata env link ctx schema_id i st =
     (case authorize_schema_access env ctx schema_id ScopeSchemaWriteAll st of
        Some denied \<Rightarrow> (denied, st)
      | None \<Rightarrow> metadata_removal_reply env ctx schema_id (delete_schema_metadata link schema_id i st))"

definition handle_revoke_schema_entry ::
  "pb_env \<Rightarrow> ('b, 'x) pdp_link \<Rightarrow> req_ctx \<Rightarrow> string \<Rightarrow> string \<Rightarrow> string \<Rightarrow> 'x pb_state \<Rightarrow> unit pb_reply \<times> 'x pb_state" where
  "handle_revoke_schema_entry env link ctx schema_id i app st =
     (case authorize_schema_access env ctx schema_id ScopeSchemaWriteAll st of
        Some denied \<Rightarrow> (denied, st)
      | None \<Rightarrow> metadata_removal_reply env ctx schema_id (revoke_schema_entry link schema_id i app st))"

section \<open>Application submissions\<close>

definition handle_get_all_app_submissions ::
  "pb_env \<Rightarrow> req_ctx \<Rightarrow> string \<Rightarrow> string list \<Rightarrow> 'x pb_state \<Rightarrow> app_submission_response collection pb_reply" where
  "handle_get_all_app_submissions env ctx member_id statuses st =
     (case list_member ctx ScopeApplicationSubmissionReadAll member_id of
        None \<Rightarrow> NoMember
      | Some i \<Rightarrow> list_reply (get_app_submissions env (Some i) (Some statuses) st))"

definition handle_get_app_submission :: "pb_env \<Rightarrow> req_ctx \<Rightarrow> string \<Rightarrow> 'x pb_state \<Rightarrow> app_submission_response pb_reply" where
  "handle_get_app_submission env ctx i st =
     (case get_app_submission env i st of
        Inl e \<Rightarrow> respond_with_error StatusNotFound (pb_text e)
      | Inr s \<Rightarrow>
          if \<not> can_access ctx ScopeApplicationSubmissionReadAll (asr_member_id s) then AccessDenied
          else respond_with_success StatusOK s)"

definition handle_create_app_submission ::
  "pb_env \<Rightarrow> req_ctx \<Rightarrow> create_app_submission_request option \<Rightarrow> 'x pb_state \<Rightarrow> app_submission_response pb_reply \<times> 'x pb_state" where
  "handle_create_app_submission env ctx body st =
     (case body of
        None \<Rightarrow> (InvalidBody, st)
      | Some req \<Rightarrow>
          (case submission_member ctx ScopeApplicationSubmissionWriteAll (cas_member_id req) of
             Inl m \<Rightarrow> (respond_with_error StatusForbidden m, st)
           | Inr i \<Rightarrow>
               (case create_app_submission env (req\<lparr>cas_member_id := i\<rparr>) st of
                  (Inl e, st) \<Rightarrow>
                    (respond_with_error StatusBadRequest (pb_text e),
                     log_audit env ctx ResourceTypeApplicationSubmissions None AuditStatusFailure st)
                | (Inr s, st) \<Rightarrow>
                    (respond_with_success StatusCreated s,
                     log_audit env ctx ResourceTypeApplicationSubmissions (Some (asr_id s)) AuditStatusSuccess st))))"

definition handle_update_app_submission ::
  "pb_env \<Rightarrow> ('b, 'x) pdp_link \<Rightarrow> 'x application_manager \<Rightarrow> req_ctx \<Rightarrow> string \<Rightarrow> update_app_submission_request option \<Rightarrow>
   'x pb_state \<Rightarrow> app_submission_response pb_reply \<times> 'x pb_state" where
  "handle_update_app_submission env link idp ctx i body st =
     (case get_app_submission env i st of
        Inl e \<Rightarrow> (respond_with_error StatusNotFound ''Application submission not found'', st)
      | Inr existing \<Rightarrow>
          if \<not> can_access ctx ScopeApplicationSubmissionWriteAll (asr_member_id existing) then (AccessDenied, st)
          else case body of
            None \<Rightarrow> (InvalidBody, st)
          | Some req \<Rightarrow>
              (case update_app_submission env link idp i req st of
                 (Inl e, st) \<Rightarrow>
                   (respond_with_error StatusBadRequest (pb_text e),
                    log_audit env ctx ResourceTypeApplicationSubmissions (Some (asr_id existing)) AuditStatusFailure st)
               | (Inr s, st) \<Rightarrow>
                   (respond_with_success StatusOK s,
                    log_audit env ctx ResourceTypeApplicationSubmissions (Some (asr_id s)) AuditStatusSuccess st)))"

section \<open>Applications\<close>

definition handle_get_all_applications ::
  "pb_env \<Rightarrow> req_ctx \<Rightarrow> string \<Rightarrow> 'x pb_state \<Rightarrow> application_response collection pb_reply" where
  "handle_get_all_applications env ctx member_id st =
     (case list_member ctx ScopeApplicationReadAll member_id of
        None \<Rightarrow> NoMember
      | Some i \<Rightarrow> list_reply (get_applications env (Some i) st))"

definition handle_get_application :: "pb_env \<Rightarrow> req_ctx \<Rightarrow> string \<Rightarrow> 'x pb_state \<Rightarrow> application_response pb_reply" where
  "handle_get_application env ctx i st =
     (case get_application env i st of
        Inl e \<Rightarrow> respond_with_error StatusNotFound (pb_text e)
      | Inr a \<Rightarrow>
          if \<not> can_access ctx ScopeApplicationReadAll (ar_member_id a) then AccessDenied else respond_with_success StatusOK a)"

definition handle_create_application ::
  "pb_env \<Rightarrow> ('b, 'x) pdp_link \<Rightarrow> 'x application_manager \<Rightarrow> req_ctx \<Rightarrow> create_application_request option \<Rightarrow> 'x pb_state \<Rightarrow>
   application_response pb_reply \<times> 'x pb_state" where
  "handle_create_application env link idp ctx body st =
     (case body of
        None \<Rightarrow> (InvalidBody, st)
      | Some req \<Rightarrow>
          (case own_member ctx ScopeApplicationWriteAll (ca_member_id req) of
             Inl m \<Rightarrow> (respond_with_error StatusForbidden m, st)
           | Inr i \<Rightarrow>
               (case create_application env link idp (req\<lparr>ca_member_id := i\<rparr>) st of
                  (Inl e, st) \<Rightarrow>
                    (respond_with_error StatusBadRequest (pb_text e),
                     log_audit env ctx ResourceTypeApplications None AuditStatusFailure st)
                | (Inr a, st) \<Rightarrow>
                    (respond_with_success StatusCreated a,
                     log_audit env ctx ResourceTypeApplications (Some (ar_id a)) AuditStatusSuccess st))))"

text \<open>The part the two updates of an application share; \<open>update\<close> runs on a body that was decoded.\<close>

definition update_own_application ::
  "pb_env \<Rightarrow> req_ctx \<Rightarrow> string \<Rightarrow> 'q option \<Rightarrow> ('q \<Rightarrow> 'x pb_state \<Rightarrow> (pb_error + application_response) \<times> 'x pb_state) \<Rightarrow>
   'x pb_state \<Rightarrow> application_response pb_reply \<times> 'x pb_state" where
  "update_own_application env ctx i body update st =
     (case get_application env i st of
        Inl e \<Rightarrow> (respond_with_error StatusNotFound (pb_text e), st)
      | Inr existing \<Rightarrow>
          if \<not> can_access ctx ScopeApplicationWriteAll (ar_member_id existing) then (UpdateDenied, st)
          else case body of
            None \<Rightarrow> (InvalidBody, st)
          | Some req \<Rightarrow>
              (case update req st of
                 (Inl e, st) \<Rightarrow>
                   (respond_with_error StatusBadRequest (pb_text e),
                    log_audit env ctx ResourceTypeApplications (Some (ar_id existing)) AuditStatusFailure st)
               | (Inr a, st) \<Rightarrow>
                   (respond_with_success StatusOK a,
                    log_audit env ctx ResourceTypeApplications (Some (ar_id a)) AuditStatusSuccess st)))"

definition handle_update_application ::
  "pb_env \<Rightarrow> req_ctx \<Rightarrow> string \<Rightarrow> update_application_request option \<Rightarrow> 'x pb_state \<Rightarrow>
   application_response pb_reply \<times> 'x pb_state" where
  "handle_update_application env ctx i body = update_own_application env ctx i body (update_application env i)"

definition handle_update_application_policy ::
  "pb_env \<Rightarrow> ('b, 'x) pdp_link \<Rightarrow> req_ctx \<Rightarrow> string \<Rightarrow> update_application_policy_request option \<Rightarrow> 'x pb_state \<Rightarrow>
   application_response pb_reply \<times> 'x pb_state" where
  "handle_update_application_policy env link ctx i body =
     update_own_application env ctx i body (update_application_policy env link i)"

end
