(* ===== verification/PB_Api.thy ===== *)
theory PB_Api
  imports PB_Handlers
begin

text \<open>
  The API of the Portal Backend: the routes of \<^verbatim>\<open>cmd/pb/main.go\<close> with the scope each
  requires, served behind the lookup of the caller's member. The scope check is the authorization
  library's and a parameter: \<open>None\<close> lets the request pass.
\<close>

text \<open>A request that a route matched, with its path values, query values and decoded body.\<close>

datatype pb_request =
    ListMembers string
  | CreateMember "create_member_request option"
  | GetMember string
  | UpdateMember string "update_member_request option"
  | ListSchemas string
  | CreateSchema "create_schema_request option"
  | GetSchema string
  | UpdateSchema string "update_schema_request option"
  | ListMetadata string
  | PatchMetadata string string "metadata_patch_request option"
  | DeleteMetadata string string
  | RevokeEntry string string string
  | ListSchemaSubmissions string "string list"
  | CreateSchemaSubmission "create_schema_submission_request option"
  | GetSchemaSubmission string
  | UpdateSchemaSubmission string "update_schema_submission_request option"
  | ListApplications string
  | CreateApplication "create_application_request option"
  | GetApplication string
  | UpdateApplication string "update_application_request option"
  | UpdateApplicationPolicy string "update_application_policy_request option"
  | ListAppSubmissions string "string list"
  | CreateAppSubmission "create_app_submission_request option"
  | GetAppSubmission string
  | UpdateAppSubmission string "update_app_submission_request option"

fun required_scope :: "pb_request \<Rightarrow> string" where
  "required_scope (ListMembers _) = ScopeMemberRead"
| "required_scope (CreateMember _) = ScopeMemberWriteAll"
| "required_scope (GetMember _) = ScopeMemberRead"
| "required_scope (UpdateMember _ _) = ScopeMemberWrite"
| "required_scope (ListSchemas _) = ScopeSchemaRead"
| "required_scope (CreateSchema _) = ScopeSchemaWrite"
| "required_scope (GetSchema _) = ScopeSchemaRead"
| "required_scope (UpdateSchema _ _) = ScopeSchemaWrite"
| "required_scope (ListMetadata _) = ScopeSchemaRead"
| "required_scope (PatchMetadata _ _ _) = ScopeSchemaWrite"
| "required_scope (DeleteMetadata _ _) = ScopeSchemaWrite"
| "required_scope (RevokeEntry _ _ _) = ScopeSchemaWrite"
| "required_scope (ListSchemaSubmissions _ _) = ScopeSchemaSubmissionRead"
| "required_scope (CreateSchemaSubmission _) = ScopeSchemaSubmissionWrite"
| "required_scope (GetSchemaSubmission _) = ScopeSchemaSubmissionRead"
| "required_scope (UpdateSchemaSubmission _ _) = ScopeSchemaSubmissionWrite"
| "required_scope (ListApplications _) = ScopeApplicationRead"
| "required_scope (CreateApplication _) = ScopeApplicationWrite"
| "required_scope (GetApplication _) = ScopeApplicationRead"
| "required_scope (UpdateApplication _ _) = ScopeApplicationWrite"
| "required_scope (UpdateApplicationPolicy _ _) = ScopeApplicationWrite"
| "required_scope (ListAppSubmissions _ _) = ScopeApplicationSubmissionRead"
| "required_scope (CreateAppSubmission _) = ScopeApplicationSubmissionWrite"
| "required_scope (GetAppSubmission _) = ScopeApplicationSubmissionRead"
| "required_scope (UpdateAppSubmission _ _) = ScopeApplicationSubmissionWrite"

text \<open>The body of an answer.\<close>

datatype pb_content =
    OneMember member_response | Members "member_response list"
  | OneSchema schema_response | Schemas "schema_response list"
  | OneMetadata metadata_response | Metadata "metadata_response list"
  | OneSchemaSubmission schema_submission_response | SchemaSubmissions "schema_submission_response list"
  | OneApplication application_response | Applications "application_response list"
  | OneAppSubmission app_submission_response | AppSubmissions "app_submission_response list"
  | Nothing

fun map_reply :: "('a \<Rightarrow> 'b) \<Rightarrow> ('a, 'e) reply \<Rightarrow> ('b, 'e) reply" where
  "map_reply f (Success n b) = Success n (f b)"
| "map_reply f (Failure n e) = Failure n e"
| "map_reply f (NoBody n) = NoBody n"

text \<open>The collaborators of the services.\<close>

record ('b, 'x) pb_deps =
  pd_link :: "('b, 'x) pdp_link"
  pd_sdl :: sdl_lib
  pd_idp :: "'x application_manager"
  pd_require_scope :: "principal option \<Rightarrow> string \<Rightarrow> (nat \<times> string) option"

type_synonym 'x pb_result = "pb_content pb_reply option \<times> 'x pb_state"

definition answer :: "('a \<Rightarrow> pb_content) \<Rightarrow> 'a pb_reply \<times> 'x pb_state \<Rightarrow> 'x pb_result" where
  "answer f r = (Some (map_reply f (fst r)), snd r)"

definition answer_or_died :: "('a \<Rightarrow> pb_content) \<Rightarrow> 'a pb_reply option \<times> 'x pb_state \<Rightarrow> 'x pb_result" where
  "answer_or_died f r = (map_option (map_reply f) (fst r), snd r)"

fun dispatch :: "pb_env \<Rightarrow> ('b, 'x) pb_deps \<Rightarrow> req_ctx \<Rightarrow> pb_request \<Rightarrow> 'x pb_state \<Rightarrow> 'x pb_result" where
  "dispatch env d ctx (ListMembers ou) st = answer (\<lambda>c. Members (co_items c)) (handle_get_all_members env ctx ou st, st)"
| "dispatch env d ctx (CreateMember b) st = answer OneMember (handle_create_member env ctx b st)"
| "dispatch env d ctx (GetMember i) st = answer OneMember (handle_get_member env ctx i st, st)"
| "dispatch env d ctx (UpdateMember i b) st = answer OneMember (handle_update_member env ctx i b st)"
| "dispatch env d ctx (ListSchemas m) st = answer (\<lambda>c. Schemas (co_items c)) (handle_get_all_schemas env ctx m st, st)"
| "dispatch env d ctx (CreateSchema b) st = answer_or_died OneSchema (handle_create_schema env (pd_link d) (pd_sdl d) ctx b st)"
| "dispatch env d ctx (GetSchema i) st = answer OneSchema (handle_get_schema env ctx i st, st)"
| "dispatch env d ctx (UpdateSchema i b) st = answer OneSchema (handle_update_schema env ctx i b st)"
| "dispatch env d ctx (ListMetadata i) st = answer (\<lambda>c. Metadata (co_items c)) (handle_list_schema_metadata env (pd_link d) ctx i st)"
| "dispatch env d ctx (PatchMetadata s i b) st = answer OneMetadata (handle_patch_schema_metadata env (pd_link d) ctx s i b st)"
| "dispatch env d ctx (DeleteMetadata s i) st = answer (\<lambda>_. Nothing) (handle_delete_schema_metadata env (pd_link d) ctx s i st)"
| "dispatch env d ctx (RevokeEntry s i a) st = answer (\<lambda>_. Nothing) (handle_revoke_schema_entry env (pd_link d) ctx s i a st)"
| "dispatch env d ctx (ListSchemaSubmissions m ss) st =
     answer (\<lambda>c. SchemaSubmissions (co_items c)) (handle_get_all_schema_submissions env ctx m ss st, st)"
| "dispatch env d ctx (CreateSchemaSubmission b) st = answer OneSchemaSubmission (handle_create_schema_submission env ctx b st)"
| "dispatch env d ctx (GetSchemaSubmission i) st = answer OneSchemaSubmission (handle_get_schema_submission env ctx i st, st)"
| "dispatch env d ctx (UpdateSchemaSubmission i b) st =
     answer_or_died OneSchemaSubmission (handle_update_schema_submission env (pd_link d) (pd_sdl d) ctx i b st)"
| "dispatch env d ctx (ListApplications m) st = answer (\<lambda>c. Applications (co_items c)) (handle_get_all_applications env ctx m st, st)"
| "dispatch env d ctx (CreateApplication b) st = answer OneApplication (handle_create_application env (pd_link d) (pd_idp d) ctx b st)"
| "dispatch env d ctx (GetApplication i) st = answer OneApplication (handle_get_application env ctx i st, st)"
| "dispatch env d ctx (UpdateApplication i b) st = answer OneApplication (handle_update_application env ctx i b st)"
| "dispatch env d ctx (UpdateApplicationPolicy i b) st =
     answer OneApplication (handle_update_application_policy env (pd_link d) ctx i b st)"
| "dispatch env d ctx (ListAppSubmissions m ss) st =
     answer (\<lambda>c. AppSubmissions (co_items c)) (handle_get_all_app_submissions env ctx m ss st, st)"
| "dispatch env d ctx (CreateAppSubmission b) st = answer OneAppSubmission (handle_create_app_submission env ctx b st)"
| "dispatch env d ctx (GetAppSubmission i) st = answer OneAppSubmission (handle_get_app_submission env ctx i st, st)"
| "dispatch env d ctx (UpdateAppSubmission i b) st =
     answer OneAppSubmission (handle_update_app_submission env (pd_link d) (pd_idp d) ctx i b st)"

text \<open>A route of the API: the scope first, then the handler.\<close>

definition serve_route :: "pb_env \<Rightarrow> ('b, 'x) pb_deps \<Rightarrow> req_ctx \<Rightarrow> pb_request \<Rightarrow> 'x pb_state \<Rightarrow> 'x pb_result" where
  "serve_route env d ctx req st =
     (case pd_require_scope d (principal_from_context ctx) (required_scope req) of
        Some (status, m) \<Rightarrow> (Some (respond_with_error status m), st)
      | None \<Rightarrow> dispatch env d ctx req st)"

text \<open>The member lookup in front of the routes.\<close>

definition pb_api :: "pb_env \<Rightarrow> ('b, 'x) pb_deps \<Rightarrow> req_ctx \<Rightarrow> pb_request \<Rightarrow> 'x pb_state \<Rightarrow> 'x pb_result" where
  "pb_api env d ctx req st =
     caller_middleware (member_id_by_ou_id env) (\<lambda>n m. Some (respond_with_error n m))
       (\<lambda>ctx st. serve_route env d ctx req st) ctx st"

text \<open>
  The server behind token validation. \<open>extract\<close> is \<^const>\<open>extract_principal\<close> on the state
  \<open>'w\<close> of the key cache; the request's context starts without a caller.
\<close>

definition pb_server ::
  "pb_env \<Rightarrow> ('b, 'x) pb_deps \<Rightarrow> (string \<Rightarrow> 'w \<Rightarrow> (string + principal) \<times> 'w) \<Rightarrow> string \<Rightarrow> string \<Rightarrow> pb_request \<Rightarrow>
   'w \<times> 'x pb_state \<Rightarrow> pb_content pb_reply option \<times> 'w \<times> 'x pb_state" where
  "pb_server env d extract meth header req w =
     require_auth (Some (\<lambda>h w. case extract h (fst w) of (r, k) \<Rightarrow> (r, (k, snd w))))
       (\<lambda>n e m. Some (respond_with_error n m))
       (\<lambda>auth w. case pb_api env d \<lparr>rx_method = meth, rx_auth = auth, rx_member_id = None\<rparr> req (snd w) of
          (r, st) \<Rightarrow> (r, (fst w, st)))
       header None w"

end
