(* ===== verification/PB_Facts.thy ===== *)
theory PB_Facts
  imports PB_Api
begin

text \<open>
  The changes that the services make, as a step relation on the state: every operation is a
  sequence of steps, each of which adds, saves or drops one row whose owner satisfies \<open>P\<close>. The
  integrity of the tables and the frame of an operation follow from the steps alone.
\<close>

section \<open>Statements\<close>

lemma db_first_Inr: "db_first env stmt k p t = Inr r \<Longrightarrow> r \<in> set t \<and> p r"
  by (auto simp: db_first_def split: option.splits dest: sql_first_SomeD)

lemma db_create_Inr:
  "db_create env stmt clash r t = Inr t' \<Longrightarrow> (\<forall>x \<in> set t. \<not> clash x r) \<and> t' = t @ [r]"
  by (auto simp: db_create_def sql_insert_Some_iff split: option.splits)

lemma db_save_Inr:
  assumes "db_save env stmt k r t = Inr t'" "x \<in> set t" "k x = k r"
  shows "t' = sql_update (\<lambda>y. k y = k r) (\<lambda>_. r) t"
proof -
  have "sql_affected (\<lambda>x. k x = k r) t \<noteq> 0" using assms(2,3) by (auto simp: sql_affected_0_iff)
  with assms(1) show ?thesis by (auto simp: db_save_def split: option.splits)
qed

lemma db_delete_Inr: "db_delete env stmt p t = Inr t' \<Longrightarrow> t' = sql_delete p t"
  by (auto simp: db_delete_def split: option.splits)

lemma require_fk_Inr: "require_fk ok r = Inr t \<longleftrightarrow> ok \<and> r = Inr t"
  by (auto simp: require_fk_def)

lemmas db_rules = db_first_Inr db_create_Inr db_delete_Inr

section \<open>Tables with one key\<close>

text \<open>A table whose rows clash exactly when their keys agree.\<close>

locale one_key_table = keyed_table key clash
  for key :: "'r \<Rightarrow> string" and clash :: "'r \<Rightarrow> 'r \<Rightarrow> bool" +
  assumes clash_iff: "clash x y \<longleftrightarrow> key x = key y"
begin

lemma saved_ok:
  assumes "table_ok clash t" "key r' = i"
  shows "table_ok clash (sql_update (\<lambda>x. key x = i) (\<lambda>_. r') t)"
  by (rule table_ok_update [OF assms(1)]) (auto simp: clash_iff assms(2) split: if_splits)

lemma added_ok: "table_ok clash t \<Longrightarrow> \<forall>x \<in> set t. \<not> clash x r \<Longrightarrow> table_ok clash (t @ [r])"
  by (rule table_ok_insert [of clash t]) (auto simp: sql_insert_Some_iff)

lemma same_row: "table_ok clash t \<Longrightarrow> x \<in> set t \<Longrightarrow> y \<in> set t \<Longrightarrow> key x = key y \<Longrightarrow> x = y"
  by (rule ok_key_inj)

end

interpretation schema_rows: one_key_table ps_schema_id schema_clash
  by unfold_locales (simp add: schema_clash_def)

interpretation schema_sub_rows: one_key_table ss_id schema_submission_clash
  by unfold_locales (simp add: schema_submission_clash_def)

interpretation app_rows: one_key_table ap_id application_clash
  by unfold_locales (simp add: application_clash_def)

interpretation app_sub_rows: one_key_table as_id app_submission_clash
  by unfold_locales (simp add: app_submission_clash_def)

section \<open>Steps\<close>

inductive pb_step :: "(string \<Rightarrow> bool) \<Rightarrow> 'x pb_state \<Rightarrow> 'x pb_state \<Rightarrow> bool" for P where
  outside: "pb_step P st (st\<lparr>pb_ext := x\<rparr>)"
| logged: "pb_step P st (st\<lparr>pb_audit := l\<rparr>)"
| add_member: "\<forall>x \<in> set (pb_members st). \<not> member_clash x m \<Longrightarrow> P (mb_member_id m) \<Longrightarrow>
    pb_step P st (st\<lparr>pb_members := pb_members st @ [m]\<rparr>)"
| save_member: "m \<in> set (pb_members st) \<Longrightarrow> P (mb_member_id m) \<Longrightarrow> mb_member_id m' = mb_member_id m \<Longrightarrow>
    mb_ou_id m' = mb_ou_id m \<Longrightarrow>
    pb_step P st (st\<lparr>pb_members := sql_update (\<lambda>x. mb_member_id x = mb_member_id m') (\<lambda>_. m') (pb_members st)\<rparr>)"
| add_schema: "\<forall>x \<in> set (pb_schemas st). \<not> schema_clash x s \<Longrightarrow> P (ps_member_id s) \<Longrightarrow>
    pb_step P st (st\<lparr>pb_schemas := pb_schemas st @ [s]\<rparr>)"
| save_schema: "s \<in> set (pb_schemas st) \<Longrightarrow> P (ps_member_id s) \<Longrightarrow> ps_schema_id s' = ps_schema_id s \<Longrightarrow>
    ps_member_id s' = ps_member_id s \<Longrightarrow>
    pb_step P st (st\<lparr>pb_schemas := sql_update (\<lambda>x. ps_schema_id x = ps_schema_id s') (\<lambda>_. s') (pb_schemas st)\<rparr>)"
| drop_schema: "\<forall>s \<in> set (pb_schemas st). ps_schema_id s = i \<longrightarrow> P (ps_member_id s) \<Longrightarrow>
    \<forall>s \<in> set (pb_schema_subs st). ss_previous_id s \<noteq> Some i \<Longrightarrow>
    pb_step P st (st\<lparr>pb_schemas := sql_delete (\<lambda>s. ps_schema_id s = i) (pb_schemas st)\<rparr>)"
| add_schema_sub: "\<forall>x \<in> set (pb_schema_subs st). \<not> schema_submission_clash x u \<Longrightarrow> P (ss_member_id u) \<Longrightarrow>
    fk_holds ps_schema_id (pb_schemas st) (ss_previous_id u) \<Longrightarrow>
    pb_step P st (st\<lparr>pb_schema_subs := pb_schema_subs st @ [u]\<rparr>)"
| save_schema_sub: "u \<in> set (pb_schema_subs st) \<Longrightarrow> P (ss_member_id u) \<Longrightarrow> ss_id u' = ss_id u \<Longrightarrow>
    ss_member_id u' = ss_member_id u \<Longrightarrow> fk_holds ps_schema_id (pb_schemas st) (ss_previous_id u') \<Longrightarrow>
    pb_step P st (st\<lparr>pb_schema_subs := sql_update (\<lambda>x. ss_id x = ss_id u') (\<lambda>_. u') (pb_schema_subs st)\<rparr>)"
| add_app: "\<forall>x \<in> set (pb_apps st). \<not> application_clash x a \<Longrightarrow> P (ap_member_id a) \<Longrightarrow>
    ap_client_id a \<noteq> None \<Longrightarrow> ap_idp_id a \<noteq> None \<Longrightarrow>
    pb_step P st (st\<lparr>pb_apps := pb_apps st @ [a]\<rparr>)"
| save_app: "a \<in> set (pb_apps st) \<Longrightarrow> P (ap_member_id a) \<Longrightarrow> ap_id a' = ap_id a \<Longrightarrow>
    ap_member_id a' = ap_member_id a \<Longrightarrow> ap_client_id a' = ap_client_id a \<Longrightarrow> ap_idp_id a' = ap_idp_id a \<Longrightarrow>
    pb_step P st (st\<lparr>pb_apps := sql_update (\<lambda>x. ap_id x = ap_id a') (\<lambda>_. a') (pb_apps st)\<rparr>)"
| drop_app: "\<forall>a \<in> set (pb_apps st). ap_id a = i \<longrightarrow> P (ap_member_id a) \<Longrightarrow>
    \<forall>s \<in> set (pb_app_subs st). as_previous_id s \<noteq> Some i \<Longrightarrow>
    pb_step P st (st\<lparr>pb_apps := sql_delete (\<lambda>a. ap_id a = i) (pb_apps st)\<rparr>)"
| add_app_sub: "\<forall>x \<in> set (pb_app_subs st). \<not> app_submission_clash x u \<Longrightarrow> P (as_member_id u) \<Longrightarrow>
    fk_holds ap_id (pb_apps st) (as_previous_id u) \<Longrightarrow>
    pb_step P st (st\<lparr>pb_app_subs := pb_app_subs st @ [u]\<rparr>)"
| save_app_sub: "u \<in> set (pb_app_subs st) \<Longrightarrow> P (as_member_id u) \<Longrightarrow> as_id u' = as_id u \<Longrightarrow>
    as_member_id u' = as_member_id u \<Longrightarrow> fk_holds ap_id (pb_apps st) (as_previous_id u') \<Longrightarrow>
    pb_step P st (st\<lparr>pb_app_subs := sql_update (\<lambda>x. as_id x = as_id u') (\<lambda>_. u') (pb_app_subs st)\<rparr>)"

abbreviation pb_steps :: "(string \<Rightarrow> bool) \<Rightarrow> 'x pb_state \<Rightarrow> 'x pb_state \<Rightarrow> bool" where
  "pb_steps P \<equiv> (pb_step P)\<^sup>*\<^sup>*"

lemma pb_steps_one: "pb_step P st st' \<Longrightarrow> pb_steps P st st'"
  by blast

lemma pb_steps_then: "pb_steps P st u \<Longrightarrow> pb_step P u st' \<Longrightarrow> pb_steps P st st'"
  by (rule rtranclp.rtrancl_into_rtrancl)

lemma log_audit_step: "pb_step P st (log_audit env ctx r i s st)"
  unfolding log_audit_def
  by (auto split: prod.split intro: logged logged [of P st "pb_audit st", simplified])

lemma pb_steps_audit: "pb_steps P st u \<Longrightarrow> pb_steps P st (log_audit env ctx r i s u)"
  by (rule pb_steps_then [OF _ log_audit_step])

section \<open>Integrity\<close>

definition pb_inv :: "'x pb_state \<Rightarrow> bool" where
  "pb_inv st \<longleftrightarrow>
     table_ok member_clash (pb_members st) \<and> table_ok schema_clash (pb_schemas st) \<and>
     table_ok schema_submission_clash (pb_schema_subs st) \<and> table_ok application_clash (pb_apps st) \<and>
     table_ok app_submission_clash (pb_app_subs st) \<and>
     (\<forall>s \<in> set (pb_schema_subs st). fk_holds ps_schema_id (pb_schemas st) (ss_previous_id s)) \<and>
     (\<forall>s \<in> set (pb_app_subs st). fk_holds ap_id (pb_apps st) (as_previous_id s)) \<and>
     (\<forall>a \<in> set (pb_apps st). ap_client_id a \<noteq> None \<and> ap_idp_id a \<noteq> None)"

lemma fk_holds_iff: "fk_holds k t i \<longleftrightarrow> (\<forall>j. i = Some j \<longrightarrow> j \<in> k ` set t)"
  by (auto simp: fk_holds_def list_ex_iff split: option.split)

lemma fk_holds_mono: "fk_holds k t i \<Longrightarrow> k ` set t \<subseteq> k ` set t' \<Longrightarrow> fk_holds k t' i"
  by (auto simp: fk_holds_iff)

lemma keys_saved:
  assumes "k r = i"
  shows "k ` set (sql_update (\<lambda>x. k x = i) (\<lambda>_. r) t) = k ` set t"
proof -
  have "map k (sql_update (\<lambda>x. k x = i) (\<lambda>_. r) t) = map k t"
    using assms by (simp add: sql_update_def)
  then show ?thesis by (metis set_map)
qed

lemma fk_holds_saved:
  "fk_holds k t j \<Longrightarrow> k r = i \<Longrightarrow> fk_holds k (sql_update (\<lambda>x. k x = i) (\<lambda>_. r) t) j"
  by (simp add: fk_holds_iff keys_saved)

lemma fk_holds_delete:
  "fk_holds k t i \<Longrightarrow> i \<noteq> Some j \<Longrightarrow> fk_holds k (sql_delete (\<lambda>x. k x = j) t) i"
  by (auto simp: fk_holds_iff)

lemma member_saved_ok:
  assumes "table_ok member_clash t" "m \<in> set t" "mb_member_id m' = mb_member_id m" "mb_ou_id m' = mb_ou_id m"
  shows "table_ok member_clash (sql_update (\<lambda>x. mb_member_id x = mb_member_id m') (\<lambda>_. m') t)"
proof (rule table_ok_update [OF assms(1)])
  fix x y
  assume xy: "x \<in> set t" "y \<in> set t"
    and c: "member_clash (if mb_member_id x = mb_member_id m' then m' else x)
      (if mb_member_id y = mb_member_id m' then m' else y)"
  have same: "z = m" if "z \<in> set t" "mb_member_id z = mb_member_id m'" for z
    using members.ok_key_inj [OF assms(1) that(1) assms(2)] that(2) assms(3) by simp
  have "member_clash (if mb_member_id x = mb_member_id m' then m else x)
      (if mb_member_id y = mb_member_id m' then m else y)"
    using c assms(3,4) by (auto simp: member_clash_def split: if_splits)
  then show "member_clash x y" using same xy by (auto split: if_splits)
qed

lemma pb_step_inv:
  assumes "pb_step P st st'" "pb_inv st"
  shows "pb_inv st'"
  using assms
proof (cases rule: pb_step.cases)
  case (add_member m)
  with assms(2) show ?thesis
    by (auto simp: pb_inv_def intro!: table_ok_insert [of member_clash "pb_members st"] simp: sql_insert_Some_iff)
next
  case (save_member m m')
  then show ?thesis
    using assms(2) member_saved_ok [OF _ save_member(2) save_member(4) save_member(5)] by (simp add: pb_inv_def)
next
  case (add_schema s)
  with assms(2) show ?thesis
    by (auto simp: pb_inv_def schema_rows.added_ok intro: fk_holds_mono)
next
  case (save_schema s s')
  with assms(2) show ?thesis
    by (auto simp: pb_inv_def schema_rows.saved_ok intro: fk_holds_saved)
next
  case (drop_schema i)
  with assms(2) show ?thesis
    by (auto simp: pb_inv_def table_ok_delete intro!: fk_holds_delete)
next
  case (add_schema_sub u)
  with assms(2) show ?thesis by (auto simp: pb_inv_def schema_sub_rows.added_ok)
next
  case (save_schema_sub u u')
  with assms(2) show ?thesis
    by (auto simp: pb_inv_def schema_sub_rows.saved_ok set_sql_update)
next
  case (add_app a)
  with assms(2) show ?thesis
    by (auto simp: pb_inv_def app_rows.added_ok intro: fk_holds_mono)
next
  case (save_app a a')
  with assms(2) show ?thesis
    by (auto simp: pb_inv_def app_rows.saved_ok set_sql_update intro: fk_holds_saved)
next
  case (drop_app i)
  with assms(2) show ?thesis
    by (auto simp: pb_inv_def table_ok_delete intro!: fk_holds_delete)
next
  case (add_app_sub u)
  with assms(2) show ?thesis by (auto simp: pb_inv_def app_sub_rows.added_ok)
next
  case (save_app_sub u u')
  with assms(2) show ?thesis
    by (auto simp: pb_inv_def app_sub_rows.saved_ok set_sql_update)
qed (simp_all add: pb_inv_def)

lemma pb_steps_inv: "pb_steps P st st' \<Longrightarrow> pb_inv st \<Longrightarrow> pb_inv st'"
  by (induction rule: rtranclp_induct) (auto intro: pb_step_inv)

section \<open>The frame\<close>

text \<open>The rows of a table whose owner does not satisfy \<open>P\<close>.\<close>

definition others :: "(string \<Rightarrow> bool) \<Rightarrow> ('r \<Rightarrow> string) \<Rightarrow> 'r table \<Rightarrow> 'r list" where
  "others P own t = filter (\<lambda>r. \<not> P (own r)) t"

definition others_kept :: "(string \<Rightarrow> bool) \<Rightarrow> 'x pb_state \<Rightarrow> 'x pb_state \<Rightarrow> bool" where
  "others_kept P st st' \<longleftrightarrow>
     others P mb_member_id (pb_members st') = others P mb_member_id (pb_members st) \<and>
     others P ps_member_id (pb_schemas st') = others P ps_member_id (pb_schemas st) \<and>
     others P ss_member_id (pb_schema_subs st') = others P ss_member_id (pb_schema_subs st) \<and>
     others P ap_member_id (pb_apps st') = others P ap_member_id (pb_apps st) \<and>
     others P as_member_id (pb_app_subs st') = others P as_member_id (pb_app_subs st)"

lemma others_append [simp]: "P (own r) \<Longrightarrow> others P own (t @ [r]) = others P own t"
  by (simp add: others_def)

lemma others_update:
  "(\<And>x. x \<in> set t \<Longrightarrow> p x \<Longrightarrow> P (own x) \<and> P (own (f x))) \<Longrightarrow> others P own (sql_update p f t) = others P own t"
  by (induction t) (auto simp: others_def sql_update_def)

lemma others_delete:
  "(\<And>x. x \<in> set t \<Longrightarrow> p x \<Longrightarrow> P (own x)) \<Longrightarrow> others P own (sql_delete p t) = others P own t"
  by (induction t) (auto simp: others_def sql_delete_def)

lemma others_saved:
  assumes "\<And>x. x \<in> set t \<Longrightarrow> k x = k r \<Longrightarrow> x = r" "P (own r)" "own r' = own r" "k r' = k r"
  shows "others P own (sql_update (\<lambda>x. k x = k r') (\<lambda>_. r') t) = others P own t"
  by (rule others_update) (use assms in auto)

lemma pb_step_others:
  assumes "pb_step P st st'" "pb_inv st"
  shows "others_kept P st st'"
  using assms(1)
proof (cases rule: pb_step.cases)
  case (save_member m m')
  have "others P mb_member_id (sql_update (\<lambda>x. mb_member_id x = mb_member_id m') (\<lambda>_. m') (pb_members st)) = others P mb_member_id (pb_members st)"
    using assms(2) save_member(2-)
    by (intro others_saved [of _ mb_member_id m]) (auto simp: pb_inv_def intro: members.ok_key_inj)
  then show ?thesis unfolding save_member(1) others_kept_def by simp
next
  case (save_schema s s')
  have "others P ps_member_id (sql_update (\<lambda>x. ps_schema_id x = ps_schema_id s') (\<lambda>_. s') (pb_schemas st)) = others P ps_member_id (pb_schemas st)"
    using assms(2) save_schema(2-)
    by (intro others_saved [of _ ps_schema_id s]) (auto simp: pb_inv_def intro: schemas.ok_key_inj)
  then show ?thesis unfolding save_schema(1) others_kept_def by simp
next
  case (save_schema_sub u u')
  have "others P ss_member_id (sql_update (\<lambda>x. ss_id x = ss_id u') (\<lambda>_. u') (pb_schema_subs st)) = others P ss_member_id (pb_schema_subs st)"
    using assms(2) save_schema_sub(2-)
    by (intro others_saved [of _ ss_id u]) (auto simp: pb_inv_def intro: schema_submissions.ok_key_inj)
  then show ?thesis unfolding save_schema_sub(1) others_kept_def by simp
next
  case (save_app a a')
  have "others P ap_member_id (sql_update (\<lambda>x. ap_id x = ap_id a') (\<lambda>_. a') (pb_apps st)) = others P ap_member_id (pb_apps st)"
    using assms(2) save_app(2-)
    by (intro others_saved [of _ ap_id a]) (auto simp: pb_inv_def intro: applications.ok_key_inj)
  then show ?thesis unfolding save_app(1) others_kept_def by simp
next
  case (save_app_sub u u')
  have "others P as_member_id (sql_update (\<lambda>x. as_id x = as_id u') (\<lambda>_. u') (pb_app_subs st)) = others P as_member_id (pb_app_subs st)"
    using assms(2) save_app_sub(2-)
    by (intro others_saved [of _ as_id u]) (auto simp: pb_inv_def intro: app_submissions.ok_key_inj)
  then show ?thesis unfolding save_app_sub(1) others_kept_def by simp
next
  case (drop_schema i)
  then show ?thesis by (auto simp: others_kept_def intro!: others_delete)
next
  case (drop_app i)
  then show ?thesis by (auto simp: others_kept_def intro!: others_delete)
qed (simp_all add: others_kept_def)

lemma pb_steps_others:
  assumes "pb_steps P st st'" "pb_inv st"
  shows "others_kept P st st'"
proof -
  have "others_kept P st st' \<and> pb_inv st'"
    using assms
  proof (induction rule: rtranclp_induct)
    case base
    then show ?case by (simp add: others_kept_def)
  next
    case (step u v)
    then have "others_kept P u v" "pb_inv v" using pb_step_others pb_step_inv by blast+
    with step show ?case by (simp add: others_kept_def)
  qed
  then show ?thesis ..
qed

end
