(* ===== verification/PB_Ops_Facts.thy ===== *)
theory PB_Ops_Facts
  imports PB_Facts
begin

text \<open>
  Every operation of the Portal Backend is a sequence of steps on rows whose owner satisfies
  \<open>P\<close>: the services first, then the handlers, for which \<open>P\<close> holds of the members that the
  caller may act for.
\<close>

section \<open>Services\<close>

lemma create_member_steps:
  "create_member env req st = (r, st') \<Longrightarrow> P (pv_uuid env 0) \<Longrightarrow> pb_steps P st st'"
  by (auto simp: create_member_def Let_def split: if_splits sum.splits dest!: db_create_Inr
      intro!: pb_steps_one add_member)

lemma update_member_steps:
  assumes "update_member env i req st = (r, st')" "P i"
  shows "pb_steps P st st'"
proof (cases "db_first env PbLoadMember mb_member_id (\<lambda>m. mb_member_id m = i) (pb_members st)")
  case (Inl e)
  with assms show ?thesis by (simp add: update_member_def)
next
  case (Inr m)
  let ?m = "apply_member_update (pv_clock env 0) req m"
  have m: "m \<in> set (pb_members st)" "mb_member_id m = i" using db_first_Inr [OF Inr] by auto
  have k: "mb_member_id ?m = mb_member_id m" "mb_ou_id ?m = mb_ou_id m" by (simp_all add: apply_member_update_def)
  show ?thesis
  proof (cases "db_save env PbSaveMember mb_member_id ?m (pb_members st)")
    case (Inl e)
    with assms Inr show ?thesis by (simp add: update_member_def Let_def)
  next
    case (Inr t)
    with assms \<open>db_first _ _ _ _ _ = _\<close> have "st' = st\<lparr>pb_members := t\<rparr>" by (simp add: update_member_def Let_def)
    then show ?thesis
      using db_save_Inr [OF Inr m(1) k(1) [symmetric]] save_member [of m st P ?m] m k assms(2)
      by (simp add: pb_steps_one)
  qed
qed

lemma create_schema_steps:
  assumes "create_schema env link lib req st = (r, st')" "P (cs_member_id req)"
  shows "pb_steps P st st'"
proof -
  let ?i = "if cs_id req \<noteq> '''' then cs_id req else pv_uuid env 0"
  let ?s = "new_schema env ?i req"
  show ?thesis
  proof (cases "(cs_sdl req \<noteq> '''') = (cs_fields req \<noteq> []) \<or> (cs_id req \<noteq> '''' \<and> \<not> schema_id_pattern (cs_id req))")
    case True
    with assms(1) show ?thesis by (auto simp: create_schema_def split: if_splits)
  next
    case ok: False
    show ?thesis
    proof (cases "db_create env PbCreateSchema schema_clash ?s (pb_schemas st)")
      case (Inl e)
      with assms(1) ok show ?thesis by (auto simp: create_schema_def Let_def split: if_splits)
    next
      case (Inr t)
      note t = db_create_Inr [OF Inr]
      let ?st = "st\<lparr>pb_schemas := t\<rparr>"
      have add: "pb_step P st ?st" using t assms(2) by (auto intro!: add_schema simp: new_schema_def)
      have next_st: "st' = ?st \<or> (\<exists>x. st' = ?st\<lparr>pb_ext := x\<rparr>) \<or>
          (\<exists>x u. st' = ?st\<lparr>pb_ext := x, pb_schemas := u\<rparr> \<and> delete_schema_row env ?i (?st\<lparr>pb_ext := x\<rparr>) = Inr u)"
        using assms(1) ok Inr
        by (auto simp: create_schema_def Let_def split: if_splits option.splits sum.splits prod.splits)
      have out: "pb_steps P st (?st\<lparr>pb_ext := x\<rparr>)" for x
        by (rule pb_steps_then [OF pb_steps_one [OF add] outside])
      from next_st consider "st' = ?st" | x where "st' = ?st\<lparr>pb_ext := x\<rparr>"
        | x u where "st' = ?st\<lparr>pb_ext := x, pb_schemas := u\<rparr>" "delete_schema_row env ?i (?st\<lparr>pb_ext := x\<rparr>) = Inr u"
        by blast
      then show ?thesis
      proof cases
        case 1
        with add show ?thesis by blast
      next
        case 2
        with out show ?thesis by simp
      next
        case (3 x u)
        then have u: "u = sql_delete (\<lambda>s. ps_schema_id s = ?i) t"
            "\<not> list_ex (\<lambda>s. ss_previous_id s = Some ?i) (pb_schema_subs st)"
          by (auto simp: delete_schema_row_def require_fk_Inr dest!: db_delete_Inr)
        have "pb_step P (?st\<lparr>pb_ext := x\<rparr>) ((?st\<lparr>pb_ext := x\<rparr>)\<lparr>pb_schemas :=
            sql_delete (\<lambda>s. ps_schema_id s = ?i) (pb_schemas (?st\<lparr>pb_ext := x\<rparr>))\<rparr>)"
          using t u(2) assms(2)
          by (intro drop_schema) (auto simp: new_schema_def schema_clash_def list_ex_iff)
        with out [of x] show ?thesis using 3 u(1) by (simp add: pb_steps_then)
      qed
    qed
  qed
qed

lemma find_schema_Inr: "find_schema env stmt i st = Inr s \<Longrightarrow> s \<in> set (pb_schemas st) \<and> ps_schema_id s = i"
  by (auto simp: find_schema_def split: sum.splits dest: db_first_Inr)

lemma update_schema_steps:
  assumes "update_schema env i req st = (r, st')"
    and "\<And>s. s \<in> set (pb_schemas st) \<Longrightarrow> ps_schema_id s = i \<Longrightarrow> P (ps_member_id s)"
  shows "pb_steps P st st'"
proof (cases "find_schema env PbLoadSchema i st")
  case (Inl e)
  with assms show ?thesis by (simp add: update_schema_def)
next
  case (Inr s)
  let ?s = "apply_schema_update (pv_clock env 0) req s"
  have s: "s \<in> set (pb_schemas st)" "ps_schema_id s = i" using find_schema_Inr [OF Inr] by auto
  have k: "ps_schema_id ?s = ps_schema_id s" "ps_member_id ?s = ps_member_id s" by (simp_all add: apply_schema_update_def)
  show ?thesis
  proof (cases "db_save env PbSaveSchema ps_schema_id ?s (pb_schemas st)")
    case (Inl e)
    with assms Inr show ?thesis by (simp add: update_schema_def Let_def)
  next
    case (Inr t)
    with assms(1) \<open>find_schema _ _ _ _ = _\<close> have "st' = st\<lparr>pb_schemas := t\<rparr>" by (simp add: update_schema_def Let_def)
    then show ?thesis
      using db_save_Inr [OF Inr s(1) k(1) [symmetric]] save_schema [of s st P ?s] s k assms(2)
      by (simp add: pb_steps_one)
  qed
qed

lemma list_schema_metadata_steps:
  "list_schema_metadata link i st = (r, st') \<Longrightarrow> \<exists>x. st' = st\<lparr>pb_ext := x\<rparr>"
  by (auto simp: list_schema_metadata_def split: prod.splits)

lemma with_metadata_steps:
  "with_metadata_in_schema link schema_id i call st = (r, st') \<Longrightarrow> \<exists>x. st' = st\<lparr>pb_ext := x\<rparr>"
  by (auto simp: with_metadata_in_schema_def ensure_metadata_in_schema_def
      split: prod.splits sum.splits if_splits dest!: list_schema_metadata_steps)

lemma create_schema_submission_steps:
  "create_schema_submission env req st = (r, st') \<Longrightarrow> P (css_member_id req) \<Longrightarrow> pb_steps P st st'"
  by (auto simp: create_schema_submission_def Let_def require_fk_Inr split: sum.splits dest!: db_create_Inr
      intro!: pb_steps_one add_schema_sub)

lemma save_schema_submission_step:
  assumes "save_schema_submission env stmt u' st = Inr st'" "u \<in> set (pb_schema_subs st)" "P (ss_member_id u)"
    and "ss_id u' = ss_id u" "ss_member_id u' = ss_member_id u"
  shows "pb_step P st st' \<and> u' \<in> set (pb_schema_subs st') \<and> pb_schemas st' = pb_schemas st"
proof -
  from assms(1) obtain t where fk: "fk_holds ps_schema_id (pb_schemas st) (ss_previous_id u')"
      and t: "db_save env stmt ss_id u' (pb_schema_subs st) = Inr t" and st': "st' = st\<lparr>pb_schema_subs := t\<rparr>"
    by (auto simp: save_schema_submission_def bind_res_Inr_iff require_fk_Inr)
  have "t = sql_update (\<lambda>x. ss_id x = ss_id u') (\<lambda>_. u') (pb_schema_subs st)"
    by (rule db_save_Inr [OF t assms(2) assms(4) [symmetric]])
  then show ?thesis
    using save_schema_sub [of u st P u'] assms(2-5) fk by (auto simp: st' set_sql_update)
qed

text \<open>The rows of the submissions survive the creation of a schema.\<close>

lemma create_schema_subs:
  "create_schema env link lib req st = (r, st') \<Longrightarrow> pb_schema_subs st' = pb_schema_subs st"
  by (auto simp: create_schema_def Let_def split: if_splits option.splits sum.splits prod.splits)

lemma update_schema_submission_steps:
  assumes "update_schema_submission env link lib i req st = (r, st')"
    and "\<And>s. s \<in> set (pb_schema_subs st) \<Longrightarrow> ss_id s = i \<Longrightarrow> P (ss_member_id s)"
  shows "pb_steps P st st'"
proof (cases "db_first env PbLoadSubmission ss_id (\<lambda>s. ss_id s = i) (pb_schema_subs st)")
  case (Inl e)
  with assms show ?thesis by (simp add: update_schema_submission_def)
next
  case first: (Inr u)
  note u = db_first_Inr [OF first]
  let ?u = "apply_schema_submission_update (pv_clock env 0) req u"
  have k: "ss_id ?u = ss_id u" "ss_member_id ?u = ss_member_id u"
    by (simp_all add: apply_schema_submission_update_def)
  have Pu: "P (ss_member_id u)" using u assms(2) by blast
  show ?thesis
  proof (cases "check_previous_schema env (uss_previous_id req) st = Inr () \<and> uss_sdl req \<noteq> Some ''''")
    case False
    with assms first show ?thesis
      by (auto simp: update_schema_submission_def split: sum.splits if_splits)
  next
    case ok: True
    show ?thesis
    proof (cases "save_schema_submission env PbSaveSubmission ?u st")
      case (Inl e)
      with assms first ok show ?thesis by (simp add: update_schema_submission_def Let_def)
    next
      case saved: (Inr st1)
      note s1 = save_schema_submission_step [where P = P, OF saved u [THEN conjunct1] Pu k]
      show ?thesis
      proof (cases "uss_status req = Some KernelStatusApproved")
        case False
        with assms first ok saved have "st' = st1" by (simp add: update_schema_submission_def Let_def)
        with s1 show ?thesis by (simp add: pb_steps_one)
      next
        case appr: True
        obtain r2 st2 where c: "create_schema (later 1 env) link lib (request_of_submission ?u) st1 = (r2, st2)" by force
        have "P (cs_member_id (request_of_submission ?u))" using Pu k by (simp add: request_of_submission_def)
        note s2 = create_schema_steps [where P = P, OF c this]
        have 12: "pb_steps P st st2" using s1 s2 by (meson pb_steps_one rtranclp_trans)
        let ?v = "?u\<lparr>ss_status := KernelStatusPending, ss_base := before_update (pv_clock env 2) (ss_base ?u)\<rparr>"
        have "st' = st2 \<or> save_schema_submission env PbResetSubmission ?v st2 = Inr st'"
          using assms(1) first ok saved appr c
          by (auto simp: update_schema_submission_def Let_def split: option.splits sum.splits)
        then show ?thesis
        proof
          assume v: "save_schema_submission env PbResetSubmission ?v st2 = Inr st'"
          have "pb_step P st2 st'"
            by (rule conjunct1 [OF save_schema_submission_step [where P = P and u = ?u, OF v]])
              (use s1 Pu k create_schema_subs [OF c] in auto)
          with 12 show ?thesis by (rule pb_steps_then)
        qed (use 12 in simp)
      qed
    qed
  qed
qed

subsection \<open>Applications\<close>

lemma provision_client_state:
  assumes "provision_client env idp req st = (r, st')"
  shows "\<exists>x. st' = st\<lparr>pb_ext := x\<rparr>"
    and "r = Inr (idp_id, client_id, secret) \<Longrightarrow> \<not> (externally_provisioned req \<and> (ca_idp_id req = None \<or> ca_client_id req = None)) \<Longrightarrow>
      idp_id \<noteq> None \<and> client_id \<noteq> None"
  using assms
  by (auto simp: provision_client_def split: if_splits sum.splits prod.splits intro: exI [of _ "pb_ext st"])

lemma undo_client_state: "undo_client idp req i st = (r, st') \<Longrightarrow> \<exists>x. st' = st\<lparr>pb_ext := x\<rparr>"
  by (auto simp: undo_client_def split: if_splits prod.splits intro: exI [of _ "pb_ext st"])

lemma delete_application_row_step:
  assumes "delete_application_row env i st = (r, st')"
    and "\<And>a. a \<in> set (pb_apps st) \<Longrightarrow> ap_id a = i \<Longrightarrow> P (ap_member_id a)"
  shows "pb_steps P st st'"
  using assms
  by (auto simp: delete_application_row_def require_fk_Inr list_ex_iff split: sum.splits dest!: db_delete_Inr
      intro!: pb_steps_one drop_app)

lemma compensate_grant_steps:
  assumes "compensate_grant env idp req a e st = (e', st')"
    and "\<And>b. b \<in> set (pb_apps st) \<Longrightarrow> ap_id b = ap_id a \<Longrightarrow> P (ap_member_id b)"
  shows "pb_steps P st st'"
proof -
  obtain db u where d: "delete_application_row env (ap_id a) st = (db, u)" by force
  obtain ir v where i: "undo_client idp req (ap_idp_id a) u = (ir, v)" by force
  have "st' = v" using assms(1) d i by (auto simp: compensate_grant_def split: prod.splits)
  moreover obtain x where "v = u\<lparr>pb_ext := x\<rparr>" using undo_client_state [OF i] by blast
  ultimately show ?thesis
    using delete_application_row_step [where P = P, OF d assms(2)] by (simp add: pb_steps_then outside)
qed

lemma create_application_steps:
  assumes "create_application env link idp req st = (r, st')" "P (ca_member_id req)"
  shows "pb_steps P st st'"
proof -
  consider (bad) "st' = st" | (go) r1 st1 where "provision_client env idp req st = (r1, st1)"
      "\<not> (externally_provisioned req \<and> (ca_idp_id req = None \<or> ca_client_id req = None))"
    using assms(1) by (fastforce simp: create_application_def split: if_splits)
  then show ?thesis
  proof cases
    case bad
    then show ?thesis by simp
  next
    case (go r1 st1)
    obtain x1 where x1: "st1 = st\<lparr>pb_ext := x1\<rparr>" using provision_client_state(1) [OF go(1)] by blast
    have s1: "pb_steps P st st1" unfolding x1 by (rule pb_steps_one [OF outside])
    show ?thesis
    proof (cases r1)
      case (Inl e)
      with assms(1) go s1 show ?thesis by (auto simp: create_application_def split: if_splits)
    next
      case (Inr v)
      obtain idp_id client_id secret where v: "v = (idp_id, client_id, secret)" by (cases v)
      have some: "idp_id \<noteq> None" "client_id \<noteq> None"
        using provision_client_state(2) [OF go(1) _ go(2)] Inr v by auto
      let ?a = "new_application env req idp_id client_id"
      show ?thesis
      proof (cases "db_create env PbCreateApplication application_clash ?a (pb_apps st1)")
        case db: (Inl e)
        obtain ir u where i: "undo_client idp req idp_id st1 = (ir, u)" by force
        obtain x where "u = st1\<lparr>pb_ext := x\<rparr>" using undo_client_state [OF i] by blast
        moreover have "st' = u \<or> st' = st"
          using assms(1) go Inr v db i by (auto simp: create_application_def Let_def split: if_splits sum.splits)
        ultimately show ?thesis using s1 by (auto intro: pb_steps_then [OF _ outside])
      next
        case db: (Inr t)
        note t = db_create_Inr [OF db]
        let ?st = "st1\<lparr>pb_apps := t\<rparr>"
        have "pb_step P st1 ?st"
          using t assms(2) some by (auto intro!: add_app simp: new_application_def)
        with s1 have s2: "pb_steps P st ?st" by (rule pb_steps_then)
        obtain client where c: "client_id = Some client" using some by blast
        obtain r3 x3 where g: "client_update_allow_list link
            \<lparr>au_application_id = client, au_records = ap_fields ?a, au_grant_duration = PbGrantOneMonth\<rparr> (pb_ext ?st) = (r3, x3)"
          by force
        let ?st3 = "?st\<lparr>pb_ext := x3\<rparr>"
        have s3: "pb_steps P st ?st3" using s2 by (rule pb_steps_then) (rule outside)
        have "st' = st \<or> st' = ?st3 \<or> (\<exists>e e'. compensate_grant env idp req ?a e ?st3 = (e', st'))"
          using assms(1) go Inr v db c g
          by (auto simp: create_application_def Let_def new_application_def split: if_splits sum.splits prod.splits)
        then consider "st' = st" | "st' = ?st3" | e e' where "compensate_grant env idp req ?a e ?st3 = (e', st')"
          by blast
        then show ?thesis
        proof cases
          case (3 e e')
          have "P (ap_member_id b)" if "b \<in> set (pb_apps ?st3)" "ap_id b = ap_id ?a" for b
            using that t assms(2) by (auto simp: application_clash_def new_application_def)
          from compensate_grant_steps [where P = P, OF 3 this] s3 show ?thesis by (meson rtranclp_trans)
        qed (use s3 in simp_all)
      qed
    qed
  qed
qed

lemma find_application_Inr: "find_application env stmt i st = Inr a \<Longrightarrow> a \<in> set (pb_apps st) \<and> ap_id a = i"
  by (auto simp: find_application_def dest: db_first_Inr)

lemma save_application_step:
  assumes "db_save env PbSaveApplication ap_id a' (pb_apps st) = Inr t" "a \<in> set (pb_apps st)" "P (ap_member_id a)"
    and "ap_id a' = ap_id a" "ap_member_id a' = ap_member_id a" "ap_client_id a' = ap_client_id a" "ap_idp_id a' = ap_idp_id a"
  shows "pb_step P st (st\<lparr>pb_apps := t\<rparr>)"
  using db_save_Inr [OF assms(1,2) assms(4) [symmetric]] save_app [of a st P a'] assms(2-7) by simp

lemma update_application_steps:
  assumes "update_application env i req st = (r, st')"
    and "\<And>a. a \<in> set (pb_apps st) \<Longrightarrow> ap_id a = i \<Longrightarrow> P (ap_member_id a)"
  shows "pb_steps P st st'"
proof (cases "find_application env PbLoadApplication i st")
  case (Inl e)
  with assms show ?thesis by (simp add: update_application_def)
next
  case f: (Inr a)
  let ?a = "apply_application_update (pv_clock env 0) req a"
  have a: "a \<in> set (pb_apps st)" "P (ap_member_id a)" using find_application_Inr [OF f] assms(2) by auto
  show ?thesis
  proof (cases "db_save env PbSaveApplication ap_id ?a (pb_apps st)")
    case (Inl e)
    with assms f show ?thesis by (simp add: update_application_def Let_def)
  next
    case (Inr t)
    with assms(1) f have "st' = st\<lparr>pb_apps := t\<rparr>" by (simp add: update_application_def Let_def)
    then show ?thesis
      using save_application_step [where P = P, OF Inr a] by (simp add: apply_application_update_def pb_steps_one)
  qed
qed

lemma update_application_policy_steps:
  assumes "update_application_policy env link i req st = (r, st')"
    and "\<And>a. a \<in> set (pb_apps st) \<Longrightarrow> ap_id a = i \<Longrightarrow> P (ap_member_id a)"
  shows "pb_steps P st st'"
proof (cases "find_application env PbLoadApplication i st")
  case (Inl e)
  with assms show ?thesis by (simp add: update_application_policy_def)
next
  case f: (Inr a)
  have a: "a \<in> set (pb_apps st)" "P (ap_member_id a)" using find_application_Inr [OF f] assms(2) by auto
  show ?thesis
  proof (cases "ap_client_id a")
    case None
    with assms f show ?thesis by (simp add: update_application_policy_def)
  next
    case (Some client)
    obtain r1 x where g: "client_update_allow_list link \<lparr>au_application_id = client, au_records = up_fields req,
        au_grant_duration = patched (up_grant_duration req) PbGrantOneMonth\<rparr> (pb_ext st) = (r1, x)" by force
    let ?st = "st\<lparr>pb_ext := x\<rparr>"
    let ?a = "a\<lparr>ap_fields := up_fields req, ap_base := before_update (pv_clock env 0) (ap_base a)\<rparr>"
    have out: "pb_steps P st ?st" by (rule pb_steps_one [OF outside])
    have "st' = ?st \<or> (\<exists>t. st' = ?st\<lparr>pb_apps := t\<rparr> \<and> db_save env PbSaveApplication ap_id ?a (pb_apps ?st) = Inr t)"
      using assms(1) f Some g by (auto simp: update_application_policy_def Let_def split: sum.splits)
    then show ?thesis
    proof
      assume "\<exists>t. st' = ?st\<lparr>pb_apps := t\<rparr> \<and> db_save env PbSaveApplication ap_id ?a (pb_apps ?st) = Inr t"
      then obtain t where t: "st' = ?st\<lparr>pb_apps := t\<rparr>" "db_save env PbSaveApplication ap_id ?a (pb_apps ?st) = Inr t" by blast
      have "pb_step P ?st (?st\<lparr>pb_apps := t\<rparr>)"
        by (rule save_application_step [where P = P and a = a, OF t(2)]) (use a in simp_all)
      with out show ?thesis unfolding t(1) by (rule pb_steps_then)
    qed (use out in simp)
  qed
qed

subsection \<open>Application submissions\<close>

lemma create_app_submission_steps:
  "create_app_submission env req st = (r, st') \<Longrightarrow> P (cas_member_id req) \<Longrightarrow> pb_steps P st st'"
  by (auto simp: create_app_submission_def Let_def require_fk_Inr split: sum.splits dest!: db_create_Inr
      intro!: pb_steps_one add_app_sub)

lemma save_app_submission_step:
  assumes "save_app_submission env stmt u' st = Inr st'" "u \<in> set (pb_app_subs st)" "P (as_member_id u)"
    and "as_id u' = as_id u" "as_member_id u' = as_member_id u"
  shows "pb_step P st st' \<and> u' \<in> set (pb_app_subs st')"
proof -
  from assms(1) obtain t where fk: "fk_holds ap_id (pb_apps st) (as_previous_id u')"
      and t: "db_save env stmt as_id u' (pb_app_subs st) = Inr t" and st': "st' = st\<lparr>pb_app_subs := t\<rparr>"
    by (auto simp: save_app_submission_def bind_res_Inr_iff require_fk_Inr)
  have "t = sql_update (\<lambda>x. as_id x = as_id u') (\<lambda>_. u') (pb_app_subs st)"
    by (rule db_save_Inr [OF t assms(2) assms(4) [symmetric]])
  then show ?thesis
    using save_app_sub [of u st P u'] assms(2-5) fk by (auto simp: st' set_sql_update)
qed

lemma delete_application_row_subs: "delete_application_row env i st = (r, st') \<Longrightarrow> pb_app_subs st' = pb_app_subs st"
  by (auto simp: delete_application_row_def split: sum.splits)

lemma compensate_grant_subs: "compensate_grant env idp req a e st = (e', st') \<Longrightarrow> pb_app_subs st' = pb_app_subs st"
  by (auto simp: compensate_grant_def split: prod.splits dest!: delete_application_row_subs undo_client_state)

lemma create_application_subs:
  assumes "create_application env link idp req st = (r, st')"
  shows "pb_app_subs st' = pb_app_subs st"
  using assms
  by (auto simp: create_application_def Let_def split: if_splits sum.splits prod.splits option.splits
      dest!: compensate_grant_subs provision_client_state(1) undo_client_state)

lemma update_app_submission_steps:
  assumes "update_app_submission env link idp i req st = (r, st')"
    and "\<And>s. s \<in> set (pb_app_subs st) \<Longrightarrow> as_id s = i \<Longrightarrow> P (as_member_id s)"
  shows "pb_steps P st st'"
proof (cases "db_first env PbLoadSubmission as_id (\<lambda>s. as_id s = i) (pb_app_subs st)")
  case (Inl e)
  with assms show ?thesis by (simp add: update_app_submission_def)
next
  case first: (Inr u)
  note u = db_first_Inr [OF first]
  let ?u = "apply_app_submission_update (pv_clock env 0) req u"
  have k: "as_id ?u = as_id u" "as_member_id ?u = as_member_id u"
    by (simp_all add: apply_app_submission_update_def)
  have Pu: "P (as_member_id u)" using u assms(2) by blast
  show ?thesis
  proof (cases "check_previous_application env (uas_previous_id req) st")
    case (Inl e)
    with assms first show ?thesis by (simp add: update_app_submission_def)
  next
    case ok: (Inr un)
    show ?thesis
    proof (cases "save_app_submission env PbSaveSubmission ?u st")
      case (Inl e)
      with assms first ok show ?thesis by (simp add: update_app_submission_def Let_def)
    next
      case saved: (Inr st1)
      note s1 = save_app_submission_step [where P = P, OF saved u [THEN conjunct1] Pu k]
      show ?thesis
      proof (cases "uas_status req = Some KernelStatusApproved")
        case False
        with assms first ok saved have "st' = st1" by (simp add: update_app_submission_def Let_def)
        with s1 show ?thesis by (simp add: pb_steps_one)
      next
        case appr: True
        obtain r2 st2 where c: "create_application (later 1 env) link idp (application_request_of ?u) st1 = (r2, st2)" by force
        have "P (ca_member_id (application_request_of ?u))" using Pu k by (simp add: application_request_of_def)
        note s2 = create_application_steps [where P = P, OF c this]
        have 12: "pb_steps P st st2" using s1 s2 by (meson pb_steps_one rtranclp_trans)
        let ?v = "?u\<lparr>as_status := KernelStatusPending, as_base := before_update (pv_clock env 2) (as_base ?u)\<rparr>"
        have "st' = st2 \<or> save_app_submission env PbResetSubmission ?v st2 = Inr st'"
          using assms(1) first ok saved appr c
          by (auto simp: update_app_submission_def Let_def split: sum.splits)
        then show ?thesis
        proof
          assume v: "save_app_submission env PbResetSubmission ?v st2 = Inr st'"
          have "pb_step P st2 st'"
            by (rule conjunct1 [OF save_app_submission_step [where P = P and u = ?u, OF v]])
              (use s1 Pu k create_application_subs [OF c] in auto)
          with 12 show ?thesis by (rule pb_steps_then)
        qed (use 12 in simp)
      qed
    qed
  qed
qed

section \<open>Handlers\<close>

text \<open>
  \<open>P\<close> holds of the owners the caller may act for: its own member, and every member when it holds
  an \<^verbatim>\<open>-all\<close> scope.
\<close>

definition widening_scopes :: "string set" where
  "widening_scopes = {ScopeMemberReadAll, ScopeMemberWriteAll, ScopeSchemaReadAll, ScopeSchemaWriteAll,
     ScopeSchemaSubmissionReadAll, ScopeSchemaSubmissionWriteAll, ScopeApplicationReadAll,
     ScopeApplicationWriteAll, ScopeApplicationSubmissionReadAll, ScopeApplicationSubmissionWriteAll}"

lemma widening_scopes [simp]:
  "ScopeMemberReadAll \<in> widening_scopes" "ScopeMemberWriteAll \<in> widening_scopes"
  "ScopeSchemaReadAll \<in> widening_scopes" "ScopeSchemaWriteAll \<in> widening_scopes"
  "ScopeSchemaSubmissionReadAll \<in> widening_scopes" "ScopeSchemaSubmissionWriteAll \<in> widening_scopes"
  "ScopeApplicationReadAll \<in> widening_scopes" "ScopeApplicationWriteAll \<in> widening_scopes"
  "ScopeApplicationSubmissionReadAll \<in> widening_scopes" "ScopeApplicationSubmissionWriteAll \<in> widening_scopes"
  by (simp_all add: widening_scopes_def)

definition acts_within :: "req_ctx \<Rightarrow> (string \<Rightarrow> bool) \<Rightarrow> bool" where
  "acts_within ctx P \<longleftrightarrow>
     (\<forall>s \<in> widening_scopes. has_scope ctx s \<longrightarrow> (\<forall>o'. P o')) \<and> (\<forall>i. ctx_member_id ctx = Some i \<longrightarrow> P i)"

lemma acts_within_access:
  assumes "acts_within ctx P" "can_access ctx s o'" "s \<in> widening_scopes"
  shows "P o'"
  using assms unfolding acts_within_def can_access_def by (cases "ctx_member_id ctx") auto

lemma acts_within_own:
  assumes "acts_within ctx P" "own_member ctx s requested = Inr i" "s \<in> widening_scopes"
  shows "P i"
  using assms unfolding acts_within_def own_member_def
  by (cases "ctx_member_id ctx"; cases "has_scope ctx s") auto

lemma acts_within_submission:
  assumes "acts_within ctx P" "submission_member ctx s requested = Inr i" "s \<in> widening_scopes"
  shows "P i"
  using assms unfolding acts_within_def submission_member_def
  by (cases "ctx_member_id ctx"; cases "has_scope ctx s") (auto split: if_splits)

text \<open>What a successful read says about the row with an id.\<close>

lemma get_schema_owner:
  assumes "get_schema env i st = Inr v" "pb_inv st" "s \<in> set (pb_schemas st)" "ps_schema_id s = i"
  shows "ps_member_id s = sr_member_id v"
proof -
  from assms(1) obtain s' where "find_schema env PbFindSchema i st = Inr s'" "v = schema_response_of s'"
    by (auto simp: get_schema_def bind_res_Inr_iff)
  with find_schema_Inr [of env PbFindSchema i st s'] assms(2-4) have "s = s'"
    by (auto simp: pb_inv_def dest: schemas.ok_key_inj)
  with \<open>v = _\<close> show ?thesis by (simp add: schema_response_of_def)
qed

lemma get_schema_submission_owner:
  assumes "get_schema_submission env i st = Inr v" "pb_inv st" "s \<in> set (pb_schema_subs st)" "ss_id s = i"
  shows "ss_member_id s = ssr_member_id v"
proof -
  from assms(1) obtain s' where "db_first env PbFindSubmission ss_id (\<lambda>s. ss_id s = i) (pb_schema_subs st) = Inr s'"
      "v = schema_submission_response_of s'"
    by (auto simp: get_schema_submission_def split: sum.splits)
  with db_first_Inr [of env PbFindSubmission ss_id "\<lambda>s. ss_id s = i" "pb_schema_subs st" s'] assms(2-4)
  have "s = s'" by (auto simp: pb_inv_def dest: schema_submissions.ok_key_inj)
  with \<open>v = _\<close> show ?thesis by (simp add: schema_submission_response_of_def)
qed

lemma get_application_owner:
  assumes "get_application env i st = Inr v" "pb_inv st" "a \<in> set (pb_apps st)" "ap_id a = i"
  shows "ap_member_id a = ar_member_id v"
proof -
  from assms(1) obtain a' where "find_application env PbFindApplication i st = Inr a'" "v = application_response_of None a'"
    by (auto simp: get_application_def bind_res_Inr_iff)
  with find_application_Inr [of env PbFindApplication i st a'] assms(2-4) have "a = a'"
    by (auto simp: pb_inv_def dest: applications.ok_key_inj)
  with \<open>v = _\<close> show ?thesis by (simp add: application_response_of_def)
qed

lemma get_app_submission_owner:
  assumes "get_app_submission env i st = Inr v" "pb_inv st" "s \<in> set (pb_app_subs st)" "as_id s = i"
  shows "as_member_id s = asr_member_id v"
proof -
  from assms(1) obtain s' where "db_first env PbFindSubmission as_id (\<lambda>s. as_id s = i) (pb_app_subs st) = Inr s'"
      "v = app_submission_response_of s'"
    by (auto simp: get_app_submission_def bind_res_Inr_iff)
  with db_first_Inr [of env PbFindSubmission as_id "\<lambda>s. as_id s = i" "pb_app_subs st" s'] assms(2-4)
  have "s = s'" by (auto simp: pb_inv_def dest: app_submissions.ok_key_inj)
  with \<open>v = _\<close> show ?thesis by (simp add: app_submission_response_of_def)
qed

lemma get_member_id: "get_member env i st = Inr v \<Longrightarrow> mr_member_id v = i"
  by (auto simp: get_member_def build_member_response_def split: sum.splits dest: db_first_Inr)

lemma handle_update_member_steps:
  assumes "handle_update_member env ctx i body st = (r, st')" "acts_within ctx P"
  shows "pb_steps P st st'"
  using assms acts_within_access [OF assms(2), of ScopeMemberWriteAll i]
  by (auto simp: handle_update_member_def split: sum.splits if_splits option.splits prod.splits
      dest!: get_member_id intro!: pb_steps_audit update_member_steps)

lemma handle_create_schema_steps:
  assumes "handle_create_schema env link lib ctx body st = (r, st')" "acts_within ctx P"
  shows "pb_steps P st st'"
  using assms
  by (auto simp: handle_create_schema_def split: sum.splits if_splits option.splits prod.splits
      intro!: pb_steps_audit create_schema_steps dest: acts_within_own)

lemma handle_update_schema_steps:
  assumes "handle_update_schema env ctx i body st = (r, st')" "acts_within ctx P" "pb_inv st"
  shows "pb_steps P st st'"
proof (cases "get_schema env i st")
  case (Inl e)
  with assms show ?thesis by (simp add: handle_update_schema_def)
next
  case (Inr v)
  have "P (ps_member_id s)" if "can_access ctx ScopeSchemaWriteAll (sr_member_id v)"
      "s \<in> set (pb_schemas st)" "ps_schema_id s = i" for s
    using acts_within_access [OF assms(2) that(1)] get_schema_owner [OF Inr assms(3) that(2,3)] by simp
  then show ?thesis
    using assms(1) Inr
    by (auto simp: handle_update_schema_def split: sum.splits if_splits option.splits prod.splits
        intro!: pb_steps_audit update_schema_steps)
qed

lemma handle_create_schema_submission_steps:
  assumes "handle_create_schema_submission env ctx body st = (r, st')" "acts_within ctx P"
  shows "pb_steps P st st'"
  using assms
  by (auto simp: handle_create_schema_submission_def split: sum.splits if_splits option.splits prod.splits
      intro!: pb_steps_audit create_schema_submission_steps dest: acts_within_submission)

lemma handle_update_schema_submission_steps:
  assumes "handle_update_schema_submission env link lib ctx i body st = (r, st')" "acts_within ctx P" "pb_inv st"
  shows "pb_steps P st st'"
proof (cases "get_schema_submission env i st")
  case (Inl e)
  with assms show ?thesis by (simp add: handle_update_schema_submission_def)
next
  case (Inr v)
  have "P (ss_member_id s)" if "can_access ctx ScopeSchemaSubmissionWriteAll (ssr_member_id v)"
      "s \<in> set (pb_schema_subs st)" "ss_id s = i" for s
    using acts_within_access [OF assms(2) that(1)] get_schema_submission_owner [OF Inr assms(3) that(2,3)] by simp
  then show ?thesis
    using assms(1) Inr
    by (auto simp: handle_update_schema_submission_def split: sum.splits if_splits option.splits prod.splits
        intro!: pb_steps_audit update_schema_submission_steps)
qed

lemma handle_metadata_steps:
  "handle_list_schema_metadata env link ctx i st = (r1, st') \<Longrightarrow> pb_steps P st st'"
  "handle_patch_schema_metadata env link ctx i j body st = (r2, st') \<Longrightarrow> pb_steps P st st'"
  "handle_delete_schema_metadata env link ctx i j st = (r3, st') \<Longrightarrow> pb_steps P st st'"
  "handle_revoke_schema_entry env link ctx i j app st = (r3, st') \<Longrightarrow> pb_steps P st st'"
  by (auto simp: handle_list_schema_metadata_def handle_patch_schema_metadata_def handle_delete_schema_metadata_def
      handle_revoke_schema_entry_def metadata_removal_reply_def patch_schema_metadata_def delete_schema_metadata_def
      revoke_schema_entry_def split: option.splits sum.splits prod.splits if_splits
      dest!: list_schema_metadata_steps with_metadata_steps
      intro!: pb_steps_audit intro: pb_steps_one [OF outside])

lemma handle_create_application_steps:
  assumes "handle_create_application env link idp ctx body st = (r, st')" "acts_within ctx P"
  shows "pb_steps P st st'"
  using assms
  by (auto simp: handle_create_application_def split: sum.splits if_splits option.splits prod.splits
      intro!: pb_steps_audit create_application_steps dest: acts_within_own)

lemma update_own_application_steps:
  assumes "update_own_application env ctx i body upd st = (r, st')" "acts_within ctx P" "pb_inv st"
    and "\<And>req r2 st2. upd req st = (r2, st2) \<Longrightarrow>
      (\<And>a. a \<in> set (pb_apps st) \<Longrightarrow> ap_id a = i \<Longrightarrow> P (ap_member_id a)) \<Longrightarrow> pb_steps P st st2"
  shows "pb_steps P st st'"
proof (cases "get_application env i st")
  case (Inl e)
  with assms show ?thesis by (simp add: update_own_application_def)
next
  case (Inr v)
  show ?thesis
  proof (cases "can_access ctx ScopeApplicationWriteAll (ar_member_id v)")
    case True
    then have "P (ap_member_id a)" if "a \<in> set (pb_apps st)" "ap_id a = i" for a
      using acts_within_access [OF assms(2) True] get_application_owner [OF Inr assms(3) that] by simp
    then have "upd req st = (r2, st2) \<Longrightarrow> pb_steps P st st2" for req r2 st2 using assms(4) by blast
    then show ?thesis
      using assms(1) Inr True
      by (auto simp: update_own_application_def split: sum.splits option.splits prod.splits intro!: pb_steps_audit)
  next
    case False
    with assms(1) Inr show ?thesis by (simp add: update_own_application_def)
  qed
qed

lemma handle_create_app_submission_steps:
  assumes "handle_create_app_submission env ctx body st = (r, st')" "acts_within ctx P"
  shows "pb_steps P st st'"
  using assms
  by (auto simp: handle_create_app_submission_def split: sum.splits if_splits option.splits prod.splits
      intro!: pb_steps_audit create_app_submission_steps dest: acts_within_submission)

lemma handle_update_app_submission_steps:
  assumes "handle_update_app_submission env link idp ctx i body st = (r, st')" "acts_within ctx P" "pb_inv st"
  shows "pb_steps P st st'"
proof (cases "get_app_submission env i st")
  case (Inl e)
  with assms show ?thesis by (simp add: handle_update_app_submission_def)
next
  case (Inr v)
  have "P (as_member_id s)" if "can_access ctx ScopeApplicationSubmissionWriteAll (asr_member_id v)"
      "s \<in> set (pb_app_subs st)" "as_id s = i" for s
    using acts_within_access [OF assms(2) that(1)] get_app_submission_owner [OF Inr assms(3) that(2,3)] by simp
  then show ?thesis
    using assms(1) Inr
    by (auto simp: handle_update_app_submission_def split: sum.splits if_splits option.splits prod.splits
        intro!: pb_steps_audit update_app_submission_steps)
qed

lemma answer_state: "answer f h = (r, st') \<Longrightarrow> h = (fst h, st')"
  by (auto simp: answer_def)

lemma answer_or_died_state: "answer_or_died f h = (r, st') \<Longrightarrow> h = (fst h, st')"
  by (auto simp: answer_or_died_def)

text \<open>A request to a route. Members are only created by a caller that may act for everyone.\<close>

lemma dispatch_steps:
  assumes "dispatch env d ctx req st = (r, st')" "acts_within ctx P" "pb_inv st"
    and "\<And>b. req = CreateMember b \<Longrightarrow> P (pv_uuid env 0)"
  shows "pb_steps P st st'"
proof (cases req)
  case (CreateMember b)
  note h = answer_state [OF assms(1) [unfolded CreateMember dispatch.simps]]
  show ?thesis
  proof (cases b)
    case None
    with h show ?thesis by (simp add: handle_create_member_def)
  next
    case (Some q)
    obtain r2 st2 where c: "create_member env q st = (r2, st2)" by force
    have "pb_steps P st st2" by (rule create_member_steps [OF c]) (rule assms(4) [OF CreateMember])
    with h Some c show ?thesis
      by (cases r2) (auto simp: handle_create_member_def intro: pb_steps_audit)
  qed
next
  case (UpdateMember i b)
  show ?thesis
    by (rule handle_update_member_steps [OF answer_state [OF assms(1) [unfolded UpdateMember dispatch.simps]] assms(2)])
next
  case (CreateSchema b)
  show ?thesis
    by (rule handle_create_schema_steps [OF answer_or_died_state [OF assms(1) [unfolded CreateSchema dispatch.simps]] assms(2)])
next
  case (UpdateSchema i b)
  show ?thesis
    by (rule handle_update_schema_steps [OF answer_state [OF assms(1) [unfolded UpdateSchema dispatch.simps]] assms(2,3)])
next
  case (ListMetadata i)
  show ?thesis
    by (rule handle_metadata_steps(1) [OF answer_state [OF assms(1) [unfolded ListMetadata dispatch.simps]]])
next
  case (PatchMetadata s i b)
  show ?thesis
    by (rule handle_metadata_steps(2) [OF answer_state [OF assms(1) [unfolded PatchMetadata dispatch.simps]]])
next
  case (DeleteMetadata s i)
  show ?thesis
    by (rule handle_metadata_steps(3) [OF answer_state [OF assms(1) [unfolded DeleteMetadata dispatch.simps]]])
next
  case (RevokeEntry s i a)
  show ?thesis
    by (rule handle_metadata_steps(4) [OF answer_state [OF assms(1) [unfolded RevokeEntry dispatch.simps]]])
next
  case (CreateSchemaSubmission b)
  show ?thesis
    by (rule handle_create_schema_submission_steps
        [OF answer_state [OF assms(1) [unfolded CreateSchemaSubmission dispatch.simps]] assms(2)])
next
  case (UpdateSchemaSubmission i b)
  show ?thesis
    by (rule handle_update_schema_submission_steps
        [OF answer_or_died_state [OF assms(1) [unfolded UpdateSchemaSubmission dispatch.simps]] assms(2,3)])
next
  case (CreateApplication b)
  show ?thesis
    by (rule handle_create_application_steps
        [OF answer_state [OF assms(1) [unfolded CreateApplication dispatch.simps]] assms(2)])
next
  case (UpdateApplication i b)
  show ?thesis
    by (rule update_own_application_steps
        [OF answer_state [OF assms(1) [unfolded UpdateApplication dispatch.simps handle_update_application_def]] assms(2,3)])
      (rule update_application_steps)
next
  case (UpdateApplicationPolicy i b)
  show ?thesis
    by (rule update_own_application_steps
        [OF answer_state [OF assms(1) [unfolded UpdateApplicationPolicy dispatch.simps handle_update_application_policy_def]]
          assms(2,3)])
      (rule update_application_policy_steps)
next
  case (CreateAppSubmission b)
  show ?thesis
    by (rule handle_create_app_submission_steps
        [OF answer_state [OF assms(1) [unfolded CreateAppSubmission dispatch.simps]] assms(2)])
next
  case (UpdateAppSubmission i b)
  show ?thesis
    by (rule handle_update_app_submission_steps
        [OF answer_state [OF assms(1) [unfolded UpdateAppSubmission dispatch.simps]] assms(2,3)])
qed (use assms(1) in \<open>simp_all add: answer_def\<close>)

text \<open>The whole API, behind the scope check and the lookup of the caller's member.\<close>

lemma with_member_scopes [simp]:
  "has_scope (with_member_id i ctx) s = has_scope ctx s" "ctx_ou_id (with_member_id i ctx) = ctx_ou_id ctx"
  "rx_auth (with_member_id i ctx) = rx_auth ctx"
  by (simp_all add: has_scope_def ctx_ou_id_def with_member_id_def)

lemma ctx_member_with [simp]: "ctx_member_id (with_member_id i ctx) = (if i = '''' then None else Some i)"
  by (simp add: ctx_member_id_def with_member_id_def)

text \<open>The context a route of the API runs in.\<close>

lemma pb_api_cases:
  assumes "pb_api env d ctx req st = (r, st')" "rx_member_id ctx = None"
  obtains (refused) "r = Some (respond_with_error StatusInternalServerError ''Failed to look up the caller's member'')" "st' = st"
    | (routed) ctx' where "serve_route env d ctx' req st = (r, st')" "rx_auth ctx' = rx_auth ctx"
      "rx_method ctx' = rx_method ctx" "ctx_ou_id ctx = '''' \<Longrightarrow> ctx_member_id ctx' = None"
      "\<And>i. ctx_member_id ctx' = Some i \<Longrightarrow> member_id_by_ou_id env (ctx_ou_id ctx) st = Inr i"
proof (cases "ctx_ou_id ctx = ''''")
  case True
  with assms show ?thesis by (intro routed [of ctx]) (auto simp: pb_api_def caller_middleware_def ctx_member_id_def)
next
  case False
  show ?thesis
  proof (cases "member_id_by_ou_id env (ctx_ou_id ctx) st")
    case (Inl e)
    with assms False show ?thesis by (intro refused) (auto simp: pb_api_def caller_middleware_def)
  next
    case (Inr i)
    show ?thesis
      by (rule routed [of "if i = '''' then ctx else with_member_id i ctx"])
        (use assms False Inr in \<open>auto simp: pb_api_def caller_middleware_def ctx_member_id_def with_member_id_def split: if_splits\<close>)
  qed
qed

end
