(* ===== verification/PB_Access_Facts.thy ===== *)
theory PB_Access_Facts
  imports PB_Ops_Facts
begin

text \<open>
  What the answers of the Portal Backend show: every record in the body of a success belongs to a
  member that satisfies \<open>P\<close>, as in \<^const>\<open>acts_within\<close>; and the policy metadata of a schema
  is only reached through a schema of such a member.
\<close>

section \<open>Owners\<close>

fun owners :: "pb_content \<Rightarrow> string set" where
  "owners (OneMember m) = {mr_member_id m}"
| "owners (Members ms) = mr_member_id ` set ms"
| "owners (OneSchema s) = {sr_member_id s}"
| "owners (Schemas ss) = sr_member_id ` set ss"
| "owners (OneMetadata _) = {}"
| "owners (Metadata _) = {}"
| "owners (OneSchemaSubmission s) = {ssr_member_id s}"
| "owners (SchemaSubmissions ss) = ssr_member_id ` set ss"
| "owners (OneApplication a) = {ar_member_id a}"
| "owners (Applications as) = ar_member_id ` set as"
| "owners (OneAppSubmission s) = {asr_member_id s}"
| "owners (AppSubmissions ss) = asr_member_id ` set ss"
| "owners Nothing = {}"

definition owned :: "(string \<Rightarrow> bool) \<Rightarrow> pb_content pb_reply option \<Rightarrow> bool" where
  "owned P r \<longleftrightarrow> (case r of Some (Success _ c) \<Rightarrow> \<forall>o' \<in> owners c. P o' | _ \<Rightarrow> True)"

lemma owned_simps [simp]:
  "owned P None" "owned P (Some (Failure n e))" "owned P (Some (NoBody n))"
  "owned P (Some (Success n c)) \<longleftrightarrow> (\<forall>o' \<in> owners c. P o')"
  by (simp_all add: owned_def)

lemma map_reply_error [simp]: "map_reply f (respond_with_error n e) = Failure n e"
  by (simp add: respond_with_error_def)

lemma map_reply_success [simp]: "map_reply f (respond_with_success n v) = Success n (f v)"
  by (simp add: respond_with_success_def)

lemma owned_metadata_error [simp]: "owned P (Some (map_reply f (respond_with_metadata_error e)))"
  by (auto simp: respond_with_metadata_error_def split: pb_kind.split)

lemma list_owned:
  assumes "acts_within ctx P" "list_member ctx s q = Some i" "s \<in> widening_scopes" "member_filter (Some i) o'"
  shows "P o'"
proof (cases "has_scope ctx s")
  case True
  with assms show ?thesis by (auto simp: acts_within_def)
next
  case False
  with assms(2) have i: "ctx_member_id ctx = Some i" by (simp add: list_member_def)
  then have "i \<noteq> ''''" by (auto simp: ctx_member_id_def split: option.splits if_splits)
  with assms(1,4) i show ?thesis by (simp add: acts_within_def member_filter_def)
qed

lemma set_newest_first [simp]: "set (newest_first base rows) = set rows"
  by (simp add: newest_first_def)

text \<open>The rows of a list carry their owners into the responses.\<close>

lemma get_schemas_owned:
  "get_schemas env m st = Inr vs \<Longrightarrow> v \<in> set vs \<Longrightarrow> member_filter m (sr_member_id v)"
  by (auto simp: get_schemas_def db_find_def schema_response_of_def split: sum.splits option.splits)

lemma get_schema_submissions_owned:
  "get_schema_submissions env m ss st = Inr vs \<Longrightarrow> v \<in> set vs \<Longrightarrow> member_filter m (ssr_member_id v)"
  by (auto simp: get_schema_submissions_def db_find_def schema_submission_response_of_def split: sum.splits option.splits)

lemma get_applications_owned:
  "get_applications env m st = Inr vs \<Longrightarrow> v \<in> set vs \<Longrightarrow> member_filter m (ar_member_id v)"
  by (auto simp: get_applications_def db_find_def application_response_of_def bind_res_Inr_iff split: option.splits)

lemma get_app_submissions_owned:
  "get_app_submissions env m ss st = Inr vs \<Longrightarrow> v \<in> set vs \<Longrightarrow> member_filter m (asr_member_id v)"
  by (auto simp: get_app_submissions_def db_find_def app_submission_response_of_def bind_res_Inr_iff split: option.splits)

text \<open>A created or updated record keeps its owner in the response.\<close>

lemma create_schema_owner:
  "create_schema env link lib req st = (Some (Inr v), st') \<Longrightarrow> sr_member_id v = cs_member_id req"
  by (auto simp: create_schema_def Let_def schema_response_of_def new_schema_def
      split: if_splits option.splits sum.splits prod.splits)

lemma update_schema_owner:
  assumes "update_schema env i req st = (Inr v, st')"
  shows "\<exists>s \<in> set (pb_schemas st). ps_schema_id s = i \<and> sr_member_id v = ps_member_id s"
  using assms find_schema_Inr [of env PbLoadSchema i st]
  by (auto simp: update_schema_def Let_def schema_response_of_def apply_schema_update_def split: sum.splits)

lemma create_schema_submission_owner:
  "create_schema_submission env req st = (Inr v, st') \<Longrightarrow> ssr_member_id v = css_member_id req"
  by (auto simp: create_schema_submission_def Let_def schema_submission_response_of_def split: sum.splits)

lemma update_schema_submission_owner:
  assumes "update_schema_submission env link lib i req st = (Some (Inr v), st')"
  shows "\<exists>s \<in> set (pb_schema_subs st). ss_id s = i \<and> ssr_member_id v = ss_member_id s"
  using assms
  by (auto simp: update_schema_submission_def Let_def schema_submission_response_of_def
      apply_schema_submission_update_def split: sum.splits option.splits if_splits prod.splits dest!: db_first_Inr)

lemma create_application_owner:
  "create_application env link idp req st = (Inr v, st') \<Longrightarrow> ar_member_id v = ca_member_id req"
  by (auto simp: create_application_def Let_def application_response_of_def new_application_def
      split: if_splits option.splits sum.splits prod.splits)

lemma update_application_owner:
  assumes "update_application env i req st = (Inr v, st')"
  shows "\<exists>a \<in> set (pb_apps st). ap_id a = i \<and> ar_member_id v = ap_member_id a"
  using assms find_application_Inr [of env PbLoadApplication i st]
  by (auto simp: update_application_def Let_def application_response_of_def apply_application_update_def split: sum.splits)

lemma update_application_policy_owner:
  assumes "update_application_policy env link i req st = (Inr v, st')"
  shows "\<exists>a \<in> set (pb_apps st). ap_id a = i \<and> ar_member_id v = ap_member_id a"
  using assms find_application_Inr [of env PbLoadApplication i st]
  by (auto simp: update_application_policy_def Let_def application_response_of_def split: sum.splits option.splits prod.splits)

lemma create_app_submission_owner:
  "create_app_submission env req st = (Inr v, st') \<Longrightarrow> asr_member_id v = cas_member_id req"
  by (auto simp: create_app_submission_def Let_def app_submission_response_of_def split: sum.splits)

lemma update_app_submission_owner:
  assumes "update_app_submission env link idp i req st = (Inr v, st')"
  shows "\<exists>s \<in> set (pb_app_subs st). as_id s = i \<and> asr_member_id v = as_member_id s"
  using assms
  by (auto simp: update_app_submission_def Let_def app_submission_response_of_def
      apply_app_submission_update_def split: sum.splits option.splits if_splits prod.splits dest!: db_first_Inr)

section \<open>Answers\<close>

lemma owned_lists:
  assumes "acts_within ctx P"
  shows "owned P (Some (map_reply (\<lambda>c. Schemas (co_items c)) (handle_get_all_schemas env ctx m st)))"
    and "owned P (Some (map_reply (\<lambda>c. SchemaSubmissions (co_items c)) (handle_get_all_schema_submissions env ctx m ss st)))"
    and "owned P (Some (map_reply (\<lambda>c. Applications (co_items c)) (handle_get_all_applications env ctx m st)))"
    and "owned P (Some (map_reply (\<lambda>c. AppSubmissions (co_items c)) (handle_get_all_app_submissions env ctx m ss st)))"
  by (auto simp: handle_get_all_schemas_def handle_get_all_schema_submissions_def handle_get_all_applications_def
      handle_get_all_app_submissions_def list_reply_def collection_of_def split: option.split sum.split
      dest: get_schemas_owned get_schema_submissions_owned get_applications_owned get_app_submissions_owned
      intro: list_owned [OF assms])

lemma owned_reads:
  assumes "acts_within ctx P"
  shows "owned P (Some (map_reply OneSchema (handle_get_schema env ctx i st)))"
    and "owned P (Some (map_reply OneSchemaSubmission (handle_get_schema_submission env ctx i st)))"
    and "owned P (Some (map_reply OneApplication (handle_get_application env ctx i st)))"
    and "owned P (Some (map_reply OneAppSubmission (handle_get_app_submission env ctx i st)))"
    and "owned P (Some (map_reply OneMember (handle_get_member env ctx i st)))"
  by (auto simp: handle_get_schema_def handle_get_schema_submission_def handle_get_application_def
      handle_get_app_submission_def handle_get_member_def split: sum.split
      intro: acts_within_access [OF assms])

lemma owned_schema_writes:
  assumes "acts_within ctx P"
  shows "owned P (map_option (map_reply OneSchema) (fst (handle_create_schema env link lib ctx body st)))"
    and "owned P (Some (map_reply OneSchemaSubmission (fst (handle_create_schema_submission env ctx body2 st))))"
  by (auto simp: handle_create_schema_def handle_create_schema_submission_def
      split: option.split sum.split prod.split
      dest!: create_schema_owner create_schema_submission_owner
      dest: acts_within_own [OF assms] acts_within_submission [OF assms])

lemma owned_application_writes:
  assumes "acts_within ctx P"
  shows "owned P (Some (map_reply OneApplication (fst (handle_create_application env link idp ctx body st))))"
    and "owned P (Some (map_reply OneAppSubmission (fst (handle_create_app_submission env ctx body2 st))))"
  by (auto simp: handle_create_application_def handle_create_app_submission_def
      split: option.split sum.split prod.split
      dest!: create_application_owner create_app_submission_owner
      dest: acts_within_own [OF assms] acts_within_submission [OF assms])

lemma owned_updates:
  assumes "acts_within ctx P" "pb_inv st"
  shows "owned P (Some (map_reply OneSchema (fst (handle_update_schema env ctx i b1 st))))"
    and "owned P (map_option (map_reply OneSchemaSubmission) (fst (handle_update_schema_submission env link lib ctx i b2 st)))"
    and "owned P (Some (map_reply OneAppSubmission (fst (handle_update_app_submission env link idp ctx i b3 st))))"
    and "owned P (Some (map_reply OneApplication (fst (handle_update_application env ctx i b4 st))))"
    and "owned P (Some (map_reply OneApplication (fst (handle_update_application_policy env link ctx i b5 st))))"
proof -
  note access = acts_within_access [OF assms(1)]
  show "owned P (Some (map_reply OneSchema (fst (handle_update_schema env ctx i b1 st))))"
  proof (cases "get_schema env i st")
    case (Inr v)
    then show ?thesis
      by (auto simp: handle_update_schema_def split: option.split sum.split prod.split
          dest!: update_schema_owner dest: access simp: get_schema_owner [OF Inr assms(2)])
  qed (simp add: handle_update_schema_def)
  show "owned P (map_option (map_reply OneSchemaSubmission) (fst (handle_update_schema_submission env link lib ctx i b2 st)))"
  proof (cases "get_schema_submission env i st")
    case (Inr v)
    then show ?thesis
      by (auto simp: handle_update_schema_submission_def split: option.split sum.split prod.split
          dest!: update_schema_submission_owner dest: access simp: get_schema_submission_owner [OF Inr assms(2)])
  qed (simp add: handle_update_schema_submission_def)
  show "owned P (Some (map_reply OneAppSubmission (fst (handle_update_app_submission env link idp ctx i b3 st))))"
  proof (cases "get_app_submission env i st")
    case (Inr v)
    then show ?thesis
      by (auto simp: handle_update_app_submission_def split: option.split sum.split prod.split
          dest!: update_app_submission_owner dest: access simp: get_app_submission_owner [OF Inr assms(2)])
  qed (simp add: handle_update_app_submission_def)
  show "owned P (Some (map_reply OneApplication (fst (handle_update_application env ctx i b4 st))))"
  proof (cases "get_application env i st")
    case (Inr v)
    then show ?thesis
      by (auto simp: handle_update_application_def update_own_application_def split: option.split sum.split prod.split
          dest!: update_application_owner dest: access simp: get_application_owner [OF Inr assms(2)])
  qed (simp add: handle_update_application_def update_own_application_def)
  show "owned P (Some (map_reply OneApplication (fst (handle_update_application_policy env link ctx i b5 st))))"
  proof (cases "get_application env i st")
    case (Inr v)
    then show ?thesis
      by (auto simp: handle_update_application_policy_def update_own_application_def split: option.split sum.split prod.split
          dest!: update_application_policy_owner dest: access simp: get_application_owner [OF Inr assms(2)])
  qed (simp add: handle_update_application_policy_def update_own_application_def)
qed

lemma create_member_id: "create_member env req st = (Inr v, st') \<Longrightarrow> mr_member_id v = pv_uuid env 0"
  by (auto simp: create_member_def Let_def build_member_response_def split: if_splits sum.splits)

lemma update_member_id: "update_member env i req st = (Inr v, st') \<Longrightarrow> mr_member_id v = i"
  by (auto simp: update_member_def Let_def build_member_response_def apply_member_update_def
      split: sum.splits dest!: db_first_Inr)

lemma owned_member_writes:
  assumes "acts_within ctx P"
  shows "P (pv_uuid env 0) \<Longrightarrow> owned P (Some (map_reply OneMember (fst (handle_create_member env ctx body st))))"
    and "owned P (Some (map_reply OneMember (fst (handle_update_member env ctx i body2 st))))"
  by (auto simp: handle_create_member_def handle_update_member_def split: option.split sum.split prod.split
      dest!: create_member_id update_member_id get_member_id dest: acts_within_access [OF assms])

text \<open>Without the scope, the list of members is the caller's unit's.\<close>

lemma get_members_by_ou_id_rows:
  "get_members_by_ou_id env ou st = Inr vs \<Longrightarrow> v \<in> set vs \<Longrightarrow>
   \<exists>m \<in> set (pb_members st). mb_ou_id m = ou \<and> mr_member_id v = mb_member_id m"
  by (auto simp: get_members_by_ou_id_def build_member_response_def split: sum.splits if_splits dest!: db_first_Inr)

lemma owned_members:
  assumes "acts_within ctx P"
    and "\<And>m. m \<in> set (pb_members st) \<Longrightarrow> mb_ou_id m = ctx_ou_id ctx \<Longrightarrow> ctx_ou_id ctx \<noteq> '''' \<Longrightarrow> P (mb_member_id m)"
  shows "owned P (Some (map_reply (\<lambda>c. Members (co_items c)) (handle_get_all_members env ctx ou st)))"
proof (cases "has_scope ctx ScopeMemberReadAll")
  case True
  with assms(1) have "P o'" for o' by (auto simp: acts_within_def)
  then show ?thesis by (auto simp: handle_get_all_members_def Let_def collection_of_def split: sum.split)
next
  case False
  then show ?thesis
    by (auto simp: handle_get_all_members_def get_all_members_def Let_def collection_of_def split: sum.split
        dest!: get_members_by_ou_id_rows intro: assms(2))
qed

lemma owned_no_record: "(\<And>v. owners (f v) = {}) \<Longrightarrow> owned P (Some (map_reply f r))"
  by (cases r) simp_all

text \<open>A request to a route answers with records of members that the caller may act for.\<close>

lemma dispatch_owned:
  assumes "dispatch env d ctx req st = (r, st')" "acts_within ctx P" "pb_inv st"
    and "\<And>b. req = CreateMember b \<Longrightarrow> P (pv_uuid env 0)"
    and "\<And>m. m \<in> set (pb_members st) \<Longrightarrow> mb_ou_id m = ctx_ou_id ctx \<Longrightarrow> ctx_ou_id ctx \<noteq> '''' \<Longrightarrow> P (mb_member_id m)"
  shows "owned P r"
proof -
  note rules = owned_lists [OF assms(2)] owned_reads [OF assms(2)] owned_schema_writes [OF assms(2)]
    owned_application_writes [OF assms(2)] owned_updates [OF assms(2,3)]
    owned_member_writes [OF assms(2)] owned_no_record
  have r: "r = fst (dispatch env d ctx req st)" using assms(1) by simp
  have "owned P (fst (dispatch env d ctx req st))"
  proof (cases req)
    case (CreateMember b)
    show ?thesis unfolding CreateMember dispatch.simps answer_def fst_conv
      by (rule owned_member_writes(1) [OF assms(2) assms(4) [OF CreateMember]])
  next
    case (ListMembers ou)
    show ?thesis unfolding ListMembers dispatch.simps answer_def fst_conv
      by (rule owned_members [OF assms(2)]) (rule assms(5))
  qed (simp_all only: dispatch.simps answer_def answer_or_died_def fst_conv rules owners.simps)
  with r show ?thesis by simp
qed

section \<open>The policy metadata of a schema\<close>

fun metadata_schema :: "pb_request \<Rightarrow> string option" where
  "metadata_schema (ListMetadata i) = Some i"
| "metadata_schema (PatchMetadata i _ _) = Some i"
| "metadata_schema (DeleteMetadata i _) = Some i"
| "metadata_schema (RevokeEntry i _ _) = Some i"
| "metadata_schema _ = None"

definition refused :: "pb_content pb_reply option \<Rightarrow> bool" where
  "refused r \<longleftrightarrow> (case r of Some (Failure _ _) \<Rightarrow> True | _ \<Rightarrow> False)"

lemma refused_Failure [simp]: "refused (Some (Failure n e))"
  by (simp add: refused_def)

lemma authorize_schema_access_None:
  assumes "authorize_schema_access env ctx i s st = None" "acts_within ctx P" "s \<in> widening_scopes" "pb_inv st"
    and "x \<in> set (pb_schemas st)" "ps_schema_id x = i"
  shows "P (ps_member_id x)"
proof -
  from assms(1) obtain v where v: "get_schema env i st = Inr v" "can_access ctx s (sr_member_id v)"
    by (auto simp: authorize_schema_access_def split: sum.splits if_splits)
  with acts_within_access [OF assms(2) v(2) assms(3)] get_schema_owner [OF v(1) assms(4-6)] show ?thesis by simp
qed

lemma authorize_schema_access_Some:
  "authorize_schema_access env ctx i s st = Some r \<Longrightarrow> \<exists>n e. r = Failure n e"
  by (auto simp: authorize_schema_access_def respond_with_error_def split: sum.splits if_splits)

lemma authorize_refused:
  assumes "acts_within ctx P" "s \<in> widening_scopes" "pb_inv st"
    and "x \<in> set (pb_schemas st)" "ps_schema_id x = i" "\<not> P (ps_member_id x)"
  shows "\<exists>n e. (authorize_schema_access env ctx i s st :: 'b pb_reply option) = Some (Failure n e)"
proof (cases "authorize_schema_access env ctx i s st :: 'b pb_reply option")
  case None
  with authorize_schema_access_None [OF None assms(1-5)] assms(6) show ?thesis by simp
next
  case (Some r)
  with authorize_schema_access_Some [OF Some] show ?thesis by auto
qed

lemma dispatch_metadata_refused:
  assumes "dispatch env d ctx req st = (r, st')" "metadata_schema req = Some i" "acts_within ctx P" "pb_inv st"
    and "x \<in> set (pb_schemas st)" "ps_schema_id x = i" "\<not> P (ps_member_id x)"
  shows "refused r \<and> st' = st"
proof -
  note no = authorize_refused [OF assms(3) _ assms(4-7), of _ env]
  show ?thesis
  proof (cases req)
    case (ListMetadata j)
    obtain n e where "(authorize_schema_access env ctx i ScopeSchemaReadAll st :: metadata_response collection pb_reply option) = Some (Failure n e)"
      using no [of ScopeSchemaReadAll] by auto
    then show ?thesis using ListMetadata assms(1,2) by (auto simp: answer_def handle_list_schema_metadata_def)
  next
    case (PatchMetadata j k b)
    obtain n e where "(authorize_schema_access env ctx i ScopeSchemaWriteAll st :: metadata_response pb_reply option) = Some (Failure n e)"
      using no [of ScopeSchemaWriteAll] by auto
    then show ?thesis using PatchMetadata assms(1,2) by (auto simp: answer_def handle_patch_schema_metadata_def)
  next
    case (DeleteMetadata j k)
    obtain n e where "(authorize_schema_access env ctx i ScopeSchemaWriteAll st :: unit pb_reply option) = Some (Failure n e)"
      using no [of ScopeSchemaWriteAll] by auto
    then show ?thesis using DeleteMetadata assms(1,2) by (auto simp: answer_def handle_delete_schema_metadata_def)
  next
    case (RevokeEntry j k a)
    obtain n e where "(authorize_schema_access env ctx i ScopeSchemaWriteAll st :: unit pb_reply option) = Some (Failure n e)"
      using no [of ScopeSchemaWriteAll] by auto
    then show ?thesis using RevokeEntry assms(1,2) by (auto simp: answer_def handle_revoke_schema_entry_def)
  qed (use assms(2) in simp_all)
qed

end
