(* ===== verification/PB_Saga_Facts.thy ===== *)
theory PB_Saga_Facts
  imports PB_Ops_Facts
begin

text \<open>
  Creating an application end to end: what a success leaves in the database, at the identity
  provider and at the Policy Decision Point, and what a failure takes back.
\<close>

section \<open>The Policy Decision Point's side\<close>

text \<open>A transport that leaves an observation of the world outside alone.\<close>

definition link_keeps :: "('b, 'x) pdp_link \<Rightarrow> ('x \<Rightarrow> 'o) \<Rightarrow> bool" where
  "link_keeps link obs \<longleftrightarrow> (\<forall>m u b x. obs (snd (pl_do link m u b x)) = obs x)"

lemma send_pdp_keeps: "link_keeps link obs \<Longrightarrow> send_pdp link m p b x = (r, x') \<Longrightarrow> obs x' = obs x"
  by (auto simp: send_pdp_def link_keeps_def split: option.splits sum.splits prod.splits) (metis snd_conv)+

lemma post_pdp_keeps: "link_keeps link obs \<Longrightarrow> post_pdp link p n b f x = (r, x') \<Longrightarrow> obs x' = obs x"
  by (auto simp: post_pdp_def split: sum.splits prod.splits if_splits dest: send_pdp_keeps)

lemma allow_list_keeps: "link_keeps link obs \<Longrightarrow> client_update_allow_list link q x = (r, x') \<Longrightarrow> obs x' = obs x"
  by (auto simp: client_update_allow_list_def dest: post_pdp_keeps)

section \<open>The identity provider's side\<close>

text \<open>
  What the service relies on: a created client is new, a refused creation leaves the clients as
  they are, and a successful deletion removes the client with the id.
\<close>

definition idp_contract :: "'x application_manager \<Rightarrow> ('x \<Rightarrow> string set) \<Rightarrow> bool" where
  "idp_contract idp clients \<longleftrightarrow>
     (\<forall>app x x' c. am_create idp app x = (Inr c, x') \<longrightarrow>
        ic_id c \<notin> clients x \<and> clients x' = insert (ic_id c) (clients x)) \<and>
     (\<forall>app x x' e. am_create idp app x = (Inl e, x') \<longrightarrow> clients x' = clients x) \<and>
     (\<forall>i x x'. am_delete idp i x = (Inr (), x') \<longrightarrow> clients x' = clients x - {i})"

lemma idp_contract_rules:
  assumes "idp_contract idp clients"
  shows "am_create idp app x = (Inr c, x') \<Longrightarrow> ic_id c \<notin> clients x \<and> clients x' = insert (ic_id c) (clients x)"
    and "am_create idp app x = (Inl e, x') \<Longrightarrow> clients x' = clients x"
    and "am_delete idp i x = (Inr (), x') \<Longrightarrow> clients x' = clients x - {i}"
  using assms unfolding idp_contract_def by blast+

lemma provision_client_cases:
  assumes "provision_client env idp req st = (r, st1)" "idp_contract idp clients"
  obtains (failed) e where "r = Inl e" "clients (pb_ext st1) = clients (pb_ext st)"
    | (external) "r = Inr (ca_idp_id req, ca_client_id req, None)" "externally_provisioned req" "st1 = st"
    | (created) c :: idp_created where "r = Inr (Some (ic_id c), Some (ic_client_id c), optional_text (ic_client_secret c))"
        "\<not> externally_provisioned req" "ic_id c \<notin> clients (pb_ext st)"
        "clients (pb_ext st1) = insert (ic_id c) (clients (pb_ext st))"
proof (cases "externally_provisioned req")
  case True
  with assms(1) show thesis by (intro external) (simp_all add: provision_client_def)
next
  case ext: False
  show thesis
  proof (cases "db_first env PbFindUnit mb_member_id (\<lambda>m. mb_member_id m = ca_member_id req) (pb_members st)")
    case (Inl e)
    with assms(1) ext show thesis by (intro failed) (auto simp: provision_client_def)
  next
    case (Inr owner)
    obtain res x where call: "am_create idp \<lparr>ia_name = ca_name req,
        ia_description = (case ca_description req of None \<Rightarrow> '''' | Some d \<Rightarrow> d),
        ia_template = TemplateIDM2M, ia_ou_id = mb_ou_id owner\<rparr> (pb_ext st) = (res, x)" by force
    show thesis
    proof (cases res)
      case refused: (Inl e)
      have "r = Inl (plain_error (''failed to create application: '' @ e))" "st1 = st\<lparr>pb_ext := x\<rparr>"
        using assms(1) ext Inr call refused by (simp_all add: provision_client_def)
      with idp_contract_rules(2) [OF assms(2) call [unfolded refused]] show thesis by (intro failed) simp_all
    next
      case accepted: (Inr c)
      have "r = Inr (Some (ic_id c), Some (ic_client_id c), optional_text (ic_client_secret c))" "st1 = st\<lparr>pb_ext := x\<rparr>"
        using assms(1) ext Inr call accepted by (simp_all add: provision_client_def)
      with idp_contract_rules(1) [OF assms(2) call [unfolded accepted]] show thesis
        by (intro created [OF _ ext]) simp_all
    qed
  qed
qed

text \<open>Undoing a client that this call created.\<close>

lemma undo_client_created:
  assumes "undo_client idp req (Some i) st = (Inr (), st')" "idp_contract idp clients" "\<not> externally_provisioned req"
  shows "clients (pb_ext st') = clients (pb_ext st) - {i}"
proof -
  obtain x where "am_delete idp i (pb_ext st) = (Inr (), x)" "st' = st\<lparr>pb_ext := x\<rparr>"
    using assms(1,3) by (auto simp: undo_client_def split: prod.splits)
  with idp_contract_rules(3) [OF assms(2)] show ?thesis by simp
qed

text \<open>The row of the application goes away again, when no submission refers to it.\<close>

lemma delete_application_row_again:
  assumes "delete_application_row env (ap_id a) st = (r, st')" "pb_apps st = t @ [a]" "pv_fails env PbDeleteApplication = None"
    and "\<forall>x \<in> set t. \<not> application_clash x a" "\<forall>s \<in> set (pb_app_subs st). as_previous_id s \<noteq> Some (ap_id a)"
  shows "r = Inr () \<and> st' = st\<lparr>pb_apps := t\<rparr>"
  using assms
  by (auto simp: delete_application_row_def require_fk_def db_delete_def list_ex_iff sql_delete_def application_clash_def
      filter_id_conv)

section \<open>Success and failure\<close>

lemma create_application_success:
  assumes "create_application env link idp req st = (Inr v, st')"
  obtains idp_id client secret x y where
    "pb_apps st' = pb_apps st @ [new_application env req idp_id (Some client)]"
    "v = application_response_of secret (new_application env req idp_id (Some client))"
    "client_update_allow_list link
       \<lparr>au_application_id = client, au_records = ca_fields req, au_grant_duration = PbGrantOneMonth\<rparr> x = (Inr y, pb_ext st')"
    "provision_client env idp req st = (Inr (idp_id, Some client, secret), st\<lparr>pb_ext := x\<rparr>)"
proof -
  obtain r1 st1 where p: "provision_client env idp req st = (r1, st1)" by force
  obtain x where x: "st1 = st\<lparr>pb_ext := x\<rparr>" using provision_client_state(1) [OF p] by blast
  obtain idp_id client_id secret where r1: "r1 = Inr (idp_id, client_id, secret)"
    using assms p by (auto simp: create_application_def split: if_splits sum.splits)
  let ?a = "new_application env req idp_id client_id"
  obtain t where t: "db_create env PbCreateApplication application_clash ?a (pb_apps st1) = Inr t"
    using assms p r1 by (auto simp: create_application_def Let_def split: if_splits sum.splits prod.splits)
  obtain client where c: "client_id = Some client"
    using assms p r1 t by (cases client_id) (auto simp: create_application_def Let_def new_application_def split: if_splits)
  obtain y where y: "client_update_allow_list link
       \<lparr>au_application_id = client, au_records = ca_fields req, au_grant_duration = PbGrantOneMonth\<rparr> x = (Inr y, pb_ext st')"
    and st': "st' = st1\<lparr>pb_apps := t, pb_ext := pb_ext st'\<rparr>" and v: "v = application_response_of secret ?a"
    using assms p r1 t
    by (auto simp: create_application_def Let_def new_application_def c x split: if_splits sum.splits prod.splits)
  have "pb_apps st' = pb_apps st @ [?a]" using st' db_create_Inr [OF t] x by (metis pb_state.select_convs(4) pb_state.surjective pb_state.update_convs(4) pb_state.update_convs(7))
  then show thesis using that y v p r1 x c by blast
qed

text \<open>Deletions at the identity provider that succeed bring its clients back to where they were.\<close>

definition idp_deletes :: "'x application_manager \<Rightarrow> bool" where
  "idp_deletes idp \<longleftrightarrow> (\<forall>i x. isl (fst (am_delete idp i x)) = False)"

lemma undo_client_succeeds:
  assumes "undo_client idp req i st = (r, st')" "idp_deletes idp"
  shows "r = Inr () \<and> (\<exists>x. st' = st\<lparr>pb_ext := x\<rparr>)"
proof -
  have "isl r = False"
    using assms by (auto simp: undo_client_def idp_deletes_def split: if_splits prod.splits) (metis fst_conv)
  then show ?thesis using undo_client_state [OF assms(1)] by (cases r) simp_all
qed

text \<open>\<open>st1\<close> is the state after the client was provisioned, \<open>u\<close> the one that is undone.\<close>

lemma undo_provisioned:
  assumes "provision_client env idp req st = (Inr (idp_id, client_id, secret), st1)"
    and "undo_client idp req idp_id u = (r, st')" "clients (pb_ext u) = clients (pb_ext st1)"
    and "idp_contract idp clients" "idp_deletes idp"
  shows "clients (pb_ext st') = clients (pb_ext st)"
  using assms(1,4)
proof (cases rule: provision_client_cases)
  case external
  with assms(2,3) show ?thesis by (simp add: undo_client_def)
next
  case (created c)
  have "undo_client idp req (Some (ic_id c)) u = (Inr (), st')"
    using assms(2) undo_client_succeeds [OF assms(2,5)] created(1) by simp
  from undo_client_created [OF this assms(4) created(2)] show ?thesis using assms(3) created(3,4) by simp
qed simp

lemma create_application_failure:
  assumes "create_application env link idp req st = (Inl e, st')" "pb_inv st"
    and idp: "idp_contract idp clients" "idp_deletes idp" and link: "link_keeps link clients"
    and db: "pv_fails env PbDeleteApplication = None"
  shows "(\<exists>x. st' = st\<lparr>pb_ext := x\<rparr>) \<and> clients (pb_ext st') = clients (pb_ext st)"
proof -
  have same: "(\<exists>x. st = st\<lparr>pb_ext := x\<rparr>)" by (rule exI [of _ "pb_ext st"]) simp
  consider (bad) "st' = st" | (go) "\<not> (externally_provisioned req \<and> (ca_idp_id req = None \<or> ca_client_id req = None))"
      "\<not> (externally_provisioned req \<and> (ca_idp_id req = Some '''' \<or> ca_client_id req = Some ''''))"
    using assms(1) by (auto simp: create_application_def split: if_splits)
  then show ?thesis
  proof cases
    case bad
    with same show ?thesis by simp
  next
    case go
    obtain r1 st1 where p: "provision_client env idp req st = (r1, st1)" by force
    obtain x1 where x1: "st1 = st\<lparr>pb_ext := x1\<rparr>" using provision_client_state(1) [OF p] by blast
    show ?thesis
    proof (cases r1)
      case (Inl e1)
      with assms(1) go p have "st' = st1" by (simp add: create_application_def)
      moreover have "clients (pb_ext st1) = clients (pb_ext st)"
        using p idp(1) by (cases rule: provision_client_cases) (simp_all add: Inl)
      ultimately show ?thesis using x1 by auto
    next
      case (Inr v)
      obtain idp_id client_id secret where v: "v = (idp_id, client_id, secret)" by (cases v)
      note p1 = p [unfolded Inr v]
      let ?a = "new_application env req idp_id client_id"
      show ?thesis
      proof (cases "db_create env PbCreateApplication application_clash ?a (pb_apps st1)")
        case dbe: (Inl e1)
        obtain ir u where i: "undo_client idp req idp_id st1 = (ir, u)" by force
        note ok = undo_client_succeeds [OF i idp(2)]
        have "st' = u" using assms(1) go p1 dbe i ok by (simp add: create_application_def Let_def)
        with ok x1 undo_provisioned [OF p1 i refl idp] show ?thesis by auto
      next
        case dbt: (Inr t)
        note t = db_create_Inr [OF dbt]
        have "client_id \<noteq> None" using provision_client_state(2) [OF p _ go(1)] Inr v by auto
        then obtain client where c: "client_id = Some client" by blast
        obtain r3 x3 where g: "client_update_allow_list link
            \<lparr>au_application_id = client, au_records = ca_fields req, au_grant_duration = PbGrantOneMonth\<rparr> x1 = (r3, x3)" by force
        let ?st3 = "st1\<lparr>pb_apps := t\<rparr>\<lparr>pb_ext := x3\<rparr>"
        obtain dr u where d: "delete_application_row env (ap_id ?a) ?st3 = (dr, u)" by force
        obtain ir w where i: "undo_client idp req idp_id u = (ir, w)" by force
        have fresh: "\<forall>x \<in> set (pb_apps st). \<not> application_clash x ?a" using t x1 by simp
        have "\<forall>s \<in> set (pb_app_subs st). as_previous_id s \<noteq> Some (ap_id ?a)"
          using assms(2) fresh by (fastforce simp: pb_inv_def fk_holds_iff application_clash_def)
        then have u: "dr = Inr ()" "u = st\<lparr>pb_ext := x3\<rparr>"
          using delete_application_row_again [OF d, of "pb_apps st"] db fresh t x1 by (cases st; simp)+
        note ok = undo_client_succeeds [OF i idp(2)]
        have "st' = w"
        proof (cases r3)
          case e3: (Inl e3)
          have "compensate_grant env idp req ?a e3 ?st3 = (wrap_pb ''failed to update allow list: '' e3, w)"
            using d i u ok by (simp add: compensate_grant_def new_application_def)
          with assms(1) go p1 dbt c g e3 t x1 show ?thesis
            by (simp add: create_application_def Let_def new_application_def)
        next
          case i3: (Inr y)
          with assms(1) go p1 dbt c g x1 show ?thesis by (simp add: create_application_def Let_def new_application_def)
        qed
        moreover have "clients (pb_ext u) = clients (pb_ext st1)" using allow_list_keeps [OF link g] u x1 by simp
        ultimately show ?thesis using ok u undo_provisioned [OF p1 i _ idp] by auto
      qed
    qed
  qed
qed

end
