(* ===== verification/Health.thy ===== *)
theory Health
  imports Json Http Strconv
begin

text \<open>
  The health and debug endpoints of the Portal Backend (\<^verbatim>\<open>cmd/pb/health.go\<close>) and of the
  Policy Decision Point (\<^verbatim>\<open>cmd/pdp/main.go\<close>). What the handlers see of the database is one
  probe: an error is a text, and a query that is not reached is not looked at.
\<close>

record db_probe =
  dp_nil :: bool  \<comment> \<open>there is no GORM handle\<close>
  dp_handle :: "string + unit"  \<comment> \<open>\<^verbatim>\<open>gormDB.DB()\<close>\<close>
  dp_ping :: "string + unit"
  dp_table :: "string + bool"  \<comment> \<open>whether the probed table exists\<close>
  dp_count :: "string + nat"  \<comment> \<open>its number of rows\<close>

record db_health =
  dh_status :: string
  dh_error :: string
  dh_database :: string

record health_status =
  hs_status :: string
  hs_service :: string
  hs_database :: db_health

definition unhealthy :: "string \<Rightarrow> health_status" where
  "unhealthy e = \<lparr>hs_status = ''unhealthy'', hs_service = ''portal-backend'',
     hs_database = \<lparr>dh_status = ''unhealthy'', dh_error = e, dh_database = ''''\<rparr>\<rparr>"

definition pb_health_handler :: "db_probe \<Rightarrow> string \<Rightarrow> (health_status, 'e) reply" where
  "pb_health_handler db name =
     (let status =
        (if dp_nil db then unhealthy ''GORM connection is nil''
         else case dp_handle db of
           Inl e \<Rightarrow> unhealthy (''failed to get sql.DB: '' @ e)
         | Inr _ \<Rightarrow>
             (case dp_ping db of
                Inl e \<Rightarrow> unhealthy e
              | Inr _ \<Rightarrow> \<lparr>hs_status = ''healthy'', hs_service = ''portal-backend'',
                  hs_database = \<lparr>dh_status = ''healthy'', dh_error = '''', dh_database = name\<rparr>\<rparr>))
      in Success (if hs_status status \<noteq> ''healthy'' then StatusServiceUnavailable else StatusOK) status)"

text \<open>
  The report on the database: \<open>what\<close> is the probed table, \<open>rows_key\<close> the key of its row count and
  \<open>exists_key\<close> the key that says whether it exists.
\<close>

definition debug_report ::
  "string \<Rightarrow> string \<Rightarrow> string \<Rightarrow> string \<Rightarrow> db_probe \<Rightarrow> string \<Rightarrow> json_map" where
  "debug_report what rows_key exists_key ping_text db name =
     (let error = (\<lambda>e. [(''error'', JStr e)]) in
      if dp_nil db then error ''GORM connection is nil''
      else case dp_handle db of
        Inl e \<Rightarrow> error (''failed to get sql.DB: '' @ e)
      | Inr _ \<Rightarrow>
          (case dp_ping db of
             Inl e \<Rightarrow> error (ping_text @ e)
           | Inr _ \<Rightarrow>
               [(''status'', JStr ''connected''), (''database'', JStr name)] @
               (case dp_table db of
                  Inl e \<Rightarrow> [(''table_check_error'', JStr (''failed to check '' @ what @ '' table: '' @ e))]
                | Inr exists \<Rightarrow>
                    (exists_key, JBool exists) #
                    (if \<not> exists then []
                     else case dp_count db of
                       Inl e \<Rightarrow> [(''count_error'', JStr (''failed to count '' @ what @ '': '' @ e))]
                     | Inr n \<Rightarrow> [(rows_key, JNum (decimal n))]))))"

definition pb_debug_db_handler :: "db_probe \<Rightarrow> string \<Rightarrow> (json_map, 'e) reply" where
  "pb_debug_db_handler db name =
     Success StatusOK
       [(''v1'', JObj (debug_report ''members'' ''members_count'' ''members_table_exists'' ''V1 database ping failed: '' db name))]"

definition pdp_debug_db_handler :: "db_probe \<Rightarrow> string \<Rightarrow> (json_map, 'e) reply" where
  "pdp_debug_db_handler db name =
     Success StatusOK
       [(''service'', JStr ''policy-decision-point''),
        (''v1'', JObj (debug_report ''policy_metadata'' ''policy_metadata_count'' ''policy_metadata_table_exists''
           ''database ping failed: '' db name))]"

text \<open>The build a service runs.\<close>

record build_info =
  bi_version :: string
  bi_time :: string
  bi_commit :: string

definition pb_debug_handler :: "build_info \<Rightarrow> string \<Rightarrow> string \<Rightarrow> ((string \<times> string) list, 'e) reply" where
  "pb_debug_handler b path meth =
     respond_with_success StatusOK
       [(''service'', ''portal-backend''), (''version'', bi_version b), (''build_time'', bi_time b),
        (''git_commit'', bi_commit b), (''path'', path), (''method'', meth)]"

definition pdp_debug_handler :: "build_info \<Rightarrow> string \<Rightarrow> string \<Rightarrow> ((string \<times> string) list, 'e) reply" where
  "pdp_debug_handler b path meth =
     respond_with_success StatusOK
       [(''service'', ''policy-decision-point''), (''version'', bi_version b), (''path'', path), (''method'', meth)]"

text \<open>The Portal Backend is healthy exactly when it reaches its database.\<close>

lemma pb_health_status:
  "status_code (pb_health_handler db name) = StatusOK \<longleftrightarrow> \<not> dp_nil db \<and> dp_handle db = Inr () \<and> dp_ping db = Inr ()"
  "status_code (pb_health_handler db name) \<in> {StatusOK, StatusServiceUnavailable}"
  by (auto simp: pb_health_handler_def unhealthy_def Let_def split: sum.splits)

end
