(* ===== verification/PDP_Routes.thy ===== *)
theory PDP_Routes
  imports PDP_Handler Url Health
begin

text \<open>
  The routes of the Policy Decision Point (\<^verbatim>\<open>cmd/pdp/main.go\<close>): a method and a URL
  select a handler and its path values as \<^verbatim>\<open>http.ServeMux\<close> does. A body is the value it
  decodes to; the server answers with a status and a body.
\<close>

datatype pdp_body =
    CreateBody metadata_create_request | PatchBody metadata_patch_request
  | AllowBody allow_list_update_request | DecideBody decision_request
  | RecordsBody "metadata_response list" | RecordBody metadata_response
  | GrantedBody "allow_list_update_record list" | DecisionBody decision_response
  | ErrorBody "pdp_error message" | EmptyBody
  | InfoBody "(string \<times> string) list" | ReportBody json_map

datatype pdp_endpoint =
    RouteList string | RouteCreate | RoutePatch string | RouteDelete string | RouteRevoke string string
  | RouteGrant | RouteDecide

definition match_route :: "string \<Rightarrow> string list \<Rightarrow> string \<Rightarrow> pdp_endpoint option" where
  "match_route meth segs raw_query =
     (case segs of
        a # v # p # rest \<Rightarrow>
          if a \<noteq> ''api'' \<or> v \<noteq> ''v1'' \<or> p \<noteq> ''policy'' then None
          else (case rest of
            [r] \<Rightarrow>
              if r = ''metadata'' \<and> is_get meth then Some (RouteList (query_get raw_query ''schemaId''))
              else if r = ''metadata'' \<and> meth = ''POST'' then Some RouteCreate
              else if r = ''update-allowlist'' \<and> meth = ''POST'' then Some RouteGrant
              else if r = ''decide'' \<and> meth = ''POST'' then Some RouteDecide
              else None
          | [r, i] \<Rightarrow>
              if r = ''metadata'' \<and> meth = ''PATCH'' then Some (RoutePatch i)
              else if r = ''metadata'' \<and> meth = ''DELETE'' then Some (RouteDelete i)
              else None
          | [r, i, l, app] \<Rightarrow>
              if r = ''metadata'' \<and> l = ''allowlist'' \<and> meth = ''DELETE'' then Some (RouteRevoke i app) else None
          | _ \<Rightarrow> None)
      | _ \<Rightarrow> None)"

definition pdp_route :: "string \<Rightarrow> string \<Rightarrow> pdp_endpoint option" where
  "pdp_route meth target =
     (let path = takeWhile (\<lambda>c. c \<noteq> CHR ''?'') target; raw_query = drop 1 (dropWhile (\<lambda>c. c \<noteq> CHR ''?'') target) in
      case path_segments path of None \<Rightarrow> None | Some segs \<Rightarrow> match_route meth segs raw_query)"

text \<open>The bodies the handlers decode; any other body is one the decoder refuses.\<close>

definition create_body :: "pdp_body option \<Rightarrow> metadata_create_request option" where
  "create_body b = (case b of Some (CreateBody r) \<Rightarrow> Some r | _ \<Rightarrow> None)"

definition patch_body :: "pdp_body option \<Rightarrow> metadata_patch_request option" where
  "patch_body b = (case b of Some (PatchBody r) \<Rightarrow> Some r | _ \<Rightarrow> None)"

definition allow_body :: "pdp_body option \<Rightarrow> allow_list_update_request option" where
  "allow_body b = (case b of Some (AllowBody r) \<Rightarrow> Some r | _ \<Rightarrow> None)"

definition decide_body :: "pdp_body option \<Rightarrow> decision_request option" where
  "decide_body b = (case b of Some (DecideBody r) \<Rightarrow> Some r | _ \<Rightarrow> None)"

definition wire_reply :: "('b \<Rightarrow> pdp_body) \<Rightarrow> 'b pdp_reply \<Rightarrow> nat \<times> pdp_body" where
  "wire_reply f r =
     (case r of Success n b \<Rightarrow> (n, f b) | Failure n e \<Rightarrow> (n, ErrorBody e) | NoBody n \<Rightarrow> (n, EmptyBody))"

definition pdp_server ::
  "policy_engine \<Rightarrow> pdp_env \<Rightarrow> string \<Rightarrow> string \<Rightarrow> pdp_body option \<Rightarrow> pdp_table \<Rightarrow> (nat \<times> pdp_body) \<times> pdp_table" where
  "pdp_server e env meth target body t =
     (case pdp_route meth target of
        None \<Rightarrow> ((unmatched_status pdp_route target, EmptyBody), t)
      | Some (RouteList i) \<Rightarrow> (wire_reply RecordsBody (handle_list_policy_metadata env i t), t)
      | Some RouteCreate \<Rightarrow>
          (case handle_create_policy_metadata e env (create_body body) t of (r, t) \<Rightarrow> (wire_reply RecordsBody r, t))
      | Some (RoutePatch i) \<Rightarrow>
          (case handle_patch_policy_metadata e env i (patch_body body) t of (r, t) \<Rightarrow> (wire_reply RecordBody r, t))
      | Some (RouteDelete i) \<Rightarrow>
          (case handle_delete_policy_metadata env i t of (r, t) \<Rightarrow> (wire_reply (\<lambda>_. EmptyBody) r, t))
      | Some (RouteRevoke i app) \<Rightarrow>
          (case handle_revoke_allow_list_entry env i app t of (r, t) \<Rightarrow> (wire_reply (\<lambda>_. EmptyBody) r, t))
      | Some RouteGrant \<Rightarrow>
          (case handle_update_allow_list env (allow_body body) t of (r, t) \<Rightarrow> (wire_reply GrantedBody r, t))
      | Some RouteDecide \<Rightarrow> (wire_reply DecisionBody (handle_get_policy_decision e env (decide_body body) t), t))"

text \<open>The whole mux: the health and debug endpoints beside the policy routes.\<close>

definition pdp_mux ::
  "build_info \<Rightarrow> db_probe \<Rightarrow> string \<Rightarrow> policy_engine \<Rightarrow> pdp_env \<Rightarrow> string \<Rightarrow> string \<Rightarrow> pdp_body option \<Rightarrow> pdp_table \<Rightarrow>
   (nat \<times> pdp_body) \<times> pdp_table" where
  "pdp_mux b db name e env meth target body t =
     (let get = (\<lambda>r. (if is_get meth then r else (StatusMethodNotAllowed, EmptyBody), t)) in
      case path_segments (target_path target) of
        Some [''health''] \<Rightarrow> get (wire_reply InfoBody (health_handler ''policy-decision-point''))
      | Some [''debug''] \<Rightarrow> get (wire_reply InfoBody (pdp_debug_handler b (target_path target) meth))
      | Some [''debug'', ''db''] \<Rightarrow> get (wire_reply ReportBody (pdp_debug_db_handler db name))
      | _ \<Rightarrow> pdp_server e env meth target body t)"

section \<open>Matching\<close>

lemma fixed_routes:
  "pdp_route ''POST'' ''/api/v1/policy/metadata'' = Some RouteCreate"
  "pdp_route ''POST'' ''/api/v1/policy/update-allowlist'' = Some RouteGrant"
  "pdp_route ''POST'' ''/api/v1/policy/decide'' = Some RouteDecide"
  by (simp_all add: pdp_route_def path_segments_def match_route_def is_get_def)

lemma list_route:
  "pdp_route ''GET'' (''/api/v1/policy/metadata?schemaId='' @ query_escape i) = Some (RouteList i)"
proof -
  let ?p = "''/api/v1/policy/metadata''" and ?q = "''schemaId='' @ query_escape i"
  have t: "''/api/v1/policy/metadata?schemaId='' @ query_escape i = ?p @ CHR ''?'' # ?q" by simp
  have "CHR ''?'' \<notin> set ?p" by simp
  note sq = split_query [OF this, of ?q]
  have seg: "path_segments ?p = Some [''api'', ''v1'', ''policy'', ''metadata'']" by code_simp
  have "query_get (''schemaId'' @ ''='' @ query_escape i) ''schemaId'' = i"
    by (rule query_get_escaped) (simp, simp, simp, code_simp)
  then show ?thesis unfolding t pdp_route_def Let_def sq [THEN conjunct1] sq [THEN conjunct2] seg
    by (simp add: match_route_def is_get_def)
qed

lemma plain_segments:
  "map (unescape False) [''api'', ''v1'', ''policy'', ''metadata''] = map Some [''api'', ''v1'', ''policy'', ''metadata'']"
  "unescape False ''allowlist'' = Some ''allowlist''"
  by code_simp+

lemma record_route:
  assumes "segment_ok i"
  shows "pdp_route ''PATCH'' (''/api/v1/policy/metadata/'' @ path_escape i) = Some (RoutePatch i)"
    and "pdp_route ''DELETE'' (''/api/v1/policy/metadata/'' @ path_escape i) = Some (RouteDelete i)"
proof -
  let ?segs = "[''api'', ''v1'', ''policy'', ''metadata'', path_escape i]"
  have p: "''/api/v1/policy/metadata/'' @ path_escape i = join_on (CHR ''/'') ('''' # ?segs)" by simp
  have "path_segments (join_on (CHR ''/'') ('''' # ?segs)) = Some [''api'', ''v1'', ''policy'', ''metadata'', i]"
    by (rule path_segments_join) (use assms path_escape_plain(1) [of i] plain_segments in \<open>simp_all add: segment_ok_def [of "_ # _"]\<close>)
  moreover have "CHR ''?'' \<notin> set (''/api/v1/policy/metadata/'' @ path_escape i)" using path_escape_plain(2) [of i] by simp
  note take_path [OF this]
  ultimately show "pdp_route ''PATCH'' (''/api/v1/policy/metadata/'' @ path_escape i) = Some (RoutePatch i)"
    "pdp_route ''DELETE'' (''/api/v1/policy/metadata/'' @ path_escape i) = Some (RouteDelete i)"
    unfolding pdp_route_def Let_def by (simp_all only: p) (simp_all add: match_route_def)
qed

lemma revoke_route:
  assumes "segment_ok i" "segment_ok app"
  shows "pdp_route ''DELETE'' (''/api/v1/policy/metadata/'' @ path_escape i @ ''/allowlist/'' @ path_escape app) = Some (RouteRevoke i app)"
proof -
  let ?segs = "[''api'', ''v1'', ''policy'', ''metadata'', path_escape i, ''allowlist'', path_escape app]"
  let ?t = "''/api/v1/policy/metadata/'' @ path_escape i @ ''/allowlist/'' @ path_escape app"
  have p: "?t = join_on (CHR ''/'') ('''' # ?segs)" by simp
  have "path_segments (join_on (CHR ''/'') ('''' # ?segs)) = Some [''api'', ''v1'', ''policy'', ''metadata'', i, ''allowlist'', app]"
    by (rule path_segments_join)
      (use assms path_escape_plain(1) [of i] path_escape_plain(1) [of app] plain_segments in \<open>simp_all add: segment_ok_def [of "_ # _"]\<close>)
  moreover have "CHR ''?'' \<notin> set ?t" using path_escape_plain(2) [of i] path_escape_plain(2) [of app] by simp
  note take_path [OF this]
  ultimately show ?thesis unfolding pdp_route_def Let_def by (simp_all only: p) (simp add: match_route_def)
qed

end
