(* ===== verification/PB_System.thy ===== *)
theory PB_System
  imports PB_Saga_Facts PDP_Routes PDP_Properties
begin

text \<open>
  The Portal Backend together with the Policy Decision Point: the backend's client over a
  transport that reaches the decision point's server. What the client of an allow-list relies on
  is an interface; the modelled decision point provides it.
\<close>

section \<open>The transport\<close>

text \<open>
  The world outside the database: the decision point's table and the identity provider. The texts
  of a body and of an error are parameters.
\<close>

record 'i outside =
  ox_pdp :: pdp_table
  ox_idp :: 'i

record wire_texts =
  wt_body :: "pdp_body \<Rightarrow> string"
  wt_error :: "pdp_error message \<Rightarrow> string"

definition pdp_base_url :: string where "pdp_base_url = ''http://pdp''"

definition wrong_body :: "string + 'a" where "wrong_body = Inl ''not the expected body''"

definition pdp_pb_link :: "wire_texts \<Rightarrow> policy_engine \<Rightarrow> pdp_env \<Rightarrow> (pdp_body, 'i outside) pdp_link" where
  "pdp_pb_link wtx e env =
     \<lparr>pl_base_url = pdp_base_url, pl_create_body = (\<lambda>r. Inr (CreateBody r)), pl_allow_body = (\<lambda>r. Inr (AllowBody r)),
      pl_patch_body = (\<lambda>r. Inr (PatchBody r)), pl_new_request = (\<lambda>_ _. Inr ()),
      pl_do = (\<lambda>meth url body x.
        case pdp_server e env meth (drop (length pdp_base_url) url) body (ox_pdp x) of
          (ans, t) \<Rightarrow> (Inr ans, x\<lparr>ox_pdp := t\<rparr>)),
      pl_text = wt_body wtx,
      pl_error_of = (\<lambda>b. case b of ErrorBody m \<Rightarrow> wt_error wtx m | _ \<Rightarrow> ''''),
      pl_records = (\<lambda>b. case b of RecordsBody rs \<Rightarrow> Inr rs | _ \<Rightarrow> wrong_body),
      pl_record = (\<lambda>b. case b of RecordBody r \<Rightarrow> Inr r | _ \<Rightarrow> wrong_body),
      pl_granted = (\<lambda>b. case b of GrantedBody rs \<Rightarrow> Inr rs | _ \<Rightarrow> wrong_body)\<rparr>"

text \<open>An identity provider does not touch the decision point.\<close>

definition outside_idp :: "'i application_manager \<Rightarrow> 'i outside application_manager" where
  "outside_idp idp =
     \<lparr>am_create = (\<lambda>app x. case am_create idp app (ox_idp x) of (r, i) \<Rightarrow> (r, x\<lparr>ox_idp := i\<rparr>)),
      am_delete = (\<lambda>a x. case am_delete idp a (ox_idp x) of (r, i) \<Rightarrow> (r, x\<lparr>ox_idp := i\<rparr>))\<rparr>"

section \<open>The client's calls at the server\<close>

lemma send_pdp_server:
  "send_pdp (pdp_pb_link wtx e env) meth path body x =
     (case body of
        Some (Inl m) \<Rightarrow> (Inl (plain_error (''failed to marshal request: '' @ m)), x)
      | _ \<Rightarrow> (case pdp_server e env meth path (map_option projr body) (ox_pdp x) of
                (ans, t) \<Rightarrow> (Inr ans, x\<lparr>ox_pdp := t\<rparr>)))"
  by (auto simp: send_pdp_def pdp_pb_link_def split: option.splits sum.splits prod.splits)

lemma link_sel [simp]:
  "pl_create_body (pdp_pb_link wtx e env) = (\<lambda>r. Inr (CreateBody r))"
  "pl_allow_body (pdp_pb_link wtx e env) = (\<lambda>r. Inr (AllowBody r))"
  "pl_patch_body (pdp_pb_link wtx e env) = (\<lambda>r. Inr (PatchBody r))"
  "pl_records (pdp_pb_link wtx e env) = (\<lambda>b. case b of RecordsBody rs \<Rightarrow> Inr rs | _ \<Rightarrow> wrong_body)"
  "pl_record (pdp_pb_link wtx e env) = (\<lambda>b. case b of RecordBody r \<Rightarrow> Inr r | _ \<Rightarrow> wrong_body)"
  "pl_granted (pdp_pb_link wtx e env) = (\<lambda>b. case b of GrantedBody rs \<Rightarrow> Inr rs | _ \<Rightarrow> wrong_body)"
  "pl_text (pdp_pb_link wtx e env) = wt_body wtx"
  "pl_error_of (pdp_pb_link wtx e env) = (\<lambda>b. case b of ErrorBody m \<Rightarrow> wt_error wtx m | _ \<Rightarrow> '''')"
  by (simp_all add: pdp_pb_link_def)

lemma wrong_body_neq [simp]: "wrong_body \<noteq> Inr v"
  by (simp add: wrong_body_def)

lemma server_grant:
  "pdp_server e env ''POST'' ''/api/v1/policy/update-allowlist'' body t =
     (case handle_update_allow_list env (allow_body body) t of (r, t) \<Rightarrow> (wire_reply GrantedBody r, t))"
  by (simp add: pdp_server_def fixed_routes)

lemma server_create:
  "pdp_server e env ''POST'' ''/api/v1/policy/metadata'' body t =
     (case handle_create_policy_metadata e env (create_body body) t of (r, t) \<Rightarrow> (wire_reply RecordsBody r, t))"
  by (simp add: pdp_server_def fixed_routes)

lemma link_allow_list:
  assumes "client_update_allow_list (pdp_pb_link wtx e env) req x = (Inr recs, x')"
  shows "update_allow_list env req (ox_pdp x) = (Inr recs, ox_pdp x') \<and> ox_idp x' = ox_idp x"
  using assms
  by (auto simp: client_update_allow_list_def post_pdp_def send_pdp_server server_grant
      handle_update_allow_list_def allow_body_def wire_reply_def parse_answer_def reply_defs
      split: prod.splits sum.splits if_splits pdp_body.splits)

lemma link_allow_list_runs:
  "update_allow_list env req (ox_pdp x) = (Inr recs, t') \<Longrightarrow>
   client_update_allow_list (pdp_pb_link wtx e env) req x = (Inr recs, x\<lparr>ox_pdp := t'\<rparr>)"
  by (simp add: client_update_allow_list_def post_pdp_def send_pdp_server server_grant
      handle_update_allow_list_def allow_body_def wire_reply_def parse_answer_def reply_defs)

lemma link_create:
  assumes "client_create_metadata (pdp_pb_link wtx e env) req x = (Inr recs, x')"
  shows "create_policy_metadata e env req (ox_pdp x) = (Inr recs, ox_pdp x') \<and> ox_idp x' = ox_idp x"
  using assms
  by (auto simp: client_create_metadata_def post_pdp_def send_pdp_server server_create
      handle_create_policy_metadata_def create_body_def wire_reply_def parse_answer_def reply_defs
      split: prod.splits sum.splits if_splits pdp_error.splits pdp_body.splits)

lemma link_create_runs:
  "create_policy_metadata e env req (ox_pdp x) = (Inr recs, t') \<Longrightarrow> trim_space (mc_schema_id req) \<noteq> '''' \<Longrightarrow>
   client_create_metadata (pdp_pb_link wtx e env) req x = (Inr recs, x\<lparr>ox_pdp := t'\<rparr>)"
  by (simp add: client_create_metadata_def post_pdp_def send_pdp_server server_create
      handle_create_policy_metadata_def create_body_def wire_reply_def parse_answer_def reply_defs)

lemma link_keeps_idp: "link_keeps (pdp_pb_link wtx e env) (\<lambda>x. f (ox_idp x))"
  by (auto simp: link_keeps_def pdp_pb_link_def split: prod.splits)

text \<open>The calls on one record reach the handler with the ids they were given.\<close>

definition client_result ::
  "wire_texts \<Rightarrow> 'b \<Rightarrow> 'i outside \<Rightarrow> 'b pdp_reply \<times> pdp_table \<Rightarrow> (pb_error + 'b) \<times> 'i outside" where
  "client_result wtx nothing x r =
     ((case fst r of
         Success n v \<Rightarrow> Inr v
       | NoBody n \<Rightarrow> Inr nothing
       | Failure n m \<Rightarrow> Inl (pdp_status_error n
           (if wt_error wtx m \<noteq> '''' then wt_error wtx m else trim_space (wt_body wtx (ErrorBody m))))),
      x\<lparr>ox_pdp := snd r\<rparr>)"

lemma link_list:
  "client_list_metadata (pdp_pb_link wtx e env) i x = client_result wtx [] x (handle_list_policy_metadata env i (ox_pdp x), ox_pdp x)"
  by (simp add: client_list_metadata_def do_request_def send_pdp_server pdp_server_def list_route [simplified] client_result_def
      handle_list_policy_metadata_def respond_with_policy_service_error_def wire_reply_def parse_answer_def reply_defs
      split: sum.split pdp_error.split)

lemma patch_reply:
  "case fst (handle_patch_policy_metadata e env i b t) of Success n v \<Rightarrow> n = 200 | Failure n m \<Rightarrow> n \<noteq> 200 | NoBody n \<Rightarrow> False"
  by (auto simp: handle_patch_policy_metadata_def respond_with_policy_service_error_def reply_defs
      split: option.split sum.split prod.split pdp_error.split)

lemma link_patch:
  assumes "segment_ok i"
  shows "client_patch_metadata (pdp_pb_link wtx e env) i req x =
    client_result wtx nothing x (handle_patch_policy_metadata e env i (Some req) (ox_pdp x))"
  using patch_reply [of e env i "Some req" "ox_pdp x"]
  by (cases "handle_patch_policy_metadata e env i (Some req) (ox_pdp x)")
    (auto simp: client_patch_metadata_def do_request_def send_pdp_server pdp_server_def record_route [OF assms, simplified] client_result_def
      patch_body_def wire_reply_def parse_answer_def split: reply.splits)

lemma delete_reply:
  "case fst (handle_delete_policy_metadata env i t) of Success n v \<Rightarrow> False | Failure n m \<Rightarrow> n \<noteq> 204 | NoBody n \<Rightarrow> n = 204"
  by (auto simp: handle_delete_policy_metadata_def respond_with_policy_service_error_def reply_defs
      split: sum.split prod.split pdp_error.split)

lemma link_delete:
  assumes "segment_ok i"
  shows "client_delete_metadata (pdp_pb_link wtx e env) i x = client_result wtx () x (handle_delete_policy_metadata env i (ox_pdp x))"
  using delete_reply [of env i "ox_pdp x"]
  by (cases "handle_delete_policy_metadata env i (ox_pdp x)")
    (auto simp: client_delete_metadata_def do_request_def send_pdp_server pdp_server_def record_route [OF assms, simplified] client_result_def
      wire_reply_def parse_answer_def split: reply.splits)

lemma revoke_reply:
  "case fst (handle_revoke_allow_list_entry env i app t) of Success n v \<Rightarrow> False | Failure n m \<Rightarrow> n \<noteq> 204 | NoBody n \<Rightarrow> n = 204"
  by (auto simp: handle_revoke_allow_list_entry_def respond_with_policy_service_error_def reply_defs Let_def
      split: sum.split prod.split pdp_error.split)

lemma link_revoke:
  assumes "segment_ok i" "segment_ok app"
  shows "client_revoke_entry (pdp_pb_link wtx e env) i app x =
    client_result wtx () x (handle_revoke_allow_list_entry env i app (ox_pdp x))"
  using revoke_reply [of env i app "ox_pdp x"]
  by (cases "handle_revoke_allow_list_entry env i app (ox_pdp x)")
    (auto simp: client_revoke_entry_def do_request_def send_pdp_server pdp_server_def revoke_route [OF assms, simplified] client_result_def
      wire_reply_def parse_answer_def split: reply.splits)

section \<open>The interface of an allow-list\<close>

text \<open>
  A successful update grants every record of the request for the duration it names. \<open>ok\<close> is
  what the service's state and the records must satisfy; an update keeps it.
\<close>

locale allow_list_provider =
  fixes link :: "('b, 'x) pdp_link"
    and ok :: "'x \<Rightarrow> field_request list \<Rightarrow> bool"
    and granted :: "'x \<Rightarrow> string \<Rightarrow> string \<Rightarrow> field_request \<Rightarrow> bool"
  assumes grants: "client_update_allow_list link req x = (Inr recs, x') \<Longrightarrow> ok x (au_records req) \<Longrightarrow>
      r \<in> set (au_records req) \<Longrightarrow> granted x' (au_grant_duration req) (au_application_id req) r"
    and keeps: "client_update_allow_list link req x = (Inr recs, x') \<Longrightarrow> ok x (au_records req) \<Longrightarrow> ok x' (au_records req)"
begin

lemma created_granted:
  assumes "create_application env link idp req st = (Inr v, st')" "ok (pb_ext st) (ca_fields req)"
    and idp: "\<And>app x r x'. am_create idp app x = (r, x') \<Longrightarrow> ok x (ca_fields req) \<Longrightarrow> ok x' (ca_fields req)"
  shows "\<exists>a client. pb_apps st' = pb_apps st @ [a] \<and> ap_id a = ar_id v \<and> ap_member_id a = ca_member_id req \<and>
    ap_fields a = ca_fields req \<and> ap_client_id a = Some client \<and> ar_client_id v = Some client \<and>
    ok (pb_ext st') (ca_fields req) \<and> (\<forall>r \<in> set (ca_fields req). granted (pb_ext st') PbGrantOneMonth client r)"
  using assms(1)
proof (rule create_application_success)
  fix idp_id client secret x y
  let ?a = "new_application env req idp_id (Some client)"
  assume apps: "pb_apps st' = pb_apps st @ [?a]" and v: "v = application_response_of secret ?a"
    and call: "client_update_allow_list link
      \<lparr>au_application_id = client, au_records = ca_fields req, au_grant_duration = PbGrantOneMonth\<rparr> x = (Inr y, pb_ext st')"
    and p: "provision_client env idp req st = (Inr (idp_id, Some client, secret), st\<lparr>pb_ext := x\<rparr>)"
  have "ok x (ca_fields req)"
  proof (cases "externally_provisioned req")
    case True
    with p have "pb_ext st = x" by (auto simp: provision_client_def dest: arg_cong [of _ _ pb_ext])
    with assms(2) show ?thesis by simp
  next
    case False
    with p obtain app r where c: "am_create idp app (pb_ext st) = (r, x)"
      by (auto simp: provision_client_def split: sum.splits prod.splits dest!: arg_cong [of _ _ pb_ext])
    from idp [OF c assms(2)] show ?thesis .
  qed
  then show ?thesis
    using apps v grants [OF call] keeps [OF call] by (auto simp: new_application_def application_response_of_def)
qed

lemma policy_update_granted:
  assumes "update_application_policy env link i req st = (Inr v, st')" "ok (pb_ext st) (up_fields req)"
  shows "\<exists>client. ar_client_id v = Some client \<and> ok (pb_ext st') (up_fields req) \<and>
    (\<forall>r \<in> set (up_fields req). granted (pb_ext st') (patched (up_grant_duration req) PbGrantOneMonth) client r)"
proof -
  obtain a client y x where a: "find_application env PbLoadApplication i st = Inr a" "ap_client_id a = Some client"
    and call: "client_update_allow_list link \<lparr>au_application_id = client, au_records = up_fields req,
        au_grant_duration = patched (up_grant_duration req) PbGrantOneMonth\<rparr> (pb_ext st) = (Inr y, x)"
    and x: "pb_ext st' = x" "ar_client_id v = Some client"
    using assms(1)
    by (auto simp: update_application_policy_def application_response_of_def Let_def
        split: sum.splits option.splits prod.splits)
  then show ?thesis using assms(2) grants [OF call] keeps [OF call] by auto
qed

lemma approved_granted:
  assumes "update_app_submission env link idp i req st = (Inr v, st')" "uas_status req = Some KernelStatusApproved"
    and "ok (pb_ext st) (asr_fields v)"
    and idp: "\<And>app x r x'. am_create idp app x = (r, x') \<Longrightarrow> ok x (asr_fields v) \<Longrightarrow> ok x' (asr_fields v)"
  shows "\<exists>a client. pb_apps st' = pb_apps st @ [a] \<and> ap_member_id a = asr_member_id v \<and>
    ap_fields a = asr_fields v \<and> ap_client_id a = Some client \<and>
    ok (pb_ext st') (asr_fields v) \<and> (\<forall>r \<in> set (asr_fields v). granted (pb_ext st') PbGrantOneMonth client r)"
proof -
  obtain s st1 where s: "v = app_submission_response_of s" "save_app_submission env PbSaveSubmission s st = Inr st1"
    and c: "\<exists>w. create_application (later 1 env) link idp (application_request_of s) st1 = (Inr w, st')"
    using assms(1,2)
    by (auto simp: update_app_submission_def Let_def split: sum.splits prod.splits)
  have st1: "pb_apps st1 = pb_apps st" "pb_ext st1 = pb_ext st"
    using s(2) by (auto simp: save_app_submission_def bind_res_Inr_iff)
  from c obtain w where c: "create_application (later 1 env) link idp (application_request_of s) st1 = (Inr w, st')" ..
  have fs: "ca_fields (application_request_of s) = asr_fields v" "ca_member_id (application_request_of s) = asr_member_id v"
    by (simp_all add: s(1) application_request_of_def app_submission_response_of_def)
  show ?thesis
    using created_granted [OF c, unfolded fs st1] assms(3) idp by auto
qed

end

section \<open>The decision point provides it\<close>

definition pdp_ready :: "'i outside \<Rightarrow> field_request list \<Rightarrow> bool" where
  "pdp_ready x fs \<longleftrightarrow> pdp_inv rego_engine (ox_pdp x) \<and> schema_ids_ok (ox_pdp x) \<and>
     list_all (\<lambda>r. colon_free (fr_schema_id r)) fs"

text \<open>Every field has a row that grants it to the application for the duration.\<close>

definition granted_for :: "pdp_env \<Rightarrow> 'i outside \<Rightarrow> string \<Rightarrow> string \<Rightarrow> field_request \<Rightarrow> bool" where
  "granted_for penv x duration app r \<longleftrightarrow>
     (case grant_expiry (pe_clock penv 0) duration of
        None \<Rightarrow> False
      | Some until \<Rightarrow> \<exists>pm \<in> set (ox_pdp x). names_field r pm \<and>
          pm_policy_class pm \<in> {ClassAllowlist, ClassAllowlistConsent} \<and> grant_valid until app pm)"

interpretation pdp_allow_list: allow_list_provider "pdp_pb_link wtx rego_engine penv" pdp_ready "granted_for penv"
  for wtx penv
proof (unfold_locales, goal_cases)
  case (1 req x recs x' r)
  note run = link_allow_list [OF 1(1), THEN conjunct1]
  have ne: "au_records req \<noteq> []" using 1(3) by auto
  with run obtain until where x: "grant_expiry (pe_clock penv 0) (au_grant_duration req) = Some until"
    by (auto simp: update_allow_list_def split: option.splits)
  have "\<forall>r \<in> set (au_records req). colon_free (fr_schema_id r)" using 1(2) by (simp add: pdp_ready_def list_all_iff)
  with granted_rows(3) [OF _ _ this run ne x] 1(2,3) show ?case
    by (fastforce simp: granted_for_def x pdp_ready_def grant_valid_def)
next
  case (2 req x recs x')
  note run = link_allow_list [OF 2(1), THEN conjunct1]
  show ?case
  proof (cases "au_records req = []")
    case True
    with run have "ox_pdp x' = ox_pdp x" by (simp add: update_allow_list_def)
    with 2(2) show ?thesis by (simp add: pdp_ready_def)
  next
    case False
    with run obtain until where x: "grant_expiry (pe_clock penv 0) (au_grant_duration req) = Some until"
      by (auto simp: update_allow_list_def split: option.splits)
    have "\<forall>r \<in> set (au_records req). colon_free (fr_schema_id r)" using 2(2) by (simp add: pdp_ready_def list_all_iff)
    with granted_rows(1,2) [OF _ _ this run False x] 2(2) show ?thesis by (simp add: pdp_ready_def)
  qed
qed

lemma outside_idp_ready:
  "am_create (outside_idp idp) app x = (r, x') \<Longrightarrow> pdp_ready x fs \<Longrightarrow> pdp_ready x' fs"
  by (auto simp: outside_idp_def pdp_ready_def split: prod.splits)

text \<open>What the grants mean to a decision.\<close>

lemma granted_for_decides:
  assumes "pdp_ready x fs" "\<forall>r \<in> set fs. granted_for penv x duration app r"
    and "grant_expiry (pe_clock penv 0) duration = Some until"
    and "dr_application_id dreq = app" "set (dr_required_fields dreq) \<subseteq> set fs"
    and "\<forall>n. pe_clock denv n \<le> until" "\<not> pe_fails denv FetchMetadata"
  shows "\<exists>d. get_policy_decision rego_engine denv dreq (ox_pdp x) = Inr d \<and> ds_app_authorized d \<and> \<not> ds_app_access_expired d"
proof (rule granted_fields_decide [where x = until])
  show "request_colon_free dreq"
    using assms(1,5) by (auto simp: pdp_ready_def request_colon_free_def list_all_iff)
  show "\<forall>r \<in> set (dr_required_fields dreq). \<exists>pm \<in> set (ox_pdp x). names_field r pm \<and>
      pm_policy_class pm \<in> {ClassAllowlist, ClassAllowlistConsent} \<and> grant_valid until (dr_application_id dreq) pm"
    using assms(2-5) by (auto simp: granted_for_def)
qed (use assms in \<open>simp_all add: pdp_ready_def\<close>)

text \<open>A grant takes no entry of an allow-list away.\<close>

lemma grants_survive:
  assumes ok: "table_ok pm_clash t" "schema_ids_ok t" and cf: "\<forall>r \<in> set (au_records req). colon_free (fr_schema_id r)"
    and run: "update_allow_list env req t = (Inr resp, t')" and pm: "pm \<in> set t" "pm_allow_list pm app \<noteq> None"
  shows "\<exists>pm' \<in> set t'. pm_key pm' = pm_key pm \<and> pm_allow_list pm' app \<noteq> None"
proof (cases "au_records req = []")
  case True
  with run have "t' = t" by (simp add: update_allow_list_def)
  with pm show ?thesis by blast
next
  case False
  obtain x where t': "t' = granted_table (au_application_id req) x (pe_clock env 0) (au_records req) t"
    using update_allow_list_granted [OF ok cf run False] by blast
  let ?f = "\<lambda>r. if list_ex (\<lambda>q. names_field q r) (au_records req)
    then grant_row (au_application_id req) x (pe_clock env 0) r else r"
  have "?f pm \<in> set t'" using pm(1) unfolding t' granted_table_def by (auto simp: sql_update_def)
  then show ?thesis using pm(2) by (intro bexI [of _ "?f pm"]) (auto simp: grant_row_def pm_key_def)
qed

section \<open>A schema's policy metadata\<close>

text \<open>The records a request for a schema stands for, given directly or derived from its SDL.\<close>

definition request_records :: "sdl_lib \<Rightarrow> string \<Rightarrow> create_schema_request \<Rightarrow> create_record list \<Rightarrow> bool" where
  "request_records lib i req records \<longleftrightarrow>
     (if cs_fields req \<noteq> [] then records = cs_fields req
      else parse_sdl_to_policy_request lib i (cs_sdl req) = Some (Inr \<lparr>mc_schema_id = i, mc_records = records\<rparr>))"

lemma parse_schema_id:
  assumes "parse_sdl_to_policy_request lib i sdl = Some (Inr req)"
  shows "mc_schema_id req = i"
proof (cases "sl_load lib sdl")
  case (Inr s)
  show ?thesis
  proof (cases "type_records lib s (sdl_fuel s) (gs_types s)")
    case (Some r)
    with Inr assms show ?thesis by (cases r) (auto simp: parse_sdl_to_policy_request_def)
  qed (use Inr assms in \<open>simp add: parse_sdl_to_policy_request_def\<close>)
qed (use assms in \<open>simp add: parse_sdl_to_policy_request_def\<close>)

lemma register_metadata_Inr:
  assumes "register_metadata link lib i req x = Some (Inr rs, x')"
  obtains records where "request_records lib i req records"
    "client_create_metadata link \<lparr>mc_schema_id = i, mc_records = records\<rparr> x = (Inr rs, x')"
proof (cases "cs_fields req = []")
  case True
  then obtain q where "parse_sdl_to_policy_request lib i (cs_sdl req) = Some (Inr q)"
      "client_create_metadata link q x = (Inr rs, x')"
    using assms by (auto simp: register_metadata_def client_create_from_sdl_def split: option.splits sum.splits)
  moreover from this(1) have "q = \<lparr>mc_schema_id = i, mc_records = mc_records q\<rparr>" by (simp add: parse_schema_id)
  ultimately show thesis using that [of "mc_records q"] True by (simp add: request_records_def)
next
  case False
  with assms that show thesis by (simp add: register_metadata_def client_create_from_records_def request_records_def)
qed

lemma create_schema_success:
  assumes "create_schema env link lib req st = (Some (Inr v), st')"
  obtains i rs where "pb_schemas st' = pb_schemas st @ [new_schema env i req]" "v = schema_response_of (new_schema env i req)"
    "sr_schema_id v = i" "register_metadata link lib i req (pb_ext st) = Some (Inr rs, pb_ext st')"
proof -
  let ?i = "if cs_id req \<noteq> '''' then cs_id req else pv_uuid env 0"
  let ?s = "new_schema env ?i req"
  obtain t where t: "db_create env PbCreateSchema schema_clash ?s (pb_schemas st) = Inr t"
    using assms by (auto simp: create_schema_def Let_def split: if_splits sum.splits)
  obtain rs where rs: "register_metadata link lib ?i req (pb_ext st) = Some (Inr rs, pb_ext st')"
    and st': "st' = st\<lparr>pb_schemas := t, pb_ext := pb_ext st'\<rparr>" and v: "v = schema_response_of ?s"
    using assms t by (auto simp: create_schema_def Let_def split: if_splits option.splits sum.splits prod.splits)
  have "pb_schemas st' = t" by (subst st') simp
  then show thesis
    using that [of ?i rs] rs v db_create_Inr [OF t] by (simp add: schema_response_of_def new_schema_def)
qed

end
