(* ===== verification/PB_Sdl_Facts.thy ===== *)
theory PB_Sdl_Facts
  imports PB_Policy
begin

text \<open>
  The policy metadata of an SDL: the parser against a reference that says which fields a schema
  has, and the fuel of its recursion.
\<close>

section \<open>The fields of a schema\<close>

definition descends :: "gql_schema \<Rightarrow> gql_type \<Rightarrow> type_def option" where
  "descends s ty =
     (if is_built_in_type (get_base_type_name ty) then None else map_of (gs_types s) (get_base_type_name ty))"

text \<open>The fields below a field of the type \<open>ty\<close> at a path, and the fields of the schema.\<close>

inductive field_below :: "gql_schema \<Rightarrow> string \<Rightarrow> gql_type \<Rightarrow> string \<Rightarrow> field_def \<Rightarrow> bool" for s where
  own: "descends s ty = Some def \<Longrightarrow> f \<in> set (td_fields def) \<Longrightarrow> field_below s base ty (base @ ''.'' @ fd_name f) f"
| deeper: "descends s ty = Some def \<Longrightarrow> f \<in> set (td_fields def) \<Longrightarrow>
    field_below s (base @ ''.'' @ fd_name f) (fd_type f) p g \<Longrightarrow> field_below s base ty p g"

definition schema_field :: "gql_schema \<Rightarrow> (string \<times> type_def) list \<Rightarrow> string \<Rightarrow> field_def \<Rightarrow> bool" where
  "schema_field s ts p g \<longleftrightarrow>
     (\<exists>(name, def) \<in> set ts. \<not> is_built_in_type name \<and> \<not> is_root_type name \<and>
        (\<exists>f \<in> set (td_fields def). p = build_field_path name (fd_name f) \<and> g = f \<or>
           field_below s (build_field_path name (fd_name f)) (fd_type f) p g))"

text \<open>A result covers the fields of \<open>F\<close>: all their records, or the error of one of them.\<close>

definition covers :: "sdl_lib \<Rightarrow> (string \<Rightarrow> field_def \<Rightarrow> bool) \<Rightarrow> string + create_record list \<Rightarrow> bool" where
  "covers lib F res =
     (case res of
        Inl e \<Rightarrow> \<exists>p f. F p f \<and> create_record_from_field lib p f = Inl e
      | Inr rs \<Rightarrow> (\<forall>p f. F p f \<longrightarrow> \<not> isl (create_record_from_field lib p f)) \<and>
          set rs = {r. \<exists>p f. F p f \<and> create_record_from_field lib p f = Inr (Some r)})"

lemma covers_none: "covers lib (\<lambda>_ _. False) (Inr [])"
  by (simp add: covers_def)

lemma covers_one:
  "create_record_from_field lib p0 f0 = Inr entry \<Longrightarrow>
   covers lib (\<lambda>p f. p = p0 \<and> f = f0) (Inr (case entry of None \<Rightarrow> [] | Some r \<Rightarrow> [r]))"
  by (auto simp: covers_def split: option.split)

lemma covers_refused: "create_record_from_field lib p f = Inl e \<Longrightarrow> F p f \<Longrightarrow> covers lib F (Inl e)"
  by (auto simp: covers_def)

lemma covers_more: "covers lib F (Inl e) \<Longrightarrow> (\<And>p f. F p f \<Longrightarrow> G p f) \<Longrightarrow> covers lib G (Inl e)"
  by (auto simp: covers_def)

lemma covers_both:
  "covers lib F (Inr rs) \<Longrightarrow> covers lib G (Inr rs') \<Longrightarrow> covers lib (\<lambda>p f. F p f \<or> G p f) (Inr (rs @ rs'))"
  by (auto simp: covers_def)

lemma covers_cong:
  assumes "\<And>p f. F p f \<longleftrightarrow> G p f"
  shows "covers lib F res = covers lib G res"
proof -
  have "F = G" using assms by (intro ext)
  then show ?thesis by simp
qed

lemma nested_fields_covers:
  assumes "nested_fields rc lib prefix fs = Some res"
    and "\<And>f p r. f \<in> set fs \<Longrightarrow> rc p (fd_type f) = Some r \<Longrightarrow> covers lib (G p (fd_type f)) r"
  shows "covers lib (\<lambda>p g. \<exists>f \<in> set fs. p = prefix @ fd_name f \<and> g = f \<or> G (prefix @ fd_name f) (fd_type f) p g) res"
  using assms
proof (induction fs arbitrary: res)
  case Nil
  then have "Inr [] = res" by simp
  then show ?case using covers_none by (auto cong: covers_cong)
next
  case (Cons f fs)
  let ?p = "prefix @ fd_name f"
  let ?rest = "\<lambda>p g. \<exists>f \<in> set fs. p = prefix @ fd_name f \<and> g = f \<or> G (prefix @ fd_name f) (fd_type f) p g"
  show ?case
  proof (cases "create_record_from_field lib ?p f")
    case (Inl e)
    with Cons.prems(1) have "res = Inl e" by simp
    with covers_refused [OF Inl] show ?thesis by simp
  next
    case rec: (Inr entry)
    then obtain r1 where r1: "rc ?p (fd_type f) = Some r1"
      using Cons.prems(1) by (auto split: option.splits)
    have c1: "covers lib (G ?p (fd_type f)) r1" by (rule Cons.prems(2) [OF _ r1]) simp
    show ?thesis
    proof (cases r1)
      case (Inl e)
      with Cons.prems(1) rec r1 have "res = Inl e" by simp
      with covers_more [OF c1 [unfolded Inl]] show ?thesis by simp
    next
      case nested: (Inr nested)
      then obtain r2 where r2: "nested_fields rc lib prefix fs = Some r2"
        using Cons.prems(1) rec r1 by (auto split: option.splits)
      have c2: "covers lib ?rest r2" by (rule Cons.IH [OF r2]) (use Cons.prems(2) in simp)
      show ?thesis
      proof (cases r2)
        case (Inl e)
        with Cons.prems(1) rec r1 nested r2 have "res = Inl e" by simp
        moreover have "covers lib (\<lambda>p g. \<exists>f \<in> set (f # fs). p = prefix @ fd_name f \<and> g = f \<or> G (prefix @ fd_name f) (fd_type f) p g) (Inl e)"
          by (rule covers_more [OF c2 [unfolded Inl]]) auto
        ultimately show ?thesis by simp
      next
        case (Inr rest)
        with Cons.prems(1) rec r1 nested r2
        have "res = Inr ((case entry of None \<Rightarrow> [] | Some r \<Rightarrow> [r]) @ nested @ rest)" by simp
        with covers_both [OF covers_one [OF rec] covers_both [OF c1 [unfolded nested] c2 [unfolded Inr]]]
        show ?thesis by (simp add: disj_assoc)
      qed
    qed
  qed
qed

lemma field_below_iff:
  "field_below s base ty p g \<longleftrightarrow>
     (case descends s ty of None \<Rightarrow> False
      | Some def \<Rightarrow> \<exists>f \<in> set (td_fields def). p = (base @ ''.'') @ fd_name f \<and> g = f \<or>
          field_below s ((base @ ''.'') @ fd_name f) (fd_type f) p g)"
  by (subst field_below.simps) (auto split: option.split)

lemma process_nested_fields_covers:
  "process_nested_fields lib s n base ty = Some res \<Longrightarrow> covers lib (field_below s base ty) res"
proof (induction n arbitrary: base ty res)
  case (Suc n)
  show ?case
  proof (cases "descends s ty")
    case None
    then have "res = Inr []" using Suc.prems by (auto simp: descends_def Let_def split: option.splits if_splits)
    moreover have "covers lib (field_below s base ty) (Inr []) = covers lib (\<lambda>_ _. False) (Inr [])"
      by (rule covers_cong) (simp add: field_below_iff [of s base ty] None)
    ultimately show ?thesis using covers_none by simp
  next
    case (Some def)
    then have "nested_fields (process_nested_fields lib s n) lib (base @ ''.'') (td_fields def) = Some res"
      using Suc.prems by (auto simp: descends_def Let_def split: option.splits if_splits)
    then have c: "covers lib (\<lambda>p g. \<exists>f \<in> set (td_fields def).
        p = (base @ ''.'') @ fd_name f \<and> g = f \<or> field_below s ((base @ ''.'') @ fd_name f) (fd_type f) p g) res"
      by (rule nested_fields_covers [where G = "field_below s"]) (rule Suc.IH)
    have "covers lib (field_below s base ty) res = covers lib (\<lambda>p g. \<exists>f \<in> set (td_fields def).
        p = (base @ ''.'') @ fd_name f \<and> g = f \<or> field_below s ((base @ ''.'') @ fd_name f) (fd_type f) p g) res"
      by (rule covers_cong) (simp add: field_below_iff [of s base ty] Some)
    with c show ?thesis by blast
  qed
qed simp

lemma type_records_covers:
  "type_records lib s n ts = Some res \<Longrightarrow> covers lib (schema_field s ts) res"
proof (induction ts arbitrary: res)
  case Nil
  have "covers lib (schema_field s []) res = covers lib (\<lambda>_ _. False) res"
    by (rule covers_cong) (simp add: schema_field_def)
  with Nil covers_none show ?case by auto
next
  case (Cons t ts)
  obtain name def where t: "t = (name, def)" by (cases t)
  show ?case
  proof (cases "is_built_in_type name \<or> is_root_type name")
    case True
    then have "type_records lib s n ts = Some res" using Cons.prems t by simp
    moreover have "covers lib (schema_field s (t # ts)) res = covers lib (schema_field s ts) res"
      by (rule covers_cong) (use True in \<open>auto simp: t schema_field_def\<close>)
    ultimately show ?thesis using Cons.IH by simp
  next
    case False
    let ?F = "\<lambda>p g. \<exists>f \<in> set (td_fields def). p = build_field_path name (fd_name f) \<and> g = f \<or>
      field_below s (build_field_path name (fd_name f)) (fd_type f) p g"
    have split: "schema_field s (t # ts) p g \<longleftrightarrow> ?F p g \<or> schema_field s ts p g" for p g
      using False by (auto simp: schema_field_def t)
    obtain r1 where r1: "nested_fields (process_nested_fields lib s n) lib (build_field_path name '''') (td_fields def) = Some r1"
      using Cons.prems False by (auto simp: t split: option.splits)
    have "build_field_path name '''' @ x = build_field_path name x" for x by (simp add: build_field_path_def)
    with nested_fields_covers [where G = "field_below s", OF r1] process_nested_fields_covers
    have c1: "covers lib ?F r1" by simp
    show ?thesis
    proof (cases r1)
      case (Inl e)
      with Cons.prems False r1 have "res = Inl e" by (simp add: t)
      moreover have "covers lib (schema_field s (t # ts)) (Inl e)"
        by (rule covers_more [OF c1 [unfolded Inl]]) (simp add: split)
      ultimately show ?thesis by simp
    next
      case nested: (Inr records)
      then obtain r2 where r2: "type_records lib s n ts = Some r2"
        using Cons.prems False r1 by (auto simp: t split: option.splits)
      note c2 = Cons.IH [OF r2]
      show ?thesis
      proof (cases r2)
        case (Inl e)
        with Cons.prems False r1 nested r2 have "res = Inl e" by (simp add: t)
        moreover have "covers lib (schema_field s (t # ts)) (Inl e)"
          by (rule covers_more [OF c2 [unfolded Inl]]) (simp add: split)
        ultimately show ?thesis by simp
      next
        case (Inr rest)
        with Cons.prems False r1 nested r2 have "res = Inr (records @ rest)" by (simp add: t)
        moreover have "covers lib (schema_field s (t # ts)) (Inr (records @ rest)) =
            covers lib (\<lambda>p g. ?F p g \<or> schema_field s ts p g) (Inr (records @ rest))"
          by (rule covers_cong) (rule split)
        ultimately show ?thesis using covers_both [OF c1 [unfolded nested] c2 [unfolded Inr]] by simp
      qed
    qed
  qed
qed

section \<open>Fuel\<close>

lemma nested_fields_mono:
  assumes "\<And>p ty r. rc p ty = Some r \<Longrightarrow> rc' p ty = Some r" "nested_fields rc lib prefix fs = Some res"
  shows "nested_fields rc' lib prefix fs = Some res"
  using assms(2)
proof (induction fs arbitrary: res)
  case (Cons f fs)
  then show ?case
    by (auto simp: Let_def assms(1) split: sum.splits option.splits)
qed simp

lemma process_mono_Suc:
  "process_nested_fields lib s n base ty = Some r \<Longrightarrow> process_nested_fields lib s (Suc n) base ty = Some r"
proof (induction n arbitrary: base ty r)
  case (Suc n)
  show ?case
  proof (cases "descends s ty")
    case None
    then show ?thesis using Suc.prems by (auto simp: descends_def Let_def split: option.splits if_splits)
  next
    case (Some def)
    then have "nested_fields (process_nested_fields lib s n) lib (base @ ''.'') (td_fields def) = Some r"
      using Suc.prems by (auto simp: descends_def Let_def split: option.splits if_splits)
    from nested_fields_mono [OF Suc.IH this] Some show ?thesis
      by (auto simp: descends_def Let_def split: option.splits if_splits)
  qed
qed simp

lemma process_mono:
  assumes "process_nested_fields lib s n base ty = Some r" "n \<le> m"
  shows "process_nested_fields lib s m base ty = Some r"
  using assms(2,1) by (induction rule: dec_induct) (blast intro: process_mono_Suc)+

text \<open>Whether the recursion ends, and with an error, depends on the name of the type alone.\<close>

lemma refused_anywhere:
  "isl (create_record_from_field lib p f) = isl (create_record_from_field lib p' f)"
  by (simp add: create_record_from_field_def reject_removed_directives_def bind_res_def Let_def split: option.split)

lemma nested_fields_shape:
  assumes "\<And>p p' ty. map_option isl (rc p ty) = map_option isl (rc p' ty)"
  shows "map_option isl (nested_fields rc lib prefix fs) = map_option isl (nested_fields rc lib prefix' fs)"
proof (induction fs)
  case (Cons f fs)
  let ?c = "\<lambda>pr. create_record_from_field lib (pr @ fd_name f) f" and ?r = "\<lambda>pr. rc (pr @ fd_name f) (fd_type f)"
  note c = refused_anywhere [of lib "prefix @ fd_name f" f "prefix' @ fd_name f"]
  note r = assms [of "prefix @ fd_name f" "fd_type f" "prefix' @ fd_name f"]
  show ?case
  proof (cases "isl (?c prefix)")
    case True
    with c show ?thesis by (auto simp: isl_def)
  next
    case False
    with c obtain e e' where e: "?c prefix = Inr e" "?c prefix' = Inr e'" by (metis isl_def sum.exhaust)
    show ?thesis
    proof (cases "?r prefix")
      case None
      with r e show ?thesis by simp
    next
      case (Some x)
      with r obtain y where y: "?r prefix' = Some y" "isl x = isl y" by (cases "?r prefix'") auto
      show ?thesis
      proof (cases x)
        case (Inl a)
        with y obtain b where "y = Inl b" by (auto simp: isl_def)
        with e Some y Inl show ?thesis by simp
      next
        case (Inr a)
        with y obtain b where b: "y = Inr b" by (cases y) simp_all
        have eq: "map_option isl (nested_fields rc lib pr (f # fs)) = map_option isl (nested_fields rc lib pr fs)"
          if "?c pr = Inr e0" "?r pr = Some (Inr z)" for pr e0 z
          using that by (auto split: option.split sum.split)
        show ?thesis using eq [OF e(1)] eq [OF e(2)] Some Inr y(1) b Cons by simp
      qed
    qed
  qed
qed simp

lemma process_shape:
  assumes "get_base_type_name ty = get_base_type_name ty'"
  shows "map_option isl (process_nested_fields lib s n base ty) = map_option isl (process_nested_fields lib s n base' ty')"
  using assms
proof (induction n arbitrary: base base' ty ty')
  case (Suc n)
  have "map_option isl (nested_fields (process_nested_fields lib s n) lib (base @ ''.'') fs) =
      map_option isl (nested_fields (process_nested_fields lib s n) lib (base' @ ''.'') fs)" for fs
    by (rule nested_fields_shape) (rule Suc.IH, rule refl)
  with Suc.prems show ?case by (auto simp: Let_def split: option.split)
qed simp

lemma process_None_iff:
  "get_base_type_name ty = get_base_type_name ty' \<Longrightarrow>
   process_nested_fields lib s n base ty = None \<longleftrightarrow> process_nested_fields lib s n base' ty' = None"
  using process_shape [of ty ty' lib s n base base']
  by (cases "process_nested_fields lib s n base ty"; cases "process_nested_fields lib s n base' ty'") auto

text \<open>The types of the schema whose recursion ends within a number of levels.\<close>

definition ended :: "sdl_lib \<Rightarrow> gql_schema \<Rightarrow> nat \<Rightarrow> string set" where
  "ended lib s n = {name \<in> fst ` set (gs_types s). process_nested_fields lib s (Suc n) [] (NamedType name False) \<noteq> None}"

lemma undeclared_ends:
  "get_base_type_name ty \<notin> fst ` set (gs_types s) \<Longrightarrow> process_nested_fields lib s (Suc n) base ty = Some (Inr [])"
  by (simp add: Let_def map_of_eq_None_iff [THEN iffD2])

lemma ended_iff:
  "process_nested_fields lib s (Suc n) base ty \<noteq> None \<longleftrightarrow>
     get_base_type_name ty \<notin> fst ` set (gs_types s) \<or> get_base_type_name ty \<in> ended lib s n"
proof (cases "get_base_type_name ty \<in> fst ` set (gs_types s)")
  case True
  with process_None_iff [of ty "NamedType (get_base_type_name ty) False" lib s "Suc n" base "[]"]
  show ?thesis by (simp add: ended_def del: process_nested_fields.simps)
next
  case False
  with undeclared_ends [OF False] show ?thesis by (simp del: process_nested_fields.simps)
qed

lemma same_ended_same_result:
  assumes "ended lib s n = ended lib s (Suc n)"
  shows "process_nested_fields lib s (Suc n) = process_nested_fields lib s (Suc (Suc n))"
proof (intro ext)
  fix base ty
  show "process_nested_fields lib s (Suc n) base ty = process_nested_fields lib s (Suc (Suc n)) base ty"
  proof (cases "process_nested_fields lib s (Suc n) base ty")
    case None
    with ended_iff [of lib s n base ty] ended_iff [of lib s "Suc n" base ty] assms
    have "process_nested_fields lib s (Suc (Suc n)) base ty = None" by blast
    with None show ?thesis by simp
  next
    case (Some r)
    with process_mono_Suc [OF Some] show ?thesis by simp
  qed
qed

lemma process_Suc_cong:
  "process_nested_fields lib s n = process_nested_fields lib s m \<Longrightarrow>
   process_nested_fields lib s (Suc n) = process_nested_fields lib s (Suc m)"
  by (simp only: process_nested_fields.simps)

lemma ended_stable:
  assumes "ended lib s n = ended lib s (Suc n)"
  shows "ended lib s (Suc n) = ended lib s (Suc (Suc n))"
proof -
  have "process_nested_fields lib s (Suc (Suc n)) = process_nested_fields lib s (Suc (Suc (Suc n)))"
    by (rule process_Suc_cong [OF same_ended_same_result [OF assms]])
  then show ?thesis by (simp only: ended_def)
qed

lemma ended_all: "ended lib s (card (fst ` set (gs_types s))) = (\<Union>n. ended lib s n)"
proof (rule finite_mono_strict_prefix_implies_finite_fixpoint)
  show sub: "ended lib s i \<subseteq> fst ` set (gs_types s)" for i by (auto simp: ended_def)
  show "finite (fst ` set (gs_types s))" by simp
  have "mono (ended lib s)"
    unfolding mono_iff_le_Suc by (auto simp: ended_def simp del: process_nested_fields.simps dest: process_mono_Suc)
  moreover have "finite (range (ended lib s))"
    by (rule finite_subset [of _ "Pow (fst ` set (gs_types s))"]) (use sub in auto)
  ultimately show "\<exists>N. (\<forall>n\<le>N. \<forall>m\<le>N. m < n \<longrightarrow> ended lib s m \<subset> ended lib s n) \<and> (\<forall>n\<ge>N. ended lib s N = ended lib s n)"
    using finite_mono_remains_stable_implies_strict_prefix [of "ended lib s"] ended_stable by blast
qed

lemma process_fuel:
  assumes "process_nested_fields lib s n base ty = Some r"
  shows "process_nested_fields lib s (sdl_fuel s) base ty = Some r"
proof -
  obtain m where n: "n = Suc m" using assms by (cases n) auto
  let ?c = "card (fst ` set (gs_types s))"
  have "process_nested_fields lib s (Suc ?c) base ty \<noteq> None"
    using ended_iff [of lib s m base ty] ended_iff [of lib s ?c base ty] ended_all [of lib s] assms n by blast
  then obtain r' where r': "process_nested_fields lib s (Suc ?c) base ty = Some r'" by blast
  have "?c \<le> length (gs_types s)" by (metis card_image_le card_length finite_set le_trans)
  then have "process_nested_fields lib s (sdl_fuel s) base ty = Some r'"
    by (intro process_mono [OF r']) (simp add: sdl_fuel_def)
  moreover have "r' = r"
    using process_mono [OF assms, of "max n (Suc ?c)"] process_mono [OF r', of "max n (Suc ?c)"] by simp
  ultimately show ?thesis by simp
qed

text \<open>A result with any fuel is the result with the parser's.\<close>

lemma type_records_fuel:
  "type_records lib s n ts = Some r \<Longrightarrow> type_records lib s (sdl_fuel s) ts = Some r"
proof (induction ts arbitrary: r)
  case (Cons t ts)
  obtain name def where t: "t = (name, def)" by (cases t)
  show ?case
  proof (cases "is_built_in_type name \<or> is_root_type name")
    case True
    with Cons show ?thesis by (auto simp: t)
  next
    case False
    then obtain r1 where r1: "nested_fields (process_nested_fields lib s n) lib (build_field_path name '''') (td_fields def) = Some r1"
      using Cons.prems by (auto simp: t split: option.splits)
    have r1': "nested_fields (process_nested_fields lib s (sdl_fuel s)) lib (build_field_path name '''') (td_fields def) = Some r1"
      using process_fuel r1 by (rule nested_fields_mono)
    show ?thesis
    proof (cases r1)
      case (Inl e)
      with Cons.prems False r1 r1' show ?thesis by (auto simp: t)
    next
      case (Inr records)
      then obtain r2 where r2: "type_records lib s n ts = Some r2"
        using Cons.prems False r1 by (auto simp: t split: option.splits)
      with Cons.prems False r1 r1' Inr Cons.IH [OF r2] show ?thesis by (simp add: t split: sum.splits)
    qed
  qed
qed simp

section \<open>When the parser returns\<close>

text \<open>
  \<open>b\<close> is below \<open>a\<close> when a field of the type \<open>a\<close> has the type \<open>b\<close>. A type is accessible
  when every chain of types below it ends.
\<close>

definition type_refs :: "gql_schema \<Rightarrow> (string \<times> string) set" where
  "type_refs s = {(b, a). \<exists>def f. map_of (gs_types s) a = Some def \<and> \<not> is_built_in_type a \<and>
     f \<in> set (td_fields def) \<and> b = get_base_type_name (fd_type f)}"

definition no_refused_field :: "sdl_lib \<Rightarrow> gql_schema \<Rightarrow> bool" where
  "no_refused_field lib s \<longleftrightarrow>
     list_all (\<lambda>(_, def). list_all (\<lambda>f. \<not> isl (create_record_from_field lib [] f)) (td_fields def)) (gs_types s)"

lemma nested_fields_ends:
  "\<forall>f \<in> set fs. \<forall>p. rc p (fd_type f) \<noteq> None \<Longrightarrow> nested_fields rc lib prefix fs \<noteq> None"
proof (induction fs)
  case (Cons f fs)
  obtain r where "rc (prefix @ fd_name f) (fd_type f) = Some r" using Cons.prems by fastforce
  with Cons show ?case by (auto simp: Let_def split: sum.split option.split)
qed simp

lemma accessible_ends:
  "name \<in> Wellfounded.acc (type_refs s) \<Longrightarrow> get_base_type_name ty = name \<Longrightarrow>
   process_nested_fields lib s (sdl_fuel s) base ty \<noteq> None"
proof (induction arbitrary: ty base rule: acc.induct)
  case (accI name)
  have "process_nested_fields lib s (Suc (sdl_fuel s)) base ty \<noteq> None"
  proof (cases "descends s ty")
    case None
    then show ?thesis by (auto simp: descends_def Let_def split: option.splits if_splits)
  next
    case (Some def)
    have "process_nested_fields lib s (sdl_fuel s) p (fd_type f) \<noteq> None" if f: "f \<in> set (td_fields def)" for f p
    proof -
      have "(get_base_type_name (fd_type f), name) \<in> type_refs s"
        using Some f accI.prems by (auto simp: type_refs_def descends_def split: if_splits)
      from accI.IH [OF this refl] show ?thesis .
    qed
    then have "nested_fields (process_nested_fields lib s (sdl_fuel s)) lib (base @ ''.'') (td_fields def) \<noteq> None"
      by (intro nested_fields_ends) blast
    with Some show ?thesis by (auto simp: descends_def Let_def split: option.splits if_splits)
  qed
  then show ?case using process_fuel [of lib s "Suc (sdl_fuel s)" base ty] by blast
qed

lemma nested_fields_none_refused:
  assumes "nested_fields rc lib prefix fs = Some res" "\<forall>f \<in> set fs. \<not> isl (create_record_from_field lib [] f)"
    and "\<And>p ty r. rc p ty = Some r \<Longrightarrow> \<not> isl r"
  shows "\<not> isl res \<and> (\<forall>f \<in> set fs. \<exists>p. rc p (fd_type f) \<noteq> None)"
  using assms(1,2)
proof (induction fs arbitrary: res)
  case (Cons f fs)
  have "\<not> isl (create_record_from_field lib (prefix @ fd_name f) f)"
    using Cons.prems(2) refused_anywhere [of lib "prefix @ fd_name f" f "[]"] by simp
  then obtain e where e: "create_record_from_field lib (prefix @ fd_name f) f = Inr e" by (cases "create_record_from_field lib (prefix @ fd_name f) f") auto
  then obtain r1 where r1: "rc (prefix @ fd_name f) (fd_type f) = Some r1"
    using Cons.prems(1) by (auto split: option.splits)
  then obtain nested where nested: "r1 = Inr nested" using assms(3) [OF r1] by (cases r1) simp_all
  then obtain r2 where r2: "nested_fields rc lib prefix fs = Some r2"
    using Cons.prems(1) e r1 by (auto split: option.splits)
  have IH: "\<not> isl r2 \<and> (\<forall>f \<in> set fs. \<exists>p. rc p (fd_type f) \<noteq> None)" using Cons.IH [OF r2] Cons.prems(2) by simp
  then obtain rest where "r2 = Inr rest" by (cases r2) auto
  with Cons.prems(1) e r1 nested r2 have "\<not> isl res" by auto
  with IH r1 show ?case by auto
qed simp

lemma ends_accessible:
  assumes "no_refused_field lib s"
  shows "process_nested_fields lib s n base ty = Some r \<Longrightarrow>
    \<not> isl r \<and> get_base_type_name ty \<in> Wellfounded.acc (type_refs s)"
proof (induction n arbitrary: base ty r)
  case (Suc n)
  show ?case
  proof (cases "descends s ty")
    case None
    then have "(b, get_base_type_name ty) \<notin> type_refs s" for b by (auto simp: descends_def type_refs_def split: if_splits)
    then have "get_base_type_name ty \<in> Wellfounded.acc (type_refs s)" by (blast intro: accI)
    moreover have "r = Inr []" using Suc.prems None by (auto simp: descends_def Let_def split: option.splits if_splits)
    ultimately show ?thesis by simp
  next
    case (Some def)
    then have run: "nested_fields (process_nested_fields lib s n) lib (base @ ''.'') (td_fields def) = Some r"
      using Suc.prems by (auto simp: descends_def Let_def split: option.splits if_splits)
    have "\<forall>f \<in> set (td_fields def). \<not> isl (create_record_from_field lib [] f)"
      using assms Some by (auto simp: no_refused_field_def list_all_iff descends_def split: if_splits dest!: map_of_SomeD)
    from nested_fields_none_refused [OF run this] Suc.IH
    have all: "\<not> isl r" "\<forall>f \<in> set (td_fields def). \<exists>p. process_nested_fields lib s n p (fd_type f) \<noteq> None" by blast+
    have "b \<in> Wellfounded.acc (type_refs s)" if ref: "(b, get_base_type_name ty) \<in> type_refs s" for b
    proof -
      obtain f where "f \<in> set (td_fields def)" "b = get_base_type_name (fd_type f)"
        using ref Some by (auto simp: type_refs_def descends_def split: if_splits)
      with all(2) Suc.IH show ?thesis by blast
    qed
    with all(1) show ?thesis by (blast intro: accI)
  qed
qed simp

text \<open>The types the loop starts from.\<close>

definition processed_types :: "gql_schema \<Rightarrow> (string \<times> type_def) list" where
  "processed_types s = filter (\<lambda>(name, _). \<not> is_built_in_type name \<and> \<not> is_root_type name) (gs_types s)"

lemma type_records_ends:
  assumes "\<And>name def f. (name, def) \<in> set ts \<Longrightarrow> \<not> is_built_in_type name \<Longrightarrow> \<not> is_root_type name \<Longrightarrow>
    f \<in> set (td_fields def) \<Longrightarrow> get_base_type_name (fd_type f) \<in> Wellfounded.acc (type_refs s)"
  shows "type_records lib s (sdl_fuel s) ts \<noteq> None"
  using assms
proof (induction ts)
  case (Cons t ts)
  obtain name def where t: "t = (name, def)" by (cases t)
  have IH: "type_records lib s (sdl_fuel s) ts \<noteq> None" by (rule Cons.IH) (use Cons.prems in \<open>simp add: t\<close>, blast)
  show ?case
  proof (cases "is_built_in_type name \<or> is_root_type name")
    case False
    have "nested_fields (process_nested_fields lib s (sdl_fuel s)) lib (build_field_path name '''') (td_fields def) \<noteq> None"
    proof (rule nested_fields_ends, intro ballI allI)
      fix f p assume "f \<in> set (td_fields def)"
      with Cons.prems [of name def f] False have "get_base_type_name (fd_type f) \<in> Wellfounded.acc (type_refs s)" by (simp add: t)
      then show "process_nested_fields lib s (sdl_fuel s) p (fd_type f) \<noteq> None" by (rule accessible_ends) (rule refl)
    qed
    with IH False show ?thesis by (auto simp: t split: option.split sum.split)
  qed (use IH in \<open>simp add: t\<close>)
qed simp

lemma type_records_accessible:
  assumes "type_records lib s n ts = Some res" "no_refused_field lib s" "set ts \<subseteq> set (gs_types s)"
  shows "\<not> isl res \<and> (\<forall>(name, def) \<in> set ts. \<not> is_built_in_type name \<and> \<not> is_root_type name \<longrightarrow>
    (\<forall>f \<in> set (td_fields def). get_base_type_name (fd_type f) \<in> Wellfounded.acc (type_refs s)))"
  using assms(1,3)
proof (induction ts arbitrary: res)
  case (Cons t ts)
  obtain name def where t: "t = (name, def)" by (cases t)
  show ?case
  proof (cases "is_built_in_type name \<or> is_root_type name")
    case True
    with Cons show ?thesis by (auto simp: t)
  next
    case False
    then obtain r1 where r1: "nested_fields (process_nested_fields lib s n) lib (build_field_path name '''') (td_fields def) = Some r1"
      using Cons.prems by (auto simp: t split: option.splits)
    have "\<forall>f \<in> set (td_fields def). \<not> isl (create_record_from_field lib [] f)"
      using assms(2) Cons.prems(2) by (auto simp: no_refused_field_def list_all_iff t)
    note all = nested_fields_none_refused [OF r1 this, of] ends_accessible [OF assms(2)]
    have ok: "\<not> isl r1" "\<forall>f \<in> set (td_fields def). get_base_type_name (fd_type f) \<in> Wellfounded.acc (type_refs s)"
      using all by blast+
    then obtain records where "r1 = Inr records" by (cases r1) auto
    then obtain r2 where r2: "type_records lib s n ts = Some r2"
      using Cons.prems False r1 by (auto simp: t split: option.splits)
    have IH: "\<not> isl r2 \<and> (\<forall>(name, def) \<in> set ts. \<not> is_built_in_type name \<and> \<not> is_root_type name \<longrightarrow>
        (\<forall>f \<in> set (td_fields def). get_base_type_name (fd_type f) \<in> Wellfounded.acc (type_refs s)))"
      using Cons.IH [OF r2] Cons.prems(2) by simp
    then obtain rest where "r2 = Inr rest" by (cases r2) auto
    with Cons.prems(1) False r1 r2 \<open>r1 = _\<close> have "\<not> isl res" by (auto simp: t)
    with IH ok(2) show ?thesis by (simp add: t)
  qed
qed simp

end
