(* ===== verification/PB_Properties.thy ===== *)
theory PB_Properties
  imports PB_Access_Facts PB_System PB_Sdl_Facts
begin

text \<open>
  Properties of the Portal Backend's API: the integrity of its tables over any run, what a
  caller without an \<^verbatim>\<open>-all\<close> scope can read and change, what creating an application
  leaves behind, and the fields of an SDL.
\<close>

section \<open>Concrete inputs\<close>

definition sample_pb_env :: pb_env where
  "sample_pb_env = \<lparr>pv_audit = True, pv_clock = (\<lambda>_. 0), pv_uuid = (\<lambda>_. ''new''), pv_fails = (\<lambda>_. None)\<rparr>"

definition sample_texts :: wire_texts where
  "sample_texts = \<lparr>wt_body = (\<lambda>_. ''body''), wt_error = (\<lambda>_. ''error'')\<rparr>"

text \<open>An identity provider that keeps the ids of its clients.\<close>

definition sample_idp :: "string list application_manager" where
  "sample_idp =
     \<lparr>am_create = (\<lambda>app x. (Inr \<lparr>ic_id = concat x @ ''c'', ic_client_id = ''app'', ic_client_secret = ''secret''\<rparr>, (concat x @ ''c'') # x)),
      am_delete = (\<lambda>i x. (Inr (), filter (\<lambda>j. j \<noteq> i) x))\<rparr>"

definition sample_link :: "(pdp_body, string list outside) pdp_link" where
  "sample_link = pdp_pb_link sample_texts rego_engine (sample_env 0)"

definition sample_scope_check :: "principal option \<Rightarrow> string \<Rightarrow> (nat \<times> string) option" where
  "sample_scope_check p scope =
     (case principal_scopes p of
        None \<Rightarrow> Some (403, ''insufficient scope'')
      | Some ss \<Rightarrow> if scope \<in> set ss then None else Some (403, ''insufficient scope''))"

definition sample_deps :: "(pdp_body, string list outside) pb_deps" where
  "sample_deps = \<lparr>pd_link = sample_link, pd_sdl = \<lparr>sl_load = (\<lambda>_. Inl ''syntax error''), sl_value_string = (\<lambda>_. '''')\<rparr>,
     pd_idp = outside_idp sample_idp, pd_require_scope = sample_scope_check\<rparr>"

definition sample_member :: "string \<Rightarrow> string \<Rightarrow> member" where
  "sample_member i ou = \<lparr>mb_member_id = i, mb_name = i, mb_email = '''', mb_phone_number = '''', mb_ou_id = ou, mb_base = before_create 0\<rparr>"

definition sample_pb_schema :: "string \<Rightarrow> string \<Rightarrow> pb_schema" where
  "sample_pb_schema i m = \<lparr>ps_schema_id = i, ps_member_id = m, ps_name = i, ps_sdl = '''', ps_endpoint = '''',
     ps_version = ActiveVersion, ps_description = None, ps_base = before_create 0\<rparr>"

definition sample_pb :: "string list outside pb_state" where
  "sample_pb = \<lparr>pb_members = [sample_member ''m1'' ''ou1'', sample_member ''m2'' ''ou2''],
     pb_schemas = [sample_pb_schema ''person'' ''m2''], pb_schema_subs = [], pb_apps = [], pb_app_subs = [], pb_audit = [],
     pb_ext = \<lparr>ox_pdp = bare_table, ox_idp = []\<rparr>\<rparr>"

definition sample_caller :: req_ctx where
  "sample_caller = \<lparr>rx_method = ''DELETE'', rx_auth = Some \<lparr>pr_claims = \<lparr>cm_values =
     [''sub'' \<mapsto> JStr ''u1'', ''ouId'' \<mapsto> JStr ''ou1'', ''scope'' \<mapsto> JArr [JStr ''schema:read'', JStr ''schema:write'']]\<rparr>\<rparr>,
     rx_member_id = None\<rparr>"

definition sample_app_request :: create_application_request where
  "sample_app_request = \<lparr>ca_name = ''portal'', ca_description = None,
     ca_fields = [sample_field ''person'' ''name'', sample_field ''person'' ''nic''], ca_member_id = ''m1'',
     ca_idp_id = None, ca_client_id = None\<rparr>"

lemmas sample_pb_defs = sample_pb_env_def sample_pb_def sample_member_def sample_pb_schema_def

lemma sample_pb_inv: "pb_inv sample_pb"
  by (simp add: sample_pb_defs pb_inv_def table_ok_def member_clash_def)

lemma sample_idp_contract: "idp_contract (outside_idp sample_idp) (\<lambda>x. set (ox_idp x))"
proof -
  have "length i \<le> length (concat x)" if "i \<in> set x" for i and x :: "string list"
    using that by (induction x) auto
  then have "concat x @ ''c'' \<notin> set x" for x
    by (metis add_le_same_cancel1 length_append length_Cons list.size(3) not_one_le_zero One_nat_def)
  then show ?thesis by (auto simp: idp_contract_def outside_idp_def sample_idp_def)
qed

lemma sample_idp_deletes: "idp_deletes (outside_idp sample_idp)"
  by (simp add: idp_deletes_def outside_idp_def sample_idp_def)

lemma sample_application_runs:
  obtains v st' resp t' where
    "create_application sample_pb_env sample_link (outside_idp sample_idp) sample_app_request (sample_pb\<lparr>pb_app_subs := subs\<rparr>) = (Inr v, st')"
    "ar_client_id v = Some ''app''" "ox_idp (pb_ext st') = [''c'']" "ox_pdp (pb_ext st') = t'"
    "update_allow_list (sample_env 0) sample_grant bare_table = (Inr resp, t')"
proof -
  obtain resp t' where run: "update_allow_list (sample_env 0) sample_grant bare_table = (Inr resp, t')"
    using sample_grant_runs by blast
  let ?x = "\<lparr>ox_pdp = bare_table, ox_idp = [''c'']\<rparr>"
  have g: "client_update_allow_list sample_link \<lparr>au_application_id = ''app'', au_records = ca_fields sample_app_request,
      au_grant_duration = PbGrantOneMonth\<rparr> ?x = (Inr resp, ?x\<lparr>ox_pdp := t'\<rparr>)"
    using link_allow_list_runs [of "sample_env 0" sample_grant ?x resp t' sample_texts rego_engine] run
    by (simp add: sample_link_def sample_app_request_def sample_grant_def PbGrantOneMonth_def GrantDurationTypeOneMonth_def)
  have p: "provision_client sample_pb_env (outside_idp sample_idp) sample_app_request (sample_pb\<lparr>pb_app_subs := subs\<rparr>) =
      (Inr (Some ''c'', Some ''app'', Some ''secret''), sample_pb\<lparr>pb_app_subs := subs\<rparr>\<lparr>pb_ext := ?x\<rparr>)"
    by (simp add: provision_client_def externally_provisioned_def sample_app_request_def sample_pb_defs db_first_def
        sql_first_def sql_where_def outside_idp_def sample_idp_def optional_text_def)
  let ?a = "new_application sample_pb_env sample_app_request (Some ''c'') (Some ''app'')"
  have d: "db_create sample_pb_env PbCreateApplication application_clash ?a [] = Inr [?a]"
    by (simp add: db_create_def sample_pb_env_def sql_insert_def)
  have e: "\<not> externally_provisioned sample_app_request" by (simp add: externally_provisioned_def sample_app_request_def)
  have "create_application sample_pb_env sample_link (outside_idp sample_idp) sample_app_request (sample_pb\<lparr>pb_app_subs := subs\<rparr>) =
      (Inr (application_response_of (Some ''secret'') ?a), sample_pb\<lparr>pb_app_subs := subs\<rparr>\<lparr>pb_ext := ?x\<rparr>\<lparr>pb_apps := [?a]\<rparr>\<lparr>pb_ext := ?x\<lparr>ox_pdp := t'\<rparr>\<rparr>)"
    using e p d g by (simp add: create_application_def Let_def new_application_def sample_pb_def)
  then show thesis using that run by (simp add: application_response_of_def new_application_def)
qed

section \<open>Runs\<close>

record pb_call =
  pk_env :: pb_env
  pk_method :: string
  pk_header :: string
  pk_request :: pb_request

definition empty_pb :: "'x \<Rightarrow> 'x pb_state" where
  "empty_pb x = \<lparr>pb_members = [], pb_schemas = [], pb_schema_subs = [], pb_apps = [], pb_app_subs = [], pb_audit = [], pb_ext = x\<rparr>"

text \<open>A server over a sequence of requests; a process that died is started again on its tables.\<close>

definition pb_run ::
  "('b, 'x) pb_deps \<Rightarrow> (string \<Rightarrow> 'w \<Rightarrow> (string + principal) \<times> 'w) \<Rightarrow> pb_call list \<Rightarrow> 'w \<times> 'x pb_state \<Rightarrow> 'w \<times> 'x pb_state" where
  "pb_run d extract calls w =
     foldl (\<lambda>w c. snd (pb_server (pk_env c) d extract (pk_method c) (pk_header c) (pk_request c) w)) w calls"

lemma pb_api_inv:
  assumes "pb_api env d ctx req st = (r, st')" "rx_member_id ctx = None" "pb_inv st"
  shows "pb_inv st'"
  using assms(1,2)
proof (cases rule: pb_api_cases)
  case (routed ctx')
  then have "st' = st \<or> dispatch env d ctx' req st = (r, st')" by (auto simp: serve_route_def split: option.splits)
  then show ?thesis
  proof
    assume d: "dispatch env d ctx' req st = (r, st')"
    have "pb_steps (\<lambda>_. True) st st'"
      by (rule dispatch_steps [OF d _ assms(3)]) (simp_all add: acts_within_def)
    then show ?thesis using assms(3) by (rule pb_steps_inv)
  qed (use assms(3) in simp)
qed (use assms(3) in simp)

lemma pb_server_inv: "pb_inv (snd w) \<Longrightarrow> pb_inv (snd (snd (pb_server env d extract meth header req w)))"
  by (auto simp: pb_server_def require_auth_def authn_middleware_def Let_def split: prod.split option.split sum.split
      intro: pb_api_inv)

lemma pb_run_inv: "pb_inv (snd w) \<Longrightarrow> pb_inv (snd (pb_run d extract calls w))"
  by (induction calls arbitrary: w) (simp_all add: pb_run_def pb_server_inv)

lemma empty_pb_inv: "pb_inv (empty_pb x)"
  by (simp add: pb_inv_def empty_pb_def table_ok_def)


section \<open>Own records only\<close>

text \<open>The members of the caller's organization unit.\<close>

definition callers_member :: "req_ctx \<Rightarrow> 'x pb_state \<Rightarrow> string \<Rightarrow> bool" where
  "callers_member ctx st i \<longleftrightarrow>
     ctx_ou_id ctx \<noteq> '''' \<and> list_ex (\<lambda>m. mb_member_id m = i \<and> mb_ou_id m = ctx_ou_id ctx) (pb_members st)"

lemma member_id_by_ou_id_row:
  "member_id_by_ou_id env ou st = Inr i \<Longrightarrow> i \<noteq> '''' \<Longrightarrow>
   ou \<noteq> '''' \<and> (\<exists>m \<in> set (pb_members st). mb_member_id m = i \<and> mb_ou_id m = ou)"
  by (auto simp: member_id_by_ou_id_def split: if_splits sum.splits list.splits dest!: get_members_by_ou_id_rows)

text \<open>
  C2. A caller whose token holds none of the \<^verbatim>\<open>-all\<close> scopes acts on the records of its
  own organization unit's member only: a request to any route leaves the rows of every other
  member, in all five tables, as they are; every record in the answer belongs to the caller's
  member; and a request on the policy metadata of a schema of another member is refused and
  changes nothing, neither in the database nor at the Policy Decision Point. The authorization
  library is relied on to pass only principals that hold the scope it was asked for.
\<close>

theorem own_records_only:
  assumes "pb_api env d ctx req st = (r, st')" "pb_inv st" "rx_member_id ctx = None"
    and "\<And>p s. pd_require_scope d p s = None \<Longrightarrow> \<exists>scopes. principal_scopes p = Some scopes \<and> s \<in> set scopes"
    and "\<forall>s \<in> widening_scopes. \<not> has_scope ctx s"
  shows "others_kept (callers_member ctx st) st st' \<and> owned (callers_member ctx st) r \<and>
    (\<forall>x \<in> set (pb_schemas st). metadata_schema req = Some (ps_schema_id x) \<and> \<not> callers_member ctx st (ps_member_id x) \<longrightarrow>
       refused r \<and> st' = st)"
  using assms(1,3)
proof (cases rule: pb_api_cases)
  case refused
  then show ?thesis by (simp add: others_kept_def respond_with_error_def)
next
  case (routed ctx')
  have scope: "has_scope ctx' s = has_scope ctx s" "ctx_ou_id ctx' = ctx_ou_id ctx" for s
    using routed(2) by (simp_all add: has_scope_def ctx_ou_id_def)
  have within: "acts_within ctx' (callers_member ctx st)"
    using assms(5) routed(5) member_id_by_ou_id_row
    by (fastforce simp: acts_within_def scope callers_member_def list_ex_iff ctx_member_id_def split: option.splits if_splits)
  show ?thesis
  proof (cases "pd_require_scope d (principal_from_context ctx') (required_scope req)")
    case (Some e)
    with routed(1) show ?thesis by (cases e) (auto simp: serve_route_def others_kept_def respond_with_error_def)
  next
    case None
    then have d: "dispatch env d ctx' req st = (r, st')" using routed(1) by (simp add: serve_route_def)
    have "has_scope ctx (required_scope req)"
      using assms(4) [OF None] routed(2) by (auto simp: has_scope_def principal_from_context_def list_ex_iff)
    with assms(5) have no_create: "req \<noteq> CreateMember b" for b by auto
    have steps: "pb_steps (callers_member ctx st) st st'"
      by (rule dispatch_steps [OF d within assms(2)]) (use no_create in blast)
    have "owned (callers_member ctx st) r"
      by (rule dispatch_owned [OF d within assms(2)])
        (use no_create in \<open>auto simp: callers_member_def list_ex_iff scope\<close>)
    then show ?thesis
      using pb_steps_others [OF steps assms(2)] dispatch_metadata_refused [OF d _ within assms(2)] by blast
  qed
qed

lemma own_records_only_witness:
  "\<exists>r. pb_api sample_pb_env sample_deps sample_caller (DeleteMetadata ''person'' ''row-0'') sample_pb = (r, sample_pb) \<and> refused r"
proof -
  obtain r st' where run: "pb_api sample_pb_env sample_deps sample_caller (DeleteMetadata ''person'' ''row-0'') sample_pb = (r, st')"
    by force
  have scopes: "\<exists>scopes. principal_scopes p = Some scopes \<and> s \<in> set scopes" if "pd_require_scope sample_deps p s = None" for p s
    using that by (auto simp: sample_deps_def sample_scope_check_def split: option.splits if_splits)
  have "\<forall>s \<in> widening_scopes. \<not> has_scope sample_caller s"
    by (simp add: widening_scopes_def has_scope_def sample_caller_def principal_scopes_def principal_claims_def
        claims_strings_def scope_defs)
  with own_records_only [OF run sample_pb_inv _ scopes] run show ?thesis
    by (auto simp: sample_caller_def callers_member_def sample_pb_defs ctx_ou_id_def principal_ou_id_def principal_claims_def
        claims_string_def)
qed

section \<open>Creating an application\<close>

text \<open>
  C7. Creating an application is all or nothing across three systems. A success stores one
  row with the owner and the fields of the request, the row's OAuth2 client is granted exactly
  these fields for a month by a successful call of the Policy Decision Point, and the identity
  provider has that client in addition, unless the caller brought one. After a failure, at
  whatever step, the tables and the clients of the identity provider are what they were, when
  the deletions that compensate it do not fail themselves. Relied on: the identity provider's
  contract, and that talking to the Policy Decision Point leaves its clients alone.
\<close>

theorem create_application_all_or_nothing:
  assumes "create_application env link idp req st = (r, st')" "pb_inv st"
    and "idp_contract idp clients" "link_keeps link clients" "idp_deletes idp" "pv_fails env PbDeleteApplication = None"
  shows "case r of
      Inr v \<Rightarrow> \<exists>a client secret x y. pb_apps st' = pb_apps st @ [a] \<and> v = application_response_of secret a \<and>
        ap_member_id a = ca_member_id req \<and> ap_fields a = ca_fields req \<and> ap_client_id a = Some client \<and>
        client_update_allow_list link
          \<lparr>au_application_id = client, au_records = ca_fields req, au_grant_duration = PbGrantOneMonth\<rparr> x = (Inr y, pb_ext st') \<and>
        clients (pb_ext st') = clients (pb_ext st) \<union> (if externally_provisioned req then {} else {the (ap_idp_id a)})
    | Inl e \<Rightarrow> (\<exists>x. st' = st\<lparr>pb_ext := x\<rparr>) \<and> clients (pb_ext st') = clients (pb_ext st)"
proof (cases r)
  case (Inl e)
  from create_application_failure [OF assms(1) [unfolded Inl] assms(2,3,5,4,6)] Inl show ?thesis by simp
next
  case (Inr v)
  show ?thesis
    using assms(1) [unfolded Inr]
  proof (rule create_application_success)
    fix idp_id client secret x y
    let ?a = "new_application env req idp_id (Some client)"
    assume row: "pb_apps st' = pb_apps st @ [?a]" "v = application_response_of secret ?a"
      and call: "client_update_allow_list link
        \<lparr>au_application_id = client, au_records = ca_fields req, au_grant_duration = PbGrantOneMonth\<rparr> x = (Inr y, pb_ext st')"
      and p: "provision_client env idp req st = (Inr (idp_id, Some client, secret), st\<lparr>pb_ext := x\<rparr>)"
    have "clients (pb_ext st') = clients x" using allow_list_keeps [OF assms(4) call] .
    moreover have "clients x = clients (pb_ext st) \<union> (if externally_provisioned req then {} else {the idp_id})"
      using p assms(3)
    proof (cases rule: provision_client_cases)
      case external
      then have "x = pb_ext st" by (metis pb_state.select_convs(7) pb_state.surjective pb_state.update_convs(7))
      with external(2) show ?thesis by simp
    qed auto
    ultimately have "clients (pb_ext st') = clients (pb_ext st) \<union> (if externally_provisioned req then {} else {the (ap_idp_id ?a)})"
      by (simp add: new_application_def)
    moreover have "ap_member_id ?a = ca_member_id req" "ap_fields ?a = ca_fields req" "ap_client_id ?a = Some client"
      by (simp_all add: new_application_def)
    ultimately show ?thesis using row call Inr by simp blast
  qed
qed

lemma create_application_all_or_nothing_witness:
  "\<exists>v st'. create_application sample_pb_env sample_link (outside_idp sample_idp) sample_app_request sample_pb = (Inr v, st') \<and>
     length (pb_apps st') = 1 \<and> set (ox_idp (pb_ext st')) = {''c''}"
proof (rule sample_application_runs [of "[]"])
  fix v st' resp t'
  assume "create_application sample_pb_env sample_link (outside_idp sample_idp) sample_app_request
      (sample_pb\<lparr>pb_app_subs := []\<rparr>) = (Inr v, st')"
    and c: "ox_idp (pb_ext st') = [''c'']"
  moreover have "sample_pb\<lparr>pb_app_subs := []\<rparr> = sample_pb" by (simp add: sample_pb_def)
  ultimately have run: "create_application sample_pb_env sample_link (outside_idp sample_idp) sample_app_request sample_pb = (Inr v, st')"
    by simp
  have k: "link_keeps sample_link (\<lambda>x. set (ox_idp x))" unfolding sample_link_def by (rule link_keeps_idp)
  have "pv_fails sample_pb_env PbDeleteApplication = None" by (simp add: sample_pb_env_def)
  from create_application_all_or_nothing [OF run sample_pb_inv sample_idp_contract k sample_idp_deletes this]
  obtain a where "pb_apps st' = pb_apps sample_pb @ [a]" by auto
  then show ?thesis using run c by (simp add: sample_pb_def)
qed

end
