(* ===== verification/PB_System_Properties.thy ===== *)
theory PB_System_Properties
  imports PB_Properties
begin

text \<open>
  Properties of the Portal Backend with the Policy Decision Point behind it: what an approved
  application may read, the policies of a registered schema, the client's calls, and the parser
  of a schema's SDL.
\<close>

section \<open>Applications and their grants\<close>

text \<open>
  C4. Approving an application submission is what opens the data to the application. When the
  update that approves it succeeds, an application of the submission's member with the
  submission's fields was stored, and from then on the Policy Decision Point answers a request
  of its OAuth2 client for any of these fields with an authorization that has not expired, at
  every time within a month of the grant.
\<close>

theorem approved_submission_authorized:
  assumes "update_app_submission env (pdp_pb_link texts rego_engine penv) (outside_idp idp) i req st = (Inr v, st')"
    and "uas_status req = Some KernelStatusApproved" "pdp_ready (pb_ext st) (asr_fields v)"
    and "set (dr_required_fields dreq) \<subseteq> set (asr_fields v)"
    and "\<forall>n. pe_clock denv n \<le> add_date (pe_clock penv 0) 0 1 0" "\<not> pe_fails denv FetchMetadata"
  shows "\<exists>a client. pb_apps st' = pb_apps st @ [a] \<and> ap_member_id a = asr_member_id v \<and> ap_fields a = asr_fields v \<and>
    ap_client_id a = Some client \<and>
    (dr_application_id dreq = client \<longrightarrow>
      (\<exists>d. get_policy_decision rego_engine denv dreq (ox_pdp (pb_ext st')) = Inr d \<and>
         ds_app_authorized d \<and> \<not> ds_app_access_expired d))"
proof -
  obtain a client where a: "pb_apps st' = pb_apps st @ [a]" "ap_member_id a = asr_member_id v" "ap_fields a = asr_fields v"
      "ap_client_id a = Some client" "pdp_ready (pb_ext st') (asr_fields v)"
      "\<forall>r \<in> set (asr_fields v). granted_for penv (pb_ext st') PbGrantOneMonth client r"
    using pdp_allow_list.approved_granted [OF assms(1-3)] outside_idp_ready by blast
  have "grant_expiry (pe_clock penv 0) PbGrantOneMonth = Some (add_date (pe_clock penv 0) 0 1 0)"
    by (simp add: grant_expiry_def PbGrantOneMonth_def GrantDurationTypeOneMonth_def)
  from granted_for_decides [OF a(5,6) this _ assms(4-6)] a(1-4) show ?thesis by blast
qed

definition sample_submission :: app_submission where
  "sample_submission = \<lparr>as_id = ''sub'', as_previous_id = None, as_name = ''portal'', as_description = None,
     as_fields = [sample_field ''person'' ''name'', sample_field ''person'' ''nic''], as_member_id = ''m1'',
     as_status = KernelStatusPending, as_review = None, as_base = before_create 0\<rparr>"

definition sample_approval :: update_app_submission_request where
  "sample_approval = \<lparr>uas_name = None, uas_description = None, uas_fields = None,
     uas_status = Some KernelStatusApproved, uas_previous_id = None, uas_review = None\<rparr>"

definition sample_pb_submitted :: "string list outside pb_state" where
  "sample_pb_submitted = sample_pb\<lparr>pb_app_subs := [sample_submission]\<rparr>"

lemma sample_ready: "pdp_ready \<lparr>ox_pdp = bare_table, ox_idp = x\<rparr> [sample_field ''person'' ''name'', sample_field ''person'' ''nic'']"
  using bare_table_ok by (simp add: pdp_ready_def sample_field_def colon_free_def)

lemma approval_runs:
  assumes "db_first env PbLoadSubmission as_id (\<lambda>s. as_id s = i) (pb_app_subs st) = Inr s"
    and "check_previous_application env (uas_previous_id req) st = Inr ()" "uas_status req = Some KernelStatusApproved"
    and "save_app_submission env PbSaveSubmission (apply_app_submission_update (pv_clock env 0) req s) st = Inr st1"
    and "create_application (later 1 env) link idp (application_request_of (apply_app_submission_update (pv_clock env 0) req s)) st1 = (Inr w, st')"
  shows "update_app_submission env link idp i req st =
    (Inr (app_submission_response_of (apply_app_submission_update (pv_clock env 0) req s)), st')"
  using assms by (simp add: update_app_submission_def Let_def)

lemma sample_approval_runs:
  obtains v st' where
    "update_app_submission sample_pb_env sample_link (outside_idp sample_idp) ''sub'' sample_approval sample_pb_submitted = (Inr v, st')"
    "asr_fields v = [sample_field ''person'' ''name'', sample_field ''person'' ''nic'']"
    "\<forall>a \<in> set (pb_apps st'). ap_client_id a = Some ''app''"
proof -
  let ?s = "apply_app_submission_update 0 sample_approval sample_submission"
  let ?st = "sample_pb\<lparr>pb_app_subs := [?s]\<rparr>"
  have saved: "save_app_submission sample_pb_env PbSaveSubmission ?s sample_pb_submitted = Inr ?st"
    by (simp add: save_app_submission_def sample_submission_def sample_approval_def sample_pb_submitted_def
        apply_app_submission_update_def require_fk_def fk_holds_def patched_opt_def db_save_def sample_pb_env_def
        sql_affected_def sql_update_def)
  have later: "later 1 sample_pb_env = sample_pb_env" by (simp add: later_def sample_pb_env_def)
  have req: "application_request_of ?s = sample_app_request"
    by (simp add: application_request_of_def sample_app_request_def apply_app_submission_update_def sample_approval_def
        sample_submission_def patched_def patched_opt_def)
  obtain w st' where run: "create_application sample_pb_env sample_link (outside_idp sample_idp) sample_app_request ?st = (Inr w, st')"
    and client: "ar_client_id w = Some ''app''"
    by (rule sample_application_runs [of "[?s]"])
  have clock: "pv_clock sample_pb_env 0 = 0" by (simp add: sample_pb_env_def)
  have first: "db_first sample_pb_env PbLoadSubmission as_id (\<lambda>s. as_id s = ''sub'') (pb_app_subs sample_pb_submitted) = Inr sample_submission"
    by (simp add: db_first_def sample_pb_env_def sample_pb_submitted_def sql_first_def sql_where_def sample_submission_def)
  have prev: "check_previous_application sample_pb_env (uas_previous_id sample_approval) sample_pb_submitted = Inr ()"
    by (simp add: check_previous_application_def sample_approval_def)
  have status: "uas_status sample_approval = Some KernelStatusApproved" by (simp add: sample_approval_def)
  have "update_app_submission sample_pb_env sample_link (outside_idp sample_idp) ''sub'' sample_approval sample_pb_submitted =
      (Inr (app_submission_response_of ?s), st')"
    by (rule approval_runs [where req = sample_approval, OF first, unfolded clock later req, OF prev status saved run])
  moreover have "\<forall>a \<in> set (pb_apps st'). ap_client_id a = Some ''app''"
    using run client by (auto elim!: create_application_success simp: application_response_of_def new_application_def sample_pb_def)
  moreover have "asr_fields (app_submission_response_of ?s) = [sample_field ''person'' ''name'', sample_field ''person'' ''nic'']"
    by (simp add: app_submission_response_of_def apply_app_submission_update_def sample_approval_def sample_submission_def)
  ultimately show thesis using that by blast
qed

lemma approved_submission_authorized_witness:
  "\<exists>v st' d. update_app_submission sample_pb_env sample_link (outside_idp sample_idp) ''sub'' sample_approval sample_pb_submitted = (Inr v, st') \<and>
     get_policy_decision rego_engine (sample_env hour) sample_request (ox_pdp (pb_ext st')) = Inr d \<and> ds_app_authorized d"
proof (rule sample_approval_runs)
  fix v st'
  assume run: "update_app_submission sample_pb_env sample_link (outside_idp sample_idp) ''sub'' sample_approval sample_pb_submitted = (Inr v, st')"
    and fs: "asr_fields v = [sample_field ''person'' ''name'', sample_field ''person'' ''nic'']"
    and cl: "\<forall>a \<in> set (pb_apps st'). ap_client_id a = Some ''app''"
  have clock: "\<forall>n. pe_clock (sample_env hour) n \<le> add_date (pe_clock (sample_env 0) 0) 0 1 0"
    by (simp add: sample_env_def) code_simp
  have approved: "uas_status sample_approval = Some KernelStatusApproved" by (simp add: sample_approval_def)
  have ready: "pdp_ready (pb_ext sample_pb_submitted) (asr_fields v)"
    using sample_ready by (simp add: fs sample_pb_submitted_def sample_pb_def)
  have sub: "set (dr_required_fields sample_request) \<subseteq> set (asr_fields v)" by (simp add: fs sample_request_def)
  have up: "\<not> pe_fails (sample_env hour) FetchMetadata" by (simp add: sample_env_def)
  obtain a client where "pb_apps st' = pb_apps sample_pb_submitted @ [a]" "ap_client_id a = Some client"
    "dr_application_id sample_request = client \<longrightarrow> (\<exists>d. get_policy_decision rego_engine (sample_env hour) sample_request
       (ox_pdp (pb_ext st')) = Inr d \<and> ds_app_authorized d \<and> \<not> ds_app_access_expired d)"
    using approved_submission_authorized [OF run [unfolded sample_link_def] approved ready sub clock up] by blast
  moreover from this(1,2) cl have "client = ''app''" by simp
  ultimately show ?thesis using run by (auto simp: sample_request_def)
qed



definition sample_policy_update :: update_application_policy_request where
  "sample_policy_update = \<lparr>up_fields = [sample_field ''person'' ''name''], up_grant_duration = None\<rparr>"

definition sample_pb_granted :: "string list outside pb_state" where
  "sample_pb_granted = sample_pb\<lparr>pb_apps := [new_application sample_pb_env sample_app_request (Some ''c'') (Some ''app'')],
     pb_ext := \<lparr>ox_pdp = sample_table, ox_idp = [''c'']\<rparr>\<rparr>"

lemma sample_policy_update_runs:
  "\<exists>v st'. update_application_policy sample_pb_env sample_link ''new'' sample_policy_update sample_pb_granted = (Inr v, st')"
proof -
  let ?q = "\<lparr>au_application_id = ''app'', au_records = [sample_field ''person'' ''name''], au_grant_duration = PbGrantOneMonth\<rparr>"
  have "\<exists>resp t'. update_allow_list (sample_env 0) ?q sample_table = (Inr resp, t')"
    by (simp add: update_allow_list_def sample_defs Let_def grant_expiry_def PbGrantOneMonth_def GrantDurationTypeOneMonth_def
        sql_where_def policy_map_def pm_key_string_def fr_key_string_def field_key_string_def grant_step_def pm_key_def)
  then obtain resp t' where run: "update_allow_list (sample_env 0) ?q sample_table = (Inr resp, t')" by blast
  have "client_update_allow_list sample_link ?q (pb_ext sample_pb_granted) = (Inr resp, (pb_ext sample_pb_granted)\<lparr>ox_pdp := t'\<rparr>)"
    unfolding sample_link_def by (rule link_allow_list_runs) (simp add: sample_pb_granted_def run)
  then show ?thesis
    by (simp add: update_application_policy_def find_application_def db_first_def sql_first_def sql_where_def sample_pb_env_def
        sample_pb_granted_def new_application_def sample_policy_update_def patched_def Let_def db_save_def)
qed


section \<open>Schemas and their policies\<close>


definition sample_schema_request :: create_schema_request where
  "sample_schema_request = \<lparr>cs_id = ''vehicles'', cs_name = ''vehicles'', cs_description = None, cs_sdl = '''',
     cs_fields = [sample_record ''car.plate'' ClassAllowlist], cs_endpoint = '''', cs_member_id = ''m1''\<rparr>"

lemma sample_schema_runs:
  "\<exists>v st'. create_schema sample_pb_env sample_link lib sample_schema_request sample_pb = (Some (Inr v), st') \<and> sr_schema_id v = ''vehicles''"
proof -
  let ?q = "\<lparr>mc_schema_id = ''vehicles'', mc_records = [sample_record ''car.plate'' ClassAllowlist]\<rparr>"
  have "\<exists>resp t'. create_policy_metadata rego_engine (sample_env 0) ?q bare_table = (Inr resp, t')"
    by (simp add: create_policy_metadata_def sample_defs bare_table_def Let_def check_policy_class_def
        create_step_def existing_map_def sql_where_def sql_delete_def sql_insert_def pm_clash_def pm_key_def
        new_metadata_def apply_record_def update_rows_def)
  then obtain resp t' where run: "create_policy_metadata rego_engine (sample_env 0) ?q bare_table = (Inr resp, t')" by blast
  have call: "client_create_metadata sample_link ?q (pb_ext sample_pb) = (Inr resp, (pb_ext sample_pb)\<lparr>ox_pdp := t'\<rparr>)"
    unfolding sample_link_def by (rule link_create_runs) (simp_all add: sample_pb_def run trim_space_def is_space_def)
  have pat: "schema_id_pattern ''vehicles''" by (simp add: schema_id_pattern_def id_start_char_def id_char_def)
  have db: "db_create sample_pb_env PbCreateSchema schema_clash (new_schema sample_pb_env ''vehicles'' sample_schema_request) (pb_schemas sample_pb) =
      Inr (pb_schemas sample_pb @ [new_schema sample_pb_env ''vehicles'' sample_schema_request])"
    by (simp add: db_create_def sql_insert_def schema_clash_def sample_pb_defs new_schema_def)
  show ?thesis
    using call pat db
    by (simp add: create_schema_def sample_schema_request_def Let_def
        register_metadata_def client_create_from_records_def schema_response_of_def new_schema_def)
qed




section \<open>The parser of a schema's SDL\<close>

text \<open>
  C21. The policy metadata of an SDL is that of its fields. When the parser returns, it has either
  collected one record for every field with a policy or a source, at every path that leads to
  it, from a type that is no root and no built-in type down through the types of its fields,
  and none of these fields is refused; or it gives the error of a field that is.
\<close>

theorem sdl_records_are_fields:
  assumes "sl_load lib sdl = Inr s" "parse_sdl_to_policy_request lib i sdl = Some res"
  shows "case res of
      Inl e \<Rightarrow> \<exists>p f. schema_field s (gs_types s) p f \<and> create_record_from_field lib p f = Inl e
    | Inr req \<Rightarrow> mc_schema_id req = i \<and>
        (\<forall>p f. schema_field s (gs_types s) p f \<longrightarrow> \<not> isl (create_record_from_field lib p f)) \<and>
        set (mc_records req) =
          {r. \<exists>p f. schema_field s (gs_types s) p f \<and> create_record_from_field lib p f = Inr (Some r)}"
proof -
  obtain r where r: "type_records lib s (sdl_fuel s) (gs_types s) = Some r"
    using assms by (cases "type_records lib s (sdl_fuel s) (gs_types s)") (simp_all add: parse_sdl_to_policy_request_def)
  note covered = type_records_covers [OF r]
  show ?thesis
  proof (cases r)
    case (Inl e)
    then have "res = Inl e" using assms r by (simp add: parse_sdl_to_policy_request_def)
    with covered Inl show ?thesis by (simp add: covers_def)
  next
    case (Inr records)
    then have "res = Inr \<lparr>mc_schema_id = i, mc_records = records\<rparr>" using assms r by (simp add: parse_sdl_to_policy_request_def)
    with covered Inr show ?thesis by (simp add: covers_def)
  qed
qed

text \<open>
  C31. The parser of an SDL whose fields are all accepted returns exactly when no chain of field
  types goes on forever from a type it processes; for a type that reaches itself it recurses
  without end, whatever the stack: no amount of fuel gives a result.
\<close>

theorem sdl_parser_returns:
  assumes "sl_load lib sdl = Inr s" "no_refused_field lib s"
  shows "((\<exists>req. parse_sdl_to_policy_request lib i sdl = Some (Inr req)) \<longleftrightarrow>
      (\<forall>(name, def) \<in> set (processed_types s). \<forall>f \<in> set (td_fields def).
        get_base_type_name (fd_type f) \<in> Wellfounded.acc (type_refs s))) \<and>
    ((\<exists>req. parse_sdl_to_policy_request lib i sdl = Some (Inr req)) \<or>
      (\<forall>n. type_records lib s n (gs_types s) = None))"
proof -
  let ?run = "type_records lib s (sdl_fuel s) (gs_types s)"
  have parse: "parse_sdl_to_policy_request lib i sdl = map_option (\<lambda>r. case r of
      Inl e \<Rightarrow> Inl e | Inr records \<Rightarrow> Inr \<lparr>mc_schema_id = i, mc_records = records\<rparr>) ?run"
    using assms(1) by (simp add: parse_sdl_to_policy_request_def)
  have ok: "\<not> isl r" if "type_records lib s n (gs_types s) = Some r" for n r
    using type_records_accessible [OF that assms(2)] by simp
  have returns: "(\<exists>req. parse_sdl_to_policy_request lib i sdl = Some (Inr req)) \<longleftrightarrow> ?run \<noteq> None"
  proof (cases ?run)
    case (Some r)
    with ok [OF Some] parse show ?thesis by (cases r) simp_all
  qed (simp add: parse)
  have "?run \<noteq> None \<longleftrightarrow> (\<forall>(name, def) \<in> set (processed_types s). \<forall>f \<in> set (td_fields def).
        get_base_type_name (fd_type f) \<in> Wellfounded.acc (type_refs s))"
  proof
    assume "?run \<noteq> None"
    then obtain r where "?run = Some r" by blast
    from type_records_accessible [OF this assms(2)]
    show "\<forall>(name, def) \<in> set (processed_types s). \<forall>f \<in> set (td_fields def).
        get_base_type_name (fd_type f) \<in> Wellfounded.acc (type_refs s)"
      by (auto simp: processed_types_def)
  next
    assume "\<forall>(name, def) \<in> set (processed_types s). \<forall>f \<in> set (td_fields def).
        get_base_type_name (fd_type f) \<in> Wellfounded.acc (type_refs s)"
    then show "?run \<noteq> None" by (intro type_records_ends) (auto simp: processed_types_def)
  qed
  moreover have "type_records lib s n (gs_types s) = None" if "?run = None" for n
    using type_records_fuel [of lib s n "gs_types s"] that by (cases "type_records lib s n (gs_types s)") auto
  ultimately show ?thesis using returns by blast
qed

definition sample_sdl_field :: "string \<Rightarrow> string \<Rightarrow> directive list \<Rightarrow> field_def" where
  "sample_sdl_field name ty ds = \<lparr>fd_name = name, fd_args = [], fd_type = NamedType ty False, fd_directives = ds\<rparr>"

definition sample_type :: "string \<Rightarrow> field_def list \<Rightarrow> string \<times> type_def" where
  "sample_type name fs = (name, \<lparr>td_name = name, td_kind = KObject, td_builtin = False, td_fields = fs\<rparr>)"

definition sample_sdl_lib :: "(string \<times> type_def) list \<Rightarrow> sdl_lib" where
  "sample_sdl_lib ts = \<lparr>sl_load = (\<lambda>_. Inr \<lparr>gs_query = None, gs_types = ts, gs_possible = (\<lambda>_. [])\<rparr>),
     sl_value_string = (\<lambda>v. case v of AString s \<Rightarrow> s | _ \<Rightarrow> '''')\<rparr>"

text \<open>A person with a friend that is a person, and a person with an address.\<close>

definition cyclic_types :: "(string \<times> type_def) list" where
  "cyclic_types = [sample_type ''Person'' [sample_sdl_field ''friend'' ''Person'' []]]"

definition address_types :: "(string \<times> type_def) list" where
  "address_types =
     [sample_type ''Person'' [sample_sdl_field ''home'' ''Address'' []],
      sample_type ''Address'' [sample_sdl_field ''city'' ''String''
        [\<lparr>dir_name = ''accessControl'', dir_args = [(''policy'', AString ''allowlist'')]\<rparr>]]]"

lemmas sample_sdl_defs = sample_sdl_field_def sample_type_def sample_sdl_lib_def cyclic_types_def address_types_def

lemma plain_field: "create_record_from_field lib p (sample_sdl_field n ty []) = Inr None"
  by (simp add: create_record_from_field_def reject_removed_directives_def sample_sdl_field_def get_directive_value_def
      directive_for_name_def Let_def)

lemma acc_no_loop: "x \<in> Wellfounded.acc r \<Longrightarrow> (x, x) \<notin> r"
  by (induction rule: acc.induct) blast

definition cyclic_schema :: gql_schema where
  "cyclic_schema = \<lparr>gs_query = None, gs_types = cyclic_types, gs_possible = (\<lambda>_. [])\<rparr>"

lemma cyclic_schema_facts:
  "sl_load (sample_sdl_lib cyclic_types) sdl = Inr cyclic_schema"
  "no_refused_field (sample_sdl_lib cyclic_types) cyclic_schema"
  "''Person'' \<notin> Wellfounded.acc (type_refs cyclic_schema)"
  "processed_types cyclic_schema = cyclic_types"
proof -
  have built: "\<not> is_built_in_type ''Person''" "\<not> is_root_type ''Person''" by (simp_all add: is_built_in_type_def is_root_type_def)
  show "sl_load (sample_sdl_lib cyclic_types) sdl = Inr cyclic_schema" by (simp add: sample_sdl_lib_def cyclic_schema_def)
  show "no_refused_field (sample_sdl_lib cyclic_types) cyclic_schema"
    by (simp add: no_refused_field_def cyclic_schema_def cyclic_types_def sample_type_def plain_field)
  have "(''Person'', ''Person'') \<in> type_refs cyclic_schema"
    using built by (simp add: type_refs_def sample_sdl_defs cyclic_schema_def)
  then show "''Person'' \<notin> Wellfounded.acc (type_refs cyclic_schema)" by (rule contrapos_pn) (rule acc_no_loop)
  show "processed_types cyclic_schema = cyclic_types"
    using built by (simp add: processed_types_def cyclic_schema_def sample_sdl_defs)
qed

lemma cyclic_field: "\<exists>(name, def) \<in> set cyclic_types. \<exists>f \<in> set (td_fields def). get_base_type_name (fd_type f) = ''Person''"
  by (simp add: sample_sdl_defs)

lemma sdl_parser_returns_witness:
  "type_records (sample_sdl_lib cyclic_types) cyclic_schema 1000 (gs_types cyclic_schema) = None"
proof -
  have "\<not> (\<forall>(name, def) \<in> set (processed_types cyclic_schema). \<forall>f \<in> set (td_fields def).
        get_base_type_name (fd_type f) \<in> Wellfounded.acc (type_refs cyclic_schema))"
    unfolding cyclic_schema_facts(4) using cyclic_field cyclic_schema_facts(3) by fastforce
  with sdl_parser_returns [OF cyclic_schema_facts(1,2)]
  have "\<forall>n. type_records (sample_sdl_lib cyclic_types) cyclic_schema n (gs_types cyclic_schema) = None" by blast
  then show ?thesis ..
qed

text \<open>A schema that names such a type kills the process after its row was stored.\<close>

lemma cyclic_schema_dies:
  "\<exists>st'. create_schema sample_pb_env sample_link (sample_sdl_lib cyclic_types)
       (sample_schema_request\<lparr>cs_fields := [], cs_sdl := ''type Person { friend: Person }''\<rparr>) sample_pb = (None, st') \<and>
     list_ex (\<lambda>s. ps_schema_id s = ''vehicles'') (pb_schemas st')"
proof -
  let ?req = "sample_schema_request\<lparr>cs_fields := [], cs_sdl := ''type Person { friend: Person }''\<rparr>"
  have "type_records (sample_sdl_lib cyclic_types) cyclic_schema (sdl_fuel cyclic_schema) (gs_types cyclic_schema) = None"
  proof (rule ccontr)
    assume "\<not> ?thesis"
    then obtain r where "type_records (sample_sdl_lib cyclic_types) cyclic_schema (sdl_fuel cyclic_schema) (gs_types cyclic_schema) = Some r"
      by blast
    from type_records_accessible [OF this cyclic_schema_facts(2)]
    have "\<forall>(name, def) \<in> set (processed_types cyclic_schema). \<forall>f \<in> set (td_fields def).
        get_base_type_name (fd_type f) \<in> Wellfounded.acc (type_refs cyclic_schema)"
      by (auto simp: processed_types_def)
    then show False unfolding cyclic_schema_facts(4) using cyclic_field cyclic_schema_facts(3) by fastforce
  qed
  then have died: "register_metadata sample_link (sample_sdl_lib cyclic_types) ''vehicles'' ?req x = None" for x
    by (simp add: register_metadata_def client_create_from_sdl_def parse_sdl_to_policy_request_def cyclic_schema_facts(1))
  show ?thesis
    using died
    by (simp add: create_schema_def sample_schema_request_def Let_def schema_id_pattern_def id_start_char_def id_char_def
        db_create_def sql_insert_def schema_clash_def sample_pb_defs new_schema_def)
qed

definition address_schema :: gql_schema where
  "address_schema = \<lparr>gs_query = None, gs_types = address_types, gs_possible = (\<lambda>_. [])\<rparr>"

lemma sdl_records_are_fields_witness:
  "\<exists>req. parse_sdl_to_policy_request (sample_sdl_lib address_types) ''s1'' ''sdl'' = Some (Inr req) \<and>
     ''person.home.city'' \<in> cr_field_name ` set (mc_records req)"
proof -
  let ?lib = "sample_sdl_lib address_types"
  let ?city = "sample_sdl_field ''city'' ''String'' [\<lparr>dir_name = ''accessControl'', dir_args = [(''policy'', AString ''allowlist'')]\<rparr>]"
  let ?home = "sample_sdl_field ''home'' ''Address'' []"
  have load: "sl_load ?lib ''sdl'' = Inr address_schema" by (simp add: sample_sdl_lib_def address_schema_def)
  have nm: "\<not> is_built_in_type ''Person''" "\<not> is_root_type ''Person''" "\<not> is_built_in_type ''Address''" "\<not> is_root_type ''Address''"
    "is_built_in_type ''String''"
    by (simp_all add: is_built_in_type_def is_root_type_def)
  have quote: "quote_char = CHR 0x22" unfolding quote_char_def by code_simp
  have city: "\<exists>r. create_record_from_field ?lib p ?city = Inr (Some r) \<and> cr_field_name r = p" for p
    by (simp add: create_record_from_field_def reject_removed_directives_def sample_sdl_field_def get_directive_value_def
        directive_for_name_def sample_sdl_lib_def Let_def quote)
  have p: "char_of (112 :: nat) = CHR ''p''" by code_simp
  have addr: "descends address_schema (fd_type ?home) = Some (snd (sample_type ''Address'' [?city]))"
    using nm by (simp add: descends_def sample_sdl_defs address_schema_def)
  have mem: "(''Person'', snd (sample_type ''Person'' [?home])) \<in> set (gs_types address_schema)"
    by (simp add: sample_sdl_defs address_schema_def)
  have path: "build_field_path ''Person'' (fd_name ?home) @ ''.'' @ fd_name ?city = ''person.home.city''"
    by (simp add: build_field_path_def to_lower_def sample_sdl_field_def p)
  have "field_below address_schema (build_field_path ''Person'' (fd_name ?home)) (fd_type ?home) ''person.home.city'' ?city"
    unfolding path [symmetric] by (rule field_below.own [OF addr]) (simp add: sample_type_def)
  then have field: "schema_field address_schema (gs_types address_schema) ''person.home.city'' ?city"
    unfolding schema_field_def by (intro bexI [OF _ mem]) (simp add: nm sample_type_def)
  have acc_s: "''String'' \<in> Wellfounded.acc (type_refs address_schema)"
    by (rule accI) (simp add: type_refs_def nm(5))
  have acc_a: "''Address'' \<in> Wellfounded.acc (type_refs address_schema)"
    by (rule accI) (use acc_s in \<open>auto simp: type_refs_def address_schema_def sample_sdl_defs\<close>)
  have ok: "no_refused_field ?lib address_schema"
    using city [of "[]"] plain_field [of ?lib "[]" "''home''" "''Address''"]
    by (auto simp: no_refused_field_def address_schema_def address_types_def sample_type_def)
  have "type_records ?lib address_schema (sdl_fuel address_schema) (gs_types address_schema) \<noteq> None"
    by (rule type_records_ends) (use acc_s acc_a in \<open>auto simp: address_schema_def sample_sdl_defs\<close>)
  then obtain res where res: "type_records ?lib address_schema (sdl_fuel address_schema) (gs_types address_schema) = Some res" by blast
  with type_records_accessible [OF res ok] obtain records where "res = Inr records" by (cases res) auto
  with res load obtain req where run: "parse_sdl_to_policy_request ?lib ''s1'' ''sdl'' = Some (Inr req)"
    by (simp add: parse_sdl_to_policy_request_def)
  from sdl_records_are_fields [OF load run] field city [of "''person.home.city''"] run show ?thesis by force
qed

end
