(* ===== verification/PB_Thunder.thy ===== *)
theory PB_Thunder
  imports PB_Application Url
begin

text \<open>
  The Portal Backend's client of ThunderID's management API
  (\<^verbatim>\<open>internal/pb/idp/thunderid/client.go\<close>), which implements the application manager of
  \<^theory_text>\<open>PB_Application\<close>: it creates an OAuth2 client, assigns it the data-consumer role, and
  deletes it again when that fails. Deadlines are part of the transport.
\<close>

section \<open>Data\<close>

record thunder_config =
  tg_base_url :: string
  tg_client_id :: string
  tg_client_secret :: string
  tg_scopes :: "string list"
  tg_resource :: string
  tg_role_id :: string

record thunder_oauth =
  to_client_id :: string
  to_client_secret :: string
  to_grant_types :: "string list"
  to_auth_method :: string
  to_public :: bool

record inbound_auth =
  ib_type :: string
  ib_config :: thunder_oauth

record thunder_request =
  tr_name :: string
  tr_description :: string
  tr_type :: string
  tr_ou_id :: string
  tr_inbound :: "inbound_auth list"

record thunder_application =
  ta_id :: string
  ta_client_id :: string
  ta_inbound :: "inbound_auth list"

record role_assignment =
  ra_type :: string
  ra_id :: string

text \<open>ThunderID's error body: its code, and the default texts of its message and description.\<close>

record thunder_error =
  te_code :: string
  te_message :: string
  te_description :: string

text \<open>
  The token request of the client-credentials flow, as \<^verbatim>\<open>NewClient\<close> sets it up for the
  \<^verbatim>\<open>oauth2\<close> library.
\<close>

record token_source =
  ts_client_id :: string
  ts_client_secret :: string
  ts_token_url :: string
  ts_scopes :: "string list"
  ts_params :: "(string \<times> string list) list"

text \<open>
  The client: its configuration and the transport behind its HTTP client, over a state \<open>'x\<close>.
  An answer has a status code, a status line and a body \<open>'b\<close>.
\<close>

record ('b, 'x) thunder_client =
  tl_base_url :: string
  tl_role_id :: string
  tl_source :: token_source
  tl_application_body :: "thunder_request \<Rightarrow> string + 'b"
  tl_assignments_body :: "role_assignment list \<Rightarrow> string + 'b"
  tl_new_request :: "string \<Rightarrow> string \<Rightarrow> string + unit"
  tl_do :: "string \<Rightarrow> string \<Rightarrow> 'b option \<Rightarrow> 'x \<Rightarrow> (string + nat \<times> string \<times> 'b) \<times> 'x"
  tl_error :: "'b \<Rightarrow> thunder_error option"
  tl_application :: "'b \<Rightarrow> string + thunder_application"

definition new_thunder_client :: "thunder_config \<Rightarrow> ('b, 'x) thunder_client \<Rightarrow> ('b, 'x) thunder_client" where
  "new_thunder_client cfg c = c\<lparr>tl_base_url := tg_base_url cfg, tl_role_id := tg_role_id cfg,
     tl_source := \<lparr>ts_client_id = tg_client_id cfg, ts_client_secret = tg_client_secret cfg,
       ts_token_url = tg_base_url cfg @ ''/oauth2/token'', ts_scopes = tg_scopes cfg,
       ts_params = (if tg_resource cfg \<noteq> '''' then [(''resource'', [tg_resource cfg])] else [])\<rparr>\<rparr>"

section \<open>Requests\<close>

definition thunder_status_text :: "string \<Rightarrow> string \<Rightarrow> string \<Rightarrow> thunder_error option \<Rightarrow> string" where
  "thunder_status_text meth path line e =
     ''thunderid '' @ meth @ '' '' @ path @ '': '' @
     (case e of
        Some err \<Rightarrow>
          if te_message err \<noteq> '''' then te_message err @ '' ('' @ te_code err @ ''): '' @ te_description err
          else ''request failed with status '' @ line
      | None \<Rightarrow> ''request failed with status '' @ line)"

definition thunder_do ::
  "('b, 'x) thunder_client \<Rightarrow> string \<Rightarrow> string \<Rightarrow> (string + 'b) option \<Rightarrow> nat \<Rightarrow> ('b \<Rightarrow> string + 'a) \<Rightarrow> 'x \<Rightarrow> (string + 'a) \<times> 'x" where
  "thunder_do c meth path body want decode x =
     (case body of
        Some (Inl e) \<Rightarrow> (Inl (''failed to marshal request: '' @ e), x)
      | _ \<Rightarrow>
          (case tl_new_request c meth (tl_base_url c @ path) of
             Inl e \<Rightarrow> (Inl (''failed to create request: '' @ e), x)
           | Inr _ \<Rightarrow>
               (case tl_do c meth (tl_base_url c @ path) (map_option projr body) x of
                  (Inl e, x) \<Rightarrow> (Inl (''failed to send request: '' @ e), x)
                | (Inr (status, line, resp), x) \<Rightarrow>
                    if status \<noteq> want then (Inl (thunder_status_text meth path line (tl_error c resp)), x)
                    else (case decode resp of
                       Inl e \<Rightarrow> (Inl (''failed to decode response: '' @ e), x)
                     | Inr v \<Rightarrow> (Inr v, x)))))"

definition thunder_delete :: "('b, 'x) thunder_client \<Rightarrow> string \<Rightarrow> 'x \<Rightarrow> (string + unit) \<times> 'x" where
  "thunder_delete c i x = thunder_do c ''DELETE'' (''/applications/'' @ path_escape i) None 204 (\<lambda>_. Inr ()) x"

definition delete_after_failure :: "('b, 'x) thunder_client \<Rightarrow> string \<Rightarrow> string \<Rightarrow> 'x \<Rightarrow> string \<times> 'x" where
  "delete_after_failure c i cause x =
     (case thunder_delete c i x of
        (Inl e, x) \<Rightarrow> (cause @ '', and failed to delete application: '' @ e, x)
      | (Inr _, x) \<Rightarrow> (cause, x))"

definition thunder_request_of :: "idp_application \<Rightarrow> thunder_request" where
  "thunder_request_of app =
     \<lparr>tr_name = ia_name app, tr_description = ia_description app, tr_type = ''m2m'', tr_ou_id = ia_ou_id app,
      tr_inbound = [\<lparr>ib_type = ''oauth2'', ib_config =
        \<lparr>to_client_id = '''', to_client_secret = '''', to_grant_types = [''client_credentials''],
         to_auth_method = ''client_secret_basic'', to_public = False\<rparr>\<rparr>]\<rparr>"

text \<open>The secret of the last inbound configuration of type \<^verbatim>\<open>oauth2\<close>.\<close>

definition created_secret :: "inbound_auth list \<Rightarrow> string" where
  "created_secret cfgs =
     foldl (\<lambda>s cfg. if ib_type cfg = ''oauth2'' then to_client_secret (ib_config cfg) else s) '''' cfgs"

definition assign_role :: "('b, 'x) thunder_client \<Rightarrow> string \<Rightarrow> 'x \<Rightarrow> (string + unit) \<times> 'x" where
  "assign_role c i x =
     (if tl_role_id c = '''' then (Inr (), x)
      else thunder_do c ''POST'' (''/roles/'' @ path_escape (tl_role_id c) @ ''/assignments/add'')
             (Some (tl_assignments_body c [\<lparr>ra_type = ''app'', ra_id = i\<rparr>])) 204 (\<lambda>_. Inr ()) x)"

text \<open>What follows the creation: the checks on the answer, and the role.\<close>

definition complete_client :: "('b, 'x) thunder_client \<Rightarrow> thunder_application \<Rightarrow> 'x \<Rightarrow> (string + idp_created) \<times> 'x" where
  "complete_client c created x =
     (let secret = created_secret (ta_inbound created) in
      if ta_client_id created = '''' \<or> secret = '''' then
        (case delete_after_failure c (ta_id created) ''thunderid POST /applications: response has no client id or secret'' x of
           (e, x) \<Rightarrow> (Inl e, x))
      else (case assign_role c (ta_id created) x of
          (Inl e, x) \<Rightarrow>
            (case delete_after_failure c (ta_id created) (''failed to assign data-consumer role: '' @ e) x of
               (e, x) \<Rightarrow> (Inl e, x))
        | (Inr _, x) \<Rightarrow>
            (Inr \<lparr>ic_id = ta_id created, ic_client_id = ta_client_id created, ic_client_secret = secret\<rparr>, x)))"

definition thunder_create :: "('b, 'x) thunder_client \<Rightarrow> idp_application \<Rightarrow> 'x \<Rightarrow> (string + idp_created) \<times> 'x" where
  "thunder_create c app x =
     (if ia_ou_id app = '''' then (Inl ''thunderid: application organization unit is required'', x)
      else case thunder_do c ''POST'' ''/applications'' (Some (tl_application_body c (thunder_request_of app))) 201 (tl_application c) x of
        (Inl e, x) \<Rightarrow> (Inl e, x)
      | (Inr created, x) \<Rightarrow>
          if ta_id created = '''' then (Inl ''thunderid POST /applications: response has no application id'', x)
          else complete_client c created x)"

text \<open>The client as the application manager of the Portal Backend.\<close>

definition thunder_manager :: "('b, 'x) thunder_client \<Rightarrow> 'x application_manager" where
  "thunder_manager c = \<lparr>am_create = thunder_create c, am_delete = thunder_delete c\<rparr>"

end
