(* ===== verification/PB_Thunder_Properties.thy ===== *)
theory PB_Thunder_Properties
  imports PB_Thunder PB_Saga_Facts
begin

text \<open>
  What the ThunderID client leaves at the identity provider, given what ThunderID's management
  API does, and that the client keeps the contract on which creating an application relies.
\<close>

section \<open>The management API\<close>

text \<open>
  The API as documented, on two observations of the provider's state: the ids of its clients and
  the roles assigned to them. A request that creates a client answers 201 with the new id;
  a deletion answers 204; any other answer, and a request without an answer, changed nothing.
\<close>

definition application_url :: "('b, 'x) thunder_client \<Rightarrow> string \<Rightarrow> string" where
  "application_url c i = tl_base_url c @ ''/applications/'' @ path_escape i"

definition role_url :: "('b, 'x) thunder_client \<Rightarrow> string" where
  "role_url c = tl_base_url c @ ''/roles/'' @ path_escape (tl_role_id c) @ ''/assignments/add''"

definition creates_client :: "('b, 'x) thunder_client \<Rightarrow> ('x \<Rightarrow> string set) \<Rightarrow> bool" where
  "creates_client c clients \<longleftrightarrow>
     (\<forall>b x res x'. tl_do c ''POST'' (tl_base_url c @ ''/applications'') (Some b) x = (res, x') \<longrightarrow>
        (case res of
           Inl _ \<Rightarrow> clients x' = clients x
         | Inr (status, _, ans) \<Rightarrow>
             if status = 201 then \<exists>app. tl_application c ans = Inr app \<and> ta_id app \<noteq> '''' \<and> ta_id app \<notin> clients x \<and>
               clients x' = insert (ta_id app) (clients x)
             else clients x' = clients x))"

definition deletes_client :: "('b, 'x) thunder_client \<Rightarrow> ('x \<Rightarrow> string set) \<Rightarrow> bool" where
  "deletes_client c clients \<longleftrightarrow>
     (\<forall>i x res x'. tl_do c ''DELETE'' (application_url c i) None x = (res, x') \<longrightarrow>
        clients x' = (case res of Inr (status, _, _) \<Rightarrow> if status = 204 then clients x - {i} else clients x | Inl _ \<Rightarrow> clients x))"

definition assigns_role :: "('b, 'x) thunder_client \<Rightarrow> ('x \<Rightarrow> string set) \<Rightarrow> ('x \<Rightarrow> (string \<times> string) set) \<Rightarrow> bool" where
  "assigns_role c clients roles \<longleftrightarrow>
     (\<forall>i b x res x'. tl_assignments_body c [\<lparr>ra_type = ''app'', ra_id = i\<rparr>] = Inr b \<longrightarrow>
        tl_do c ''POST'' (role_url c) (Some b) x = (res, x') \<longrightarrow>
        clients x' = clients x \<and>
        (case res of Inr (status, _, _) \<Rightarrow> status = 204 \<longrightarrow> (tl_role_id c, i) \<in> roles x' | Inl _ \<Rightarrow> True))"

definition thunder_api :: "('b, 'x) thunder_client \<Rightarrow> ('x \<Rightarrow> string set) \<Rightarrow> ('x \<Rightarrow> (string \<times> string) set) \<Rightarrow> bool" where
  "thunder_api c clients roles \<longleftrightarrow> creates_client c clients \<and> deletes_client c clients \<and> assigns_role c clients roles"

section \<open>Single requests\<close>

text \<open>A request that is sent, and one that fails before.\<close>

lemma thunder_do_cases:
  assumes "thunder_do c meth path body want decode x = (r, x')"
  obtains (unsent) e where "r = Inl e" "x' = x"
    | (failed) e e' where "tl_do c meth (tl_base_url c @ path) (map_option projr body) x = (Inl e, x')" "r = Inl e'"
        "\<And>e. body \<noteq> Some (Inl e)"
    | (answered) status line ans where
        "tl_do c meth (tl_base_url c @ path) (map_option projr body) x = (Inr (status, line, ans), x')"
        "r = (if status \<noteq> want then Inl (thunder_status_text meth path line (tl_error c ans))
              else (case decode ans of Inl e \<Rightarrow> Inl (''failed to decode response: '' @ e) | Inr v \<Rightarrow> Inr v))"
        "\<And>e. body \<noteq> Some (Inl e)"
proof (cases "\<exists>e. body = Some (Inl e) \<or> tl_new_request c meth (tl_base_url c @ path) = Inl e")
  case True
  then have "isl r \<and> x' = x"
  proof (elim exE disjE)
    fix e
    assume "body = Some (Inl e)"
    with assms show ?thesis by (auto simp: thunder_do_def)
  next
    fix e
    assume n: "tl_new_request c meth (tl_base_url c @ path) = Inl e"
    show ?thesis
    proof (cases body)
      case (Some v)
      with assms n show ?thesis by (cases v) (auto simp: thunder_do_def)
    qed (use assms n in \<open>auto simp: thunder_do_def\<close>)
  qed
  then show thesis by (cases r) (simp_all add: unsent)
next
  case False
  then have b: "\<And>e. body \<noteq> Some (Inl e)" by blast
  from False obtain u where n: "tl_new_request c meth (tl_base_url c @ path) = Inr u"
    by (cases "tl_new_request c meth (tl_base_url c @ path)") auto
  obtain res y where call: "tl_do c meth (tl_base_url c @ path) (map_option projr body) x = (res, y)" by force
  have run: "thunder_do c meth path body want decode x =
      (case res of Inl e \<Rightarrow> (Inl (''failed to send request: '' @ e), y)
       | Inr (status, line, ans) \<Rightarrow>
           if status \<noteq> want then (Inl (thunder_status_text meth path line (tl_error c ans)), y)
           else (case decode ans of Inl e \<Rightarrow> (Inl (''failed to decode response: '' @ e), y) | Inr v \<Rightarrow> (Inr v, y)))"
  proof (cases body)
    case (Some v)
    with b obtain w where "v = Inr w" by (cases v) auto
    with Some n call show ?thesis by (auto simp: thunder_do_def split: sum.splits)
  qed (use n call in \<open>auto simp: thunder_do_def split: sum.splits\<close>)
  show thesis
  proof (cases res)
    case (Inl e)
    with run assms call b show thesis by (intro failed) auto
  next
    case (Inr p)
    obtain status line ans where "p = (status, line, ans)" by (cases p)
    with Inr run assms have "x' = y"
      "r = (if status \<noteq> want then Inl (thunder_status_text meth path line (tl_error c ans))
            else (case decode ans of Inl e \<Rightarrow> Inl (''failed to decode response: '' @ e) | Inr v \<Rightarrow> Inr v))"
      by (auto split: if_splits sum.splits)
    with call Inr \<open>p = _\<close> b show thesis by (intro answered) simp_all
  qed
qed

lemma thunder_delete_clients:
  assumes "thunder_delete c i x = (r, x')" "deletes_client c clients"
  shows "clients x' = (if isl r then clients x else clients x - {i})"
  using assms(1) unfolding thunder_delete_def
proof (cases rule: thunder_do_cases)
  case (failed e e')
  then have "tl_do c ''DELETE'' (application_url c i) None x = (Inl e, x')" by (simp add: application_url_def)
  with assms(2) failed(2) show ?thesis by (fastforce simp: deletes_client_def)
next
  case (answered status line ans)
  then have "tl_do c ''DELETE'' (application_url c i) None x = (Inr (status, line, ans), x')" by (simp add: application_url_def)
  with assms(2) answered(2) show ?thesis by (fastforce simp: deletes_client_def)
qed simp

lemma assigns_role_rules:
  assumes "assigns_role c clients roles" "tl_assignments_body c [\<lparr>ra_type = ''app'', ra_id = i\<rparr>] = Inr b"
    and "tl_do c ''POST'' (role_url c) (Some b) x = (res, x')"
  shows "clients x' = clients x" and "res = Inr (204, line, ans) \<Longrightarrow> (tl_role_id c, i) \<in> roles x'"
  using assms unfolding assigns_role_def by (blast, fastforce)

lemma assign_role_clients:
  assumes "assign_role c i x = (r, x')" "assigns_role c clients roles"
  shows "clients x' = clients x" and "r = Inr u \<Longrightarrow> tl_role_id c \<noteq> '''' \<Longrightarrow> (tl_role_id c, i) \<in> roles x'"
proof -
  have "clients x' = clients x \<and> (r = Inr u \<longrightarrow> tl_role_id c \<noteq> '''' \<longrightarrow> (tl_role_id c, i) \<in> roles x')"
  proof (cases "tl_role_id c = ''''")
    case True
    with assms(1) show ?thesis by (simp add: assign_role_def)
  next
    case role: False
    let ?body = "tl_assignments_body c [\<lparr>ra_type = ''app'', ra_id = i\<rparr>]"
    from assms(1) role have "thunder_do c ''POST'' (''/roles/'' @ path_escape (tl_role_id c) @ ''/assignments/add'')
        (Some ?body) 204 (\<lambda>_. Inr ()) x = (r, x')"
      by (simp add: assign_role_def)
    then show ?thesis
    proof (cases rule: thunder_do_cases)
      case (failed e e')
      then obtain b where b: "?body = Inr b" by (cases ?body) auto
      with failed(1) have "tl_do c ''POST'' (role_url c) (Some b) x = (Inl e, x')" by (simp add: role_url_def)
      from assigns_role_rules(1) [OF assms(2) b this] failed(2) show ?thesis by simp
    next
      case (answered status line ans)
      then obtain b where b: "?body = Inr b" by (cases ?body) auto
      with answered(1) have call: "tl_do c ''POST'' (role_url c) (Some b) x = (Inr (status, line, ans), x')"
        by (simp add: role_url_def)
      note rules = assigns_role_rules [OF assms(2) b call]
      show ?thesis
      proof (cases "status = 204")
        case True
        with rules(1) rules(2) [of line ans] show ?thesis by simp
      next
        case False
        with rules(1) answered(2) show ?thesis by simp
      qed
    qed simp
  qed
  then show "clients x' = clients x" and "r = Inr u \<Longrightarrow> tl_role_id c \<noteq> '''' \<Longrightarrow> (tl_role_id c, i) \<in> roles x'" by blast+
qed

lemma delete_after_failure_clients:
  assumes "delete_after_failure c i cause x = (e, x')" "deletes_client c clients"
  obtains (deleted) "e = cause" "clients x' = clients x - {i}"
    | (left_behind) d where "e = cause @ '', and failed to delete application: '' @ d" "thunder_delete c i x = (Inl d, x')"
        "clients x' = clients x"
proof -
  obtain r y where d: "thunder_delete c i x = (r, y)" by force
  note kept = thunder_delete_clients [OF d assms(2)]
  show thesis
  proof (cases r)
    case (Inl t)
    with assms(1) d have "e = cause @ '', and failed to delete application: '' @ t" "x' = y"
      by (simp_all add: delete_after_failure_def)
    with Inl d kept show thesis by (intro left_behind) simp_all
  next
    case (Inr u)
    with assms(1) d have "e = cause" "x' = y" by (simp_all add: delete_after_failure_def)
    with Inr kept show thesis by (intro deleted) simp_all
  qed
qed

section \<open>Creating a client\<close>

text \<open>What a failed creation may leave: nothing, or the new client when its deletion failed, too.\<close>

definition left_behind :: "('b, 'x) thunder_client \<Rightarrow> ('x \<Rightarrow> string set) \<Rightarrow> 'x \<Rightarrow> string \<Rightarrow> 'x \<Rightarrow> bool" where
  "left_behind c clients x e x' \<longleftrightarrow>
     (\<exists>i cause d y. i \<notin> clients x \<and> clients x' = insert i (clients x) \<and> thunder_delete c i y = (Inl d, x') \<and>
        e = cause @ '', and failed to delete application: '' @ d)"

lemma undone_or_left_behind:
  assumes "delete_after_failure c i cause y = (e, x')" "deletes_client c clients"
    and "i \<notin> clients x" "clients y = insert i (clients x)"
  shows "clients x' = clients x \<or> left_behind c clients x e x'"
  using assms(1,2)
proof (cases rule: delete_after_failure_clients)
  case (left_behind d)
  have "i \<notin> clients x \<and> clients x' = insert i (clients x) \<and> thunder_delete c i y = (Inl d, x') \<and>
      e = cause @ '', and failed to delete application: '' @ d"
    by (intro conjI assms(3) left_behind(1,2) trans [OF left_behind(3) assms(4)])
  then have "left_behind c clients x e x'" unfolding left_behind_def by (intro exI)
  then show ?thesis ..
qed (use assms in auto)

lemma creates_client_rules:
  assumes "creates_client c clients" "tl_do c ''POST'' (tl_base_url c @ ''/applications'') (Some b) x = (res, x')"
  shows "res = Inl e \<Longrightarrow> clients x' = clients x"
    and "res = Inr (status, line, ans) \<Longrightarrow> status \<noteq> 201 \<Longrightarrow> clients x' = clients x"
    and "res = Inr (201, line, ans) \<Longrightarrow> \<exists>app. tl_application c ans = Inr app \<and> ta_id app \<noteq> '''' \<and> ta_id app \<notin> clients x \<and>
           clients x' = insert (ta_id app) (clients x)"
  using assms(1) [unfolded creates_client_def, rule_format, OF assms(2)] by simp_all

lemma create_request_clients:
  assumes "thunder_do c ''POST'' ''/applications'' (Some body) 201 (tl_application c) x = (r, y)" "creates_client c clients"
  obtains (failed) e where "r = Inl e" "clients y = clients x"
    | (created) app where "r = Inr app" "ta_id app \<noteq> ''''" "ta_id app \<notin> clients x" "clients y = insert (ta_id app) (clients x)"
  using assms(1)
proof (cases rule: thunder_do_cases)
  case (failed e e')
  then obtain b where "body = Inr b" by (cases body) auto
  with failed(1) have "tl_do c ''POST'' (tl_base_url c @ ''/applications'') (Some b) x = (Inl e, y)" by simp
  from creates_client_rules(1) [OF assms(2) this] failed(2) that(1) show thesis by simp
next
  case (answered status line ans)
  then obtain b where "body = Inr b" by (cases body) auto
  with answered(1) have call: "tl_do c ''POST'' (tl_base_url c @ ''/applications'') (Some b) x = (Inr (status, line, ans), y)" by simp
  show thesis
  proof (cases "status = 201")
    case True
    with creates_client_rules(3) [OF assms(2) call, of line ans] obtain app where
      "tl_application c ans = Inr app" "ta_id app \<noteq> ''''" "ta_id app \<notin> clients x" "clients y = insert (ta_id app) (clients x)"
      by auto
    with True answered(2) that(2) show thesis by simp
  next
    case False
    with creates_client_rules(2) [OF assms(2) call] have "clients y = clients x" by simp
    with False answered(2) that(1) show thesis by simp
  qed
qed (use that(1) in simp)

lemma complete_client_clients:
  assumes "complete_client c a y = (r, x')" "thunder_api c clients roles"
    and fresh: "ta_id a \<notin> clients x" "clients y = insert (ta_id a) (clients x)"
  shows "case r of
      Inr v \<Rightarrow> ic_id v = ta_id a \<and> clients x' = clients y \<and> ic_client_id v \<noteq> '''' \<and> ic_client_secret v \<noteq> '''' \<and>
        (tl_role_id c = '''' \<or> (tl_role_id c, ta_id a) \<in> roles x')
    | Inl e \<Rightarrow> clients x' = clients x \<or> left_behind c clients x e x'"
proof (cases "ta_client_id a = '''' \<or> created_secret (ta_inbound a) = ''''")
  case True
  obtain e z where d: "delete_after_failure c (ta_id a) ''thunderid POST /applications: response has no client id or secret'' y = (e, z)"
    by force
  with True assms(1) have "r = Inl e" "x' = z" by (auto simp: complete_client_def Let_def)
  with undone_or_left_behind [where clients = clients, OF d _ fresh] assms(2) show ?thesis by (simp add: thunder_api_def)
next
  case usable: False
  obtain r2 z where asg: "assign_role c (ta_id a) y = (r2, z)" by force
  note kept = assign_role_clients [OF asg, of clients roles]
  show ?thesis
  proof (cases r2)
    case (Inl e2)
    obtain e w where d: "delete_after_failure c (ta_id a) (''failed to assign data-consumer role: '' @ e2) z = (e, w)" by force
    with Inl usable asg assms(1) have "r = Inl e" "x' = w" by (simp_all add: complete_client_def Let_def)
    with undone_or_left_behind [where clients = clients, OF d _ fresh(1)] kept(1) fresh(2) assms(2) show ?thesis by (simp add: thunder_api_def)
  next
    case (Inr u)
    with usable asg assms(1) have "r = Inr \<lparr>ic_id = ta_id a, ic_client_id = ta_client_id a,
        ic_client_secret = created_secret (ta_inbound a)\<rparr>" "x' = z"
      by (simp_all add: complete_client_def Let_def)
    with kept Inr usable assms(2) show ?thesis by (auto simp: thunder_api_def)
  qed
qed

lemma thunder_create_result:
  assumes "thunder_create c app x = (r, x')" "thunder_api c clients roles"
  shows "case r of
      Inr v \<Rightarrow> ic_id v \<notin> clients x \<and> clients x' = insert (ic_id v) (clients x) \<and> ic_client_id v \<noteq> '''' \<and>
        ic_client_secret v \<noteq> '''' \<and> (tl_role_id c = '''' \<or> (tl_role_id c, ic_id v) \<in> roles x')
    | Inl e \<Rightarrow> clients x' = clients x \<or> left_behind c clients x e x'"
proof (cases "ia_ou_id app = ''''")
  case True
  with assms(1) show ?thesis by (auto simp: thunder_create_def)
next
  case unit: False
  note api = assms(2) [unfolded thunder_api_def]
  obtain r1 y where req: "thunder_do c ''POST'' ''/applications'' (Some (tl_application_body c (thunder_request_of app))) 201
      (tl_application c) x = (r1, y)" by force
  from req api show ?thesis
  proof (elim create_request_clients conjE)
    fix e assume "r1 = Inl e" "clients y = clients x"
    with assms(1) unit req show ?thesis by (auto simp: thunder_create_def)
  next
    fix a
    assume r1: "r1 = Inr a" "ta_id a \<noteq> ''''" and fresh: "ta_id a \<notin> clients x" "clients y = insert (ta_id a) (clients x)"
    with assms(1) unit req have "complete_client c a y = (r, x')" by (simp add: thunder_create_def)
    from complete_client_clients [OF this assms(2) fresh] fresh show ?thesis by (auto split: sum.splits)
  qed
qed

lemma thunder_meets_contract:
  assumes "thunder_api c clients roles" "\<forall>i x. \<not> isl (fst (thunder_delete c i x))"
  shows "idp_contract (thunder_manager c) clients"
proof -
  have "\<not> left_behind c clients x e x'" for x e x'
  proof
    assume "left_behind c clients x e x'"
    then obtain i d y where "thunder_delete c i y = (Inl d, x')" unfolding left_behind_def by blast
    moreover from assms(2) have "\<not> isl (fst (thunder_delete c i y))" by blast
    ultimately show False by simp
  qed
  moreover have "clients x' = clients x - {i}" if "thunder_delete c i x = (Inr (), x')" for i x x'
    using thunder_delete_clients [OF that, of clients] assms(1) by (simp add: thunder_api_def)
  ultimately show ?thesis
    using thunder_create_result [OF _ assms(1)] by (fastforce simp: idp_contract_def thunder_manager_def)
qed

section \<open>The property\<close>


text \<open>A provider that numbers its clients by their order and accepts every role.\<close>

definition sample_thunder_do ::
  "string \<Rightarrow> string \<Rightarrow> string list option \<Rightarrow> string list \<times> (string \<times> string) list \<Rightarrow>
   (string + nat \<times> string \<times> string list) \<times> string list \<times> (string \<times> string) list" where
  "sample_thunder_do meth url body x =
     (if meth = ''DELETE'' then
        (Inr (204, ''204 No Content'', []), filter (\<lambda>i. ''http://idp/applications/'' @ path_escape i \<noteq> url) (fst x), snd x)
      else if url = ''http://idp/applications'' then
        (Inr (201, ''201 Created'', [concat (fst x) @ ''c'']), (concat (fst x) @ ''c'') # fst x, snd x)
      else (Inr (204, ''204 No Content'', []), fst x, (''consumer'', hd (the body)) # snd x))"

definition sample_thunder :: "(string list, string list \<times> (string \<times> string) list) thunder_client" where
  "sample_thunder =
     \<lparr>tl_base_url = ''http://idp'', tl_role_id = ''consumer'',
      tl_source = \<lparr>ts_client_id = '''', ts_client_secret = '''', ts_token_url = '''', ts_scopes = [], ts_params = []\<rparr>,
      tl_application_body = (\<lambda>r. Inr [tr_name r]), tl_assignments_body = (\<lambda>as. Inr (map ra_id as)),
      tl_new_request = (\<lambda>_ _. Inr ()), tl_do = sample_thunder_do, tl_error = (\<lambda>_. None),
      tl_application = (\<lambda>b. Inr \<lparr>ta_id = hd b, ta_client_id = hd b, ta_inbound = [\<lparr>ib_type = ''oauth2'', ib_config =
        \<lparr>to_client_id = hd b, to_client_secret = ''secret'', to_grant_types = [], to_auth_method = '''', to_public = False\<rparr>\<rparr>]\<rparr>)\<rparr>"

lemma sample_thunder_api: "thunder_api sample_thunder (\<lambda>x. set (fst x)) (\<lambda>x. set (snd x))"
proof -
  have "creates_client sample_thunder (\<lambda>x. set (fst x))"
    by (auto simp: creates_client_def sample_thunder_def sample_thunder_do_def concat_fresh)
  moreover have "deletes_client sample_thunder (\<lambda>x. set (fst x))"
    by (auto simp: deletes_client_def sample_thunder_def sample_thunder_do_def application_url_def path_escape_inj)
  moreover have "assigns_role sample_thunder (\<lambda>x. set (fst x)) (\<lambda>x. set (snd x))"
    by (auto simp: assigns_role_def sample_thunder_def sample_thunder_do_def role_url_def)
  ultimately show ?thesis by (simp add: thunder_api_def)
qed


end
