(* ===== verification/OE_Audit.thy ===== *)
theory OE_Audit
  imports OE_Federator
begin

text \<open>
  The audit events of the orchestration engine (\<^verbatim>\<open>internal/oe/middleware/audit_middleware.go\<close>)
  and their trace ID (\<^verbatim>\<open>internal/monitoring/trace.go\<close>): what each of the federator's four
  audit calls hands to the argus client. Of a context only the trace ID matters here, the empty
  string when it has none; \<open>fresh\<close> is the UUID the call generates if it needs one. The time of an
  event is left to the client.
\<close>

section \<open>Trace IDs\<close>

type_synonym trace_ctx = "string option"

definition get_trace_id :: "trace_ctx \<Rightarrow> string" where
  "get_trace_id ctx = (case ctx of None \<Rightarrow> '''' | Some t \<Rightarrow> t)"

definition with_trace :: "trace_ctx \<Rightarrow> string \<Rightarrow> trace_ctx" where
  "with_trace ctx t = Some t"

text \<open>\<^verbatim>\<open>withTraceID\<close>, and the first lines of \<^verbatim>\<open>FederateQuery\<close>.\<close>

definition with_trace_id :: "string \<Rightarrow> trace_ctx \<Rightarrow> trace_ctx \<times> string" where
  "with_trace_id fresh ctx =
     (let t = get_trace_id ctx in if t = '''' then (with_trace ctx fresh, fresh) else (ctx, t))"

definition ensure_trace :: "string \<Rightarrow> trace_ctx \<Rightarrow> trace_ctx" where
  "ensure_trace fresh ctx = (if get_trace_id ctx = '''' then with_trace ctx fresh else ctx)"

text \<open>The header's trace ID, or a new one: \<^verbatim>\<open>ExtractTraceIDFromRequest\<close> and the middleware.\<close>

definition request_trace_id :: "string \<Rightarrow> string \<Rightarrow> string" where
  "request_trace_id fresh header = (if header = '''' then fresh else header)"

definition extract_trace_id_from_request :: "string \<Rightarrow> string \<Rightarrow> trace_ctx \<Rightarrow> trace_ctx" where
  "extract_trace_id_from_request fresh header ctx = with_trace ctx (request_trace_id fresh header)"

text \<open>The handler behind the middleware, and the response header the middleware sets.\<close>

definition trace_id_middleware ::
  "string \<Rightarrow> (trace_ctx \<Rightarrow> 'w \<Rightarrow> 'r \<times> 'w) \<Rightarrow> string \<Rightarrow> trace_ctx \<Rightarrow> 'w \<Rightarrow> ((string \<times> string) \<times> 'r) \<times> 'w" where
  "trace_id_middleware fresh next header ctx w =
     (let t = request_trace_id fresh header in
      case next (with_trace ctx t) w of (r, w) \<Rightarrow> (((''X-Trace-ID'', t), r), w))"

section \<open>Events\<close>

text \<open>The library's two constants.\<close>

datatype audit_status = StatusSuccess | StatusFailure

record audit_record =
  al_trace_id :: string
  al_event_type :: string
  al_status :: audit_status
  al_actor_type :: string
  al_actor_id :: string
  al_target_type :: string
  al_target_id :: string
  al_metadata :: json_map

definition maxAuditErrorsToLog :: nat where "maxAuditErrorsToLog = 3"

text \<open>\<open>au_client\<close> is false for a nil argus client.\<close>

record auditor =
  au_client :: bool
  au_actor_type :: string
  au_actor_id :: string

text \<open>What a call adds to the log, and the context it returns.\<close>

type_synonym audit_result = "trace_ctx \<times> audit_record list"

definition log_event :: "auditor \<Rightarrow> audit_record \<Rightarrow> audit_record list" where
  "log_event a e = (if au_client a then [e] else [])"

definition request_received :: "auditor \<Rightarrow> string \<Rightarrow> string \<Rightarrow> string \<Rightarrow> trace_ctx \<Rightarrow> audit_result" where
  "request_received a fresh app_id query ctx =
     (case with_trace_id fresh ctx of (ctx, t) \<Rightarrow>
        (ctx, log_event a
          \<lparr>al_trace_id = t, al_event_type = ''DATA_REQUEST'', al_status = StatusSuccess,
           al_actor_type = ''APPLICATION'', al_actor_id = app_id, al_target_type = ''SERVICE'', al_target_id = ''SERVICE'',
           al_metadata = [(''requestMetadata'', JObj [(''applicationId'', JStr app_id), (''query'', JStr query)])]\<rparr>))"

definition log_service_event ::
  "auditor \<Rightarrow> string \<Rightarrow> string \<Rightarrow> string \<Rightarrow> json_map \<Rightarrow> json_map \<Rightarrow> audit_status \<Rightarrow> trace_ctx \<Rightarrow> audit_result" where
  "log_service_event a fresh event_type target request_meta response_meta status ctx =
     (case with_trace_id fresh ctx of (ctx, t) \<Rightarrow>
        (ctx, log_event a
          \<lparr>al_trace_id = t, al_event_type = event_type, al_status = status,
           al_actor_type = au_actor_type a, al_actor_id = au_actor_id a, al_target_type = ''SERVICE'', al_target_id = target,
           al_metadata =
             (if request_meta = [] then [] else [(''requestMetadata'', JObj request_meta)]) @
             (if response_meta = [] then [] else [(''responseMetadata'', JObj response_meta)])\<rparr>))"

definition required_field_json :: "oe_required_field \<Rightarrow> json" where
  "required_field_json r = JObj [(''fieldName'', JStr (orf_field_name r)), (''schemaId'', JStr (orf_schema_id r))]"

text \<open>The status of a policy answer and its metadata.\<close>

definition policy_check_outcome :: "string + pdp_response option \<Rightarrow> audit_status \<times> json_map" where
  "policy_check_outcome answer =
     (case answer of
        Inl e \<Rightarrow> (StatusFailure, [(''error'', JStr e)])
      | Inr None \<Rightarrow> (StatusSuccess, [])
      | Inr (Some r) \<Rightarrow>
          (if \<not> px_authorized r \<or> px_access_expired r then StatusFailure else StatusSuccess,
           [(''authorized'', JBool (px_authorized r)), (''consentRequired'', JBool (px_requires_consent r)),
            (''accessExpired'', JBool (px_access_expired r))] @
           (if px_authorized r then [] else [(''unauthorizedFields'', JArr (map field_json (px_unauthorized_fields r)))]) @
           (if px_access_expired r then [(''expiredFields'', JArr (map field_json (px_expired_fields r)))] else []) @
           (if px_requires_consent r then [(''consentRequiredFields'', JArr (map field_json (px_consent_fields r)))] else [])))"

definition policy_check ::
  "auditor \<Rightarrow> string \<Rightarrow> string \<Rightarrow> pdp_request option \<Rightarrow> string + pdp_response option \<Rightarrow> trace_ctx \<Rightarrow> audit_result" where
  "policy_check a fresh app_id req answer ctx =
     (let request_meta = (''applicationId'', JStr app_id) #
            (case req of None \<Rightarrow> [] | Some q \<Rightarrow> [(''requiredFields'', JArr (map required_field_json (pq_required_fields q)))])
      in case policy_check_outcome answer of (status, response_meta) \<Rightarrow>
           log_service_event a fresh ''POLICY_CHECK'' ''policy-decision-point'' request_meta response_meta status ctx)"

definition consent_outcome :: "string + oe_consent_response option \<Rightarrow> audit_status \<times> json_map" where
  "consent_outcome answer =
     (case answer of
        Inl e \<Rightarrow> (StatusFailure, [(''error'', JStr e)])
      | Inr None \<Rightarrow> (StatusSuccess, [])
      | Inr (Some r) \<Rightarrow>
          (StatusSuccess,
           [(''consentId'', JStr (ocs_consent_id r)), (''status'', JStr (ocs_status r))] @
           (case ocs_portal_url r of None \<Rightarrow> [] | Some u \<Rightarrow> [(''consentPortalUrl'', JStr u)])))"

definition consent_check ::
  "auditor \<Rightarrow> string \<Rightarrow> string \<Rightarrow> string \<Rightarrow> oe_consent_request option \<Rightarrow> string + oe_consent_response option \<Rightarrow>
   trace_ctx \<Rightarrow> audit_result" where
  "consent_check a fresh app_id owner_id req answer ctx =
     (let request_meta = (''applicationId'', JStr app_id) #
            (if owner_id = '''' then [] else [(''ownerId'', JStr owner_id)]) @
            (case req of None \<Rightarrow> []
             | Some q \<Rightarrow> [(''fieldsCount'', JNum (decimal (length (ocq_fields (ocr_requirement q)))))])
      in case consent_outcome answer of (status, response_meta) \<Rightarrow>
           log_service_event a fresh ''CONSENT_CHECK'' ''consent-engine'' request_meta response_meta status ctx)"

text \<open>
  A provider's response as \<^verbatim>\<open>ProviderFetch\<close> reads it: \<open>None\<close> is nil data. The keys of the data
  come in the order of a Go map, which is no particular one.
\<close>

record audited_response =
  ad_data :: "json_map option"
  ad_errors :: "json list"

definition response_meta :: "audited_response option \<Rightarrow> json_map" where
  "response_meta resp =
     (case resp of
        None \<Rightarrow> []
      | Some r \<Rightarrow>
          [(''hasErrors'', JBool (ad_errors r \<noteq> []))] @
          (if ad_errors r = [] then []
           else [(''errorCount'', JNum (decimal (length (ad_errors r)))),
                 (''errors'', JArr (take maxAuditErrorsToLog (ad_errors r)))]) @
          (case ad_data r of None \<Rightarrow> [] | Some d \<Rightarrow> [(''dataKeys'', JArr (map JStr (remdups (map fst d))))]))"

definition provider_status :: "string option \<Rightarrow> audited_response option \<Rightarrow> audit_status" where
  "provider_status err resp =
     (if err \<noteq> None \<or> (case resp of None \<Rightarrow> False | Some r \<Rightarrow> ad_errors r \<noteq> []) then StatusFailure else StatusSuccess)"

definition audit_provider_fetch ::
  "auditor \<Rightarrow> string \<Rightarrow> provider_fetch \<Rightarrow> audited_response option \<Rightarrow> string option \<Rightarrow> trace_ctx \<Rightarrow> audit_record list" where
  "audit_provider_fetch a fresh fetch resp err ctx =
     (let meta =
        [(''applicationId'', JStr (pf_application_id fetch)), (''schemaId'', JStr (pf_schema_id fetch)),
         (''requestedFields'', JArr (map JStr (pf_requested_fields fetch))), (''query'', JStr (pf_query fetch))] @
        (case err of None \<Rightarrow> [] | Some e \<Rightarrow> [(''error'', JStr e)]) @ response_meta resp
      in snd (log_service_event a fresh ''PROVIDER_FETCH'' (pf_schema_id fetch) [] meta (provider_status err resp) ctx))"

section \<open>The auditor of a request\<close>

text \<open>
  The four calls the federator makes, in one function: the context each returns and the events
  it logs. \<open>data_of\<close> is the decoded data of a response, nil or not.
\<close>

definition audit_call ::
  "auditor \<Rightarrow> string \<Rightarrow> (provider_response \<Rightarrow> json_map option) \<Rightarrow> audit_event \<Rightarrow> trace_ctx \<Rightarrow> audit_result" where
  "audit_call a fresh data_of e ctx =
     (case e of
        RequestReceived app query \<Rightarrow> request_received a fresh app query ctx
      | PolicyCheck app req answer \<Rightarrow> policy_check a fresh app (Some req) answer ctx
      | ConsentCheck app owner req answer \<Rightarrow> consent_check a fresh app owner (Some req) answer ctx
      | ProviderFetched fetch answer \<Rightarrow>
          (ctx, case answer of
             Inl err \<Rightarrow> audit_provider_fetch a fresh fetch None (Some err) ctx
           | Inr r \<Rightarrow> audit_provider_fetch a fresh fetch (Some \<lparr>ad_data = data_of r, ad_errors = pr_errors r\<rparr>) None ctx))"

text \<open>
  Its state keeps the context and the log beside the collaborators' state. The context of the
  request goes from call to call, as \<^verbatim>\<open>FederateQuery\<close> passes it on.
\<close>

type_synonym 'x audit_state = "trace_ctx \<times> audit_record list \<times> 'x"

definition argus_auditor ::
  "auditor \<Rightarrow> string \<Rightarrow> (provider_response \<Rightarrow> json_map option) \<Rightarrow> audit_event \<Rightarrow> 'x audit_state \<Rightarrow> 'x audit_state" where
  "argus_auditor a fresh data_of e s =
     (case s of (ctx, log, x) \<Rightarrow>
        (case audit_call a fresh data_of e ctx of (ctx, new) \<Rightarrow> (ctx, log @ new, x)))"

text \<open>A context with a trace ID is returned as it came, and its ID is the event's.\<close>

lemma with_trace_id_set: "get_trace_id ctx \<noteq> '''' \<Longrightarrow> with_trace_id fresh ctx = (ctx, get_trace_id ctx)"
  by (simp add: with_trace_id_def)

lemma get_trace_id_ensure: "fresh \<noteq> '''' \<Longrightarrow> get_trace_id (ensure_trace fresh ctx) \<noteq> ''''"
  by (simp add: ensure_trace_def get_trace_id_def with_trace_def)

lemmas audit_call_defs = request_received_def policy_check_def consent_check_def audit_provider_fetch_def
  log_service_event_def log_event_def Let_def

lemma audit_call_ctx: "get_trace_id ctx \<noteq> '''' \<Longrightarrow> fst (audit_call a fresh data_of e ctx) = ctx"
  by (auto simp: audit_call_def audit_call_defs with_trace_id_set split: audit_event.splits sum.splits prod.splits)

lemma audit_call_trace:
  "get_trace_id ctx \<noteq> '''' \<Longrightarrow> l \<in> set (snd (audit_call a fresh data_of e ctx)) \<Longrightarrow> al_trace_id l = get_trace_id ctx"
  by (auto simp: audit_call_def audit_call_defs with_trace_id_set split: audit_event.splits sum.splits prod.splits if_splits)

lemma audit_call_length: "length (snd (audit_call a fresh data_of e ctx)) = (if au_client a then 1 else 0)"
  by (auto simp: audit_call_def audit_call_defs split: audit_event.splits sum.splits prod.splits)

end
