(* ===== verification/OE_Audit_Properties.thy ===== *)
theory OE_Audit_Properties
  imports OE_Audit OE_Properties
begin

text \<open>
  The audit trail of a query: a federator with the argus auditor answers as one that records
  nothing, and its log holds exactly the events of the query, in order, under one trace ID.
\<close>

section \<open>A federator with the argus auditor\<close>

text \<open>The collaborators of \<open>f\<close> see their own state only.\<close>

definition beside :: "('s \<Rightarrow> 'a \<times> 's) \<Rightarrow> 's audit_state \<Rightarrow> 'a \<times> 's audit_state" where
  "beside g s = (case s of (ctx, log, x) \<Rightarrow> case g x of (r, x) \<Rightarrow> (r, (ctx, log, x)))"

definition audited_federator ::
  "auditor \<Rightarrow> string \<Rightarrow> (provider_response \<Rightarrow> json_map option) \<Rightarrow> 's federator \<Rightarrow> 's audit_state federator" where
  "audited_federator a fresh data_of f =
     \<lparr>fd_providers = fd_providers f, fd_schemas = (\<lambda>s. fd_schemas f (snd (snd s))),
      fd_policy = map_option (\<lambda>d q. beside (d q)) (fd_policy f),
      fd_consent = map_option (\<lambda>d q. beside (d q)) (fd_consent f),
      fd_auditor = argus_auditor a fresh data_of,
      fd_id_arg = fd_id_arg f, fd_mappings = fd_mappings f, fd_types = fd_types f\<rparr>"

text \<open>A request: its context gets a trace ID if it has none, and the log starts empty.\<close>

definition traced_query ::
  "nat \<Rightarrow> fed_lib \<Rightarrow> auditor \<Rightarrow> string \<Rightarrow> (provider_response \<Rightarrow> json_map option) \<Rightarrow> 's federator \<Rightarrow>
   trace_ctx \<Rightarrow> graphql_request \<Rightarrow> consumer \<Rightarrow> 's \<Rightarrow> graphql_response \<times> 's audit_state world" where
  "traced_query fuel lib a fresh data_of f ctx request who x =
     federate_query fuel lib (audited_federator a fresh data_of f) request who ((ensure_trace fresh ctx, [], x), [])"

section \<open>Simulation\<close>

fun recorded :: "event list \<Rightarrow> audit_event list" where
  "recorded [] = []"
| "recorded (Recorded e # es) = e # recorded es"
| "recorded (_ # es) = recorded es"

lemma recorded_append [simp]: "recorded (xs @ ys) = recorded xs @ recorded ys"
  by (induction xs rule: recorded.induct) auto

definition logged ::
  "auditor \<Rightarrow> string \<Rightarrow> (provider_response \<Rightarrow> json_map option) \<Rightarrow> trace_ctx \<Rightarrow> event list \<Rightarrow> audit_record list" where
  "logged a fresh data_of ctx es = concat (map (\<lambda>e. snd (audit_call a fresh data_of e ctx)) (recorded es))"

definition lift_world ::
  "auditor \<Rightarrow> string \<Rightarrow> (provider_response \<Rightarrow> json_map option) \<Rightarrow> trace_ctx \<Rightarrow> 's world \<Rightarrow> 's audit_state world" where
  "lift_world a fresh data_of ctx w = (case w of (x, es) \<Rightarrow> ((ctx, logged a fresh data_of ctx es, x), es))"

text \<open>The federator that records nothing.\<close>

abbreviation quiet :: "'s federator \<Rightarrow> 's federator" where
  "quiet f \<equiv> f\<lparr>fd_auditor := noop_auditor\<rparr>"

lemma audited_fields [simp]:
  "fd_providers (audited_federator a fresh data_of f) = fd_providers f"
  "fd_schemas (audited_federator a fresh data_of f) s = fd_schemas f (snd (snd s))"
  "fd_policy (audited_federator a fresh data_of f) = map_option (\<lambda>d q. beside (d q)) (fd_policy f)"
  "fd_consent (audited_federator a fresh data_of f) = map_option (\<lambda>d q. beside (d q)) (fd_consent f)"
  "fd_id_arg (audited_federator a fresh data_of f) = fd_id_arg f"
  "fd_mappings (audited_federator a fresh data_of f) = fd_mappings f"
  "fd_types (audited_federator a fresh data_of f) = fd_types f"
  by (simp_all add: audited_federator_def)

lemma audit_lift:
  assumes "get_trace_id ctx \<noteq> ''''"
  shows "audit (audited_federator a fresh data_of f) e (lift_world a fresh data_of ctx w) =
    lift_world a fresh data_of ctx (audit (quiet f) e w)"
  using audit_call_ctx [OF assms, of a fresh data_of e]
  by (cases w) (auto simp: audit_def lift_world_def logged_def audited_federator_def argus_auditor_def noop_auditor_def
      split: prod.splits)

lemma ask_lift:
  assumes "\<And>x. \<not> e = Recorded x"
  shows "ask e (beside g) (lift_world a fresh data_of ctx w) = apsnd (lift_world a fresh data_of ctx) (ask e g w)"
proof -
  have "recorded [e] = []" using assms by (cases e) auto
  then show ?thesis by (cases w) (simp add: ask_def beside_def lift_world_def logged_def split: prod.splits)
qed

lemma record_lift:
  assumes "\<And>x. \<not> e = Recorded x"
  shows "record_event e (lift_world a fresh data_of ctx w) = lift_world a fresh data_of ctx (record_event e w)"
proof -
  have "recorded [e] = []" using assms by (cases e) auto
  then show ?thesis by (cases w) (simp add: record_event_def lift_world_def logged_def)
qed

text \<open>Every phase on the lifted world is the lifted phase.\<close>

lemma check_policy_lift:
  assumes "get_trace_id ctx \<noteq> ''''"
  shows "check_policy (audited_federator a fresh data_of f) app requested (lift_world a fresh data_of ctx w) =
    apsnd (lift_world a fresh data_of ctx) (check_policy (quiet f) app requested w)"
proof (cases "fd_policy f")
  case None
  then show ?thesis by (simp add: check_policy_def)
next
  case (Some d)
  obtain answer w' where "ask (AskedPolicy \<lparr>pq_app_id = app, pq_required_fields = requested\<rparr>)
      (d \<lparr>pq_app_id = app, pq_required_fields = requested\<rparr>) w = (answer, w')" by (metis surj_pair)
  then show ?thesis using Some
    by (simp add: check_policy_def ask_lift audit_lift [OF assms] Let_def split: sum.splits option.splits)
qed

lemma check_consent_lift:
  assumes "get_trace_id ctx \<noteq> ''''"
  shows "check_consent (audited_federator a fresh data_of f) app owner resp (lift_world a fresh data_of ctx w) =
    apsnd (lift_world a fresh data_of ctx) (check_consent (quiet f) app owner resp w)"
proof (cases "fd_consent f")
  case None
  then show ?thesis by (simp add: check_consent_def)
next
  case (Some d)
  obtain answer w' where "ask (AskedConsent (consent_request app owner (px_consent_fields resp)))
      (d (consent_request app owner (px_consent_fields resp))) w = (answer, w')" by (metis surj_pair)
  then show ?thesis using Some
    by (simp add: check_consent_def ask_lift audit_lift [OF assms] Let_def split: sum.splits option.splits)
qed

lemma authorize_access_lift:
  assumes "get_trace_id ctx \<noteq> ''''"
  shows "authorize_access (audited_federator a fresh data_of f) app requested owner (lift_world a fresh data_of ctx w) =
    apsnd (lift_world a fresh data_of ctx) (authorize_access (quiet f) app requested owner w)"
  by (cases "check_policy (quiet f) app requested w")
    (simp add: authorize_access_def check_policy_lift [OF assms] check_consent_lift [OF assms] split: sum.splits option.splits)

lemma run_fetches_lift:
  assumes "get_trace_id ctx \<noteq> ''''"
  shows "run_fetches (audited_federator a fresh data_of f) app fts (lift_world a fresh data_of ctx w) =
    lift_world a fresh data_of ctx (run_fetches (quiet f) app fts w)"
proof -
  have step: "run_fetch (audited_federator a fresh data_of f) app ft (lift_world a fresh data_of ctx w) =
      lift_world a fresh data_of ctx (run_fetch (quiet f) app ft w)" for ft w
    by (simp add: run_fetch_def record_lift audit_lift [OF assms] split: option.splits)
  show ?thesis by (induction fts arbitrary: w) (simp_all add: run_fetches_def step)
qed

lemma prepare_lift:
  "prepare fuel lib (audited_federator a fresh data_of f) s request = prepare fuel lib (quiet f) (snd (snd s)) request"
  by (simp add: prepare_def federator_data_owner_id_def)

lemma run_plan_lift:
  assumes "get_trace_id ctx \<noteq> ''''"
  shows "run_plan lib (audited_federator a fresh data_of f) app op owner p (lift_world a fresh data_of ctx w) =
    apsnd (lift_world a fresh data_of ctx) (run_plan lib (quiet f) app op owner p w)"
proof -
  obtain denied w1 where "authorize_access (quiet f) app (required_fields p) owner w = (denied, w1)" by (metis surj_pair)
  then show ?thesis
    by (cases denied; cases "lift_world a fresh data_of ctx w1"; cases w1)
      (simp_all add: run_plan_def authorize_access_lift [OF assms] flip: run_fetches_lift [OF assms])
qed

lemma federate_query_lift:
  assumes "get_trace_id ctx \<noteq> ''''"
  shows "federate_query fuel lib (audited_federator a fresh data_of f) request who (lift_world a fresh data_of ctx w) =
    apsnd (lift_world a fresh data_of ctx) (federate_query fuel lib (quiet f) request who w)"
proof -
  have fst_lift: "snd (snd (fst (lift_world a fresh data_of ctx v))) = fst v" for v
    by (cases v) (simp add: lift_world_def)
  show ?thesis
    by (simp add: federate_query_def audit_lift [OF assms] prepare_lift fst_lift run_plan_lift [OF assms] Let_def
        split: sum.splits prod.splits)
qed

section \<open>The events of a query\<close>

text \<open>Every question and every call is followed at once by its own audit record.\<close>

fun paired :: "string \<Rightarrow> event list \<Rightarrow> bool" where
  "paired app [] \<longleftrightarrow> True"
| "paired app (AskedPolicy q # Recorded (PolicyCheck b q' answer) # es) \<longleftrightarrow> b = app \<and> q' = q \<and> paired app es"
| "paired app (AskedConsent q # Recorded (ConsentCheck b owner q' answer) # es) \<longleftrightarrow> b = app \<and> q' = q \<and> paired app es"
| "paired app (CalledProvider sid r # Recorded (ProviderFetched pf answer) # es) \<longleftrightarrow>
     pf_application_id pf = app \<and> pf_schema_id pf = sid \<and> pf_query pf = rq_query r \<and> paired app es"
| "paired app _ \<longleftrightarrow> False"

lemma paired_append: "paired app xs \<Longrightarrow> paired app ys \<Longrightarrow> paired app (xs @ ys)"
  by (induction app xs rule: paired.induct) auto

definition adds_paired :: "string \<Rightarrow> 's world \<Rightarrow> 's world \<Rightarrow> bool" where
  "adds_paired app w w' \<longleftrightarrow> (\<exists>extra. snd w' = snd w @ extra \<and> paired app extra)"

lemma adds_paired_refl: "adds_paired app w w"
  by (auto simp: adds_paired_def)

lemma adds_paired_trans: "adds_paired app u v \<Longrightarrow> adds_paired app v w \<Longrightarrow> adds_paired app u w"
  by (auto simp: adds_paired_def intro: paired_append)

lemma check_policy_paired: "check_policy f app requested w = (r, w') \<Longrightarrow> adds_paired app w w'"
  by (cases w) (auto simp: check_policy_def ask_def audit_def Let_def adds_paired_def
      split: option.splits sum.splits prod.splits if_splits)

lemma check_consent_paired: "check_consent f app owner resp w = (r, w') \<Longrightarrow> adds_paired app w w'"
  by (cases w) (auto simp: check_consent_def ask_def audit_def Let_def adds_paired_def
      split: option.splits sum.splits prod.splits if_splits)

lemma authorize_access_paired:
  assumes "authorize_access f app requested owner w = (r, w')"
  shows "adds_paired app w w'"
  using assms
  by (auto simp: authorize_access_def split: prod.splits sum.splits option.splits if_splits
      dest!: check_policy_paired check_consent_paired intro: adds_paired_trans)

lemma run_fetches_paired: "adds_paired app w (run_fetches f app fts w)"
proof (induction fts arbitrary: w)
  case Nil
  show ?case by (simp add: run_fetches_def adds_paired_refl)
next
  case (Cons ft fts)
  have "adds_paired app w (run_fetch f app ft w)"
    by (cases w) (auto simp: run_fetch_def record_event_def audit_def adds_paired_def fetch_request_def split: option.splits)
  from adds_paired_trans [OF this Cons.IH] show ?case by (simp add: run_fetches_def)
qed

lemma run_plan_paired: "adds_paired app w (snd (run_plan lib f app op owner p w))"
proof -
  obtain denied w1 where a: "authorize_access f app (required_fields p) owner w = (denied, w1)" by (metis surj_pair)
  have w1: "adds_paired app w w1" using a by (rule authorize_access_paired)
  then have "adds_paired app w (run_fetches f app (p_fetches p) w1)" by (rule adds_paired_trans [OF _ run_fetches_paired])
  with a w1 show ?thesis by (cases w1) (simp add: run_plan_def split: option.splits)
qed

lemma federate_query_paired:
  "\<exists>rest. snd (snd (federate_query fuel lib f request who (s, []))) =
     Recorded (RequestReceived (ca_application_id who) (rq_query request)) # rest \<and> paired (ca_application_id who) rest"
proof -
  let ?app = "ca_application_id who" and ?e = "Recorded (RequestReceived (ca_application_id who) (rq_query request))"
  let ?s = "fd_auditor f (RequestReceived ?app (rq_query request)) s"
  have "adds_paired ?app (?s, [?e]) (snd (run_plan lib f ?app op owner p (?s, [?e])))" for op owner p
    by (rule run_plan_paired)
  then show ?thesis
    by (auto simp: federate_query_def audit_def adds_paired_def Let_def split: sum.splits prod.splits)
qed

text \<open>
  C15. The audit trail of a query. A federator with the argus auditor answers as one that records
  nothing, and leaves its collaborators in the same state. Its log is the audit records of the
  query's events in their order, each under the query's one trace ID: first the request, then
  for every question to the Policy Decision Point or the Consent Engine and every provider call
  its own record, with no question or call left out and no other record.
\<close>

theorem audit_trail:
  assumes "fresh \<noteq> ''''"
    and "traced_query fuel lib a fresh data_of f ctx request who x = (resp, ((ctx', log, x'), es))"
  shows "federate_query fuel lib (quiet f) request who (x, []) = (resp, (x', es)) \<and> ctx' = ensure_trace fresh ctx \<and>
    log = concat (map (\<lambda>e. snd (audit_call a fresh data_of e ctx')) (recorded es)) \<and>
    (\<forall>l \<in> set log. al_trace_id l = get_trace_id ctx' \<and> al_trace_id l \<noteq> '''') \<and>
    (\<exists>rest. es = Recorded (RequestReceived (ca_application_id who) (rq_query request)) # rest \<and>
      paired (ca_application_id who) rest) \<and>
    (au_client a \<longrightarrow> length log = length (recorded es))"
proof -
  let ?ctx = "ensure_trace fresh ctx"
  have t: "get_trace_id ?ctx \<noteq> ''''" by (rule get_trace_id_ensure [OF assms(1)])
  obtain x1 es1 where q: "federate_query fuel lib (quiet f) request who (x, []) = (resp, (x1, es1))"
    and w: "((ctx', log, x'), es) = lift_world a fresh data_of ?ctx (x1, es1)"
    using assms(2) federate_query_lift [OF t, of fuel lib a fresh data_of f request who "(x, [])"]
    by (cases "federate_query fuel lib (quiet f) request who (x, [])") (auto simp: traced_query_def lift_world_def logged_def)
  from w have eqs: "ctx' = ?ctx" "x' = x1" "es = es1" "log = logged a fresh data_of ?ctx es1"
    by (simp_all add: lift_world_def)
  have log: "log = concat (map (\<lambda>e. snd (audit_call a fresh data_of e ctx')) (recorded es))"
    using eqs by (simp add: logged_def)
  have "\<forall>l \<in> set log. al_trace_id l = get_trace_id ctx' \<and> al_trace_id l \<noteq> ''''"
    using audit_call_trace [OF t] t unfolding log eqs(1) by auto
  moreover have "\<exists>rest. es = Recorded (RequestReceived (ca_application_id who) (rq_query request)) # rest \<and>
      paired (ca_application_id who) rest"
    using federate_query_paired [of fuel lib "quiet f" request who x] q eqs(3) by simp
  moreover have "au_client a \<longrightarrow> length log = length (recorded es)"
    unfolding log by (simp add: length_concat comp_def audit_call_length sum_list_triv)
  ultimately show ?thesis using q eqs(1-3) log by blast
qed

definition sample_auditor :: auditor where
  "sample_auditor = \<lparr>au_client = True, au_actor_type = ''SERVICE'', au_actor_id = ''oe''\<rparr>"

lemma audit_trail_witness:
  "\<exists>resp ctx log x es.
     traced_query 1 ex_fed_lib sample_auditor ''t1'' (\<lambda>r. Some (pr_data r)) (ex_federator ''approved'') None ex_request ex_consumer ()
       = (resp, ((ctx, log, x), es)) \<and> ctx = Some ''t1'' \<and> length log = length (recorded es) \<and>
     (\<forall>l \<in> set log. al_trace_id l = ''t1'')"
proof -
  obtain resp ctx log x es where q:
    "traced_query 1 ex_fed_lib sample_auditor ''t1'' (\<lambda>r. Some (pr_data r)) (ex_federator ''approved'') None ex_request ex_consumer ()
       = (resp, ((ctx, log, x), es))" by (metis surj_pair)
  have "''t1'' \<noteq> ''''" by simp
  from audit_trail [OF this q] have trail: "ctx = ensure_trace ''t1'' None"
    "\<forall>l \<in> set log. al_trace_id l = get_trace_id ctx" "au_client sample_auditor \<longrightarrow> length log = length (recorded es)"
    by blast+
  have "ctx = Some ''t1''" using trail(1) by (simp add: ensure_trace_def get_trace_id_def with_trace_def)
  then show ?thesis using q trail(2,3) by (simp add: sample_auditor_def get_trace_id_def)
qed

end
