(* ===== verification/OE_Provider.thy ===== *)
theory OE_Provider
  imports OE_Access
begin

text \<open>
  The configured data providers of the orchestration engine
  (\<^verbatim>\<open>internal/oe/provider/provider.go\<close>): the registry that the federator looks providers up
  in, and the call of one provider. The HTTP client is the library's \<^verbatim>\<open>remote.Client\<close>.
\<close>

section \<open>Configuration\<close>

definition DefaultTimeout :: string where "DefaultTimeout = ''10s''"

text \<open>
  \<^verbatim>\<open>remote.ServiceConfig\<close>. Of the authentication only the OAuth2 token URL is read here; the rest,
  with the TLS settings, is the library's, as \<open>'o\<close>.
\<close>

record 'o provider_config =
  vc_id :: string
  vc_url :: string
  vc_timeout :: string
  vc_auth :: "string option option"
  vc_other :: 'o

text \<open>
  The library: the check of a URL under its key, \<^verbatim>\<open>time.ParseDuration\<close>, the client of a service
  that a fresh manager is given, and one request of a client with the status and the decoding
  of its body.
\<close>

record ('o, 'c) remote_lib =
  rm_http_url :: "string \<Rightarrow> string \<Rightarrow> string + unit"
  rm_parse_duration :: "string \<Rightarrow> string + int"
  rm_client :: "'o provider_config \<Rightarrow> string + 'c"
  rm_request :: "'c \<Rightarrow> string \<Rightarrow> string \<Rightarrow> graphql_request \<Rightarrow> string + nat \<times> (string + provider_response)"

record 'c provider =
  pv_schema_id :: string
  pv_url :: string
  pv_client :: 'c

type_synonym 'c registry = "string \<rightharpoonup> 'c provider"

section \<open>The registry\<close>

definition provider_key :: "nat \<Rightarrow> string \<Rightarrow> string" where
  "provider_key i key = ''providers['' @ decimal i @ ''].'' @ key"

text \<open>The keys of the warning on credentials over plain HTTP.\<close>

definition plain_http :: "string \<Rightarrow> bool" where
  "plain_http url \<longleftrightarrow> has_prefix (to_lower url) ''http://''"

definition plain_http_credentials :: "nat \<Rightarrow> 'o provider_config \<Rightarrow> string list" where
  "plain_http_credentials i cfg =
     (case vc_auth cfg of
        None \<Rightarrow> []
      | Some oauth2 \<Rightarrow>
          (if plain_http (vc_url cfg) then [provider_key i ''url''] else []) @
          (case oauth2 of
             None \<Rightarrow> []
           | Some token_url \<Rightarrow> if plain_http token_url then [provider_key i ''auth.oauth2.tokenURL''] else []))"

definition check_timeout :: "('o, 'c) remote_lib \<Rightarrow> nat \<Rightarrow> 'o provider_config \<Rightarrow> string + 'o provider_config" where
  "check_timeout lib i cfg =
     (let cfg = (if vc_timeout cfg = '''' then cfg\<lparr>vc_timeout := DefaultTimeout\<rparr> else cfg) in
      case rm_parse_duration lib (vc_timeout cfg) of
        Inl e \<Rightarrow> Inl (''providers['' @ decimal i @ ''] ('' @ vc_id cfg @ ''): invalid timeout '' @ vc_timeout cfg @ '': '' @ e)
      | Inr _ \<Rightarrow> Inr cfg)"

definition register_provider ::
  "('o, 'c) remote_lib \<Rightarrow> 'c registry \<Rightarrow> nat \<times> 'o provider_config \<Rightarrow> string + 'c registry" where
  "register_provider lib reg icfg =
     (case icfg of (i, cfg) \<Rightarrow>
        if vc_id cfg = '''' then Inl (provider_key i ''id is required'')
        else bind_res (rm_http_url lib (provider_key i ''url'') (vc_url cfg)) (\<lambda>_.
          if reg (vc_id cfg) \<noteq> None then Inl (''duplicate provider for schema '' @ vc_id cfg)
          else bind_res (check_timeout lib i cfg) (\<lambda>cfg.
            bind_res (rm_client lib cfg) (\<lambda>client.
              Inr (reg(vc_id cfg \<mapsto> \<lparr>pv_schema_id = vc_id cfg, pv_url = vc_url cfg, pv_client = client\<rparr>))))))"

definition new_registry :: "('o, 'c) remote_lib \<Rightarrow> 'o provider_config list \<Rightarrow> string + 'c registry" where
  "new_registry lib cfgs = fold_res (register_provider lib) Map.empty (enumerate 0 cfgs)"

text \<open>\<open>None\<close> is a nil registry.\<close>

definition registry_get :: "'c registry option \<Rightarrow> string \<Rightarrow> 'c provider option" where
  "registry_get reg i = (case reg of None \<Rightarrow> None | Some r \<Rightarrow> r i)"

section \<open>Calls\<close>

definition execute_provider :: "('o, 'c) remote_lib \<Rightarrow> 'c provider \<Rightarrow> graphql_request \<Rightarrow> string + provider_response" where
  "execute_provider lib p request =
     (case rm_request lib (pv_client p) ''POST'' (pv_url p) request of
        Inl e \<Rightarrow> Inl e
      | Inr (status, decoded) \<Rightarrow>
          if status < 200 \<or> 300 \<le> status
          then Inl (''provider for schema '' @ pv_schema_id p @ '' returned HTTP status '' @ decimal status)
          else decoded)"

text \<open>\<^verbatim>\<open>ProviderLookup(registry.Get)\<close>: the registry as the federator sees it.\<close>

definition provider_lookup :: "(string \<Rightarrow> 'p option) \<Rightarrow> ('p \<Rightarrow> provider_client) \<Rightarrow> providers" where
  "provider_lookup lookup run schema_id = (case lookup schema_id of None \<Rightarrow> None | Some p \<Rightarrow> Some (run p))"

definition registered_providers :: "('o, 'c) remote_lib \<Rightarrow> 'c registry option \<Rightarrow> providers" where
  "registered_providers lib reg = provider_lookup (registry_get reg) (execute_provider lib)"

section \<open>What is registered\<close>

lemma check_timeout_Inr:
  assumes "check_timeout lib i cfg = Inr cfg'"
  shows "vc_id cfg' = vc_id cfg" "vc_url cfg' = vc_url cfg" "\<exists>d. rm_parse_duration lib (vc_timeout cfg') = Inr d"
  using assms by (auto simp: check_timeout_def Let_def split: if_splits sum.splits)

lemma register_provider_Inr:
  assumes "register_provider lib reg (i, cfg) = Inr reg'"
  obtains client where "vc_id cfg \<noteq> ''''" "reg (vc_id cfg) = None" "rm_http_url lib (provider_key i ''url'') (vc_url cfg) = Inr ()"
    "reg' = reg(vc_id cfg \<mapsto> \<lparr>pv_schema_id = vc_id cfg, pv_url = vc_url cfg, pv_client = client\<rparr>)"
  using assms by (auto simp: register_provider_def bind_res_Inr_iff check_timeout_Inr split: if_splits)

text \<open>The registry has exactly the configured providers; ids are distinct.\<close>

definition registers :: "'c registry \<Rightarrow> 'o provider_config list \<Rightarrow> bool" where
  "registers reg cfgs \<longleftrightarrow>
     distinct (map vc_id cfgs) \<and> dom reg = vc_id ` set cfgs \<and>
     (\<forall>cfg \<in> set cfgs. vc_id cfg \<noteq> '''' \<and>
        (\<exists>p. reg (vc_id cfg) = Some p \<and> pv_schema_id p = vc_id cfg \<and> pv_url p = vc_url cfg))"

lemma registers_snoc:
  assumes "registers reg cfgs" "register_provider lib reg (i, cfg) = Inr reg'"
  shows "registers reg' (cfgs @ [cfg])"
proof -
  have "reg (vc_id cfg) = None" "vc_id cfg \<noteq> ''''"
    and reg': "\<exists>client. reg' = reg(vc_id cfg \<mapsto> \<lparr>pv_schema_id = vc_id cfg, pv_url = vc_url cfg, pv_client = client\<rparr>)"
    using assms(2) by (auto elim: register_provider_Inr)
  moreover from this(1) assms(1) have new: "vc_id cfg \<notin> vc_id ` set cfgs" by (auto simp: registers_def)
  moreover from this have "vc_id c \<noteq> vc_id cfg" if "c \<in> set cfgs" for c using that by (metis image_eqI)
  ultimately show ?thesis using assms(1) by (auto simp: registers_def)
qed

lemma fold_register:
  "fold_res (register_provider lib) reg (enumerate k cfgs) = Inr reg' \<Longrightarrow> registers reg earlier \<Longrightarrow> registers reg' (earlier @ cfgs)"
proof (induction cfgs arbitrary: k reg earlier)
  case (Cons cfg cfgs)
  from Cons.prems(1) obtain reg1 where step: "register_provider lib reg (k, cfg) = Inr reg1"
    and rest: "fold_res (register_provider lib) reg1 (enumerate (Suc k) cfgs) = Inr reg'"
    by (auto simp: bind_res_Inr_iff)
  from Cons.IH [OF rest registers_snoc [OF Cons.prems(2) step]] show ?case by simp
qed simp

lemma new_registry_registers: "new_registry lib cfgs = Inr reg \<Longrightarrow> registers reg cfgs"
  unfolding new_registry_def by (drule fold_register [where earlier = "[]"]) (simp_all add: registers_def)

lemma registered_provider:
  assumes "new_registry lib cfgs = Inr reg"
  shows "registered_providers lib (Some reg) i \<noteq> None \<longleftrightarrow> i \<in> vc_id ` set cfgs"
  using new_registry_registers [OF assms]
  by (auto simp: registers_def registered_providers_def provider_lookup_def registry_get_def split: option.splits)

text \<open>An answer outside the 2xx range is an error, whatever its body.\<close>

lemma execute_provider_Inr:
  assumes "execute_provider lib p request = Inr resp"
  shows "\<exists>status. 200 \<le> status \<and> status < 300 \<and> rm_request lib (pv_client p) ''POST'' (pv_url p) request = Inr (status, Inr resp)"
  using assms by (auto simp: execute_provider_def split: sum.splits if_splits prod.splits)

end
