(* ===== verification/Url_Values.thy ===== *)
theory Url_Values
  imports Url
begin

text \<open>
  \<^verbatim>\<open>url.Values\<close>: the values of each key, their encoding with the keys in order, and the
  round trip through a server's reading of the query. A URL is what comes before its query, the
  raw query and the fragment.
\<close>

type_synonym url_values = "(string \<times> string list) list"

definition vals_get :: "url_values \<Rightarrow> string \<Rightarrow> string" where
  "vals_get vs k = (case map_of vs k of Some (v # _) \<Rightarrow> v | _ \<Rightarrow> '''')"

definition vals_set :: "string \<Rightarrow> string \<Rightarrow> url_values \<Rightarrow> url_values" where
  "vals_set k v vs = (k, [v]) # filter (\<lambda>p. fst p \<noteq> k) vs"

definition vals_add :: "url_values \<Rightarrow> string \<times> string \<Rightarrow> url_values" where
  "vals_add vs kv = (fst kv, (case map_of vs (fst kv) of None \<Rightarrow> [] | Some xs \<Rightarrow> xs) @ [snd kv]) # filter (\<lambda>p. fst p \<noteq> fst kv) vs"

definition parse_values :: "string \<Rightarrow> url_values" where
  "parse_values raw = foldl vals_add [] (List.map_filter query_pair (filter (\<lambda>s. s \<noteq> []) (split_on (CHR ''&'') raw)))"

definition pair_text :: "string \<times> string \<Rightarrow> string" where
  "pair_text kv = query_escape (fst kv) @ ''='' @ query_escape (snd kv)"

definition vals_pairs :: "url_values \<Rightarrow> (string \<times> string) list" where
  "vals_pairs vs = concat (map (\<lambda>(k, xs). map (Pair k) xs) vs)"

definition vals_encode :: "url_values \<Rightarrow> string" where
  "vals_encode vs = join_on (CHR ''&'') (map pair_text (vals_pairs (sort_key fst vs)))"

record split_url =
  su_base :: string
  su_query :: string
  su_fragment :: string

definition url_text :: "split_url \<Rightarrow> string" where
  "url_text u = su_base u @ (if su_query u = '''' then '''' else ''?'' @ su_query u) @
     (if su_fragment u = '''' then '''' else ''#'' @ su_fragment u)"

section \<open>Setting\<close>

lemma map_of_filter_key: "map_of (filter (\<lambda>p. fst p \<noteq> k) vs) = (map_of vs)(k := None)"
  by (induction vs) (auto simp: fun_eq_iff)

lemma map_of_vals_set: "map_of (vals_set k v vs) = (map_of vs)(k \<mapsto> [v])"
  by (simp add: vals_set_def map_of_filter_key fun_upd_def fun_eq_iff)

lemma vals_get_set: "vals_get (vals_set k v vs) k' = (if k' = k then v else vals_get vs k')"
  by (simp add: vals_get_def map_of_vals_set)

lemma distinct_vals_set: "distinct (map fst vs) \<Longrightarrow> distinct (map fst (vals_set k v vs))"
  by (auto simp: vals_set_def distinct_map intro: inj_on_subset)

lemma distinct_vals_add: "distinct (map fst vs) \<Longrightarrow> distinct (map fst (vals_add vs kv))"
  by (auto simp: vals_add_def distinct_map intro: inj_on_subset)

lemma distinct_parse_values: "distinct (map fst (parse_values raw))"
proof -
  have "distinct (map fst (foldl vals_add vs kvs))" if "distinct (map fst vs)" for vs kvs
    using that by (induction kvs arbitrary: vs) (auto intro: distinct_vals_add)
  then show ?thesis by (simp add: parse_values_def)
qed

section \<open>Encoding and reading\<close>

lemma query_pair_text: "query_pair (pair_text kv) = Some kv"
proof -
  have "CHR ''='' \<notin> set (query_escape (fst kv))" "CHR '';'' \<notin> set (pair_text kv)"
    using query_escape_plain by (auto simp: pair_text_def)
  moreover from this(1) have "takeWhile (\<lambda>c. c \<noteq> CHR ''='') (pair_text kv) = query_escape (fst kv)"
    "dropWhile (\<lambda>c. c \<noteq> CHR ''='') (pair_text kv) = ''='' @ query_escape (snd kv)"
    by (auto simp: pair_text_def takeWhile_append dropWhile_append)
  ultimately show ?thesis by (simp add: query_pair_def)
qed

lemma query_pairs_encode:
  "List.map_filter query_pair (filter (\<lambda>s. s \<noteq> []) (split_on (CHR ''&'') (join_on (CHR ''&'') (map pair_text kvs)))) = kvs"
proof (cases "kvs = []")
  case True
  then show ?thesis by (simp add: List.map_filter_def)
next
  case False
  have "\<forall>w \<in> set (map pair_text kvs). CHR ''&'' \<notin> set w"
    using query_escape_plain(2) by (auto simp: pair_text_def)
  then have split: "split_on (CHR ''&'') (join_on (CHR ''&'') (map pair_text kvs)) = map pair_text kvs"
    using False by (intro split_on_join_on) auto
  have "filter (\<lambda>s. s \<noteq> []) (map pair_text kvs) = map pair_text kvs" by (auto simp: filter_id_conv pair_text_def)
  moreover have "List.map_filter query_pair (map pair_text kvs) = kvs"
    by (induction kvs) (simp_all add: List.map_filter_simps query_pair_text)
  ultimately show ?thesis by (simp add: split)
qed

lemma map_of_sort_key: "distinct (map fst vs) \<Longrightarrow> map_of (sort_key fst vs) = map_of vs"
  by (intro map_of_inject_set [THEN iffD2]) (auto simp: distinct_map)

lemma vals_of_key:
  "distinct (map fst vs) \<Longrightarrow>
   map snd (filter (\<lambda>(k, v). k = key) (vals_pairs vs)) = (case map_of vs key of None \<Rightarrow> [] | Some xs \<Rightarrow> xs)"
proof (induction vs)
  case (Cons p vs)
  obtain k xs where p: "p = (k, xs)" by force
  have "map snd (filter (\<lambda>(k, v). k = key) (map (Pair k) xs)) = (if k = key then xs else [])"
    by (induction xs) auto
  moreover have "map_of vs k = None" using Cons.prems by (simp add: p map_of_eq_None_iff)
  ultimately show ?case using Cons by (auto simp: p vals_pairs_def)
qed (simp add: vals_pairs_def)

text \<open>A server reads from the encoded query the values of every key.\<close>

lemma query_all_encode:
  assumes "distinct (map fst vs)"
  shows "query_all (vals_encode vs) key = (case map_of vs key of None \<Rightarrow> [] | Some xs \<Rightarrow> xs)"
proof -
  have d: "distinct (map fst (sort_key fst vs))" using assms by (simp add: distinct_map)
  show ?thesis
    unfolding query_all_def vals_encode_def query_pairs_encode
    using vals_of_key [OF d, of key] by (simp add: map_of_sort_key [OF assms])
qed

lemma query_get_encode: "distinct (map fst vs) \<Longrightarrow> query_get (vals_encode vs) key = vals_get vs key"
  by (simp add: query_get_all query_all_encode vals_get_def split: option.splits list.splits)

end
