(* ===== verification/Cli_Auth.thy ===== *)
theory Cli_Auth
  imports Url_Values Strconv Authn
begin

text \<open>
  The command line tool's login (\<^verbatim>\<open>internal/cli/auth\<close>): the PKCE pair, the wait for the browser's
  callback, the token endpoint, the cached token, its refresh, and the discovery of an issuer's
  endpoints. A file's content is the value it decodes to. Random bytes, SHA-256, the parsing of
  a URL and the network are parameters.
\<close>

section \<open>PKCE\<close>

text \<open>\<^verbatim>\<open>base64.RawURLEncoding.EncodeToString\<close>.\<close>

definition url64_char :: "nat \<Rightarrow> char" where
  "url64_char n =
     (if n < 26 then char_of (n + 65) else if n < 52 then char_of (n + 71) else if n < 62 then char_of (n - 4)
      else if n = 62 then CHR ''-'' else CHR ''_'')"

fun byte_sextets :: "nat list \<Rightarrow> nat list" where
  "byte_sextets [] = []"
| "byte_sextets [a] = [a div 4, a mod 4 * 16]"
| "byte_sextets [a, b] = [a div 4, a mod 4 * 16 + b div 16, b mod 16 * 4]"
| "byte_sextets (a # b # c # r) = [a div 4, a mod 4 * 16 + b div 16, b mod 16 * 4 + c div 64, c mod 64] @ byte_sextets r"

definition raw_url_encode :: "nat list \<Rightarrow> string" where
  "raw_url_encode bs = map url64_char (byte_sextets bs)"

definition random_url_safe :: "string + nat list \<Rightarrow> string + string" where
  "random_url_safe r =
     (case r of Inl e \<Rightarrow> Inl (''failed to generate random bytes: '' @ e) | Inr bs \<Rightarrow> Inr (raw_url_encode bs))"

record pkce =
  pk_verifier :: string
  pk_challenge :: string

definition new_pkce :: "(string \<Rightarrow> nat list) \<Rightarrow> string + nat list \<Rightarrow> string + pkce" where
  "new_pkce sha256 random =
     bind_res (random_url_safe random) (\<lambda>v. Inr \<lparr>pk_verifier = v, pk_challenge = raw_url_encode (sha256 v)\<rparr>)"

definition new_state :: "string + nat list \<Rightarrow> string + string" where
  "new_state random = random_url_safe random"

section \<open>Tokens\<close>

type_synonym params = "(string \<times> string) list"

record token =
  tk_access :: string
  tk_refresh :: string
  tk_type :: string
  tk_expires_at :: time
  tk_url :: string
  tk_client_id :: string
  tk_extra :: params

definition token_expired :: "time \<Rightarrow> token \<Rightarrow> bool" where
  "token_expired now t \<longleftrightarrow> after (now + 30 * (hour div 3600)) (tk_expires_at t)"

section \<open>URLs\<close>

definition set_all :: "params \<Rightarrow> url_values \<Rightarrow> url_values" where
  "set_all ps vs = foldl (\<lambda>vs (k, v). vals_set k v vs) vs ps"

record login_options =
  lo_auth_url :: string
  lo_token_url :: string
  lo_client_id :: string
  lo_scopes :: string
  lo_extra :: params
  lo_open_browser :: bool
  lo_timeout :: duration
  lo_port :: int

type_synonym url_parser = "string \<Rightarrow> string + split_url"

text \<open>The extra parameters are a Go map: distinct keys, set in any order.\<close>

definition authorize_values :: "login_options \<Rightarrow> string \<Rightarrow> string \<Rightarrow> string \<Rightarrow> url_values \<Rightarrow> url_values" where
  "authorize_values opts redirect state challenge q =
     (let q = set_all [(''response_type'', ''code''), (''client_id'', lo_client_id opts), (''redirect_uri'', redirect)] q;
          q = (if lo_scopes opts \<noteq> '''' then vals_set ''scope'' (lo_scopes opts) q else q);
          q = set_all [(''state'', state), (''code_challenge'', challenge), (''code_challenge_method'', ''S256'')] q
      in set_all (lo_extra opts) q)"

definition build_authorize_url :: "url_parser \<Rightarrow> login_options \<Rightarrow> string \<Rightarrow> string \<Rightarrow> string \<Rightarrow> string + split_url" where
  "build_authorize_url parse opts redirect state challenge =
     (case parse (lo_auth_url opts) of
        Inl e \<Rightarrow> Inl (''invalid authorization URL: '' @ e)
      | Inr u \<Rightarrow> Inr (u\<lparr>su_query := vals_encode (authorize_values opts redirect state challenge (parse_values (su_query u)))\<rparr>))"

definition with_query_params :: "url_parser \<Rightarrow> string \<Rightarrow> params \<Rightarrow> string + string" where
  "with_query_params parse raw ps =
     (if ps = [] then Inr raw
      else case parse raw of
        Inl e \<Rightarrow> Inl (''invalid URL '' @ raw @ '': '' @ e)
      | Inr u \<Rightarrow> Inr (url_text (u\<lparr>su_query := vals_encode (set_all ps (parse_values (su_query u)))\<rparr>)))"

section \<open>The token endpoint\<close>

record token_response =
  to_access :: string
  to_refresh :: string
  to_type :: string
  to_expires_in :: "64 word"

text \<open>A post of a form: an error of the network, or a status and a body that may fail to be read.\<close>

record ('b, 's) token_net =
  tn_new_request :: "string \<Rightarrow> string + unit"
  tn_post :: "string \<Rightarrow> url_values \<Rightarrow> 's \<Rightarrow> (string + nat \<times> (string + 'b)) \<times> 's"
  tn_text :: "'b \<Rightarrow> string"
  tn_decode :: "'b \<Rightarrow> string + token_response"
  tn_now :: time

text \<open>
  \<^verbatim>\<open>time.Duration(expiresIn) * time.Second\<close> is a product of 64-bit integers; a duration that
  does not fit wraps around.
\<close>

definition expires_at :: "time \<Rightarrow> 64 word \<Rightarrow> time" where
  "expires_at now expires_in = now + sint (expires_in * 1000000000)"

definition token_of_response :: "time \<Rightarrow> login_options \<Rightarrow> token_response \<Rightarrow> token" where
  "token_of_response now opts r =
     \<lparr>tk_access = to_access r, tk_refresh = to_refresh r,
      tk_type = (if to_type r = '''' then ''Bearer'' else to_type r),
      tk_expires_at = expires_at now (if to_expires_in r = 0 then 3600 else to_expires_in r),
      tk_url = lo_token_url opts, tk_client_id = lo_client_id opts, tk_extra = lo_extra opts\<rparr>"

definition do_token_request ::
  "url_parser \<Rightarrow> ('b, 's) token_net \<Rightarrow> login_options \<Rightarrow> url_values \<Rightarrow> 's \<Rightarrow> (string + token) \<times> 's" where
  "do_token_request parse net opts form s =
     (case with_query_params parse (lo_token_url opts) (lo_extra opts) of
        Inl e \<Rightarrow> (Inl e, s)
      | Inr url \<Rightarrow>
          (case tn_new_request net url of
             Inl e \<Rightarrow> (Inl (''failed to create token request: '' @ e), s)
           | Inr _ \<Rightarrow>
               (case tn_post net url form s of
                  (Inl e, s) \<Rightarrow> (Inl (''failed to reach token endpoint: '' @ e), s)
                | (Inr (_, Inl e), s) \<Rightarrow> (Inl (''failed to read token response: '' @ e), s)
                | (Inr (status, Inr b), s) \<Rightarrow>
                    if status \<noteq> 200
                    then (Inl (''token endpoint returned status '' @ decimal status @ '': '' @ tn_text net b), s)
                    else (case tn_decode net b of
                       Inl e \<Rightarrow> (Inl (''failed to parse token response: '' @ e), s)
                     | Inr r \<Rightarrow>
                         if to_access r = '''' then (Inl ''token endpoint response did not include an access token'', s)
                         else (Inr (token_of_response (tn_now net) opts r), s)))))"

definition code_form :: "string \<Rightarrow> string \<Rightarrow> string \<Rightarrow> string \<Rightarrow> url_values" where
  "code_form client_id code redirect verifier =
     set_all [(''grant_type'', ''authorization_code''), (''code'', code), (''redirect_uri'', redirect),
       (''client_id'', client_id), (''code_verifier'', verifier)] []"

definition exchange_code ::
  "url_parser \<Rightarrow> ('b, 's) token_net \<Rightarrow> login_options \<Rightarrow> string \<Rightarrow> string \<Rightarrow> string \<Rightarrow> 's \<Rightarrow> (string + token) \<times> 's" where
  "exchange_code parse net opts code redirect verifier s =
     do_token_request parse net opts (code_form (lo_client_id opts) code redirect verifier) s"

definition refresh_form :: "token \<Rightarrow> url_values" where
  "refresh_form t =
     set_all [(''grant_type'', ''refresh_token''), (''refresh_token'', tk_refresh t), (''client_id'', tk_client_id t)] []"

definition refresh_options :: "token \<Rightarrow> login_options" where
  "refresh_options t =
     \<lparr>lo_auth_url = '''', lo_token_url = tk_url t, lo_client_id = tk_client_id t, lo_scopes = '''', lo_extra = tk_extra t,
      lo_open_browser = False, lo_timeout = 0, lo_port = 0\<rparr>"

definition refresh_token :: "url_parser \<Rightarrow> ('b, 's) token_net \<Rightarrow> token \<Rightarrow> 's \<Rightarrow> (string + token) \<times> 's" where
  "refresh_token parse net t s =
     (if tk_refresh t = '''' then (Inl ''cached token has no refresh token; run login again'', s)
      else case do_token_request parse net (refresh_options t) (refresh_form t) s of
        (Inl e, s) \<Rightarrow> (Inl e, s)
      | (Inr n, s) \<Rightarrow> (Inr (if tk_refresh n = '''' then n\<lparr>tk_refresh := tk_refresh t\<rparr> else n), s))"

section \<open>Waiting for the browser\<close>

text \<open>What the callback handler makes of a request with the raw query \<open>raw\<close>; the left is an error.\<close>

definition callback_result :: "string \<Rightarrow> string \<Rightarrow> string + string" where
  "callback_result state raw =
     (if query_get raw ''error'' \<noteq> ''''
      then Inl (''authorization failed: '' @ query_get raw ''error'' @ '': '' @ query_get raw ''error_description'')
      else if query_get raw ''state'' \<noteq> state then Inl ''state mismatch in callback: possible CSRF, aborting login''
      else if query_get raw ''code'' = '''' then Inl ''no authorization code returned by identity provider''
      else Inr (query_get raw ''code''))"

text \<open>The status of the page the browser shows.\<close>

definition callback_status :: "string + string \<Rightarrow> nat" where
  "callback_status r = (case r of Inl _ \<Rightarrow> 400 | Inr _ \<Rightarrow> 200)"

datatype login_outcome = Received "string + string" | TimedOut | Cancelled

record login_state =
  ln_channel :: "(string + string) option"  \<comment> \<open>\<^verbatim>\<open>resultCh\<close>, of capacity 1\<close>
  ln_once :: bool  \<comment> \<open>\<^verbatim>\<open>callbackOnce\<close> has run\<close>
  ln_callbacks :: "string list"  \<comment> \<open>the queries that came in, in order\<close>
  ln_outcome :: "login_outcome option"

definition login_start :: login_state where
  "login_start = \<lparr>ln_channel = None, ln_once = False, ln_callbacks = [], ln_outcome = None\<rparr>"

text \<open>
  The callbacks are served while \<^verbatim>\<open>Login\<close> waits, and still while the server shuts down. A handler
  sends its result only in the first run of the once, and blocks while the channel is full.
\<close>

inductive login_step :: "string \<Rightarrow> login_state \<Rightarrow> login_state \<Rightarrow> bool" for state where
  first_callback: "\<not> ln_once l \<Longrightarrow> ln_channel l = None \<Longrightarrow>
    login_step state l (l\<lparr>ln_channel := Some (callback_result state raw), ln_once := True, ln_callbacks := ln_callbacks l @ [raw]\<rparr>)"
| later_callback: "ln_once l \<Longrightarrow> login_step state l (l\<lparr>ln_callbacks := ln_callbacks l @ [raw]\<rparr>)"
| receive: "ln_outcome l = None \<Longrightarrow> ln_channel l = Some r \<Longrightarrow>
    login_step state l (l\<lparr>ln_channel := None, ln_outcome := Some (Received r)\<rparr>)"
| time_out: "ln_outcome l = None \<Longrightarrow> login_step state l (l\<lparr>ln_outcome := Some TimedOut\<rparr>)"
| cancel: "ln_outcome l = None \<Longrightarrow> login_step state l (l\<lparr>ln_outcome := Some Cancelled\<rparr>)"

inductive login_reachable :: "string \<Rightarrow> login_state \<Rightarrow> bool" for state where
  login_init: "login_reachable state login_start"
| login_next: "login_reachable state l \<Longrightarrow> login_step state l l' \<Longrightarrow> login_reachable state l'"

inductive_cases login_stepE: "login_step state l l'"

definition redirect_uri :: "nat \<Rightarrow> string" where
  "redirect_uri port = ''http://127.0.0.1:'' @ decimal port @ ''/callback''"

text \<open>
  What \<^verbatim>\<open>Login\<close> returns once it stops waiting: only a code leads to a request. \<open>port\<close> is the port the
  listener got.
\<close>

definition finish_login ::
  "url_parser \<Rightarrow> ('b, 's) token_net \<Rightarrow> login_options \<Rightarrow> nat \<Rightarrow> pkce \<Rightarrow> (duration \<Rightarrow> string) \<Rightarrow> string \<Rightarrow> login_outcome \<Rightarrow> 's \<Rightarrow>
   (string + token) \<times> 's" where
  "finish_login parse net opts port p show_duration ctx_err outcome s =
     (case outcome of
        Received (Inl e) \<Rightarrow> (Inl e, s)
      | Received (Inr code) \<Rightarrow> exchange_code parse net opts code (redirect_uri port) (pk_verifier p) s
      | TimedOut \<Rightarrow> (Inl (''login timed out after '' @ show_duration (lo_timeout opts) @ '' waiting for browser callback''), s)
      | Cancelled \<Rightarrow> (Inl ctx_err, s))"

text \<open>
  \<^verbatim>\<open>Login\<close> up to the wait: the defaults, the random values, the listener and the URL the browser
  is sent to. \<open>listen\<close> gives the port.
\<close>

definition decimal_int :: "int \<Rightarrow> string" where
  "decimal_int i = (if i < 0 then ''-'' @ decimal (nat (- i)) else decimal (nat i))"

record login_start_info =
  li_options :: login_options
  li_pkce :: pkce
  li_state :: string
  li_port :: nat
  li_url :: string

definition start_login ::
  "(string \<Rightarrow> nat list) \<Rightarrow> url_parser \<Rightarrow> (int \<Rightarrow> string + nat) \<Rightarrow> string + nat list \<Rightarrow> string + nat list \<Rightarrow> login_options \<Rightarrow>
   string + login_start_info" where
  "start_login sha256 parse listen random1 random2 opts =
     (let opts = (if lo_timeout opts = 0 then opts\<lparr>lo_timeout := 5 * (hour div 60)\<rparr> else opts) in
      bind_res (new_pkce sha256 random1) (\<lambda>p.
      bind_res (new_state random2) (\<lambda>state.
      case listen (lo_port opts) of
        Inl e \<Rightarrow> Inl (''failed to start local callback listener on port '' @ decimal_int (lo_port opts) @ '': '' @ e)
      | Inr port \<Rightarrow>
          bind_res (build_authorize_url parse opts (redirect_uri port) state (pk_challenge p)) (\<lambda>u.
          Inr \<lparr>li_options = opts, li_pkce = p, li_state = state, li_port = port, li_url = url_text u\<rparr>))))"

section \<open>Discovery\<close>

record discovery_document =
  dc_authorization :: string
  dc_token :: string

definition maxDiscoveryResponseBytes :: nat where "maxDiscoveryResponseBytes = 2 ^ 20"

text \<open>\<^verbatim>\<open>strings.TrimRight(s, "/")\<close>.\<close>

definition trim_right_slash :: "string \<Rightarrow> string" where
  "trim_right_slash s = rev (dropWhile (\<lambda>c. c = CHR ''/'') (rev s))"

text \<open>\<open>get\<close> is one request: an error, or the status and the bytes of the body or the error that ends them.\<close>

definition discover_endpoints ::
  "(string \<Rightarrow> string + unit) \<Rightarrow> (string \<Rightarrow> string + nat \<times> (string + string)) \<Rightarrow> (string \<Rightarrow> string + discovery_document) \<Rightarrow>
   string \<Rightarrow> string + string \<times> string" where
  "discover_endpoints new_request get decode issuer =
     (let url = trim_right_slash issuer @ ''/.well-known/openid-configuration'' in
      case new_request url of
        Inl e \<Rightarrow> Inl (''failed to create discovery request: '' @ e)
      | Inr _ \<Rightarrow>
          (case get url of
             Inl e \<Rightarrow> Inl (''failed to reach discovery endpoint '' @ url @ '': '' @ e)
           | Inr (_, Inl e) \<Rightarrow> Inl (''failed to read discovery response: '' @ e)
           | Inr (status, Inr all) \<Rightarrow>
               (let body = take (maxDiscoveryResponseBytes + 1) all in
                if maxDiscoveryResponseBytes < length body
                then Inl (''discovery endpoint '' @ url @ '' returned a response larger than '' @
                          decimal maxDiscoveryResponseBytes @ '' bytes'')
                else if status \<noteq> 200
                then Inl (''discovery endpoint '' @ url @ '' returned status '' @ decimal status @ '': '' @ body)
                else (case decode body of
                   Inl e \<Rightarrow> Inl (''failed to parse discovery document from '' @ url @ '': '' @ e)
                 | Inr d \<Rightarrow>
                     if dc_authorization d = '''' \<or> dc_token d = ''''
                     then Inl (''discovery document from '' @ url @ '' is missing authorization_endpoint or token_endpoint'')
                     else Inr (dc_authorization d, dc_token d)))))"

end
