(* ===== verification/Cli_Profile.thy ===== *)
theory Cli_Profile
  imports Cli_Auth PB_Caller
begin

text \<open>
  What the command line tool keeps under \<^verbatim>\<open>~/.openndx\<close>: the cached token of each profile
  (\<^verbatim>\<open>internal/cli/auth/store.go\<close>, \<^verbatim>\<open>resolve.go\<close>) and the named profiles
  (\<^verbatim>\<open>internal/cli/profile/profile.go\<close>). A file's content is the value it decodes to.
\<close>

section \<open>Files\<close>

record cli_profile =
  pf_issuer :: string
  pf_auth_url :: string
  pf_token_url :: string
  pf_client_id :: string
  pf_scopes :: string
  pf_callback_port :: int
  pf_resource :: string
  pf_pb_url :: string
  pf_insecure :: bool

record cli_config =
  cg_current :: string
  cg_profiles :: "(string \<times> cli_profile) list"

datatype cli_file = TokenFile token | ConfigFile cli_config | OtherFile string

text \<open>
  The file system: its files, and the errors it makes. A file that does not exist is absent from
  \<open>fs_files\<close>.
\<close>

type_synonym files = "string \<rightharpoonup> cli_file"

record os_env =
  os_home :: "string + string"
  os_read :: "string \<Rightarrow> string option"  \<comment> \<open>why an existing file cannot be read\<close>
  os_mkdir :: "string \<Rightarrow> string + unit"
  os_write :: "string \<Rightarrow> string + unit"
  os_missing :: "string \<Rightarrow> string"  \<comment> \<open>the error text of a missing file\<close>
  os_getenv :: "string \<Rightarrow> string"

text \<open>A path in the tool's directory; the home directory is a clean path.\<close>

definition openndx_path :: "string \<Rightarrow> string \<Rightarrow> string" where
  "openndx_path home file = home @ ''/.openndx/'' @ file"

text \<open>Quotes in a message; \<open>double_quoted\<close> is \<^verbatim>\<open>%q\<close> of a text it need not escape.\<close>

definition single_quoted :: "string \<Rightarrow> string" where
  "single_quoted s = CHR 0x27 # s @ [CHR 0x27]"

definition double_quoted :: "string \<Rightarrow> string" where
  "double_quoted s = CHR 0x22 # s @ [CHR 0x22]"

section \<open>Credentials\<close>

definition default_credentials_path :: "os_env \<Rightarrow> string \<Rightarrow> string + string" where
  "default_credentials_path os name =
     (case os_home os of
        Inl e \<Rightarrow> Inl (''failed to determine home directory: '' @ e)
      | Inr home \<Rightarrow>
          if name = '''' \<or> name = ''local'' then Inr (openndx_path home ''credentials.json'')
          else if CHR ''/'' \<in> set name \<or> CHR 0x5C \<in> set name
          then Inl (''invalid profile name '' @ double_quoted name @ '': must not contain path separators'')
          else Inr (openndx_path home (''credentials-'' @ name @ ''.json'')))"

definition save_file :: "os_env \<Rightarrow> string \<Rightarrow> string \<Rightarrow> string \<Rightarrow> cli_file \<Rightarrow> files \<Rightarrow> (string + unit) \<times> files" where
  "save_file os dir_what what path content fs =
     (case os_mkdir os path of
        Inl e \<Rightarrow> (Inl (''failed to create '' @ dir_what @ '' directory: '' @ e), fs)
      | Inr _ \<Rightarrow>
          (case os_write os path of
             Inl e \<Rightarrow> (Inl (''failed to write '' @ what @ '' file: '' @ e), fs)
           | Inr _ \<Rightarrow> (Inr (), fs(path \<mapsto> content))))"

definition save_token :: "os_env \<Rightarrow> string \<Rightarrow> token \<Rightarrow> files \<Rightarrow> (string + unit) \<times> files" where
  "save_token os path t = save_file os ''credentials'' ''credentials'' path (TokenFile t)"

text \<open>A file that is not a token is one the decoder refuses.\<close>

definition load_token :: "os_env \<Rightarrow> string \<Rightarrow> files \<Rightarrow> string + token" where
  "load_token os path fs =
     (case fs path of
        None \<Rightarrow> Inl (''failed to read credentials file: '' @ os_missing os path)
      | Some content \<Rightarrow>
          (case os_read os path of
             Some e \<Rightarrow> Inl (''failed to read credentials file: '' @ e)
           | None \<Rightarrow>
               (case content of
                  TokenFile t \<Rightarrow> Inr t
                | _ \<Rightarrow> Inl ''failed to parse credentials file: not a token'')))"

text \<open>\<open>now\<close> is the time of the check; the world of the token endpoint is \<open>'s\<close>.\<close>

definition ensure_fresh_token ::
  "os_env \<Rightarrow> url_parser \<Rightarrow> ('b, 's) token_net \<Rightarrow> time \<Rightarrow> string \<Rightarrow> files \<times> 's \<Rightarrow> (string + token) \<times> files \<times> 's" where
  "ensure_fresh_token os parse net now path w =
     (case w of (fs, s) \<Rightarrow>
        (case load_token os path fs of
           Inl e \<Rightarrow> (Inl (''not logged in (run '' @ single_quoted ''ondx login'' @ '' first): '' @ e), (fs, s))
         | Inr t \<Rightarrow>
             if \<not> token_expired now t then (Inr t, (fs, s))
             else (case refresh_token parse net t s of
                (Inl e, s) \<Rightarrow>
                  (Inl (''session expired and could not be refreshed (run '' @ single_quoted ''ondx login'' @ '' again): '' @ e), (fs, s))
              | (Inr r, s) \<Rightarrow> (Inr r, (snd (save_token os path r fs), s)))))"

section \<open>Profiles\<close>

definition DefaultName :: string where "DefaultName = ''local''"
definition ThunderIDCLIClientID :: string where "ThunderIDCLIClientID = ''NDX_CLI''"
definition ThunderIDCallbackPort :: int where "ThunderIDCallbackPort = 8765"
definition LocalPBResource :: string where "LocalPBResource = ''http://pb.openndx.local''"

definition localScopes :: string where
  "localScopes = ''openid roles email '' @ join_on (CHR '' '') AllScopes"

definition defaultLocalProfile :: cli_profile where
  "defaultLocalProfile =
     \<lparr>pf_issuer = ''http://localhost:8090'', pf_auth_url = '''', pf_token_url = '''', pf_client_id = ThunderIDCLIClientID,
      pf_scopes = localScopes, pf_callback_port = ThunderIDCallbackPort, pf_resource = LocalPBResource,
      pf_pb_url = ''http://localhost:8083'', pf_insecure = True\<rparr>"

definition zero_profile :: cli_profile where
  "zero_profile =
     \<lparr>pf_issuer = '''', pf_auth_url = '''', pf_token_url = '''', pf_client_id = '''', pf_scopes = '''', pf_callback_port = 0,
      pf_resource = '''', pf_pb_url = '''', pf_insecure = False\<rparr>"

definition default_config_path :: "os_env \<Rightarrow> string + string" where
  "default_config_path os =
     (case os_home os of
        Inl e \<Rightarrow> Inl (''failed to determine home directory: '' @ e)
      | Inr home \<Rightarrow> Inr (openndx_path home ''config.json''))"

text \<open>The profiles of a configuration are a Go map: keys are distinct.\<close>

definition put_profile :: "string \<Rightarrow> cli_profile \<Rightarrow> cli_config \<Rightarrow> cli_config" where
  "put_profile name p cfg = cfg\<lparr>cg_profiles := (name, p) # filter (\<lambda>q. fst q \<noteq> name) (cg_profiles cfg)\<rparr>"

definition with_defaults :: "cli_config \<Rightarrow> cli_config" where
  "with_defaults cfg =
     (let cfg = (if map_of (cg_profiles cfg) DefaultName = None then put_profile DefaultName defaultLocalProfile cfg else cfg)
      in if cg_current cfg = '''' then cfg\<lparr>cg_current := DefaultName\<rparr> else cfg)"

definition load_config :: "os_env \<Rightarrow> string \<Rightarrow> files \<Rightarrow> string + cli_config" where
  "load_config os path fs =
     (case fs path of
        None \<Rightarrow> Inr \<lparr>cg_current = DefaultName, cg_profiles = [(DefaultName, defaultLocalProfile)]\<rparr>
      | Some content \<Rightarrow>
          (case os_read os path of
             Some e \<Rightarrow> Inl (''failed to read config file: '' @ e)
           | None \<Rightarrow>
               (case content of
                  ConfigFile cfg \<Rightarrow> Inr (with_defaults cfg)
                | _ \<Rightarrow> Inl ''failed to parse config file: not a configuration'')))"

definition save_config :: "os_env \<Rightarrow> string \<Rightarrow> cli_config \<Rightarrow> files \<Rightarrow> (string + unit) \<times> files" where
  "save_config os path cfg = save_file os ''config'' ''config'' path (ConfigFile cfg)"

definition get_profile :: "cli_config \<Rightarrow> string \<Rightarrow> string + cli_profile" where
  "get_profile cfg name =
     (case map_of (cg_profiles cfg) name of
        None \<Rightarrow> Inl (''no such profile '' @ double_quoted name @ '' (run '' @ single_quoted ''ondx profile list'' @ '' to see available profiles)'')
      | Some p \<Rightarrow> Inr p)"

end
