(* ===== verification/Cli_Flags.thy ===== *)
theory Cli_Flags
  imports Cli_Profile
begin

text \<open>
  Command line flags: Go's \<^verbatim>\<open>flag\<close> package as \<^verbatim>\<open>cmd/ondx\<close> uses it, the repeatable flags of
  \<^verbatim>\<open>cmd/ondx/main.go\<close>, and the scan for a flag ahead of the parse that selects the profile.
\<close>

section \<open>Parsing\<close>

datatype flag_kind = FString | FInt | FBool | FList | FPairs

text \<open>Why a parse ends the program: the usage was asked for, or the arguments are wrong.\<close>

datatype flag_stop = HelpRequested | BadFlags string

type_synonym flag_spec = "(string \<times> flag_kind) list"
type_synonym flag_sets = "(string \<times> string) list"

definition parse_bool :: "string \<Rightarrow> bool option" where
  "parse_bool s =
     (if s \<in> {''1'', ''t'', ''T'', ''true'', ''TRUE'', ''True''} then Some True
      else if s \<in> {''0'', ''f'', ''F'', ''false'', ''FALSE'', ''False''} then Some False else None)"

text \<open>\<^verbatim>\<open>strings.Cut\<close> at the first occurrence of a byte.\<close>

definition cut_at :: "char \<Rightarrow> string \<Rightarrow> (string \<times> string) option" where
  "cut_at c s = (if c \<in> set s then Some (takeWhile (\<lambda>x. x \<noteq> c) s, drop 1 (dropWhile (\<lambda>x. x \<noteq> c) s)) else None)"

text \<open>What setting a flag refuses; \<open>parse_int\<close> is \<^verbatim>\<open>strconv.ParseInt\<close> with base 0.\<close>

definition flag_value_error :: "(string \<Rightarrow> int option) \<Rightarrow> flag_kind \<Rightarrow> string \<Rightarrow> string \<Rightarrow> string option" where
  "flag_value_error parse_int kind name v =
     (case kind of
        FInt \<Rightarrow> if parse_int v = None then Some (''invalid value '' @ double_quoted v @ '' for flag -'' @ name @ '': parse error'') else None
      | FBool \<Rightarrow> if parse_bool v = None then Some (''invalid boolean value '' @ double_quoted v @ '' for -'' @ name @ '': parse error'') else None
      | FPairs \<Rightarrow>
          if cut_at (CHR ''='') v = None
          then Some (''invalid value '' @ double_quoted v @ '' for flag -'' @ name @ '': expected key=value, got '' @ double_quoted v) else None
      | _ \<Rightarrow> None)"

text \<open>
  A flag is one or two dashes, a name and perhaps a value after an equals sign; the text after
  the dashes is cut at the first equals sign that does not start it.
\<close>

definition flag_text :: "string \<Rightarrow> string" where
  "flag_text s = (if take 2 s = ''--'' then drop 2 s else drop 1 s)"

definition flag_name :: "string \<Rightarrow> string \<times> string option" where
  "flag_name t =
     (case t of [] \<Rightarrow> ([], None)
      | c # r \<Rightarrow> (case cut_at (CHR ''='') r of None \<Rightarrow> (t, None) | Some (n, v) \<Rightarrow> (c # n, Some v)))"

definition set_flag ::
  "(string \<Rightarrow> int option) \<Rightarrow> flag_kind \<Rightarrow> string \<Rightarrow> string \<Rightarrow> (flag_stop + flag_sets) \<Rightarrow> flag_stop + flag_sets" where
  "set_flag parse_int kind name v rest =
     (case flag_value_error parse_int kind name v of
        Some e \<Rightarrow> Inl (BadFlags e)
      | None \<Rightarrow> map_sum id (Cons (name, v)) rest)"

text \<open>The settings in order. The arguments after the flags are not looked at by any command that has flags.\<close>

fun parse_flags :: "(string \<Rightarrow> int option) \<Rightarrow> flag_spec \<Rightarrow> string list \<Rightarrow> flag_stop + flag_sets" where
  "parse_flags parse_int spec [] = Inr []"
| "parse_flags parse_int spec (s # args) =
     (if length s < 2 \<or> hd s \<noteq> CHR ''-'' then Inr []
      else if s = ''--'' then Inr []
      else if flag_text s = '''' \<or> hd (flag_text s) = CHR ''-'' \<or> hd (flag_text s) = CHR ''=''
      then Inl (BadFlags (''bad flag syntax: '' @ s))
      else (case flag_name (flag_text s) of (name, value) \<Rightarrow>
        (case map_of spec name of
           None \<Rightarrow>
             if name = ''help'' \<or> name = ''h'' then Inl HelpRequested
             else Inl (BadFlags (''flag provided but not defined: -'' @ name))
         | Some kind \<Rightarrow>
             if kind = FBool then
               set_flag parse_int kind name (case value of None \<Rightarrow> ''true'' | Some v \<Rightarrow> v) (parse_flags parse_int spec args)
             else (case value of
                Some v \<Rightarrow> set_flag parse_int kind name v (parse_flags parse_int spec args)
              | None \<Rightarrow>
                  (case args of
                     [] \<Rightarrow> Inl (BadFlags (''flag needs an argument: -'' @ name))
                   | v # args' \<Rightarrow> set_flag parse_int kind name v (parse_flags parse_int spec args'))))))"

section \<open>Reading the flags\<close>

text \<open>A flag that is set more than once has its last value; a list flag collects all.\<close>

definition flag_values :: "flag_sets \<Rightarrow> string \<Rightarrow> string list" where
  "flag_values sets name = map snd (filter (\<lambda>(n, v). n = name) sets)"

definition str_flag :: "flag_sets \<Rightarrow> string \<Rightarrow> string \<Rightarrow> string" where
  "str_flag sets name def = (case flag_values sets name of [] \<Rightarrow> def | vs \<Rightarrow> last vs)"

definition bool_flag :: "flag_sets \<Rightarrow> string \<Rightarrow> bool \<Rightarrow> bool" where
  "bool_flag sets name def =
     (case flag_values sets name of [] \<Rightarrow> def | vs \<Rightarrow> (case parse_bool (last vs) of None \<Rightarrow> def | Some b \<Rightarrow> b))"

definition int_flag :: "(string \<Rightarrow> int option) \<Rightarrow> flag_sets \<Rightarrow> string \<Rightarrow> int \<Rightarrow> int" where
  "int_flag parse_int sets name def =
     (case flag_values sets name of [] \<Rightarrow> def | vs \<Rightarrow> (case parse_int (last vs) of None \<Rightarrow> def | Some i \<Rightarrow> i))"

text \<open>\<^verbatim>\<open>keyValueMap\<close>: one entry per key, the last value given.\<close>

definition put_pair :: "params \<Rightarrow> string \<times> string \<Rightarrow> params" where
  "put_pair m kv = kv # filter (\<lambda>p. fst p \<noteq> fst kv) m"

definition pairs_flag :: "flag_sets \<Rightarrow> string \<Rightarrow> params" where
  "pairs_flag sets name = foldl put_pair [] (List.map_filter (cut_at (CHR ''='')) (flag_values sets name))"

definition first_non_empty :: "string list \<Rightarrow> string" where
  "first_non_empty vs = (case filter (\<lambda>v. v \<noteq> '''') vs of [] \<Rightarrow> '''' | v # _ \<Rightarrow> v)"

section \<open>The profile\<close>

fun extract_flag_value :: "string list \<Rightarrow> string \<Rightarrow> string" where
  "extract_flag_value [] name = ''''"
| "extract_flag_value (a # args) name =
     (case cut_prefix a (''--'' @ name @ ''='') of
        Some v \<Rightarrow> v
      | None \<Rightarrow>
          (case cut_prefix a (''-'' @ name @ ''='') of
             Some v \<Rightarrow> v
           | None \<Rightarrow>
               if (a = ''--'' @ name \<or> a = ''-'' @ name) \<and> args \<noteq> [] then hd args
               else extract_flag_value args name))"

definition resolve_active_profile :: "os_env \<Rightarrow> string list \<Rightarrow> files \<Rightarrow> string + string \<times> cli_profile" where
  "resolve_active_profile os args fs =
     (let name = first_non_empty [extract_flag_value args ''profile'', os_getenv os ''NDX_PROFILE''] in
      bind_res (default_config_path os) (\<lambda>path.
      bind_res (load_config os path fs) (\<lambda>cfg.
      let name = (if name = '''' then cg_current cfg else name) in
      bind_res (get_profile cfg name) (\<lambda>active. Inr (name, active)))))"

section \<open>The scan and the parse\<close>

text \<open>
  No value of another flag looks like the scanned flag, and the scanned flag is given at most
  once: then the scan finds what the parse sets.
\<close>

definition scan_word :: "string \<Rightarrow> string \<Rightarrow> bool" where
  "scan_word name a \<longleftrightarrow> a = ''--'' @ name \<or> a = ''-'' @ name \<or> has_prefix a (''--'' @ name @ ''='') \<or> has_prefix a (''-'' @ name @ ''='')"

lemma extract_skips: "\<not> scan_word name a \<Longrightarrow> extract_flag_value (a # args) name = extract_flag_value args name"
  by (auto simp: scan_word_def cut_prefix_def)

lemma extract_none: "\<forall>a \<in> set args. \<not> scan_word name a \<Longrightarrow> extract_flag_value args name = ''''"
  by (induction args) (auto simp: extract_skips simp del: extract_flag_value.simps(2))

definition flag_name_ok :: "string \<Rightarrow> bool" where
  "flag_name_ok name \<longleftrightarrow> name \<noteq> '''' \<and> hd name \<noteq> CHR ''-'' \<and> CHR ''='' \<notin> set name"

text \<open>An argument names the flag exactly when it is a scanned word.\<close>

lemma cut_at_Some_iff: "cut_at c s = Some (a, b) \<longleftrightarrow> s = a @ c # b \<and> c \<notin> set a"
proof
  assume "cut_at c s = Some (a, b)"
  then have c: "c \<in> set s" "a = takeWhile (\<lambda>x. x \<noteq> c) s" "b = drop 1 (dropWhile (\<lambda>x. x \<noteq> c) s)"
    by (auto simp: cut_at_def split: if_splits)
  obtain y ys where "dropWhile (\<lambda>x. x \<noteq> c) s = y # ys" using c(1) by (cases "dropWhile (\<lambda>x. x \<noteq> c) s") (auto simp: dropWhile_eq_Nil_conv)
  moreover from this have "y = c" by (metis (full_types) hd_dropWhile list.distinct(1) list.sel(1))
  ultimately show "s = a @ c # b \<and> c \<notin> set a"
    using c takeWhile_dropWhile_id [of "\<lambda>x. x \<noteq> c" s] by (auto dest: set_takeWhileD)
qed (auto simp: cut_at_def takeWhile_append dropWhile_append)

lemma cut_at_None_iff: "cut_at c s = None \<longleftrightarrow> c \<notin> set s"
  by (simp add: cut_at_def)

lemma flag_name_D: "flag_name t = (n, v) \<Longrightarrow> t \<noteq> '''' \<Longrightarrow> t = n @ (case v of None \<Rightarrow> '''' | Some x \<Rightarrow> CHR ''='' # x)"
  by (cases t) (auto simp: flag_name_def cut_at_Some_iff split: option.splits)

lemma flag_name_I:
  assumes "n \<noteq> ''''" "CHR ''='' \<notin> set n"
  shows "flag_name n = (n, None)" "flag_name (n @ CHR ''='' # v) = (n, Some v)"
proof -
  obtain c r where n: "n = c # r" using assms(1) by (cases n) auto
  then have "cut_at (CHR ''='') r = None" "cut_at (CHR ''='') (r @ CHR ''='' # v) = Some (r, v)"
    using assms(2) by (auto simp: cut_at_None_iff cut_at_Some_iff)
  then show "flag_name n = (n, None)" "flag_name (n @ CHR ''='' # v) = (n, Some v)" by (simp_all add: n flag_name_def)
qed

lemma flag_text_word:
  "flag_name_ok name \<Longrightarrow> flag_text (''--'' @ name @ r) = name @ r"
  "flag_name_ok name \<Longrightarrow> flag_text (''-'' @ name @ r) = name @ r"
  by (cases name; simp add: flag_text_def flag_name_ok_def)+

lemma named_is_word:
  assumes "2 \<le> length s" "hd s = CHR ''-''" "flag_text s \<noteq> ''''" "flag_name (flag_text s) = (name, v)"
  shows "scan_word name s"
proof -
  have t: "flag_text s = name @ (case v of None \<Rightarrow> '''' | Some x \<Rightarrow> CHR ''='' # x)" by (rule flag_name_D [OF assms(4,3)])
  have "s = ''--'' @ flag_text s \<or> s = ''-'' @ flag_text s"
  proof (cases "take 2 s = ''--''")
    case True
    then show ?thesis using append_take_drop_id [of 2 s] by (simp add: flag_text_def)
  next
    case False
    then show ?thesis using assms(1,2) by (cases s) (auto simp: flag_text_def)
  qed
  then show ?thesis unfolding t by (auto simp: scan_word_def has_prefix_iff split: option.splits)
qed

text \<open>What a scanned word gives to the scan and to the parse.\<close>

lemma word_cases:
  assumes "flag_name_ok name" "scan_word name s"
  obtains (bare) "s = ''--'' @ name \<or> s = ''-'' @ name" "flag_name (flag_text s) = (name, None)"
    "extract_flag_value (s # args) name = (if args = [] then '''' else hd args)" "2 \<le> length s" "hd s = CHR ''-''" "s \<noteq> ''--''"
      "flag_text s = name"
  | (valued) v where "flag_name (flag_text s) = (name, Some v)" "extract_flag_value (s # args) name = v" "2 \<le> length s"
      "hd s = CHR ''-''" "s \<noteq> ''--''" "flag_text s = name @ ''='' @ v"
proof -
  obtain c r where n: "name = c # r" "c \<noteq> CHR ''-''" "CHR ''='' \<notin> set name" "name \<noteq> ''''"
    using assms(1) by (cases name) (auto simp: flag_name_ok_def)
  have ne: "c \<noteq> CHR ''=''" "CHR ''='' \<notin> set r" using n by auto
  note fn = flag_name_I [OF n(4,3)]
  note ft = flag_text_word [OF assms(1)]
  have "(s = ''--'' @ name \<or> s = ''-'' @ name) \<or> (\<exists>v. s = ''--'' @ name @ ''='' @ v \<or> s = ''-'' @ name @ ''='' @ v)"
    using assms(2) by (auto simp: scan_word_def has_prefix_iff)
  then show thesis
  proof (elim disjE exE)
    assume s: "s = ''--'' @ name"
    have "cut_prefix s (''--'' @ name @ ''='') = None" "cut_prefix s (''-'' @ name @ ''='') = None"
      using n(2) by (auto simp: cut_prefix_def has_prefix_iff s n(1))
    then show thesis using bare fn(1) ft(1) [of "''''"] s n(1,2) by simp
  next
    assume s: "s = ''-'' @ name"
    have "cut_prefix s (''--'' @ name @ ''='') = None" "cut_prefix s (''-'' @ name @ ''='') = None"
      using n(2) by (auto simp: cut_prefix_def has_prefix_iff s n(1))
    then show thesis using bare fn(1) ft(2) [of "''''"] s n(1,2) by simp
  next
    fix v assume s: "s = ''--'' @ name @ ''='' @ v"
    have "cut_prefix s (''--'' @ name @ ''='') = Some v" by (simp add: cut_prefix_Some_iff s)
    then show thesis using valued [of v] fn(2) [of v] ft(1) [of "''='' @ v"] s n(1,2) by simp
  next
    fix v assume s: "s = ''-'' @ name @ ''='' @ v"
    have "cut_prefix s (''--'' @ name @ ''='') = None" "cut_prefix s (''-'' @ name @ ''='') = Some v"
      using n(2) by (auto simp: cut_prefix_Some_iff s n(1) cut_prefix_def has_prefix_iff)
    then show thesis using valued [of v] fn(2) [of v] ft(2) [of "''='' @ v"] s n(1,2) by simp
  qed
qed

text \<open>One step of a parse that succeeds: it stops, or it sets a flag and goes on.\<close>

lemma set_flag_Inr: "set_flag pi kind name v rest = Inr sets \<longleftrightarrow>
    flag_value_error pi kind name v = None \<and> (\<exists>sets'. rest = Inr sets' \<and> sets = (name, v) # sets')"
  by (cases rest) (auto simp: set_flag_def split: option.splits)

lemma parse_flags_step:
  assumes "parse_flags pi spec (s # args) = Inr sets"
  obtains (stop) "sets = []"
  | (own) n kind v sets' where "map_of spec n = Some kind" "flag_name (flag_text s) = (n, if kind = FBool \<and> v = ''true'' then snd (flag_name (flag_text s)) else Some v)"
      "2 \<le> length s" "hd s = CHR ''-''" "flag_text s \<noteq> ''''" "parse_flags pi spec args = Inr sets'" "sets = (n, v) # sets'"
  | (next_arg) n kind v args' sets' where "map_of spec n = Some kind" "kind \<noteq> FBool" "flag_name (flag_text s) = (n, None)"
      "2 \<le> length s" "hd s = CHR ''-''" "flag_text s \<noteq> ''''" "args = v # args'" "parse_flags pi spec args' = Inr sets'" "sets = (n, v) # sets'"
proof (cases "length s < 2 \<or> hd s \<noteq> CHR ''-'' \<or> s = ''--''")
  case True
  then show thesis using assms stop by (auto split: if_splits)
next
  case False
  obtain n val where nv: "flag_name (flag_text s) = (n, val)" by force
  have t: "flag_text s \<noteq> ''''" using assms False by (auto split: if_splits)
  obtain kind where k: "map_of spec n = Some kind" using assms False nv t by (auto split: if_splits option.splits)
  show thesis
  proof (cases "kind = FBool")
    case True
    then obtain sets' where "parse_flags pi spec args = Inr sets'" "sets = (n, case val of None \<Rightarrow> ''true'' | Some v \<Rightarrow> v) # sets'"
      using assms False nv t k by (auto simp: set_flag_Inr split: if_splits)
    then show thesis using own [OF k, of "case val of None \<Rightarrow> ''true'' | Some v \<Rightarrow> v" sets'] nv False t True
      by (cases val) auto
  next
    case nb: False
    show thesis
    proof (cases val)
      case (Some v)
      then obtain sets' where "parse_flags pi spec args = Inr sets'" "sets = (n, v) # sets'"
        using assms False nv t k nb by (auto simp: set_flag_Inr split: if_splits)
      then show thesis using own [OF k, of v sets'] nv False t nb Some by auto
    next
      case None
      then obtain v args' sets' where "args = v # args'" "parse_flags pi spec args' = Inr sets'" "sets = (n, v) # sets'"
        using assms False nv t k nb by (auto simp: set_flag_Inr split: if_splits list.splits)
      then show thesis using next_arg [OF k nb] nv False t None by auto
    qed
  qed
qed

lemma no_word_no_values:
  "parse_flags pi spec args = Inr sets \<Longrightarrow> \<forall>a \<in> set args. \<not> scan_word name a \<Longrightarrow> flag_values sets name = []"
proof (induction "length args" arbitrary: args sets rule: less_induct)
  case less
  show ?case
  proof (cases args)
    case Nil
    then show ?thesis using less.prems(1) by (simp add: flag_values_def)
  next
    case (Cons s rest)
    have other: "n \<noteq> name" if "2 \<le> length s" "hd s = CHR ''-''" "flag_text s \<noteq> ''''" "flag_name (flag_text s) = (n, v)" for n v
      using named_is_word [OF that] less.prems(2) Cons by auto
    from less.prems(1) [unfolded Cons] show ?thesis
    proof (cases rule: parse_flags_step)
      case stop
      then show ?thesis by (simp add: flag_values_def)
    next
      case (own n kind v sets')
      then show ?thesis using less.hyps [of rest sets'] less.prems(2) Cons other [OF own(3,4,5,2)] by (simp add: flag_values_def)
    next
      case (next_arg n kind v args' sets')
      then show ?thesis using less.hyps [of args' sets'] less.prems(2) Cons other [OF next_arg(4,5,6,3)] by (simp add: flag_values_def)
    qed
  qed
qed

lemma scan_agrees:
  assumes "flag_name_ok name" "map_of spec name = Some kind" "kind \<noteq> FBool"
  shows "parse_flags pi spec args = Inr sets \<Longrightarrow> length (filter (scan_word name) args) \<le> 1 \<Longrightarrow>
    flag_values sets name \<noteq> [] \<Longrightarrow> flag_values sets name = [extract_flag_value args name]"
proof (induction "length args" arbitrary: args sets rule: less_induct)
  case less
  show ?case
  proof (cases args)
    case Nil
    then show ?thesis using less.prems(1,3) by (simp add: flag_values_def)
  next
    case (Cons s rest)
    show ?thesis
    proof (cases "scan_word name s")
      case True
      then have quiet: "\<forall>a \<in> set rest. \<not> scan_word name a" using less.prems(2) by (auto simp: Cons filter_empty_conv)
      from less.prems(1) [unfolded Cons] show ?thesis
      proof (cases rule: parse_flags_step)
        case stop
        then show ?thesis using less.prems(3) by (simp add: flag_values_def)
      next
        case (own n kind' v sets')
        have v: "flag_values sets' name = []" using no_word_no_values [OF own(6) quiet] .
        from assms(1) True show ?thesis
          by (cases rule: word_cases [where args = rest]) (use own assms(2,3) v Cons in \<open>auto simp: flag_values_def split: if_splits\<close>)
      next
        case (next_arg n kind' v args' sets')
        have v: "flag_values sets' name = []" using no_word_no_values [OF next_arg(8)] quiet next_arg(7) by simp
        from assms(1) True show ?thesis
          by (cases rule: word_cases [where args = rest]) (use next_arg v Cons in \<open>auto simp: flag_values_def split: if_splits\<close>)
      qed
    next
      case False
      have skip: "extract_flag_value args name = extract_flag_value rest name" unfolding Cons by (rule extract_skips [OF False])
      have other: "n \<noteq> name" if "2 \<le> length s" "hd s = CHR ''-''" "flag_text s \<noteq> ''''" "flag_name (flag_text s) = (n, v)" for n v
        using named_is_word [OF that] False by auto
      from less.prems(1) [unfolded Cons] show ?thesis
      proof (cases rule: parse_flags_step)
        case stop
        then show ?thesis using less.prems(3) by (simp add: flag_values_def)
      next
        case (own n kind' v sets')
        have "flag_values sets name = flag_values sets' name" using other [OF own(3,4,5,2)] own(7) by (simp add: flag_values_def)
        moreover have "flag_values sets' name = [extract_flag_value rest name]"
          using less.hyps [of rest sets'] own(6) less.prems(2,3) False calculation Cons by simp
        ultimately show ?thesis by (simp add: skip)
      next
        case (next_arg n kind' v args' sets')
        have eq: "flag_values sets name = flag_values sets' name"
          using other [OF next_arg(4,5,6,3)] next_arg(9) by (simp add: flag_values_def)
        have "\<not> scan_word name v"
        proof
          assume "scan_word name v"
          then have "\<forall>a \<in> set args'. \<not> scan_word name a"
            using less.prems(2) Cons next_arg(7) False by (auto simp: filter_empty_conv)
          with no_word_no_values [OF next_arg(8)] less.prems(3) eq show False by simp
        qed
        then have "extract_flag_value rest name = extract_flag_value args' name"
          unfolding next_arg(7) by (rule extract_skips)
        moreover have "flag_values sets' name = [extract_flag_value args' name]"
          using less.hyps [of args' sets'] next_arg(7,8) less.prems(2,3) False eq Cons \<open>\<not> scan_word name v\<close> by simp
        ultimately show ?thesis by (simp add: skip eq)
      qed
    qed
  qed
qed

end
