(* ===== verification/PB_Routes.thy ===== *)
theory PB_Routes
  imports PB_Api Url Health
begin

text \<open>
  The routes of the Portal Backend (\<^verbatim>\<open>cmd/pb/main.go\<close>): a method and a request target
  select the request of \<open>PB_Api\<close> as the two muxes do. The public routes need no token; whatever
  lies under \<^verbatim>\<open>/api/v1/\<close> passes token validation and the member lookup first, also when no
  route matches. A target with an empty or a dot segment is one the mux does not match as it
  is, and is answered with 404. The CORS middleware is the library's.
\<close>

section \<open>Bodies\<close>

datatype pb_body =
    BMember create_member_request | BMemberUpdate update_member_request
  | BSchema create_schema_request | BSchemaUpdate update_schema_request | BMetadataPatch metadata_patch_request
  | BSchemaSubmission create_schema_submission_request | BSchemaSubmissionUpdate update_schema_submission_request
  | BApplication create_application_request | BApplicationUpdate update_application_request
  | BPolicyUpdate update_application_policy_request
  | BAppSubmission create_app_submission_request | BAppSubmissionUpdate update_app_submission_request

text \<open>The body a handler decodes; \<open>None\<close> is one its decoder refuses.\<close>

definition body_as :: "(pb_body \<Rightarrow> 'a option) \<Rightarrow> pb_body option \<Rightarrow> 'a option" where
  "body_as f b = Option.bind b f"

definition b_member :: "pb_body option \<Rightarrow> create_member_request option" where
  "b_member = body_as (\<lambda>b. case b of BMember r \<Rightarrow> Some r | _ \<Rightarrow> None)"
definition b_member_update :: "pb_body option \<Rightarrow> update_member_request option" where
  "b_member_update = body_as (\<lambda>b. case b of BMemberUpdate r \<Rightarrow> Some r | _ \<Rightarrow> None)"
definition b_schema :: "pb_body option \<Rightarrow> create_schema_request option" where
  "b_schema = body_as (\<lambda>b. case b of BSchema r \<Rightarrow> Some r | _ \<Rightarrow> None)"
definition b_schema_update :: "pb_body option \<Rightarrow> update_schema_request option" where
  "b_schema_update = body_as (\<lambda>b. case b of BSchemaUpdate r \<Rightarrow> Some r | _ \<Rightarrow> None)"
definition b_metadata_patch :: "pb_body option \<Rightarrow> metadata_patch_request option" where
  "b_metadata_patch = body_as (\<lambda>b. case b of BMetadataPatch r \<Rightarrow> Some r | _ \<Rightarrow> None)"
definition b_schema_submission :: "pb_body option \<Rightarrow> create_schema_submission_request option" where
  "b_schema_submission = body_as (\<lambda>b. case b of BSchemaSubmission r \<Rightarrow> Some r | _ \<Rightarrow> None)"
definition b_schema_submission_update :: "pb_body option \<Rightarrow> update_schema_submission_request option" where
  "b_schema_submission_update = body_as (\<lambda>b. case b of BSchemaSubmissionUpdate r \<Rightarrow> Some r | _ \<Rightarrow> None)"
definition b_application :: "pb_body option \<Rightarrow> create_application_request option" where
  "b_application = body_as (\<lambda>b. case b of BApplication r \<Rightarrow> Some r | _ \<Rightarrow> None)"
definition b_application_update :: "pb_body option \<Rightarrow> update_application_request option" where
  "b_application_update = body_as (\<lambda>b. case b of BApplicationUpdate r \<Rightarrow> Some r | _ \<Rightarrow> None)"
definition b_policy_update :: "pb_body option \<Rightarrow> update_application_policy_request option" where
  "b_policy_update = body_as (\<lambda>b. case b of BPolicyUpdate r \<Rightarrow> Some r | _ \<Rightarrow> None)"
definition b_app_submission :: "pb_body option \<Rightarrow> create_app_submission_request option" where
  "b_app_submission = body_as (\<lambda>b. case b of BAppSubmission r \<Rightarrow> Some r | _ \<Rightarrow> None)"
definition b_app_submission_update :: "pb_body option \<Rightarrow> update_app_submission_request option" where
  "b_app_submission_update = body_as (\<lambda>b. case b of BAppSubmissionUpdate r \<Rightarrow> Some r | _ \<Rightarrow> None)"

lemmas body_defs = body_as_def b_member_def b_member_update_def b_schema_def b_schema_update_def b_metadata_patch_def
  b_schema_submission_def b_schema_submission_update_def b_application_def b_application_update_def b_policy_update_def
  b_app_submission_def b_app_submission_update_def

section \<open>The API mux\<close>

definition member_routes :: "string \<Rightarrow> string list \<Rightarrow> string \<Rightarrow> pb_body option \<Rightarrow> pb_request option" where
  "member_routes meth rest q b =
     (case rest of
        [] \<Rightarrow> if is_get meth then Some (ListMembers (query_get q ''ouId''))
              else if meth = ''POST'' then Some (CreateMember (b_member b)) else None
      | [i] \<Rightarrow> if is_get meth then Some (GetMember i)
               else if meth = ''PUT'' then Some (UpdateMember i (b_member_update b)) else None
      | _ \<Rightarrow> None)"

definition schema_routes :: "string \<Rightarrow> string list \<Rightarrow> string \<Rightarrow> pb_body option \<Rightarrow> pb_request option" where
  "schema_routes meth rest q b =
     (case rest of
        [] \<Rightarrow> if is_get meth then Some (ListSchemas (query_get q ''memberId''))
              else if meth = ''POST'' then Some (CreateSchema (b_schema b)) else None
      | [i] \<Rightarrow> if is_get meth then Some (GetSchema i)
               else if meth = ''PUT'' then Some (UpdateSchema i (b_schema_update b)) else None
      | [i, p] \<Rightarrow> if p = ''policy-metadata'' \<and> is_get meth then Some (ListMetadata i) else None
      | [i, p, m] \<Rightarrow>
          if p \<noteq> ''policy-metadata'' then None
          else if meth = ''PATCH'' then Some (PatchMetadata i m (b_metadata_patch b))
          else if meth = ''DELETE'' then Some (DeleteMetadata i m) else None
      | [i, p, m, l, a] \<Rightarrow>
          if p = ''policy-metadata'' \<and> l = ''allowlist'' \<and> meth = ''DELETE'' then Some (RevokeEntry i m a) else None
      | _ \<Rightarrow> None)"

definition schema_submission_routes :: "string \<Rightarrow> string list \<Rightarrow> string \<Rightarrow> pb_body option \<Rightarrow> pb_request option" where
  "schema_submission_routes meth rest q b =
     (case rest of
        [] \<Rightarrow> if is_get meth then Some (ListSchemaSubmissions (query_get q ''memberId'') (query_all q ''status''))
              else if meth = ''POST'' then Some (CreateSchemaSubmission (b_schema_submission b)) else None
      | [i] \<Rightarrow> if is_get meth then Some (GetSchemaSubmission i)
               else if meth = ''PUT'' then Some (UpdateSchemaSubmission i (b_schema_submission_update b)) else None
      | _ \<Rightarrow> None)"

definition application_routes :: "string \<Rightarrow> string list \<Rightarrow> string \<Rightarrow> pb_body option \<Rightarrow> pb_request option" where
  "application_routes meth rest q b =
     (case rest of
        [] \<Rightarrow> if is_get meth then Some (ListApplications (query_get q ''memberId''))
              else if meth = ''POST'' then Some (CreateApplication (b_application b)) else None
      | [i] \<Rightarrow> if is_get meth then Some (GetApplication i)
               else if meth = ''PUT'' then Some (UpdateApplication i (b_application_update b)) else None
      | [i, p] \<Rightarrow> if p = ''policy'' \<and> meth = ''PUT'' then Some (UpdateApplicationPolicy i (b_policy_update b)) else None
      | _ \<Rightarrow> None)"

definition app_submission_routes :: "string \<Rightarrow> string list \<Rightarrow> string \<Rightarrow> pb_body option \<Rightarrow> pb_request option" where
  "app_submission_routes meth rest q b =
     (case rest of
        [] \<Rightarrow> if is_get meth then Some (ListAppSubmissions (query_get q ''memberId'') (query_all q ''status''))
              else if meth = ''POST'' then Some (CreateAppSubmission (b_app_submission b)) else None
      | [i] \<Rightarrow> if is_get meth then Some (GetAppSubmission i)
               else if meth = ''PUT'' then Some (UpdateAppSubmission i (b_app_submission_update b)) else None
      | _ \<Rightarrow> None)"

text \<open>
  The request that matches, and whether the target lies under \<^verbatim>\<open>/api/v1/\<close>, as the pattern of the
  outer mux asks; the segments of the rest are what the patterns of the API look at.
\<close>

definition api_rest :: "string \<Rightarrow> string list option" where
  "api_rest target =
     (case path_segments (target_path target) of
        Some (a # v # r # rest) \<Rightarrow> if a = ''api'' \<and> v = ''v1'' then Some (r # rest) else None
      | _ \<Rightarrow> None)"

definition under_api :: "string \<Rightarrow> bool" where
  "under_api target \<longleftrightarrow>
     (case split_on (CHR ''/'') (target_path target) of
        root # a # v # r # rest \<Rightarrow> unescape False a = Some ''api'' \<and> unescape False v = Some ''v1''
      | _ \<Rightarrow> False)"

definition match_api :: "string \<Rightarrow> string list \<Rightarrow> string \<Rightarrow> pb_body option \<Rightarrow> pb_request option" where
  "match_api meth segs q b =
     (case segs of
        [] \<Rightarrow> None
      | r # rest \<Rightarrow>
          if r = ''members'' then member_routes meth rest q b
          else if r = ''schemas'' then schema_routes meth rest q b
          else if r = ''schema-submissions'' then schema_submission_routes meth rest q b
          else if r = ''applications'' then application_routes meth rest q b
          else if r = ''application-submissions'' then app_submission_routes meth rest q b
          else None)"

definition pb_route :: "string \<Rightarrow> string \<Rightarrow> pb_body option \<Rightarrow> pb_request option" where
  "pb_route meth target b =
     (case api_rest target of None \<Rightarrow> None | Some segs \<Rightarrow> match_api meth segs (target_query target) b)"

section \<open>The server\<close>

datatype pb_answer = ApiAnswer pb_content | HealthAnswer health_status | InfoAnswer "(string \<times> string) list" | ReportAnswer json_map

text \<open>Token validation and the member lookup in front of the API mux.\<close>

definition pb_behind_auth ::
  "pb_env \<Rightarrow> ('b, 'x) pb_deps \<Rightarrow> (string \<Rightarrow> 'w \<Rightarrow> (string + principal) \<times> 'w) \<Rightarrow> string \<Rightarrow> string \<Rightarrow> string \<Rightarrow> pb_body option \<Rightarrow>
   'w \<times> 'x pb_state \<Rightarrow> pb_content pb_reply option \<times> 'w \<times> 'x pb_state" where
  "pb_behind_auth env d extract meth target header body w =
     (case pb_route meth target body of
        Some req \<Rightarrow> pb_server env d extract meth header req w
      | None \<Rightarrow>
          require_auth (Some (\<lambda>h w. case extract h (fst w) of (r, k) \<Rightarrow> (r, (k, snd w))))
            (\<lambda>n e m. Some (respond_with_error n m))
            (\<lambda>auth w. case caller_middleware (member_id_by_ou_id env) (\<lambda>n m. Some (respond_with_error n m))
                (\<lambda>ctx st. (Some (NoBody (unmatched_status (\<lambda>m t. pb_route m t body) target)), st))
                \<lparr>rx_method = meth, rx_auth = auth, rx_member_id = None\<rparr> (snd w) of
               (r, st) \<Rightarrow> (r, (fst w, st)))
            header None w)"

definition pb_mux ::
  "build_info \<Rightarrow> db_probe \<Rightarrow> string \<Rightarrow> pb_env \<Rightarrow> ('b, 'x) pb_deps \<Rightarrow> (string \<Rightarrow> 'w \<Rightarrow> (string + principal) \<times> 'w) \<Rightarrow>
   string \<Rightarrow> string \<Rightarrow> string \<Rightarrow> pb_body option \<Rightarrow> 'w \<times> 'x pb_state \<Rightarrow> pb_answer pb_reply option \<times> 'w \<times> 'x pb_state" where
  "pb_mux b db name env d extract meth target header body w =
     (let get = (\<lambda>r. (Some (if is_get meth then r else NoBody StatusMethodNotAllowed), w)) in
      case path_segments (target_path target) of
        Some [''health''] \<Rightarrow> get (map_reply HealthAnswer (pb_health_handler db name))
      | Some [''debug''] \<Rightarrow> get (map_reply InfoAnswer (pb_debug_handler b (target_path target) meth))
      | Some [''debug'', ''db''] \<Rightarrow> get (map_reply ReportAnswer (pb_debug_db_handler db name))
      | segs \<Rightarrow>
          if unclean (target_path target) \<or> segs = Some [''api'', ''v1''] then (Some (NoBody 301), w)
          else if \<not> under_api target then (Some (NoBody StatusNotFound), w)
          else (case pb_behind_auth env d extract meth target header body w of
                  (r, w) \<Rightarrow> (map_option (map_reply ApiAnswer) r, w)))"

text \<open>A handler that panics before it writes is answered with 500.\<close>

definition pb_process ::
  "build_info \<Rightarrow> db_probe \<Rightarrow> string \<Rightarrow> pb_env \<Rightarrow> ('b, 'x) pb_deps \<Rightarrow> (string \<Rightarrow> 'w \<Rightarrow> (string + principal) \<times> 'w) \<Rightarrow>
   string \<Rightarrow> string \<Rightarrow> string \<Rightarrow> pb_body option \<Rightarrow> 'w \<times> 'x pb_state \<Rightarrow> pb_answer pb_reply \<times> 'w \<times> 'x pb_state" where
  "pb_process b db name env d extract meth target header body w =
     (case pb_mux b db name env d extract meth target header body w of
        (Some r, w) \<Rightarrow> (r, w)
      | (None, w) \<Rightarrow> (respond_with_error StatusInternalServerError ''Internal server error'', w))"

section \<open>Matching\<close>

text \<open>The target of a path of escaped segments after a fixed prefix.\<close>

lemma api_rest_join:
  assumes "\<forall>s \<in> set segs. CHR ''/'' \<notin> set s \<and> CHR ''?'' \<notin> set s \<and> segment_ok s"
    and "map (unescape False) segs = map Some vals" "segs \<noteq> []"
  shows "api_rest (join_on (CHR ''/'') ('''' # ''api'' # ''v1'' # segs) @ q) =
      (if q = '''' \<or> hd q = CHR ''?'' then Some vals else api_rest (join_on (CHR ''/'') ('''' # ''api'' # ''v1'' # segs) @ q))"
    and "q = CHR ''?'' # query \<Longrightarrow>
      target_query (join_on (CHR ''/'') ('''' # ''api'' # ''v1'' # segs) @ q) = query"
proof -
  let ?p = "join_on (CHR ''/'') ('''' # ''api'' # ''v1'' # segs)"
  have set_join: "set (join_on c ws) \<subseteq> insert c (\<Union>(set ` set ws))" for c ws
    by (induction c ws rule: join_on.induct) auto
  have nq: "CHR ''?'' \<notin> set ?p" using set_join [of "CHR ''/''" "'''' # ''api'' # ''v1'' # segs"] assms(1) by fastforce
  have "path_segments ?p = Some (''api'' # ''v1'' # vals)"
    by (rule path_segments_join) (use assms(1,2) in \<open>auto simp: segment_ok_def\<close>)
  moreover obtain v vs where "vals = v # vs" using assms(2,3) by (cases vals) auto
  ultimately have rest: "target_path t = ?p \<Longrightarrow> api_rest t = Some vals" for t by (simp add: api_rest_def)
  show "api_rest (?p @ q) = (if q = '''' \<or> hd q = CHR ''?'' then Some vals else api_rest (?p @ q))"
    using take_path [OF nq] split_query [OF nq, of "tl q"] rest by (cases q) (auto simp: target_path_def)
  assume "q = CHR ''?'' # query"
  then show "target_query (?p @ q) = query" using split_query [OF nq, of query] by (simp add: target_query_def)
qed

end
