(* ===== verification/Cli_Client.thy ===== *)
theory Cli_Client
  imports PB_Routes
begin

text \<open>
  The command line tool's client of the Portal Backend (\<^verbatim>\<open>internal/cli/pbclient/client.go\<close>).
  A response's body is of type \<open>'b\<close>, with its text and its decodings; the world behind the wire
  is \<open>'s\<close>.
\<close>

section \<open>The client\<close>

record cli_client =
  cc_base_url :: string
  cc_token :: string

text \<open>\<^verbatim>\<open>strings.TrimSuffix(s, "/")\<close>.\<close>

definition drop_slash :: "string \<Rightarrow> string" where
  "drop_slash s = (if s \<noteq> [] \<and> last s = CHR ''/'' then butlast s else s)"

definition new_client :: "string \<Rightarrow> string \<Rightarrow> cli_client" where
  "new_client base_url token = \<lparr>cc_base_url = drop_slash base_url, cc_token = token\<rparr>"

text \<open>A request is sent with its authorization header; the body that comes back may fail to be read.\<close>

record ('b, 's) pb_wire =
  pw_marshal :: "pb_body \<Rightarrow> string + unit"
  pw_new_request :: "string \<Rightarrow> string \<Rightarrow> string + unit"
  pw_do :: "string \<Rightarrow> string \<Rightarrow> string \<Rightarrow> pb_body option \<Rightarrow> 's \<Rightarrow> (string + nat \<times> (string + 'b)) \<times> 's"
  pw_text :: "'b \<Rightarrow> string"
  pw_member :: "'b \<Rightarrow> string + member_response"
  pw_members :: "'b \<Rightarrow> string + member_response list"
  pw_schema :: "'b \<Rightarrow> string + schema_response"
  pw_schemas :: "'b \<Rightarrow> string + schema_response list"
  pw_metadata :: "'b \<Rightarrow> string + metadata_response list"
  pw_application :: "'b \<Rightarrow> string + application_response"
  pw_applications :: "'b \<Rightarrow> string + application_response list"

definition do_json ::
  "('b, 's) pb_wire \<Rightarrow> cli_client \<Rightarrow> string \<Rightarrow> string \<Rightarrow> pb_body option \<Rightarrow> 's \<Rightarrow> (string + 'b) \<times> 's" where
  "do_json w c meth path body s =
     (case (case body of None \<Rightarrow> Inr () | Some b \<Rightarrow> pw_marshal w b) of
        Inl e \<Rightarrow> (Inl (''failed to marshal request: '' @ e), s)
      | Inr _ \<Rightarrow>
          (case pw_new_request w meth (cc_base_url c @ path) of
             Inl e \<Rightarrow> (Inl (''failed to create request: '' @ e), s)
           | Inr _ \<Rightarrow>
               (case pw_do w meth (cc_base_url c @ path) (''Bearer '' @ cc_token c) body s of
                  (Inl e, s) \<Rightarrow> (Inl (''failed to reach portal backend: '' @ e), s)
                | (Inr (_, Inl e), s) \<Rightarrow> (Inl (''failed to read response body: '' @ e), s)
                | (Inr (status, Inr b), s) \<Rightarrow>
                    if status < 200 \<or> 300 \<le> status
                    then (Inl (''portal backend returned status '' @ decimal status @ '': '' @ pw_text w b), s)
                    else (Inr b, s))))"

definition decoded :: "('b \<Rightarrow> string + 'a) \<Rightarrow> (string + 'b) \<times> 's \<Rightarrow> (string + 'a) \<times> 's" where
  "decoded dec r =
     (case r of
        (Inl e, s) \<Rightarrow> (Inl e, s)
      | (Inr b, s) \<Rightarrow> (case dec b of Inl e \<Rightarrow> (Inl (''failed to parse response: '' @ e), s) | Inr v \<Rightarrow> (Inr v, s)))"

text \<open>A list may be filtered by a value; an absent and an empty filter are the same.\<close>

definition filtered :: "string \<Rightarrow> string \<Rightarrow> string option \<Rightarrow> string" where
  "filtered path key v = (case v of None \<Rightarrow> path | Some x \<Rightarrow> if x = '''' then path else path @ ''?'' @ key @ ''='' @ query_escape x)"

definition cli_create_application ::
  "('b, 's) pb_wire \<Rightarrow> cli_client \<Rightarrow> create_application_request \<Rightarrow> 's \<Rightarrow> (string + application_response) \<times> 's" where
  "cli_create_application w c r s = decoded (pw_application w) (do_json w c ''POST'' ''/api/v1/applications'' (Some (BApplication r)) s)"

definition cli_create_schema ::
  "('b, 's) pb_wire \<Rightarrow> cli_client \<Rightarrow> create_schema_request \<Rightarrow> 's \<Rightarrow> (string + schema_response) \<times> 's" where
  "cli_create_schema w c r s = decoded (pw_schema w) (do_json w c ''POST'' ''/api/v1/schemas'' (Some (BSchema r)) s)"

definition cli_create_member ::
  "('b, 's) pb_wire \<Rightarrow> cli_client \<Rightarrow> create_member_request \<Rightarrow> 's \<Rightarrow> (string + member_response) \<times> 's" where
  "cli_create_member w c r s = decoded (pw_member w) (do_json w c ''POST'' ''/api/v1/members'' (Some (BMember r)) s)"

definition cli_get_member :: "('b, 's) pb_wire \<Rightarrow> cli_client \<Rightarrow> string \<Rightarrow> 's \<Rightarrow> (string + member_response) \<times> 's" where
  "cli_get_member w c i s = decoded (pw_member w) (do_json w c ''GET'' (''/api/v1/members/'' @ path_escape i) None s)"

definition cli_list_members ::
  "('b, 's) pb_wire \<Rightarrow> cli_client \<Rightarrow> string option \<Rightarrow> 's \<Rightarrow> (string + member_response list) \<times> 's" where
  "cli_list_members w c ou s = decoded (pw_members w) (do_json w c ''GET'' (filtered ''/api/v1/members'' ''ouId'' ou) None s)"

definition cli_get_schema :: "('b, 's) pb_wire \<Rightarrow> cli_client \<Rightarrow> string \<Rightarrow> 's \<Rightarrow> (string + schema_response) \<times> 's" where
  "cli_get_schema w c i s = decoded (pw_schema w) (do_json w c ''GET'' (''/api/v1/schemas/'' @ path_escape i) None s)"

definition cli_list_schemas ::
  "('b, 's) pb_wire \<Rightarrow> cli_client \<Rightarrow> string option \<Rightarrow> 's \<Rightarrow> (string + schema_response list) \<times> 's" where
  "cli_list_schemas w c m s = decoded (pw_schemas w) (do_json w c ''GET'' (filtered ''/api/v1/schemas'' ''memberId'' m) None s)"

definition cli_list_metadata ::
  "('b, 's) pb_wire \<Rightarrow> cli_client \<Rightarrow> string \<Rightarrow> 's \<Rightarrow> (string + metadata_response list) \<times> 's" where
  "cli_list_metadata w c i s =
     decoded (pw_metadata w) (do_json w c ''GET'' (''/api/v1/schemas/'' @ path_escape i @ ''/policy-metadata'') None s)"

definition cli_get_application :: "('b, 's) pb_wire \<Rightarrow> cli_client \<Rightarrow> string \<Rightarrow> 's \<Rightarrow> (string + application_response) \<times> 's" where
  "cli_get_application w c i s = decoded (pw_application w) (do_json w c ''GET'' (''/api/v1/applications/'' @ path_escape i) None s)"

definition cli_list_applications ::
  "('b, 's) pb_wire \<Rightarrow> cli_client \<Rightarrow> string option \<Rightarrow> 's \<Rightarrow> (string + application_response list) \<times> 's" where
  "cli_list_applications w c m s =
     decoded (pw_applications w) (do_json w c ''GET'' (filtered ''/api/v1/applications'' ''memberId'' m) None s)"

definition cli_update_policy ::
  "('b, 's) pb_wire \<Rightarrow> cli_client \<Rightarrow> string \<Rightarrow> update_application_policy_request \<Rightarrow> 's \<Rightarrow> (string + application_response) \<times> 's" where
  "cli_update_policy w c i r s =
     decoded (pw_application w)
       (do_json w c ''PUT'' (''/api/v1/applications/'' @ path_escape i @ ''/policy'') (Some (BPolicyUpdate r)) s)"

section \<open>The client's targets at the server\<close>

text \<open>The segments of the fixed part of a path.\<close>

lemma plain_segment:
  assumes "s \<in> {''members'', ''schemas'', ''applications'', ''policy'', ''policy-metadata''}"
  shows "CHR ''/'' \<notin> set s \<and> CHR ''?'' \<notin> set s \<and> segment_ok s \<and> unescape False s = Some s"
  using assms by (elim insertE emptyE) (simp_all add: segment_ok_def)

lemma escaped_segment: "segment_ok i \<Longrightarrow>
    CHR ''/'' \<notin> set (path_escape i) \<and> CHR ''?'' \<notin> set (path_escape i) \<and> segment_ok (path_escape i) \<and>
    unescape False (path_escape i) = Some i"
  using path_escape_plain [of i] by simp

lemma api_rest_path:
  assumes "\<forall>(s, v) \<in> set ps. CHR ''/'' \<notin> set s \<and> CHR ''?'' \<notin> set s \<and> segment_ok s \<and> unescape False s = Some v" "ps \<noteq> []"
  shows "api_rest (join_on (CHR ''/'') ('''' # ''api'' # ''v1'' # map fst ps)) = Some (map snd ps)"
proof -
  have eq: "map (unescape False) (map fst ps) = map Some (map snd ps)" using assms(1) by auto
  have "\<forall>s \<in> set (map fst ps). CHR ''/'' \<notin> set s \<and> CHR ''?'' \<notin> set s \<and> segment_ok s" using assms(1) by auto
  from api_rest_join(1) [OF this eq, of "''''"] assms(2) show ?thesis by simp
qed

lemma collection_target:
  assumes "r \<in> {''members'', ''schemas'', ''applications''}"
  shows "api_rest (''/api/v1/'' @ r) = Some [r]"
  using api_rest_path [of "[(r, r)]"] plain_segment [of r] assms by auto

lemma record_target:
  assumes "r \<in> {''members'', ''schemas'', ''applications''}" "segment_ok i"
  shows "api_rest (''/api/v1/'' @ r @ ''/'' @ path_escape i) = Some [r, i]"
  using api_rest_path [of "[(r, r), (path_escape i, i)]"] plain_segment [of r] escaped_segment [OF assms(2)] assms(1) by auto

lemma part_target:
  assumes "r \<in> {''schemas'', ''applications''}" "segment_ok i" "p \<in> {''policy'', ''policy-metadata''}"
  shows "api_rest (''/api/v1/'' @ r @ ''/'' @ path_escape i @ ''/'' @ p) = Some [r, i, p]"
  using api_rest_path [of "[(r, r), (path_escape i, i), (p, p)]"] plain_segment [of r] plain_segment [of p]
    escaped_segment [OF assms(2)] assms(1,3) by auto

lemma filtered_target:
  assumes "r \<in> {''members'', ''schemas'', ''applications''}"
    and "CHR ''='' \<notin> set key" "CHR ''&'' \<notin> set key" "CHR '';'' \<notin> set key" "unescape True key = Some key"
  shows "api_rest (filtered (''/api/v1/'' @ r) key v) = Some [r]"
    and "query_get (target_query (filtered (''/api/v1/'' @ r) key v)) key = (case v of None \<Rightarrow> '''' | Some x \<Rightarrow> x)"
proof -
  have seg: "\<forall>s \<in> set [r]. CHR ''/'' \<notin> set s \<and> CHR ''?'' \<notin> set s \<and> segment_ok s" "map (unescape False) [r] = map Some [r]"
    using plain_segment [of r] assms(1) by auto
  have p: "join_on (CHR ''/'') ('''' # ''api'' # ''v1'' # [r]) = ''/api/v1/'' @ r" by simp
  note j = api_rest_join [OF seg not_Cons_self2 [symmetric, THEN not_sym], unfolded p]
  have nq: "CHR ''?'' \<notin> set (''/api/v1/'' @ r)" using plain_segment [of r] assms(1) by auto
  show "api_rest (filtered (''/api/v1/'' @ r) key v) = Some [r]"
    using collection_target [OF assms(1)] j(1) [of "''?'' @ key @ ''='' @ query_escape (the v)"]
    by (auto simp: filtered_def split: option.splits)
  show "query_get (target_query (filtered (''/api/v1/'' @ r) key v)) key = (case v of None \<Rightarrow> '''' | Some x \<Rightarrow> x)"
  proof (cases "v = None \<or> v = Some ''''")
    case True
    then have "filtered (''/api/v1/'' @ r) key v = ''/api/v1/'' @ r" by (auto simp: filtered_def)
    moreover have "target_query (''/api/v1/'' @ r) = ''''"
      unfolding target_query_def take_path [OF nq, THEN conjunct2] by simp
    ultimately have "target_query (filtered (''/api/v1/'' @ r) key v) = ''''" by simp
    then show ?thesis using True by (auto simp: query_get_def List.map_filter_def)
  next
    case False
    then obtain x where x: "v = Some x" "x \<noteq> ''''" by auto
    have "target_query (filtered (''/api/v1/'' @ r) key v) = key @ ''='' @ query_escape x"
      using j(2) [of "''?'' @ key @ ''='' @ query_escape x"] x by (simp add: filtered_def)
    then show ?thesis using query_get_escaped [OF assms(2-5)] x by simp
  qed
qed

section \<open>The wire to the server\<close>

text \<open>
  The client's requests reach \<open>server\<close>, which is \<^const>\<open>pb_process\<close> below. A decoder takes the one
  kind of body it expects.
\<close>

type_synonym 's pb_endpoint = "string \<Rightarrow> string \<Rightarrow> string \<Rightarrow> pb_body option \<Rightarrow> 's \<Rightarrow> pb_answer pb_reply \<times> 's"

definition content_of :: "(pb_content \<Rightarrow> 'a option) \<Rightarrow> pb_answer pb_reply \<Rightarrow> string + 'a" where
  "content_of f r =
     (case r of
        Success n (ApiAnswer c) \<Rightarrow> (case f c of None \<Rightarrow> Inl ''not the expected body'' | Some v \<Rightarrow> Inr v)
      | _ \<Rightarrow> Inl ''not the expected body'')"

definition process_wire ::
  "cli_client \<Rightarrow> (pb_answer pb_reply \<Rightarrow> string) \<Rightarrow> 's pb_endpoint \<Rightarrow> (pb_answer pb_reply, 's) pb_wire" where
  "process_wire c text_of server =
     \<lparr>pw_marshal = (\<lambda>_. Inr ()), pw_new_request = (\<lambda>_ _. Inr ()),
      pw_do = (\<lambda>meth url header body s.
        case server meth (drop (length (cc_base_url c)) url) header body s of (r, s) \<Rightarrow> (Inr (status_code r, Inr r), s)),
      pw_text = text_of,
      pw_member = content_of (\<lambda>x. case x of OneMember v \<Rightarrow> Some v | _ \<Rightarrow> None),
      pw_members = content_of (\<lambda>x. case x of Members v \<Rightarrow> Some v | _ \<Rightarrow> None),
      pw_schema = content_of (\<lambda>x. case x of OneSchema v \<Rightarrow> Some v | _ \<Rightarrow> None),
      pw_schemas = content_of (\<lambda>x. case x of Schemas v \<Rightarrow> Some v | _ \<Rightarrow> None),
      pw_metadata = content_of (\<lambda>x. case x of Metadata v \<Rightarrow> Some v | _ \<Rightarrow> None),
      pw_application = content_of (\<lambda>x. case x of OneApplication v \<Rightarrow> Some v | _ \<Rightarrow> None),
      pw_applications = content_of (\<lambda>x. case x of Applications v \<Rightarrow> Some v | _ \<Rightarrow> None)\<rparr>"

lemma do_json_process:
  "do_json (process_wire c text_of server) c meth path body s =
     (case server meth path (''Bearer '' @ cc_token c) body s of
        (r, s) \<Rightarrow>
          (if status_code r < 200 \<or> 300 \<le> status_code r
           then Inl (''portal backend returned status '' @ decimal (status_code r) @ '': '' @ text_of r)
           else Inr r, s))"
  by (cases body) (auto simp: do_json_def process_wire_def split: prod.splits)

text \<open>What the server does with a request that a route matched.\<close>

definition served :: "pb_content pb_reply option \<times> 's \<Rightarrow> pb_answer pb_reply \<times> 's" where
  "served r =
     ((case fst r of None \<Rightarrow> respond_with_error StatusInternalServerError ''Internal server error''
       | Some rep \<Rightarrow> map_reply ApiAnswer rep), snd r)"

lemma api_rest_Some: "api_rest target = Some segs \<Longrightarrow> \<exists>a v. path_segments (target_path target) = Some (a # v # segs) \<and> segs \<noteq> [] \<and> a = ''api''"
  by (auto simp: api_rest_def split: option.splits list.splits if_splits)

lemma api_rest_clean: "api_rest target = Some segs \<Longrightarrow> \<not> unclean (target_path target) \<and> under_api target"
proof -
  assume rest: "api_rest target = Some segs"
  then obtain r rs where p: "path_segments (target_path target) = Some (''api'' # ''v1'' # r # rs)"
    by (auto simp: api_rest_def split: option.splits list.splits if_splits)
  have "those (map (unescape False) ws) = Some (a # v # r # rs) \<Longrightarrow>
      \<exists>x y z zs. ws = x # y # z # zs \<and> unescape False x = Some a \<and> unescape False y = Some v" for ws a v
    by (cases ws; cases "tl ws"; cases "tl (tl ws)") (auto split: option.splits)
  with path_segments_clean [OF p] p show ?thesis
    by (fastforce simp: under_api_def path_segments_def split: list.splits if_splits)
qed

lemma process_matched:
  assumes "api_rest target = Some segs" "match_api meth segs (target_query target) body = Some req"
  shows "pb_process b db name env d extract meth target header body w = served (pb_server env d extract meth header req w)"
proof -
  obtain a v where p: "path_segments (target_path target) = Some (a # v # segs)" "segs \<noteq> []" "a = ''api''"
    using api_rest_Some [OF assms(1)] by blast
  have c: "\<not> unclean (target_path target)" "under_api target" using api_rest_clean [OF assms(1)] by simp_all
  have "pb_route meth target body = Some req" using assms by (simp add: pb_route_def)
  then have "pb_behind_auth env d extract meth target header body w = pb_server env d extract meth header req w"
    by (simp add: pb_behind_auth_def)
  then have "pb_mux b db name env d extract meth target header body w =
      (case pb_server env d extract meth header req w of (r, w) \<Rightarrow> (map_option (map_reply ApiAnswer) r, w))"
    using p c by (cases segs) (simp_all add: pb_mux_def Let_def)
  then show ?thesis by (simp add: pb_process_def served_def split: prod.splits option.splits)
qed

text \<open>The token that the server reads from the client's header.\<close>

lemma bearer_of_client:
  assumes "cc_token c \<noteq> ''''" "\<forall>x \<in> set (cc_token c). \<not> is_space x"
  shows "bearer_token (''Bearer '' @ cc_token c) = Inr (cc_token c)"
proof -
  let ?t = "cc_token c"
  have trim: "trim_space u = u" if "u \<noteq> []" "\<not> is_space (hd u)" "\<not> is_space (last u)" for u
    using that by (simp add: trim_space_def dropWhile_eq_self_iff [THEN iffD2] hd_rev)
  have t: "trim_space ?t = ?t" using assms by (intro trim) auto
  have b: "trim_space (''Bearer '' @ ?t) = ''Bearer '' @ ?t"
    using assms by (intro trim) (auto simp: is_space_def)
  have free: "split_space u = [u]" if "\<forall>x \<in> set u. \<not> is_space x" for u
    using that by (induction u) auto
  have "split_space (''Bearer '' @ ?t) = [''Bearer'', ?t]" using free [OF assms(2)] by (simp add: is_space_def)
  then have "string_fields (trim_space (''Bearer '' @ ?t)) = [''Bearer'', ?t]" using assms(1) by (simp only: b string_fields_def) simp
  then show ?thesis using assms(1) t by (simp add: bearer_token_def equal_fold_def)
qed

end
