(* ===== verification/Cli_Main.thy ===== *)
theory Cli_Main
  imports Cli_Flags Cli_Client
begin

text \<open>
  The commands of the command line tool (\<^verbatim>\<open>cmd/ondx/main.go\<close>): what each does with its
  arguments, the files and the services it talks to, and what it prints. JSON output is the value
  that is printed. A command that ends with an error prints it and exits with 1; one whose flags
  do not parse exits in the \<^verbatim>\<open>flag\<close> package.
\<close>

section \<open>Commands\<close>

datatype cli_output =
    Lines "string list"
  | MembersJson "member_response list" | MemberJson member_response
  | SchemasJson "schema_response list" | SchemaJson schema_response "metadata_response list"
  | ApplicationsJson "application_response list" | ApplicationJson application_response

datatype cli_result = Failed string | Exited flag_stop | Printed cli_output

text \<open>
  The outside of a command: the operating system, the token endpoint and the Portal Backend, which
  are reached without TLS verification when the flag says so.
\<close>

record ('b, 'c, 's) cli_env =
  cx_os :: os_env
  cx_parse_url :: url_parser
  cx_parse_int :: "string \<Rightarrow> int option"
  cx_net :: "bool \<Rightarrow> ('b, 's) token_net"
  cx_wire :: "bool \<Rightarrow> ('c, 's) pb_wire"
  cx_now :: time

type_synonym 's cli_world = "files \<times> 's"

definition pb_flags :: flag_spec where
  "pb_flags = [(''profile'', FString), (''pb-url'', FString), (''credentials-path'', FString), (''insecure'', FBool)]"

text \<open>The profile first, then the flags of the command.\<close>

definition with_profile ::
  "('b, 'c, 's) cli_env \<Rightarrow> flag_spec \<Rightarrow> string list \<Rightarrow> 's cli_world \<Rightarrow>
   (string \<Rightarrow> cli_profile \<Rightarrow> flag_sets \<Rightarrow> cli_result \<times> 's cli_world) \<Rightarrow> cli_result \<times> 's cli_world" where
  "with_profile env spec args w k =
     (case resolve_active_profile (cx_os env) args (fst w) of
        Inl e \<Rightarrow> (Failed e, w)
      | Inr (name, active) \<Rightarrow>
          (case parse_flags (cx_parse_int env) spec args of
             Inl stop \<Rightarrow> (Exited stop, w)
           | Inr sets \<Rightarrow> k name active sets))"

definition pb_url_of :: "('b, 'c, 's) cli_env \<Rightarrow> cli_profile \<Rightarrow> flag_sets \<Rightarrow> string" where
  "pb_url_of env active sets =
     str_flag sets ''pb-url'' (first_non_empty [os_getenv (cx_os env) ''NDX_PB_URL'', pf_pb_url active])"

text \<open>A fresh token, then the call, whose error the command reports with its own words.\<close>

definition saying :: "string \<Rightarrow> ('s \<Rightarrow> (string + 'a) \<times> 's) \<Rightarrow> 's \<Rightarrow> (string + 'a) \<times> 's" where
  "saying doing call s =
     (case call s of (Inl e, s) \<Rightarrow> (Inl (''failed to '' @ doing @ '': '' @ e), s) | (Inr v, s) \<Rightarrow> (Inr v, s))"

definition cli_call ::
  "('b, 'c, 's) cli_env \<Rightarrow> string \<Rightarrow> cli_profile \<Rightarrow> flag_sets \<Rightarrow>
   (('c, 's) pb_wire \<Rightarrow> cli_client \<Rightarrow> 's \<Rightarrow> (string + 'a) \<times> 's) \<Rightarrow> ('a \<Rightarrow> cli_output) \<Rightarrow> 's cli_world \<Rightarrow>
   cli_result \<times> 's cli_world" where
  "cli_call env name active sets call out w =
     (let insecure = bool_flag sets ''insecure'' (pf_insecure active);
          path = str_flag sets ''credentials-path'' '''' in
      case (if path = '''' then default_credentials_path (cx_os env) name else Inr path) of
        Inl e \<Rightarrow> (Failed e, w)
      | Inr path \<Rightarrow>
          (case ensure_fresh_token (cx_os env) (cx_parse_url env) (cx_net env insecure) (cx_now env) path w of
             (Inl e, w) \<Rightarrow> (Failed e, w)
           | (Inr t, fs, s) \<Rightarrow>
               (case call (cx_wire env insecure) (new_client (pb_url_of env active sets) (tk_access t)) s of
                  (Inl e, s) \<Rightarrow> (Failed e, fs, s)
                | (Inr v, s) \<Rightarrow> (Printed (out v), fs, s))))"

definition pb_url_required :: string where
  "pb_url_required = ''--pb-url is required (or set NDX_PB_URL, or configure it in a profile)''"

text \<open>The first check that fails; then the call.\<close>

definition checked :: "(bool \<times> string) list \<Rightarrow> 's cli_world \<Rightarrow> cli_result \<times> 's cli_world \<Rightarrow> cli_result \<times> 's cli_world" where
  "checked checks w k = (case filter fst checks of [] \<Rightarrow> k | (_, e) # _ \<Rightarrow> (Failed e, w))"

section \<open>Output\<close>

text \<open>\<^verbatim>\<open>%-40s\<close>.\<close>

definition pad_to :: "nat \<Rightarrow> string \<Rightarrow> string" where
  "pad_to n s = s @ replicate (n - length s) (CHR '' '')"

definition columns :: "nat \<Rightarrow> nat \<Rightarrow> nat \<Rightarrow> string \<times> string \<times> string \<times> string \<Rightarrow> string" where
  "columns n m k = (\<lambda>(a, b, c, d). pad_to n a @ '' '' @ pad_to m b @ '' '' @ pad_to k c @ '' '' @ d)"

definition named :: "string \<Rightarrow> string \<Rightarrow> string" where
  "named a b = a @ '' ('' @ b @ '')''"

definition line_if :: "string \<Rightarrow> string \<Rightarrow> string list" where
  "line_if label v = (if v = '''' then [] else [label @ v])"

definition opt_line :: "string \<Rightarrow> string option \<Rightarrow> string list" where
  "opt_line label v = (case v of None \<Rightarrow> [] | Some s \<Rightarrow> line_if label s)"

section \<open>Fields of flags\<close>

text \<open>\<^verbatim>\<open>schemaId:fieldName\<close>, cut at the first colon.\<close>

definition parse_selected_field :: "string \<Rightarrow> string + field_request" where
  "parse_selected_field f =
     (case cut_at (CHR '':'') f of
        None \<Rightarrow> Inl (''invalid --field '' @ double_quoted f @ '': expected schemaId:fieldName'')
      | Some (schema_id, field) \<Rightarrow>
          if schema_id = '''' \<or> field = ''''
          then Inl (''invalid --field '' @ double_quoted f @ '': expected schemaId:fieldName'')
          else Inr \<lparr>fr_field_name = field, fr_schema_id = schema_id\<rparr>)"

text \<open>\<^verbatim>\<open>fieldName:policyClass:source\<close>.\<close>

definition parse_schema_field :: "string \<Rightarrow> string + create_record" where
  "parse_schema_field f =
     (case split_on (CHR '':'') f of
        [name, class, source] \<Rightarrow>
          if name = '''' \<or> class = '''' \<or> source = ''''
          then Inl (''invalid --field '' @ double_quoted f @ '': expected fieldName:policyClass:source'')
          else Inr \<lparr>cr_field_name = name, cr_display_name = None, cr_description = None, cr_source = source,
                    cr_policy_class = class, cr_policy_params = [], cr_owner = Some ''citizen''\<rparr>
      | _ \<Rightarrow> Inl (''invalid --field '' @ double_quoted f @ '': expected fieldName:policyClass:source''))"

section \<open>Members\<close>

definition member_lines :: "member_response \<Rightarrow> string list" where
  "member_lines m =
     [''Member:      '' @ named (mr_member_name m) (mr_member_id m), ''OU:          '' @ mr_ou_id m] @
     line_if ''Email:       '' (mr_email m) @ line_if ''Phone:       '' (mr_phone_number m) @
     [''Created:     '' @ mr_member_created m, ''Updated:     '' @ mr_member_updated m]"

definition run_members_list :: "('b, 'c, 's) cli_env \<Rightarrow> string list \<Rightarrow> 's cli_world \<Rightarrow> cli_result \<times> 's cli_world" where
  "run_members_list env args w =
     with_profile env (pb_flags @ [(''ou-id'', FString), (''json'', FBool)]) args w (\<lambda>name active sets.
       checked [(pb_url_of env active sets = '''', pb_url_required)] w
         (let ou = str_flag sets ''ou-id'' '''' in
          cli_call env name active sets
            (\<lambda>wire c. saying ''list members'' (cli_list_members wire c (if ou \<noteq> '''' then Some ou else None)))
            (\<lambda>ms. if bool_flag sets ''json'' False then MembersJson ms
                   else if ms = [] then Lines [''No members found.'']
                   else Lines (map (columns 40 45 40) ((''MEMBER ID'', ''NAME'', ''OU ID'', ''EMAIL'') #
                          map (\<lambda>m. (mr_member_id m, mr_member_name m, mr_ou_id m, mr_email m)) ms))) w))"

definition run_members_get :: "('b, 'c, 's) cli_env \<Rightarrow> string list \<Rightarrow> 's cli_world \<Rightarrow> cli_result \<times> 's cli_world" where
  "run_members_get env args w =
     with_profile env (pb_flags @ [(''member-id'', FString), (''json'', FBool)]) args w (\<lambda>name active sets.
       let i = str_flag sets ''member-id'' '''' in
       checked [(i = '''', ''--member-id is required''), (pb_url_of env active sets = '''', pb_url_required)] w
         (cli_call env name active sets (\<lambda>wire c. saying ''fetch member'' (cli_get_member wire c i))
            (\<lambda>m. if bool_flag sets ''json'' False then MemberJson m else Lines (member_lines m)) w))"

definition run_members_create :: "('b, 'c, 's) cli_env \<Rightarrow> string list \<Rightarrow> 's cli_world \<Rightarrow> cli_result \<times> 's cli_world" where
  "run_members_create env args w =
     with_profile env (pb_flags @ [(''name'', FString), (''email'', FString), (''phone'', FString), (''ou-id'', FString)]) args w
       (\<lambda>name active sets.
       let f = (\<lambda>k. str_flag sets k '''') in
       checked [(f ''name'' = '''', ''--name is required''), (f ''ou-id'' = '''', ''--ou-id is required''),
                (pb_url_of env active sets = '''', pb_url_required)] w
         (cli_call env name active sets
            (\<lambda>wire c. saying ''create member'' (cli_create_member wire c
               \<lparr>cm_name = f ''name'', cm_email = f ''email'', cm_phone_number = f ''phone'', cm_ou_id = f ''ou-id''\<rparr>))
            (\<lambda>m. Lines ([''Created member '' @ named (mr_member_id m) (mr_member_name m), ''OU:          '' @ mr_ou_id m] @
               line_if ''Email:       '' (mr_email m) @ line_if ''Phone:       '' (mr_phone_number m))) w))"

section \<open>Schemas\<close>

definition run_schemas_list :: "('b, 'c, 's) cli_env \<Rightarrow> string list \<Rightarrow> 's cli_world \<Rightarrow> cli_result \<times> 's cli_world" where
  "run_schemas_list env args w =
     with_profile env (pb_flags @ [(''member-id'', FString), (''json'', FBool)]) args w (\<lambda>name active sets.
       checked [(pb_url_of env active sets = '''', pb_url_required)] w
         (let m = str_flag sets ''member-id'' '''' in
          cli_call env name active sets
            (\<lambda>wire c. saying ''list schemas'' (cli_list_schemas wire c (if m \<noteq> '''' then Some m else None)))
            (\<lambda>ss. if bool_flag sets ''json'' False then SchemasJson ss
                   else if ss = [] then Lines [''No schemas found.'']
                   else Lines (map (columns 40 30 40) ((''SCHEMA ID'', ''NAME'', ''MEMBER ID'', ''ENDPOINT'') #
                          map (\<lambda>s. (sr_schema_id s, sr_name s, sr_member_id s, sr_endpoint s)) ss))) w))"

definition schema_lines :: "schema_response \<Rightarrow> metadata_response list \<Rightarrow> string list" where
  "schema_lines s flds =
     [''Schema:      '' @ named (sr_name s) (sr_schema_id s)] @ opt_line ''Description: '' (sr_description s) @
     [''Member ID:   '' @ sr_member_id s, ''Endpoint:    '' @ sr_endpoint s, ''Version:     '' @ sr_version s,
      ''Created:     '' @ sr_created_at s, ''Updated:     '' @ sr_updated_at s, ''Fields:''] @
     (if flds = [] then [''  (none)'']
      else map (\<lambda>f. ''  - '' @ sr_schema_id s @ '':'' @ named (mr_field_name f) (mr_policy_class f)) flds)"

text \<open>Two calls: the schema, then its fields by the id the answer carries.\<close>

definition fetch_schema_details ::
  "('c, 's) pb_wire \<Rightarrow> cli_client \<Rightarrow> string \<Rightarrow> 's \<Rightarrow> (string + schema_response \<times> metadata_response list) \<times> 's" where
  "fetch_schema_details wire c i s =
     (case saying ''fetch schema'' (cli_get_schema wire c i) s of
        (Inl e, s) \<Rightarrow> (Inl e, s)
      | (Inr sch, s) \<Rightarrow>
          (case saying ''fetch schema fields'' (cli_list_metadata wire c (sr_schema_id sch)) s of
             (Inl e, s) \<Rightarrow> (Inl e, s)
           | (Inr flds, s) \<Rightarrow> (Inr (sch, flds), s)))"

definition run_schemas_get :: "('b, 'c, 's) cli_env \<Rightarrow> string list \<Rightarrow> 's cli_world \<Rightarrow> cli_result \<times> 's cli_world" where
  "run_schemas_get env args w =
     with_profile env (pb_flags @ [(''schema-id'', FString), (''json'', FBool)]) args w (\<lambda>name active sets.
       let i = str_flag sets ''schema-id'' '''' in
       checked [(i = '''', ''--schema-id is required''), (pb_url_of env active sets = '''', pb_url_required)] w
         (cli_call env name active sets (\<lambda>wire c. fetch_schema_details wire c i)
            (\<lambda>(s, flds). if bool_flag sets ''json'' False then SchemaJson s flds else Lines (schema_lines s flds)) w))"

definition run_schemas_create :: "('b, 'c, 's) cli_env \<Rightarrow> string list \<Rightarrow> 's cli_world \<Rightarrow> cli_result \<times> 's cli_world" where
  "run_schemas_create env args w =
     with_profile env
       (pb_flags @ [(''schema-id'', FString), (''name'', FString), (''description'', FString), (''endpoint'', FString),
          (''member-id'', FString), (''field'', FList)]) args w
       (\<lambda>name active sets.
       let f = (\<lambda>k. str_flag sets k ''''); fields = flag_values sets ''field'' in
       checked [(f ''name'' = '''', ''--name is required''), (f ''endpoint'' = '''', ''--endpoint is required''),
                (f ''member-id'' = '''', ''--member-id is required''),
                (fields = [], ''at least one --field fieldName:policyClass:source is required''),
                (pb_url_of env active sets = '''', pb_url_required)] w
         (case map_res parse_schema_field fields of
            Inl e \<Rightarrow> (Failed e, w)
          | Inr records \<Rightarrow>
              cli_call env name active sets
                (\<lambda>wire c. saying ''create schema'' (cli_create_schema wire c
                   \<lparr>cs_id = f ''schema-id'', cs_name = f ''name'',
                    cs_description = (if f ''description'' \<noteq> '''' then Some (f ''description'') else None), cs_sdl = '''',
                    cs_fields = records, cs_endpoint = f ''endpoint'', cs_member_id = f ''member-id''\<rparr>))
                (\<lambda>s. Lines ([''Created schema '' @ named (sr_schema_id s) (sr_name s), ''Fields:''] @
                   map (\<lambda>r. ''  - '' @ sr_schema_id s @ '':'' @ named (cr_field_name r) (cr_policy_class r)) records)) w))"

section \<open>Applications and their policy\<close>

definition field_lines :: "field_request list \<Rightarrow> string list" where
  "field_lines fs = map (\<lambda>f. ''  - '' @ fr_schema_id f @ '':'' @ fr_field_name f) fs"

definition run_policy_update :: "('b, 'c, 's) cli_env \<Rightarrow> string list \<Rightarrow> 's cli_world \<Rightarrow> cli_result \<times> 's cli_world" where
  "run_policy_update env args w =
     with_profile env (pb_flags @ [(''app-id'', FString), (''grant-duration'', FString), (''field'', FList)]) args w
       (\<lambda>name active sets.
       let f = (\<lambda>k. str_flag sets k ''''); fields = flag_values sets ''field'' in
       checked [(f ''app-id'' = '''', ''--app-id is required''),
                (fields = [], ''at least one --field schemaId:fieldName is required''),
                (pb_url_of env active sets = '''', pb_url_required)] w
         (case map_res parse_selected_field fields of
            Inl e \<Rightarrow> (Failed e, w)
          | Inr selected \<Rightarrow>
              cli_call env name active sets
                (\<lambda>wire c. saying ''update application policy'' (cli_update_policy wire c (f ''app-id'')
                   \<lparr>up_fields = selected,
                    up_grant_duration = (if f ''grant-duration'' \<noteq> '''' then Some (f ''grant-duration'') else None)\<rparr>))
                (\<lambda>a. Lines ((''Updated policy for application '' @ named (ar_id a) (ar_name a) @ '':'') #
                   map (\<lambda>x. ''  - '' @ fr_field_name x @ '' (schema '' @ fr_schema_id x @ '')'') (ar_fields a))) w))"

definition run_applications_list :: "('b, 'c, 's) cli_env \<Rightarrow> string list \<Rightarrow> 's cli_world \<Rightarrow> cli_result \<times> 's cli_world" where
  "run_applications_list env args w =
     with_profile env (pb_flags @ [(''member-id'', FString), (''json'', FBool)]) args w (\<lambda>name active sets.
       checked [(pb_url_of env active sets = '''', pb_url_required)] w
         (let m = str_flag sets ''member-id'' '''' in
          cli_call env name active sets
            (\<lambda>wire c. saying ''list applications'' (cli_list_applications wire c (if m \<noteq> '''' then Some m else None)))
            (\<lambda>as. if bool_flag sets ''json'' False then ApplicationsJson as
                   else if as = [] then Lines [''No applications found.'']
                   else Lines (map (columns 40 30 40) ((''APPLICATION ID'', ''NAME'', ''MEMBER ID'', ''FIELDS'') #
                          map (\<lambda>a. (ar_id a, ar_name a, ar_member_id a, decimal (length (ar_fields a)))) as))) w))"

definition application_lines :: "application_response \<Rightarrow> string list" where
  "application_lines a =
     [''Application: '' @ named (ar_name a) (ar_id a)] @ opt_line ''Description: '' (ar_description a) @
     [''Member ID:   '' @ ar_member_id a, ''Version:     '' @ ar_version a] @
     (case ar_client_id a of None \<Rightarrow> [] | Some c \<Rightarrow> [''IdP Client:  '' @ c]) @
     [''Created:     '' @ ar_created_at a, ''Updated:     '' @ ar_app_updated_at a, ''Selected fields (current policy):''] @
     (if ar_fields a = [] then [''  (none)''] else field_lines (ar_fields a))"

definition run_applications_get :: "('b, 'c, 's) cli_env \<Rightarrow> string list \<Rightarrow> 's cli_world \<Rightarrow> cli_result \<times> 's cli_world" where
  "run_applications_get env args w =
     with_profile env (pb_flags @ [(''app-id'', FString), (''json'', FBool)]) args w (\<lambda>name active sets.
       let i = str_flag sets ''app-id'' '''' in
       checked [(i = '''', ''--app-id is required''), (pb_url_of env active sets = '''', pb_url_required)] w
         (cli_call env name active sets (\<lambda>wire c. saying ''fetch application'' (cli_get_application wire c i))
            (\<lambda>a. if bool_flag sets ''json'' False then ApplicationJson a else Lines (application_lines a)) w))"

definition run_applications_create :: "('b, 'c, 's) cli_env \<Rightarrow> string list \<Rightarrow> 's cli_world \<Rightarrow> cli_result \<times> 's cli_world" where
  "run_applications_create env args w =
     with_profile env
       (pb_flags @ [(''name'', FString), (''description'', FString), (''member-id'', FString),
          (''idp-application-id'', FString), (''idp-client-id'', FString), (''field'', FList)]) args w
       (\<lambda>name active sets.
       let f = (\<lambda>k. str_flag sets k ''''); fields = flag_values sets ''field'' in
       checked [(f ''name'' = '''', ''--name is required''), (f ''member-id'' = '''', ''--member-id is required''),
                (fields = [], ''at least one --field schemaId:fieldName is required''),
                ((f ''idp-application-id'' = '''') \<noteq> (f ''idp-client-id'' = ''''),
                 ''--idp-application-id and --idp-client-id must both be set, or both omitted''),
                (pb_url_of env active sets = '''', pb_url_required)] w
         (case map_res parse_selected_field fields of
            Inl e \<Rightarrow> (Failed e, w)
          | Inr selected \<Rightarrow>
              cli_call env name active sets
                (\<lambda>wire c. saying ''create application'' (cli_create_application wire c
                   \<lparr>ca_name = f ''name'', ca_description = (if f ''description'' \<noteq> '''' then Some (f ''description'') else None),
                    ca_fields = selected, ca_member_id = f ''member-id'',
                    ca_idp_id = (if f ''idp-application-id'' \<noteq> '''' then Some (f ''idp-application-id'') else None),
                    ca_client_id = (if f ''idp-application-id'' \<noteq> '''' then Some (f ''idp-client-id'') else None)\<rparr>))
                (\<lambda>a. Lines ([''Created application '' @ named (ar_id a) (ar_name a)] @
                   (case ar_client_id a of None \<Rightarrow> [] | Some c \<Rightarrow> [''IdP Client:  '' @ c]) @
                   (case ar_client_secret a of None \<Rightarrow> []
                    | Some c \<Rightarrow> [''IdP Secret:  '' @ c,
                        ''             Shown only once - store it now; it can'' @ [CHR 0x27] @ ''t be retrieved again.'']) @
                   [''Selected fields (current policy):''] @ field_lines (ar_fields a))) w))"

end
