(* ===== verification/Cli_Commands.thy ===== *)
theory Cli_Commands
  imports Cli_Main
begin

text \<open>
  The remaining commands of the command line tool: the profiles, the login and the version
  (\<^verbatim>\<open>cmd/ondx/main.go\<close>, \<^verbatim>\<open>version.go\<close>), and the selection of a command.
\<close>

section \<open>Profiles\<close>

definition with_config ::
  "os_env \<Rightarrow> files \<Rightarrow> (string \<Rightarrow> cli_config \<Rightarrow> cli_result \<times> files) \<Rightarrow> cli_result \<times> files" where
  "with_config os fs k =
     (case default_config_path os of
        Inl e \<Rightarrow> (Failed e, fs)
      | Inr path \<Rightarrow> (case load_config os path fs of Inl e \<Rightarrow> (Failed e, fs) | Inr cfg \<Rightarrow> k path cfg))"

definition run_profile_list :: "os_env \<Rightarrow> files \<Rightarrow> cli_result \<times> files" where
  "run_profile_list os fs =
     with_config os fs (\<lambda>path cfg.
       (Printed (Lines (map (\<lambda>name. (if name = cg_current cfg then ''*'' else '' '') @ '' '' @ name)
          (sort (map fst (cg_profiles cfg))))), fs))"

text \<open>The configuration is written back; \<open>said\<close> is what is printed then.\<close>

definition write_config :: "os_env \<Rightarrow> string \<Rightarrow> cli_config \<Rightarrow> string \<Rightarrow> files \<Rightarrow> cli_result \<times> files" where
  "write_config os path cfg said fs =
     (case save_config os path cfg fs of (Inl e, fs) \<Rightarrow> (Failed e, fs) | (Inr _, fs) \<Rightarrow> (Printed (Lines [said]), fs))"

definition run_profile_use :: "os_env \<Rightarrow> string list \<Rightarrow> files \<Rightarrow> cli_result \<times> files" where
  "run_profile_use os args fs =
     (case args of
        [] \<Rightarrow> (Failed ''expected a profile name (usage: ondx profile use <name>)'', fs)
      | name # _ \<Rightarrow>
          with_config os fs (\<lambda>path cfg.
            (case get_profile cfg name of
               Inl e \<Rightarrow> (Failed e, fs)
             | Inr _ \<Rightarrow> write_config os path (cfg\<lparr>cg_current := name\<rparr>) (''Now using profile '' @ double_quoted name @ ''.'') fs)))"

definition profile_flags :: flag_spec where
  "profile_flags =
     [(''issuer'', FString), (''auth-url'', FString), (''token-url'', FString), (''client-id'', FString), (''scopes'', FString),
      (''callback-port'', FInt), (''resource'', FString), (''pb-url'', FString), (''insecure'', FBool)]"

text \<open>
  \<^verbatim>\<open>fs.Visit\<close> goes through the flags that were set, with their last values; the defaults below are
  never read.
\<close>

definition apply_profile_flags :: "(string \<Rightarrow> int option) \<Rightarrow> flag_sets \<Rightarrow> cli_profile \<Rightarrow> cli_profile" where
  "apply_profile_flags parse_int sets p =
     \<lparr>pf_issuer = str_flag sets ''issuer'' (pf_issuer p), pf_auth_url = str_flag sets ''auth-url'' (pf_auth_url p),
      pf_token_url = str_flag sets ''token-url'' (pf_token_url p), pf_client_id = str_flag sets ''client-id'' (pf_client_id p),
      pf_scopes = str_flag sets ''scopes'' (pf_scopes p),
      pf_callback_port = int_flag parse_int sets ''callback-port'' (pf_callback_port p),
      pf_resource = str_flag sets ''resource'' (pf_resource p), pf_pb_url = str_flag sets ''pb-url'' (pf_pb_url p),
      pf_insecure = bool_flag sets ''insecure'' (pf_insecure p)\<rparr>"

definition run_profile_set :: "(string \<Rightarrow> int option) \<Rightarrow> os_env \<Rightarrow> string list \<Rightarrow> files \<Rightarrow> cli_result \<times> files" where
  "run_profile_set parse_int os args fs =
     (case args of
        [] \<Rightarrow> (Failed ''expected a profile name (usage: ondx profile set <name> [flags])'', fs)
      | name # rest \<Rightarrow>
          if has_prefix name ''-'' then (Failed ''expected a profile name (usage: ondx profile set <name> [flags])'', fs)
          else (case parse_flags parse_int profile_flags rest of
             Inl stop \<Rightarrow> (Exited stop, fs)
           | Inr sets \<Rightarrow>
               with_config os fs (\<lambda>path cfg.
                 let p = (case map_of (cg_profiles cfg) name of None \<Rightarrow> zero_profile | Some p \<Rightarrow> p) in
                 if sets = [] then
                   (Failed ''at least one flag is required to set a value, e.g. --issuer https://idp.example.com'', fs)
                 else write_config os path (put_profile name (apply_profile_flags parse_int sets p) cfg)
                        (''Profile '' @ double_quoted name @ '' saved.'') fs)))"

definition run_profile :: "(string \<Rightarrow> int option) \<Rightarrow> os_env \<Rightarrow> string list \<Rightarrow> files \<Rightarrow> cli_result \<times> files" where
  "run_profile parse_int os args fs =
     (case args of
        [] \<Rightarrow> (Failed (''expected a subcommand: '' @ single_quoted ''list'' @ '', '' @ single_quoted ''use'' @ '', or '' @
                      single_quoted ''set'' @ '' (usage: ondx profile list|use|set [flags])''), fs)
      | sub # rest \<Rightarrow>
          if sub = ''list'' then run_profile_list os fs
          else if sub = ''use'' then run_profile_use os rest fs
          else if sub = ''set'' then run_profile_set parse_int os rest fs
          else (Failed (''unknown profile subcommand '' @ double_quoted sub @ '' (expected '' @ single_quoted ''list'' @ '', '' @
                        single_quoted ''use'' @ '', or '' @ single_quoted ''set'' @ '')''), fs))"

section \<open>Login\<close>

definition login_flags :: flag_spec where
  "login_flags =
     [(''profile'', FString), (''issuer'', FString), (''auth-url'', FString), (''token-url'', FString), (''client-id'', FString),
      (''scopes'', FString), (''no-browser'', FBool), (''credentials-path'', FString), (''callback-port'', FInt),
      (''insecure'', FBool), (''extra'', FPairs)]"

text \<open>
  What a login meets: random bytes, the hash, the listener, the issuer's discovery document, and
  how the wait for the browser ends.
\<close>

record login_env =
  le_sha256 :: "string \<Rightarrow> nat list"
  le_random1 :: "string + nat list"
  le_random2 :: "string + nat list"
  le_listen :: "int \<Rightarrow> string + nat"
  le_discover :: "bool \<Rightarrow> string \<Rightarrow> string + string \<times> string"
  le_outcome :: "login_start_info \<Rightarrow> login_outcome"
  le_show_duration :: "duration \<Rightarrow> string"
  le_ctx_err :: string

text \<open>The flag, else the environment, else the profile.\<close>

definition login_flag :: "os_env \<Rightarrow> flag_sets \<Rightarrow> string \<Rightarrow> string \<Rightarrow> string \<Rightarrow> string" where
  "login_flag os sets name var def = str_flag sets name (first_non_empty [os_getenv os var, def])"

text \<open>The endpoints: discovered from the issuer where they are not given.\<close>

definition login_endpoints ::
  "(string \<Rightarrow> string + string \<times> string) \<Rightarrow> string \<Rightarrow> string \<Rightarrow> string \<Rightarrow> string + string \<times> string" where
  "login_endpoints discover issuer auth_url token_url =
     bind_res
       (if issuer \<noteq> '''' \<and> (auth_url = '''' \<or> token_url = '''')
        then (case discover issuer of
            Inl e \<Rightarrow> Inl (''OIDC discovery failed for issuer '' @ issuer @ '': '' @ e @
                '' (pass --auth-url and --token-url explicitly if this identity provider doesn'' @ [CHR 0x27] @
                ''t support discovery at that path)'')
          | Inr (a, t) \<Rightarrow> Inr (if auth_url = '''' then a else auth_url, if token_url = '''' then t else token_url))
        else Inr (auth_url, token_url))
       (\<lambda>(a, t).
          if a = '''' \<or> t = ''''
          then Inl (''--auth-url and --token-url are required unless --issuer supports OIDC discovery '' @
                    ''(or set NDX_AUTH_URL/NDX_TOKEN_URL/NDX_ISSUER, or configure them in a profile)'')
          else Inr (a, t))"

text \<open>The extra parameters of the flags, and the profile's resource unless they set one.\<close>

definition login_extra :: "flag_sets \<Rightarrow> cli_profile \<Rightarrow> params" where
  "login_extra sets active =
     (let extra = pairs_flag sets ''extra'' in
      if map_of extra ''resource'' = None \<and> pf_resource active \<noteq> '''' then put_pair extra (''resource'', pf_resource active)
      else extra)"

text \<open>The client registered with the local identity provider has one redirect URI.\<close>

definition login_refused :: "string \<Rightarrow> int \<Rightarrow> string option" where
  "login_refused client_id port =
     (if client_id = '''' then Some ''--client-id is required (or set NDX_CLIENT_ID, or configure it in a profile)''
      else if client_id = ThunderIDCLIClientID \<and> port \<noteq> ThunderIDCallbackPort
      then Some (''--callback-port must be 8765 for client '' @ double_quoted ThunderIDCLIClientID @
        '': ThunderID only accepts the exact redirect URI registered for it in thunderid/bootstrap/application.yaml '' @
        ''(http://127.0.0.1:8765/callback)'')
      else None)"

definition run_login ::
  "('b, 'c, 's) cli_env \<Rightarrow> login_env \<Rightarrow> string list \<Rightarrow> 's cli_world \<Rightarrow> cli_result \<times> 's cli_world" where
  "run_login env lg args w =
     with_profile env login_flags args w (\<lambda>name active sets.
       let os = cx_os env;
           client_id = login_flag os sets ''client-id'' ''NDX_CLIENT_ID'' (pf_client_id active);
           port = int_flag (cx_parse_int env) sets ''callback-port'' (pf_callback_port active);
           insecure = bool_flag sets ''insecure'' (pf_insecure active) in
       case login_refused client_id port of
         Some e \<Rightarrow> (Failed e, w)
       | None \<Rightarrow>
           (case login_endpoints (le_discover lg insecure)
                   (login_flag os sets ''issuer'' ''NDX_ISSUER'' (pf_issuer active))
                   (login_flag os sets ''auth-url'' ''NDX_AUTH_URL'' (pf_auth_url active))
                   (login_flag os sets ''token-url'' ''NDX_TOKEN_URL'' (pf_token_url active)) of
              Inl e \<Rightarrow> (Failed e, w)
            | Inr (auth_url, token_url) \<Rightarrow>
                (let path = str_flag sets ''credentials-path'' '''';
                     opts = \<lparr>lo_auth_url = auth_url, lo_token_url = token_url, lo_client_id = client_id,
                       lo_scopes = login_flag os sets ''scopes'' ''NDX_SCOPES'' (pf_scopes active),
                       lo_extra = login_extra sets active, lo_open_browser = \<not> bool_flag sets ''no-browser'' False,
                       lo_timeout = 0, lo_port = port\<rparr> in
                 case (if path = '''' then default_credentials_path os name else Inr path) of
                   Inl e \<Rightarrow> (Failed e, w)
                 | Inr path \<Rightarrow>
                     (case start_login (le_sha256 lg) (cx_parse_url env) (le_listen lg) (le_random1 lg) (le_random2 lg) opts of
                        Inl e \<Rightarrow> (Failed (''login failed: '' @ e), w)
                      | Inr i \<Rightarrow>
                          (case finish_login (cx_parse_url env) (cx_net env insecure) (li_options i) (li_port i) (li_pkce i)
                                  (le_show_duration lg) (le_ctx_err lg) (le_outcome lg i) (snd w) of
                             (Inl e, s) \<Rightarrow> (Failed (''login failed: '' @ e), fst w, s)
                           | (Inr t, s) \<Rightarrow>
                               (case save_token os path t (fst w) of
                                  (Inl e, fs) \<Rightarrow> (Failed (''login succeeded but failed to save credentials: '' @ e), fs, s)
                                | (Inr _, fs) \<Rightarrow>
                                    (Printed (Lines [''Logged in (profile '' @ double_quoted name @ ''). Credentials cached at '' @ path]),
                                     fs, s)))))))"

section \<open>Version\<close>

text \<open>The build's own values win; the settings Go embeds fill in what they leave at its default.\<close>

record go_build =
  gb_main_version :: string
  gb_settings :: "(string \<times> string) list"

definition build_version :: "string \<times> string \<times> string \<Rightarrow> go_build option \<Rightarrow> string \<times> string \<times> string" where
  "build_version linked info =
     (case info of
        None \<Rightarrow> linked
      | Some i \<Rightarrow>
          (case linked of (v, c, d) \<Rightarrow>
             foldl (\<lambda>(v, c, d) (key, val).
                 if key = ''vcs.revision'' then (v, if c = ''none'' then val else c, d)
                 else if key = ''vcs.time'' then (v, c, if d = ''unknown'' then val else d)
                 else (v, c, d))
               (if v = ''dev'' \<and> gb_main_version i \<notin> {'''', ''(devel)''} then gb_main_version i else v, c, d)
               (gb_settings i)))"

definition run_version :: "string \<times> string \<times> string \<Rightarrow> go_build option \<Rightarrow> string \<Rightarrow> string list \<Rightarrow> cli_result" where
  "run_version linked info platform args =
     (case parse_flags (\<lambda>_. None) [] args of
        Inl stop \<Rightarrow> Exited stop
      | Inr _ \<Rightarrow>
          let rest = (if args \<noteq> [] \<and> hd args = ''--'' then tl args else args) in
          if rest \<noteq> [] then Failed (''version: unexpected arguments: ['' @ join_on (CHR '' '') rest @ '']'')
          else (case build_version linked info of (v, c, d) \<Rightarrow>
             Printed (Lines [''ondx '' @ v, ''commit: '' @ c, ''built:  '' @ d, ''go:     '' @ platform])))"

section \<open>The program\<close>

text \<open>A group of commands selects by its first argument.\<close>

definition run_group ::
  "string \<Rightarrow> string \<Rightarrow> (string \<times> (string list \<Rightarrow> 'w \<Rightarrow> cli_result \<times> 'w)) list \<Rightarrow> string \<Rightarrow> string list \<Rightarrow> 'w \<Rightarrow> cli_result \<times> 'w" where
  "run_group grp expected cmds usage args w =
     (case args of
        [] \<Rightarrow> (Failed (''expected a subcommand: '' @ expected @ '' (usage: ondx '' @ grp @ '' '' @ usage @ '' [flags])''), w)
      | sub # rest \<Rightarrow>
          (case map_of cmds sub of
             None \<Rightarrow> (Failed (''unknown '' @ grp @ '' subcommand '' @ double_quoted sub @ '' (expected '' @ expected @ '')''), w)
           | Some run \<Rightarrow> run rest w))"

definition create_get_list :: string where
  "create_get_list = single_quoted ''create'' @ '', '' @ single_quoted ''get'' @ '', or '' @ single_quoted ''list''"

datatype ondx_end = Usage nat | Ended cli_result

definition files_only :: "(files \<Rightarrow> cli_result \<times> files) \<Rightarrow> 's cli_world \<Rightarrow> ondx_end \<times> 's cli_world" where
  "files_only f w = (case f (fst w) of (r, fs) \<Rightarrow> (Ended r, fs, snd w))"

definition run_ondx ::
  "('b, 'c, 's) cli_env \<Rightarrow> login_env \<Rightarrow> string \<times> string \<times> string \<Rightarrow> go_build option \<Rightarrow> string \<Rightarrow> string list \<Rightarrow> 's cli_world \<Rightarrow>
   ondx_end \<times> 's cli_world" where
  "run_ondx env lg linked info platform args w =
     (let ended = (\<lambda>(r, w). (Ended r, w)) in
      case args of
        [] \<Rightarrow> (Usage 1, w)
      | cmd # rest \<Rightarrow>
          if cmd = ''login'' then ended (run_login env lg rest w)
          else if cmd = ''profile'' then files_only (run_profile (cx_parse_int env) (cx_os env) rest) w
          else if cmd = ''policy'' then
            ended (run_group ''policy'' (single_quoted ''update'') [(''update'', run_policy_update env)] ''update'' rest w)
          else if cmd = ''applications'' then
            ended (run_group ''applications'' create_get_list
              [(''create'', run_applications_create env), (''get'', run_applications_get env), (''list'', run_applications_list env)]
              ''create|get|list'' rest w)
          else if cmd = ''members'' then
            ended (run_group ''members'' create_get_list
              [(''create'', run_members_create env), (''get'', run_members_get env), (''list'', run_members_list env)]
              ''create|get|list'' rest w)
          else if cmd = ''schemas'' then
            ended (run_group ''schemas'' create_get_list
              [(''create'', run_schemas_create env), (''get'', run_schemas_get env), (''list'', run_schemas_list env)]
              ''create|get|list'' rest w)
          else if cmd = ''version'' \<or> cmd = ''--version'' then (Ended (run_version linked info platform rest), w)
          else if cmd = ''-h'' \<or> cmd = ''--help'' \<or> cmd = ''help'' then (Usage 0, w)
          else (Usage 1, w))"

text \<open>The exit status.\<close>

fun exit_code :: "ondx_end \<Rightarrow> nat" where
  "exit_code (Usage n) = n"
| "exit_code (Ended (Failed e)) = 1"
| "exit_code (Ended (Exited HelpRequested)) = 0"
| "exit_code (Ended (Exited (BadFlags e))) = 2"
| "exit_code (Ended (Printed out)) = 0"

end
