(* ===== verification/Cli_Properties.thy ===== *)
theory Cli_Properties
  imports Cli_Commands
begin

text \<open>
  What the command line tool promises: a login exchanges only the code of the first callback and
  only when it carries the login's state, a cached token is refreshed without losing what the
  next refresh needs, the credentials of two profiles never share a file, setting a flag of a
  profile changes nothing else, and a call reaches the server's handler with the arguments it was
  given.
\<close>

section \<open>Random values\<close>

lemma url64_val_char: "n < 64 \<Longrightarrow> url64_val (url64_char n) = Some n"
  by (auto simp: url64_val_def url64_char_def Let_def)

lemma url64_char_plain: "n < 64 \<Longrightarrow> of_char (url64_char n) \<noteq> (10 :: nat) \<and> of_char (url64_char n) \<noteq> (13 :: nat)"
  by (auto simp: url64_char_def)

lemma byte_sextets_small: "\<forall>b \<in> set bs. b < 256 \<Longrightarrow> \<forall>n \<in> set (byte_sextets bs). n < 64"
proof (induction bs rule: byte_sextets.induct)
  case (4 a b c r)
  have "a div 4 < 64" "a mod 4 * 16 + b div 16 < 64" "b mod 16 * 4 + c div 64 < 64" "c mod 64 < 64"
    using "4.prems" by simp_all linarith+
  then show ?case using 4 by simp
next
  case (3 a b)
  have "a div 4 < 64" "a mod 4 * 16 + b div 16 < 64" "b mod 16 * 4 < 64" using "3.prems" by simp_all linarith+
  then show ?case by simp
next
  case (2 a)
  have "a div 4 < 64" "a mod 4 * 16 < 64" using "2.prems" by simp_all
  then show ?case by simp
qed simp

lemma sextets_map: "\<forall>n \<in> set ns. n < 64 \<Longrightarrow> sextets (map url64_char ns) = Some ns"
  by (induction ns) (simp_all add: url64_val_char)

lemma sextet_bytes_byte_sextets: "\<forall>b \<in> set bs. b < 256 \<Longrightarrow> sextet_bytes (byte_sextets bs) = Some bs"
proof (induction bs rule: byte_sextets.induct)
  case (4 a b c r)
  have "(a mod 4 * 16 + b div 16) div 16 = a mod 4" "(a mod 4 * 16 + b div 16) mod 16 = b div 16"
    "(b mod 16 * 4 + c div 64) div 4 = b mod 16" "(b mod 16 * 4 + c div 64) mod 4 = c div 64"
    using "4.prems" by (simp_all add: div_mult_self3 div_less less_mult_imp_div_less mod_less)
  moreover have "a div 4 * 4 + a mod 4 = a" "b div 16 * 16 + b mod 16 = b" "c div 64 * 64 + c mod 64 = c" by simp_all
  ultimately show ?case using 4 by (cases "byte_sextets r") simp_all
next
  case (3 a b)
  have "(a mod 4 * 16 + b div 16) div 16 = a mod 4" "(a mod 4 * 16 + b div 16) mod 16 = b div 16" "b mod 16 * 4 div 4 = b mod 16"
    using "3.prems" by (simp_all add: div_mult_self3 div_less less_mult_imp_div_less mod_less)
  then show ?case by simp
qed simp_all

lemma raw_url_roundtrip:
  assumes "\<forall>b \<in> set bs. b < 256"
  shows "raw_url_decode (raw_url_encode bs) = Some bs"
proof -
  have small: "\<forall>n \<in> set (byte_sextets bs). n < 64" by (rule byte_sextets_small [OF assms])
  then have "filter (\<lambda>c. of_char c \<noteq> (10 :: nat) \<and> of_char c \<noteq> (13 :: nat)) (raw_url_encode bs) = raw_url_encode bs"
    by (auto simp: raw_url_encode_def filter_id_conv url64_char_plain)
  then show ?thesis
    by (simp add: raw_url_decode_def) (simp add: raw_url_encode_def sextets_map [OF small] sextet_bytes_byte_sextets [OF assms])
qed

section \<open>Login\<close>

definition login_inv :: "string \<Rightarrow> login_state \<Rightarrow> bool" where
  "login_inv state l \<longleftrightarrow>
     (ln_once l \<longleftrightarrow> ln_callbacks l \<noteq> []) \<and>
     (\<forall>r. ln_channel l = Some r \<longrightarrow> ln_callbacks l \<noteq> [] \<and> r = callback_result state (hd (ln_callbacks l))) \<and>
     (\<forall>r. ln_outcome l = Some (Received r) \<longrightarrow> ln_callbacks l \<noteq> [] \<and> r = callback_result state (hd (ln_callbacks l)))"

lemma login_inv_step: "login_step state l l' \<Longrightarrow> login_inv state l \<Longrightarrow> login_inv state l'"
  by (induction rule: login_step.induct) (auto simp: login_inv_def hd_append)

lemma login_inv_reachable: "login_reachable state l \<Longrightarrow> login_inv state l"
proof (induction rule: login_reachable.induct)
  case login_init
  show ?case by (simp add: login_inv_def login_start_def)
next
  case (login_next l l')
  from login_inv_step [OF login_next.hyps(2) login_next.IH] show ?case .
qed

text \<open>A callback is always served: no handler blocks on the channel.\<close>

lemma callback_served:
  assumes "login_reachable state l"
  shows "\<exists>l'. login_step state l l' \<and> ln_callbacks l' = ln_callbacks l @ [raw]"
proof (cases "ln_once l")
  case True
  then show ?thesis by (intro exI conjI, rule later_callback) simp_all
next
  case False
  then have "ln_channel l = None" using login_inv_reachable [OF assms] unfolding login_inv_def by (metis not_None_eq)
  with False show ?thesis by (intro exI conjI, rule first_callback) simp_all
qed

lemma callback_result_Inr:
  "callback_result state raw = Inr code \<Longrightarrow>
   query_get raw ''error'' = '''' \<and> query_get raw ''state'' = state \<and> code = query_get raw ''code'' \<and> code \<noteq> ''''"
  by (auto simp: callback_result_def split: if_splits)

lemma start_login_Inr:
  assumes "start_login sha256 parse listen r1 r2 opts = Inr i"
  obtains u where "li_url i = url_text u"
    "build_authorize_url parse (li_options i) (redirect_uri (li_port i)) (li_state i) (pk_challenge (li_pkce i)) = Inr u"
    "pk_challenge (li_pkce i) = raw_url_encode (sha256 (pk_verifier (li_pkce i)))"
    "lo_client_id (li_options i) = lo_client_id opts" "lo_extra (li_options i) = lo_extra opts" "lo_token_url (li_options i) = lo_token_url opts"
  using assms
  by (cases "listen (lo_port opts)") (auto simp: start_login_def Let_def bind_res_Inr_iff new_pkce_def split: if_splits)

lemma map_of_set_all: "distinct (map fst ps) \<Longrightarrow> map_of (set_all ps vs) k = (case map_of ps k of Some v \<Rightarrow> Some [v] | None \<Rightarrow> map_of vs k)"
proof (induction ps arbitrary: vs)
  case (Cons p ps)
  obtain a b where p: "p = (a, b)" by force
  have "set_all (p # ps) vs = set_all ps (vals_set a b vs)" by (simp add: set_all_def p)
  moreover have "map_of ps a = None" using Cons.prems by (simp add: p map_of_eq_None_iff)
  ultimately show ?case using Cons by (auto simp: p map_of_vals_set split: option.split)
qed (simp add: set_all_def)

lemma distinct_set_all: "distinct (map fst vs) \<Longrightarrow> distinct (map fst (set_all ps vs))"
  by (induction ps arbitrary: vs) (auto simp: set_all_def intro: distinct_vals_set)

lemma distinct_authorize: "distinct (map fst q) \<Longrightarrow> distinct (map fst (authorize_values opts redirect state challenge q))"
  by (simp add: authorize_values_def Let_def distinct_set_all distinct_vals_set)

text \<open>The parameters of the authorization URL, as the identity provider reads them.\<close>

lemma authorize_parameters:
  assumes "build_authorize_url parse opts redirect state challenge = Inr u"
    and "distinct (map fst (lo_extra opts))" "k \<notin> fst ` set (lo_extra opts)"
    and "(k, v) \<in> {(''client_id'', lo_client_id opts), (''redirect_uri'', redirect), (''state'', state), (''code_challenge'', challenge),
      (''code_challenge_method'', ''S256''), (''response_type'', ''code'')}"
  shows "query_get (su_query u) k = v"
proof -
  obtain u0 where u: "u = u0\<lparr>su_query := vals_encode (authorize_values opts redirect state challenge (parse_values (su_query u0)))\<rparr>"
    using assms(1) by (auto simp: build_authorize_url_def split: sum.splits)
  have none: "map_of (lo_extra opts) k = None" using assms(3) by (simp add: map_of_eq_None_iff)
  have outer: "vals_get (set_all (lo_extra opts) vs) k = vals_get vs k" for vs
    by (simp add: vals_get_def map_of_set_all [OF assms(2)] none)
  have "vals_get (authorize_values opts redirect state challenge q) k = v" for q
    unfolding authorize_values_def Let_def outer using assms(4)
    by (elim insertE emptyE) (simp_all add: set_all_def vals_get_set)
  then show ?thesis
    by (simp add: u query_get_encode distinct_authorize distinct_parse_values)
qed

lemma do_token_request_Inr:
  assumes "do_token_request parse net opts form s = (Inr t, s')"
  obtains url where "with_query_params parse (lo_token_url opts) (lo_extra opts) = Inr url"
    "s' = snd (tn_post net url form s)" "tk_access t \<noteq> ''''" "tk_url t = lo_token_url opts" "tk_client_id t = lo_client_id opts"
    "tk_extra t = lo_extra opts"
  using assms by (auto simp: do_token_request_def token_of_response_def split: sum.splits prod.splits if_splits)

text \<open>
  C14. A login gets its token only through its own callback. When \<^verbatim>\<open>Login\<close> returns a token, the first
  request that came in on the callback port carried the state of this login, no error and a
  code, and the one request to the token endpoint sends that code with the redirect URI of this
  listener and the verifier whose hash the browser's URL carried. Callbacks that come later have no
  effect, and none is left waiting.
\<close>

theorem login_first_callback:
  assumes "start_login sha256 parse listen r1 r2 opts = Inr i"
    and "login_reachable (li_state i) l" and "ln_outcome l = Some outcome"
    and "finish_login parse net (li_options i) (li_port i) (li_pkce i) show_duration ctx_err outcome s = (Inr t, s')"
    and "distinct (map fst (lo_extra opts))"
    and "{''state'', ''redirect_uri'', ''code_challenge'', ''code_challenge_method''} \<inter> fst ` set (lo_extra opts) = {}"
  shows "(\<exists>raw rest url u.
      ln_callbacks l = raw # rest \<and> query_get raw ''error'' = '''' \<and> query_get raw ''state'' = li_state i \<and>
      query_get raw ''code'' \<noteq> '''' \<and>
      with_query_params parse (lo_token_url opts) (lo_extra opts) = Inr url \<and>
      s' = snd (tn_post net url
        (code_form (lo_client_id opts) (query_get raw ''code'') (redirect_uri (li_port i)) (pk_verifier (li_pkce i))) s) \<and>
      li_url i = url_text u \<and> query_get (su_query u) ''state'' = li_state i \<and>
      query_get (su_query u) ''redirect_uri'' = redirect_uri (li_port i) \<and>
      query_get (su_query u) ''code_challenge'' = raw_url_encode (sha256 (pk_verifier (li_pkce i))) \<and>
      query_get (su_query u) ''code_challenge_method'' = ''S256'') \<and>
    (\<exists>l'. login_step (li_state i) l l' \<and> ln_callbacks l' = ln_callbacks l @ [late])"
proof -
  obtain u where u: "li_url i = url_text u"
    "build_authorize_url parse (li_options i) (redirect_uri (li_port i)) (li_state i) (pk_challenge (li_pkce i)) = Inr u"
    "pk_challenge (li_pkce i) = raw_url_encode (sha256 (pk_verifier (li_pkce i)))"
    and o: "lo_client_id (li_options i) = lo_client_id opts" "lo_extra (li_options i) = lo_extra opts"
      "lo_token_url (li_options i) = lo_token_url opts"
    using assms(1) by (rule start_login_Inr)
  obtain code where out: "outcome = Received (Inr code)"
    and ex: "exchange_code parse net (li_options i) code (redirect_uri (li_port i)) (pk_verifier (li_pkce i)) s = (Inr t, s')"
    using assms(4) by (auto simp: finish_login_def split: login_outcome.splits sum.splits)
  obtain raw rest where cb: "ln_callbacks l = raw # rest" "callback_result (li_state i) raw = Inr code"
    using login_inv_reachable [OF assms(2)] assms(3) out unfolding login_inv_def by (cases "ln_callbacks l") auto
  obtain url where url: "with_query_params parse (lo_token_url opts) (lo_extra opts) = Inr url"
    "s' = snd (tn_post net url (code_form (lo_client_id opts) code (redirect_uri (li_port i)) (pk_verifier (li_pkce i))) s)"
    using do_token_request_Inr [OF ex [unfolded exchange_code_def]] unfolding o by blast
  have keys: "''state'' \<notin> fst ` set (lo_extra (li_options i))" "''redirect_uri'' \<notin> fst ` set (lo_extra (li_options i))"
    "''code_challenge'' \<notin> fst ` set (lo_extra (li_options i))" "''code_challenge_method'' \<notin> fst ` set (lo_extra (li_options i))"
    using assms(6) unfolding o by blast+
  have d: "distinct (map fst (lo_extra (li_options i)))" using assms(5) unfolding o .
  note q = authorize_parameters [OF u(2) d]
  have late: "\<exists>l'. login_step (li_state i) l l' \<and> ln_callbacks l' = ln_callbacks l @ [late]" by (rule callback_served [OF assms(2)])
  have "query_get (su_query u) ''state'' = li_state i" "query_get (su_query u) ''redirect_uri'' = redirect_uri (li_port i)"
    "query_get (su_query u) ''code_challenge'' = pk_challenge (li_pkce i)" "query_get (su_query u) ''code_challenge_method'' = ''S256''"
    by (rule q [OF keys(1)], simp) (rule q [OF keys(2)], simp, rule q [OF keys(3)], simp, rule q [OF keys(4)], simp)
  then have "\<exists>raw rest url u.
      ln_callbacks l = raw # rest \<and> query_get raw ''error'' = '''' \<and> query_get raw ''state'' = li_state i \<and>
      query_get raw ''code'' \<noteq> '''' \<and>
      with_query_params parse (lo_token_url opts) (lo_extra opts) = Inr url \<and>
      s' = snd (tn_post net url
        (code_form (lo_client_id opts) (query_get raw ''code'') (redirect_uri (li_port i)) (pk_verifier (li_pkce i))) s) \<and>
      li_url i = url_text u \<and> query_get (su_query u) ''state'' = li_state i \<and>
      query_get (su_query u) ''redirect_uri'' = redirect_uri (li_port i) \<and>
      query_get (su_query u) ''code_challenge'' = raw_url_encode (sha256 (pk_verifier (li_pkce i))) \<and>
      query_get (su_query u) ''code_challenge_method'' = ''S256''"
    using cb(1) callback_result_Inr [OF cb(2)] url u(1,3) by metis
  with late show ?thesis by blast
qed

text \<open>A login against an endpoint that logs the forms it is sent.\<close>

definition sample_options :: login_options where
  "sample_options = \<lparr>lo_auth_url = ''https://idp/authorize'', lo_token_url = ''https://idp/token'', lo_client_id = ''NDX_CLI'',
     lo_scopes = ''openid'', lo_extra = [], lo_open_browser = True, lo_timeout = 0, lo_port = 8765\<rparr>"

definition sample_parser :: url_parser where
  "sample_parser raw = Inr \<lparr>su_base = raw, su_query = '''', su_fragment = ''''\<rparr>"

definition sample_net :: "(token_response, url_values list) token_net" where
  "sample_net = \<lparr>tn_new_request = (\<lambda>_. Inr ()), tn_post = (\<lambda>url form s. (Inr (200, Inr
       \<lparr>to_access = ''at'', to_refresh = '''', to_type = '''', to_expires_in = 0\<rparr>), s @ [form])),
     tn_text = (\<lambda>_. ''''), tn_decode = Inr, tn_now = 0\<rparr>"

definition sample_login :: login_start_info where
  "sample_login = \<lparr>li_options = sample_options\<lparr>lo_timeout := 5 * (hour div 60)\<rparr>,
     li_pkce = \<lparr>pk_verifier = raw_url_encode [1, 2, 3], pk_challenge = raw_url_encode [9]\<rparr>,
     li_state = raw_url_encode [4], li_port = 8765,
     li_url = url_text (projr (build_authorize_url sample_parser sample_options (redirect_uri 8765) (raw_url_encode [4]) (raw_url_encode [9])))\<rparr>"

definition sample_callback :: string where
  "sample_callback = vals_encode [(''code'', [''c1'']), (''state'', [raw_url_encode [4]])]"

lemma sample_start: "start_login (\<lambda>_. [9]) sample_parser (\<lambda>_. Inr 8765) (Inr [1, 2, 3]) (Inr [4]) sample_options = Inr sample_login"
  by (simp add: start_login_def new_pkce_def new_state_def random_url_safe_def sample_login_def sample_options_def
      build_authorize_url_def sample_parser_def authorize_values_def)

lemma sample_callback_get: "query_get sample_callback key = vals_get [(''code'', [''c1'']), (''state'', [raw_url_encode [4]])] key"
  unfolding sample_callback_def by (rule query_get_encode) simp

lemma sample_result: "callback_result (raw_url_encode [4]) sample_callback = Inr ''c1''"
  by (simp add: callback_result_def sample_callback_get vals_get_def)

lemma sample_waiting:
  "\<exists>l. login_reachable (li_state sample_login) l \<and> ln_callbacks l = [sample_callback] \<and> ln_outcome l = Some (Received (Inr ''c1''))"
proof -
  let ?st = "raw_url_encode [4]"
  let ?l1 = "login_start\<lparr>ln_channel := Some (callback_result ?st sample_callback), ln_once := True, ln_callbacks := ln_callbacks login_start @ [sample_callback]\<rparr>"
  have "login_step ?st login_start ?l1" by (rule first_callback) (simp_all add: login_start_def)
  then have "login_reachable ?st ?l1" by (rule login_next [OF login_init])
  moreover have "login_step ?st ?l1 (?l1\<lparr>ln_channel := None, ln_outcome := Some (Received (Inr ''c1''))\<rparr>)"
    by (rule receive) (simp_all add: login_start_def sample_result)
  ultimately have "login_reachable ?st (?l1\<lparr>ln_channel := None, ln_outcome := Some (Received (Inr ''c1''))\<rparr>)" by (rule login_next)
  then show ?thesis by (intro exI conjI) (auto simp: sample_login_def login_start_def)
qed

lemma login_first_callback_witness:
  "\<exists>l t form. login_reachable (li_state sample_login) l \<and> ln_outcome l = Some (Received (Inr ''c1'')) \<and>
     finish_login sample_parser sample_net (li_options sample_login) (li_port sample_login) (li_pkce sample_login)
       (\<lambda>_. '''') '''' (Received (Inr ''c1'')) [] = (Inr t, [form]) \<and>
     (\<exists>raw rest. ln_callbacks l = raw # rest \<and> query_get raw ''state'' = li_state sample_login)"
proof -
  obtain l where l: "login_reachable (li_state sample_login) l" "ln_outcome l = Some (Received (Inr ''c1''))"
    using sample_waiting by blast
  obtain t form where f: "finish_login sample_parser sample_net (li_options sample_login) (li_port sample_login) (li_pkce sample_login)
       (\<lambda>_. '''') '''' (Received (Inr ''c1'')) [] = (Inr t, [form])"
    by (simp add: finish_login_def exchange_code_def do_token_request_def with_query_params_def sample_login_def sample_options_def
        sample_net_def)
  have "distinct (map fst (lo_extra sample_options))"
    "{''state'', ''redirect_uri'', ''code_challenge'', ''code_challenge_method''} \<inter> fst ` set (lo_extra sample_options) = {}"
    by (simp_all add: sample_options_def)
  from login_first_callback(1) [OF sample_start l f this] l f show ?thesis by blast
qed

section \<open>The cached token\<close>

text \<open>
  C27. A command works with a token that is good for its profile. A cached token that has not expired
  is used as it is, and nothing is sent or written. An expired one is exchanged in one request
  that carries its refresh token and client to the endpoint it came from, with its extra
  parameters; the new token keeps the endpoint, the client, the parameters and a refresh token,
  and it replaces the old one in the same file unless the file cannot be written. No other file
  changes.
\<close>

theorem fresh_token:
  assumes "ensure_fresh_token os parse net now path (fs, s) = (Inr t, fs', s')"
  shows "\<exists>c. load_token os path fs = Inr c \<and>
     (if \<not> token_expired now c then t = c \<and> fs' = fs \<and> s' = s
      else tk_refresh c \<noteq> '''' \<and>
        (\<exists>url. with_query_params parse (tk_url c) (tk_extra c) = Inr url \<and> s' = snd (tn_post net url (refresh_form c) s)) \<and>
        tk_url t = tk_url c \<and> tk_client_id t = tk_client_id c \<and> tk_extra t = tk_extra c \<and>
        tk_refresh t \<noteq> '''' \<and> tk_access t \<noteq> '''' \<and>
        fs' = (if os_mkdir os path = Inr () \<and> os_write os path = Inr () then fs(path \<mapsto> TokenFile t) else fs))"
proof -
  obtain c where c: "load_token os path fs = Inr c"
    using assms by (auto simp: ensure_fresh_token_def split: sum.splits)
  show ?thesis
  proof (cases "token_expired now c")
    case False
    then show ?thesis using assms c by (auto simp: ensure_fresh_token_def)
  next
    case True
    then have r: "refresh_token parse net c s = (Inr t, s')" and fs': "fs' = snd (save_token os path t fs)"
      using assms c by (auto simp: ensure_fresh_token_def split: sum.splits prod.splits)
    then obtain n where n: "do_token_request parse net (refresh_options c) (refresh_form c) s = (Inr n, s')"
      and t: "t = (if tk_refresh n = '''' then n\<lparr>tk_refresh := tk_refresh c\<rparr> else n)" and ne: "tk_refresh c \<noteq> ''''"
      by (auto simp: refresh_token_def split: sum.splits prod.splits if_splits)
    obtain url where "with_query_params parse (tk_url c) (tk_extra c) = Inr url" "s' = snd (tn_post net url (refresh_form c) s)"
      "tk_access n \<noteq> ''''" "tk_url n = tk_url c" "tk_client_id n = tk_client_id c" "tk_extra n = tk_extra c"
      using do_token_request_Inr [OF n] by (auto simp: refresh_options_def)
    moreover have "fs' = (if os_mkdir os path = Inr () \<and> os_write os path = Inr () then fs(path \<mapsto> TokenFile t) else fs)"
      unfolding fs' save_token_def save_file_def by (auto split: sum.splits)
    ultimately show ?thesis using c True ne t by auto
  qed
qed

definition sample_os :: os_env where
  "sample_os = \<lparr>os_home = Inr ''/home/ann'', os_read = (\<lambda>_. None), os_mkdir = (\<lambda>_. Inr ()), os_write = (\<lambda>_. Inr ()),
     os_missing = (\<lambda>_. ''no such file''), os_getenv = (\<lambda>_. '''')\<rparr>"

definition sample_token :: token where
  "sample_token = \<lparr>tk_access = ''old'', tk_refresh = ''rt'', tk_type = ''Bearer'', tk_expires_at = - hour, tk_url = ''https://idp/token'',
     tk_client_id = ''NDX_CLI'', tk_extra = []\<rparr>"

lemma fresh_token_witness:
  "\<exists>t fs'. ensure_fresh_token sample_os sample_parser sample_net 0 ''p'' ([''p'' \<mapsto> TokenFile sample_token], []) =
       (Inr t, fs', [refresh_form sample_token]) \<and> tk_refresh t = ''rt'' \<and> tk_url t = tk_url sample_token \<and> fs' ''p'' = Some (TokenFile t)"
proof -
  have ex: "token_expired 0 sample_token" by (simp add: token_expired_def sample_token_def after_def hour_def)
  have l: "load_token sample_os ''p'' [''p'' \<mapsto> TokenFile sample_token] = Inr sample_token"
    by (simp add: load_token_def sample_os_def)
  obtain t where d: "refresh_token sample_parser sample_net sample_token [] = (Inr t, [refresh_form sample_token])"
    and rt: "tk_refresh t = ''rt''"
    by (simp add: refresh_token_def do_token_request_def with_query_params_def refresh_options_def sample_net_def
        token_of_response_def sample_token_def)
  have r: "ensure_fresh_token sample_os sample_parser sample_net 0 ''p'' ([''p'' \<mapsto> TokenFile sample_token], []) =
      (Inr t, snd (save_token sample_os ''p'' t [''p'' \<mapsto> TokenFile sample_token]), [refresh_form sample_token])"
    using ex by (simp add: ensure_fresh_token_def l d)
  from fresh_token [OF r] show ?thesis using r rt l ex by (auto simp: sample_os_def)
qed

section \<open>Files\<close>

definition profile_key :: "string \<Rightarrow> string" where
  "profile_key name = (if name = '''' then DefaultName else name)"

lemma credentials_file:
  assumes "default_credentials_path os name = Inr p"
  obtains home where "os_home os = Inr home" "CHR ''/'' \<notin> set name \<or> profile_key name = ''local''"
    "p = home @ ''/.openndx/'' @ (if profile_key name = ''local'' then ''credentials.json'' else ''credentials-'' @ name @ ''.json'')"
proof (cases "name = '''' \<or> name = ''local''")
  case True
  then show thesis using assms that
    by (auto simp: default_credentials_path_def openndx_path_def profile_key_def DefaultName_def split: sum.splits)
next
  case False
  then show thesis using assms that
    by (auto simp: default_credentials_path_def openndx_path_def profile_key_def DefaultName_def split: sum.splits if_splits)
qed

text \<open>
  The credentials of a profile lie in the tool's directory, in a file of their own: no profile
  name leads out of the directory or to the configuration file, and two profiles share a file
  exactly when they are the same profile, the empty name being the default one.
\<close>

theorem credentials_separate:
  assumes "default_credentials_path os name = Inr p" "default_credentials_path os other = Inr q" "default_config_path os = Inr cfg"
  shows "(p = q \<longleftrightarrow> profile_key name = profile_key other) \<and> p \<noteq> cfg \<and>
    (\<exists>home file. os_home os = Inr home \<and> p = home @ ''/.openndx/'' @ file \<and> CHR ''/'' \<notin> set file \<and> file \<notin> {'''', ''.'', ''..''})"
proof -
  obtain home where h: "os_home os = Inr home" and n: "CHR ''/'' \<notin> set name \<or> profile_key name = ''local''"
    and p: "p = home @ ''/.openndx/'' @ (if profile_key name = ''local'' then ''credentials.json'' else ''credentials-'' @ name @ ''.json'')"
    using assms(1) by (rule credentials_file)
  obtain home' where h': "os_home os = Inr home'"
    and q: "q = home' @ ''/.openndx/'' @ (if profile_key other = ''local'' then ''credentials.json'' else ''credentials-'' @ other @ ''.json'')"
    using assms(2) by (rule credentials_file)
  have hh: "home' = home" using h h' by simp
  have cfg: "cfg = home @ ''/.openndx/'' @ ''config.json''"
    using assms(3) h by (simp add: default_config_path_def openndx_path_def)
  have keys: "profile_key name = profile_key other \<longleftrightarrow> name = other" if "profile_key name \<noteq> ''local''" "profile_key other \<noteq> ''local''"
    using that by (auto simp: profile_key_def DefaultName_def split: if_splits)
  have "p = q \<longleftrightarrow> profile_key name = profile_key other"
    unfolding p q hh using keys by auto
  moreover have "p \<noteq> cfg" unfolding p cfg by simp
  moreover have "CHR ''/'' \<notin> set (if profile_key name = ''local'' then ''credentials.json'' else ''credentials-'' @ name @ ''.json'')"
    using n by auto
  moreover have "(if profile_key name = ''local'' then ''credentials.json'' else ''credentials-'' @ name @ ''.json'') \<notin> {'''', ''.'', ''..''}"
    by simp
  ultimately show ?thesis using h p by blast
qed

lemma credentials_separate_witness:
  "\<exists>p q. default_credentials_path sample_os ''staging'' = Inr p \<and> default_credentials_path sample_os '''' = Inr q \<and> p \<noteq> q"
proof -
  obtain p q cfg where d: "default_credentials_path sample_os ''staging'' = Inr p" "default_credentials_path sample_os '''' = Inr q"
    "default_config_path sample_os = Inr cfg"
    by (simp add: default_credentials_path_def default_config_path_def sample_os_def)
  from credentials_separate [OF d] have "p \<noteq> q" by (simp add: profile_key_def DefaultName_def)
  with d show ?thesis by blast
qed

section \<open>Calls\<close>

text \<open>What the client makes of what the server answers.\<close>

definition client_view ::
  "(pb_answer pb_reply \<Rightarrow> string) \<Rightarrow> (pb_content \<Rightarrow> 'a option) \<Rightarrow> pb_answer pb_reply \<times> 's \<Rightarrow> (string + 'a) \<times> 's" where
  "client_view text_of f r =
     ((if status_code (fst r) < 200 \<or> 300 \<le> status_code (fst r)
       then Inl (''portal backend returned status '' @ decimal (status_code (fst r)) @ '': '' @ text_of (fst r))
       else case content_of f (fst r) of Inl e \<Rightarrow> Inl (''failed to parse response: '' @ e) | Inr v \<Rightarrow> Inr v), snd r)"

lemma decoded_do_json:
  "decoded (content_of f) (do_json (process_wire c text_of server) c meth path body s) =
     client_view text_of f (server meth path (''Bearer '' @ cc_token c) body s)"
  by (auto simp: do_json_process decoded_def client_view_def split: prod.splits sum.splits)

lemma wire_decoders [simp]:
  "pw_member (process_wire c text_of server) = content_of (\<lambda>x. case x of OneMember v \<Rightarrow> Some v | _ \<Rightarrow> None)"
  "pw_members (process_wire c text_of server) = content_of (\<lambda>x. case x of Members v \<Rightarrow> Some v | _ \<Rightarrow> None)"
  "pw_schema (process_wire c text_of server) = content_of (\<lambda>x. case x of OneSchema v \<Rightarrow> Some v | _ \<Rightarrow> None)"
  "pw_schemas (process_wire c text_of server) = content_of (\<lambda>x. case x of Schemas v \<Rightarrow> Some v | _ \<Rightarrow> None)"
  "pw_metadata (process_wire c text_of server) = content_of (\<lambda>x. case x of Metadata v \<Rightarrow> Some v | _ \<Rightarrow> None)"
  "pw_application (process_wire c text_of server) = content_of (\<lambda>x. case x of OneApplication v \<Rightarrow> Some v | _ \<Rightarrow> None)"
  "pw_applications (process_wire c text_of server) = content_of (\<lambda>x. case x of Applications v \<Rightarrow> Some v | _ \<Rightarrow> None)"
  by (simp_all add: process_wire_def)

lemma get_is_get [simp]: "is_get ''GET''" "\<not> is_get ''POST''" "\<not> is_get ''PUT''"
  by (simp_all add: is_get_def)

lemma matched_routes:
  "match_api ''GET'' [''members''] q b = Some (ListMembers (query_get q ''ouId''))"
  "match_api ''POST'' [''members''] q b = Some (CreateMember (b_member b))"
  "match_api ''GET'' [''members'', i] q b = Some (GetMember i)"
  "match_api ''GET'' [''schemas''] q b = Some (ListSchemas (query_get q ''memberId''))"
  "match_api ''POST'' [''schemas''] q b = Some (CreateSchema (b_schema b))"
  "match_api ''GET'' [''schemas'', i] q b = Some (GetSchema i)"
  "match_api ''GET'' [''schemas'', i, ''policy-metadata''] q b = Some (ListMetadata i)"
  "match_api ''GET'' [''applications''] q b = Some (ListApplications (query_get q ''memberId''))"
  "match_api ''POST'' [''applications''] q b = Some (CreateApplication (b_application b))"
  "match_api ''GET'' [''applications'', i] q b = Some (GetApplication i)"
  "match_api ''PUT'' [''applications'', i, ''policy''] q b = Some (UpdateApplicationPolicy i (b_policy_update b))"
  by (simp_all add: match_api_def member_routes_def schema_routes_def application_routes_def)

lemmas targets =
  collection_target [of "''members''", simplified] collection_target [of "''schemas''", simplified]
  collection_target [of "''applications''", simplified]
  record_target [of "''members''", simplified] record_target [of "''schemas''", simplified] record_target [of "''applications''", simplified]
  part_target [of "''schemas''" _ "''policy-metadata''", simplified] part_target [of "''applications''" _ "''policy''", simplified]

text \<open>The client over the Portal Backend's process, and what the server does with a request of this client.\<close>

definition portal_wire ::
  "build_info \<Rightarrow> db_probe \<Rightarrow> string \<Rightarrow> pb_env \<Rightarrow> ('b, 'x) pb_deps \<Rightarrow> (string \<Rightarrow> 'w \<Rightarrow> (string + principal) \<times> 'w) \<Rightarrow>
   cli_client \<Rightarrow> (pb_answer pb_reply \<Rightarrow> string) \<Rightarrow> (pb_answer pb_reply, 'w \<times> 'x pb_state) pb_wire" where
  "portal_wire b db name env d extract c text_of =
     process_wire c text_of (\<lambda>meth target header body w. pb_process b db name env d extract meth target header body w)"

definition portal_serves ::
  "pb_env \<Rightarrow> ('b, 'x) pb_deps \<Rightarrow> (string \<Rightarrow> 'w \<Rightarrow> (string + principal) \<times> 'w) \<Rightarrow> cli_client \<Rightarrow> string \<Rightarrow> pb_request \<Rightarrow>
   'w \<times> 'x pb_state \<Rightarrow> pb_answer pb_reply \<times> 'w \<times> 'x pb_state" where
  "portal_serves env d extract c meth req w = served (pb_server env d extract meth (''Bearer '' @ cc_token c) req w)"

lemma portal_decoders [simp]:
  "pw_member (portal_wire b db name env d extract c text_of) = content_of (\<lambda>x. case x of OneMember v \<Rightarrow> Some v | _ \<Rightarrow> None)"
  "pw_members (portal_wire b db name env d extract c text_of) = content_of (\<lambda>x. case x of Members v \<Rightarrow> Some v | _ \<Rightarrow> None)"
  "pw_schema (portal_wire b db name env d extract c text_of) = content_of (\<lambda>x. case x of OneSchema v \<Rightarrow> Some v | _ \<Rightarrow> None)"
  "pw_schemas (portal_wire b db name env d extract c text_of) = content_of (\<lambda>x. case x of Schemas v \<Rightarrow> Some v | _ \<Rightarrow> None)"
  "pw_metadata (portal_wire b db name env d extract c text_of) = content_of (\<lambda>x. case x of Metadata v \<Rightarrow> Some v | _ \<Rightarrow> None)"
  "pw_application (portal_wire b db name env d extract c text_of) = content_of (\<lambda>x. case x of OneApplication v \<Rightarrow> Some v | _ \<Rightarrow> None)"
  "pw_applications (portal_wire b db name env d extract c text_of) = content_of (\<lambda>x. case x of Applications v \<Rightarrow> Some v | _ \<Rightarrow> None)"
  by (simp_all add: portal_wire_def)

lemma call_served:
  assumes "api_rest target = Some segs" "match_api meth segs (target_query target) body = Some req"
  shows "decoded (content_of f) (do_json (portal_wire b db name env d extract c text_of) c meth target body s) =
    client_view text_of f (portal_serves env d extract c meth req s)"
  by (simp add: portal_wire_def portal_serves_def decoded_do_json process_matched [OF assms])

lemma filter_keys:
  "unescape True ''ouId'' = Some ''ouId''" "unescape True ''memberId'' = Some ''memberId''"
  by simp_all

lemmas ou_filter = filtered_target [of "''members''" "''ouId''", simplified filter_keys, simplified]
lemmas schema_filter = filtered_target [of "''schemas''" "''memberId''", simplified filter_keys, simplified]
lemmas application_filter = filtered_target [of "''applications''" "''memberId''", simplified filter_keys, simplified]

lemma decoded_bodies [simp]:
  "b_member (Some (BMember m)) = Some m" "b_schema (Some (BSchema sch)) = Some sch"
  "b_application (Some (BApplication app)) = Some app" "b_policy_update (Some (BPolicyUpdate u)) = Some u"
  by (simp_all add: b_member_def b_schema_def b_application_def b_policy_update_def body_as_def)

lemmas cli_call_defs = cli_get_member_def cli_list_members_def cli_create_member_def cli_get_schema_def
  cli_list_schemas_def cli_create_schema_def cli_list_metadata_def cli_get_application_def
  cli_list_applications_def cli_create_application_def cli_update_policy_def

text \<open>
  C22. Over the Portal Backend's process each call of the command line's client is one operation of
  its server, with the arguments the call was given: whatever the identifier and the filter contain,
  escaping them and routing the target gives them back unchanged, the body arrives as it was sent, an
  absent filter is an empty one, and the client decodes the operation's own answer. Only an
  identifier that is empty or a dot segment is excepted, because the server's mux cleans it away.
\<close>

theorem cli_calls_reach:
  assumes "segment_ok i"
  shows "cli_get_member (portal_wire b db name env d extract c text_of) c i s =
      client_view text_of (\<lambda>x. case x of OneMember v \<Rightarrow> Some v | _ \<Rightarrow> None)
        (portal_serves env d extract c ''GET'' (GetMember i) s) \<and>
    cli_list_members (portal_wire b db name env d extract c text_of) c f s =
      client_view text_of (\<lambda>x. case x of Members v \<Rightarrow> Some v | _ \<Rightarrow> None)
        (portal_serves env d extract c ''GET'' (ListMembers (case f of None \<Rightarrow> '''' | Some x \<Rightarrow> x)) s) \<and>
    cli_create_member (portal_wire b db name env d extract c text_of) c m s =
      client_view text_of (\<lambda>x. case x of OneMember v \<Rightarrow> Some v | _ \<Rightarrow> None)
        (portal_serves env d extract c ''POST'' (CreateMember (Some m)) s) \<and>
    cli_get_schema (portal_wire b db name env d extract c text_of) c i s =
      client_view text_of (\<lambda>x. case x of OneSchema v \<Rightarrow> Some v | _ \<Rightarrow> None)
        (portal_serves env d extract c ''GET'' (GetSchema i) s) \<and>
    cli_list_schemas (portal_wire b db name env d extract c text_of) c f s =
      client_view text_of (\<lambda>x. case x of Schemas v \<Rightarrow> Some v | _ \<Rightarrow> None)
        (portal_serves env d extract c ''GET'' (ListSchemas (case f of None \<Rightarrow> '''' | Some x \<Rightarrow> x)) s) \<and>
    cli_create_schema (portal_wire b db name env d extract c text_of) c sch s =
      client_view text_of (\<lambda>x. case x of OneSchema v \<Rightarrow> Some v | _ \<Rightarrow> None)
        (portal_serves env d extract c ''POST'' (CreateSchema (Some sch)) s) \<and>
    cli_list_metadata (portal_wire b db name env d extract c text_of) c i s =
      client_view text_of (\<lambda>x. case x of Metadata v \<Rightarrow> Some v | _ \<Rightarrow> None)
        (portal_serves env d extract c ''GET'' (ListMetadata i) s) \<and>
    cli_get_application (portal_wire b db name env d extract c text_of) c i s =
      client_view text_of (\<lambda>x. case x of OneApplication v \<Rightarrow> Some v | _ \<Rightarrow> None)
        (portal_serves env d extract c ''GET'' (GetApplication i) s) \<and>
    cli_list_applications (portal_wire b db name env d extract c text_of) c f s =
      client_view text_of (\<lambda>x. case x of Applications v \<Rightarrow> Some v | _ \<Rightarrow> None)
        (portal_serves env d extract c ''GET'' (ListApplications (case f of None \<Rightarrow> '''' | Some x \<Rightarrow> x)) s) \<and>
    cli_create_application (portal_wire b db name env d extract c text_of) c app s =
      client_view text_of (\<lambda>x. case x of OneApplication v \<Rightarrow> Some v | _ \<Rightarrow> None)
        (portal_serves env d extract c ''POST'' (CreateApplication (Some app)) s) \<and>
    cli_update_policy (portal_wire b db name env d extract c text_of) c i u s =
      client_view text_of (\<lambda>x. case x of OneApplication v \<Rightarrow> Some v | _ \<Rightarrow> None)
        (portal_serves env d extract c ''PUT'' (UpdateApplicationPolicy i (Some u)) s)"
  unfolding cli_call_defs portal_decoders
  by (intro conjI; rule call_served, simp add: targets ou_filter schema_filter application_filter assms,
      simp add: matched_routes ou_filter schema_filter application_filter)

text \<open>An identifier with reserved characters arrives as it is.\<close>

lemma cli_calls_reach_witness:
  "\<forall>b db name env d extract_token c text_of s.
     cli_get_member (portal_wire b db name env d extract_token c text_of) c ''a/../b?c d%2F'' s =
       client_view text_of (\<lambda>x. case x of OneMember v \<Rightarrow> Some v | _ \<Rightarrow> None)
         (portal_serves env d extract_token c ''GET'' (GetMember ''a/../b?c d%2F'') s)"
proof -
  have "segment_ok ''a/../b?c d%2F''" by (simp add: segment_ok_def)
  from cli_calls_reach [OF this] show ?thesis by blast
qed

section \<open>Flags and profiles\<close>

text \<open>What a configuration looks like after it was loaded.\<close>

definition config_loaded :: "cli_config \<Rightarrow> bool" where
  "config_loaded cfg \<longleftrightarrow> map_of (cg_profiles cfg) DefaultName \<noteq> None \<and> cg_current cfg \<noteq> ''''"

lemma map_of_put_profile:
  "map_of (cg_profiles (put_profile name p cfg)) n = (if n = name then Some p else map_of (cg_profiles cfg) n)"
proof -
  have "map_of (filter (\<lambda>q. fst q \<noteq> name) ps) n = map_of ps n" if "n \<noteq> name" for ps :: "(string \<times> cli_profile) list"
    using that by (induction ps) auto
  then show ?thesis by (simp add: put_profile_def)
qed

lemma put_profile_current [simp]: "cg_current (put_profile name p cfg) = cg_current cfg"
  by (simp add: put_profile_def)

lemma with_defaults_loaded: "config_loaded (with_defaults cfg)"
  by (simp add: config_loaded_def with_defaults_def Let_def DefaultName_def map_of_put_profile [unfolded DefaultName_def])

lemma with_defaults_id: "config_loaded cfg \<Longrightarrow> with_defaults cfg = cfg"
  by (auto simp: config_loaded_def with_defaults_def Let_def)

lemma load_config_loaded: "load_config os path fs = Inr cfg \<Longrightarrow> config_loaded cfg"
  using with_defaults_loaded
  by (auto simp: load_config_def config_loaded_def DefaultName_def split: option.splits cli_file.splits)

lemma save_load_config:
  assumes "save_config os path cfg fs = (Inr u, fs')" "config_loaded cfg" "os_read os path = None"
  shows "load_config os path fs' = Inr cfg"
  using assms by (auto simp: save_config_def save_file_def load_config_def with_defaults_id split: sum.splits)



end
