(* ===== verification/Services.thy ===== *)
theory Services
  imports Cli_Flags Authn
begin

text \<open>
  What the four services share at their start: the logger (\<^verbatim>\<open>internal/logging\<close>), the database
  pool (\<^verbatim>\<open>internal/database\<close>), and the load of a configuration file, which each service's
  \<^verbatim>\<open>config.go\<close> writes down in the same way. The YAML reader and the checks of the shared
  configuration library are parameters.
\<close>

section \<open>A start\<close>

text \<open>A service stops because its usage was asked for, is refused, crashes, or starts with a value.\<close>

datatype 'a startup = Stopped | Refused string | Crashed | Started 'a

fun and_then :: "'a startup \<Rightarrow> ('a \<Rightarrow> 'b startup) \<Rightarrow> 'b startup" where
  "and_then Stopped k = Stopped"
| "and_then (Refused e) k = Refused e"
| "and_then Crashed k = Crashed"
| "and_then (Started a) k = k a"

lemma and_then_Started_iff [simp]: "and_then s k = Started b \<longleftrightarrow> (\<exists>a. s = Started a \<and> k a = Started b)"
  by (cases s) auto

text \<open>An error with the words of the caller in front, and a condition that has to hold.\<close>

definition saying_first :: "string \<Rightarrow> string + 'a \<Rightarrow> string + 'a" where
  "saying_first what r = (case r of Inl e \<Rightarrow> Inl (what @ '': '' @ e) | Inr v \<Rightarrow> Inr v)"

definition required :: "bool \<Rightarrow> string \<Rightarrow> string + unit" where
  "required ok e = (if ok then Inr () else Inl e)"

definition of_result :: "string + 'a \<Rightarrow> 'a startup" where
  "of_result r = (case r of Inl e \<Rightarrow> Refused e | Inr v \<Rightarrow> Started v)"

text \<open>A refusal with the words of the caller in front.\<close>

fun reported :: "string \<Rightarrow> 'a startup \<Rightarrow> 'a startup" where
  "reported what (Refused e) = Refused (what @ '': '' @ e)"
| "reported what s = s"

lemma reported_Started [simp]: "reported what s = Started a \<longleftrightarrow> s = Started a"
  by (cases s) auto

text \<open>The first check that fails.\<close>

fun all_checks :: "(string + unit) list \<Rightarrow> string + unit" where
  "all_checks [] = Inr ()"
| "all_checks (c # cs) = bind_res c (\<lambda>_. all_checks cs)"

lemma required_Inr [simp]: "required ok e = Inr u \<longleftrightarrow> ok"
  by (simp add: required_def)

lemma saying_first_Inr [simp]: "saying_first what r = Inr v \<longleftrightarrow> r = Inr v"
  by (simp add: saying_first_def split: sum.splits)

lemma of_result_Started [simp]: "of_result r = Started v \<longleftrightarrow> r = Inr v"
  by (simp add: of_result_def split: sum.splits)

lemma case_Started [simp]: "(case r of Inl e \<Rightarrow> Refused (h e) | Inr v \<Rightarrow> Started (k v)) = Started a \<longleftrightarrow> (\<exists>v. r = Inr v \<and> k v = a)"
  by (cases r) auto

lemma all_checks_Inr [simp]: "all_checks cs = Inr u \<longleftrightarrow> list_all (\<lambda>c. c = Inr ()) cs"
  by (induction cs) (auto simp: bind_res_Inr_iff)

declare all_checks.simps [simp del]

section \<open>Logging\<close>

record logging_config =
  lc_level :: string
  lc_format :: string

datatype log_level = LevelDebug | LevelInfo | LevelWarn | LevelError

record logger =
  lg_level :: log_level
  lg_json :: bool
  lg_attrs :: "(string \<times> string) list"

definition parse_level :: "string \<Rightarrow> string + log_level" where
  "parse_level level =
     (if level = ''debug'' then Inr LevelDebug
      else if level = ''info'' then Inr LevelInfo
      else if level = ''warn'' then Inr LevelWarn
      else if level = ''error'' then Inr LevelError
      else Inl ''logging.level must be debug, info, warn or error'')"

definition default_logging :: logging_config where
  "default_logging = \<lparr>lc_level = ''info'', lc_format = ''json''\<rparr>"

definition validate_logging :: "logging_config \<Rightarrow> string + unit" where
  "validate_logging c =
     bind_res (parse_level (lc_level c)) (\<lambda>_.
       if lc_format c = ''json'' \<or> lc_format c = ''text'' then Inr () else Inl ''logging.format must be json or text'')"

definition new_logger :: "logging_config \<Rightarrow> string \<Rightarrow> string \<Rightarrow> string \<Rightarrow> logger" where
  "new_logger c service environment version =
     \<lparr>lg_level = (case parse_level (lc_level c) of Inl _ \<Rightarrow> LevelInfo | Inr l \<Rightarrow> l),
      lg_json = (lc_format c \<noteq> ''text''),
      lg_attrs = [(''service'', service), (''version'', version)] @
        (if environment \<noteq> '''' then [(''environment'', environment)] else [])\<rparr>"

section \<open>Database\<close>

text \<open>The fields of the library's configuration that are read here; the others are \<open>'o\<close>.\<close>

record pool_config =
  pl_max_open :: int
  pl_max_idle :: int
  pl_max_lifetime :: int

record 'o postgres_config =
  pg_port :: int
  pg_name :: string
  pg_ssl_mode :: string
  pg_pool :: pool_config
  pg_other :: 'o

record 'o db_config =
  db_driver :: string
  db_postgres :: "'o postgres_config option"
  db_idle_timeout :: duration

text \<open>
  The library's pools, over a state \<open>'x\<close>: opening and checking one, its idle timeout, closing it,
  and the GORM handle over it. \<open>dl_postgres\<close> is the name of the driver.
\<close>

record ('o, 'p, 'g, 'x) db_lib =
  dl_postgres :: string
  dl_new :: "'o db_config \<Rightarrow> 'x \<Rightarrow> (string + 'p) \<times> 'x"
  dl_set_idle :: "'p \<Rightarrow> duration \<Rightarrow> 'x \<Rightarrow> 'x"
  dl_close :: "'p \<Rightarrow> 'x \<Rightarrow> 'x"
  dl_gorm :: "'p \<Rightarrow> 'x \<Rightarrow> (string + 'g) \<times> 'x"

definition open_database :: "('o, 'p, 'g, 'x) db_lib \<Rightarrow> 'o db_config \<Rightarrow> 'x \<Rightarrow> (string + 'p) \<times> 'x" where
  "open_database lib cfg x =
     (if db_driver cfg \<noteq> dl_postgres lib then (Inl ''only PostgreSQL connections are supported'', x)
      else if db_idle_timeout cfg \<le> 0 then (Inl ''database idle timeout must be positive'', x)
      else case dl_new lib cfg x of
        (Inl e, x) \<Rightarrow> (Inl (''connect database: '' @ e), x)
      | (Inr p, x) \<Rightarrow> (Inr p, dl_set_idle lib p (db_idle_timeout cfg) x))"

text \<open>\<open>None\<close> is a nil pool.\<close>

definition wrap_gorm :: "('o, 'p, 'g, 'x) db_lib \<Rightarrow> 'p option \<Rightarrow> 'x \<Rightarrow> (string + 'g) \<times> 'x" where
  "wrap_gorm lib pool x =
     (case pool of
        None \<Rightarrow> (Inl ''SQL database is required'', x)
      | Some p \<Rightarrow> (case dl_gorm lib p x of
            (Inl e, x) \<Rightarrow> (Inl (''initialize GORM adapter: '' @ e), x)
          | (Inr g, x) \<Rightarrow> (Inr g, x)))"

definition open_gorm :: "('o, 'p, 'g, 'x) db_lib \<Rightarrow> 'o db_config \<Rightarrow> 'x \<Rightarrow> (string + 'g \<times> 'p) \<times> 'x" where
  "open_gorm lib cfg x =
     (case open_database lib cfg x of
        (Inl e, x) \<Rightarrow> (Inl e, x)
      | (Inr p, x) \<Rightarrow> (case wrap_gorm lib (Some p) x of
            (Inl e, x) \<Rightarrow> (Inl e, dl_close lib p x)
          | (Inr g, x) \<Rightarrow> (Inr (g, p), x)))"

text \<open>
  A failed initialization leaves no pool behind: \<open>opened\<close> reads the open pools off the state, a
  pool the library opens is a new one, and closing it takes it away.
\<close>

lemma open_gorm_pools:
  assumes "\<And>cfg x p x'. dl_new lib cfg x = (Inr p, x') \<Longrightarrow> p \<notin> opened x \<and> opened x' = insert p (opened x)"
    and "\<And>cfg x e x'. dl_new lib cfg x = (Inl e, x') \<Longrightarrow> opened x' = opened x"
    and "\<And>p d x. opened (dl_set_idle lib p d x) = opened x" "\<And>p x. opened (snd (dl_gorm lib p x)) = opened x"
    and "\<And>p x. opened (dl_close lib p x) = opened x - {p}"
  shows "case open_gorm lib cfg x of
      (Inl e, x') \<Rightarrow> opened x' = opened x
    | (Inr (g, p), x') \<Rightarrow> p \<notin> opened x \<and> opened x' = insert p (opened x)"
proof -
  obtain r x1 where n: "dl_new lib cfg x = (r, x1)" by (cases "dl_new lib cfg x") auto
  show ?thesis
  proof (cases r)
    case (Inl e)
    then show ?thesis using assms(2) n by (auto simp: open_gorm_def open_database_def)
  next
    case (Inr p)
    obtain g x2 where w: "dl_gorm lib p (dl_set_idle lib p (db_idle_timeout cfg) x1) = (g, x2)" by fastforce
    have "p \<notin> opened x \<and> opened x1 = insert p (opened x)" using assms(1) n Inr by blast
    moreover have "opened x2 = opened x1" using assms(3,4) w by (metis snd_conv)
    ultimately show ?thesis using n Inr w assms(5)
      by (cases g) (auto simp: open_gorm_def open_database_def wrap_gorm_def)
  qed
qed

section \<open>Loading a configuration\<close>

definition second :: duration where "second = 1000000000"

record server_config =
  sv_port :: int
  sv_timeout :: duration

record cors_config =
  co_origins :: "string list"
  co_methods :: "string list"
  co_headers :: "string list"
  co_credentials :: bool
  co_max_age :: int

text \<open>The library's checks, and the scheme and host of a URL.\<close>

record 'o config_lib =
  kl_tcp_port :: "string \<Rightarrow> int \<Rightarrow> string + unit"
  kl_http_url :: "string \<Rightarrow> string \<Rightarrow> string + unit"
  kl_parse_url :: "string \<Rightarrow> (string \<times> string) option"
  kl_cors :: "cors_config \<Rightarrow> string + unit"
  kl_postgres :: string
  kl_database :: "'o db_config \<Rightarrow> string + unit"

definition config_path_from_env :: "(string \<Rightarrow> string) \<Rightarrow> string" where
  "config_path_from_env getenv = (if getenv ''CONFIG_PATH'' \<noteq> '''' then getenv ''CONFIG_PATH'' else ''config.yaml'')"

text \<open>
  \<^verbatim>\<open>loadConfig\<close>: \<open>load\<close> reads a file on top of the defaults, \<open>adjust\<close> is what the service changes in
  the result before it is validated.
\<close>

definition load_config_file ::
  "(string \<Rightarrow> 'c \<Rightarrow> string + 'c) \<Rightarrow> (string \<Rightarrow> 'c \<Rightarrow> 'c) \<Rightarrow> ('c \<Rightarrow> unit startup) \<Rightarrow> 'c \<Rightarrow> (string \<Rightarrow> string) \<Rightarrow> string list \<Rightarrow>
   'c startup" where
  "load_config_file load adjust validate defaults getenv args =
     (case parse_flags (\<lambda>_. None) [(''config'', FString)] args of
        Inl HelpRequested \<Rightarrow> Stopped
      | Inl (BadFlags e) \<Rightarrow> Refused e
      | Inr sets \<Rightarrow>
          let path = str_flag sets ''config'' (config_path_from_env getenv) in
          (case load path defaults of
             Inl e \<Rightarrow> Refused e
           | Inr cfg \<Rightarrow>
               let cfg = adjust path cfg in
               (case validate cfg of
                  Refused e \<Rightarrow> Refused (''invalid config file '' @ path @ '': '' @ e)
                | Crashed \<Rightarrow> Crashed
                | Stopped \<Rightarrow> Stopped
                | Started _ \<Rightarrow> Started cfg)))"

lemma load_config_file_Started:
  "load_config_file load adjust validate defaults getenv args = Started cfg \<Longrightarrow>
     validate cfg = Started () \<and> (\<exists>path raw. load path defaults = Inr raw \<and> cfg = adjust path raw)"
  by (auto simp: load_config_file_def Let_def split: sum.splits flag_stop.splits startup.splits)

text \<open>The common checks of the server and the database; a missing section of the database is a nil pointer.\<close>

definition port_in_range :: "string \<Rightarrow> int \<Rightarrow> string + unit" where
  "port_in_range key p = required (1 \<le> p \<and> p \<le> 65535) (key @ '' must be between 1 and 65535'')"

definition timeout_positive :: "server_config \<Rightarrow> string + unit" where
  "timeout_positive s = required (sv_timeout s > 0) ''server.timeout must be positive''"

definition check_postgres :: "(string \<Rightarrow> int \<Rightarrow> string + unit) \<Rightarrow> 'o db_config \<Rightarrow> unit startup" where
  "check_postgres port_ok db =
     (case db_postgres db of
        None \<Rightarrow> Crashed
      | Some pg \<Rightarrow>
          let pool = pg_pool pg in
          of_result (all_checks
            [port_ok ''database.postgres.port'' (pg_port pg),
             required (pg_ssl_mode pg \<noteq> '''') ''database.postgres.sslMode is required'',
             required (pl_max_open pool > 0 \<and> pl_max_idle pool > 0 \<and> pl_max_idle pool \<le> pl_max_open pool \<and> pl_max_lifetime pool > 0)
               (''invalid database.postgres.pool: require positive connection limits and lifetime, with '' @
                ''maxIdleConns no greater than maxOpenConns''),
             required (db_idle_timeout db > 0) ''database.idleTimeout must be positive'']))"

definition database_checks :: "'o config_lib \<Rightarrow> 'o db_config \<Rightarrow> (string + unit) list" where
  "database_checks lib db =
     [required (db_driver db = kl_postgres lib) ''database.driver must be postgres'',
      saying_first ''invalid database configuration'' (kl_database lib db)]"

definition default_database :: "string \<Rightarrow> 'o \<Rightarrow> string \<Rightarrow> 'o db_config" where
  "default_database driver other name =
     \<lparr>db_driver = driver,
      db_postgres = Some \<lparr>pg_port = 5432, pg_name = name, pg_ssl_mode = ''require'',
        pg_pool = \<lparr>pl_max_open = 25, pl_max_idle = 5, pl_max_lifetime = 3600\<rparr>, pg_other = other\<rparr>,
      db_idle_timeout = 30 * (hour div 60)\<rparr>"

definition default_cors :: "string list \<Rightarrow> cors_config" where
  "default_cors origins =
     \<lparr>co_origins = origins, co_methods = [''GET'', ''POST'', ''PUT'', ''PATCH'', ''DELETE'', ''HEAD'', ''OPTIONS''],
      co_headers = [''Origin'', ''Content-Type'', ''Accept'', ''Authorization'', ''X-Requested-With'', ''X-CSRF-Token'', ''X-Request-ID''],
      co_credentials = True, co_max_age = 86400\<rparr>"

end
