(* ===== verification/Config.thy ===== *)
theory Config
  imports Services OE_Provider PB_Thunder
begin

text \<open>
  The configuration of each service: its sections, the defaults under a configuration file, and
  what is checked before the service starts (\<^verbatim>\<open>cmd/ce/config.go\<close>, \<^verbatim>\<open>cmd/oe/config.go\<close>,
  \<^verbatim>\<open>cmd/pb/config.go\<close>, \<^verbatim>\<open>cmd/pdp/config.go\<close>).
\<close>

section \<open>Policy Decision Point\<close>

record 'o pdp_config =
  pc_server :: server_config
  pc_environment :: string
  pc_logging :: logging_config
  pc_database :: "'o db_config"

definition pdp_default_config :: "'o config_lib \<Rightarrow> 'o \<Rightarrow> 'o pdp_config" where
  "pdp_default_config lib other =
     \<lparr>pc_server = \<lparr>sv_port = 8082, sv_timeout = 10 * second\<rparr>, pc_environment = '''', pc_logging = default_logging,
      pc_database = default_database (kl_postgres lib) other ''pdp''\<rparr>"

definition pdp_validate :: "'o config_lib \<Rightarrow> 'o pdp_config \<Rightarrow> unit startup" where
  "pdp_validate lib c =
     and_then (of_result (all_checks
       ([port_in_range ''server.port'' (sv_port (pc_server c)), timeout_positive (pc_server c),
         validate_logging (pc_logging c)] @
        database_checks lib (pc_database c))))
     (\<lambda>_. check_postgres port_in_range (pc_database c))"

definition pdp_load_config ::
  "'o config_lib \<Rightarrow> (string \<Rightarrow> 'o pdp_config \<Rightarrow> string + 'o pdp_config) \<Rightarrow> 'o \<Rightarrow> (string \<Rightarrow> string) \<Rightarrow> string list \<Rightarrow>
   'o pdp_config startup" where
  "pdp_load_config lib load other = load_config_file load (\<lambda>_ c. c) (pdp_validate lib) (pdp_default_config lib other)"

section \<open>Consent Engine\<close>

record 'o ce_config =
  ec_server :: server_config
  ec_environment :: string
  ec_logging :: logging_config
  ec_portal_url :: string
  ec_cors :: cors_config
  ec_idp :: authn_config
  ec_subject_claim :: string
  ec_database :: "'o db_config"

definition empty_authn :: authn_config where
  "empty_authn = \<lparr>ac_jwks_url = '''', ac_issuer = '''', ac_audience = '''', ac_insecure = False, ac_claims = optional_claims\<rparr>"

definition ce_default_config :: "'o config_lib \<Rightarrow> 'o \<Rightarrow> 'o ce_config" where
  "ce_default_config lib other =
     \<lparr>ec_server = \<lparr>sv_port = 8081, sv_timeout = 10 * second\<rparr>, ec_environment = '''', ec_logging = default_logging,
      ec_portal_url = '''', ec_cors = default_cors [], ec_idp = empty_authn, ec_subject_claim = ''sub'',
      ec_database = default_database (kl_postgres lib) other ''consent_engine''\<rparr>"

definition portal_origin :: "(string \<Rightarrow> (string \<times> string) option) \<Rightarrow> string \<Rightarrow> string" where
  "portal_origin parse url =
     (case parse url of
        None \<Rightarrow> ''''
      | Some (scheme, host) \<Rightarrow> if scheme = '''' \<or> host = '''' then '''' else scheme @ ''://'' @ host)"

text \<open>The portal's origin is added to the allowed ones.\<close>

definition allow_portal :: "(string \<Rightarrow> (string \<times> string) option) \<Rightarrow> 'o ce_config \<Rightarrow> 'o ce_config" where
  "allow_portal parse c =
     (let origin = portal_origin parse (ec_portal_url c) in
      if origin \<noteq> '''' \<and> origin \<notin> set (co_origins (ec_cors c))
      then c\<lparr>ec_cors := (ec_cors c)\<lparr>co_origins := co_origins (ec_cors c) @ [origin]\<rparr>\<rparr> else c)"

definition ce_validate :: "'o config_lib \<Rightarrow> 'o ce_config \<Rightarrow> unit startup" where
  "ce_validate lib c =
     and_then (of_result (all_checks
       ([port_in_range ''server.port'' (sv_port (ec_server c)), timeout_positive (ec_server c),
         validate_logging (ec_logging c),
         required (portal_origin (kl_parse_url lib) (ec_portal_url c) \<noteq> '''') ''consentPortalURL must include a scheme and host'',
         saying_first ''invalid cors configuration'' (kl_cors lib (ec_cors c)),
         saying_first ''invalid idp configuration'' (validate_authn_config (kl_http_url lib) (ec_idp c)),
         required (ec_subject_claim c \<noteq> '''') ''idp.subjectClaim must not be empty''] @
        database_checks lib (ec_database c))))
     (\<lambda>_. check_postgres port_in_range (ec_database c))"

definition ce_load_config ::
  "'o config_lib \<Rightarrow> (string \<Rightarrow> 'o ce_config \<Rightarrow> string + 'o ce_config) \<Rightarrow> 'o \<Rightarrow> (string \<Rightarrow> string) \<Rightarrow> string list \<Rightarrow>
   'o ce_config startup" where
  "ce_load_config lib load other =
     load_config_file load (\<lambda>_. allow_portal (kl_parse_url lib)) (ce_validate lib) (ce_default_config lib other)"

section \<open>Portal Backend\<close>

record 'o pb_config =
  bc_server :: server_config
  bc_environment :: string
  bc_logging :: logging_config
  bc_cors :: cors_config
  bc_idp :: authn_config
  bc_management :: thunder_config
  bc_pdp_url :: string
  bc_audit_url :: string
  bc_audit_key :: string
  bc_database :: "'o db_config"

definition empty_thunder :: thunder_config where
  "empty_thunder = \<lparr>tg_base_url = '''', tg_client_id = '''', tg_client_secret = '''', tg_scopes = [], tg_resource = '''', tg_role_id = ''''\<rparr>"

definition pb_default_config :: "'o config_lib \<Rightarrow> 'o \<Rightarrow> 'o pb_config" where
  "pb_default_config lib other =
     \<lparr>bc_server = \<lparr>sv_port = 8083, sv_timeout = 15 * second\<rparr>, bc_environment = '''', bc_logging = default_logging,
      bc_cors = default_cors [''http://localhost:5173''], bc_idp = empty_authn, bc_management = empty_thunder,
      bc_pdp_url = '''', bc_audit_url = '''', bc_audit_key = '''',
      bc_database = default_database (kl_postgres lib) other ''portal_backend''\<rparr>"

text \<open>A URL that may be left out.\<close>

definition optional_url :: "'o config_lib \<Rightarrow> string \<Rightarrow> string \<Rightarrow> string + unit" where
  "optional_url lib key url = (if url = '''' then Inr () else kl_http_url lib key url)"

definition pb_validate :: "'o config_lib \<Rightarrow> 'o pb_config \<Rightarrow> unit startup" where
  "pb_validate lib c =
     and_then (of_result (all_checks
       ([kl_tcp_port lib ''server.port'' (sv_port (bc_server c)), timeout_positive (bc_server c),
         validate_logging (bc_logging c),
         saying_first ''invalid cors configuration'' (kl_cors lib (bc_cors c)),
         saying_first ''invalid idp configuration'' (validate_authn_config (kl_http_url lib) (bc_idp c)),
         kl_http_url lib ''idp.management.baseURL'' (tg_base_url (bc_management c)),
         required (tg_client_id (bc_management c) \<noteq> '''') ''idp.management.clientID is required'',
         required (tg_client_secret (bc_management c) \<noteq> '''') ''idp.management.clientSecret is required'',
         kl_http_url lib ''pdp.url'' (bc_pdp_url c), optional_url lib ''audit.url'' (bc_audit_url c)] @
        database_checks lib (bc_database c))))
     (\<lambda>_. check_postgres (kl_tcp_port lib) (bc_database c))"

definition pb_load_config ::
  "'o config_lib \<Rightarrow> (string \<Rightarrow> 'o pb_config \<Rightarrow> string + 'o pb_config) \<Rightarrow> 'o \<Rightarrow> (string \<Rightarrow> string) \<Rightarrow> string list \<Rightarrow>
   'o pb_config startup" where
  "pb_load_config lib load other = load_config_file load (\<lambda>_ c. c) (pb_validate lib) (pb_default_config lib other)"

section \<open>Orchestration Engine\<close>

record 'v oe_config =
  oc_server :: server_config
  oc_environment :: string
  oc_logging :: logging_config
  oc_schema_path :: string
  oc_id_arg :: string
  oc_idp :: authn_config
  oc_pdp_url :: string
  oc_consent_url :: string
  oc_audit_url :: string
  oc_audit_key :: string
  oc_actor_type :: string
  oc_actor_id :: string
  oc_providers :: "'v provider_config list"
  oc_mappings :: "arg_mapping option list"

definition oe_default_config :: "'v oe_config" where
  "oe_default_config =
     \<lparr>oc_server = \<lparr>sv_port = 4000, sv_timeout = 30 * second\<rparr>, oc_environment = '''', oc_logging = default_logging,
      oc_schema_path = ''schema.graphql'', oc_id_arg = '''', oc_idp = empty_authn, oc_pdp_url = '''', oc_consent_url = '''',
      oc_audit_url = '''', oc_audit_key = '''', oc_actor_type = ''SERVICE'', oc_actor_id = ''orchestration-engine'',
      oc_providers = [], oc_mappings = []\<rparr>"

text \<open>
  \<^verbatim>\<open>filepath.Clean\<close>, \<^verbatim>\<open>Dir\<close> and \<^verbatim>\<open>Join\<close>: \<open>clean_step\<close> takes one segment, with the result reversed.
\<close>

definition clean_step :: "bool \<Rightarrow> string list \<Rightarrow> string \<Rightarrow> string list" where
  "clean_step rooted acc s =
     (if s = '''' \<or> s = ''.'' then acc
      else if s = ''..'' then
        (case acc of
           [] \<Rightarrow> if rooted then [] else [''..'']
         | x # r \<Rightarrow> if x = ''..'' then ''..'' # acc else r)
      else s # acc)"

definition clean_path :: "string \<Rightarrow> string" where
  "clean_path p =
     (let rooted = has_prefix p ''/'';
          out = join_on (CHR ''/'') (rev (foldl (clean_step rooted) [] (split_on (CHR ''/'') p))) in
      if rooted then CHR ''/'' # out else if out = '''' then ''.'' else out)"

definition dir_of :: "string \<Rightarrow> string" where
  "dir_of p = clean_path (rev (dropWhile (\<lambda>c. c \<noteq> CHR ''/'') (rev p)))"

definition path_join :: "string \<Rightarrow> string \<Rightarrow> string" where
  "path_join a b = (if a = '''' then (if b = '''' then '''' else clean_path b) else clean_path (if b = '''' then a else a @ ''/'' @ b))"

text \<open>A relative schema path starts at the directory of the configuration file.\<close>

definition resolve_schema :: "string \<Rightarrow> 'v oe_config \<Rightarrow> 'v oe_config" where
  "resolve_schema path c =
     (if oc_schema_path c \<noteq> '''' \<and> \<not> has_prefix (oc_schema_path c) ''/''
      then c\<lparr>oc_schema_path := path_join (dir_of path) (oc_schema_path c)\<rparr> else c)"

definition check_mapping :: "string list \<Rightarrow> nat \<times> arg_mapping option \<Rightarrow> string + unit" where
  "check_mapping ids im =
     (case im of (i, m) \<Rightarrow>
        let key = ''argMappings['' @ decimal i @ '']'' in
        (case m of
           None \<Rightarrow> Inl (key @ '' must set schemaId, targetArgName, sourceArgPath and targetArgPath'')
         | Some m \<Rightarrow>
             if am_schema_id m = '''' \<or> am_target_arg_name m = '''' \<or> am_source_arg_path m = '''' \<or> am_target_arg_path m = ''''
             then Inl (key @ '' must set schemaId, targetArgName, sourceArgPath and targetArgPath'')
             else required (am_schema_id m \<in> set ids)
                    (key @ ''.schemaId '' @ double_quoted (am_schema_id m) @ '' matches no provider id'')))"

definition oe_validate :: "'o config_lib \<Rightarrow> 'v oe_config \<Rightarrow> unit startup" where
  "oe_validate lib c =
     of_result (all_checks
       ([kl_tcp_port lib ''server.port'' (sv_port (oc_server c)), timeout_positive (oc_server c),
         validate_logging (oc_logging c),
         required (oc_schema_path c \<noteq> '''') ''schemaPath must not be empty'',
         required (oc_id_arg c \<noteq> '''') ''foundationalIdArgName is required'',
         saying_first ''invalid idp configuration'' (validate_authn_config (kl_http_url lib) (oc_idp c)),
         optional_url lib ''pdp.url'' (oc_pdp_url c), optional_url lib ''consentEngine.url'' (oc_consent_url c),
         optional_url lib ''audit.url'' (oc_audit_url c),
         required (oc_actor_type c \<noteq> '''' \<and> oc_actor_id c \<noteq> '''') ''audit.actorType and audit.actorId must not be empty''] @
        map (check_mapping (map vc_id (oc_providers c))) (enumerate 0 (oc_mappings c))))"

definition oe_load_config ::
  "'o config_lib \<Rightarrow> (string \<Rightarrow> 'v oe_config \<Rightarrow> string + 'v oe_config) \<Rightarrow> (string \<Rightarrow> string) \<Rightarrow> string list \<Rightarrow>
   'v oe_config startup" where
  "oe_load_config lib load = load_config_file load resolve_schema (oe_validate lib) oe_default_config"

end
