(* ===== verification/OE_Server.thy ===== *)
theory OE_Server
  imports Config OE_Audit
begin

text \<open>
  The Orchestration Engine as a program (\<^verbatim>\<open>cmd/oe/main.go\<close>): its start from a configuration,
  with the collaborators it gives the federator, and its mux, whose query endpoint runs a query
  for the client of a validated token (\<^verbatim>\<open>internal/oe/auth/types.go\<close>).
\<close>

section \<open>The start\<close>

text \<open>
  What the start uses from outside: the schema parser and loader and the file system, the HTTP client
  library of the providers, the parser of types, the channels of the clients of PDP and Consent
  Engine, whether the audit library gives a client, and what an auditor does to the world \<open>'s\<close>. The
  error values are shown as \<open>op_schema_text\<close> and \<open>op_config_text\<close> say.
\<close>

record ('v, 'c, 'p, 'q, 's) oe_parts =
  op_parse_schema :: "string \<Rightarrow> (string \<rightharpoonup> directive_decl) option"
  op_load_schema :: "string list \<Rightarrow> gql_schema option"
  op_read_file :: "string \<Rightarrow> string option"
  op_remote :: "('v, 'c) remote_lib"
  op_plan :: plan_lib
  op_pdp :: "(pdp_request, 'p, pdp_response, 's) http_channel"
  op_consent :: "(oe_consent_request, 'q, oe_consent_response, 's) http_channel"
  op_audit_client :: "string \<Rightarrow> string \<Rightarrow> bool"
  op_auditor :: "auditor \<Rightarrow> audit_event \<Rightarrow> 's \<Rightarrow> 's"
  op_schema_text :: "schema_error \<Rightarrow> string"
  op_config_text :: "config_error \<Rightarrow> string"

text \<open>The collaborators: a check is left out when its service has no URL.\<close>

definition oe_deps ::
  "('v, 'c, 'p, 'q, 's) oe_parts \<Rightarrow> 'v oe_config \<Rightarrow> compiled_schema \<Rightarrow> 'c registry \<Rightarrow> 's deps" where
  "oe_deps parts cfg compiled reg =
     \<lparr>dp_providers = Some (registered_providers (op_remote parts) (Some reg)),
      dp_schemas = Some (\<lambda>_. Inr compiled),
      dp_policy = (if oc_pdp_url cfg \<noteq> '''' then Some (make_pdp_request (op_pdp parts) (oc_pdp_url cfg)) else None),
      dp_consent = (if oc_consent_url cfg \<noteq> '''' then Some (create_consent (op_consent parts) (oc_consent_url cfg)) else None),
      dp_auditor = Some (op_auditor parts
        \<lparr>au_client = op_audit_client parts (oc_audit_url cfg) (oc_audit_key cfg),
         au_actor_type = oc_actor_type cfg, au_actor_id = oc_actor_id cfg\<rparr>)\<rparr>"

definition oe_start ::
  "'o config_lib \<Rightarrow> ('v, 'c, 'p, 'q, 's) oe_parts \<Rightarrow> (string \<Rightarrow> 'v oe_config \<Rightarrow> string + 'v oe_config) \<Rightarrow>
   (string \<Rightarrow> string) \<Rightarrow> string list \<Rightarrow> ('v oe_config \<times> token_extractor \<times> 's federator) startup" where
  "oe_start klib parts load getenv args =
     and_then (reported ''load configuration'' (oe_load_config klib load getenv args)) (\<lambda>cfg.
     and_then (case load_source (op_parse_schema parts) (op_load_schema parts) (op_read_file parts) (oc_schema_path cfg) of
         Inl e \<Rightarrow> Refused (''load the consumer schema (check schemaPath in the config file): '' @ op_schema_text parts e)
       | Inr compiled \<Rightarrow> Started compiled) (\<lambda>compiled.
     and_then (reported ''initialize authentication'' (of_result (new_manager (oc_idp cfg)))) (\<lambda>manager.
     and_then (reported ''invalid provider configuration'' (of_result (new_registry (op_remote parts) (oc_providers cfg)))) (\<lambda>reg.
     (case new_federator (op_plan parts) (oe_deps parts cfg compiled reg)
             \<lparr>oo_id_arg = oc_id_arg cfg, oo_mappings = oc_mappings cfg\<rparr> of
        Inl e \<Rightarrow> Refused (''initialize federator: '' @ op_config_text parts e)
      | Inr f \<Rightarrow> Started (cfg, manager, f))))))"

section \<open>The mux\<close>

text \<open>\<^verbatim>\<open>ConsumerFromContext\<close>: the consumer is the token's client.\<close>

definition consumer_from_context :: "auth_context \<Rightarrow> consumer option" where
  "consumer_from_context ctx =
     (case ctx of
        None \<Rightarrow> None
      | Some p \<Rightarrow>
          Some \<lparr>ca_application_id = principal_client_id (Some p), ca_client_id = principal_client_id (Some p),
                ca_subscriber = principal_subject (Some p)\<rparr>)"

datatype oe_endpoint = QueryEndpoint | OeHealth

definition oe_route :: "string \<Rightarrow> string \<Rightarrow> oe_endpoint option" where
  "oe_route meth target =
     (case path_segments (target_path target) of
        None \<Rightarrow> None
      | Some segs \<Rightarrow>
          if segs = [''public'', ''graphql''] then (if meth = ''POST'' then Some QueryEndpoint else None)
          else if segs = [''health''] then (if is_get meth then Some OeHealth else None)
          else None)"

datatype oe_answer =
    QueryAnswer graphql_response | PlainText string | Unauthenticated string string
  | HealthInfo "(string \<times> string) list" | NoAnswer

text \<open>\<open>body\<close> is the decoded request; \<open>k\<close>, the first part of the state, are the extractor's keys.\<close>

definition query_endpoint ::
  "nat \<Rightarrow> fed_lib \<Rightarrow> 's federator \<Rightarrow> graphql_request option \<Rightarrow> auth_context \<Rightarrow> 's world \<Rightarrow> (nat \<times> oe_answer) \<times> 's world" where
  "query_endpoint fuel lib f body ctx w =
     (case federator_handler (\<lambda>req who w. case federate_query fuel lib f req who w of (r, w) \<Rightarrow> (Inr r, w))
             (consumer_from_context ctx) body w of
        (n, r, w) \<Rightarrow> ((n, case r of Inl e \<Rightarrow> PlainText e | Inr resp \<Rightarrow> QueryAnswer resp), w))"

definition oe_mux ::
  "nat \<Rightarrow> fed_lib \<Rightarrow> 's federator \<Rightarrow> (string \<Rightarrow> 'k \<Rightarrow> (string + principal) \<times> 'k) \<Rightarrow> string \<Rightarrow> string \<Rightarrow> string \<Rightarrow>
   graphql_request option \<Rightarrow> 'k \<times> 's world \<Rightarrow> (nat \<times> oe_answer) \<times> 'k \<times> 's world" where
  "oe_mux fuel lib f extract_token meth target header body w =
     (case oe_route meth target of
        None \<Rightarrow> ((unmatched_status oe_route target, NoAnswer), w)
      | Some OeHealth \<Rightarrow> ((StatusOK, HealthInfo [(''service'', ''orchestration-engine''), (''status'', ''healthy'')]), w)
      | Some QueryEndpoint \<Rightarrow>
          require_auth (Some (\<lambda>h w. case extract_token h (fst w) of (p, k) \<Rightarrow> (p, (k, snd w))))
            (\<lambda>n e m. (n, Unauthenticated e m))
            (\<lambda>ctx w. case query_endpoint fuel lib f body ctx (snd w) of (r, u) \<Rightarrow> (r, (fst w, u)))
            header None w)"

section \<open>What was started, and for whom a query runs\<close>

lemma checked_mappings:
  assumes "list_all (\<lambda>c. c = Inr ()) (map (check_mapping ids) (enumerate k ms))" "m \<in> set ms"
  shows "\<exists>x. m = Some x \<and> am_schema_id x \<in> set ids"
proof -
  obtain i where "(i, m) \<in> set (enumerate k ms)" using assms(2) by (metis in_set_impl_in_set_zip2 enumerate_eq_zip length_upt diff_add_inverse)
  with assms(1) have "check_mapping ids (i, m) = Inr ()" by (auto simp: list_all_iff)
  then show ?thesis by (cases m) (auto simp: check_mapping_def Let_def split: if_splits)
qed

lemma new_federator_Inr:
  "new_federator lib d opts = Inr f \<Longrightarrow>
     dp_providers d = Some (fd_providers f) \<and> dp_schemas d = Some (fd_schemas f) \<and> fd_policy f = dp_policy d \<and>
     fd_consent f = dp_consent d \<and> fd_id_arg f = oo_id_arg opts \<and> fd_id_arg f \<noteq> '''' \<and> fd_mappings f = oo_mappings opts"
  by (auto simp: new_federator_def split: option.splits if_splits sum.splits)

text \<open>
  A request that reaches a provider came to the query endpoint with a token that validates, and the
  query runs for the client of that token.
\<close>

lemma oe_mux_calls:
  assumes run: "oe_mux fuel lib f extract_token meth target header body (k, (s, [])) = (r, k', (s', es))" and es: "es \<noteq> []"
  obtains p request resp where "header \<noteq> ''''" "fst (extract_token header k) = Inr p" "body = Some request"
    "r = (200, QueryAnswer resp)"
    "federate_query fuel lib f request (the (consumer_from_context (Some p))) (s, []) = (resp, (s', es))"
proof -
  have "oe_route meth target = Some QueryEndpoint" using run es by (auto simp: oe_mux_def split: option.splits oe_endpoint.splits)
  with run es that show thesis
    by (auto simp: oe_mux_def require_auth_def authn_middleware_def query_endpoint_def federator_handler_def
        consumer_from_context_def split: if_splits prod.splits sum.splits option.splits)
qed

end
