(* ===== verification/CE_Server.thy ===== *)
theory CE_Server
  imports CE_Handlers Authn Url
begin

text \<open>
  The mux of the Consent Engine (\<^verbatim>\<open>cmd/ce/main.go\<close>): the internal endpoints, which take no token,
  and the portal endpoints behind the token validation and the owner's claim. A request carries
  what its body decodes to as a create request and as a portal action, and whether its context
  ended while the service ran. The Prometheus handler is a parameter; the metrics and CORS
  middlewares around the mux are left out.
\<close>

section \<open>Routes\<close>

record ce_request =
  cr_method :: string
  cr_target :: string
  cr_header :: string  \<comment> \<open>\<^verbatim>\<open>Authorization\<close>\<close>
  cr_create :: "string + create_consent_request"
  cr_action :: "string + string"
  cr_ctx_err :: bool

datatype ce_endpoint =
    InternalGet string string | InternalCreate
  | PortalList "string list" string string | PortalGet string | PortalUpdate string
  | CeHealth | CeMetrics

definition match_ce :: "string \<Rightarrow> string list \<Rightarrow> string \<Rightarrow> ce_endpoint option" where
  "match_ce meth segs q =
     (if segs = [''internal'', ''api'', ''v1'', ''consents''] then
        (if is_get meth then Some (InternalGet (query_get q ''ownerId'') (query_get q ''appId''))
         else if meth = ''POST'' then Some InternalCreate else None)
      else if segs = [''api'', ''v1'', ''consents''] then
        (if is_get meth then Some (PortalList (query_all q ''status'') (query_get q ''limit'') (query_get q ''offset'')) else None)
      else if length segs = 4 \<and> take 3 segs = [''api'', ''v1'', ''consents''] then
        (if is_get meth then Some (PortalGet (segs ! 3)) else if meth = ''PUT'' then Some (PortalUpdate (segs ! 3)) else None)
      else if segs = [''health''] then (if is_get meth then Some CeHealth else None)
      else if segs = [''metrics''] then Some CeMetrics
      else None)"

definition ce_route :: "string \<Rightarrow> string \<Rightarrow> ce_endpoint option" where
  "ce_route meth target =
     (case path_segments (target_path target) of
        None \<Rightarrow> None
      | Some segs \<Rightarrow> match_ce meth segs (target_query target))"

section \<open>The server\<close>

datatype ce_answer =
    ListAnswer list_response | PortalAnswer portal_view | InternalAnswer internal_view
  | TextAnswer "(string \<times> string) list" | MetricsAnswer string

fun answer_with :: "('b \<Rightarrow> ce_answer) \<Rightarrow> 'b ce_reply \<Rightarrow> ce_answer ce_reply" where
  "answer_with f (Success n b) = Success n (f b)"
| "answer_with f (Failure n e) = Failure n e"
| "answer_with f (NoBody n) = NoBody n"

definition answered :: "('b \<Rightarrow> ce_answer) \<Rightarrow> 'b ce_reply \<times> consent_table \<Rightarrow> ce_answer ce_reply \<times> consent_table" where
  "answered f r = (answer_with f (fst r), snd r)"

text \<open>A portal endpoint, for the owner that the middleware found.\<close>

definition portal_endpoint ::
  "ce_env \<Rightarrow> ce_request \<Rightarrow> ce_endpoint \<Rightarrow> string option \<Rightarrow> consent_table \<Rightarrow> ce_answer ce_reply \<times> consent_table" where
  "portal_endpoint env r e owner t =
     (case e of
        PortalList ss l off \<Rightarrow>
          answered ListAnswer (handle_list_consents env (cr_ctx_err r) (cr_method r) owner ss l off t)
      | PortalGet i \<Rightarrow> answered PortalAnswer (handle_get_consent env (cr_ctx_err r) (cr_method r) i owner t)
      | PortalUpdate i \<Rightarrow>
          answered TextAnswer (handle_update_consent env (cr_ctx_err r) (cr_method r) i owner (cr_action r) t)
      | _ \<Rightarrow> (unexpected_error, t))"

text \<open>\<^verbatim>\<open>authenticate\<close>: the token, then the owner's claim. The keys of the extractor are of type \<open>'w\<close>.\<close>

definition ce_authenticate ::
  "(string \<Rightarrow> 'w \<Rightarrow> (string + principal) \<times> 'w) \<Rightarrow> string \<Rightarrow>
   (string option \<Rightarrow> consent_table \<Rightarrow> ce_answer ce_reply \<times> consent_table) \<Rightarrow> string \<Rightarrow> 'w \<times> consent_table \<Rightarrow>
   ce_answer ce_reply \<times> 'w \<times> consent_table" where
  "ce_authenticate extract_token claim next header w =
     require_auth (Some (\<lambda>h w. case extract_token h (fst w) of (p, k) \<Rightarrow> (p, (k, snd w))))
       (\<lambda>n e m. Failure n (e, Literal m))
       (\<lambda>ctx w. case owner_subject claim (claims_string (principal_claims ctx)) (\<lambda>s. next (Some s) (snd w)) (snd w) of
          (r, t) \<Rightarrow> (r, (fst w, t)))
       header None w"

definition ce_mux ::
  "ce_answer ce_reply \<Rightarrow> ce_env \<Rightarrow> (string \<Rightarrow> 'w \<Rightarrow> (string + principal) \<times> 'w) \<Rightarrow> string \<Rightarrow> ce_request \<Rightarrow>
   'w \<times> consent_table \<Rightarrow> ce_answer ce_reply \<times> 'w \<times> consent_table" where
  "ce_mux metrics env extract_token claim r w =
     (case ce_route (cr_method r) (cr_target r) of
        None \<Rightarrow> (NoBody (unmatched_status ce_route (cr_target r)), w)
      | Some CeHealth \<Rightarrow> (answer_with TextAnswer (health_handler ''consent-engine''), w)
      | Some CeMetrics \<Rightarrow> (metrics, w)
      | Some (InternalGet own app) \<Rightarrow>
          (case answered InternalAnswer
                  (handle_internal_get_consent env (cr_ctx_err r) (cr_method r) own app (snd w)) of
             (rep, t) \<Rightarrow> (rep, (fst w, t)))
      | Some InternalCreate \<Rightarrow>
          (case answered InternalAnswer
                  (handle_internal_create_consent env (cr_ctx_err r) (cr_method r) (cr_create r) (snd w)) of
             (rep, t) \<Rightarrow> (rep, (fst w, t)))
      | Some e \<Rightarrow> ce_authenticate extract_token claim (portal_endpoint env r e) (cr_header r) w)"

end
