(* ===== verification/Startup.thy ===== *)
theory Startup
  imports Config CE Policy_Engine
begin

text \<open>
  The start of the services that have a database (\<^verbatim>\<open>run\<close> in \<^verbatim>\<open>cmd/ce/main.go\<close>,
  \<^verbatim>\<open>cmd/pdp/main.go\<close> and \<^verbatim>\<open>main\<close> in \<^verbatim>\<open>cmd/pb/main.go\<close>), up to the server that listens: what is
  built from the configuration, in which order, and what is released when a step fails.
\<close>

text \<open>The next step of a start, over the state of the outside.\<close>

fun continue :: "'a startup \<Rightarrow> ('a \<Rightarrow> 'x \<Rightarrow> 'b startup \<times> 'x) \<Rightarrow> 'x \<Rightarrow> 'b startup \<times> 'x" where
  "continue (Started a) k x = k a x"
| "continue Stopped k x = (Stopped, x)"
| "continue (Refused e) k x = (Refused e, x)"
| "continue Crashed k x = (Crashed, x)"

text \<open>A pool that is closed again when the rest of the start fails.\<close>

definition with_pool ::
  "('o, 'p, 'g, 'x) db_lib \<Rightarrow> string \<Rightarrow> 'o db_config \<Rightarrow> ('g \<Rightarrow> 'p \<Rightarrow> 'b startup) \<Rightarrow> 'x \<Rightarrow> 'b startup \<times> 'x" where
  "with_pool lib what db k x =
     (case open_gorm lib db x of
        (Inl e, x) \<Rightarrow> (Refused (what @ '': '' @ e), x)
      | (Inr (g, p), x) \<Rightarrow> (case k g p of Started b \<Rightarrow> (Started b, x) | r \<Rightarrow> (r, dl_close lib p x)))"

definition ce_start ::
  "'o config_lib \<Rightarrow> ('o, 'p, 'g, 'x) db_lib \<Rightarrow> (string \<Rightarrow> 'o ce_config \<Rightarrow> string + 'o ce_config) \<Rightarrow> 'o \<Rightarrow> (string \<Rightarrow> string) \<Rightarrow>
   string list \<Rightarrow> 'x \<Rightarrow> ('o ce_config \<times> 'g \<times> 'p \<times> string \<times> token_extractor) startup \<times> 'x" where
  "ce_start klib dlib load other getenv args =
     continue (reported ''load configuration'' (ce_load_config klib load other getenv args)) (\<lambda>cfg.
       with_pool dlib ''initialize database'' (ec_database cfg) (\<lambda>g p.
         and_then (case new_consent_service (kl_parse_url klib) (ec_portal_url cfg) of
             Inl e \<Rightarrow> Refused (''initialize consent service: '' @ err_msg e)
           | Inr base \<Rightarrow> Started base) (\<lambda>base.
         and_then (reported ''initialize authentication'' (of_result (new_manager (ec_idp cfg)))) (\<lambda>m.
           Started (cfg, g, p, base, m)))))"

text \<open>\<open>engine\<close> is the result of \<^verbatim>\<open>engine.New\<close>, and \<open>show_error\<close> the text of its error.\<close>

definition pdp_start ::
  "'o config_lib \<Rightarrow> ('o, 'p, 'g, 'x) db_lib \<Rightarrow> (string \<Rightarrow> 'o pdp_config \<Rightarrow> string + 'o pdp_config) \<Rightarrow> 'o \<Rightarrow>
   load_error + policy_engine \<Rightarrow> (load_error \<Rightarrow> string) \<Rightarrow> (string \<Rightarrow> string) \<Rightarrow> string list \<Rightarrow> 'x \<Rightarrow>
   ('o pdp_config \<times> 'g \<times> 'p \<times> policy_engine) startup \<times> 'x" where
  "pdp_start klib dlib load other engine show_error getenv args =
     continue (reported ''load configuration'' (pdp_load_config klib load other getenv args)) (\<lambda>cfg.
       with_pool dlib ''initialize database'' (pc_database cfg) (\<lambda>g p.
         case engine of
           Inl e \<Rightarrow> Refused (''initialize policy engine: '' @ show_error e)
         | Inr e \<Rightarrow> Started (cfg, g, p, e)))"

text \<open>
  The Portal Backend builds its clients between the database and the token validation; when that
  fails it exits without closing the pool. \<open>transport\<close> is the HTTP client under the identity
  provider's client, and \<open>authz\<close> what the authorization library's \<^verbatim>\<open>New\<close> returns. The text of a refusal is
  the message that is logged, with its error.
\<close>

definition pb_start ::
  "'o config_lib \<Rightarrow> ('o, 'p, 'g, 'x) db_lib \<Rightarrow> (string \<Rightarrow> 'o pb_config \<Rightarrow> string + 'o pb_config) \<Rightarrow> 'o \<Rightarrow>
   ('b, 'y) thunder_client \<Rightarrow> string + unit \<Rightarrow> (string \<Rightarrow> string) \<Rightarrow> string list \<Rightarrow> 'x \<Rightarrow>
   ('o pb_config \<times> 'g \<times> 'p \<times> ('b, 'y) thunder_client \<times> token_extractor) startup \<times> 'x" where
  "pb_start klib dlib load other transport authz getenv args =
     continue (reported ''Failed to load configuration'' (pb_load_config klib load other getenv args)) (\<lambda>cfg x.
       case open_gorm dlib (bc_database cfg) x of
         (Inl e, x) \<Rightarrow> (Refused (''Failed to connect to database: '' @ e), x)
       | (Inr (g, p), x) \<Rightarrow>
           (and_then (reported ''Failed to initialize authentication'' (of_result (new_manager (bc_idp cfg)))) (\<lambda>m.
            and_then (reported ''Failed to initialize authorization'' (of_result authz)) (\<lambda>_.
              Started (cfg, g, p, new_thunder_client (bc_management cfg) transport, m))), x))"

lemma continue_Started:
  "s = Started a \<Longrightarrow> continue (reported what s) k x = k a x"
  by simp

text \<open>What an accepted configuration of a database is.\<close>

lemma check_postgres_Started:
  "check_postgres port_ok db = Started () \<Longrightarrow> db_postgres db \<noteq> None \<and> db_idle_timeout db > 0"
  by (auto simp: check_postgres_def Let_def split: option.splits)

lemma portal_origin_nonempty:
  "portal_origin parse url \<noteq> '''' \<Longrightarrow> parse '''' = None \<or> fst (the (parse '''')) = '''' \<Longrightarrow> new_consent_service parse url = Inr url"
  by (auto simp: portal_origin_def new_consent_service_def Let_def split: option.splits if_splits)

lemma new_manager_Inr:
  assumes "trim_space (ac_jwks_url c) \<noteq> ''''" "trim_space (ac_issuer c) \<noteq> ''''" "trim_space (ac_audience c) \<noteq> ''''"
  shows "new_manager c = Inr \<lparr>te_jwks_url = trim_space (ac_jwks_url c), te_issuer = trim_space (ac_issuer c),
    te_audience = trim_space (ac_audience c), te_claims = ac_claims c, te_ttl = defaultJWKSCacheTTL\<rparr>"
  using assms by (simp add: new_manager_def new_extractor_def build_options_def with_claims_def validate_extractor_def Let_def)

lemma allow_portal_origin:
  assumes "portal_origin parse (ec_portal_url (allow_portal parse c)) \<noteq> ''''"
  shows "portal_origin parse (ec_portal_url (allow_portal parse c)) \<in> set (co_origins (ec_cors (allow_portal parse c)))"
  using assms by (auto simp: allow_portal_def Let_def)

end
