(* ===== verification/Services_Properties.thy ===== *)
theory Services_Properties
  imports System OE_Server CE_Server Startup
begin

text \<open>
  What the services promise as programs: a provider is called only for the client of a validated
  token and only with its grants, an engine that has started has a provider for everything its
  configuration names, and a Consent Engine that accepts its configuration can be started with it.
\<close>

section \<open>The query endpoint\<close>

text \<open>
  C1. The whole exchange protects data, from the HTTP request to the tables of PDP and Consent
  Engine: when a request to the Orchestration Engine makes it call a provider, the request carried a
  token that validated, every field of the plan is granted to the client of that token by an
  unexpired entry of the Policy Decision Point's table, and every such field of the consent class is
  covered by an approved, unexpired consent of the query's data owner to that client in the Consent
  Engine's table.
\<close>

theorem endpoint_call_protected:
  fixes pdp_down penv ce_down cenv ctx_err provs schema id_arg mappings types
  defines "f \<equiv> system_federator pdp_down penv ce_down cenv ctx_err provs schema id_arg mappings types"
  assumes "oe_mux fuel lib f extract_token meth target header body (k, (s, [])) = (r, k', (s', es))"
    and "CalledProvider sid q \<in> set es"
    and "body = Some request" "prepare fuel lib f s request = Inr (op, owner_id, p)"
    and "table_ok pm_clash (sy_pdp s)" "schema_ids_ok (sy_pdp s)"
    and "list_all (\<lambda>field. colon_free (orf_schema_id field)) (required_fields p)"
    and "field \<in> set (required_fields p)"
  shows "\<exists>t. header \<noteq> '''' \<and> fst (extract_token header k) = Inr t \<and>
    pdp_grants penv s (principal_client_id (Some t)) field \<and>
    (pdp_owner_controlled s field \<longrightarrow>
      (\<exists>flds. ce_approved cenv s' (principal_client_id (Some t)) owner_id flds \<and> field \<in> ocf_name ` set flds))"
proof -
  have "es \<noteq> []" using assms(3) by auto
  with assms(2) obtain t request' resp where t: "header \<noteq> ''''" "fst (extract_token header k) = Inr t" "body = Some request'"
    and run: "federate_query fuel lib f request' (the (consumer_from_context (Some t))) (s, []) = (resp, (s', es))"
    by (rule oe_mux_calls)
  have "pdp_grants penv s (principal_client_id (Some t)) field \<and> (pdp_owner_controlled s field \<longrightarrow>
      (\<exists>flds. ce_approved cenv s' (principal_client_id (Some t)) owner_id flds \<and> field \<in> ocf_name ` set flds))"
    using query_protected [OF run [unfolded f_def] assms(3)] assms(4-9) t(3) by (simp add: f_def consumer_from_context_def)
  with t show ?thesis by blast
qed

definition sample_bearer :: "string \<Rightarrow> unit \<Rightarrow> (string + principal) \<times> unit" where
  "sample_bearer header k =
     (Inr \<lparr>pr_claims = no_claims\<lparr>cm_values := [''client_id'' \<mapsto> JStr ''app'', ''sub'' \<mapsto> JStr ''u'']\<rparr>\<rparr>, k)"

definition sample_endpoint_run :: "(nat \<times> oe_answer) \<times> unit \<times> system world" where
  "sample_endpoint_run = oe_mux 1 ex_fed_lib sample_system_federator sample_bearer ''POST'' ''/public/graphql'' ''Bearer t''
     (Some ex_request) ((), (sample_system, []))"

lemma sample_endpoint_runs:
  "sample_endpoint_run = ((200, QueryAnswer (fst sample_system_run)), (), snd sample_system_run)"
proof -
  have route: "oe_route ''POST'' ''/public/graphql'' = Some QueryEndpoint" by code_simp
  have "consumer_from_context (Some \<lparr>pr_claims = no_claims\<lparr>cm_values := [''client_id'' \<mapsto> JStr ''app'', ''sub'' \<mapsto> JStr ''u'']\<rparr>\<rparr>) =
      Some ex_consumer"
    by (simp add: consumer_from_context_def ex_consumer_def principal_client_id_def principal_subject_def
        principal_claims_def claims_string_def)
  then show ?thesis
    by (simp add: sample_endpoint_run_def oe_mux_def route require_auth_def authn_middleware_def sample_bearer_def
        query_endpoint_def federator_handler_def sample_system_run_def split: prod.splits)
qed

lemma endpoint_call_protected_witness:
  "\<exists>flds. ce_approved (sample_ce_env 5) (fst (snd sample_system_run)) ''app'' ''1'' flds \<and>
     \<lparr>orf_field_name = ''person.name'', orf_schema_id = ''s1''\<rparr> \<in> ocf_name ` set flds"
proof -
  let ?field = "\<lparr>orf_field_name = ''person.name'', orf_schema_id = ''s1''\<rparr>"
  obtain e where "e \<in> set (snd (snd sample_system_run))" "is_call e" using sample_system_calls by (auto simp: list_ex_iff)
  moreover from this(2) obtain sid r where "e = CalledProvider sid r" by (cases e) simp_all
  ultimately have call: "CalledProvider sid r \<in> set (snd (snd sample_system_run))" by simp
  have run: "oe_mux 1 ex_fed_lib sample_system_federator sample_bearer ''POST'' ''/public/graphql'' ''Bearer t''
      (Some ex_request) ((), (sample_system, [])) =
      ((200, QueryAnswer (fst sample_system_run)), (), (fst (snd sample_system_run), snd (snd sample_system_run)))"
    using sample_endpoint_runs by (simp add: sample_endpoint_run_def)
  obtain op p where prep: "prepare 1 ex_fed_lib sample_system_federator sample_system ex_request = Inr (op, ''1'', p)"
    and req: "required_fields p = [?field]" by (rule sample_system_plan)
  have "pdp_owner_controlled sample_system ?field" "table_ok pm_clash (sy_pdp sample_system)" "schema_ids_ok (sy_pdp sample_system)"
    by (rule sample_system_ok)+
  then show ?thesis
    using endpoint_call_protected [OF run [unfolded sample_system_federator_def] call refl prep [unfolded sample_system_federator_def], of ?field]
    by (simp add: req colon_free_def sample_bearer_def principal_client_id_def principal_claims_def claims_string_def)
qed

section \<open>Starts\<close>

definition sample_klib :: "unit config_lib" where
  "sample_klib = \<lparr>kl_tcp_port = \<lambda>_ _. Inr (), kl_http_url = \<lambda>_ _. Inr (),
     kl_parse_url = (\<lambda>u. Some (if u = '''' then ('''', '''') else (''https'', ''p''))), kl_cors = \<lambda>_. Inr (),
     kl_postgres = ''pg'', kl_database = \<lambda>_. Inr ()\<rparr>"

definition sample_idp :: authn_config where
  "sample_idp = \<lparr>ac_jwks_url = ''j'', ac_issuer = ''i'', ac_audience = ''a'', ac_insecure = False, ac_claims = optional_claims\<rparr>"

text \<open>An engine with one provider, an argument mapped to it, and the two services.\<close>

definition sample_oe_config :: "unit oe_config" where
  "sample_oe_config = oe_default_config
     \<lparr>oc_schema_path := ''/s'', oc_id_arg := ''nic'', oc_idp := sample_idp, oc_pdp_url := ''u'', oc_consent_url := ''c'',
      oc_providers := [\<lparr>vc_id = ''drp'', vc_url = ''u'', vc_timeout = '''', vc_auth = None, vc_other = ()\<rparr>],
      oc_mappings := [Some \<lparr>am_target_arg_name = ''nic'', am_schema_id = ''drp'', am_source_arg_path = ''p-nic'',
        am_target_arg_path = ''p'', am_target_arg_type = ''''\<rparr>]\<rparr>"

definition sample_parts :: "(unit, unit, unit, unit, unit) oe_parts" where
  "sample_parts = \<lparr>op_parse_schema = \<lambda>_. Some Map.empty,
     op_load_schema = (\<lambda>_. Some \<lparr>gs_query = None, gs_types = [], gs_possible = \<lambda>_. []\<rparr>), op_read_file = \<lambda>_. Some '''',
     op_remote = \<lparr>rm_http_url = \<lambda>_ _. Inr (), rm_parse_duration = \<lambda>_. Inr 10, rm_client = \<lambda>_. Inr (), rm_request = \<lambda>_ _ _ _. Inl ''refused''\<rparr>,
     op_plan = \<lparr>pl_parse_variables = \<lambda>_. None, pl_marshal = \<lambda>_. Inl '''', pl_format = \<lambda>_. ''''\<rparr>,
     op_pdp = \<lparr>hc_marshal = \<lambda>_. Inl '''', hc_new_request = \<lambda>_. Inr (), hc_do = \<lambda>_ _ s. (Inl '''', s)\<rparr>,
     op_consent = \<lparr>hc_marshal = \<lambda>_. Inl '''', hc_new_request = \<lambda>_. Inr (), hc_do = \<lambda>_ _ s. (Inl '''', s)\<rparr>,
     op_audit_client = \<lambda>_ _. False, op_auditor = \<lambda>_ _ s. s, op_schema_text = \<lambda>_. '''', op_config_text = \<lambda>_. ''''\<rparr>"

lemma sample_validated [simp]: "validate_authn_config (\<lambda>_ _. Inr ()) sample_idp = Inr ()"
  by (simp add: validate_authn_config_def sample_idp_def)

lemma sample_new_manager: "\<exists>m. new_manager sample_idp = Inr m"
  by (rule exI, rule new_manager_Inr; code_simp)

lemma sample_oe_valid: "oe_validate sample_klib sample_oe_config = Started ()"
  by (simp add: oe_validate_def sample_oe_config_def sample_klib_def oe_default_config_def port_in_range_def timeout_positive_def
      validate_logging_def parse_level_def default_logging_def optional_url_def check_mapping_def second_def)

lemma sample_oe_loads:
  "oe_load_config sample_klib (\<lambda>_ _. Inr sample_oe_config) (\<lambda>_. '''') [] = Started sample_oe_config"
proof -
  have "resolve_schema path sample_oe_config = sample_oe_config" for path
    by (simp add: resolve_schema_def sample_oe_config_def has_prefix_def)
  then show ?thesis by (simp add: oe_load_config_def load_config_file_def sample_oe_valid)
qed

lemma sample_engine_starts:
  obtains m f where "oe_start sample_klib sample_parts (\<lambda>_ _. Inr sample_oe_config) (\<lambda>_. '''') [] = Started (sample_oe_config, m, f)"
proof -
  have src: "load_source (op_parse_schema sample_parts) (op_load_schema sample_parts) (op_read_file sample_parts) p =
      Inr \<lparr>cs_schema = \<lparr>gs_query = None, gs_types = [], gs_possible = \<lambda>_. []\<rparr>, cs_source_info = Map.empty\<rparr>" for p
    by (simp add: load_source_def compile_schema_def index_source_info_def sample_parts_def)
  have reg: "\<exists>reg. new_registry (op_remote sample_parts) (oc_providers sample_oe_config) = Inr reg"
    by (simp add: new_registry_def register_provider_def check_timeout_def sample_oe_config_def sample_parts_def DefaultTimeout_def)
  have types: "target_arg_types lib (oc_mappings sample_oe_config) = Inr Map.empty" for lib
    by (simp add: target_arg_types_def sample_oe_config_def)
  have fed: "\<exists>f. new_federator (op_plan sample_parts) (oe_deps sample_parts sample_oe_config c r)
      \<lparr>oo_id_arg = oc_id_arg sample_oe_config, oo_mappings = oc_mappings sample_oe_config\<rparr> = Inr f" for c r
    using types by (simp add: new_federator_def oe_deps_def) (simp add: sample_oe_config_def)
  have idp: "oc_idp sample_oe_config = sample_idp" by (simp add: sample_oe_config_def)
  obtain m where m: "new_manager (oc_idp sample_oe_config) = Inr m" using sample_new_manager idp by auto
  obtain reg where reg: "new_registry (op_remote sample_parts) (oc_providers sample_oe_config) = Inr reg" using reg by blast
  obtain f where "new_federator (op_plan sample_parts) (oe_deps sample_parts sample_oe_config
      \<lparr>cs_schema = \<lparr>gs_query = None, gs_types = [], gs_possible = \<lambda>_. []\<rparr>, cs_source_info = Map.empty\<rparr> reg)
      \<lparr>oo_id_arg = oc_id_arg sample_oe_config, oo_mappings = oc_mappings sample_oe_config\<rparr> = Inr f" using fed by blast
  with m reg show thesis using that by (simp add: oe_start_def sample_oe_loads src)
qed

definition sample_ce_config :: "unit ce_config" where
  "sample_ce_config = allow_portal (kl_parse_url sample_klib)
     ((ce_default_config sample_klib ())\<lparr>ec_portal_url := ''https://p'', ec_idp := sample_idp\<rparr>)"

definition sample_dlib :: "(unit, unit, unit, unit) db_lib" where
  "sample_dlib = \<lparr>dl_postgres = ''pg'', dl_new = \<lambda>_ x. (Inr (), x), dl_set_idle = \<lambda>_ _ x. x, dl_close = \<lambda>_ x. x, dl_gorm = \<lambda>_ x. (Inr (), x)\<rparr>"

lemma sample_ce_loads:
  "ce_load_config sample_klib (\<lambda>_ c. Inr (c\<lparr>ec_portal_url := ''https://p'', ec_idp := sample_idp\<rparr>)) () (\<lambda>_. '''') [] = Started sample_ce_config"
proof -
  have "ce_validate sample_klib sample_ce_config = Started ()"
    by (simp add: ce_validate_def sample_ce_config_def sample_klib_def ce_default_config_def allow_portal_def portal_origin_def
        port_in_range_def timeout_positive_def validate_logging_def parse_level_def default_logging_def database_checks_def
        check_postgres_def default_database_def second_def hour_def Let_def default_cors_def)
  then show ?thesis by (simp add: ce_load_config_def load_config_file_def Let_def sample_ce_config_def)
qed

lemma sample_ce_opens: "open_gorm sample_dlib (ec_database sample_ce_config) () = (Inr ((), ()), ())"
  by (simp add: open_gorm_def open_database_def wrap_gorm_def sample_dlib_def sample_ce_config_def ce_default_config_def
      allow_portal_def default_database_def sample_klib_def hour_def Let_def)



text \<open>
  A configuration that the Consent Engine accepts can be run: once its database is open, the
  service and the token validation are built from it, with the issuer and the audience it names, the
  data owner's portal is among the allowed origins, and the pool stays open. Only an issuer, a key URL
  or an audience of white space, which the checks let through, is excepted.
\<close>

theorem accepted_configuration_starts:
  assumes "ce_load_config klib load other getenv args = Started cfg"
    and "open_gorm dlib (ec_database cfg) x = (Inr (g, p), x')"
    and "trim_space (ac_jwks_url (ec_idp cfg)) \<noteq> ''''" "trim_space (ac_issuer (ec_idp cfg)) \<noteq> ''''" "trim_space (ac_audience (ec_idp cfg)) \<noteq> ''''"
    and "kl_parse_url klib '''' = Some ('''', '''')"
  shows "\<exists>m. ce_start klib dlib load other getenv args x = (Started (cfg, g, p, ec_portal_url cfg, m), x') \<and>
      te_issuer m = trim_space (ac_issuer (ec_idp cfg)) \<and> te_audience m = trim_space (ac_audience (ec_idp cfg)) \<and>
      portal_origin (kl_parse_url klib) (ec_portal_url cfg) \<in> set (co_origins (ec_cors cfg)) \<and>
      ec_subject_claim cfg \<noteq> '''' \<and> 1 \<le> sv_port (ec_server cfg) \<and> sv_port (ec_server cfg) \<le> 65535 \<and> db_postgres (ec_database cfg) \<noteq> None"
proof -
  obtain raw where raw: "ce_validate klib cfg = Started ()" "cfg = allow_portal (kl_parse_url klib) raw"
    using load_config_file_Started [OF assms(1) [unfolded ce_load_config_def]] by blast
  then have v: "portal_origin (kl_parse_url klib) (ec_portal_url cfg) \<noteq> ''''" "ec_subject_claim cfg \<noteq> ''''"
    "1 \<le> sv_port (ec_server cfg)" "sv_port (ec_server cfg) \<le> 65535" "db_postgres (ec_database cfg) \<noteq> None"
    by (auto simp: ce_validate_def port_in_range_def dest: check_postgres_Started)
  have "portal_origin (kl_parse_url klib) (ec_portal_url cfg) \<in> set (co_origins (ec_cors cfg))"
    using allow_portal_origin [of "kl_parse_url klib" raw] v(1) raw(2) by simp
  moreover have "new_consent_service (kl_parse_url klib) (ec_portal_url cfg) = Inr (ec_portal_url cfg)"
    using portal_origin_nonempty [OF v(1)] assms(6) by simp
  ultimately show ?thesis
    using assms(1,2) v new_manager_Inr [OF assms(3-5)] by (simp add: ce_start_def with_pool_def of_result_def)
qed

lemma accepted_configuration_starts_witness:
  "\<exists>m. ce_start sample_klib sample_dlib (\<lambda>_ c. Inr (c\<lparr>ec_portal_url := ''https://p'', ec_idp := sample_idp\<rparr>)) () (\<lambda>_. '''') [] () =
       (Started (sample_ce_config, (), (), ''https://p'', m), ()) \<and> te_issuer m = ''i'' \<and> te_audience m = ''a'' \<and>
     ''https://p'' \<in> set (co_origins (ec_cors sample_ce_config))"
proof -
  have c: "ec_idp sample_ce_config = sample_idp" "ec_portal_url sample_ce_config = ''https://p''"
    by (simp_all add: sample_ce_config_def allow_portal_def Let_def)
  have t: "trim_space (ac_jwks_url sample_idp) \<noteq> ''''" "trim_space (ac_issuer sample_idp) = ''i''" "trim_space (ac_audience sample_idp) = ''a''"
    by code_simp+
  have o: "portal_origin (kl_parse_url sample_klib) ''https://p'' = ''https://p''" "kl_parse_url sample_klib '''' = Some ('''', '''')"
    by (simp_all add: portal_origin_def sample_klib_def)
  show ?thesis
    using accepted_configuration_starts [OF sample_ce_loads sample_ce_opens] by (simp add: c t o) blast
qed

end
