(* ===== verification/CE_Server_Properties.thy ===== *)
theory CE_Server_Properties
  imports CE_Server CE_Properties
begin

text \<open>
  What the portal endpoints of the Consent Engine give a caller: without a token that names an
  owner nothing, and with one the consents of that owner only, to read and to change.
\<close>

section \<open>Writes to the records of one owner\<close>

definition owned_change :: "string \<Rightarrow> consent_record \<Rightarrow> consent_record \<Rightarrow> bool" where
  "owned_change own c c' \<longleftrightarrow> c' = c \<or>
     (cn_owner_id c = own \<and> cn_consent_id c' = cn_consent_id c \<and> cn_owner_id c' = own)"

text \<open>The rows stay where they are, and only those of the owner may change.\<close>

definition touches_only :: "string \<Rightarrow> consent_table \<Rightarrow> consent_table \<Rightarrow> bool" where
  "touches_only own t t' \<longleftrightarrow> list_all2 (owned_change own) t t'"

lemma touches_refl [simp]: "touches_only own t t"
  by (simp add: touches_only_def owned_change_def list_all2_same)

lemma touches_trans: "touches_only own t u \<Longrightarrow> touches_only own u v \<Longrightarrow> touches_only own t v"
  unfolding touches_only_def by (rule list_all2_trans) (auto simp: owned_change_def)

lemma touches_update:
  "(\<And>c. c \<in> set t \<Longrightarrow> p c \<Longrightarrow> owned_change own c (f c)) \<Longrightarrow> touches_only own t (sql_update p f t)"
  by (auto simp: touches_only_def sql_update_def list_all2_conv_all_nth owned_change_def)

lemma touches_persist:
  assumes ok: "table_ok consent_clash t" and d: "d \<in> set t" "cn_owner_id d = own"
  shows "touches_only own t (snd (persist_expiry_if_stale env d now t))"
proof -
  have "touches_only own t (sql_update (\<lambda>r. cn_consent_id r = cn_consent_id d \<and> q r)
      (\<lambda>r. r\<lparr>cn_status := StatusExpired, cn_updated_at := now\<rparr>) t)" for q
  proof (rule touches_update)
    fix c assume "c \<in> set t" "cn_consent_id c = cn_consent_id d \<and> q c"
    then have "c = d" using consent_table.ok_key_inj [OF ok _ d(1)] by blast
    then show "owned_change own c (c\<lparr>cn_status := StatusExpired, cn_updated_at := now\<rparr>)"
      using d(2) by (simp add: owned_change_def)
  qed
  then show ?thesis by (auto simp: persist_expiry_if_stale_def Let_def split: prod.splits bool.splits option.splits)
qed

lemma touches_view:
  assumes ok: "table_ok consent_clash t"
  shows "touches_only own t (snd (get_consent_portal_view env i own t))"
proof -
  have "touches_only own t u" if "sql_first cn_consent_id (\<lambda>r. cn_consent_id r = x) t = Some d" "cn_owner_id d = own"
    "persist_expiry_if_stale env d now t = (res, u)" for x d now res u
    using touches_persist [OF ok sql_first_SomeD(1) [OF that(1)] that(2), of env now] that(3) by simp
  then show ?thesis by (auto simp: get_consent_portal_view_def split: option.splits prod.splits sum.splits)
qed

lemma touches_list: "touches_only own t (snd (list_consents_by_owner env own ss l off t))"
proof -
  have up: "touches_only own u (sql_update (\<lambda>c. cn_owner_id c = own \<and> q c)
      (\<lambda>c. c\<lparr>cn_status := StatusExpired, cn_updated_at := now\<rparr>) u)" for q now u
    by (rule touches_update) (simp add: owned_change_def)
  show ?thesis
    using up touches_trans [OF up up]
    by (auto simp: list_consents_by_owner_def expire_stale_consents_by_owner_def Let_def)
qed

lemma touches_action:
  assumes ok: "table_ok consent_clash t"
  shows "touches_only (pa_owner_id req) t (snd (update_consent_status_by_portal_action env req t))"
proof (cases "action_load env req t")
  case (Inr d)
  then have d: "d \<in> set t" "cn_owner_id d = pa_owner_id req"
    unfolding action_load_def by (auto split: if_splits option.splits dest: sql_first_SomeD(1))
  obtain res u where u: "persist_expiry_if_stale env d (ce_clock env AtAction) t = (res, u)" by fastforce
  have tu: "touches_only (pa_owner_id req) t u" using touches_persist [OF ok d, of env "ce_clock env AtAction"] u by simp
  have "touches_only (pa_owner_id req) u (snd (action_decide env req e now u))" for e now
  proof (cases "action_updates req e now")
    case (Inr f)
    have "touches_only (pa_owner_id req) u (sql_update (\<lambda>r. cn_consent_id r = cn_consent_id e \<and>
        cn_owner_id r = pa_owner_id req \<and> cn_status r = fst (action_from (pa_action req))) f u)"
    proof (rule touches_update)
      fix c :: consent_record assume "cn_consent_id c = cn_consent_id e \<and> cn_owner_id c = pa_owner_id req \<and> cn_status c = fst (action_from (pa_action req))"
      then show "owned_change (pa_owner_id req) c (f c)"
        using lawfulD [OF action_updates_lawful [OF Inr, of c]] by (simp add: owned_change_def)
    qed
    then show ?thesis using Inr by (auto simp: action_decide_def Let_def split: prod.splits)
  qed (auto simp: action_decide_def split: prod.splits)
  then show ?thesis
    using Inr u tu touches_trans [OF tu]
    by (auto simp: update_consent_status_by_portal_action_def split: sum.splits)
qed (simp add: update_consent_status_by_portal_action_def)

section \<open>What an answer shows\<close>

definition shows_only :: "string \<Rightarrow> consent_table \<Rightarrow> ce_answer \<Rightarrow> bool" where
  "shows_only own t a =
     (case a of
        PortalAnswer v \<Rightarrow> list_ex (\<lambda>c. cn_owner_id c = own \<and> v = to_portal_view c) t
      | ListAnswer l \<Rightarrow> list_all (\<lambda>v. list_ex (\<lambda>c. cn_owner_id c = own \<and> v = to_summary_view c) t) (lr_consents l)
      | TextAnswer _ \<Rightarrow> True
      | _ \<Rightarrow> False)"

lemma persist_row:
  assumes run: "persist_expiry_if_stale env d now t = (Inr c, t')" and d: "d \<in> set t"
  shows "c \<in> set t' \<and> cn_owner_id c = cn_owner_id d"
proof (cases "fst (mark_expired_if_stale d now)")
  case False
  then show ?thesis using run d by (cases "mark_expired_if_stale d now") (auto simp: persist_expiry_if_stale_def)
next
  case True
  let ?p = "\<lambda>r. cn_consent_id r = cn_consent_id d \<and> cn_status r = cn_status d"
  let ?f = "\<lambda>r. r\<lparr>cn_status := StatusExpired, cn_updated_at := now\<rparr>"
  obtain c' where m: "mark_expired_if_stale d now = (True, c')" using True by (cases "mark_expired_if_stale d now") auto
  have "c' = d\<lparr>cn_status := StatusExpired\<rparr>" using stale_lawful [OF m] by blast
  moreover have "sql_affected ?p t \<noteq> 0" using d by (auto simp: sql_affected_0_iff)
  ultimately have "c = ?f d" "t' = sql_update ?p ?f t"
    using run m by (auto simp: persist_expiry_if_stale_def Let_def split: if_splits)
  then show ?thesis using d by (auto simp: set_sql_update image_iff intro!: bexI [of _ d])
qed

lemma view_shows:
  "get_consent_portal_view env i own t = (Inr v, t') \<Longrightarrow> \<exists>c \<in> set t'. cn_owner_id c = own \<and> v = to_portal_view c"
  using persist_row sql_first_SomeD(1)
  by (fastforce simp: get_consent_portal_view_def split: option.splits prod.splits sum.splits if_splits)

lemma list_shows:
  assumes "list_consents_by_owner env own ss l off t = (Inr lr, t')" "v \<in> set (lr_consents lr)"
  shows "\<exists>c \<in> set t'. cn_owner_id c = own \<and> v = to_summary_view c"
  using assms
  by (auto simp: list_consents_by_owner_def Let_def sql_where_def split: prod.splits sum.splits if_splits
      dest!: in_set_takeD in_set_dropD) blast+

text \<open>A portal endpoint that serves an owner, and one that has none.\<close>

definition portal_served :: "string \<Rightarrow> consent_table \<Rightarrow> ce_answer ce_reply \<times> consent_table \<Rightarrow> bool" where
  "portal_served own t r \<longleftrightarrow> touches_only own t (snd r) \<and>
     (case fst r of Success n a \<Rightarrow> shows_only own (snd r) a | _ \<Rightarrow> True)"

lemma served_unchanged [simp]:
  "portal_served own t (Failure n e, t)" "portal_served own t (NoBody n, t)"
  by (simp_all add: portal_served_def)

lemma answered_parts [simp]:
  "fst (answered f r) = answer_with f (fst r)" "snd (answered f r) = snd r"
  by (simp_all add: answered_def)

lemma portal_list_served: "portal_served own t (answered ListAnswer (handle_list_consents env cx m (Some own) ss l off t))"
proof -
  have "touches_only own t u" "\<And>lr. res = Inr lr \<Longrightarrow> shows_only own u (ListAnswer lr)"
    if "list_consents_by_owner env own st li n t = (res, u)" for st li n res u
    using touches_list [of own t env st li n] list_shows [of env own st li n t _ u] that
    by (auto simp: shows_only_def list_all_iff list_ex_iff)
  then show ?thesis
    by (auto simp: portal_served_def handle_list_consents_def ce_reply_defs split: sum.splits prod.splits)
qed

lemma portal_get_served:
  "table_ok consent_clash t \<Longrightarrow> portal_served own t (answered PortalAnswer (handle_get_consent env cx m i (Some own) t))"
proof -
  assume ok: "table_ok consent_clash t"
  have "touches_only own t u" "\<And>v. res = Inr v \<Longrightarrow> shows_only own u (PortalAnswer v)"
    if "get_consent_portal_view env i own t = (res, u)" for res u
    using touches_view [OF ok, of own env i] view_shows [of env i own t _ u] that by (auto simp: shows_only_def list_ex_iff)
  then show ?thesis
    by (auto simp: portal_served_def handle_get_consent_def ce_reply_defs split: sum.splits prod.splits)
qed

lemma portal_update_served:
  "table_ok consent_clash t \<Longrightarrow> portal_served own t (answered TextAnswer (handle_update_consent env cx m i (Some own) body t))"
proof -
  assume ok: "table_ok consent_clash t"
  have "touches_only own t u" if "update_consent_status_by_portal_action env
      \<lparr>pa_consent_id = i, pa_owner_id = own, pa_action = a, pa_updated_by = own\<rparr> t = (res, u)" for a res u
    using touches_action [OF ok, of "\<lparr>pa_consent_id = i, pa_owner_id = own, pa_action = a, pa_updated_by = own\<rparr>" env] that by simp
  then show ?thesis
    by (auto simp: portal_served_def handle_update_consent_def update_error_reply_def ce_reply_defs shows_only_def
        split: sum.splits prod.splits option.splits)
qed

section \<open>The portal through the mux\<close>

text \<open>The owner that the token of a request names.\<close>

definition owner_of :: "(string \<Rightarrow> 'w \<Rightarrow> (string + principal) \<times> 'w) \<Rightarrow> string \<Rightarrow> string \<Rightarrow> 'w \<Rightarrow> string option" where
  "owner_of extract_token claim header k =
     (if header = '''' then None
      else case fst (extract_token header k) of
        Inl _ \<Rightarrow> None
      | Inr p \<Rightarrow> if claims_string (pr_claims p) claim = '''' then None else Some (claims_string (pr_claims p) claim))"

lemma authenticate_owner:
  "ce_authenticate extract_token claim f header (k, t) =
     (case owner_of extract_token claim header k of
        None \<Rightarrow> (fst (ce_authenticate extract_token claim f header (k, t)),
                  fst (snd (ce_authenticate extract_token claim f header (k, t))), t)
      | Some own \<Rightarrow> (case f (Some own) t of (r, u) \<Rightarrow> (r, snd (extract_token header k), u)))"
  "owner_of extract_token claim header k = None \<Longrightarrow>
     \<exists>e. fst (ce_authenticate extract_token claim f header (k, t)) = Failure StatusUnauthorized e"
  by (auto simp: ce_authenticate_def require_auth_def authn_middleware_def owner_of_def owner_subject_def Let_def
      principal_claims_def ce_reply_defs split: prod.splits sum.splits)

lemma portal_endpoint_served:
  "table_ok consent_clash t \<Longrightarrow> portal_served own t (portal_endpoint env r e (Some own) t)"
  by (auto simp: portal_endpoint_def portal_list_served portal_get_served portal_update_served ce_reply_defs
      split: ce_endpoint.splits)

lemma portal_target:
  assumes "path_segments (target_path target) = Some (''api'' # segs)"
  shows "(\<exists>ss l off i. ce_route m target \<in> {None, Some (PortalList ss l off), Some (PortalGet i), Some (PortalUpdate i)}) \<and>
    unmatched_status ce_route target \<in> {404, 405}"
  using assms path_segments_clean [OF assms]
  by (auto simp: ce_route_def match_ce_def unmatched_status_def)

text \<open>
  C3. The portal shows and changes the consents of the caller only: a request to it without a token
  that validates and names an owner is answered with 401, 404 or 405 and changes no record; any other
  one leaves the records of every other owner, and the ids of all, as they were, and an answer to it
  holds records of that owner alone, as they are afterwards.
\<close>

theorem portal_isolation:
  assumes "table_ok consent_clash t" "path_segments (target_path (cr_target r)) = Some (''api'' # segs)"
    and "ce_mux metrics env extract_token claim r (k, t) = (rep, k', t')"
  shows "case owner_of extract_token claim (cr_header r) k of
      None \<Rightarrow> t' = t \<and> status_code rep \<in> {401, 404, 405}
    | Some own \<Rightarrow> touches_only own t t' \<and> (case rep of Success n a \<Rightarrow> shows_only own t' a | _ \<Rightarrow> True)"
proof (cases "ce_route (cr_method r) (cr_target r)")
  case None
  then show ?thesis using assms(3) portal_target [OF assms(2)] by (auto simp: ce_mux_def split: option.splits)
next
  case (Some e)
  then have mux: "ce_authenticate extract_token claim (portal_endpoint env r e) (cr_header r) (k, t) = (rep, k', t')"
    using assms(3) portal_target [OF assms(2), of "cr_method r"] by (auto simp: ce_mux_def)
  show ?thesis
  proof (cases "owner_of extract_token claim (cr_header r) k")
    case None
    then show ?thesis
      using mux authenticate_owner(1) [of extract_token claim "portal_endpoint env r e" "cr_header r" k t]
        authenticate_owner(2) [OF None, of "portal_endpoint env r e" t] by auto
  next
    case (Some own)
    then have "portal_served own t (rep, t')"
      using mux authenticate_owner(1) [of extract_token claim "portal_endpoint env r e" "cr_header r" k t]
        portal_endpoint_served [OF assms(1), of own env r e] by (auto split: prod.splits)
    then show ?thesis using Some by (simp add: portal_served_def split: reply.splits)
  qed
qed

definition sample_portal_request :: ce_request where
  "sample_portal_request = \<lparr>cr_method = ''PUT'', cr_target = ''/api/v1/consents/c1'', cr_header = ''Bearer t'',
     cr_create = Inl '''', cr_action = Inr ActionApprove, cr_ctx_err = False\<rparr>"

definition sample_token_of :: "string \<Rightarrow> string \<Rightarrow> unit \<Rightarrow> (string + principal) \<times> unit" where
  "sample_token_of subject header k = (Inr \<lparr>pr_claims = no_claims\<lparr>cm_values := [''sub'' \<mapsto> JStr subject]\<rparr>\<rparr>, k)"

lemma portal_isolation_witness:
  "\<exists>rep k' t'. ce_mux (NoBody 200) (sample_ce_env 5) (sample_token_of ''bob'') ''sub'' sample_portal_request ((), sample_consents) =
       (rep, k', t') \<and> touches_only ''bob'' sample_consents t'"
proof -
  have ok: "table_ok consent_clash sample_consents" using sample_consents_inv by (simp add: ce_inv_def)
  have p: "path_segments (target_path (cr_target sample_portal_request)) = Some (''api'' # [''v1'', ''consents'', ''c1''])"
    unfolding sample_portal_request_def by code_simp
  have o: "owner_of (sample_token_of ''bob'') ''sub'' (cr_header sample_portal_request) () = Some ''bob''"
    by (simp add: owner_of_def sample_token_of_def sample_portal_request_def claims_string_def)
  obtain rep k' t' where r: "ce_mux (NoBody 200) (sample_ce_env 5) (sample_token_of ''bob'') ''sub'' sample_portal_request
      ((), sample_consents) = (rep, k', t')" by (cases "ce_mux (NoBody 200) (sample_ce_env 5) (sample_token_of ''bob'') ''sub''
      sample_portal_request ((), sample_consents)") auto
  from portal_isolation [OF ok p r] o show ?thesis using r by auto
qed

end
