(* ===== verification/Metrics.thy ===== *)
theory Metrics
  imports Cli_Flags GoTime
begin

text \<open>
  The metrics of \<^verbatim>\<open>internal/monitoring\<close>: the labels that requests are counted under
  (\<^verbatim>\<open>metrics.go\<close>), and the one initialization, its exporters, the metrics page, and what is recorded
  (\<^verbatim>\<open>otel_metrics.go\<close>). The OpenTelemetry library is a parameter, and a measurement is an
  event of the state.
\<close>

section \<open>Routes\<close>

record route_table =
  rt_static :: "string list"
  rt_templates :: "string list"

definition no_routes :: route_table where
  "no_routes = \<lparr>rt_static = [], rt_templates = []\<rparr>"

text \<open>\<^verbatim>\<open>strings.ReplaceAll(route, "{id}", ":id")\<close> and \<^verbatim>\<open>strings.Contains\<close>.\<close>

fun replace_id :: "string \<Rightarrow> string" where
  "replace_id [] = []"
| "replace_id (c # s) =
     (if has_prefix (c # s) ''{id}'' then '':id'' @ replace_id (drop 3 s) else c # replace_id s)"

definition contains_text :: "string \<Rightarrow> string \<Rightarrow> bool" where
  "contains_text s p \<longleftrightarrow> list_ex (\<lambda>i. has_prefix (drop i s) p) [0..<length s + 1]"

definition register_route :: "route_table \<Rightarrow> string \<Rightarrow> route_table" where
  "register_route rt route =
     (let normalized = replace_id route in
      if contains_text normalized '':id'' then rt\<lparr>rt_templates := rt_templates rt @ [normalized]\<rparr>
      else rt\<lparr>rt_static := List.insert route (rt_static rt)\<rparr>)"

definition register_routes :: "string list \<Rightarrow> route_table \<Rightarrow> route_table" where
  "register_routes routes rt = foldl register_route rt routes"

definition is_exact_route :: "route_table \<Rightarrow> string \<Rightarrow> bool" where
  "is_exact_route rt route \<longleftrightarrow> route \<in> set (rt_static rt)"

section \<open>Labels\<close>

text \<open>The segments of a path or a template, without the empty one in front of the first slash.\<close>

definition route_parts :: "string \<Rightarrow> string list" where
  "route_parts path = (case split_on (CHR ''/'') path of [] # parts \<Rightarrow> parts | parts \<Rightarrow> parts)"

definition matches_template :: "string \<Rightarrow> string list \<Rightarrow> bool" where
  "matches_template tpl parts \<longleftrightarrow>
     (let ts = route_parts tpl in
      length parts = length ts \<and> list_all (\<lambda>(t, p). t = '':id'' \<or> t = ''{id}'' \<or> p = t) (zip ts parts))"

definition is_digit :: "char \<Rightarrow> bool" where
  "is_digit c \<longleftrightarrow> (let n = of_char c :: nat in 48 \<le> n \<and> n \<le> 57)"

definition is_alnum :: "char \<Rightarrow> bool" where
  "is_alnum c \<longleftrightarrow> is_digit c \<or> (let n = of_char c :: nat in 97 \<le> n \<and> n \<le> 122 \<or> 65 \<le> n \<and> n \<le> 90)"

definition looks_like_id :: "string \<Rightarrow> bool" where
  "looks_like_id s \<longleftrightarrow>
     s \<noteq> '''' \<and>
     (length s = 36 \<and> length (filter (\<lambda>c. c = CHR ''-'') s) = 4 \<or>
      (CHR ''_'' \<in> set s \<or> CHR ''-'' \<in> set s) \<and> list_ex is_digit s \<or>
      CHR ''.'' \<in> set s \<and> 3 \<le> length s \<or>
      list_all is_digit s \<or>
      CHR ''@'' \<in> set s \<or>
      4 \<le> length s \<and> list_all is_alnum s)"

definition commonWords :: "string list" where
  "commonWords =
     [''api'', ''v1'', ''v2'', ''v3'', ''applications'', ''application'', ''users'', ''user'', ''consents'', ''consent'',
      ''schemas'', ''schema'', ''versions'', ''version'', ''activate'', ''deactivate'', ''profile'', ''profiles'', ''posts'',
      ''list'', ''create'', ''update'', ''delete'', ''get'', ''post'', ''put'', ''patch'', ''check'', ''admin'']"

definition is_common_path_word :: "string \<Rightarrow> bool" where
  "is_common_path_word word \<longleftrightarrow> length word \<le> 2 \<or> to_lower word \<in> set commonWords"

definition id_segment :: "string \<Rightarrow> bool" where
  "id_segment part \<longleftrightarrow> looks_like_id part \<and> \<not> is_common_path_word part"

definition unknown_route :: string where "unknown_route = ''unknown''"

definition label_segment :: "nat \<times> string \<Rightarrow> string" where
  "label_segment ip =
     (case ip of (i, part) \<Rightarrow>
        if i < 2 \<and> length part \<le> 3 then part else if id_segment part then '':id'' else part)"

definition replaced_segment :: "nat \<times> string \<Rightarrow> bool" where
  "replaced_segment ip \<longleftrightarrow> \<not> (fst ip < 2 \<and> length (snd ip) \<le> 3) \<and> id_segment (snd ip)"

definition fallback_label :: "string list \<Rightarrow> string" where
  "fallback_label parts =
     (case parts of
        [_] \<Rightarrow> unknown_route
      | [a, b] \<Rightarrow> if id_segment b then ''/'' @ a @ ''/:id'' else unknown_route
      | _ \<Rightarrow>
          if list_ex replaced_segment (enumerate 0 parts) \<and> length parts \<le> 6
          then ''/'' @ join_on (CHR ''/'') (map label_segment (enumerate 0 parts))
          else unknown_route)"

definition normalize_route :: "route_table \<Rightarrow> string \<Rightarrow> string" where
  "normalize_route rt path =
     (let parts = route_parts path; full = ''/'' @ join_on (CHR ''/'') parts in
      if path = '''' \<or> path = ''/'' \<or> parts = [] then ''/''
      else if is_exact_route rt full then full
      else (case find (\<lambda>t. matches_template t parts) (rt_templates rt) of
              Some t \<Rightarrow> t
            | None \<Rightarrow> fallback_label parts))"

section \<open>Configuration\<close>

text \<open>The boundaries of the histograms are in milliseconds.\<close>

record metrics_config =
  mf_exporter :: string
  mf_service :: string
  mf_version :: string
  mf_endpoint :: string
  mf_headers :: params
  mf_port :: int
  mf_insecure :: bool
  mf_buckets :: "int list"

definition get_env_or_default :: "(string \<Rightarrow> string) \<Rightarrow> string \<Rightarrow> string \<Rightarrow> string" where
  "get_env_or_default getenv key def = (if getenv key \<noteq> '''' then getenv key else def)"

definition get_env_bool_or_default :: "(string \<Rightarrow> string) \<Rightarrow> string \<Rightarrow> bool \<Rightarrow> bool" where
  "get_env_bool_or_default getenv key def =
     (if getenv key = '''' then def
      else to_lower (trim_space (getenv key)) \<in> {''true'', ''1'', ''yes'', ''on''})"

definition parse_headers :: "string \<Rightarrow> params" where
  "parse_headers s =
     (if s = '''' then []
      else foldl (\<lambda>m pair. case cut_at (CHR ''='') (trim_space pair) of
               None \<Rightarrow> m
             | Some (k, v) \<Rightarrow> put_pair m (trim_space k, trim_space v)) [] (split_on (CHR '','') s))"

definition default_buckets :: "int list" where
  "default_buckets = [5, 10, 25, 50, 100, 250, 500, 1000, 2500, 5000, 10000]"

definition default_metrics_config :: "(string \<Rightarrow> string) \<Rightarrow> string \<Rightarrow> metrics_config" where
  "default_metrics_config getenv service =
     \<lparr>mf_exporter = get_env_or_default getenv ''OTEL_METRICS_EXPORTER'' ''prometheus'', mf_service = service,
      mf_version = get_env_or_default getenv ''SERVICE_VERSION'' ''dev'',
      mf_endpoint = get_env_or_default getenv ''OTEL_EXPORTER_OTLP_ENDPOINT'' '''',
      mf_headers = parse_headers (get_env_or_default getenv ''OTEL_EXPORTER_OTLP_HEADERS'' ''''),
      mf_port = 8888,
      mf_insecure = get_env_bool_or_default getenv ''OTEL_EXPORTER_OTLP_INSECURE'' False,
      mf_buckets = default_buckets\<rparr>"

section \<open>Initialization\<close>

text \<open>An OTLP exporter is built for a host, with or without TLS, and with headers.\<close>

datatype exporter = Prometheus | Otlp string bool "params option" | NoExporter

datatype metrics_page = PrometheusPage | TextPage string

datatype metric_event =
    RequestCounted string string nat | RequestTimed string string duration
  | CallCounted string string | CallTimed string string duration | CallFailed string string
  | BusinessCounted string string

text \<open>
  The package's variables: the two \<^verbatim>\<open>sync.Once\<close> values, the error, the flag, the page and the
  meter provider's reader and boundaries, with the measurements so far.
\<close>

record metrics_state =
  mt_init_once :: bool
  mt_otel_once :: bool
  mt_error :: "string option"
  mt_initialized :: bool
  mt_page :: "metrics_page option"
  mt_provider :: "(exporter \<times> int list) option"
  mt_events :: "metric_event list"

definition no_metrics :: metrics_state where
  "no_metrics = \<lparr>mt_init_once = False, mt_otel_once = False, mt_error = None, mt_initialized = False, mt_page = None,
     mt_provider = None, mt_events = []\<rparr>"

text \<open>The library; \<open>Some\<close> is an error. A URL is its scheme and host.\<close>

record metrics_lib =
  ml_resource :: "string \<Rightarrow> string \<Rightarrow> string option"
  ml_prometheus :: "string option"
  ml_parse_url :: "string \<Rightarrow> string + string \<times> string"
  ml_otlp :: "exporter \<Rightarrow> string option"
  ml_instrument :: "string \<Rightarrow> string option"

definition otlp_exporter :: "metrics_lib \<Rightarrow> metrics_config \<Rightarrow> string + exporter" where
  "otlp_exporter lib c =
     (if mf_endpoint c = '''' then Inl ''OTLP endpoint is required when using OTLP exporter''
      else case ml_parse_url lib (mf_endpoint c) of
        Inl e \<Rightarrow> Inl (''invalid OTLP endpoint URL: '' @ e)
      | Inr (scheme, host) \<Rightarrow>
          if scheme \<noteq> ''https'' \<and> \<not> mf_insecure c
          then Inl (''OTLP endpoint must use HTTPS (got: '' @ scheme @
            ''). Use https:// for secure connections, or set OTEL_EXPORTER_OTLP_INSECURE=true to allow insecure '' @
            ''connections (not recommended for production)'')
          else
            let exporter = Otlp host (mf_insecure c \<and> scheme = ''http'') (if mf_headers c = [] then None else Some (mf_headers c)) in
            (case ml_otlp lib exporter of
               Some e \<Rightarrow> Inl (''failed to create OTLP exporter: '' @ e)
             | None \<Rightarrow> Inr exporter))"

definition choose_exporter :: "metrics_lib \<Rightarrow> metrics_config \<Rightarrow> string + exporter" where
  "choose_exporter lib c =
     (if mf_exporter c = ''prometheus'' \<or> mf_exporter c = '''' then
        (case ml_prometheus lib of
           Some e \<Rightarrow> Inl (''failed to create Prometheus exporter: '' @ e)
         | None \<Rightarrow> Inr Prometheus)
      else if mf_exporter c = ''otlp'' then otlp_exporter lib c
      else if mf_exporter c = ''none'' then Inr NoExporter
      else Inl (''unknown exporter type: '' @ mf_exporter c @ '' (supported: prometheus, otlp, none)''))"

fun page_of :: "exporter \<Rightarrow> metrics_page" where
  "page_of Prometheus = PrometheusPage"
| "page_of (Otlp _ _ _) = TextPage (''# Metrics exported via OTLP'' @ [CHR 0x0A])"
| "page_of NoExporter = TextPage (''# Metrics disabled'' @ [CHR 0x0A])"

definition instruments :: "(string \<times> string) list" where
  "instruments =
     [(''http_requests_total'', ''counter''), (''http_request_duration_seconds'', ''histogram''),
      (''external_calls_total'', ''counter''), (''external_call_errors_total'', ''counter''),
      (''external_call_duration_seconds'', ''histogram''), (''business_events_total'', ''counter'')]"

fun create_instruments :: "metrics_lib \<Rightarrow> (string \<times> string) list \<Rightarrow> string option" where
  "create_instruments lib [] = None"
| "create_instruments lib ((name, kind) # rest) =
     (case ml_instrument lib name of
        Some e \<Rightarrow> Some (''failed to create '' @ name @ '' '' @ kind @ '': '' @ e)
      | None \<Rightarrow> create_instruments lib rest)"

text \<open>The page and the provider stay set when an instrument cannot be created.\<close>

definition initialize_internal :: "metrics_lib \<Rightarrow> metrics_config \<Rightarrow> metrics_state \<Rightarrow> string option \<times> metrics_state" where
  "initialize_internal lib c s =
     (case ml_resource lib (mf_service c) (mf_version c) of
        Some e \<Rightarrow> (Some (''failed to create resource: '' @ e), s)
      | None \<Rightarrow>
          (case choose_exporter lib c of
             Inl e \<Rightarrow> (Some e, s)
           | Inr exporter \<Rightarrow>
               (create_instruments lib instruments,
                s\<lparr>mt_page := Some (page_of exporter),
                  mt_provider := Some (exporter, if mf_buckets c = [] then default_buckets else mf_buckets c)\<rparr>)))"

definition initialize :: "metrics_lib \<Rightarrow> metrics_config \<Rightarrow> metrics_state \<Rightarrow> string option \<times> metrics_state" where
  "initialize lib c s =
     (if mt_otel_once s then (None, s)
      else case initialize_internal lib c (s\<lparr>mt_otel_once := True\<rparr>) of
        (e, s) \<Rightarrow> (e, if e = None then s\<lparr>mt_initialized := True\<rparr> else s))"

definition ensure_initialized :: "metrics_lib \<Rightarrow> (string \<Rightarrow> string) \<Rightarrow> metrics_state \<Rightarrow> metrics_state" where
  "ensure_initialized lib getenv s =
     (if mt_init_once s then s
      else case initialize lib (default_metrics_config getenv (get_env_or_default getenv ''SERVICE_NAME'' ''openndx-service''))
                  (s\<lparr>mt_init_once := True\<rparr>) of
        (e, s) \<Rightarrow> s\<lparr>mt_error := e\<rparr>)"

definition get_init_error :: "metrics_lib \<Rightarrow> (string \<Rightarrow> string) \<Rightarrow> metrics_state \<Rightarrow> string option \<times> metrics_state" where
  "get_init_error lib getenv s = (let s = ensure_initialized lib getenv s in (mt_error s, s))"

definition is_initialized :: "metrics_lib \<Rightarrow> (string \<Rightarrow> string) \<Rightarrow> metrics_state \<Rightarrow> bool \<times> metrics_state" where
  "is_initialized lib getenv s = (let s = ensure_initialized lib getenv s in (mt_error s = None, s))"

section \<open>Recording\<close>

text \<open>The metrics page; \<open>None\<close> is the Prometheus library's own answer.\<close>

definition otel_handler :: "metrics_state \<Rightarrow> metrics_page option" where
  "otel_handler s = (if \<not> mt_initialized s then None else mt_page s)"

definition metrics_handler :: "metrics_lib \<Rightarrow> (string \<Rightarrow> string) \<Rightarrow> metrics_state \<Rightarrow> metrics_page option \<times> metrics_state" where
  "metrics_handler lib getenv s = (let s = ensure_initialized lib getenv s in (otel_handler s, s))"

definition serve_page :: "nat \<times> string \<Rightarrow> metrics_page option \<Rightarrow> nat \<times> string" where
  "serve_page prometheus page =
     (case page of
        None \<Rightarrow> (503, ''# Metrics not initialized'' @ [CHR 0x0A])
      | Some PrometheusPage \<Rightarrow> prometheus
      | Some (TextPage t) \<Rightarrow> (200, t))"

definition record_metrics :: "metric_event list \<Rightarrow> metrics_state \<Rightarrow> metrics_state" where
  "record_metrics es s = s\<lparr>mt_events := mt_events s @ es\<rparr>"

text \<open>\<open>next\<close> yields the codes that it gives to \<^verbatim>\<open>WriteHeader\<close>; the last one is kept.\<close>

definition otel_http_middleware ::
  "route_table \<Rightarrow> (metrics_state \<times> 'w \<Rightarrow> nat list \<times> metrics_state \<times> 'w) \<Rightarrow> string \<Rightarrow> string \<Rightarrow> duration \<Rightarrow>
   metrics_state \<times> 'w \<Rightarrow> nat list \<times> metrics_state \<times> 'w" where
  "otel_http_middleware rt next meth path elapsed sw =
     (if \<not> mt_initialized (fst sw) then next sw
      else case next sw of (codes, s, w) \<Rightarrow>
        let status = last (200 # codes);
            route = (if status = 404 then unknown_route else normalize_route rt path) in
        (codes, record_metrics [RequestCounted meth route status, RequestTimed meth route elapsed] s, w))"

definition otel_record_external_call ::
  "string \<Rightarrow> string \<Rightarrow> duration \<Rightarrow> bool \<Rightarrow> metrics_state \<Rightarrow> metrics_state" where
  "otel_record_external_call target operation d failed s =
     (if \<not> mt_initialized s then s
      else record_metrics ([CallCounted target operation, CallTimed target operation d] @
             (if failed then [CallFailed target operation] else [])) s)"

definition otel_record_business_event :: "string \<Rightarrow> string \<Rightarrow> metrics_state \<Rightarrow> metrics_state" where
  "otel_record_business_event action outcome s =
     (if \<not> mt_initialized s then s else record_metrics [BusinessCounted action outcome] s)"

definition record_external_call ::
  "metrics_lib \<Rightarrow> (string \<Rightarrow> string) \<Rightarrow> string \<Rightarrow> string \<Rightarrow> duration \<Rightarrow> bool \<Rightarrow> metrics_state \<Rightarrow> metrics_state" where
  "record_external_call lib getenv target operation d failed s =
     otel_record_external_call target operation d failed (ensure_initialized lib getenv s)"

definition record_business_event ::
  "metrics_lib \<Rightarrow> (string \<Rightarrow> string) \<Rightarrow> string \<Rightarrow> string \<Rightarrow> metrics_state \<Rightarrow> metrics_state" where
  "record_business_event lib getenv action outcome s =
     otel_record_business_event action outcome (ensure_initialized lib getenv s)"

end
