(* ===== verification/Metrics_Properties.thy ===== *)
theory Metrics_Properties
  imports Metrics CE_Server
begin

text \<open>
  What the metrics promise: the package is initialized once and records nothing before, a path that
  fits a registered route is counted under a registered route, and what the Consent Engine's requests
  are counted under, which registers none.
\<close>

section \<open>Initialization\<close>

text \<open>What the rest of the program can do to the package.\<close>

datatype metrics_op =
    Configure metrics_config | AskError | AskPage
  | ExternalCall string string duration bool | BusinessEvent string string
  | ServeRequest string string "nat list" duration

fun metrics_run :: "metrics_lib \<Rightarrow> (string \<Rightarrow> string) \<Rightarrow> route_table \<Rightarrow> metrics_op \<Rightarrow> metrics_state \<Rightarrow> metrics_state" where
  "metrics_run lib getenv rt (Configure c) s = snd (initialize lib c s)"
| "metrics_run lib getenv rt AskError s = snd (get_init_error lib getenv s)"
| "metrics_run lib getenv rt AskPage s = snd (metrics_handler lib getenv s)"
| "metrics_run lib getenv rt (ExternalCall t p d failed) s = record_external_call lib getenv t p d failed s"
| "metrics_run lib getenv rt (BusinessEvent a r) s = record_business_event lib getenv a r s"
| "metrics_run lib getenv rt (ServeRequest meth path codes d) s =
     fst (snd (otel_http_middleware rt (\<lambda>sw. (codes, sw)) meth path d (ensure_initialized lib getenv s, ())))"

definition metrics_after :: "metrics_lib \<Rightarrow> (string \<Rightarrow> string) \<Rightarrow> route_table \<Rightarrow> metrics_op list \<Rightarrow> metrics_state \<Rightarrow> metrics_state" where
  "metrics_after lib getenv rt ops s = foldl (\<lambda>s p. metrics_run lib getenv rt p s) s ops"

text \<open>The state is consistent, and \<open>later\<close> comes after \<open>s\<close>, which has been initialized or has failed to be.\<close>

definition metrics_ok :: "metrics_state \<Rightarrow> bool" where
  "metrics_ok s \<longleftrightarrow>
     (mt_initialized s \<longrightarrow> mt_page s \<noteq> None \<and> mt_provider s \<noteq> None) \<and> (mt_initialized s \<or> mt_init_once s \<longrightarrow> mt_otel_once s) \<and>
     (\<not> mt_initialized s \<longrightarrow> mt_events s = [])"

definition settled_as :: "metrics_state \<Rightarrow> metrics_state \<Rightarrow> bool" where
  "settled_as s later \<longleftrightarrow>
     mt_otel_once later \<and> mt_initialized later = mt_initialized s \<and> mt_page later = mt_page s \<and>
     mt_provider later = mt_provider s \<and> take (length (mt_events s)) (mt_events later) = mt_events s"

lemma initialize_ok: "metrics_ok s \<Longrightarrow> metrics_ok (snd (initialize lib c s))"
  by (auto simp: metrics_ok_def initialize_def initialize_internal_def split: option.splits sum.splits)

lemma initialize_settles: "mt_otel_once (snd (initialize lib c s))"
  by (auto simp: initialize_def initialize_internal_def split: option.splits sum.splits)

lemma initialize_again: "mt_otel_once s \<Longrightarrow> initialize lib c s = (None, s)"
  by (simp add: initialize_def)

lemma ensure_initialized_ok:
  assumes "metrics_ok s"
  shows "metrics_ok (ensure_initialized lib getenv s) \<and> mt_otel_once (ensure_initialized lib getenv s)"
proof (cases "mt_init_once s")
  case True
  with assms show ?thesis by (simp add: ensure_initialized_def metrics_ok_def)
next
  case False
  let ?c = "default_metrics_config getenv (get_env_or_default getenv ''SERVICE_NAME'' ''openndx-service'')"
  let ?s = "snd (initialize lib ?c (s\<lparr>mt_init_once := True\<rparr>))"
  have ens: "ensure_initialized lib getenv s = ?s\<lparr>mt_error := fst (initialize lib ?c (s\<lparr>mt_init_once := True\<rparr>))\<rparr>"
    using False by (simp add: ensure_initialized_def split: prod.splits)
  have "metrics_ok ?s"
    using assms by (auto simp: metrics_ok_def initialize_def initialize_internal_def split: option.splits sum.splits)
  then show ?thesis using initialize_settles [of lib ?c "s\<lparr>mt_init_once := True\<rparr>"] by (simp add: ens metrics_ok_def)
qed

lemma ensure_initialized_settled:
  assumes "mt_otel_once s" shows "settled_as s (ensure_initialized lib getenv s)"
  using assms by (simp add: ensure_initialized_def initialize_again settled_as_def)

lemma settled_as_trans: "settled_as a b \<Longrightarrow> settled_as b c \<Longrightarrow> settled_as a c"
  unfolding settled_as_def
  by (metis length_take min.absorb_iff2 nat_le_linear take_all take_take min.commute)

lemma record_settled:
  "mt_otel_once s \<Longrightarrow> settled_as s (record_metrics es s)"
  by (simp add: settled_as_def record_metrics_def)

lemma record_ok: "metrics_ok s \<Longrightarrow> mt_initialized s \<Longrightarrow> metrics_ok (record_metrics es s)"
  by (simp add: metrics_ok_def record_metrics_def)

text \<open>Every operation is an initialization, or one followed by measurements of an initialized package.\<close>

lemma metrics_run_shape:
  "metrics_run lib getenv rt p s =
     (let e = ensure_initialized lib getenv s in
      case p of
        Configure c \<Rightarrow> snd (initialize lib c s)
      | AskError \<Rightarrow> e
      | AskPage \<Rightarrow> e
      | ExternalCall t q d failed \<Rightarrow> otel_record_external_call t q d failed e
      | BusinessEvent a r \<Rightarrow> otel_record_business_event a r e
      | ServeRequest meth path codes d \<Rightarrow>
          (if mt_initialized e then
             let status = last (200 # codes); route = if status = 404 then unknown_route else normalize_route rt path in
             record_metrics [RequestCounted meth route status, RequestTimed meth route d] e
           else e))"
  by (cases p) (simp_all add: get_init_error_def metrics_handler_def record_external_call_def record_business_event_def
      otel_http_middleware_def Let_def)

lemma metrics_run_ok: "metrics_ok s \<Longrightarrow> metrics_ok (metrics_run lib getenv rt p s)"
  using ensure_initialized_ok [of s lib getenv]
  by (cases p) (simp_all add: metrics_run_shape initialize_ok record_ok otel_record_external_call_def
      otel_record_business_event_def Let_def del: metrics_run.simps)

lemma metrics_run_settled:
  assumes "mt_otel_once s" shows "settled_as s (metrics_run lib getenv rt p s)"
proof -
  let ?e = "ensure_initialized lib getenv s"
  have e: "settled_as s ?e" by (rule ensure_initialized_settled [OF assms])
  then have "mt_otel_once ?e" by (simp add: settled_as_def)
  then have "settled_as s (record_metrics es ?e)" for es
    by (rule settled_as_trans [OF e record_settled])
  with e show ?thesis
    using assms by (cases p) (simp_all add: metrics_run_shape initialize_again settled_as_def otel_record_external_call_def
      otel_record_business_event_def Let_def del: metrics_run.simps)
qed

lemma metrics_after_ok: "metrics_ok s \<Longrightarrow> metrics_ok (metrics_after lib getenv rt ops s)"
  by (induction ops arbitrary: s) (simp_all add: metrics_after_def metrics_run_ok del: metrics_run.simps)

lemma metrics_after_settled: "mt_otel_once s \<Longrightarrow> settled_as s (metrics_after lib getenv rt ops s)"
proof (induction ops arbitrary: s)
  case Nil
  then show ?case by (simp add: metrics_after_def settled_as_def)
next
  case (Cons p ops)
  have "settled_as s (metrics_run lib getenv rt p s)" by (rule metrics_run_settled [OF Cons.prems])
  moreover from this have "settled_as (metrics_run lib getenv rt p s) (metrics_after lib getenv rt ops (metrics_run lib getenv rt p s))"
    by (intro Cons.IH) (simp add: settled_as_def)
  ultimately show ?case unfolding metrics_after_def by (simp add: settled_as_trans del: metrics_run.simps)
qed

text \<open>
  C39. The metrics are initialized at most once: whatever the program does to the package, in whatever
  order, nothing is measured before the initialization succeeded, an initialized package has a page
  and a provider, and once it has been initialized, or has failed to be, that outcome, its page and its provider
  stay, and no measurement is lost.
\<close>

theorem metrics_initialized_once:
  assumes "s = metrics_after lib getenv rt first no_metrics" "later = metrics_after lib getenv rt rest s"
  shows "(mt_initialized s \<longrightarrow> mt_page s \<noteq> None \<and> mt_provider s \<noteq> None) \<and> (\<not> mt_initialized s \<longrightarrow> mt_events s = []) \<and>
    (mt_otel_once s \<longrightarrow> mt_initialized later = mt_initialized s \<and> mt_page later = mt_page s \<and>
      mt_provider later = mt_provider s \<and> (\<exists>es. mt_events later = mt_events s @ es))"
proof -
  have "metrics_ok s" unfolding assms(1) by (rule metrics_after_ok) (simp add: metrics_ok_def no_metrics_def)
  moreover have "settled_as s later" if "mt_otel_once s" unfolding assms(2) by (rule metrics_after_settled [OF that])
  moreover have "\<exists>es. mt_events later = mt_events s @ es" if "settled_as s later"
    using that by (metis append_take_drop_id settled_as_def)
  ultimately show ?thesis by (auto simp: metrics_ok_def settled_as_def)
qed

definition sample_metrics_lib :: metrics_lib where
  "sample_metrics_lib = \<lparr>ml_resource = \<lambda>_ _. None, ml_prometheus = None, ml_parse_url = \<lambda>_. Inl '''', ml_otlp = \<lambda>_. None,
     ml_instrument = \<lambda>_. None\<rparr>"

lemma metrics_initialized_once_witness:
  "mt_page (metrics_after sample_metrics_lib (\<lambda>_. '''') no_routes [BusinessEvent ''a'' ''b'', AskPage]
       (metrics_after sample_metrics_lib (\<lambda>_. '''') no_routes [AskError] no_metrics)) = Some PrometheusPage"
proof -
  let ?s = "metrics_after sample_metrics_lib (\<lambda>_. '''') no_routes [AskError] no_metrics"
  have "mt_otel_once ?s \<and> mt_page ?s = Some PrometheusPage" by code_simp
  then show ?thesis using metrics_initialized_once [where s = ?s and later = "metrics_after sample_metrics_lib (\<lambda>_. '''') no_routes [BusinessEvent ''a'' ''b'', AskPage] ?s", OF refl refl]
    by simp
qed

section \<open>Registered routes\<close>

lemma contains_text_iff: "contains_text s p \<longleftrightarrow> (\<exists>t u. s = t @ p @ u)"
proof
  assume "contains_text s p"
  then obtain i where "has_prefix (drop i s) p" unfolding contains_text_def list_ex_iff by blast
  then obtain u where "drop i s = p @ u" by (auto simp: has_prefix_iff)
  then show "\<exists>t u. s = t @ p @ u" by (metis append_take_drop_id)
next
  assume "\<exists>t u. s = t @ p @ u"
  then obtain t u where "s = t @ p @ u" by blast
  then have "length t < length s + 1 \<and> has_prefix (drop (length t) s) p" by (simp add: has_prefix_def)
  then show "contains_text s p" unfolding contains_text_def list_ex_iff by (metis atLeast0LessThan lessThan_iff set_upt)
qed

lemma has_prefix_contains: "has_prefix s p \<Longrightarrow> contains_text s p"
  unfolding contains_text_iff has_prefix_iff by (metis append_Nil)

lemma contains_text_Cons: "contains_text s p \<Longrightarrow> contains_text (c # s) p"
  unfolding contains_text_iff by (metis append_Cons)

text \<open>A route without a placeholder stays as it is, and none of its segments is one.\<close>

lemma replace_id_static: "\<not> contains_text (replace_id s) '':id'' \<Longrightarrow> replace_id s = s"
proof (induction s rule: replace_id.induct)
  case (2 c s)
  show ?case
  proof (cases "has_prefix (c # s) ''{id}''")
    case True
    then have "contains_text (replace_id (c # s)) '':id''" using has_prefix_contains by (simp add: has_prefix_def)
    with 2 show ?thesis by blast
  next
    case False
    with 2 contains_text_Cons show ?thesis by simp blast
  qed
qed simp

lemma replace_id_has: "contains_text (replace_id (u @ ''{id}'' @ v)) '':id''"
proof (induction u)
  case Nil
  show ?case by (rule has_prefix_contains) (simp add: has_prefix_def)
next
  case (Cons c u)
  show ?case
  proof (cases "has_prefix (c # u @ ''{id}'' @ v) ''{id}''")
    case True
    then show ?thesis using has_prefix_contains [of "replace_id ((c # u) @ ''{id}'' @ v)" "'':id''"] by (simp add: has_prefix_def)
  next
    case False
    then have "replace_id ((c # u) @ ''{id}'' @ v) = c # replace_id (u @ ''{id}'' @ v)" by simp
    with Cons contains_text_Cons show ?thesis by metis
  qed
qed

lemma join_on_part: "p \<in> set ws \<Longrightarrow> \<exists>t u. join_on c ws = t @ p @ u"
proof (induction ws rule: join_on.induct)
  case (3 c w v ws)
  show ?case
  proof (cases "p = w")
    case True
    then show ?thesis by (metis append_Nil join_on.simps(3))
  next
    case False
    with 3 obtain t u where "join_on c (v # ws) = t @ p @ u" by auto
    then have "join_on c (w # v # ws) = (w @ c # t) @ p @ u" by simp
    then show ?thesis by blast
  qed
qed (auto intro: exI [of _ "[]"])

lemma route_part: "p \<in> set (route_parts s) \<Longrightarrow> \<exists>t u. s = t @ p @ u"
proof -
  assume "p \<in> set (route_parts s)"
  then have "p \<in> set (split_on (CHR ''/'') s)"
    by (cases "split_on (CHR ''/'') s") (auto simp: route_parts_def split: list.splits)
  then show ?thesis using join_on_part [of p "split_on (CHR ''/'') s" "CHR ''/''"] by simp
qed

text \<open>A path with a leading slash is its segments.\<close>

lemma route_parts_Cons [simp]: "route_parts (CHR ''/'' # s) = split_on (CHR ''/'') s"
  by (simp add: route_parts_def)

lemma full_path: "s = ''/'' @ r \<Longrightarrow> ''/'' @ join_on (CHR ''/'') (route_parts s) = s"
  by simp

lemma route_parts_again:
  assumes "route_parts path \<noteq> []"
  shows "split_on (CHR ''/'') (join_on (CHR ''/'') (route_parts path)) = route_parts path"
proof -
  have "set (route_parts path) \<subseteq> set (split_on (CHR ''/'') path)"
    by (cases "split_on (CHR ''/'') path") (auto simp: route_parts_def split: list.splits)
  then have "\<forall>w \<in> set (route_parts path). CHR ''/'' \<notin> set w" using split_on_parts_free by blast
  then show ?thesis using assms by (simp add: split_on_join_on)
qed

lemma register_routes_set:
  "set (rt_static (register_routes rs rt)) = set (rt_static rt) \<union> {r \<in> set rs. \<not> contains_text (replace_id r) '':id''} \<and>
   set (rt_templates (register_routes rs rt)) = set (rt_templates rt) \<union> replace_id ` {r \<in> set rs. contains_text (replace_id r) '':id''}"
  unfolding register_routes_def by (induction rs arbitrary: rt) (auto simp: register_route_def Let_def)

lemma matches_itself: "matches_template tpl (route_parts tpl)"
  by (auto simp: matches_template_def Let_def list_all_iff in_set_zip)

lemma matches_static:
  assumes "matches_template r parts" "\<not> contains_text (replace_id r) '':id''"
  shows "parts = route_parts r"
proof -
  have r: "replace_id r = r" by (rule replace_id_static [OF assms(2)])
  have no: "t \<noteq> '':id'' \<and> t \<noteq> ''{id}''" if t: "t \<in> set (route_parts r)" for t
  proof -
    obtain u v where "r = u @ t @ v" using route_part [OF t] by blast
    then show ?thesis using assms(2) r replace_id_has [of u v] unfolding contains_text_iff by metis
  qed
  have len: "length parts = length (route_parts r)"
    and ok: "\<And>i. i < length parts \<Longrightarrow> route_parts r ! i = '':id'' \<or> route_parts r ! i = ''{id}'' \<or> parts ! i = route_parts r ! i"
    using assms(1) r by (auto simp: matches_template_def Let_def list_all_length)
  show ?thesis
  proof (rule nth_equalityI [OF len])
    fix i assume i: "i < length parts"
    then have "route_parts r ! i \<in> set (route_parts r)" using len by simp
    from no [OF this] ok [OF i] show "parts ! i = route_parts r ! i" by blast
  qed
qed

text \<open>
  Once routes are registered, a path that fits one of them, literally or in the place of \<^verbatim>\<open>{id}\<close>, is
  counted under a registered route that it fits, with \<^verbatim>\<open>:id\<close> for \<^verbatim>\<open>{id}\<close>, so the identifiers of the path are
  not in the label.
\<close>

theorem registered_route_labelled:
  assumes "r \<in> set rs" "list_all (\<lambda>r. has_prefix r ''/'') rs" "matches_template (replace_id r) (route_parts path)"
    and "path \<noteq> ''''" "path \<noteq> ''/''"
  shows "\<exists>r' \<in> set rs. normalize_route (register_routes rs no_routes) path = replace_id r' \<and>
    matches_template (replace_id r') (route_parts path)"
proof -
  let ?rt = "register_routes rs no_routes" and ?parts = "route_parts path"
  let ?full = "''/'' @ join_on (CHR ''/'') ?parts"
  have static: "set (rt_static ?rt) = {r \<in> set rs. \<not> contains_text (replace_id r) '':id''}"
    and tpls: "set (rt_templates ?rt) = replace_id ` {r \<in> set rs. contains_text (replace_id r) '':id''}"
    using register_routes_set [of rs no_routes] by (simp_all add: no_routes_def)
  have parts: "?parts \<noteq> []"
    using assms(4,5) by (cases path) (auto simp: route_parts_def split: list.splits)
  show ?thesis
  proof (cases "?full \<in> set (rt_static ?rt)")
    case True
    then have "?full \<in> set rs" "\<not> contains_text (replace_id ?full) '':id''" unfolding static by blast+
    moreover from this(2) have "replace_id ?full = ?full" by (rule replace_id_static)
    moreover have "route_parts ?full = ?parts" using route_parts_again [OF parts] by simp
    ultimately show ?thesis using True assms(4,5) parts matches_itself [of ?full]
      by (intro bexI [of _ ?full]) (simp_all add: normalize_route_def is_exact_route_def Let_def del: replace_id.simps)
  next
    case False
    have tpl: "contains_text (replace_id r) '':id''"
    proof (rule ccontr)
      assume n: "\<not> contains_text (replace_id r) '':id''"
      then have "?parts = route_parts r" using matches_static assms(3) replace_id_static by metis
      moreover obtain u where "r = ''/'' @ u" using assms(1,2) by (auto simp: list_all_iff has_prefix_iff)
      ultimately have "?full = r" by simp
      with n static assms(1) False show False by blast
    qed
    then have "find (\<lambda>t. matches_template t ?parts) (rt_templates ?rt) \<noteq> None"
      using tpls assms(1,3) by (auto simp: find_None_iff)
    then obtain t where t: "find (\<lambda>t. matches_template t ?parts) (rt_templates ?rt) = Some t" by blast
    then have "t \<in> set (rt_templates ?rt)" "matches_template t ?parts" by (auto simp: find_Some_iff)
    with tpls obtain r' where "r' \<in> set rs" "t = replace_id r'" by blast
    with t False assms(4,5) parts \<open>matches_template t ?parts\<close> show ?thesis
      by (intro bexI [of _ r']) (simp_all add: normalize_route_def is_exact_route_def Let_def)
  qed
qed

lemma registered_route_labelled_witness:
  "\<exists>r' \<in> {''/a/{id}'', ''/h''}. normalize_route (register_routes [''/a/{id}'', ''/h''] no_routes) ''/a/x7'' = replace_id r'"
proof -
  have "\<exists>r' \<in> set [''/a/{id}'', ''/h'']. normalize_route (register_routes [''/a/{id}'', ''/h''] no_routes) ''/a/x7'' = replace_id r' \<and>
      matches_template (replace_id r') (route_parts ''/a/x7'')"
  proof (rule registered_route_labelled)
    show "''/a/{id}'' \<in> set [''/a/{id}'', ''/h'']" by simp
    show "list_all (\<lambda>r. has_prefix r ''/'') [''/a/{id}'', ''/h'']" by code_simp
    show "matches_template (replace_id ''/a/{id}'') (route_parts ''/a/x7'')" by code_simp
  qed simp_all
  then show ?thesis unfolding list.set by blast
qed

section \<open>The Consent Engine\<close>

text \<open>Segments without a slash are the parts of their path.\<close>

lemma route_parts_of_segments:
  assumes "segs \<noteq> []" "\<forall>s \<in> set segs. CHR ''/'' \<notin> set s"
  shows "route_parts (''/'' @ join_on (CHR ''/'') segs) = segs"
  using assms by (simp add: split_on_join_on)

lemma unregistered_label:
  assumes "segs \<noteq> []" "\<forall>s \<in> set segs. CHR ''/'' \<notin> set s" "segs \<noteq> ['''']"
  shows "normalize_route no_routes (''/'' @ join_on (CHR ''/'') segs) = fallback_label segs"
proof -
  have "join_on (CHR ''/'') segs \<noteq> ''''" using assms(1,3) by (cases "(CHR ''/'', segs)" rule: join_on.cases) auto
  then show ?thesis using assms by (simp add: normalize_route_def no_routes_def is_exact_route_def Let_def split_on_join_on)
qed

lemma four_segments: "length segs = 4 \<Longrightarrow> segs = take 3 segs @ [segs ! 3]"
  by (auto simp: numeral_eq_Suc length_Suc_conv)

text \<open>
  The Consent Engine registers no routes, and a request that it serves is counted under one of three
  labels, provided no segment of its path holds an escaped slash: a consent's identifier never becomes
  a label, and the internal endpoint is told from the portal's, but not by its name.
\<close>

theorem consent_engine_labels:
  assumes "ce_route meth target = Some e" "path_segments (target_path target) = Some segs"
    and "\<forall>s \<in> set segs. CHR ''/'' \<notin> set s"
  shows "normalize_route no_routes (''/'' @ join_on (CHR ''/'') segs) \<in>
      {unknown_route, ''/:id/api/v1/consents'', ''/api/v1/consents/:id''} \<and>
    (normalize_route no_routes (''/'' @ join_on (CHR ''/'') segs) = ''/:id/api/v1/consents'' \<longleftrightarrow>
      e = InternalCreate \<or> (\<exists>own app. e = InternalGet own app))"
proof -
  have m: "match_ce meth segs (target_query target) = Some e" using assms(1,2) by (simp add: ce_route_def)
  have label: "normalize_route no_routes (''/'' @ join_on (CHR ''/'') segs) = fallback_label segs"
    using m assms(3) by (intro unregistered_label) (auto simp: match_ce_def)
  consider (internal) "segs = [''internal'', ''api'', ''v1'', ''consents'']" | (portal) "segs = [''api'', ''v1'', ''consents'']"
    | (one) i where "segs = [''api'', ''v1'', ''consents'', i]" | (health) "segs = [''health'']" | (metrics) "segs = [''metrics'']"
    using m by (auto simp: match_ce_def split: if_splits dest!: four_segments)
  then have "fallback_label segs \<in> {unknown_route, ''/:id/api/v1/consents'', ''/api/v1/consents/:id''} \<and>
      (fallback_label segs = ''/:id/api/v1/consents'' \<longleftrightarrow> e = InternalCreate \<or> (\<exists>own app. e = InternalGet own app))"
  proof cases
    case internal
    have "fallback_label segs = ''/:id/api/v1/consents''" unfolding internal by code_simp
    moreover have "''/:id/api/v1/consents'' \<noteq> unknown_route" by code_simp
    ultimately show ?thesis using m unfolding internal by (auto simp: match_ce_def split: if_splits)
  next
    case portal
    have "fallback_label segs = unknown_route" unfolding portal by code_simp
    moreover have "''/:id/api/v1/consents'' \<noteq> unknown_route" by code_simp
    ultimately show ?thesis using m unfolding portal by (auto simp: match_ce_def split: if_splits)
  next
    case one
    have seg: "label_segment (0, ''api'') = ''api'' \<and> label_segment (1, ''v1'') = ''v1'' \<and> label_segment (2, ''consents'') = ''consents'' \<and>
        \<not> replaced_segment (0, ''api'') \<and> \<not> replaced_segment (1, ''v1'') \<and> \<not> replaced_segment (2, ''consents'')" by code_simp
    have "fallback_label segs \<in> {unknown_route, ''/api/v1/consents/:id''}"
      using seg by (simp add: one fallback_label_def numeral_2_eq_2) (simp add: replaced_segment_def label_segment_def)
    moreover have "''/:id/api/v1/consents'' \<notin> {unknown_route, ''/api/v1/consents/:id''}" by code_simp
    ultimately show ?thesis using m unfolding one by (auto simp: match_ce_def split: if_splits)
  next
    case health
    have "fallback_label segs = unknown_route" unfolding health by code_simp
    moreover have "''/:id/api/v1/consents'' \<noteq> unknown_route" by code_simp
    ultimately show ?thesis using m unfolding health by (auto simp: match_ce_def split: if_splits)
  next
    case metrics
    have "fallback_label segs = unknown_route" unfolding metrics by code_simp
    moreover have "''/:id/api/v1/consents'' \<noteq> unknown_route" by code_simp
    ultimately show ?thesis using m unfolding metrics by (auto simp: match_ce_def split: if_splits)
  qed
  then show ?thesis unfolding label .
qed

lemma consent_engine_labels_witness:
  "normalize_route no_routes ''/api/v1/consents/5'' \<in> {unknown_route, ''/:id/api/v1/consents'', ''/api/v1/consents/:id''}"
proof -
  have "ce_route ''GET'' ''/api/v1/consents/5'' = Some (PortalGet ''5'')"
    "path_segments (target_path ''/api/v1/consents/5'') = Some [''api'', ''v1'', ''consents'', ''5'']" by code_simp+
  then show ?thesis using consent_engine_labels [of "''GET''" "''/api/v1/consents/5''" "PortalGet ''5''" "[''api'', ''v1'', ''consents'', ''5'']"]
    by simp blast
qed

text \<open>
  A request that is redirected to its clean path, which needs no token, keeps its other segments in
  the label, so there are as many labels as clients care to ask for.
\<close>

lemma redirected_labels_unbounded:
  "normalize_route no_routes (''/1234//'' @ replicate n CHR ''-'') = ''/:id//'' @ replicate n CHR ''-''"
  "ce_route ''GET'' (''/1234//'' @ replicate n CHR ''-'') = None"
  "unmatched_status ce_route (''/1234//'' @ replicate n CHR ''-'') = 301"
proof -
  let ?w = "replicate n CHR ''-''"
  have free: "CHR ''/'' \<notin> set ?w" by simp
  have split: "split_on CHR ''/'' (''/1234//'' @ ?w) = ['''', ''1234'', '''', ?w]" by (simp add: split_on_free [OF free])
  then have parts: "route_parts (''/1234//'' @ ?w) = [''1234'', '''', ?w]" by (simp add: route_parts_def)
  have target: "target_path (''/1234//'' @ ?w) = ''/1234//'' @ ?w" by (simp add: target_path_def takeWhile_eq_all_conv)
  have w: "\<not> id_segment ?w"
    by (auto simp: id_segment_def looks_like_id_def is_digit_def is_alnum_def is_common_path_word_def list_ex_iff list_all_iff Let_def)
  have "id_segment ''1234''" "\<not> id_segment ''''" by code_simp+
  then have "fallback_label [''1234'', '''', ?w] = ''/:id//'' @ ?w"
    using w by (simp add: fallback_label_def replaced_segment_def label_segment_def)
  then show "normalize_route no_routes (''/1234//'' @ ?w) = ''/:id//'' @ ?w"
    unfolding normalize_route_def Let_def parts no_routes_def is_exact_route_def by simp
  show "ce_route ''GET'' (''/1234//'' @ ?w) = None"
    unfolding ce_route_def target path_segments_def split by simp
  show "unmatched_status ce_route (''/1234//'' @ ?w) = 301"
    unfolding unmatched_status_def target unclean_def split by simp
qed

text \<open>After a failed explicit initialization, the package reports that it is initialized.\<close>

lemma failed_initialization_reported:
  "fst (initialize lib c no_metrics) \<noteq> None \<Longrightarrow> fst (is_initialized lib getenv (snd (initialize lib c no_metrics))) \<and>
     \<not> mt_initialized (snd (is_initialized lib getenv (snd (initialize lib c no_metrics))))"
  by (auto simp: is_initialized_def ensure_initialized_def initialize_def initialize_internal_def no_metrics_def Let_def
      split: option.splits sum.splits if_splits)

end
