(* ===== verification/Shutdown.thy ===== *)
theory Shutdown
  imports Services
begin

text \<open>
  The listening server of a service (\<^verbatim>\<open>CreateServer\<close> and \<^verbatim>\<open>StartServerWithGracefulShutdown\<close> in
  \<^verbatim>\<open>internal/utils\<close>) as a step relation of the goroutine that listens, the requests it accepts, the
  signal, and the function that waits and shuts the server down; with its contract.
\<close>

section \<open>The server\<close>

record http_server =
  hs_addr :: string
  hs_read :: duration
  hs_write :: duration
  hs_idle :: duration

definition create_server :: "string \<Rightarrow> duration \<Rightarrow> duration \<Rightarrow> duration \<Rightarrow> http_server" where
  "create_server port rd wr idle = \<lparr>hs_addr = '':'' @ port, hs_read = rd, hs_write = wr, hs_idle = idle\<rparr>"

text \<open>\<^verbatim>\<open>run\<close> of a service: its timeouts are the configured one, and idle connections stay a minute.\<close>

definition service_server :: "server_config \<Rightarrow> http_server" where
  "service_server c = create_server (decimal_int (sv_port c)) (sv_timeout c) (sv_timeout c) (60 * second)"

section \<open>Steps\<close>

text \<open>The function waits in its \<^verbatim>\<open>select\<close>, or in \<^verbatim>\<open>Shutdown\<close>, or has returned.\<close>

datatype server_phase = Serving | Stopping | Returned "string + unit"

text \<open>
  \<open>sr_failed\<close> is the channel with what \<^verbatim>\<open>ListenAndServe\<close> returned, \<open>sr_signal\<close> the context that a signal ends, and
  \<open>sr_deadline\<close> the end of the thirty seconds.
\<close>

record server_run =
  sr_phase :: server_phase
  sr_listening :: bool
  sr_failed :: "string option"
  sr_signal :: bool
  sr_accepted :: "nat list"
  sr_finished :: "nat set"
  sr_deadline :: bool

definition server_started :: server_run where
  "server_started = \<lparr>sr_phase = Serving, sr_listening = True, sr_failed = None, sr_signal = False, sr_accepted = [],
     sr_finished = {}, sr_deadline = False\<rparr>"

text \<open>\<open>close_err\<close> is the error of closing the listeners, which \<^verbatim>\<open>Shutdown\<close> reports when the requests are finished.\<close>

inductive server_step :: "string option \<Rightarrow> server_run \<Rightarrow> server_run \<Rightarrow> bool" for close_err where
  accept: "sr_listening r \<Longrightarrow> i \<notin> set (sr_accepted r) \<Longrightarrow> server_step close_err r (r\<lparr>sr_accepted := sr_accepted r @ [i]\<rparr>)"
| finish: "i \<in> set (sr_accepted r) \<Longrightarrow> server_step close_err r (r\<lparr>sr_finished := insert i (sr_finished r)\<rparr>)"
| listen_fails: "sr_listening r \<Longrightarrow> server_step close_err r (r\<lparr>sr_listening := False, sr_failed := Some e\<rparr>)"
| signalled: "server_step close_err r (r\<lparr>sr_signal := True\<rparr>)"
| server_error: "sr_phase r = Serving \<Longrightarrow> sr_failed r = Some e \<Longrightarrow> server_step close_err r (r\<lparr>sr_phase := Returned (Inl e)\<rparr>)"
| shut_down: "sr_phase r = Serving \<Longrightarrow> sr_signal r \<Longrightarrow>
    server_step close_err r (r\<lparr>sr_phase := Stopping, sr_listening := False,
      sr_failed := (if sr_failed r = None then Some ''http: Server closed'' else sr_failed r)\<rparr>)"
| time_passes: "sr_phase r = Stopping \<Longrightarrow> server_step close_err r (r\<lparr>sr_deadline := True\<rparr>)"
| drained: "sr_phase r = Stopping \<Longrightarrow> set (sr_accepted r) \<subseteq> sr_finished r \<Longrightarrow>
    server_step close_err r (r\<lparr>sr_phase := Returned (case close_err of None \<Rightarrow> Inr () | Some e \<Rightarrow> Inl e)\<rparr>)"
| given_up: "sr_phase r = Stopping \<Longrightarrow> sr_deadline r \<Longrightarrow>
    server_step close_err r (r\<lparr>sr_phase := Returned (Inl ''context deadline exceeded'')\<rparr>)"

inductive server_reachable :: "string option \<Rightarrow> server_run \<Rightarrow> bool" for close_err where
  server_init: "server_reachable close_err server_started"
| server_next: "server_reachable close_err r \<Longrightarrow> server_step close_err r r' \<Longrightarrow> server_reachable close_err r'"

text \<open>How \<^verbatim>\<open>main\<close> ends with what \<^verbatim>\<open>run\<close> returned, after the deferred close of the pool.\<close>

definition run_exit :: "('x \<Rightarrow> 'x) \<Rightarrow> string + unit \<Rightarrow> 'x \<Rightarrow> nat \<times> 'x" where
  "run_exit close r x = (if isl r then 1 else 0, close x)"

section \<open>The contract\<close>

definition server_inv :: "string option \<Rightarrow> server_run \<Rightarrow> bool" where
  "server_inv close_err r \<longleftrightarrow>
     (sr_failed r \<noteq> None \<longleftrightarrow> \<not> sr_listening r) \<and>
     (case sr_phase r of
        Serving \<Rightarrow> \<not> sr_deadline r
      | Stopping \<Rightarrow> sr_signal r \<and> \<not> sr_listening r
      | Returned (Inr _) \<Rightarrow> sr_signal r \<and> \<not> sr_listening r \<and> set (sr_accepted r) \<subseteq> sr_finished r \<and> close_err = None
      | Returned (Inl e) \<Rightarrow> \<not> sr_listening r \<and>
          (sr_failed r = Some e \<or> sr_signal r \<and> (close_err = Some e \<and> set (sr_accepted r) \<subseteq> sr_finished r \<or> sr_deadline r)))"

lemma server_inv_step: "server_step close_err r r' \<Longrightarrow> server_inv close_err r \<Longrightarrow> server_inv close_err r'"
  by (induction rule: server_step.induct) (auto simp: server_inv_def split: server_phase.splits sum.splits option.splits)

lemma server_inv_reachable: "server_reachable close_err r \<Longrightarrow> server_inv close_err r"
proof (induction rule: server_reachable.induct)
  case server_init
  show ?case by (simp add: server_inv_def server_started_def)
qed (rule server_inv_step)

text \<open>Nothing is accepted any more once the function has returned.\<close>

lemma returned_step:
  "server_step close_err r r' \<Longrightarrow> sr_phase r = Returned x \<Longrightarrow> \<not> sr_listening r \<Longrightarrow>
     sr_phase r' = Returned x \<and> \<not> sr_listening r' \<and> sr_accepted r' = sr_accepted r"
  by (induction rule: server_step.induct) auto

lemma returned_steps:
  "(server_step close_err)\<^sup>*\<^sup>* r r' \<Longrightarrow> sr_phase r = Returned x \<Longrightarrow> \<not> sr_listening r \<Longrightarrow>
     sr_phase r' = Returned x \<and> \<not> sr_listening r' \<and> sr_accepted r' = sr_accepted r"
  by (induction rule: rtranclp_induct) (auto dest: returned_step)

text \<open>Every running request can finish, one after the other.\<close>

lemma finish_all:
  assumes "set is \<subseteq> set (sr_accepted r)"
  shows "(server_step close_err)\<^sup>*\<^sup>* r (r\<lparr>sr_finished := set is \<union> sr_finished r\<rparr>)"
  using assms
proof (induction "is")
  case (Cons i "is")
  then have "(server_step close_err)\<^sup>*\<^sup>* r (r\<lparr>sr_finished := set is \<union> sr_finished r\<rparr>)" by simp
  moreover have "server_step close_err (r\<lparr>sr_finished := set is \<union> sr_finished r\<rparr>)
      (r\<lparr>sr_finished := set is \<union> sr_finished r\<rparr>\<lparr>sr_finished := insert i (sr_finished (r\<lparr>sr_finished := set is \<union> sr_finished r\<rparr>))\<rparr>)"
    by (rule finish) (use Cons.prems in simp)
  ultimately show ?case by (simp add: rtranclp.rtrancl_into_rtrancl)
qed simp

text \<open>A server that is asked to stop can stop gracefully.\<close>

lemma can_stop:
  assumes "sr_phase r = Stopping"
  shows "\<exists>r'. (server_step close_err)\<^sup>*\<^sup>* r r' \<and>
    sr_phase r' = Returned (case close_err of None \<Rightarrow> Inr () | Some e \<Rightarrow> Inl e)"
proof -
  let ?r = "r\<lparr>sr_finished := set (sr_accepted r) \<union> sr_finished r\<rparr>"
  have "server_step close_err ?r (?r\<lparr>sr_phase := Returned (case close_err of None \<Rightarrow> Inr () | Some e \<Rightarrow> Inl e)\<rparr>)"
    by (rule drained) (use assms in auto)
  with finish_all [of "sr_accepted r" r close_err]
  have "(server_step close_err)\<^sup>*\<^sup>* r (?r\<lparr>sr_phase := Returned (case close_err of None \<Rightarrow> Inr () | Some e \<Rightarrow> Inl e)\<rparr>)"
    by (simp add: rtranclp.rtrancl_into_rtrancl)
  then show ?thesis by (intro exI conjI) auto
qed

text \<open>
  C38. A graceful stop. When the wait for the server returns without an error, a signal had come, every
  request that was ever accepted is finished, and none is accepted later; when it returns an error,
  the server had failed to listen, or a signal had come and closing it failed or the thirty seconds
  were over. After a signal the server can always come to a stop, and to one without an error if nothing fails.
\<close>

theorem graceful_stop:
  assumes "server_reachable close_err r"
  shows "(sr_phase r = Returned (Inr ()) \<longrightarrow> sr_signal r \<and> set (sr_accepted r) \<subseteq> sr_finished r) \<and>
    (\<forall>e. sr_phase r = Returned (Inl e) \<longrightarrow> sr_failed r = Some e \<or> sr_signal r \<and> (close_err = Some e \<or> sr_deadline r)) \<and>
    (\<forall>x r'. sr_phase r = Returned x \<and> (server_step close_err)\<^sup>*\<^sup>* r r' \<longrightarrow>
      sr_phase r' = Returned x \<and> sr_accepted r' = sr_accepted r) \<and>
    (sr_signal r \<longrightarrow> (\<exists>r' x. (server_step close_err)\<^sup>*\<^sup>* r r' \<and> sr_phase r' = Returned x \<and>
      (sr_phase r \<in> {Serving, Stopping} \<and> close_err = None \<longrightarrow> x = Inr ())))"
proof -
  have inv: "server_inv close_err r" by (rule server_inv_reachable [OF assms])
  have "\<not> sr_listening r" if "sr_phase r = Returned x" for x
    using inv that by (auto simp: server_inv_def split: sum.splits)
  then have "sr_phase r' = Returned x \<and> sr_accepted r' = sr_accepted r"
    if "sr_phase r = Returned x" "(server_step close_err)\<^sup>*\<^sup>* r r'" for x r'
    using returned_steps [OF that(2,1)] that(1) by blast
  moreover have "\<exists>r' x. (server_step close_err)\<^sup>*\<^sup>* r r' \<and> sr_phase r' = Returned x \<and>
      (sr_phase r \<in> {Serving, Stopping} \<and> close_err = None \<longrightarrow> x = Inr ())" if sig: "sr_signal r"
  proof (cases "sr_phase r")
    case Serving
    then obtain r1 where "server_step close_err r r1" "sr_phase r1 = Stopping"
      using shut_down [of r close_err] sig by fastforce
    from can_stop [OF this(2)] obtain r' where "(server_step close_err)\<^sup>*\<^sup>* r1 r'"
      "sr_phase r' = Returned (case close_err of None \<Rightarrow> Inr () | Some e \<Rightarrow> Inl e)" by blast
    with \<open>server_step close_err r r1\<close> have "(server_step close_err)\<^sup>*\<^sup>* r r'" by (simp add: converse_rtranclp_into_rtranclp)
    with \<open>sr_phase r' = _\<close> show ?thesis by auto
  next
    case Stopping
    then obtain r' where "(server_step close_err)\<^sup>*\<^sup>* r r'"
      "sr_phase r' = Returned (case close_err of None \<Rightarrow> Inr () | Some e \<Rightarrow> Inl e)" using can_stop by blast
    then show ?thesis by auto
  qed auto
  moreover have "sr_phase r = Returned (Inr ()) \<longrightarrow> sr_signal r \<and> set (sr_accepted r) \<subseteq> sr_finished r"
    using inv by (auto simp: server_inv_def)
  moreover have "sr_phase r = Returned (Inl e) \<longrightarrow> sr_failed r = Some e \<or> sr_signal r \<and> (close_err = Some e \<or> sr_deadline r)" for e
    using inv by (auto simp: server_inv_def)
  ultimately show ?thesis by blast
qed

definition sample_stop :: server_run where
  "sample_stop = \<lparr>sr_phase = Returned (Inr ()), sr_listening = False, sr_failed = Some ''http: Server closed'', sr_signal = True,
     sr_accepted = [7], sr_finished = {7}, sr_deadline = False\<rparr>"

lemma sample_stop_reachable: "server_reachable None sample_stop"
proof -
  let ?r1 = "server_started\<lparr>sr_accepted := [7]\<rparr>"
  let ?r2 = "?r1\<lparr>sr_signal := True\<rparr>"
  let ?r3 = "?r2\<lparr>sr_phase := Stopping, sr_listening := False, sr_failed := Some ''http: Server closed''\<rparr>"
  let ?r4 = "?r3\<lparr>sr_finished := {7}\<rparr>"
  have "server_step None server_started ?r1" using accept [of server_started 7 None] by (simp add: server_started_def)
  then have "server_reachable None ?r1" by (rule server_next [OF server_init])
  then have "server_reachable None ?r2" by (rule server_next [OF _ signalled])
  moreover have "server_step None ?r2 ?r3" using shut_down [of ?r2 None] by (simp add: server_started_def)
  ultimately have "server_reachable None ?r3" by (rule server_next)
  moreover have "server_step None ?r3 ?r4" using finish [of 7 ?r3 None] by (simp add: server_started_def)
  ultimately have "server_reachable None ?r4" by (rule server_next)
  moreover have "server_step None ?r4 sample_stop" using drained [of ?r4 None] by (simp add: server_started_def sample_stop_def)
  ultimately show ?thesis by (rule server_next)
qed

lemma graceful_stop_witness:
  "server_reachable None sample_stop \<and> sr_accepted sample_stop = [7] \<and> sr_signal sample_stop \<and>
     set (sr_accepted sample_stop) \<subseteq> sr_finished sample_stop"
  using graceful_stop [OF sample_stop_reachable] sample_stop_reachable by (simp add: sample_stop_def)

end
